(* ===== verification/Prelude.thy ===== *)
theory Prelude
  imports Main "HOL-Library.Word" "HOL-Library.AList" "HOL-Library.Code_Target_Nat"
begin

text \<open>
  Shared vocabulary of the development: machine integers, big-endian byte strings, Rust's
  \<^verbatim>\<open>HashMap\<close> and \<^verbatim>\<open>HashSet\<close>, and the \<^verbatim>\<open>Result\<close> type. Nothing here is specific to NFS; the
  component theories build on these definitions and on the lemma collections declared below.

  A \<^verbatim>\<open>HashMap<K, V>\<close> is an association list with distinct keys. The order of the list is the
  iteration order of the map, which Rust leaves unspecified: every statement of the development
  is about an arbitrary list, so it holds for every iteration order. A \<^verbatim>\<open>HashSet<T>\<close> is a list
  of distinct elements, with the same reading. \<^verbatim>\<open>Result<T, E>\<close> is the sum type \<open>'e + 'a\<close> with
  \<open>Inl\<close> for \<^verbatim>\<open>Err\<close> and \<open>Inr\<close> for \<^verbatim>\<open>Ok\<close>.
\<close>

unbundle bit_operations_syntax

named_theorems hm_simps \<open>rewrite rules for hash map operations\<close>
named_theorems be_simps \<open>rewrite rules for big-endian byte strings\<close>

section \<open>Machine integers\<close>

type_synonym u8 = "8 word"
type_synonym u32 = "32 word"
type_synonym u64 = "64 word"
type_synonym bytes = "8 word list"

text \<open>Rust's \<^verbatim>\<open>checked_add\<close> on an unsigned integer: \<open>None\<close> on overflow.\<close>

definition checked_add :: "'a::len word \<Rightarrow> 'a word \<Rightarrow> 'a word option" where
  "checked_add a b = (if unat a + unat b < 2 ^ LENGTH('a) then Some (a + b) else None)"

lemma checked_add_None_iff:
  "checked_add (a::'a::len word) b = None \<longleftrightarrow> 2 ^ LENGTH('a) \<le> unat a + unat b"
  by (auto simp: checked_add_def)

lemma checked_add_SomeD:
  "checked_add (a::'a::len word) b = Some c \<Longrightarrow> unat c = unat a + unat b"
  by (auto simp: checked_add_def unat_word_ariths split: if_splits)

text \<open>Rust's \<^verbatim>\<open>saturating_sub\<close> on an unsigned integer.\<close>

definition saturating_sub :: "'a::len word \<Rightarrow> 'a word \<Rightarrow> 'a word" where
  "saturating_sub a b = (if a < b then 0 else a - b)"

lemma unat_u8_less [simp]: "unat (b::u8) < 256"
  using unsigned_less [of b, where 'a = nat] by simp

lemma unat_u32_less [simp]: "unat (w::u32) < 4294967296"
  using unsigned_less [of w, where 'a = nat] by simp

lemma unat_u64_less [simp]: "unat (w::u64) < 18446744073709551616"
  using unsigned_less [of w, where 'a = nat] by simp

lemma unat_of_nat_u64: "n < 2 ^ 64 \<Longrightarrow> unat (word_of_nat n :: u64) = n"
  by (simp add: unat_of_nat)

section \<open>Big-endian byte strings\<close>

text \<open>
  \<open>to_be n x\<close> is the big-endian rendering of \<open>x\<close> in \<open>n\<close> bytes (\<^verbatim>\<open>to_be_bytes\<close>) and \<open>from_be\<close>
  reads a byte string back (\<^verbatim>\<open>from_be_bytes\<close>).
\<close>

primrec to_be :: "nat \<Rightarrow> nat \<Rightarrow> bytes" where
  "to_be 0 x = []"
| "to_be (Suc n) x = to_be n (x div 256) @ [word_of_nat (x mod 256)]"

definition from_be :: "bytes \<Rightarrow> nat" where
  "from_be bs = foldl (\<lambda>acc b. acc * 256 + unat b) 0 bs"

lemma to_be_numeral:
  "to_be (numeral k) x = to_be (pred_numeral k) (x div 256) @ [word_of_nat (x mod 256)]"
  unfolding numeral_eq_Suc [of k] by (rule to_be.simps)

lemma length_to_be [simp, be_simps]: "length (to_be n x) = n"
  by (induction n arbitrary: x) auto

lemma from_be_Nil [simp]: "from_be [] = 0"
  by (simp add: from_be_def)

lemma from_be_snoc [simp]: "from_be (bs @ [b]) = from_be bs * 256 + unat b"
  by (simp add: from_be_def)

lemma unat_byte_of_nat: "unat (word_of_nat (x mod 256) :: u8) = x mod 256"
  by (simp add: unat_of_nat)

lemma from_be_to_be [be_simps]: "from_be (to_be n x) = x mod 256 ^ n"
proof (induction n arbitrary: x)
  case 0
  then show ?case by simp
next
  case (Suc n)
  have "x mod (256 * 256 ^ n) = 256 * (x div 256 mod 256 ^ n) + x mod 256"
    by (rule mod_mult2_eq)
  then show ?case by (simp add: Suc.IH unat_byte_of_nat mult.commute)
qed

lemma from_be_less: "from_be bs < 256 ^ length bs"
proof (induction bs rule: rev_induct)
  case Nil
  then show ?case by simp
next
  case (snoc b bs)
  have "unat b < 256"
    by simp
  then have "from_be bs * 256 + unat b < (from_be bs + 1) * 256"
    by simp
  also have "\<dots> \<le> 256 ^ length bs * 256"
    using snoc.IH by (intro mult_right_mono) auto
  finally show ?case by (simp add: mult.commute)
qed

lemma to_be_from_be [be_simps]: "to_be (length bs) (from_be bs) = bs"
proof (induction bs rule: rev_induct)
  case Nil
  then show ?case by simp
next
  case (snoc b bs)
  have "unat b < 256"
    by simp
  then have "(from_be bs * 256 + unat b) div 256 = from_be bs"
    and "(from_be bs * 256 + unat b) mod 256 = unat b"
    by simp_all
  with snoc.IH show ?case by simp
qed

lemma to_be_inj:
  assumes "to_be n x = to_be n y" and "x < 256 ^ n" and "y < 256 ^ n"
  shows "x = y"
  using assms by (metis from_be_to_be mod_less)

text \<open>\<^verbatim>\<open>u32::to_be_bytes\<close>, \<^verbatim>\<open>u64::to_be_bytes\<close> and their inverses.\<close>

definition be_u32 :: "u32 \<Rightarrow> bytes" where
  "be_u32 w = to_be 4 (unat w)"

definition be_u64 :: "u64 \<Rightarrow> bytes" where
  "be_u64 w = to_be 8 (unat w)"

definition u32_of_be :: "bytes \<Rightarrow> u32" where
  "u32_of_be bs = word_of_nat (from_be bs)"

definition u64_of_be :: "bytes \<Rightarrow> u64" where
  "u64_of_be bs = word_of_nat (from_be bs)"

lemma length_be_u32 [simp]: "length (be_u32 w) = 4"
  unfolding be_u32_def by (rule length_to_be)

lemma length_be_u64 [simp]: "length (be_u64 w) = 8"
  unfolding be_u64_def by (rule length_to_be)

lemma u32_of_be_u32 [simp]: "u32_of_be (be_u32 w) = w"
proof -
  have "from_be (to_be 4 (unat w)) = unat w mod 256 ^ 4"
    by (rule from_be_to_be)
  also have "\<dots> = unat w"
    by (simp add: less_imp_le)
  finally show ?thesis
    unfolding u32_of_be_def be_u32_def by (simp only: of_nat_unat ucast_id)
qed

lemma u64_of_be_u64 [simp]: "u64_of_be (be_u64 w) = w"
proof -
  have "from_be (to_be 8 (unat w)) = unat w mod 256 ^ 8"
    by (rule from_be_to_be)
  also have "\<dots> = unat w"
    by (simp add: less_imp_le)
  finally show ?thesis
    unfolding u64_of_be_def be_u64_def by (simp only: of_nat_unat ucast_id)
qed

lemma be_u32_of_be:
  assumes "length bs = 4"
  shows "be_u32 (u32_of_be bs) = bs"
proof -
  have "from_be bs < 2 ^ 32"
    using from_be_less [of bs] assms by simp
  then have "unat (word_of_nat (from_be bs) :: u32) = from_be bs"
    by (simp add: unat_of_nat)
  moreover have "to_be 4 (from_be bs) = bs"
    using to_be_from_be [of bs] unfolding assms .
  ultimately show ?thesis
    unfolding be_u32_def u32_of_be_def by (simp only:)
qed

lemma be_u64_of_be:
  assumes "length bs = 8"
  shows "be_u64 (u64_of_be bs) = bs"
proof -
  have "from_be bs < 2 ^ 64"
    using from_be_less [of bs] assms by simp
  then have "unat (word_of_nat (from_be bs) :: u64) = from_be bs"
    by (simp add: unat_of_nat)
  moreover have "to_be 8 (from_be bs) = bs"
    using to_be_from_be [of bs] unfolding assms .
  ultimately show ?thesis
    unfolding be_u64_def u64_of_be_def by (simp only:)
qed

lemma be_u32_eq_iff [simp]: "be_u32 a = be_u32 b \<longleftrightarrow> a = b"
  by (metis u32_of_be_u32)

lemma be_u64_eq_iff [simp]: "be_u64 a = be_u64 b \<longleftrightarrow> a = b"
  by (metis u64_of_be_u64)

section \<open>Hash maps\<close>

type_synonym ('k, 'v) hmap = "('k \<times> 'v) list"

definition hm_get :: "('k, 'v) hmap \<Rightarrow> 'k \<Rightarrow> 'v option" where
  "hm_get m k = map_of m k"

definition hm_insert :: "'k \<Rightarrow> 'v \<Rightarrow> ('k, 'v) hmap \<Rightarrow> ('k, 'v) hmap" where
  "hm_insert k v m = AList.update k v m"

definition hm_remove :: "'k \<Rightarrow> ('k, 'v) hmap \<Rightarrow> ('k, 'v) hmap" where
  "hm_remove k m = filter (\<lambda>(k', v). k' \<noteq> k) m"

definition hm_retain :: "('k \<Rightarrow> 'v \<Rightarrow> bool) \<Rightarrow> ('k, 'v) hmap \<Rightarrow> ('k, 'v) hmap" where
  "hm_retain P m = filter (\<lambda>(k, v). P k v) m"

definition hm_map_values :: "('v \<Rightarrow> 'v) \<Rightarrow> ('k, 'v) hmap \<Rightarrow> ('k, 'v) hmap" where
  "hm_map_values f m = map (\<lambda>(k, v). (k, f v)) m"

text \<open>\<^verbatim>\<open>iter().any(..)\<close>, \<^verbatim>\<open>iter().all(..)\<close> and \<^verbatim>\<open>iter().find(..)\<close>.\<close>

definition hm_any :: "('k \<Rightarrow> 'v \<Rightarrow> bool) \<Rightarrow> ('k, 'v) hmap \<Rightarrow> bool" where
  "hm_any P m = list_ex (\<lambda>(k, v). P k v) m"

definition hm_all :: "('k \<Rightarrow> 'v \<Rightarrow> bool) \<Rightarrow> ('k, 'v) hmap \<Rightarrow> bool" where
  "hm_all P m = list_all (\<lambda>(k, v). P k v) m"

definition hm_find :: "('k \<Rightarrow> 'v \<Rightarrow> bool) \<Rightarrow> ('k, 'v) hmap \<Rightarrow> ('k \<times> 'v) option" where
  "hm_find P m = List.find (\<lambda>(k, v). P k v) m"

text \<open>A loop over the map that returns at the first entry with a result.\<close>

primrec hm_find_map :: "('k \<Rightarrow> 'v \<Rightarrow> 'r option) \<Rightarrow> ('k, 'v) hmap \<Rightarrow> 'r option" where
  "hm_find_map f [] = None"
| "hm_find_map f (e # m) = (case f (fst e) (snd e) of Some r \<Rightarrow> Some r | None \<Rightarrow> hm_find_map f m)"

definition hm_wf :: "('k, 'v) hmap \<Rightarrow> bool" where
  "hm_wf m = distinct (map fst m)"

lemmas hm_exec_defs = hm_get_def hm_insert_def hm_remove_def hm_retain_def hm_map_values_def
  hm_any_def hm_all_def hm_find_def hm_wf_def

text \<open>
  The contract the state code relies on: what a lookup returns after each update, and that every
  update keeps the representation invariant. The laws a client needs beyond the contract are
  proved once in the locale.
\<close>

locale hash_map =
  fixes get :: "'m \<Rightarrow> 'k \<Rightarrow> 'v option"
    and ins :: "'k \<Rightarrow> 'v \<Rightarrow> 'm \<Rightarrow> 'm"
    and rem :: "'k \<Rightarrow> 'm \<Rightarrow> 'm"
    and ret :: "('k \<Rightarrow> 'v \<Rightarrow> bool) \<Rightarrow> 'm \<Rightarrow> 'm"
    and invar :: "'m \<Rightarrow> bool"
  assumes get_ins: "get (ins k v m) k' = (if k' = k then Some v else get m k')"
    and get_rem: "get (rem k m) k' = (if k' = k then None else get m k')"
    and get_ret: "invar m \<Longrightarrow> get (ret P m) k =
      (case get m k of None \<Rightarrow> None | Some v \<Rightarrow> if P k v then Some v else None)"
    and invar_ins: "invar m \<Longrightarrow> invar (ins k v m)"
    and invar_rem: "invar m \<Longrightarrow> invar (rem k m)"
    and invar_ret: "invar m \<Longrightarrow> invar (ret P m)"
begin

lemma get_ret_Some: "invar m \<Longrightarrow> get (ret P m) k = Some v \<longleftrightarrow> get m k = Some v \<and> P k v"
  by (auto simp: get_ret split: option.splits)

lemma get_ins_twice: "get (ins k v (ins k w m)) = get (ins k v m)"
  by (auto simp: get_ins)

lemma get_rem_ins: "get (rem k (ins k v m)) = get (rem k m)"
  by (auto simp: get_ins get_rem)

lemma get_fold_rem: "get (fold rem ks m) k = (if k \<in> set ks then None else get m k)"
  by (induction ks arbitrary: m) (auto simp: get_rem)

lemma invar_fold_rem: "invar m \<Longrightarrow> invar (fold rem ks m)"
  by (induction ks arbitrary: m) (auto simp: invar_rem)

end

lemma map_of_filter_distinct:
  "distinct (map fst m) \<Longrightarrow> map_of (filter (\<lambda>(k, v). P k v) m) k =
    (case map_of m k of None \<Rightarrow> None | Some v \<Rightarrow> if P k v then Some v else None)"
proof (induction m)
  case Nil
  then show ?case by simp
next
  case (Cons kv m)
  then have "map_of m (fst kv) = None"
    by (simp add: map_of_eq_None_iff)
  with Cons show ?case by (auto split: option.splits prod.splits)
qed

lemma map_of_filter_key:
  "map_of (filter (\<lambda>(k', v). k' \<noteq> k) m) k' = (if k' = k then None else map_of m k')"
  by (induction m) auto

interpretation hm: hash_map hm_get hm_insert hm_remove hm_retain hm_wf
proof (unfold_locales, goal_cases)
  case (1 k v m k')
  show ?case by (simp add: hm_get_def hm_insert_def update_conv')
next
  case (2 k m k')
  show ?case by (simp add: hm_get_def hm_remove_def map_of_filter_key)
next
  case (3 m P k)
  then show ?case by (simp add: hm_get_def hm_retain_def hm_wf_def map_of_filter_distinct)
next
  case (4 m k v)
  then show ?case by (simp add: hm_wf_def hm_insert_def distinct_update)
next
  case (5 m k)
  then show ?case
    by (simp add: hm_wf_def hm_remove_def distinct_map_filter)
next
  case (6 m P)
  then show ?case by (simp add: hm_wf_def hm_retain_def distinct_map_filter)
qed

declare hm.get_ins [hm_simps] hm.get_rem [hm_simps] hm.get_ret_Some [hm_simps]
declare hm.invar_ins [hm_simps, intro] hm.invar_rem [hm_simps, intro] hm.invar_ret [hm_simps, intro]

lemma hm_get_Nil [simp]: "hm_get [] k = None"
  by (simp add: hm_get_def)

lemma hm_wf_Nil [simp]: "hm_wf []"
  by (simp add: hm_wf_def)

lemma hm_get_iff_mem: "hm_wf m \<Longrightarrow> hm_get m k = Some v \<longleftrightarrow> (k, v) \<in> set m"
  by (simp add: hm_get_def hm_wf_def)

lemma hm_get_map_values [hm_simps]: "hm_get (hm_map_values f m) k = map_option f (hm_get m k)"
  by (induction m) (auto simp: hm_get_def hm_map_values_def)

lemma hm_wf_map_values [hm_simps, intro]: "hm_wf m \<Longrightarrow> hm_wf (hm_map_values f m)"
  by (simp add: hm_wf_def hm_map_values_def case_prod_unfold comp_def)

lemma hm_any_iff: "hm_wf m \<Longrightarrow> hm_any P m \<longleftrightarrow> (\<exists>k v. hm_get m k = Some v \<and> P k v)"
  by (auto simp: hm_any_def list_ex_iff hm_get_iff_mem)

lemma hm_all_iff: "hm_wf m \<Longrightarrow> hm_all P m \<longleftrightarrow> (\<forall>k v. hm_get m k = Some v \<longrightarrow> P k v)"
  by (auto simp: hm_all_def list_all_iff hm_get_iff_mem)

lemma mem_filter_keys:
  assumes "hm_wf m"
  shows "k \<in> set (map fst (filter (\<lambda>(k, v). P k v) m)) \<longleftrightarrow> (\<exists>v. hm_get m k = Some v \<and> P k v)"
  using hm_get_iff_mem [OF assms, of k] by force

lemma hm_find_SomeD: "hm_find P m = Some (k, v) \<Longrightarrow> hm_wf m \<Longrightarrow> hm_get m k = Some v \<and> P k v"
  by (auto simp: hm_find_def find_Some_iff hm_get_iff_mem in_set_conv_nth)

lemma hm_find_NoneD: "hm_find P m = None \<Longrightarrow> hm_get m k = Some v \<Longrightarrow> \<not> P k v"
  by (auto simp: hm_find_def find_None_iff hm_get_def dest: map_of_SomeD)

lemma hm_find_eqI:
  assumes "hm_wf m" and "hm_get m k = Some v" and "P k v"
    and "\<And>k' v'. hm_get m k' = Some v' \<Longrightarrow> P k' v' \<Longrightarrow> k' = k"
  shows "hm_find P m = Some (k, v)"
proof (cases "hm_find P m")
  case None
  with assms(2,3) show ?thesis by (auto dest: hm_find_NoneD)
next
  case (Some kv)
  obtain k' v' where kv: "kv = (k', v')"
    by (cases kv)
  from hm_find_SomeD [OF Some [unfolded kv] assms(1)]
  have "hm_get m k' = Some v'" and "P k' v'"
    by simp_all
  with assms(4) have "k' = k" by blast
  with \<open>hm_get m k' = Some v'\<close> assms(2) have "v' = v" by simp
  with \<open>k' = k\<close> Some kv show ?thesis by simp
qed

lemma hm_find_map_None: "hm_find_map f m = None \<longleftrightarrow> (\<forall>(k, v)\<in>set m. f k v = None)"
  by (induction m) (auto split: option.splits)

lemma hm_find_map_Some: "hm_find_map f m = Some r \<Longrightarrow> \<exists>(k, v)\<in>set m. f k v = Some r"
  by (induction m) (auto split: option.splits)

lemma hm_find_map_None_iff:
  "hm_wf m \<Longrightarrow> hm_find_map f m = None \<longleftrightarrow> (\<forall>k v. hm_get m k = Some v \<longrightarrow> f k v = None)"
  by (auto simp: hm_get_iff_mem hm_find_map_None)

lemma hm_find_map_SomeD:
  "hm_wf m \<Longrightarrow> hm_find_map f m = Some r \<Longrightarrow> \<exists>k v. hm_get m k = Some v \<and> f k v = Some r"
  by (drule hm_find_map_Some) (auto simp: hm_get_iff_mem)

section \<open>Hash sets\<close>

type_synonym 'a hset = "'a list"

definition hs_insert :: "'a \<Rightarrow> 'a hset \<Rightarrow> 'a hset" where
  "hs_insert x xs = (if x \<in> set xs then xs else xs @ [x])"

definition hs_remove :: "'a \<Rightarrow> 'a hset \<Rightarrow> 'a hset" where
  "hs_remove x xs = filter (\<lambda>y. y \<noteq> x) xs"

lemma set_hs_insert [simp]: "set (hs_insert x xs) = insert x (set xs)"
  by (auto simp: hs_insert_def)

lemma set_hs_remove [simp]: "set (hs_remove x xs) = set xs - {x}"
  by (auto simp: hs_remove_def)

lemma hs_remove_eq_Nil: "hs_remove x xs = [] \<longleftrightarrow> set xs \<subseteq> {x}"
  by (auto simp: hs_remove_def filter_empty_conv)

section \<open>Results\<close>

definition is_ok :: "'e + 'a \<Rightarrow> bool" where
  "is_ok r = (case r of Inl e \<Rightarrow> False | Inr a \<Rightarrow> True)"

lemma is_ok_simps [simp]: "is_ok (Inr a)" "\<not> is_ok (Inl e)"
  by (simp_all add: is_ok_def)

definition ok_or :: "'e \<Rightarrow> 'a option \<Rightarrow> 'e + 'a" where
  "ok_or e x = (case x of None \<Rightarrow> Inl e | Some a \<Rightarrow> Inr a)"

lemma ok_or_simps [simp]: "ok_or e None = Inl e" "ok_or e (Some a) = Inr a"
  by (simp_all add: ok_or_def)

end
