(* ===== verification/Xdr.thy ===== *)
theory Xdr
  imports Prelude "HOL-Library.Sublist"
begin

text \<open>
  The wire format, \<^verbatim>\<open>crates/embednfs-proto/src/xdr.rs\<close> (RFC 4506). An encoder appends to its output
  buffer and does nothing else, so \<^verbatim>\<open>encode(&self, dst)\<close> is a function to the bytes it appends. A
  decoder consumes bytes from the front of its input: \<open>decode_t bs\<close> is the error, or the value
  together with the bytes left.

  The locale \<open>codec\<close> is the contract of an \<^verbatim>\<open>XdrEncode\<close>/\<^verbatim>\<open>XdrDecode\<close> pair; it is interpreted for
  every pair below, and the combinators for optional values and counted lists carry it over from
  the element type. A Rust \<^verbatim>\<open>String\<close> is its byte string, which is valid UTF-8.
\<close>

named_theorems xdr_simps \<open>round trips of the primitive codecs\<close>
named_theorems xdr_sound \<open>soundness rules of the decoders\<close>

section \<open>Errors and the decoder monad\<close>

datatype xdr_error =
    Xdr_Underflow
  | Xdr_Overflow
  | Xdr_InvalidEnum u32
  | Xdr_InvalidBool u32
  | Xdr_InvalidUtf8
  | Xdr_StringTooLong nat
  | Xdr_OpaqueTooLong nat
  | Xdr_Io

type_synonym 'a decoder = "bytes \<Rightarrow> xdr_error + ('a \<times> bytes)"

text \<open>\<open>dec_bind\<close> is the question mark operator followed by the rest of the function body.\<close>

definition dec_return :: "'a \<Rightarrow> 'a decoder" where
  "dec_return x = (\<lambda>src. Inr (x, src))"

definition dec_fail :: "xdr_error \<Rightarrow> 'a decoder" where
  "dec_fail e = (\<lambda>src. Inl e)"

definition dec_bind :: "'a decoder \<Rightarrow> ('a \<Rightarrow> 'b decoder) \<Rightarrow> 'b decoder" where
  "dec_bind d f = (\<lambda>src. case d src of Inl e \<Rightarrow> Inl e | Inr (x, src') \<Rightarrow> f x src')"

definition dec_map :: "('a \<Rightarrow> 'b) \<Rightarrow> 'a decoder \<Rightarrow> 'b decoder" where
  "dec_map f d = dec_bind d (\<lambda>x. dec_return (f x))"

text \<open>What every decoder guarantees of the values it returns, and that it only consumes input.\<close>

definition dec_sound :: "('a \<Rightarrow> bool) \<Rightarrow> 'a decoder \<Rightarrow> bool" where
  "dec_sound P d \<longleftrightarrow> (\<forall>src x rest. d src = Inr (x, rest) \<longrightarrow> P x \<and> suffix rest src)"

lemma dec_return_simp [xdr_simps]: "dec_return x src = Inr (x, src)"
  by (simp add: dec_return_def)

lemma dec_fail_simp [xdr_simps]: "dec_fail e src = Inl e"
  by (simp add: dec_fail_def)

lemma dec_bind_Inr [xdr_simps]: "d src = Inr (x, src') \<Longrightarrow> dec_bind d f src = f x src'"
  by (simp add: dec_bind_def)

lemma dec_bind_Inl [xdr_simps]: "d src = Inl e \<Longrightarrow> dec_bind d f src = Inl e"
  by (simp add: dec_bind_def)

lemma dec_bind_eq_Inr:
  "dec_bind d f src = Inr r \<longleftrightarrow> (\<exists>x src'. d src = Inr (x, src') \<and> f x src' = Inr r)"
  by (auto simp: dec_bind_def split: sum.splits)

lemma dec_soundI: "(\<And>src x rest. d src = Inr (x, rest) \<Longrightarrow> P x \<and> suffix rest src) \<Longrightarrow> dec_sound P d"
  by (auto simp: dec_sound_def)

lemma dec_soundD:
  assumes "dec_sound P d" and "d src = Inr (x, rest)"
  shows "P x" and "suffix rest src"
  using assms by (auto simp: dec_sound_def)

lemma dec_sound_bind:
  assumes "dec_sound P d" and "\<And>x. P x \<Longrightarrow> dec_sound Q (f x)"
  shows "dec_sound Q (dec_bind d f)"
  using assms by (fastforce simp: dec_sound_def dec_bind_eq_Inr intro: suffix_order.trans)

lemma dec_sound_return [xdr_sound]: "P x \<Longrightarrow> dec_sound P (dec_return x)"
  by (simp add: dec_sound_def dec_return_def)

lemma dec_sound_fail [xdr_sound]: "dec_sound P (dec_fail e)"
  by (simp add: dec_sound_def dec_fail_def)

lemma dec_sound_mono: "dec_sound P d \<Longrightarrow> (\<And>x. P x \<Longrightarrow> Q x) \<Longrightarrow> dec_sound Q d"
  by (auto simp: dec_sound_def)

lemma dec_sound_if [xdr_sound]:
  "(b \<Longrightarrow> dec_sound P d) \<Longrightarrow> (\<not> b \<Longrightarrow> dec_sound P e) \<Longrightarrow> dec_sound P (if b then d else e)"
  by simp

section \<open>The contract of a codec\<close>

locale codec =
  fixes enc :: "'a \<Rightarrow> bytes"
    and dec :: "'a decoder"
    and ok :: "'a \<Rightarrow> bool"
  assumes dec_enc: "ok x \<Longrightarrow> dec (enc x @ rest) = Inr (x, rest)"
    and sound: "dec_sound ok dec"
begin

text \<open>Encodings are uniquely decodable, also when more data follows them.\<close>

lemma enc_prefix_free:
  assumes "ok x" and "ok y" and "enc x @ r = enc y @ s"
  shows "x = y \<and> r = s"
proof -
  have "Inr (x, r) = (Inr (y, s) :: xdr_error + 'a \<times> bytes)"
    using dec_enc [OF assms(1)] dec_enc [OF assms(2)] assms(3) by metis
  then show ?thesis by simp
qed

lemma dec_enc_exact: "ok x \<Longrightarrow> dec (enc x) = Inr (x, [])"
  using dec_enc [of x "[]"] by simp

lemma dec_then_enc:
  "dec src = Inr (x, rest) \<Longrightarrow> dec (enc x @ more) = Inr (x, more)"
  by (rule dec_enc) (rule dec_soundD [OF sound])

end

text \<open>A canonical codec accepts only what it emits.\<close>

locale canonical_codec = codec +
  assumes enc_dec: "dec src = Inr (x, rest) \<Longrightarrow> src = enc x @ rest"
begin

lemma dec_iff: "dec src = Inr (x, rest) \<longleftrightarrow> ok x \<and> src = enc x @ rest"
  using enc_dec dec_enc dec_soundD [OF sound] by blast

end

section \<open>Integers and booleans\<close>

definition xdr_pad :: "nat \<Rightarrow> nat" where
  "xdr_pad len = (4 - (len AND 3)) AND 3"

lemma xdr_pad_mod: "xdr_pad len = (4 - len mod 4) mod 4"
proof -
  have "x AND 3 = x mod 4" for x :: nat
    using take_bit_eq_mask [of 2 x] by (simp add: take_bit_eq_mod mask_eq_exp_minus_1)
  then show ?thesis by (simp add: xdr_pad_def)
qed

lemma xdr_pad_less: "xdr_pad len < 4"
  by (simp add: xdr_pad_mod)

lemma xdr_pad_aligned: "(len + xdr_pad len) mod 4 = 0"
proof -
  have "len mod 4 = 0 \<or> len mod 4 = 1 \<or> len mod 4 = 2 \<or> len mod 4 = 3"
    by linarith
  then show ?thesis by (auto simp: xdr_pad_mod mod_add_left_eq [symmetric, of len])
qed

definition encode_u32 :: "u32 \<Rightarrow> bytes" where
  "encode_u32 w = be_u32 w"

definition decode_u32 :: "u32 decoder" where
  "decode_u32 src = (if length src < 4 then Inl Xdr_Underflow
     else Inr (u32_of_be (take 4 src), drop 4 src))"

text \<open>An \<^verbatim>\<open>i32\<close> or \<^verbatim>\<open>i64\<close> is the word of its two's complement bits.\<close>

definition encode_i32 :: "u32 \<Rightarrow> bytes" where
  "encode_i32 w = be_u32 w"

definition decode_i32 :: "u32 decoder" where
  "decode_i32 src = (if length src < 4 then Inl Xdr_Underflow
     else Inr (u32_of_be (take 4 src), drop 4 src))"

definition encode_u64 :: "u64 \<Rightarrow> bytes" where
  "encode_u64 w = be_u64 w"

definition decode_u64 :: "u64 decoder" where
  "decode_u64 src = (if length src < 8 then Inl Xdr_Underflow
     else Inr (u64_of_be (take 8 src), drop 8 src))"

definition encode_i64 :: "u64 \<Rightarrow> bytes" where
  "encode_i64 w = be_u64 w"

definition decode_i64 :: "u64 decoder" where
  "decode_i64 src = (if length src < 8 then Inl Xdr_Underflow
     else Inr (u64_of_be (take 8 src), drop 8 src))"

definition encode_bool :: "bool \<Rightarrow> bytes" where
  "encode_bool b = encode_u32 (if b then 1 else 0)"

definition decode_bool :: "bool decoder" where
  "decode_bool = dec_bind decode_u32 (\<lambda>v.
     if v = 0 then dec_return False
     else if v = 1 then dec_return True
     else dec_fail (Xdr_InvalidBool v))"

lemma length_encode_u32 [simp]: "length (encode_u32 w) = 4"
  by (simp add: encode_u32_def)

lemma length_encode_u64 [simp]: "length (encode_u64 w) = 8"
  by (simp add: encode_u64_def)

lemma decode_encode_u32 [xdr_simps]: "decode_u32 (encode_u32 w @ rest) = Inr (w, rest)"
  by (simp add: decode_u32_def encode_u32_def)

lemma decode_encode_u64 [xdr_simps]: "decode_u64 (encode_u64 w @ rest) = Inr (w, rest)"
  by (simp add: decode_u64_def encode_u64_def)

interpretation u32: canonical_codec encode_u32 decode_u32 "\<lambda>_. True"
proof unfold_locales
  fix src x rest
  assume "decode_u32 src = Inr (x, rest)"
  then show "src = encode_u32 x @ rest"
    by (auto simp: decode_u32_def encode_u32_def be_u32_of_be split: if_splits)
qed (auto simp: encode_u32_def decode_u32_def dec_sound_def suffix_drop split: if_splits)

interpretation u64: canonical_codec encode_u64 decode_u64 "\<lambda>_. True"
proof unfold_locales
  fix src x rest
  assume "decode_u64 src = Inr (x, rest)"
  then show "src = encode_u64 x @ rest"
    by (auto simp: decode_u64_def encode_u64_def be_u64_of_be split: if_splits)
qed (auto simp: encode_u64_def decode_u64_def dec_sound_def suffix_drop split: if_splits)

lemma i32_codec_eq: "encode_i32 = encode_u32" "decode_i32 = decode_u32"
  by (auto simp: fun_eq_iff encode_i32_def encode_u32_def decode_i32_def decode_u32_def)

lemma i64_codec_eq: "encode_i64 = encode_u64" "decode_i64 = decode_u64"
  by (auto simp: fun_eq_iff encode_i64_def encode_u64_def decode_i64_def decode_u64_def)

interpretation i32: canonical_codec encode_i32 decode_i32 "\<lambda>_. True"
  unfolding i32_codec_eq by (rule u32.canonical_codec_axioms)

interpretation i64: canonical_codec encode_i64 decode_i64 "\<lambda>_. True"
  unfolding i64_codec_eq by (rule u64.canonical_codec_axioms)

declare u32.sound [xdr_sound] u64.sound [xdr_sound] i32.sound [xdr_sound] i64.sound [xdr_sound]
declare i32.dec_enc [xdr_simps] i64.dec_enc [xdr_simps]

lemma decode_encode_bool [xdr_simps]: "decode_bool (encode_bool b @ rest) = Inr (b, rest)"
  by (simp add: decode_bool_def encode_bool_def xdr_simps)

interpretation boolean: canonical_codec encode_bool decode_bool "\<lambda>_. True"
proof unfold_locales
  fix src x rest
  assume "decode_bool src = Inr (x, rest)"
  then show "src = encode_bool x @ rest"
    by (auto simp: decode_bool_def encode_bool_def dec_bind_eq_Inr dec_return_def dec_fail_def
        dest!: u32.enc_dec split: if_splits)
next
  show "dec_sound (\<lambda>_. True) decode_bool"
    unfolding decode_bool_def
    by (intro dec_sound_bind [OF u32.sound] xdr_sound TrueI)
qed (simp add: xdr_simps)

declare boolean.sound [xdr_sound]

section \<open>Opaque byte strings\<close>

definition encode_opaque :: "bytes \<Rightarrow> bytes" where
  "encode_opaque data = encode_u32 (word_of_nat (length data)) @ data
     @ replicate (xdr_pad (length data)) 0"

definition decode_fixed_opaque :: "nat \<Rightarrow> bytes decoder" where
  "decode_fixed_opaque len src =
     (if length src < len + xdr_pad len then Inl Xdr_Underflow
      else Inr (take len src, drop (xdr_pad len) (drop len src)))"

definition decode_opaque :: "bytes decoder" where
  "decode_opaque = dec_bind decode_u32 (\<lambda>n src.
     let len = unat n; padded = len + xdr_pad len in
     if length src < padded then Inl Xdr_Underflow
     else
       let data = take len src; src = drop len src; pad = xdr_pad len in
       Inr (data, if pad > 0 then drop pad src else src))"

definition decode_opaque_max :: "nat \<Rightarrow> bytes decoder" where
  "decode_opaque_max max_len = dec_bind decode_opaque (\<lambda>data.
     if length data > max_len then dec_fail (Xdr_OpaqueTooLong (length data))
     else dec_return data)"

definition encode_fixed_opaque :: "bytes \<Rightarrow> bytes" where
  "encode_fixed_opaque data = data @ replicate (xdr_pad (length data)) 0"

lemma decode_encode_fixed_opaque [xdr_simps]:
  "length data = len \<Longrightarrow> decode_fixed_opaque len (encode_fixed_opaque data @ rest) = Inr (data, rest)"
  by (auto simp: decode_fixed_opaque_def encode_fixed_opaque_def)

lemma encode_opaque_aligned: "length (encode_opaque data) mod 4 = 0"
  using xdr_pad_aligned [of "length data"]
  by (simp add: encode_opaque_def mod_add_left_eq [symmetric, of 4])

lemma encode_opaque_eq:
  "encode_opaque data = encode_u32 (word_of_nat (length data)) @ encode_fixed_opaque data"
  by (simp add: encode_opaque_def encode_fixed_opaque_def)

lemma decode_opaque_eq: "decode_opaque = dec_bind decode_u32 (\<lambda>n. decode_fixed_opaque (unat n))"
  by (simp add: fun_eq_iff decode_opaque_def decode_fixed_opaque_def dec_bind_def Let_def
      split: sum.splits)

lemma unat_length_u32: "length data < 2 ^ 32 \<Longrightarrow> unat (word_of_nat (length data) :: u32) = length data"
  by (simp add: unat_of_nat)

lemma decode_encode_opaque [xdr_simps]:
  "length data < 2 ^ 32 \<Longrightarrow> decode_opaque (encode_opaque data @ rest) = Inr (data, rest)"
  by (simp add: decode_opaque_eq encode_opaque_eq dec_bind_def decode_encode_u32
      decode_encode_fixed_opaque unat_length_u32 del: power_numeral)

lemma fixed_opaque_sound [xdr_sound]:
  "dec_sound (\<lambda>data. length data = len) (decode_fixed_opaque len)"
  by (auto simp: dec_sound_def decode_fixed_opaque_def suffix_drop split: if_splits)

interpretation opaque: codec encode_opaque decode_opaque "\<lambda>data. length data < 2 ^ 32"
proof unfold_locales
  show "dec_sound (\<lambda>data. length data < 2 ^ 32) decode_opaque"
    unfolding decode_opaque_eq
    by (intro dec_sound_bind [OF u32.sound] dec_sound_mono [OF fixed_opaque_sound]) simp
qed (rule decode_encode_opaque)

interpretation fixed_opaque: codec encode_fixed_opaque "decode_fixed_opaque len"
    "\<lambda>data. length data = len" for len
  by unfold_locales (simp add: decode_encode_fixed_opaque, rule fixed_opaque_sound)

lemma decode_encode_opaque_max [xdr_simps]:
  "length data \<le> max_len \<Longrightarrow> length data < 2 ^ 32
    \<Longrightarrow> decode_opaque_max max_len (encode_opaque data @ rest) = Inr (data, rest)"
  by (simp add: decode_opaque_max_def xdr_simps del: power_numeral)

interpretation opaque_max: codec encode_opaque "decode_opaque_max max_len"
    "\<lambda>data. length data \<le> max_len \<and> length data < 2 ^ 32" for max_len
proof unfold_locales
  show "dec_sound (\<lambda>data. length data \<le> max_len \<and> length data < 2 ^ 32) (decode_opaque_max max_len)"
    unfolding decode_opaque_max_def
    by (intro dec_sound_bind [OF opaque.sound] xdr_sound) simp
qed (simp add: decode_encode_opaque_max del: power_numeral)

declare opaque.sound [xdr_sound] opaque_max.sound [xdr_sound]

section \<open>Strings\<close>

text \<open>
  \<^verbatim>\<open>String::from_utf8\<close> accepts exactly the well-formed UTF-8 byte sequences (Unicode, table 3-7):
  no overlong form, no surrogate, nothing above U+10FFFF.
\<close>

definition utf8_cont :: "u8 \<Rightarrow> bool" where
  "utf8_cont b \<longleftrightarrow> 0x80 \<le> b \<and> b \<le> 0xBF"

fun utf8_valid :: "bytes \<Rightarrow> bool" where
  "utf8_valid [] = True"
| "utf8_valid (a # r) =
     (if a \<le> 0x7F then utf8_valid r
      else case r of [] \<Rightarrow> False | b # r2 \<Rightarrow>
        if 0xC2 \<le> a \<and> a \<le> 0xDF then utf8_cont b \<and> utf8_valid r2
        else case r2 of [] \<Rightarrow> False | c # r3 \<Rightarrow>
          if 0xE0 \<le> a \<and> a \<le> 0xEF then
            (if a = 0xE0 then 0xA0 \<le> b \<and> b \<le> 0xBF
             else if a = 0xED then 0x80 \<le> b \<and> b \<le> 0x9F
             else utf8_cont b) \<and> utf8_cont c \<and> utf8_valid r3
          else case r3 of [] \<Rightarrow> False | d # r4 \<Rightarrow>
            0xF0 \<le> a \<and> a \<le> 0xF4 \<and>
            (if a = 0xF0 then 0x90 \<le> b \<and> b \<le> 0xBF
             else if a = 0xF4 then 0x80 \<le> b \<and> b \<le> 0x8F
             else utf8_cont b) \<and> utf8_cont c \<and> utf8_cont d \<and> utf8_valid r4)"

type_synonym rust_string = bytes

definition string_from_utf8 :: "bytes \<Rightarrow> rust_string decoder" where
  "string_from_utf8 data = (if utf8_valid data then dec_return data else dec_fail Xdr_InvalidUtf8)"

definition encode_string :: "rust_string \<Rightarrow> bytes" where
  "encode_string s = encode_opaque s"

definition decode_string :: "rust_string decoder" where
  "decode_string = dec_bind decode_opaque string_from_utf8"

definition decode_string_max :: "nat \<Rightarrow> rust_string decoder" where
  "decode_string_max max_len = dec_bind (decode_opaque_max max_len) string_from_utf8"

lemma string_from_utf8_sound:
  "P data \<Longrightarrow> dec_sound (\<lambda>s. P s \<and> utf8_valid s) (string_from_utf8 data)"
  by (simp add: string_from_utf8_def xdr_sound)

lemma decode_encode_string [xdr_simps]:
  "length s < 2 ^ 32 \<Longrightarrow> utf8_valid s \<Longrightarrow> decode_string (encode_string s @ rest) = Inr (s, rest)"
  by (simp add: decode_string_def encode_string_def string_from_utf8_def xdr_simps
      del: power_numeral)

lemma decode_encode_string_max [xdr_simps]:
  "length s \<le> max_len \<Longrightarrow> length s < 2 ^ 32 \<Longrightarrow> utf8_valid s
    \<Longrightarrow> decode_string_max max_len (encode_string s @ rest) = Inr (s, rest)"
  by (simp add: decode_string_max_def encode_string_def string_from_utf8_def xdr_simps
      del: power_numeral)

interpretation string: codec encode_string decode_string
    "\<lambda>s. length s < 2 ^ 32 \<and> utf8_valid s"
proof unfold_locales
  show "dec_sound (\<lambda>s. length s < 2 ^ 32 \<and> utf8_valid s) decode_string"
    unfolding decode_string_def
    by (rule dec_sound_bind [OF opaque.sound string_from_utf8_sound])
qed (simp add: decode_encode_string del: power_numeral)

interpretation string_max: codec encode_string "decode_string_max max_len"
    "\<lambda>s. (length s \<le> max_len \<and> length s < 2 ^ 32) \<and> utf8_valid s" for max_len
proof unfold_locales
  show "dec_sound (\<lambda>s. (length s \<le> max_len \<and> length s < 2 ^ 32) \<and> utf8_valid s)
    (decode_string_max max_len)"
    unfolding decode_string_max_def
    by (rule dec_sound_bind [OF opaque_max.sound string_from_utf8_sound])
qed (simp add: decode_encode_string_max del: power_numeral)

declare string.sound [xdr_sound] string_max.sound [xdr_sound]

section \<open>Options and counted lists\<close>

definition encode_option :: "('a \<Rightarrow> bytes) \<Rightarrow> 'a option \<Rightarrow> bytes" where
  "encode_option enc x = (case x of
       Some v \<Rightarrow> encode_u32 1 @ enc v
     | None \<Rightarrow> encode_u32 0)"

definition decode_option :: "'a decoder \<Rightarrow> 'a option decoder" where
  "decode_option dec = dec_bind decode_u32 (\<lambda>present.
     if present = 0 then dec_return None
     else if present = 1 then dec_bind dec (\<lambda>v. dec_return (Some v))
     else dec_fail (Xdr_InvalidBool present))"

definition encode_list :: "('a \<Rightarrow> bytes) \<Rightarrow> 'a list \<Rightarrow> bytes" where
  "encode_list enc xs = encode_u32 (word_of_nat (length xs)) @ concat (map enc xs)"

text \<open>The loop \<^verbatim>\<open>for _ in 0..count { result.push(T::decode(src)?) }\<close>.\<close>

primrec decode_items :: "'a decoder \<Rightarrow> nat \<Rightarrow> 'a list decoder" where
  "decode_items dec 0 = dec_return []"
| "decode_items dec (Suc n) =
     dec_bind dec (\<lambda>x. dec_bind (decode_items dec n) (\<lambda>xs. dec_return (x # xs)))"

definition decode_list :: "'a decoder \<Rightarrow> 'a list decoder" where
  "decode_list dec = dec_bind decode_u32 (\<lambda>count. decode_items dec (unat count))"

definition decode_list_max :: "'a decoder \<Rightarrow> nat \<Rightarrow> 'a list decoder" where
  "decode_list_max dec max_len = dec_bind decode_u32 (\<lambda>n.
     let count = unat n in
     if count > max_len then dec_fail (Xdr_OpaqueTooLong count)
     else decode_items dec count)"

context codec
begin

lemma dec_option_enc:
  "pred_option ok x \<Longrightarrow> decode_option dec (encode_option enc x @ rest) = Inr (x, rest)"
  by (cases x) (simp_all add: encode_option_def decode_option_def xdr_simps dec_enc)

lemma option_sound: "dec_sound (pred_option ok) (decode_option dec)"
  unfolding decode_option_def
  by (intro dec_sound_bind [OF u32.sound] xdr_sound dec_sound_bind [OF sound]) simp_all

lemma dec_items_enc:
  "list_all ok xs \<Longrightarrow> decode_items dec (length xs) (concat (map enc xs) @ rest) = Inr (xs, rest)"
  by (induction xs) (simp_all add: xdr_simps dec_enc)

lemma items_sound: "dec_sound (\<lambda>xs. list_all ok xs \<and> length xs = n) (decode_items dec n)"
proof (induction n)
  case 0
  show ?case by (simp add: xdr_sound)
next
  case (Suc n)
  show ?case
    unfolding decode_items.simps
    by (rule dec_sound_bind [OF sound], rule dec_sound_bind [OF Suc], rule dec_sound_return) simp
qed

lemma dec_list_enc:
  assumes "list_all ok xs" and "length xs < 2 ^ 32"
  shows "decode_list dec (encode_list enc xs @ rest) = Inr (xs, rest)"
  using assms(2) dec_items_enc [OF assms(1)]
  by (simp add: decode_list_def encode_list_def xdr_simps unat_length_u32 del: power_numeral)

lemma list_sound: "dec_sound (\<lambda>xs. list_all ok xs \<and> length xs < 2 ^ 32) (decode_list dec)"
  unfolding decode_list_def
  by (intro dec_sound_bind [OF u32.sound] dec_sound_mono [OF items_sound]) auto

lemma dec_list_max_enc:
  assumes "list_all ok xs" and "length xs \<le> max_len" and "length xs < 2 ^ 32"
  shows "decode_list_max dec max_len (encode_list enc xs @ rest) = Inr (xs, rest)"
  using assms(2,3) dec_items_enc [OF assms(1)]
  by (simp add: decode_list_max_def encode_list_def xdr_simps unat_length_u32 del: power_numeral)

lemma list_max_sound:
  "dec_sound (\<lambda>xs. list_all ok xs \<and> length xs \<le> max_len \<and> length xs < 2 ^ 32)
     (decode_list_max dec max_len)"
  unfolding decode_list_max_def Let_def
  by (intro dec_sound_bind [OF u32.sound] xdr_sound dec_sound_mono [OF items_sound]) auto

lemma codec_option: "codec (encode_option enc) (decode_option dec) (pred_option ok)"
  by unfold_locales (rule dec_option_enc, assumption, rule option_sound)

lemma codec_list:
  "codec (encode_list enc) (decode_list dec) (\<lambda>xs. list_all ok xs \<and> length xs < 2 ^ 32)"
  by unfold_locales (simp add: dec_list_enc del: power_numeral, rule list_sound)

lemma codec_list_max:
  "codec (encode_list enc) (decode_list_max dec max_len)
     (\<lambda>xs. list_all ok xs \<and> length xs \<le> max_len \<and> length xs < 2 ^ 32)"
  by unfold_locales (simp add: dec_list_max_enc del: power_numeral, rule list_max_sound)

end

end
