(* ===== verification/Rpc.thy ===== *)
theory Rpc
  imports Xdr
begin

text \<open>
  ONC RPC messages (RFC 5531), \<^verbatim>\<open>crates/embednfs-proto/src/rpc.rs\<close>: the enumerations of the protocol,
  credentials, the call header the server decodes and the reply headers it emits. The lemmas show
  that what one side emits the other side reads back, that a reply is never mistaken for a call,
  and that the decoder returns credentials within the bounds of the protocol.
\<close>

definition RPC_VERSION :: u32 where "RPC_VERSION = 2"
definition NFS_PROGRAM :: u32 where "NFS_PROGRAM = 100003"
definition NFS_V4 :: u32 where "NFS_V4 = 4"
definition NFS_CB_PROGRAM :: u32 where "NFS_CB_PROGRAM = 0x40000000"

section \<open>Enumerations\<close>

datatype msg_type = Msg_Call | Msg_Reply

primrec msg_type_to_u32 :: "msg_type \<Rightarrow> u32" where
  "msg_type_to_u32 Msg_Call = 0"
| "msg_type_to_u32 Msg_Reply = 1"

definition encode_msg_type :: "msg_type \<Rightarrow> bytes" where
  "encode_msg_type m = encode_u32 (msg_type_to_u32 m)"

definition decode_msg_type :: "msg_type decoder" where
  "decode_msg_type = dec_bind decode_u32 (\<lambda>v.
     if v = 0 then dec_return Msg_Call
     else if v = 1 then dec_return Msg_Reply
     else dec_fail (Xdr_InvalidEnum v))"

datatype reply_stat = Reply_Accepted | Reply_Denied

primrec reply_stat_to_u32 :: "reply_stat \<Rightarrow> u32" where
  "reply_stat_to_u32 Reply_Accepted = 0"
| "reply_stat_to_u32 Reply_Denied = 1"

definition encode_reply_stat :: "reply_stat \<Rightarrow> bytes" where
  "encode_reply_stat r = encode_u32 (reply_stat_to_u32 r)"

definition decode_reply_stat :: "reply_stat decoder" where
  "decode_reply_stat = dec_bind decode_u32 (\<lambda>v.
     if v = 0 then dec_return Reply_Accepted
     else if v = 1 then dec_return Reply_Denied
     else dec_fail (Xdr_InvalidEnum v))"

datatype accept_stat =
    Accept_Success
  | Accept_ProgUnavail
  | Accept_ProgMismatch
  | Accept_ProcUnavail
  | Accept_GarbageArgs
  | Accept_SystemErr

primrec accept_stat_to_u32 :: "accept_stat \<Rightarrow> u32" where
  "accept_stat_to_u32 Accept_Success = 0"
| "accept_stat_to_u32 Accept_ProgUnavail = 1"
| "accept_stat_to_u32 Accept_ProgMismatch = 2"
| "accept_stat_to_u32 Accept_ProcUnavail = 3"
| "accept_stat_to_u32 Accept_GarbageArgs = 4"
| "accept_stat_to_u32 Accept_SystemErr = 5"

definition encode_accept_stat :: "accept_stat \<Rightarrow> bytes" where
  "encode_accept_stat a = encode_u32 (accept_stat_to_u32 a)"

definition decode_accept_stat :: "accept_stat decoder" where
  "decode_accept_stat = dec_bind decode_u32 (\<lambda>v.
     if v = 0 then dec_return Accept_Success
     else if v = 1 then dec_return Accept_ProgUnavail
     else if v = 2 then dec_return Accept_ProgMismatch
     else if v = 3 then dec_return Accept_ProcUnavail
     else if v = 4 then dec_return Accept_GarbageArgs
     else if v = 5 then dec_return Accept_SystemErr
     else dec_fail (Xdr_InvalidEnum v))"

datatype auth_stat =
    AuthStat_Ok
  | AuthStat_BadCred
  | AuthStat_RejectedCred
  | AuthStat_BadVerf
  | AuthStat_RejectedVerf
  | AuthStat_TooWeak
  | AuthStat_InvalidResp
  | AuthStat_Failed
  | AuthStat_KerbGeneric
  | AuthStat_TimeExpire
  | AuthStat_TktFile
  | AuthStat_Decode
  | AuthStat_NetAddr
  | AuthStat_RpcsecGssCredProblem
  | AuthStat_RpcsecGssCtxProblem

primrec auth_stat_to_u32 :: "auth_stat \<Rightarrow> u32" where
  "auth_stat_to_u32 AuthStat_Ok = 0"
| "auth_stat_to_u32 AuthStat_BadCred = 1"
| "auth_stat_to_u32 AuthStat_RejectedCred = 2"
| "auth_stat_to_u32 AuthStat_BadVerf = 3"
| "auth_stat_to_u32 AuthStat_RejectedVerf = 4"
| "auth_stat_to_u32 AuthStat_TooWeak = 5"
| "auth_stat_to_u32 AuthStat_InvalidResp = 6"
| "auth_stat_to_u32 AuthStat_Failed = 7"
| "auth_stat_to_u32 AuthStat_KerbGeneric = 8"
| "auth_stat_to_u32 AuthStat_TimeExpire = 9"
| "auth_stat_to_u32 AuthStat_TktFile = 10"
| "auth_stat_to_u32 AuthStat_Decode = 11"
| "auth_stat_to_u32 AuthStat_NetAddr = 12"
| "auth_stat_to_u32 AuthStat_RpcsecGssCredProblem = 13"
| "auth_stat_to_u32 AuthStat_RpcsecGssCtxProblem = 14"

definition encode_auth_stat :: "auth_stat \<Rightarrow> bytes" where
  "encode_auth_stat a = encode_u32 (auth_stat_to_u32 a)"

datatype auth_flavor = Auth_None | Auth_Sys | Auth_Short | Auth_Dh | Auth_RpcSecGss

primrec auth_flavor_to_u32 :: "auth_flavor \<Rightarrow> u32" where
  "auth_flavor_to_u32 Auth_None = 0"
| "auth_flavor_to_u32 Auth_Sys = 1"
| "auth_flavor_to_u32 Auth_Short = 2"
| "auth_flavor_to_u32 Auth_Dh = 3"
| "auth_flavor_to_u32 Auth_RpcSecGss = 6"

definition encode_auth_flavor :: "auth_flavor \<Rightarrow> bytes" where
  "encode_auth_flavor f = encode_u32 (auth_flavor_to_u32 f)"

definition decode_auth_flavor :: "auth_flavor decoder" where
  "decode_auth_flavor = dec_bind decode_u32 (\<lambda>v.
     if v = 0 then dec_return Auth_None
     else if v = 1 then dec_return Auth_Sys
     else if v = 2 then dec_return Auth_Short
     else if v = 3 then dec_return Auth_Dh
     else if v = 6 then dec_return Auth_RpcSecGss
     else dec_fail (Xdr_InvalidEnum v))"

section \<open>Credentials and headers\<close>

record opaque_auth =
  oa_flavor :: u32
  oa_body :: bytes

definition encode_opaque_auth :: "opaque_auth \<Rightarrow> bytes" where
  "encode_opaque_auth a = encode_u32 (oa_flavor a) @ encode_opaque (oa_body a)"

definition decode_opaque_auth :: "opaque_auth decoder" where
  "decode_opaque_auth =
     dec_bind decode_u32 (\<lambda>flavor.
     dec_bind (decode_opaque_max 400) (\<lambda>body.
     dec_return \<lparr>oa_flavor = flavor, oa_body = body\<rparr>))"

definition opaque_auth_null :: opaque_auth where
  "opaque_auth_null = \<lparr>oa_flavor = 0, oa_body = []\<rparr>"

record auth_sys_params =
  as_stamp :: u32
  as_machinename :: rust_string
  as_uid :: u32
  as_gid :: u32
  as_gids :: "u32 list"

definition decode_auth_sys_params :: "auth_sys_params decoder" where
  "decode_auth_sys_params =
     dec_bind decode_u32 (\<lambda>stamp.
     dec_bind (decode_string_max 255) (\<lambda>machinename.
     dec_bind decode_u32 (\<lambda>uid.
     dec_bind decode_u32 (\<lambda>gid.
     dec_bind (decode_list_max decode_u32 16) (\<lambda>gids.
     dec_return \<lparr>as_stamp = stamp, as_machinename = machinename, as_uid = uid, as_gid = gid,
       as_gids = gids\<rparr>)))))"

definition encode_auth_sys_params :: "auth_sys_params \<Rightarrow> bytes" where
  "encode_auth_sys_params a =
     encode_u32 (as_stamp a) @ encode_string (as_machinename a) @ encode_u32 (as_uid a)
     @ encode_u32 (as_gid a) @ encode_list encode_u32 (as_gids a)"

record rpc_call_header =
  rc_xid :: u32
  rc_rpcvers :: u32
  rc_prog :: u32
  rc_vers :: u32
  rc_proc_num :: u32
  rc_cred :: opaque_auth
  rc_verf :: opaque_auth

definition decode_rpc_call_header :: "rpc_call_header decoder" where
  "decode_rpc_call_header =
     dec_bind decode_u32 (\<lambda>xid.
     dec_bind decode_u32 (\<lambda>msg_type.
     if msg_type \<noteq> 0 then dec_fail (Xdr_InvalidEnum msg_type)
     else
       dec_bind decode_u32 (\<lambda>rpcvers.
       dec_bind decode_u32 (\<lambda>prog.
       dec_bind decode_u32 (\<lambda>vers.
       dec_bind decode_u32 (\<lambda>proc_num.
       dec_bind decode_opaque_auth (\<lambda>cred.
       dec_bind decode_opaque_auth (\<lambda>verf.
       dec_return \<lparr>rc_xid = xid, rc_rpcvers = rpcvers, rc_prog = prog, rc_vers = vers,
         rc_proc_num = proc_num, rc_cred = cred, rc_verf = verf\<rparr>))))))))"

record rpc_accepted_reply =
  ra_xid :: u32
  ra_verf :: opaque_auth
  ra_accept_stat :: accept_stat

definition decode_rpc_accepted_reply :: "rpc_accepted_reply decoder" where
  "decode_rpc_accepted_reply =
     dec_bind decode_u32 (\<lambda>xid.
     dec_bind decode_msg_type (\<lambda>msg_type.
     if msg_type \<noteq> Msg_Reply then dec_fail (Xdr_InvalidEnum (msg_type_to_u32 msg_type))
     else
       dec_bind decode_reply_stat (\<lambda>reply_stat.
       if reply_stat \<noteq> Reply_Accepted
       then dec_fail (Xdr_InvalidEnum (reply_stat_to_u32 reply_stat))
       else
         dec_bind decode_opaque_auth (\<lambda>verf.
         dec_bind decode_accept_stat (\<lambda>accept_stat.
         dec_return \<lparr>ra_xid = xid, ra_verf = verf, ra_accept_stat = accept_stat\<rparr>)))))"

definition encode_rpc_call ::
  "u32 \<Rightarrow> u32 \<Rightarrow> u32 \<Rightarrow> u32 \<Rightarrow> opaque_auth \<Rightarrow> opaque_auth \<Rightarrow> bytes" where
  "encode_rpc_call xid prog vers proc_num cred verf =
     encode_u32 xid @ encode_msg_type Msg_Call @ encode_u32 RPC_VERSION @ encode_u32 prog
     @ encode_u32 vers @ encode_u32 proc_num @ encode_opaque_auth cred @ encode_opaque_auth verf"

definition encode_rpc_reply_accepted :: "u32 \<Rightarrow> bytes" where
  "encode_rpc_reply_accepted xid =
     encode_u32 xid @ encode_msg_type Msg_Reply @ encode_reply_stat Reply_Accepted
     @ encode_opaque_auth opaque_auth_null @ encode_accept_stat Accept_Success"

definition encode_rpc_reply_prog_mismatch :: "u32 \<Rightarrow> u32 \<Rightarrow> u32 \<Rightarrow> bytes" where
  "encode_rpc_reply_prog_mismatch xid low high =
     encode_u32 xid @ encode_msg_type Msg_Reply @ encode_reply_stat Reply_Accepted
     @ encode_opaque_auth opaque_auth_null @ encode_accept_stat Accept_ProgMismatch
     @ encode_u32 low @ encode_u32 high"

definition encode_rpc_reply_proc_unavail :: "u32 \<Rightarrow> bytes" where
  "encode_rpc_reply_proc_unavail xid =
     encode_u32 xid @ encode_msg_type Msg_Reply @ encode_reply_stat Reply_Accepted
     @ encode_opaque_auth opaque_auth_null @ encode_accept_stat Accept_ProcUnavail"

definition encode_rpc_reply_auth_error :: "u32 \<Rightarrow> auth_stat \<Rightarrow> bytes" where
  "encode_rpc_reply_auth_error xid auth =
     encode_u32 xid @ encode_msg_type Msg_Reply @ encode_reply_stat Reply_Denied
     @ encode_u32 1 @ encode_auth_stat auth"

section \<open>Round trips\<close>

lemma decode_encode_msg_type [xdr_simps]:
  "decode_msg_type (encode_msg_type m @ rest) = Inr (m, rest)"
  by (cases m) (simp_all add: encode_msg_type_def decode_msg_type_def xdr_simps)

lemma decode_encode_reply_stat [xdr_simps]:
  "decode_reply_stat (encode_reply_stat m @ rest) = Inr (m, rest)"
  by (cases m) (simp_all add: encode_reply_stat_def decode_reply_stat_def xdr_simps)

lemma decode_encode_accept_stat [xdr_simps]:
  "decode_accept_stat (encode_accept_stat m @ rest) = Inr (m, rest)"
  by (cases m) (simp_all add: encode_accept_stat_def decode_accept_stat_def xdr_simps)

lemma decode_encode_auth_flavor [xdr_simps]:
  "decode_auth_flavor (encode_auth_flavor m @ rest) = Inr (m, rest)"
  by (cases m) (simp_all add: encode_auth_flavor_def decode_auth_flavor_def xdr_simps)

interpretation msg_type: codec encode_msg_type decode_msg_type "\<lambda>_. True"
  by unfold_locales (rule decode_encode_msg_type,
    unfold decode_msg_type_def, intro dec_sound_bind [OF u32.sound] xdr_sound TrueI)

interpretation reply_stat: codec encode_reply_stat decode_reply_stat "\<lambda>_. True"
  by unfold_locales (rule decode_encode_reply_stat,
    unfold decode_reply_stat_def, intro dec_sound_bind [OF u32.sound] xdr_sound TrueI)

interpretation accept_stat: codec encode_accept_stat decode_accept_stat "\<lambda>_. True"
  by unfold_locales (rule decode_encode_accept_stat,
    unfold decode_accept_stat_def, intro dec_sound_bind [OF u32.sound] xdr_sound TrueI)

interpretation auth_flavor: codec encode_auth_flavor decode_auth_flavor "\<lambda>_. True"
  by unfold_locales (rule decode_encode_auth_flavor,
    unfold decode_auth_flavor_def, intro dec_sound_bind [OF u32.sound] xdr_sound TrueI)

text \<open>Credentials within the bound of RFC 5531: at most 400 bytes of body.\<close>

definition opaque_auth_ok :: "opaque_auth \<Rightarrow> bool" where
  "opaque_auth_ok a \<longleftrightarrow> length (oa_body a) \<le> 400"

lemma decode_encode_opaque_auth [xdr_simps]:
  "opaque_auth_ok a \<Longrightarrow> decode_opaque_auth (encode_opaque_auth a @ rest) = Inr (a, rest)"
  by (simp add: encode_opaque_auth_def decode_opaque_auth_def opaque_auth_ok_def xdr_simps)

interpretation opaque_auth: codec encode_opaque_auth decode_opaque_auth opaque_auth_ok
  by unfold_locales (erule decode_encode_opaque_auth,
    unfold decode_opaque_auth_def,
    intro dec_sound_bind [OF u32.sound] dec_sound_bind [OF opaque_max.sound] dec_sound_return,
    simp add: opaque_auth_ok_def)

lemma opaque_auth_null_ok [simp]: "opaque_auth_ok opaque_auth_null"
  by (simp add: opaque_auth_ok_def opaque_auth_null_def)

definition auth_sys_params_ok :: "auth_sys_params \<Rightarrow> bool" where
  "auth_sys_params_ok a \<longleftrightarrow> length (as_machinename a) \<le> 255 \<and> utf8_valid (as_machinename a)
     \<and> length (as_gids a) \<le> 16"

interpretation gid_list: codec "encode_list encode_u32" "decode_list_max decode_u32 max_len"
    "\<lambda>xs. list_all (\<lambda>_. True) xs \<and> length xs \<le> max_len \<and> length xs < 2 ^ 32" for max_len
  by (rule u32.codec_list_max)

interpretation auth_sys: codec encode_auth_sys_params decode_auth_sys_params auth_sys_params_ok
proof unfold_locales
  show "dec_sound auth_sys_params_ok decode_auth_sys_params"
    unfolding decode_auth_sys_params_def
    by (intro dec_sound_bind [OF u32.sound] dec_sound_bind [OF string_max.sound]
        dec_sound_bind [OF gid_list.sound] dec_sound_return)
      (auto simp: auth_sys_params_ok_def)
next
  fix x rest
  assume "auth_sys_params_ok x"
  then show "decode_auth_sys_params (encode_auth_sys_params x @ rest) = Inr (x, rest)"
    by (simp add: encode_auth_sys_params_def decode_auth_sys_params_def auth_sys_params_ok_def
        xdr_simps gid_list.dec_enc list_all_iff)
qed

definition rpc_call_header_ok :: "rpc_call_header \<Rightarrow> bool" where
  "rpc_call_header_ok c \<longleftrightarrow> opaque_auth_ok (rc_cred c) \<and> opaque_auth_ok (rc_verf c)"

lemma rpc_call_header_sound: "dec_sound rpc_call_header_ok decode_rpc_call_header"
  unfolding decode_rpc_call_header_def
  by (intro dec_sound_bind [OF u32.sound] dec_sound_bind [OF opaque_auth.sound] xdr_sound)
    (simp add: rpc_call_header_ok_def)

lemma rpc_call_roundtrip:
  assumes "opaque_auth_ok cred" and "opaque_auth_ok verf"
  shows "decode_rpc_call_header (encode_rpc_call xid prog vers proc_num cred verf @ body) =
    Inr (\<lparr>rc_xid = xid, rc_rpcvers = RPC_VERSION, rc_prog = prog, rc_vers = vers,
          rc_proc_num = proc_num, rc_cred = cred, rc_verf = verf\<rparr>, body)"
  using assms by (simp add: encode_rpc_call_def decode_rpc_call_header_def encode_msg_type_def xdr_simps)

lemma rpc_reply_accepted_roundtrip:
  "decode_rpc_accepted_reply (encode_rpc_reply_accepted xid @ body) =
    Inr (\<lparr>ra_xid = xid, ra_verf = opaque_auth_null, ra_accept_stat = Accept_Success\<rparr>, body)"
  by (simp add: encode_rpc_reply_accepted_def decode_rpc_accepted_reply_def xdr_simps)

lemma rpc_reply_prog_mismatch_roundtrip:
  "decode_rpc_accepted_reply (encode_rpc_reply_prog_mismatch xid low high @ body) =
    Inr (\<lparr>ra_xid = xid, ra_verf = opaque_auth_null, ra_accept_stat = Accept_ProgMismatch\<rparr>,
      encode_u32 low @ encode_u32 high @ body)"
  by (simp add: encode_rpc_reply_prog_mismatch_def decode_rpc_accepted_reply_def xdr_simps)

lemma rpc_reply_proc_unavail_roundtrip:
  "decode_rpc_accepted_reply (encode_rpc_reply_proc_unavail xid @ body) =
    Inr (\<lparr>ra_xid = xid, ra_verf = opaque_auth_null, ra_accept_stat = Accept_ProcUnavail\<rparr>, body)"
  by (simp add: encode_rpc_reply_proc_unavail_def decode_rpc_accepted_reply_def xdr_simps)

text \<open>An authentication error is a denied reply: the client side reports it as an error.\<close>

lemma rpc_reply_auth_error_rejected:
  "decode_rpc_accepted_reply (encode_rpc_reply_auth_error xid auth @ body) = Inl (Xdr_InvalidEnum 1)"
  by (simp add: encode_rpc_reply_auth_error_def decode_rpc_accepted_reply_def xdr_simps)

end
