(* ===== verification/Nfs_Status.thy ===== *)
theory Nfs_Status
  imports Xdr
begin

text \<open>
  The NFSv4 status codes, \<^verbatim>\<open>NfsStat4\<close> of \<^verbatim>\<open>crates/embednfs-proto/src/types/basic.rs\<close>: the enumeration
  with its \<^verbatim>\<open>#[repr(u32)]\<close> discriminants, the partial inverse \<^verbatim>\<open>from_u32\<close>, and the wire form.
\<close>

datatype (plugins only: size) nfsstat4 =
    Stat_Ok
  | Stat_Perm
  | Stat_Noent
  | Stat_Io
  | Stat_Nxio
  | Stat_Access
  | Stat_Exist
  | Stat_Xdev
  | Stat_Notdir
  | Stat_Isdir
  | Stat_Inval
  | Stat_Fbig
  | Stat_Nospc
  | Stat_Rofs
  | Stat_Mlink
  | Stat_Nametoolong
  | Stat_Notempty
  | Stat_Dquot
  | Stat_Stale
  | Stat_Badhandle
  | Stat_BadCookie
  | Stat_Notsupp
  | Stat_Toosmall
  | Stat_Serverfault
  | Stat_Badtype
  | Stat_Delay
  | Stat_Same
  | Stat_Denied
  | Stat_Expired
  | Stat_Locked
  | Stat_Grace
  | Stat_Fhexpired
  | Stat_ShareDenied
  | Stat_WrongSec
  | Stat_ClidInuse
  | Stat_Moved
  | Stat_Nofilehandle
  | Stat_MinorVersMismatch
  | Stat_StaleClientid
  | Stat_StaleStateid
  | Stat_OldStateid
  | Stat_BadStateid
  | Stat_BadSeqid
  | Stat_NotSame
  | Stat_LockRange
  | Stat_Symlink
  | Stat_Restorefh
  | Stat_LeaseMoved
  | Stat_AttrNotsupp
  | Stat_NoGrace
  | Stat_ReclaimBad
  | Stat_ReclaimConflict
  | Stat_BadXdr
  | Stat_LocksHeld
  | Stat_Openmode
  | Stat_BadOwner
  | Stat_Badchar
  | Stat_Badname
  | Stat_BadRange
  | Stat_LockNotsupp
  | Stat_OpIllegal
  | Stat_Deadlock
  | Stat_FileOpen
  | Stat_AdminRevoked
  | Stat_CbPathDown
  | Stat_BadIomode
  | Stat_BadLayout
  | Stat_BadSessionDigest
  | Stat_BadSession
  | Stat_BadSlot
  | Stat_CompleteAlready
  | Stat_ConnNotBoundToSession
  | Stat_DelegAlreadyWanted
  | Stat_BackChanBusy
  | Stat_LayoutTrylater
  | Stat_LayoutUnavailable
  | Stat_NomatchingLayout
  | Stat_RecallConflict
  | Stat_UnknownLayouttype
  | Stat_SeqMisordered
  | Stat_SequencePos
  | Stat_ReqTooBig
  | Stat_RepTooBig
  | Stat_RepTooBigToCache
  | Stat_RetryUncachedRep
  | Stat_UnsafeCompound
  | Stat_TooManyOps
  | Stat_OpNotInSession
  | Stat_HashAlgUnsupp
  | Stat_ClientidBusy
  | Stat_PnfsIoHole
  | Stat_SeqFalseRetry
  | Stat_BadHighSlot
  | Stat_DeadSession
  | Stat_EncrAlgUnsupp
  | Stat_PnfsNoLayout
  | Stat_NotOnlyOp
  | Stat_WrongCred
  | Stat_WrongType
  | Stat_DirDelegUnavail
  | Stat_RejectDeleg
  | Stat_ReturnConflict
  | Stat_DelegRevoked
  | Stat_NoXattr
  | Stat_Xattr2Big

primrec nfsstat4_to_u32 :: "nfsstat4 \<Rightarrow> u32" where
  "nfsstat4_to_u32 Stat_Ok = 0"
| "nfsstat4_to_u32 Stat_Perm = 1"
| "nfsstat4_to_u32 Stat_Noent = 2"
| "nfsstat4_to_u32 Stat_Io = 5"
| "nfsstat4_to_u32 Stat_Nxio = 6"
| "nfsstat4_to_u32 Stat_Access = 13"
| "nfsstat4_to_u32 Stat_Exist = 17"
| "nfsstat4_to_u32 Stat_Xdev = 18"
| "nfsstat4_to_u32 Stat_Notdir = 20"
| "nfsstat4_to_u32 Stat_Isdir = 21"
| "nfsstat4_to_u32 Stat_Inval = 22"
| "nfsstat4_to_u32 Stat_Fbig = 27"
| "nfsstat4_to_u32 Stat_Nospc = 28"
| "nfsstat4_to_u32 Stat_Rofs = 30"
| "nfsstat4_to_u32 Stat_Mlink = 31"
| "nfsstat4_to_u32 Stat_Nametoolong = 63"
| "nfsstat4_to_u32 Stat_Notempty = 66"
| "nfsstat4_to_u32 Stat_Dquot = 69"
| "nfsstat4_to_u32 Stat_Stale = 70"
| "nfsstat4_to_u32 Stat_Badhandle = 10001"
| "nfsstat4_to_u32 Stat_BadCookie = 10003"
| "nfsstat4_to_u32 Stat_Notsupp = 10004"
| "nfsstat4_to_u32 Stat_Toosmall = 10005"
| "nfsstat4_to_u32 Stat_Serverfault = 10006"
| "nfsstat4_to_u32 Stat_Badtype = 10007"
| "nfsstat4_to_u32 Stat_Delay = 10008"
| "nfsstat4_to_u32 Stat_Same = 10009"
| "nfsstat4_to_u32 Stat_Denied = 10010"
| "nfsstat4_to_u32 Stat_Expired = 10011"
| "nfsstat4_to_u32 Stat_Locked = 10012"
| "nfsstat4_to_u32 Stat_Grace = 10013"
| "nfsstat4_to_u32 Stat_Fhexpired = 10014"
| "nfsstat4_to_u32 Stat_ShareDenied = 10015"
| "nfsstat4_to_u32 Stat_WrongSec = 10016"
| "nfsstat4_to_u32 Stat_ClidInuse = 10017"
| "nfsstat4_to_u32 Stat_Moved = 10019"
| "nfsstat4_to_u32 Stat_Nofilehandle = 10020"
| "nfsstat4_to_u32 Stat_MinorVersMismatch = 10021"
| "nfsstat4_to_u32 Stat_StaleClientid = 10022"
| "nfsstat4_to_u32 Stat_StaleStateid = 10023"
| "nfsstat4_to_u32 Stat_OldStateid = 10024"
| "nfsstat4_to_u32 Stat_BadStateid = 10025"
| "nfsstat4_to_u32 Stat_BadSeqid = 10026"
| "nfsstat4_to_u32 Stat_NotSame = 10027"
| "nfsstat4_to_u32 Stat_LockRange = 10028"
| "nfsstat4_to_u32 Stat_Symlink = 10029"
| "nfsstat4_to_u32 Stat_Restorefh = 10030"
| "nfsstat4_to_u32 Stat_LeaseMoved = 10031"
| "nfsstat4_to_u32 Stat_AttrNotsupp = 10032"
| "nfsstat4_to_u32 Stat_NoGrace = 10033"
| "nfsstat4_to_u32 Stat_ReclaimBad = 10034"
| "nfsstat4_to_u32 Stat_ReclaimConflict = 10035"
| "nfsstat4_to_u32 Stat_BadXdr = 10036"
| "nfsstat4_to_u32 Stat_LocksHeld = 10037"
| "nfsstat4_to_u32 Stat_Openmode = 10038"
| "nfsstat4_to_u32 Stat_BadOwner = 10039"
| "nfsstat4_to_u32 Stat_Badchar = 10040"
| "nfsstat4_to_u32 Stat_Badname = 10041"
| "nfsstat4_to_u32 Stat_BadRange = 10042"
| "nfsstat4_to_u32 Stat_LockNotsupp = 10043"
| "nfsstat4_to_u32 Stat_OpIllegal = 10044"
| "nfsstat4_to_u32 Stat_Deadlock = 10045"
| "nfsstat4_to_u32 Stat_FileOpen = 10046"
| "nfsstat4_to_u32 Stat_AdminRevoked = 10047"
| "nfsstat4_to_u32 Stat_CbPathDown = 10048"
| "nfsstat4_to_u32 Stat_BadIomode = 10049"
| "nfsstat4_to_u32 Stat_BadLayout = 10050"
| "nfsstat4_to_u32 Stat_BadSessionDigest = 10051"
| "nfsstat4_to_u32 Stat_BadSession = 10052"
| "nfsstat4_to_u32 Stat_BadSlot = 10053"
| "nfsstat4_to_u32 Stat_CompleteAlready = 10054"
| "nfsstat4_to_u32 Stat_ConnNotBoundToSession = 10055"
| "nfsstat4_to_u32 Stat_DelegAlreadyWanted = 10056"
| "nfsstat4_to_u32 Stat_BackChanBusy = 10057"
| "nfsstat4_to_u32 Stat_LayoutTrylater = 10058"
| "nfsstat4_to_u32 Stat_LayoutUnavailable = 10059"
| "nfsstat4_to_u32 Stat_NomatchingLayout = 10060"
| "nfsstat4_to_u32 Stat_RecallConflict = 10061"
| "nfsstat4_to_u32 Stat_UnknownLayouttype = 10062"
| "nfsstat4_to_u32 Stat_SeqMisordered = 10063"
| "nfsstat4_to_u32 Stat_SequencePos = 10064"
| "nfsstat4_to_u32 Stat_ReqTooBig = 10065"
| "nfsstat4_to_u32 Stat_RepTooBig = 10066"
| "nfsstat4_to_u32 Stat_RepTooBigToCache = 10067"
| "nfsstat4_to_u32 Stat_RetryUncachedRep = 10068"
| "nfsstat4_to_u32 Stat_UnsafeCompound = 10069"
| "nfsstat4_to_u32 Stat_TooManyOps = 10070"
| "nfsstat4_to_u32 Stat_OpNotInSession = 10071"
| "nfsstat4_to_u32 Stat_HashAlgUnsupp = 10072"
| "nfsstat4_to_u32 Stat_ClientidBusy = 10074"
| "nfsstat4_to_u32 Stat_PnfsIoHole = 10075"
| "nfsstat4_to_u32 Stat_SeqFalseRetry = 10076"
| "nfsstat4_to_u32 Stat_BadHighSlot = 10077"
| "nfsstat4_to_u32 Stat_DeadSession = 10078"
| "nfsstat4_to_u32 Stat_EncrAlgUnsupp = 10079"
| "nfsstat4_to_u32 Stat_PnfsNoLayout = 10080"
| "nfsstat4_to_u32 Stat_NotOnlyOp = 10081"
| "nfsstat4_to_u32 Stat_WrongCred = 10082"
| "nfsstat4_to_u32 Stat_WrongType = 10083"
| "nfsstat4_to_u32 Stat_DirDelegUnavail = 10084"
| "nfsstat4_to_u32 Stat_RejectDeleg = 10085"
| "nfsstat4_to_u32 Stat_ReturnConflict = 10086"
| "nfsstat4_to_u32 Stat_DelegRevoked = 10087"
| "nfsstat4_to_u32 Stat_NoXattr = 10095"
| "nfsstat4_to_u32 Stat_Xattr2Big = 10096"

definition nfsstat4_from_u32 :: "u32 \<Rightarrow> nfsstat4 option" where
  "nfsstat4_from_u32 v =
     (if v = 0 then Some Stat_Ok
      else if v = 1 then Some Stat_Perm
      else if v = 2 then Some Stat_Noent
      else if v = 5 then Some Stat_Io
      else if v = 6 then Some Stat_Nxio
      else if v = 13 then Some Stat_Access
      else if v = 17 then Some Stat_Exist
      else if v = 18 then Some Stat_Xdev
      else if v = 20 then Some Stat_Notdir
      else if v = 21 then Some Stat_Isdir
      else if v = 22 then Some Stat_Inval
      else if v = 27 then Some Stat_Fbig
      else if v = 28 then Some Stat_Nospc
      else if v = 30 then Some Stat_Rofs
      else if v = 31 then Some Stat_Mlink
      else if v = 63 then Some Stat_Nametoolong
      else if v = 66 then Some Stat_Notempty
      else if v = 69 then Some Stat_Dquot
      else if v = 70 then Some Stat_Stale
      else if v = 10001 then Some Stat_Badhandle
      else if v = 10003 then Some Stat_BadCookie
      else if v = 10004 then Some Stat_Notsupp
      else if v = 10005 then Some Stat_Toosmall
      else if v = 10006 then Some Stat_Serverfault
      else if v = 10007 then Some Stat_Badtype
      else if v = 10008 then Some Stat_Delay
      else if v = 10009 then Some Stat_Same
      else if v = 10010 then Some Stat_Denied
      else if v = 10011 then Some Stat_Expired
      else if v = 10012 then Some Stat_Locked
      else if v = 10013 then Some Stat_Grace
      else if v = 10014 then Some Stat_Fhexpired
      else if v = 10015 then Some Stat_ShareDenied
      else if v = 10016 then Some Stat_WrongSec
      else if v = 10017 then Some Stat_ClidInuse
      else if v = 10019 then Some Stat_Moved
      else if v = 10020 then Some Stat_Nofilehandle
      else if v = 10021 then Some Stat_MinorVersMismatch
      else if v = 10022 then Some Stat_StaleClientid
      else if v = 10023 then Some Stat_StaleStateid
      else if v = 10024 then Some Stat_OldStateid
      else if v = 10025 then Some Stat_BadStateid
      else if v = 10026 then Some Stat_BadSeqid
      else if v = 10027 then Some Stat_NotSame
      else if v = 10028 then Some Stat_LockRange
      else if v = 10029 then Some Stat_Symlink
      else if v = 10030 then Some Stat_Restorefh
      else if v = 10031 then Some Stat_LeaseMoved
      else if v = 10032 then Some Stat_AttrNotsupp
      else if v = 10033 then Some Stat_NoGrace
      else if v = 10034 then Some Stat_ReclaimBad
      else if v = 10035 then Some Stat_ReclaimConflict
      else if v = 10036 then Some Stat_BadXdr
      else if v = 10037 then Some Stat_LocksHeld
      else if v = 10038 then Some Stat_Openmode
      else if v = 10039 then Some Stat_BadOwner
      else if v = 10040 then Some Stat_Badchar
      else if v = 10041 then Some Stat_Badname
      else if v = 10042 then Some Stat_BadRange
      else if v = 10043 then Some Stat_LockNotsupp
      else if v = 10044 then Some Stat_OpIllegal
      else if v = 10045 then Some Stat_Deadlock
      else if v = 10046 then Some Stat_FileOpen
      else if v = 10047 then Some Stat_AdminRevoked
      else if v = 10048 then Some Stat_CbPathDown
      else if v = 10049 then Some Stat_BadIomode
      else if v = 10050 then Some Stat_BadLayout
      else if v = 10051 then Some Stat_BadSessionDigest
      else if v = 10052 then Some Stat_BadSession
      else if v = 10053 then Some Stat_BadSlot
      else if v = 10054 then Some Stat_CompleteAlready
      else if v = 10055 then Some Stat_ConnNotBoundToSession
      else if v = 10056 then Some Stat_DelegAlreadyWanted
      else if v = 10057 then Some Stat_BackChanBusy
      else if v = 10058 then Some Stat_LayoutTrylater
      else if v = 10059 then Some Stat_LayoutUnavailable
      else if v = 10060 then Some Stat_NomatchingLayout
      else if v = 10061 then Some Stat_RecallConflict
      else if v = 10062 then Some Stat_UnknownLayouttype
      else if v = 10063 then Some Stat_SeqMisordered
      else if v = 10064 then Some Stat_SequencePos
      else if v = 10065 then Some Stat_ReqTooBig
      else if v = 10066 then Some Stat_RepTooBig
      else if v = 10067 then Some Stat_RepTooBigToCache
      else if v = 10068 then Some Stat_RetryUncachedRep
      else if v = 10069 then Some Stat_UnsafeCompound
      else if v = 10070 then Some Stat_TooManyOps
      else if v = 10071 then Some Stat_OpNotInSession
      else if v = 10072 then Some Stat_HashAlgUnsupp
      else if v = 10074 then Some Stat_ClientidBusy
      else if v = 10075 then Some Stat_PnfsIoHole
      else if v = 10076 then Some Stat_SeqFalseRetry
      else if v = 10077 then Some Stat_BadHighSlot
      else if v = 10078 then Some Stat_DeadSession
      else if v = 10079 then Some Stat_EncrAlgUnsupp
      else if v = 10080 then Some Stat_PnfsNoLayout
      else if v = 10081 then Some Stat_NotOnlyOp
      else if v = 10082 then Some Stat_WrongCred
      else if v = 10083 then Some Stat_WrongType
      else if v = 10084 then Some Stat_DirDelegUnavail
      else if v = 10085 then Some Stat_RejectDeleg
      else if v = 10086 then Some Stat_ReturnConflict
      else if v = 10087 then Some Stat_DelegRevoked
      else if v = 10095 then Some Stat_NoXattr
      else if v = 10096 then Some Stat_Xattr2Big
      else None)"

definition encode_nfsstat4 :: "nfsstat4 \<Rightarrow> bytes" where
  "encode_nfsstat4 s = encode_u32 (nfsstat4_to_u32 s)"

definition decode_nfsstat4 :: "nfsstat4 decoder" where
  "decode_nfsstat4 = dec_bind decode_u32 (\<lambda>v.
     case nfsstat4_from_u32 v of None \<Rightarrow> dec_fail (Xdr_InvalidEnum v) | Some s \<Rightarrow> dec_return s)"

lemma nfsstat4_from_to: "nfsstat4_from_u32 (nfsstat4_to_u32 s) = Some s"
  by (cases s) (simp_all add: nfsstat4_from_u32_def)

lemma nfsstat4_to_from: "nfsstat4_from_u32 v = Some s \<Longrightarrow> nfsstat4_to_u32 s = v"
  by (auto simp: nfsstat4_from_u32_def split: if_splits)

lemma nfsstat4_to_u32_inj: "nfsstat4_to_u32 a = nfsstat4_to_u32 b \<longleftrightarrow> a = b"
  by (metis nfsstat4_from_to option.inject)

text \<open>Every status code is sent as a distinct code, and nothing else is accepted.\<close>

interpretation nfsstat4: canonical_codec encode_nfsstat4 decode_nfsstat4 "\<lambda>_. True"
proof unfold_locales
  fix src x rest
  assume "decode_nfsstat4 src = Inr (x, rest)"
  then obtain v where "decode_u32 src = Inr (v, rest)" and "nfsstat4_from_u32 v = Some x"
    by (auto simp: decode_nfsstat4_def dec_bind_eq_Inr dec_return_def dec_fail_def
        split: option.splits)
  then show "src = encode_nfsstat4 x @ rest"
    using u32.enc_dec nfsstat4_to_from by (simp add: encode_nfsstat4_def)
next
  show "dec_sound (\<lambda>_. True) decode_nfsstat4"
    unfolding decode_nfsstat4_def
    by (rule dec_sound_bind [OF u32.sound]) (simp add: xdr_sound split: option.split)
qed (simp add: decode_nfsstat4_def encode_nfsstat4_def xdr_simps nfsstat4_from_to)

text \<open>Equality of status codes is equality of their codes.\<close>

instantiation nfsstat4 :: equal
begin

definition equal_nfsstat4 :: "nfsstat4 \<Rightarrow> nfsstat4 \<Rightarrow> bool" where
  "equal_nfsstat4 a b \<longleftrightarrow> nfsstat4_to_u32 a = nfsstat4_to_u32 b"

instance
  by standard (simp add: equal_nfsstat4_def nfsstat4_to_u32_inj)

end

end
