(* ===== verification/Nfs_Types.thy ===== *)
theory Nfs_Types
  imports Nfs_Status
begin

text \<open>
  The basic NFSv4 protocol types of \<^verbatim>\<open>crates/embednfs-proto/src/types/basic.rs\<close> and
  \<^verbatim>\<open>types/constants.rs\<close> with their wire forms: file handles, file types, times, state ids,
  attribute bitmaps, \<^verbatim>\<open>fattr4\<close> and \<^verbatim>\<open>change_info4\<close>.
\<close>

type_synonym clientid4 = u64
type_synonym sessionid4 = bytes
type_synonym verifier4 = bytes
type_synonym nfs_fh4 = bytes

section \<open>File handles and file types\<close>

definition encode_nfs_fh4 :: "nfs_fh4 \<Rightarrow> bytes" where
  "encode_nfs_fh4 fh = encode_opaque fh"

definition decode_nfs_fh4 :: "nfs_fh4 decoder" where
  "decode_nfs_fh4 = dec_bind (decode_opaque_max 128) dec_return"

datatype nfs_ftype4 =
    Ft_Reg | Ft_Dir | Ft_Blk | Ft_Chr | Ft_Lnk | Ft_Sock | Ft_Fifo | Ft_AttrDir | Ft_NamedAttr

primrec nfs_ftype4_to_u32 :: "nfs_ftype4 \<Rightarrow> u32" where
  "nfs_ftype4_to_u32 Ft_Reg = 1"
| "nfs_ftype4_to_u32 Ft_Dir = 2"
| "nfs_ftype4_to_u32 Ft_Blk = 3"
| "nfs_ftype4_to_u32 Ft_Chr = 4"
| "nfs_ftype4_to_u32 Ft_Lnk = 5"
| "nfs_ftype4_to_u32 Ft_Sock = 6"
| "nfs_ftype4_to_u32 Ft_Fifo = 7"
| "nfs_ftype4_to_u32 Ft_AttrDir = 8"
| "nfs_ftype4_to_u32 Ft_NamedAttr = 9"

definition encode_nfs_ftype4 :: "nfs_ftype4 \<Rightarrow> bytes" where
  "encode_nfs_ftype4 t = encode_u32 (nfs_ftype4_to_u32 t)"

definition decode_nfs_ftype4 :: "nfs_ftype4 decoder" where
  "decode_nfs_ftype4 = dec_bind decode_u32 (\<lambda>v.
     if v = 1 then dec_return Ft_Reg
     else if v = 2 then dec_return Ft_Dir
     else if v = 3 then dec_return Ft_Blk
     else if v = 4 then dec_return Ft_Chr
     else if v = 5 then dec_return Ft_Lnk
     else if v = 6 then dec_return Ft_Sock
     else if v = 7 then dec_return Ft_Fifo
     else if v = 8 then dec_return Ft_AttrDir
     else if v = 9 then dec_return Ft_NamedAttr
     else dec_fail (Xdr_InvalidEnum v))"

interpretation nfs_fh4: codec encode_nfs_fh4 decode_nfs_fh4 "\<lambda>fh. length fh \<le> 128"
proof unfold_locales
  show "dec_sound (\<lambda>fh. length fh \<le> 128) decode_nfs_fh4"
    unfolding decode_nfs_fh4_def
    by (rule dec_sound_bind [OF opaque_max.sound]) (simp add: xdr_sound)
qed (simp add: decode_nfs_fh4_def encode_nfs_fh4_def xdr_simps)

interpretation nfs_ftype4: codec encode_nfs_ftype4 decode_nfs_ftype4 "\<lambda>_. True"
proof unfold_locales
  fix x rest
  show "decode_nfs_ftype4 (encode_nfs_ftype4 x @ rest) = Inr (x, rest)"
    by (cases x) (simp_all add: decode_nfs_ftype4_def encode_nfs_ftype4_def xdr_simps)
next
  show "dec_sound (\<lambda>_. True) decode_nfs_ftype4"
    unfolding decode_nfs_ftype4_def by (intro dec_sound_bind [OF u32.sound] xdr_sound TrueI)
qed

section \<open>Times, file system ids, device numbers\<close>

record nfs_time4 =
  nt_seconds :: u64
  nt_nseconds :: u32

definition encode_nfs_time4 :: "nfs_time4 \<Rightarrow> bytes" where
  "encode_nfs_time4 t = encode_i64 (nt_seconds t) @ encode_u32 (nt_nseconds t)"

definition decode_nfs_time4 :: "nfs_time4 decoder" where
  "decode_nfs_time4 =
     dec_bind decode_i64 (\<lambda>s. dec_bind decode_u32 (\<lambda>n.
     dec_return \<lparr>nt_seconds = s, nt_nseconds = n\<rparr>))"

interpretation nfs_time4: codec encode_nfs_time4 decode_nfs_time4 "\<lambda>_. True"
  by unfold_locales (simp add: encode_nfs_time4_def decode_nfs_time4_def xdr_simps,
    unfold decode_nfs_time4_def,
    intro dec_sound_bind [OF i64.sound] dec_sound_bind [OF u32.sound] dec_sound_return TrueI)

record fsid4 =
  fs_major :: u64
  fs_minor :: u64

definition encode_fsid4 :: "fsid4 \<Rightarrow> bytes" where
  "encode_fsid4 f = encode_u64 (fs_major f) @ encode_u64 (fs_minor f)"

definition decode_fsid4 :: "fsid4 decoder" where
  "decode_fsid4 =
     dec_bind decode_u64 (\<lambda>a. dec_bind decode_u64 (\<lambda>b.
     dec_return \<lparr>fs_major = a, fs_minor = b\<rparr>))"

interpretation fsid4: codec encode_fsid4 decode_fsid4 "\<lambda>_. True"
  by unfold_locales (simp add: encode_fsid4_def decode_fsid4_def xdr_simps,
    unfold decode_fsid4_def, intro dec_sound_bind [OF u64.sound] dec_sound_return TrueI)

record specdata4 =
  sp_specdata1 :: u32
  sp_specdata2 :: u32

definition encode_specdata4 :: "specdata4 \<Rightarrow> bytes" where
  "encode_specdata4 s = encode_u32 (sp_specdata1 s) @ encode_u32 (sp_specdata2 s)"

section \<open>State ids\<close>

record stateid4 =
  sid_seqid :: u32
  sid_other :: bytes

definition STATEID_ANONYMOUS :: stateid4 where
  "STATEID_ANONYMOUS = \<lparr>sid_seqid = 0, sid_other = replicate 12 0\<rparr>"

definition STATEID_CURRENT :: stateid4 where
  "STATEID_CURRENT = \<lparr>sid_seqid = 1, sid_other = replicate 12 0\<rparr>"

definition STATEID_BYPASS :: stateid4 where
  "STATEID_BYPASS = \<lparr>sid_seqid = 0xffffffff, sid_other = replicate 12 0xff\<rparr>"

definition encode_stateid4 :: "stateid4 \<Rightarrow> bytes" where
  "encode_stateid4 s = encode_u32 (sid_seqid s) @ sid_other s"

definition decode_stateid4 :: "stateid4 decoder" where
  "decode_stateid4 =
     dec_bind decode_u32 (\<lambda>seqid.
     dec_bind (decode_fixed_opaque 12) (\<lambda>other.
     dec_return \<lparr>sid_seqid = seqid, sid_other = other\<rparr>))"

lemma decode_fixed_opaque_aligned:
  "length data = 12 \<Longrightarrow> decode_fixed_opaque 12 (data @ rest) = Inr (data, rest)"
  using decode_encode_fixed_opaque [of data 12 rest]
  by (simp add: encode_fixed_opaque_def xdr_pad_mod)

interpretation stateid4: codec encode_stateid4 decode_stateid4 "\<lambda>s. length (sid_other s) = 12"
proof unfold_locales
  show "dec_sound (\<lambda>s. length (sid_other s) = 12) decode_stateid4"
    unfolding decode_stateid4_def
    by (intro dec_sound_bind [OF u32.sound] dec_sound_bind [OF fixed_opaque.sound]
        dec_sound_return) simp
qed (simp add: decode_stateid4_def encode_stateid4_def xdr_simps decode_fixed_opaque_aligned)

section \<open>Attribute bitmaps\<close>

type_synonym bitmap4 = "u32 list"

definition bitmap4_is_set :: "bitmap4 \<Rightarrow> u32 \<Rightarrow> bool" where
  "bitmap4_is_set bm bitno =
     (let word_ix = unat (bitno div 32); mask = push_bit (unat (bitno mod 32)) (1 :: u32) in
      word_ix < length bm \<and> (bm ! word_ix) AND mask \<noteq> 0)"

text \<open>The loop that pushes zero words until the requested word exists.\<close>

function bitmap4_grow :: "nat \<Rightarrow> bitmap4 \<Rightarrow> bitmap4" where
  "bitmap4_grow word_ix bm =
     (if length bm \<le> word_ix then bitmap4_grow word_ix (bm @ [0]) else bm)"
  by auto
termination
  by (relation "measure (\<lambda>(word_ix, bm). Suc word_ix - length bm)") auto

declare bitmap4_grow.simps [simp del]

definition bitmap4_set :: "bitmap4 \<Rightarrow> u32 \<Rightarrow> bitmap4" where
  "bitmap4_set bm bitno =
     (let word_ix = unat (bitno div 32); mask = push_bit (unat (bitno mod 32)) (1 :: u32);
          grown = bitmap4_grow word_ix bm in
      grown[word_ix := grown ! word_ix OR mask])"

text \<open>\<^verbatim>\<open>iter().rposition(..)\<close>: the index of the last element with the property.\<close>

fun rposition :: "('a \<Rightarrow> bool) \<Rightarrow> 'a list \<Rightarrow> nat option" where
  "rposition P [] = None"
| "rposition P (x # xs) = (case rposition P xs of
       Some i \<Rightarrow> Some (i + 1)
     | None \<Rightarrow> if P x then Some 0 else None)"

definition bitmap4_trimmed_len :: "bitmap4 \<Rightarrow> nat" where
  "bitmap4_trimmed_len bm = (case rposition (\<lambda>w. w \<noteq> 0) bm of None \<Rightarrow> 0 | Some idx \<Rightarrow> idx + 1)"

definition encode_bitmap4 :: "bitmap4 \<Rightarrow> bytes" where
  "encode_bitmap4 bm =
     (let trimmed_len = bitmap4_trimmed_len bm in
      encode_u32 (word_of_nat trimmed_len) @ concat (map encode_u32 (take trimmed_len bm)))"

definition decode_bitmap4 :: "bitmap4 decoder" where
  "decode_bitmap4 = dec_bind decode_u32 (\<lambda>n src.
     let count = unat n in
     if 2 ^ 64 \<le> count * 4 then Inl Xdr_Overflow
     else if length src < count * 4 then Inl Xdr_Underflow
     else decode_items decode_u32 count src)"

lemma length_bitmap4_grow: "length (bitmap4_grow n bm) = max (length bm) (Suc n)"
proof (induction n bm rule: bitmap4_grow.induct)
  case (1 n bm)
  then show ?case by (subst bitmap4_grow.simps) auto
qed

lemma nth_bitmap4_grow:
  "i < length (bitmap4_grow n bm) \<Longrightarrow> bitmap4_grow n bm ! i = (if i < length bm then bm ! i else 0)"
proof (induction n bm rule: bitmap4_grow.induct)
  case (1 n bm)
  show ?case
  proof (cases "length bm \<le> n")
    case True
    then have "bitmap4_grow n bm = bitmap4_grow n (bm @ [0])"
      by (subst bitmap4_grow.simps) simp
    with 1 True show ?thesis by (auto simp: nth_append less_Suc_eq)
  next
    case False
    then have "bitmap4_grow n bm = bm"
      by (subst bitmap4_grow.simps) simp
    with 1(2) show ?thesis by simp
  qed
qed

lemma bitmap4_is_set_iff:
  "bitmap4_is_set bm b \<longleftrightarrow>
     unat b div 32 < length bm \<and> bit (bm ! (unat b div 32)) (unat b mod 32)"
  by (simp only: bitmap4_is_set_def Let_def bit_iff_and_push_bit_not_eq_0 [symmetric] unat_div
      unat_mod) simp

lemma bitmap4_is_set_set:
  "bitmap4_is_set (bitmap4_set bm b) b' \<longleftrightarrow> b' = b \<or> bitmap4_is_set bm b'"
proof -
  let ?i = "unat b div 32" and ?j = "unat b' div 32"
  have eq: "b' = b \<longleftrightarrow> ?j = ?i \<and> unat b' mod 32 = unat b mod 32"
    by (metis div_mult_mod_eq unsigned_word_eqI)
  have lt: "unat b mod 32 < 32"
    by simp
  show ?thesis
    by (auto simp: bitmap4_is_set_iff bitmap4_set_def Let_def length_bitmap4_grow nth_list_update
        nth_bitmap4_grow bit_or_iff bit_exp_iff unat_div unat_mod eq)
qed

lemma rposition_None: "rposition P xs = None \<Longrightarrow> x \<in> set xs \<Longrightarrow> \<not> P x"
  by (induction xs) (auto split: option.splits if_splits)

lemma rposition_Some:
  "rposition P xs = Some i \<Longrightarrow> i < length xs \<and> P (xs ! i) \<and> (\<forall>j < length xs. i < j \<longrightarrow> \<not> P (xs ! j))"
proof (induction xs arbitrary: i)
  case Nil
  then show ?case by simp
next
  case (Cons x xs)
  show ?case
  proof (cases "rposition P xs")
    case None
    then have "\<forall>j < length xs. \<not> P (xs ! j)"
      using rposition_None [of P xs] by (simp add: all_set_conv_all_nth [symmetric])
    with Cons.prems None show ?thesis by (auto simp: nth_Cons' split: if_splits)
  next
    case (Some k)
    with Cons show ?thesis by (auto simp: nth_Cons' split: if_splits)
  qed
qed

lemma bitmap4_trimmed_len_le: "bitmap4_trimmed_len bm \<le> length bm"
  by (auto simp: bitmap4_trimmed_len_def dest: rposition_Some split: option.split)

lemma bitmap4_beyond_trimmed:
  "bitmap4_trimmed_len bm \<le> i \<Longrightarrow> i < length bm \<Longrightarrow> bm ! i = 0"
  using rposition_None [of "\<lambda>w. w \<noteq> 0" bm] rposition_Some [of "\<lambda>w. w \<noteq> 0" bm]
  by (fastforce simp: bitmap4_trimmed_len_def split: option.splits)

lemma bitmap4_is_set_trim:
  "bitmap4_is_set (take (bitmap4_trimmed_len bm) bm) b \<longleftrightarrow> bitmap4_is_set bm b"
  using bitmap4_trimmed_len_le [of bm] bitmap4_beyond_trimmed [of bm "unat b div 32"]
  by (cases "unat b div 32 < bitmap4_trimmed_len bm") (auto simp: bitmap4_is_set_iff)

lemma length_concat_encode_u32: "length (concat (map encode_u32 ws)) = 4 * length ws"
  by (induction ws) auto

text \<open>
  The wire form drops trailing zero words, so what comes back is the trimmed bitmap: the same set
  of attributes.
\<close>

lemma decode_encode_bitmap4 [xdr_simps]:
  assumes "length bm < 2 ^ 32"
  shows "decode_bitmap4 (encode_bitmap4 bm @ rest) = Inr (take (bitmap4_trimmed_len bm) bm, rest)"
proof -
  let ?n = "bitmap4_trimmed_len bm" and ?t = "take (bitmap4_trimmed_len bm) bm"
  have n: "?n \<le> length bm" "?n < 2 ^ 32"
    using bitmap4_trimmed_len_le [of bm] assms by auto
  have "decode_items decode_u32 (length ?t) (concat (map encode_u32 ?t) @ rest) = Inr (?t, rest)"
    by (rule u32.dec_items_enc) (simp add: list_all_iff)
  with n show ?thesis
    by (simp add: decode_bitmap4_def encode_bitmap4_def Let_def dec_bind_def decode_encode_u32
        unat_of_nat length_concat_encode_u32)
qed

lemma decode_bitmap4_sound: "dec_sound (\<lambda>bm. length bm < 2 ^ 32) decode_bitmap4"
  unfolding decode_bitmap4_def
proof (rule dec_sound_bind [OF u32.sound])
  fix n :: u32
  have "dec_sound (\<lambda>bm. length bm < 2 ^ 32) (decode_items decode_u32 (unat n))"
    by (rule dec_sound_mono [OF u32.items_sound]) simp
  then show "dec_sound (\<lambda>bm. length bm < 2 ^ 32) (\<lambda>src. let count = unat n in
      if 2 ^ 64 \<le> count * 4 then Inl Xdr_Overflow
      else if length src < count * 4 then Inl Xdr_Underflow
      else decode_items decode_u32 count src)"
    unfolding dec_sound_def by (simp add: Let_def)
qed

section \<open>Attributes and change information\<close>

record fattr4 =
  fa_attrmask :: bitmap4
  fa_attr_vals :: bytes

definition encode_fattr4 :: "fattr4 \<Rightarrow> bytes" where
  "encode_fattr4 f = encode_bitmap4 (fa_attrmask f) @ encode_opaque (fa_attr_vals f)"

definition decode_fattr4 :: "fattr4 decoder" where
  "decode_fattr4 =
     dec_bind decode_bitmap4 (\<lambda>attrmask.
     dec_bind decode_opaque (\<lambda>attr_vals.
     dec_return \<lparr>fa_attrmask = attrmask, fa_attr_vals = attr_vals\<rparr>))"

lemma decode_encode_fattr4:
  assumes "length (fa_attrmask f) < 2 ^ 32" and "length (fa_attr_vals f) < 2 ^ 32"
  shows "decode_fattr4 (encode_fattr4 f @ rest) =
    Inr (f\<lparr>fa_attrmask := take (bitmap4_trimmed_len (fa_attrmask f)) (fa_attrmask f)\<rparr>, rest)"
  using assms
  by (simp add: decode_fattr4_def encode_fattr4_def dec_bind_def decode_encode_bitmap4
      decode_encode_opaque dec_return_def del: power_numeral)

record change_info4 =
  ci_atomic :: bool
  ci_before :: u64
  ci_after :: u64

definition encode_change_info4 :: "change_info4 \<Rightarrow> bytes" where
  "encode_change_info4 c =
     encode_bool (ci_atomic c) @ encode_u64 (ci_before c) @ encode_u64 (ci_after c)"

section \<open>Lock types and state owners\<close>

text \<open>From \<^verbatim>\<open>types/operations.rs\<close>.\<close>

datatype nfs_lock_type4 = ReadLt | WriteLt | ReadwLt | WritewLt

primrec nfs_lock_type4_to_u32 :: "nfs_lock_type4 \<Rightarrow> u32" where
  "nfs_lock_type4_to_u32 ReadLt = 1"
| "nfs_lock_type4_to_u32 WriteLt = 2"
| "nfs_lock_type4_to_u32 ReadwLt = 3"
| "nfs_lock_type4_to_u32 WritewLt = 4"

definition encode_nfs_lock_type4 :: "nfs_lock_type4 \<Rightarrow> bytes" where
  "encode_nfs_lock_type4 t = encode_u32 (nfs_lock_type4_to_u32 t)"

definition decode_nfs_lock_type4 :: "nfs_lock_type4 decoder" where
  "decode_nfs_lock_type4 = dec_bind decode_u32 (\<lambda>v.
     if v = 1 then dec_return ReadLt
     else if v = 2 then dec_return WriteLt
     else if v = 3 then dec_return ReadwLt
     else if v = 4 then dec_return WritewLt
     else dec_fail (Xdr_InvalidEnum v))"

interpretation nfs_lock_type4: codec encode_nfs_lock_type4 decode_nfs_lock_type4 "\<lambda>_. True"
proof unfold_locales
  fix x rest
  show "decode_nfs_lock_type4 (encode_nfs_lock_type4 x @ rest) = Inr (x, rest)"
    by (cases x) (simp_all add: decode_nfs_lock_type4_def encode_nfs_lock_type4_def xdr_simps)
next
  show "dec_sound (\<lambda>_. True) decode_nfs_lock_type4"
    unfolding decode_nfs_lock_type4_def by (intro dec_sound_bind [OF u32.sound] xdr_sound TrueI)
qed

record state_owner4 =
  so_clientid :: clientid4
  so_owner :: bytes

definition decode_state_owner4 :: "state_owner4 decoder" where
  "decode_state_owner4 =
     dec_bind decode_u64 (\<lambda>clientid.
     dec_bind (decode_opaque_max 1024) (\<lambda>owner.
     dec_return \<lparr>so_clientid = clientid, so_owner = owner\<rparr>))"

record lock_denied4 =
  ld_offset :: u64
  ld_length :: u64
  ld_locktype :: nfs_lock_type4
  ld_owner :: state_owner4

end
