(* ===== verification/Session_Types.thy ===== *)
theory Session_Types
  imports Nfs_Types Rpc
begin

text \<open>
  The arguments and results of the session operations, \<^verbatim>\<open>crates/embednfs-proto/src/types/session.rs\<close>,
  and of the NFSv4.0 client operations of \<^verbatim>\<open>types/operations.rs\<close>, with the wire forms that file
  implements.
\<close>

section \<open>Channel attributes\<close>

record channel_attrs4 =
  ca_headerpadsize :: u32
  ca_maxrequestsize :: u32
  ca_maxresponsesize :: u32
  ca_maxresponsesize_cached :: u32
  ca_maxoperations :: u32
  ca_maxrequests :: u32
  ca_rdma_ird :: "u32 list"

definition encode_channel_attrs4 :: "channel_attrs4 \<Rightarrow> bytes" where
  "encode_channel_attrs4 c =
     encode_u32 (ca_headerpadsize c) @ encode_u32 (ca_maxrequestsize c)
     @ encode_u32 (ca_maxresponsesize c) @ encode_u32 (ca_maxresponsesize_cached c)
     @ encode_u32 (ca_maxoperations c) @ encode_u32 (ca_maxrequests c)
     @ encode_list encode_u32 (ca_rdma_ird c)"

definition decode_channel_attrs4 :: "channel_attrs4 decoder" where
  "decode_channel_attrs4 =
     dec_bind decode_u32 (\<lambda>headerpadsize.
     dec_bind decode_u32 (\<lambda>maxrequestsize.
     dec_bind decode_u32 (\<lambda>maxresponsesize.
     dec_bind decode_u32 (\<lambda>maxresponsesize_cached.
     dec_bind decode_u32 (\<lambda>maxoperations.
     dec_bind decode_u32 (\<lambda>maxrequests.
     dec_bind (decode_list decode_u32) (\<lambda>rdma_ird.
     dec_return \<lparr>ca_headerpadsize = headerpadsize, ca_maxrequestsize = maxrequestsize,
       ca_maxresponsesize = maxresponsesize, ca_maxresponsesize_cached = maxresponsesize_cached,
       ca_maxoperations = maxoperations, ca_maxrequests = maxrequests, ca_rdma_ird = rdma_ird\<rparr>)))))))"

definition channel_attrs4_default :: channel_attrs4 where
  "channel_attrs4_default = \<lparr>ca_headerpadsize = 0, ca_maxrequestsize = 1049620,
     ca_maxresponsesize = 1049620, ca_maxresponsesize_cached = 6144, ca_maxoperations = 16,
     ca_maxrequests = 64, ca_rdma_ird = []\<rparr>"

interpretation u32_list: codec "encode_list encode_u32" "decode_list decode_u32"
    "\<lambda>xs. list_all (\<lambda>_. True) xs \<and> length xs < 2 ^ 32"
  by (rule u32.codec_list)

interpretation channel_attrs4: codec encode_channel_attrs4 decode_channel_attrs4
    "\<lambda>c. length (ca_rdma_ird c) < 2 ^ 32"
proof unfold_locales
  show "dec_sound (\<lambda>c. length (ca_rdma_ird c) < 2 ^ 32) decode_channel_attrs4"
    unfolding decode_channel_attrs4_def
    by (intro dec_sound_bind [OF u32.sound] dec_sound_bind [OF u32_list.sound] dec_sound_return) simp
qed (simp add: encode_channel_attrs4_def decode_channel_attrs4_def xdr_simps u32_list.dec_enc
    list_all_iff del: power_numeral)

section \<open>Clients\<close>

record client_owner4 =
  co_verifier :: verifier4
  co_ownerid :: bytes

definition decode_client_owner4 :: "client_owner4 decoder" where
  "decode_client_owner4 =
     dec_bind (decode_fixed_opaque 8) (\<lambda>verifier.
     dec_bind (decode_opaque_max 1024) (\<lambda>ownerid.
     dec_return \<lparr>co_verifier = verifier, co_ownerid = ownerid\<rparr>))"

lemma decode_client_owner4_sound:
  "dec_sound (\<lambda>o4. length (co_verifier o4) = 8 \<and> length (co_ownerid o4) \<le> 1024) decode_client_owner4"
  unfolding decode_client_owner4_def
  by (intro dec_sound_bind [OF fixed_opaque.sound] dec_sound_bind [OF opaque_max.sound]
      dec_sound_return) simp

record gss_cb_handles4 =
  gh_service :: u32
  gh_handle_from_server :: bytes
  gh_handle_from_client :: bytes

datatype callback_sec_parms4 =
    CbSec_None
  | CbSec_Sys auth_sys_params
  | CbSec_RpcSecGss gss_cb_handles4

definition decode_callback_sec_parms4 :: "callback_sec_parms4 decoder" where
  "decode_callback_sec_parms4 = dec_bind decode_u32 (\<lambda>cb_secflavor.
     if cb_secflavor = 0 then dec_return CbSec_None
     else if cb_secflavor = 1 then
       dec_bind decode_auth_sys_params (\<lambda>p. dec_return (CbSec_Sys p))
     else if cb_secflavor = 6 then
       dec_bind decode_u32 (\<lambda>service.
       dec_bind decode_opaque (\<lambda>from_server.
       dec_bind decode_opaque (\<lambda>from_client.
       dec_return (CbSec_RpcSecGss \<lparr>gh_service = service, gh_handle_from_server = from_server,
         gh_handle_from_client = from_client\<rparr>))))
     else dec_fail (Xdr_InvalidEnum cb_secflavor))"

record state_protect_ops4 =
  so_enforce :: bitmap4
  so_allow :: bitmap4

definition encode_state_protect_ops4 :: "state_protect_ops4 \<Rightarrow> bytes" where
  "encode_state_protect_ops4 p = encode_bitmap4 (so_enforce p) @ encode_bitmap4 (so_allow p)"

record ssv_sp_parms4 =
  sv_ops :: state_protect_ops4
  sv_hash_algs :: "bytes list"
  sv_encr_algs :: "bytes list"
  sv_window :: u32
  sv_num_gss_handles :: u32

record ssv_prot_info4 =
  si_ops :: state_protect_ops4
  si_hash_alg :: u32
  si_encr_alg :: u32
  si_ssv_len :: u32
  si_window :: u32
  si_handles :: "bytes list"

datatype state_protect4_a = SpA_None | SpA_MachCred state_protect_ops4 | SpA_Ssv ssv_sp_parms4

datatype state_protect4_r = SpR_None | SpR_MachCred state_protect_ops4 | SpR_Ssv ssv_prot_info4

definition encode_state_protect4_r :: "state_protect4_r \<Rightarrow> bytes" where
  "encode_state_protect4_r p = (case p of
       SpR_None \<Rightarrow> encode_u32 0
     | SpR_MachCred ops \<Rightarrow> encode_u32 1 @ encode_state_protect_ops4 ops
     | SpR_Ssv info \<Rightarrow> encode_u32 2 @ encode_state_protect_ops4 (si_ops info)
         @ encode_u32 (si_hash_alg info) @ encode_u32 (si_encr_alg info)
         @ encode_u32 (si_ssv_len info) @ encode_u32 (si_window info)
         @ encode_list encode_opaque (si_handles info))"

record nfs_impl_id4 =
  im_domain :: rust_string
  im_name :: rust_string
  im_date :: nfs_time4

definition encode_nfs_impl_id4 :: "nfs_impl_id4 \<Rightarrow> bytes" where
  "encode_nfs_impl_id4 i =
     encode_string (im_domain i) @ encode_string (im_name i) @ encode_nfs_time4 (im_date i)"

definition decode_nfs_impl_id4 :: "nfs_impl_id4 decoder" where
  "decode_nfs_impl_id4 =
     dec_bind decode_string (\<lambda>domain.
     dec_bind decode_string (\<lambda>name.
     dec_bind decode_nfs_time4 (\<lambda>date.
     dec_return \<lparr>im_domain = domain, im_name = name, im_date = date\<rparr>)))"

definition string_ok :: "rust_string \<Rightarrow> bool" where
  "string_ok s \<longleftrightarrow> length s < 2 ^ 32 \<and> utf8_valid s"

interpretation nfs_impl_id4: codec encode_nfs_impl_id4 decode_nfs_impl_id4
    "\<lambda>i. string_ok (im_domain i) \<and> string_ok (im_name i)"
proof unfold_locales
  show "dec_sound (\<lambda>i. string_ok (im_domain i) \<and> string_ok (im_name i)) decode_nfs_impl_id4"
    unfolding decode_nfs_impl_id4_def string_ok_def
    by (intro dec_sound_bind [OF string.sound] dec_sound_bind [OF nfs_time4.sound] dec_sound_return) simp
qed (simp add: encode_nfs_impl_id4_def decode_nfs_impl_id4_def string_ok_def xdr_simps
    nfs_time4.dec_enc)

section \<open>Arguments and results\<close>

record exchange_id_args4 =
  ea_clientowner :: client_owner4
  ea_flags :: u32
  ea_state_protect :: state_protect4_a
  ea_client_impl_id :: "nfs_impl_id4 list"

record create_session_args4 =
  cs_args_clientid :: clientid4
  cs_args_sequence :: u32
  cs_args_flags :: u32
  cs_args_fore_chan_attrs :: channel_attrs4
  cs_args_back_chan_attrs :: channel_attrs4
  cs_args_cb_program :: u32
  cs_args_sec_parms :: "callback_sec_parms4 list"

record sequence_args4 =
  sa_sessionid :: sessionid4
  sa_sequenceid :: u32
  sa_slotid :: u32
  sa_highest_slotid :: u32
  sa_cachethis :: bool

record bind_conn_to_session_args4 =
  bc_args_sessionid :: sessionid4
  bc_args_dir :: u32
  bc_args_use_conn_in_rdma_mode :: bool

record server_owner4 =
  sw_minor_id :: u64
  sw_major_id :: bytes

definition encode_server_owner4 :: "server_owner4 \<Rightarrow> bytes" where
  "encode_server_owner4 s = encode_u64 (sw_minor_id s) @ encode_opaque (sw_major_id s)"

record exchange_id_res4 =
  er_clientid :: clientid4
  er_sequenceid :: u32
  er_flags :: u32
  er_state_protect :: state_protect4_r
  er_server_owner :: server_owner4
  er_server_scope :: bytes
  er_server_impl_id :: "nfs_impl_id4 list"

record create_session_res4 =
  cr_sessionid :: sessionid4
  cr_sequenceid :: u32
  cr_flags :: u32
  cr_fore_chan_attrs :: channel_attrs4
  cr_back_chan_attrs :: channel_attrs4

record sequence_res4 =
  sr_sessionid :: sessionid4
  sr_sequenceid :: u32
  sr_slotid :: u32
  sr_highest_slotid :: u32
  sr_target_highest_slotid :: u32
  sr_status_flags :: u32

record bind_conn_to_session_res4 =
  br_sessionid :: sessionid4
  br_dir :: u32
  br_use_conn_in_rdma_mode :: bool

record nfs_client_callback4 =
  nc_cb_program :: u32
  nc_cb_netid :: rust_string
  nc_cb_addr :: rust_string

record set_client_id_args4 =
  sc_client :: client_owner4
  sc_callback :: nfs_client_callback4
  sc_callback_ident :: u32

record set_client_id_confirm_args4 =
  scc_clientid :: clientid4
  scc_verifier :: verifier4

record set_client_id_res4 =
  scr_clientid :: clientid4
  scr_setclientid_confirm :: verifier4

datatype open_claim4 =
    Claim_Null rust_string
  | Claim_Previous u32
  | Claim_DelegateCur stateid4 rust_string
  | Claim_DelegatePrev rust_string
  | Claim_Fh
  | Claim_DelegCurFh stateid4
  | Claim_DelegPrevFh

end
