(* ===== verification/Lock_Ranges.thy ===== *)
theory Lock_Ranges
  imports Nfs_Types
begin

text \<open>
  Byte-range arithmetic of the lock manager, the range helpers of
  \<^verbatim>\<open>crates/embednfs/src/session/locks.rs\<close>. A range is an offset and a length, both \<^verbatim>\<open>u64\<close>; the length
  \<^verbatim>\<open>u64::MAX\<close> means to the end of the file. Ends are computed in \<^verbatim>\<open>u128\<close>, which never wraps here
  (the sum of two \<^verbatim>\<open>u64\<close> is below \<open>2 ^ 65\<close>), so an end is a \<open>nat\<close>.

  The reference semantics of a list of ranges is the set of bytes it covers with each lock type.
  The lemmas show that replacing and releasing a range have exactly the intended effect on that
  semantics, that the merge loop never panics, and that its result is sorted and merged. Bytes
  are those below \<open>2 ^ 64 - 1\<close>: a bounded range never reaches byte \<open>2 ^ 64 - 1\<close>, but a merged bounded
  range of length \<open>2 ^ 64 - 1\<close> is stored with the length that means to the end of the file.
\<close>

definition U64_MAX :: u64 where "U64_MAX = 0xffffffffffffffff"

definition U128_MAX :: nat where "U128_MAX = 2 ^ 128 - 1"

record lock_range =
  lr_locktype :: nfs_lock_type4
  lr_offset :: u64
  lr_length :: u64

section \<open>The code\<close>

definition lock_end :: "u64 \<Rightarrow> u64 \<Rightarrow> nat" where
  "lock_end offset len = (if len = U64_MAX then U128_MAX else unat offset + unat len)"

definition locks_overlap :: "u64 \<Rightarrow> u64 \<Rightarrow> u64 \<Rightarrow> u64 \<Rightarrow> bool" where
  "locks_overlap a_offset a_length b_offset b_length =
     (let a_end = lock_end a_offset a_length; b_end = lock_end b_offset b_length in
      unat a_offset < b_end \<and> unat b_offset < a_end)"

definition range_from_bounds :: "nfs_lock_type4 \<Rightarrow> u64 \<Rightarrow> nat \<Rightarrow> lock_range option" where
  "range_from_bounds locktype start end_pos =
     (if unat start \<ge> end_pos then None
      else Some \<lparr>lr_locktype = locktype, lr_offset = start,
        lr_length = (if end_pos = U128_MAX then U64_MAX else word_of_nat (end_pos - unat start))\<rparr>)"

definition validate_lock_bounds :: "u64 \<Rightarrow> u64 \<Rightarrow> nfsstat4 + unit" where
  "validate_lock_bounds offset len =
     (if len = 0 then Inl Stat_Inval
      else if len \<noteq> U64_MAX \<and> checked_add offset len = None then Inl Stat_Inval
      else Inr ())"

text \<open>
  One iteration of the merge loop on the ranges merged so far; \<open>None\<close> is the panic of the
  \<^verbatim>\<open>expect\<close>.
\<close>

definition normalize_step :: "lock_range list \<Rightarrow> lock_range \<Rightarrow> lock_range list option" where
  "normalize_step normalized rng =
     (if normalized = [] then Some [rng]
      else
        let last_r = last normalized; last_end = lock_end (lr_offset last_r) (lr_length last_r) in
        if lr_locktype last_r = lr_locktype rng \<and> unat (lr_offset rng) \<le> last_end then
          let merged_end = max last_end (lock_end (lr_offset rng) (lr_length rng)) in
          (case range_from_bounds (lr_locktype last_r) (lr_offset last_r) merged_end of
             None \<Rightarrow> None
           | Some merged \<Rightarrow> Some (butlast normalized @ [merged]))
        else Some (normalized @ [rng]))"

primrec normalize_loop :: "lock_range list \<Rightarrow> lock_range list \<Rightarrow> lock_range list option" where
  "normalize_loop normalized [] = Some normalized"
| "normalize_loop normalized (rng # ranges) =
     (case normalize_step normalized rng of
        None \<Rightarrow> None
      | Some normalized' \<Rightarrow> normalize_loop normalized' ranges)"

definition normalize_lock_ranges :: "lock_range list \<Rightarrow> lock_range list option" where
  "normalize_lock_ranges ranges = normalize_loop [] (sort_key lr_offset ranges)"

text \<open>
  What is left of one stored range when the bytes from \<open>offset\<close> on, \<open>len\<close> of them, are taken out:
  the body of the loops of \<^verbatim>\<open>replace_lock_range\<close> and \<^verbatim>\<open>unlock_state\<close>.
\<close>

definition cut_range :: "u64 \<Rightarrow> u64 \<Rightarrow> lock_range \<Rightarrow> lock_range list" where
  "cut_range offset len rng =
     (if \<not> locks_overlap (lr_offset rng) (lr_length rng) offset len then [rng]
      else
        let cut_end = lock_end offset len;
            range_end = lock_end (lr_offset rng) (lr_length rng);
            left = range_from_bounds (lr_locktype rng) (lr_offset rng) (unat offset);
            right = (if cut_end \<noteq> U128_MAX
              then range_from_bounds (lr_locktype rng) (word_of_nat cut_end) range_end
              else None) in
        (case left of None \<Rightarrow> [] | Some l \<Rightarrow> [l]) @ (case right of None \<Rightarrow> [] | Some r \<Rightarrow> [r]))"

definition replace_lock_range :: "lock_range list \<Rightarrow> lock_range \<Rightarrow> lock_range list option" where
  "replace_lock_range ranges replacement =
     normalize_lock_ranges
       (concat (map (cut_range (lr_offset replacement) (lr_length replacement)) ranges)
        @ [replacement])"

text \<open>The range computation of \<^verbatim>\<open>unlock_state\<close>.\<close>

definition release_lock_range :: "lock_range list \<Rightarrow> u64 \<Rightarrow> u64 \<Rightarrow> lock_range list" where
  "release_lock_range ranges offset len = concat (map (cut_range offset len) ranges)"

definition is_write_lock :: "nfs_lock_type4 \<Rightarrow> bool" where
  "is_write_lock locktype = (locktype = WriteLt \<or> locktype = WritewLt)"

section \<open>The bytes a range covers\<close>

definition in_lock :: "u64 \<Rightarrow> u64 \<Rightarrow> nat \<Rightarrow> bool" where
  "in_lock offset len b \<longleftrightarrow> unat offset \<le> b \<and> b < lock_end offset len"

definition in_range :: "lock_range \<Rightarrow> nat \<Rightarrow> bool" where
  "in_range r b \<longleftrightarrow> in_lock (lr_offset r) (lr_length r) b"

definition covered :: "nfs_lock_type4 \<Rightarrow> lock_range list \<Rightarrow> nat \<Rightarrow> bool" where
  "covered t rs b \<longleftrightarrow> list_ex (\<lambda>r. lr_locktype r = t \<and> in_range r b) rs"

definition range_wf :: "lock_range \<Rightarrow> bool" where
  "range_wf r \<longleftrightarrow> validate_lock_bounds (lr_offset r) (lr_length r) = Inr ()"

definition lock_byte :: "nat \<Rightarrow> bool" where
  "lock_byte b \<longleftrightarrow> b < 2 ^ 64 - 1"

lemma unat_U64_MAX [simp]: "unat U64_MAX = 2 ^ 64 - 1"
  by (simp add: U64_MAX_def)

lemma validate_lock_bounds_iff:
  "validate_lock_bounds offset len = Inr () \<longleftrightarrow>
     len \<noteq> 0 \<and> (len = U64_MAX \<or> unat offset + unat len < 2 ^ 64)"
  by (auto simp: validate_lock_bounds_def checked_add_def)

lemma lock_end_bounded: "len \<noteq> U64_MAX \<Longrightarrow> lock_end offset len = unat offset + unat len"
  by (simp add: lock_end_def)

lemma lock_end_cases:
  assumes "validate_lock_bounds offset len = Inr ()"
  obtains "len = U64_MAX" "lock_end offset len = U128_MAX"
  | "len \<noteq> U64_MAX" "lock_end offset len = unat offset + unat len" "lock_end offset len < 2 ^ 64"
  using assms by (cases "len = U64_MAX") (auto simp: lock_end_def validate_lock_bounds_iff)

lemma U128_MAX_val: "U128_MAX = 340282366920938463463374607431768211455"
  by (simp add: U128_MAX_def)

lemma unat_less_U128_MAX: "unat (w :: u64) < U128_MAX"
  unfolding U128_MAX_val using unat_u64_less [of w] by linarith

lemma lock_end_less_max: "len \<noteq> U64_MAX \<Longrightarrow> lock_end offset len < U128_MAX"
  unfolding lock_end_def U128_MAX_val using unat_u64_less [of offset] unat_u64_less [of len]
  by (simp del: unat_u64_less)

lemma lock_end_bound:
  "validate_lock_bounds offset len = Inr () \<Longrightarrow> lock_end offset len = U128_MAX \<or> lock_end offset len < 2 ^ 64"
  by (erule lock_end_cases) auto

lemma offset_less_lock_end:
  assumes "validate_lock_bounds offset len = Inr ()"
  shows "unat offset < lock_end offset len"
  using assms
proof (rule lock_end_cases)
  assume "lock_end offset len = U128_MAX"
  then show ?thesis by (simp add: unat_less_U128_MAX)
next
  assume "lock_end offset len = unat offset + unat len"
  moreover have "unat len \<noteq> 0"
    using assms by (auto simp: validate_lock_bounds_iff unat_eq_0)
  ultimately show ?thesis by simp
qed

text \<open>Two valid ranges overlap exactly when they share a byte.\<close>

lemma locks_overlap_iff:
  assumes "validate_lock_bounds a_offset a_length = Inr ()"
    and "validate_lock_bounds b_offset b_length = Inr ()"
  shows "locks_overlap a_offset a_length b_offset b_length \<longleftrightarrow>
    (\<exists>b. in_lock a_offset a_length b \<and> in_lock b_offset b_length b)"
    (is "?l \<longleftrightarrow> ?r")
proof
  assume ?l
  moreover note offset_less_lock_end [OF assms(1)] offset_less_lock_end [OF assms(2)]
  ultimately have "in_lock a_offset a_length (max (unat a_offset) (unat b_offset))
      \<and> in_lock b_offset b_length (max (unat a_offset) (unat b_offset))"
    by (auto simp: in_lock_def locks_overlap_def Let_def)
  then show ?r by blast
next
  assume ?r
  then show ?l by (auto simp: in_lock_def locks_overlap_def Let_def)
qed

lemma locks_overlapI:
  "in_lock a_offset a_length b \<Longrightarrow> in_lock b_offset b_length b
    \<Longrightarrow> locks_overlap a_offset a_length b_offset b_length"
  by (auto simp: in_lock_def locks_overlap_def Let_def)

lemma range_from_bounds_None:
  "range_from_bounds t start e = None \<longleftrightarrow> e \<le> unat start"
  by (simp add: range_from_bounds_def)

lemma range_from_bounds_Some:
  assumes "range_from_bounds t start e = Some r" and "e = U128_MAX \<or> e < 2 ^ 64"
  shows "lr_locktype r = t" and "lr_offset r = start" and "range_wf r"
    and "lock_byte b \<Longrightarrow> in_range r b \<longleftrightarrow> unat start \<le> b \<and> b < e"
proof -
  have lt: "unat start < e" and r: "r = \<lparr>lr_locktype = t, lr_offset = start,
      lr_length = (if e = U128_MAX then U64_MAX else word_of_nat (e - unat start))\<rparr>"
    using assms(1) by (auto simp: range_from_bounds_def split: if_splits)
  show "lr_locktype r = t" and "lr_offset r = start"
    by (simp_all add: r)
  have small: "unat (word_of_nat (e - unat start) :: u64) = e - unat start" if "e \<noteq> U128_MAX"
    by (rule unat_of_nat_u64) (use that assms(2) in auto)
  show "range_wf r"
  proof (cases "e = U128_MAX")
    case True
    then show ?thesis by (simp add: r range_wf_def validate_lock_bounds_iff U64_MAX_def)
  next
    case False
    with lt small assms(2) have "unat (lr_length r) = e - unat start"
      and "unat (lr_offset r) + unat (lr_length r) < 2 ^ 64" and "lr_length r \<noteq> 0"
      by (auto simp: r)
    then show ?thesis by (simp add: range_wf_def validate_lock_bounds_iff)
  qed
  show "in_range r b \<longleftrightarrow> unat start \<le> b \<and> b < e" if "lock_byte b"
  proof (cases "e = U128_MAX")
    case True
    then show ?thesis by (simp add: r in_range_def in_lock_def lock_end_def)
  next
    case False
    show ?thesis
    proof (cases "word_of_nat (e - unat start) = U64_MAX")
      case True
      then have "e - unat start = 2 ^ 64 - 1"
        using small [OF False] by (metis unat_U64_MAX)
      with assms(2) False lt that True have "b < e" and "b < U128_MAX"
        by (auto simp: lock_byte_def U128_MAX_def)
      then show ?thesis using True by (simp add: r in_range_def in_lock_def lock_end_def)
    next
      case nm: False
      then show ?thesis using lt small [OF False] False
        by (simp add: r in_range_def in_lock_def lock_end_def)
    qed
  qed
qed

lemma covered_Nil [simp]: "covered t [] b \<longleftrightarrow> False"
  by (simp add: covered_def)

lemma covered_Cons [simp]:
  "covered t (r # rs) b \<longleftrightarrow> lr_locktype r = t \<and> in_range r b \<or> covered t rs b"
  by (simp add: covered_def)

lemma covered_append [simp]: "covered t (rs @ ss) b \<longleftrightarrow> covered t rs b \<or> covered t ss b"
  by (simp add: covered_def)

lemma covered_set_cong: "set rs = set ss \<Longrightarrow> covered t rs b = covered t ss b"
  by (simp add: covered_def list_ex_iff)

section \<open>Taking bytes out of a range\<close>

lemma cut_range_spec:
  assumes wf: "range_wf r" and v: "validate_lock_bounds offset len = Inr ()"
  shows "list_all range_wf (cut_range offset len r)"
    and "lock_byte b \<Longrightarrow> covered t (cut_range offset len r) b \<longleftrightarrow>
      lr_locktype r = t \<and> in_range r b \<and> \<not> in_lock offset len b"
proof -
  let ?ce = "lock_end offset len" and ?re = "lock_end (lr_offset r) (lr_length r)"
  define left where "left = range_from_bounds (lr_locktype r) (lr_offset r) (unat offset)"
  define right where "right = (if ?ce \<noteq> U128_MAX
    then range_from_bounds (lr_locktype r) (word_of_nat ?ce) ?re else None)"
  have cut: "cut_range offset len r =
      (if \<not> locks_overlap (lr_offset r) (lr_length r) offset len then [r]
       else (case left of None \<Rightarrow> [] | Some l \<Rightarrow> [l]) @ (case right of None \<Rightarrow> [] | Some r \<Rightarrow> [r]))"
    by (simp add: cut_range_def left_def right_def Let_def)
  have ce: "unat (word_of_nat ?ce :: u64) = ?ce" if "?ce \<noteq> U128_MAX"
    using lock_end_bound [OF v] that by (intro unat_of_nat_u64) simp
  have re: "?re = U128_MAX \<or> ?re < 2 ^ 64"
    using wf lock_end_bound by (simp add: range_wf_def)
  have off: "unat offset = U128_MAX \<or> unat offset < 2 ^ 64"
    by simp
  have l: "range_wf l" "lr_locktype l = lr_locktype r"
    "lock_byte b \<Longrightarrow> in_range l b \<longleftrightarrow> unat (lr_offset r) \<le> b \<and> b < unat offset"
    if "left = Some l" for l b
    using range_from_bounds_Some [OF that [unfolded left_def] off] by auto
  have rr: "range_wf x" "lr_locktype x = lr_locktype r"
    "lock_byte b \<Longrightarrow> in_range x b \<longleftrightarrow> ?ce \<le> b \<and> b < ?re" if "right = Some x" for x b
    using range_from_bounds_Some [OF _ re, of _ "word_of_nat ?ce"] ce that
    by (auto simp: right_def split: if_splits)
  show "list_all range_wf (cut_range offset len r)"
    using l(1) rr(1) wf by (auto simp: cut split: option.splits)
  have left_None: "left = None \<longleftrightarrow> unat offset \<le> unat (lr_offset r)"
    by (simp add: left_def range_from_bounds_None)
  have right_None: "right = None \<longleftrightarrow> ?ce = U128_MAX \<or> ?re \<le> ?ce"
    using ce by (auto simp: right_def range_from_bounds_None)
  have re_max: "?re \<le> U128_MAX"
    using re by (auto simp: U128_MAX_def)
  show "covered t (cut_range offset len r) b \<longleftrightarrow>
      lr_locktype r = t \<and> in_range r b \<and> \<not> in_lock offset len b" if b: "lock_byte b"
  proof (cases "locks_overlap (lr_offset r) (lr_length r) offset len")
    case False
    then show ?thesis
      using locks_overlapI [of "lr_offset r" "lr_length r" b offset len]
      by (auto simp: cut in_range_def)
  next
    case True
    have "covered t (case left of None \<Rightarrow> [] | Some l \<Rightarrow> [l]) b \<longleftrightarrow>
        lr_locktype r = t \<and> unat (lr_offset r) \<le> b \<and> b < unat offset"
      using l(2,3) b left_None by (cases left) auto
    moreover have "covered t (case right of None \<Rightarrow> [] | Some r \<Rightarrow> [r]) b \<longleftrightarrow>
        lr_locktype r = t \<and> ?ce \<le> b \<and> b < ?re"
      using rr(2,3) b right_None re_max by (cases right) auto
    ultimately show ?thesis
      using True by (auto simp: cut in_range_def in_lock_def locks_overlap_def Let_def)
  qed
qed

lemma release_lock_range_wf:
  "list_all range_wf rs \<Longrightarrow> validate_lock_bounds offset len = Inr ()
    \<Longrightarrow> list_all range_wf (release_lock_range rs offset len)"
  using cut_range_spec(1) by (induction rs) (auto simp: release_lock_range_def)

lemma covered_release:
  assumes "list_all range_wf rs" and "validate_lock_bounds offset len = Inr ()" and "lock_byte b"
  shows "covered t (release_lock_range rs offset len) b \<longleftrightarrow> covered t rs b \<and> \<not> in_lock offset len b"
  using assms(1) cut_range_spec(2) [OF _ assms(2,3)]
  by (induction rs) (auto simp: release_lock_range_def)

section \<open>The merge loop\<close>

text \<open>Sorted by offset, and no range touches the next one with the same lock type.\<close>

fun merged_ranges :: "lock_range list \<Rightarrow> bool" where
  "merged_ranges (a # b # rs) \<longleftrightarrow>
     lr_offset a \<le> lr_offset b
     \<and> (lr_locktype a = lr_locktype b \<longrightarrow> lock_end (lr_offset a) (lr_length a) < unat (lr_offset b))
     \<and> merged_ranges (b # rs)"
| "merged_ranges rs \<longleftrightarrow> True"

lemma merged_ranges_snoc:
  "merged_ranges (rs @ [r]) \<longleftrightarrow> merged_ranges rs \<and> (rs \<noteq> [] \<longrightarrow>
     lr_offset (last rs) \<le> lr_offset r \<and> (lr_locktype (last rs) = lr_locktype r \<longrightarrow>
       lock_end (lr_offset (last rs)) (lr_length (last rs)) < unat (lr_offset r)))"
  by (induction rs rule: merged_ranges.induct) auto

lemma normalize_step_spec:
  assumes wf: "list_all range_wf ns" "range_wf r" and "merged_ranges ns"
    and ord: "ns \<noteq> [] \<Longrightarrow> lr_offset (last ns) \<le> lr_offset r"
  shows "\<exists>ns'. normalize_step ns r = Some ns' \<and> list_all range_wf ns' \<and> merged_ranges ns'
    \<and> ns' \<noteq> [] \<and> lr_offset (last ns') \<le> lr_offset r
    \<and> (\<forall>t b. lock_byte b \<longrightarrow> covered t ns' b = (covered t ns b \<or> covered t [r] b))"
proof (cases "ns = []")
  case True
  then show ?thesis using wf by (simp add: normalize_step_def)
next
  case False
  define l where "l = last ns"
  let ?le = "lock_end (lr_offset l) (lr_length l)" and ?re = "lock_end (lr_offset r) (lr_length r)"
  have ns: "ns = butlast ns @ [l]"
    using False by (simp add: l_def)
  have wl: "range_wf l" "list_all range_wf (butlast ns)"
    using wf(1) by (subst (asm) ns, simp)+
  have off: "unat (lr_offset l) \<le> unat (lr_offset r)"
    using ord False by (simp add: l_def word_le_nat_alt)
  show ?thesis
  proof (cases "lr_locktype l = lr_locktype r \<and> unat (lr_offset r) \<le> ?le")
    case merge: True
    let ?e = "max ?le ?re"
    have "unat (lr_offset l) < ?e"
      using offset_less_lock_end wl(1) by (auto simp: range_wf_def less_max_iff_disj)
    then obtain m where m: "range_from_bounds (lr_locktype l) (lr_offset l) ?e = Some m"
      by (metis not_None_eq not_less range_from_bounds_None)
    have e: "?e = U128_MAX \<or> ?e < 2 ^ 64"
      using lock_end_bound wl(1) wf(2) by (auto simp: range_wf_def max_def)
    note ms = range_from_bounds_Some [OF m e]
    have step: "normalize_step ns r = Some (butlast ns @ [m])"
      using False merge m by (simp add: normalize_step_def l_def [symmetric] Let_def)
    have "merged_ranges (butlast ns @ [m])"
      using assms(3) ms(1,2) by (subst (asm) ns) (simp add: merged_ranges_snoc)
    moreover have "covered t (butlast ns @ [m]) b = (covered t ns b \<or> covered t [r] b)"
      if "lock_byte b" for t b
    proof -
      have "in_range m b \<longleftrightarrow> in_range l b \<or> in_range r b"
        using ms(4) [OF that] merge off by (auto simp: in_range_def in_lock_def less_max_iff_disj)
      then show ?thesis
        using ms(1) merge by (subst (2) ns) auto
    qed
    ultimately show ?thesis
      using step ms(2,3) wl(2) ord [OF False] by (auto simp: l_def)
  next
    case nomerge: False
    then have "normalize_step ns r = Some (ns @ [r])"
      using False by (auto simp: normalize_step_def l_def Let_def)
    moreover have "merged_ranges (ns @ [r])"
      using assms(3) nomerge ord [OF False] by (auto simp: merged_ranges_snoc l_def)
    ultimately show ?thesis using wf by simp
  qed
qed

lemma normalize_loop_spec:
  assumes "list_all range_wf ns" and "list_all range_wf rs" and "merged_ranges ns"
    and "ns \<noteq> [] \<Longrightarrow> list_all (\<lambda>r. lr_offset (last ns) \<le> lr_offset r) rs"
    and "sorted (map lr_offset rs)"
  shows "\<exists>ns'. normalize_loop ns rs = Some ns' \<and> list_all range_wf ns' \<and> merged_ranges ns'
    \<and> (\<forall>t b. lock_byte b \<longrightarrow> covered t ns' b = (covered t ns b \<or> covered t rs b))"
  using assms
proof (induction rs arbitrary: ns)
  case Nil
  then show ?case by simp
next
  case (Cons r rs)
  have "\<exists>ns'. normalize_step ns r = Some ns' \<and> list_all range_wf ns' \<and> merged_ranges ns'
    \<and> ns' \<noteq> [] \<and> lr_offset (last ns') \<le> lr_offset r
    \<and> (\<forall>t b. lock_byte b \<longrightarrow> covered t ns' b = (covered t ns b \<or> covered t [r] b))"
    using Cons.prems by (intro normalize_step_spec) auto
  then obtain ns' where ns': "normalize_step ns r = Some ns'" "list_all range_wf ns'"
    "merged_ranges ns'" "lr_offset (last ns') \<le> lr_offset r"
    "\<And>t b. lock_byte b \<Longrightarrow> covered t ns' b = (covered t ns b \<or> covered t [r] b)"
    by blast
  have le: "list_all (\<lambda>x. lr_offset (last ns') \<le> lr_offset x) rs"
    using Cons.prems(5) ns'(4) by (auto simp: list_all_iff intro: order_trans)
  have "sorted (map lr_offset rs)" and "list_all range_wf rs"
    using Cons.prems(2,5) by auto
  from Cons.IH [OF ns'(2) this(2) ns'(3) le this(1)] ns'(1,5)
  show ?case by auto
qed

text \<open>
  The merge loop always succeeds, sorts and merges, and keeps the coverage of every byte by every
  lock type.
\<close>

lemma normalize_lock_ranges_spec:
  assumes "list_all range_wf rs"
  obtains ns where "normalize_lock_ranges rs = Some ns" and "list_all range_wf ns"
    and "merged_ranges ns" and "\<And>t b. lock_byte b \<Longrightarrow> covered t ns b = covered t rs b"
proof -
  have "\<exists>ns. normalize_loop [] (sort_key lr_offset rs) = Some ns \<and> list_all range_wf ns
    \<and> merged_ranges ns
    \<and> (\<forall>t b. lock_byte b \<longrightarrow> covered t ns b = (covered t [] b \<or> covered t (sort_key lr_offset rs) b))"
    using assms by (intro normalize_loop_spec) (auto simp: list_all_iff)
  then show ?thesis
    using that covered_set_cong [of "sort_key lr_offset rs" rs]
    by (auto simp: normalize_lock_ranges_def)
qed

lemma replace_lock_range_spec:
  assumes "list_all range_wf rs" and "range_wf r"
  obtains ns where "replace_lock_range rs r = Some ns" and "list_all range_wf ns"
    and "merged_ranges ns"
    and "\<And>t b. lock_byte b \<Longrightarrow>
      covered t ns b \<longleftrightarrow> (if in_range r b then t = lr_locktype r else covered t rs b)"
proof -
  let ?cut = "release_lock_range rs (lr_offset r) (lr_length r)"
  have v: "validate_lock_bounds (lr_offset r) (lr_length r) = Inr ()"
    using assms(2) by (simp add: range_wf_def)
  have "list_all range_wf (?cut @ [r])"
    using release_lock_range_wf [OF assms(1) v] assms(2) by simp
  then obtain ns where "normalize_lock_ranges (?cut @ [r]) = Some ns" "list_all range_wf ns"
    "merged_ranges ns" "\<And>t b. lock_byte b \<Longrightarrow> covered t ns b = covered t (?cut @ [r]) b"
    by (rule normalize_lock_ranges_spec) blast
  moreover have "covered t (?cut @ [r]) b \<longleftrightarrow>
      (if in_range r b then t = lr_locktype r else covered t rs b)" if "lock_byte b" for t b
    using covered_release [OF assms(1) v that] by (auto simp: in_range_def)
  ultimately show ?thesis
    using that by (simp add: replace_lock_range_def release_lock_range_def)
qed

text \<open>Nothing is lost: a list with a range in it stays non-empty.\<close>

lemma normalize_step_nonempty: "normalize_step ns r = Some ns' \<Longrightarrow> ns' \<noteq> []"
  by (auto simp: normalize_step_def Let_def split: if_splits option.splits)

lemma normalize_loop_nonempty:
  "normalize_loop ns rs = Some ns' \<Longrightarrow> ns \<noteq> [] \<or> rs \<noteq> [] \<Longrightarrow> ns' \<noteq> []"
proof (induction rs arbitrary: ns)
  case Nil
  then show ?case by simp
next
  case (Cons r rs)
  then obtain ns1 where "normalize_step ns r = Some ns1" "normalize_loop ns1 rs = Some ns'"
    by (auto split: option.splits)
  then show ?case using Cons.IH normalize_step_nonempty by blast
qed

lemma replace_lock_range_nonempty: "replace_lock_range rs r = Some ns \<Longrightarrow> ns \<noteq> []"
  unfolding replace_lock_range_def normalize_lock_ranges_def
  by (erule normalize_loop_nonempty) (metis Nil_is_append_conv list.distinct(1) set_empty2 set_sort)

end
