(* ===== verification/Session_Model.thy ===== *)
theory Session_Model
  imports Lock_Ranges Session_Types
begin

text \<open>
  The server-side state of \<^verbatim>\<open>crates/embednfs/src/session\<close>: the structures of \<^verbatim>\<open>model.rs\<close> and \<^verbatim>\<open>mod.rs\<close>,
  and the object identities of \<^verbatim>\<open>internal.rs\<close>.

  An \<^verbatim>\<open>Instant\<close> and a \<^verbatim>\<open>Duration\<close> are natural numbers of one unit; a clock reading is an argument of
  the operation that takes it. \<^verbatim>\<open>StateInner\<close> sits behind one read-write lock: every operation is a
  sequence of critical sections, and each critical section is one function on the state. The
  probe that tests install to force interleavings has no effect in the server and is left out.
\<close>

type_synonym instant = nat
type_synonym duration = nat
type_synonym object_id = u64
type_synonym stateid_other = bytes

section \<open>Objects\<close>

datatype server_object =
    Obj_Fs object_id
  | Obj_NamedAttrDir object_id
  | Obj_NamedAttrFile object_id rust_string

datatype server_file_type =
    Sft_Regular | Sft_Directory | Sft_Symlink | Sft_NamedAttrDir | Sft_NamedAttr

record synth_meta =
  me_fileid :: u64
  me_mode :: u32
  me_nlink :: u32
  me_uid :: u32
  me_gid :: u32
  me_owner :: rust_string
  me_owner_group :: rust_string
  me_atime_sec :: u64
  me_atime_nsec :: u32
  me_mtime_sec :: u64
  me_mtime_nsec :: u32
  me_ctime_sec :: u64
  me_ctime_nsec :: u32
  me_crtime_sec :: u64
  me_crtime_nsec :: u32
  me_change_id :: u64
  me_archive :: bool
  me_hidden :: bool
  me_system :: bool
  me_named_attr_count :: "u64 option"

section \<open>Open, lock and delegation state\<close>

record lock_file_state =
  lf_object :: server_object
  lf_owner :: state_owner4
  lf_open_state_other :: stateid_other
  lf_ranges :: "lock_range list"
  lf_active :: bool
  lf_stateid_seq :: u32

record open_file_state =
  of_object :: server_object
  of_clientid :: clientid4
  of_owner :: bytes
  of_stateid_seq :: u32
  of_active :: bool
  of_share_access :: u32
  of_share_deny :: u32

record resolved_open_state =
  ro_other :: stateid_other
  ro_object :: server_object
  ro_share_access :: u32

record resolved_lock_state =
  rl_other :: stateid_other
  rl_object :: server_object
  rl_owner :: state_owner4
  rl_open_state :: resolved_open_state

datatype resolved_stateid =
    Resolved_Anonymous
  | Resolved_Bypass
  | Resolved_Open resolved_open_state
  | Resolved_Lock resolved_lock_state

datatype delegation_kind = DirectoryRead

primrec conveys_write :: "delegation_kind \<Rightarrow> bool" where
  "conveys_write DirectoryRead = False"

datatype delegation_status = Deleg_Granted | Deleg_RecallInProgress | Deleg_Returned | Deleg_Revoked

record delegation_state =
  dg_object :: server_object
  dg_clientid :: clientid4
  dg_sessionid :: "sessionid4 option"
  dg_stateid_seq :: u32
  dg_kind :: delegation_kind
  dg_status :: delegation_status
  dg_granted_at :: instant
  dg_last_recall_at :: "instant option"

datatype directory_delegation_grant =
    Grant_Granted stateid4 | Grant_AlreadyHeld | Grant_Unavailable

record directory_delegation_recall =
  dr_stateid :: stateid4
  dr_clientid :: clientid4
  dr_send_callback :: bool

section \<open>Clients and sessions\<close>

datatype client_lease_state =
    Lease_Active (lease_deadline_of: instant)
  | Lease_Revoked (revoked_since: instant) (revoked_flags: u32)

definition lease_is_active :: "client_lease_state \<Rightarrow> bool" where
  "lease_is_active l = (case l of Lease_Active d \<Rightarrow> True | Lease_Revoked s f \<Rightarrow> False)"

definition lease_is_revoked :: "client_lease_state \<Rightarrow> bool" where
  "lease_is_revoked l = (case l of Lease_Active d \<Rightarrow> False | Lease_Revoked s f \<Rightarrow> True)"

record client_state =
  cs_clientid :: clientid4
  cs_owner :: client_owner4
  cs_confirmed :: bool
  cs_reclaim_complete_global :: bool
  cs_sequence_id :: u32
  cs_status_flags :: u32
  cs_replaced_clientid :: "clientid4 option"
  cs_lease_state :: client_lease_state
  cs_v40_confirm :: "verifier4 option"

record backchannel_state =
  bc_cb_program :: u32
  bc_auth :: opaque_auth
  bc_next_sequenceid :: u32
  bc_highest_slotid :: u32

record cached_replay =
  cr_fingerprint :: bytes
  cr_response :: bytes

record slot_state =
  sl_sequence_id :: u32
  sl_in_progress :: "bytes option"
  sl_cached_reply :: "cached_replay option"

record session_state =
  ss_clientid :: clientid4
  ss_slots :: "slot_state list"
  ss_fore_connections :: "u64 hset"
  ss_back_connections :: "u64 hset"
  ss_backchannel :: "backchannel_state option"

record callback_target =
  ct_sessionid :: sessionid4
  ct_connection_id :: u64
  ct_cb_program :: u32
  ct_auth :: opaque_auth
  ct_sequenceid :: u32
  ct_highest_slotid :: u32

record sequence_cache_token =
  tk_sessionid :: sessionid4
  tk_slotid :: u32
  tk_fingerprint :: bytes

datatype sequence_replay =
    Seq_Execute sequence_res4 sequence_cache_token
  | Seq_Replay bytes
  | Seq_StatusOnly sequence_res4
  | Seq_Error nfsstat4

section \<open>The shared state\<close>

record state_inner =
  si_clients :: "(clientid4, client_state) hmap"
  si_sessions :: "(sessionid4, session_state) hmap"
  si_open_files :: "(stateid_other, open_file_state) hmap"
  si_lock_files :: "(stateid_other, lock_file_state) hmap"
  si_delegations :: "(stateid_other, delegation_state) hmap"
  si_dir_delegations :: "(server_object, stateid_other hset) hmap"
  si_client_delegations :: "(clientid4, stateid_other hset) hmap"
  si_metadata :: "(server_object, synth_meta) hmap"

record server_identity =
  id_owner_major_id :: bytes
  id_owner_minor_id :: u64
  id_scope :: bytes

record state_config =
  cf_lease_duration :: duration
  cf_revoked_retention :: duration
  cf_identity :: server_identity

record state_manager =
  sm_inner :: state_inner
  sm_fh_to_object :: "(bytes, server_object) hmap"
  sm_object_to_fh :: "(server_object, bytes) hmap"
  sm_persistent_fh :: "(object_id, bytes) hmap"
  sm_retired_objects :: "object_id hset"
  sm_next_fh :: u64
  sm_fh_boot_nonce :: bytes
  sm_next_clientid :: u64
  sm_next_stateid :: u32
  sm_next_changeid :: u64
  sm_next_synth_fileid :: u64
  sm_next_connectionid :: u64
  sm_config :: state_config
  sm_write_verifier :: verifier4
  sm_server_owner :: server_owner4
  sm_server_scope :: bytes

definition MAX_FORE_CHAN_SLOTS :: u32 where "MAX_FORE_CHAN_SLOTS = 64"
definition MAX_REQUEST_SIZE :: u32 where "MAX_REQUEST_SIZE = 1049620"
definition MAX_CACHED_RESPONSE :: u32 where "MAX_CACHED_RESPONSE = 6144"
definition SYNTH_FILEID_BASE :: u64 where "SYNTH_FILEID_BASE = push_bit 63 1"
definition DEFAULT_LEASE_TIME_SECS :: nat where "DEFAULT_LEASE_TIME_SECS = 90"
definition FH_NONCE_LEN :: nat where "FH_NONCE_LEN = 8"
definition FH_LEN :: nat where "FH_LEN = FH_NONCE_LEN + 8"
definition PERSISTENT_FH_TAG :: u8 where "PERSISTENT_FH_TAG = 0xA5"

definition state_config_new :: "server_identity \<Rightarrow> state_config" where
  "state_config_new identity =
     (let lease_duration = DEFAULT_LEASE_TIME_SECS in
      \<lparr>cf_lease_duration = lease_duration, cf_revoked_retention = lease_duration,
       cf_identity = identity\<rparr>)"

text \<open>
  The value both the boot verifier and the fallback nonce are made from:
  \<^verbatim>\<open>secs.rotate_left(32) ^ nanos\<close>.
\<close>

definition boot_clock_value :: "u64 \<Rightarrow> u32 \<Rightarrow> u64" where
  "boot_clock_value secs nanos = (push_bit 32 secs OR drop_bit 32 secs) XOR ucast nanos"

text \<open>Forms of the shifts that evaluate quickly.\<close>

lemma SYNTH_FILEID_BASE_code [code]: "SYNTH_FILEID_BASE = 0x8000000000000000"
  by (simp add: SYNTH_FILEID_BASE_def)

lemma boot_clock_value_code [code]:
  "boot_clock_value secs nanos = (secs * 0x100000000 OR secs div 0x100000000) XOR ucast nanos"
proof -
  have "push_bit 32 secs = secs * 0x100000000" "drop_bit 32 secs = secs div 0x100000000"
    by (simp_all add: push_bit_eq_mult drop_bit_eq_div)
  then show ?thesis by (simp add: boot_clock_value_def)
qed

text \<open>
  \<open>rng\<close> is what the operating system's generator delivers (\<open>None\<close> when it is unavailable), and
  \<open>secs\<close>, \<open>nanos\<close> the clock the fallback reads.
\<close>

definition new_fh_boot_nonce :: "bytes option \<Rightarrow> u64 \<Rightarrow> u32 \<Rightarrow> bytes" where
  "new_fh_boot_nonce rng secs nanos =
     (let nonce = (case rng of
          Some bs \<Rightarrow> bs
        | None \<Rightarrow> be_u64 (boot_clock_value secs nanos)) in
      if nonce ! 0 = PERSISTENT_FH_TAG then nonce[0 := nonce ! 0 XOR 1] else nonce)"

definition state_inner_new :: state_inner where
  "state_inner_new = \<lparr>si_clients = [], si_sessions = [], si_open_files = [], si_lock_files = [],
     si_delegations = [], si_dir_delegations = [], si_client_delegations = [], si_metadata = []\<rparr>"

definition state_manager_with_config ::
  "state_config \<Rightarrow> u64 \<Rightarrow> u32 \<Rightarrow> bytes \<Rightarrow> state_manager" where
  "state_manager_with_config config secs nanos nonce =
     \<lparr>sm_inner = state_inner_new,
      sm_fh_to_object = [], sm_object_to_fh = [], sm_persistent_fh = [], sm_retired_objects = [],
      sm_next_fh = 1, sm_fh_boot_nonce = nonce,
      sm_next_clientid = 1, sm_next_stateid = 1, sm_next_changeid = 2,
      sm_next_synth_fileid = SYNTH_FILEID_BASE, sm_next_connectionid = 1,
      sm_config = config,
      sm_write_verifier = be_u64 (boot_clock_value secs nanos),
      sm_server_owner = \<lparr>sw_minor_id = id_owner_minor_id (cf_identity config),
        sw_major_id = id_owner_major_id (cf_identity config)\<rparr>,
      sm_server_scope = id_scope (cf_identity config)\<rparr>"

text \<open>The nonce of a boot never starts with the tag of the persistent layout.\<close>

lemma new_fh_boot_nonce_spec:
  assumes "\<And>bs. rng = Some bs \<Longrightarrow> length bs = FH_NONCE_LEN"
  shows "length (new_fh_boot_nonce rng secs nanos) = FH_NONCE_LEN"
    and "new_fh_boot_nonce rng secs nanos ! 0 \<noteq> PERSISTENT_FH_TAG"
  using assms
  by (auto simp: new_fh_boot_nonce_def Let_def FH_NONCE_LEN_def PERSISTENT_FH_TAG_def
      split: option.splits)

section \<open>State ids\<close>

text \<open>The 12 bytes of a freshly allocated state id: the counter and the client id.\<close>

definition mk_other :: "u32 \<Rightarrow> clientid4 \<Rightarrow> stateid_other" where
  "mk_other seq clientid = be_u32 seq @ be_u64 clientid"

definition mk_stateid :: "u32 \<Rightarrow> stateid_other \<Rightarrow> stateid4" where
  "mk_stateid seqid other = \<lparr>sid_seqid = seqid, sid_other = other\<rparr>"

lemma mk_other_eq_iff [simp]: "mk_other s c = mk_other s' c' \<longleftrightarrow> s = s' \<and> c = c'"
  by (simp add: mk_other_def)

lemma length_mk_other [simp]: "length (mk_other s c) = 12"
  by (simp add: mk_other_def)

lemma mk_stateid_sel [simp]:
  "sid_seqid (mk_stateid s other) = s" "sid_other (mk_stateid s other) = other"
  by (simp_all add: mk_stateid_def)

definition validate_stateid_seq :: "u32 \<Rightarrow> u32 \<Rightarrow> nfsstat4 + unit" where
  "validate_stateid_seq stored_seq provided_seq =
     (if provided_seq = 0 \<or> provided_seq = stored_seq then Inr ()
      else if provided_seq < stored_seq then Inl Stat_OldStateid
      else Inl Stat_BadStateid)"

lemma validate_stateid_seq_ok [simp]:
  "validate_stateid_seq s 0 = Inr ()" "validate_stateid_seq s s = Inr ()"
  by (simp_all add: validate_stateid_seq_def)

section \<open>Retirement\<close>

definition object_owner_id :: "server_object \<Rightarrow> object_id" where
  "object_owner_id object = (case object of
       Obj_Fs i \<Rightarrow> i
     | Obj_NamedAttrDir i \<Rightarrow> i
     | Obj_NamedAttrFile parent name \<Rightarrow> parent)"

definition belongs_to :: "server_object \<Rightarrow> object_id hset \<Rightarrow> bool" where
  "belongs_to object ids = (case object of
       Obj_Fs i \<Rightarrow> i \<in> set ids
     | Obj_NamedAttrDir i \<Rightarrow> i \<in> set ids
     | Obj_NamedAttrFile parent name \<Rightarrow> parent \<in> set ids)"

definition is_retired :: "state_manager \<Rightarrow> server_object \<Rightarrow> bool" where
  "is_retired sm object = (object_owner_id object \<in> set (sm_retired_objects sm))"

lemma belongs_to_iff: "belongs_to object ids \<longleftrightarrow> object_owner_id object \<in> set ids"
  by (simp add: belongs_to_def object_owner_id_def split: server_object.split)

end
