(* ===== verification/Delegation_Index.thy ===== *)
theory Delegation_Index
  imports Session_Model
begin

text \<open>
  The delegation tables inside \<^verbatim>\<open>StateInner\<close> and the functions of \<^verbatim>\<open>session/delegations.rs\<close> that run
  under its lock. A delegation is stored in \<^verbatim>\<open>delegations\<close> and named by two indexes, by directory and
  by client. The index invariant says that both indexes name exactly the stored delegations; every
  function below keeps it.
\<close>

section \<open>Secondary indexes\<close>

text \<open>
  An index maps a key to the set of entries filed under it: \<^verbatim>\<open>HashMap<K, HashSet<T>>\<close>. \<open>idx_insert\<close>
  is \<^verbatim>\<open>entry(k).or_default().insert(x)\<close>, \<open>idx_remove\<close> removes an entry and then the key if its set
  became empty.
\<close>

definition idx_get :: "('k, 'x hset) hmap \<Rightarrow> 'k \<Rightarrow> 'x hset" where
  "idx_get m k = (case hm_get m k of None \<Rightarrow> [] | Some s \<Rightarrow> s)"

definition idx_insert :: "'k \<Rightarrow> 'x \<Rightarrow> ('k, 'x hset) hmap \<Rightarrow> ('k, 'x hset) hmap" where
  "idx_insert k x m = hm_insert k (hs_insert x (idx_get m k)) m"

definition idx_remove :: "'k \<Rightarrow> 'x \<Rightarrow> ('k, 'x hset) hmap \<Rightarrow> ('k, 'x hset) hmap" where
  "idx_remove k x m = (case hm_get m k of
       None \<Rightarrow> m
     | Some s \<Rightarrow> let s' = hs_remove x s in
         if s' = [] then hm_remove k (hm_insert k s' m) else hm_insert k s' m)"

definition idx_wf :: "('k, 'x hset) hmap \<Rightarrow> bool" where
  "idx_wf m \<longleftrightarrow> hm_wf m \<and> hm_all (\<lambda>k s. distinct s) m"

text \<open>
  The contract of an index and what follows from it for a table that keeps an index on a column of
  its rows.
\<close>

locale multi_index =
  fixes look :: "'m \<Rightarrow> 'k \<Rightarrow> 'x list"
    and add :: "'k \<Rightarrow> 'x \<Rightarrow> 'm \<Rightarrow> 'm"
    and del :: "'k \<Rightarrow> 'x \<Rightarrow> 'm \<Rightarrow> 'm"
    and invar :: "'m \<Rightarrow> bool"
  assumes look_add: "set (look (add k x m) k') = (if k' = k then insert x (set (look m k')) else set (look m k'))"
    and look_del: "set (look (del k x m) k') = (if k' = k then set (look m k') - {x} else set (look m k'))"
    and invar_add: "invar m \<Longrightarrow> invar (add k x m)"
    and invar_del: "invar m \<Longrightarrow> invar (del k x m)"
    and distinct_look: "invar m \<Longrightarrow> distinct (look m k)"
begin

definition indexes :: "('v \<Rightarrow> 'k) \<Rightarrow> 'm \<Rightarrow> ('x, 'v) hmap \<Rightarrow> bool" where
  "indexes col m tbl \<longleftrightarrow>
     invar m \<and> (\<forall>x k. x \<in> set (look m k) \<longleftrightarrow> (\<exists>v. hm_get tbl x = Some v \<and> col v = k))"

lemma indexes_look: "indexes col m tbl \<Longrightarrow> x \<in> set (look m k) \<longleftrightarrow> (\<exists>v. hm_get tbl x = Some v \<and> col v = k)"
  by (simp add: indexes_def)

lemma indexes_insert:
  "indexes col m tbl \<Longrightarrow> hm_get tbl x = None \<Longrightarrow> indexes col (add (col v) x m) (hm_insert x v tbl)"
  by (auto simp: indexes_def look_add invar_add hm_simps)

lemma indexes_remove:
  "indexes col m tbl \<Longrightarrow> hm_get tbl x = Some v \<Longrightarrow> indexes col (del (col v) x m) (hm_remove x tbl)"
  by (auto simp: indexes_def look_del invar_del hm_simps)

lemma indexes_update:
  "indexes col m tbl \<Longrightarrow> hm_get tbl x = Some v \<Longrightarrow> col v' = col v \<Longrightarrow> indexes col m (hm_insert x v' tbl)"
  by (auto simp: indexes_def hm_simps)

end

lemma idx_get_remove:
  "idx_get (idx_remove k x m) k' = (if k' = k then hs_remove x (idx_get m k) else idx_get m k')"
proof (cases "hm_get m k")
  case None
  then show ?thesis by (simp add: idx_remove_def idx_get_def hs_remove_def)
next
  case (Some s)
  then show ?thesis
    by (cases "hs_remove x s = []") (simp_all add: idx_remove_def idx_get_def Let_def hm_simps)
qed

lemma set_idx_remove:
  "set (idx_get (idx_remove k x m) k') = (if k' = k then set (idx_get m k') - {x} else set (idx_get m k'))"
  by (simp add: idx_get_remove)

lemma distinct_hs_insert [simp]: "distinct (hs_insert x s) \<longleftrightarrow> distinct s"
  by (auto simp: hs_insert_def)

lemma distinct_hs_remove [simp]: "distinct s \<Longrightarrow> distinct (hs_remove x s)"
  by (simp add: hs_remove_def)

lemma idx_wf_iff: "idx_wf m \<longleftrightarrow> hm_wf m \<and> (\<forall>k s. hm_get m k = Some s \<longrightarrow> distinct s)"
  using hm_all_iff by (fastforce simp: idx_wf_def)

interpretation idx: multi_index idx_get idx_insert idx_remove idx_wf
proof unfold_locales
  fix k :: 'a and x :: 'b and m k'
  show "set (idx_get (idx_insert k x m) k') = (if k' = k then insert x (set (idx_get m k')) else set (idx_get m k'))"
    by (auto simp: idx_get_def idx_insert_def hm_simps)
next
  fix k :: 'a and x :: 'b and m k'
  show "set (idx_get (idx_remove k x m) k') = (if k' = k then set (idx_get m k') - {x} else set (idx_get m k'))"
    by (rule set_idx_remove)
next
  fix m :: "('a, 'b hset) hmap" and k x
  assume wf: "idx_wf m"
  then have "distinct (idx_get m k)" for k
    by (auto simp: idx_wf_iff idx_get_def split: option.split)
  then show "distinct (idx_get m k)" and "idx_wf (idx_insert k x m)"
    using wf by (auto simp: idx_wf_iff idx_insert_def hm_simps)
  show "idx_wf (idx_remove k x m)"
    using wf by (auto simp: idx_wf_iff idx_remove_def Let_def hm_simps split: option.split)
qed

section \<open>The functions\<close>

definition is_live_delegation_status :: "delegation_status \<Rightarrow> bool" where
  "is_live_delegation_status status = (status = Deleg_Granted \<or> status = Deleg_RecallInProgress)"

definition is_live_delegation :: "state_inner \<Rightarrow> stateid_other \<Rightarrow> bool" where
  "is_live_delegation inner other = (case hm_get (si_delegations inner) other of
       None \<Rightarrow> False
     | Some state \<Rightarrow> is_live_delegation_status (dg_status state))"

definition find_live_directory_delegation ::
  "state_inner \<Rightarrow> server_object \<Rightarrow> clientid4 \<Rightarrow> stateid_other option" where
  "find_live_directory_delegation inner object clientid =
     (case hm_get (si_client_delegations inner) clientid of
        None \<Rightarrow> None
      | Some others \<Rightarrow> List.find (\<lambda>other.
          case hm_get (si_delegations inner) other of
            None \<Rightarrow> False
          | Some state \<Rightarrow> dg_object state = object \<and> dg_kind state = DirectoryRead
              \<and> (dg_status state = Deleg_Granted \<or> dg_status state = Deleg_RecallInProgress)) others)"

definition has_recall_in_progress :: "state_inner \<Rightarrow> server_object \<Rightarrow> bool" where
  "has_recall_in_progress inner object =
     (case hm_get (si_dir_delegations inner) object of
        None \<Rightarrow> False
      | Some others \<Rightarrow> list_ex (\<lambda>other.
          case hm_get (si_delegations inner) other of
            None \<Rightarrow> False
          | Some state \<Rightarrow> dg_status state = Deleg_RecallInProgress) others)"

definition has_live_client_delegations :: "state_inner \<Rightarrow> clientid4 \<Rightarrow> bool" where
  "has_live_client_delegations inner clientid =
     (case hm_get (si_client_delegations inner) clientid of
        None \<Rightarrow> False
      | Some others \<Rightarrow> list_ex (\<lambda>other.
          case hm_get (si_delegations inner) other of
            None \<Rightarrow> False
          | Some state \<Rightarrow> \<not> (dg_status state = Deleg_Returned \<or> dg_status state = Deleg_Revoked)) others)"

definition delegation_test_status :: "delegation_state \<Rightarrow> stateid4 \<Rightarrow> nfsstat4" where
  "delegation_test_status state stateid =
     (case validate_stateid_seq (dg_stateid_seq state) (sid_seqid stateid) of
        Inr u \<Rightarrow> if dg_status state = Deleg_Revoked then Stat_DelegRevoked else Stat_Ok
      | Inl status \<Rightarrow> status)"

definition remove_delegation_locked ::
  "state_inner \<Rightarrow> stateid_other \<Rightarrow> state_inner \<times> delegation_state option" where
  "remove_delegation_locked inner other =
     (case hm_get (si_delegations inner) other of
        None \<Rightarrow> (inner, None)
      | Some state \<Rightarrow>
          (inner\<lparr>si_delegations := hm_remove other (si_delegations inner),
                 si_dir_delegations := idx_remove (dg_object state) other (si_dir_delegations inner),
                 si_client_delegations :=
                   idx_remove (dg_clientid state) other (si_client_delegations inner)\<rparr>,
           Some state))"

definition remove_client_delegations_locked :: "state_inner \<Rightarrow> clientid4 \<Rightarrow> state_inner" where
  "remove_client_delegations_locked inner clientid =
     (let others = idx_get (si_client_delegations inner) clientid in
      fold (\<lambda>other inner. fst (remove_delegation_locked inner other)) others inner)"

text \<open>Storing a delegation and entering it in both indexes.\<close>

definition insert_delegation_locked ::
  "state_inner \<Rightarrow> stateid_other \<Rightarrow> delegation_state \<Rightarrow> state_inner" where
  "insert_delegation_locked inner other state =
     inner\<lparr>si_delegations := hm_insert other state (si_delegations inner),
           si_dir_delegations := idx_insert (dg_object state) other (si_dir_delegations inner),
           si_client_delegations :=
             idx_insert (dg_clientid state) other (si_client_delegations inner)\<rparr>"

section \<open>The index invariant\<close>

definition delegation_index_ok :: "state_inner \<Rightarrow> bool" where
  "delegation_index_ok inner \<longleftrightarrow>
     hm_wf (si_delegations inner)
     \<and> idx_wf (si_dir_delegations inner) \<and> idx_wf (si_client_delegations inner)
     \<and> hm_all (\<lambda>other d. other \<in> set (idx_get (si_dir_delegations inner) (dg_object d))
         \<and> other \<in> set (idx_get (si_client_delegations inner) (dg_clientid d))) (si_delegations inner)
     \<and> hm_all (\<lambda>object others. list_all (\<lambda>other. case hm_get (si_delegations inner) other of
           None \<Rightarrow> False | Some d \<Rightarrow> dg_object d = object) others) (si_dir_delegations inner)
     \<and> hm_all (\<lambda>clientid others. list_all (\<lambda>other. case hm_get (si_delegations inner) other of
           None \<Rightarrow> False | Some d \<Rightarrow> dg_clientid d = clientid) others) (si_client_delegations inner)"

lemma idx_get_Some: "hm_get m k = Some s \<Longrightarrow> idx_get m k = s"
  by (simp add: idx_get_def)

lemma hm_all_idx:
  assumes "hm_wf m"
  shows "hm_all (\<lambda>k xs. list_all (P k) xs) m \<longleftrightarrow> (\<forall>k. \<forall>x\<in>set (idx_get m k). P k x)"
proof -
  have "hm_all (\<lambda>k xs. list_all (P k) xs) m \<longleftrightarrow> (\<forall>k s. hm_get m k = Some s \<longrightarrow> (\<forall>x\<in>set s. P k x))"
    using assms by (simp add: hm_all_iff list_all_iff)
  also have "\<dots> \<longleftrightarrow> (\<forall>k. \<forall>x\<in>set (idx_get m k). P k x)"
  proof (rule iff_allI)
    fix k
    show "(\<forall>s. hm_get m k = Some s \<longrightarrow> (\<forall>x\<in>set s. P k x)) \<longleftrightarrow> (\<forall>x\<in>set (idx_get m k). P k x)"
      by (cases "hm_get m k") (simp_all add: idx_get_def)
  qed
  finally show ?thesis .
qed

lemma case_option_ex: "(case x of None \<Rightarrow> False | Some v \<Rightarrow> P v) \<longleftrightarrow> (\<exists>v. x = Some v \<and> P v)"
  by (cases x) auto

lemma delegation_index_ok_iff:
  "delegation_index_ok inner \<longleftrightarrow> hm_wf (si_delegations inner)
     \<and> idx.indexes dg_object (si_dir_delegations inner) (si_delegations inner)
     \<and> idx.indexes dg_clientid (si_client_delegations inner) (si_delegations inner)"
proof (cases "hm_wf (si_delegations inner) \<and> idx_wf (si_dir_delegations inner)
    \<and> idx_wf (si_client_delegations inner)")
  case True
  then have wf: "hm_wf (si_delegations inner)" "hm_wf (si_dir_delegations inner)"
    "hm_wf (si_client_delegations inner)"
    by (simp_all add: idx_wf_def)
  show ?thesis
    unfolding delegation_index_ok_def idx.indexes_def
      hm_all_idx [OF wf(2)] hm_all_idx [OF wf(3)] hm_all_iff [OF wf(1)] case_option_ex
    using True by blast
next
  case False
  then show ?thesis by (auto simp: delegation_index_ok_def idx.indexes_def)
qed

lemma remove_delegation_locked_index_ok:
  "delegation_index_ok inner \<Longrightarrow> delegation_index_ok (fst (remove_delegation_locked inner other))"
  by (auto simp: remove_delegation_locked_def delegation_index_ok_iff hm_simps idx.indexes_remove
      split: option.split)

lemma fold_remove_delegation_index_ok:
  "delegation_index_ok inner \<Longrightarrow>
    delegation_index_ok (fold (\<lambda>other inner. fst (remove_delegation_locked inner other)) others inner)"
  by (induction others arbitrary: inner) (simp_all add: remove_delegation_locked_index_ok)

lemma insert_delegation_locked_index_ok:
  "delegation_index_ok inner \<Longrightarrow> hm_get (si_delegations inner) other = None
    \<Longrightarrow> delegation_index_ok (insert_delegation_locked inner other state)"
  by (auto simp: insert_delegation_locked_def delegation_index_ok_iff hm_simps idx.indexes_insert)

lemma update_delegation_index_ok:
  assumes "delegation_index_ok inner" and "hm_get (si_delegations inner) other = Some d"
    and "dg_object d' = dg_object d" and "dg_clientid d' = dg_clientid d"
  shows "delegation_index_ok (inner\<lparr>si_delegations := hm_insert other d' (si_delegations inner)\<rparr>)"
  using assms by (auto simp: delegation_index_ok_iff hm_simps intro: idx.indexes_update)

lemma delegation_index_ok_cong:
  "si_delegations a = si_delegations b \<Longrightarrow> si_dir_delegations a = si_dir_delegations b
    \<Longrightarrow> si_client_delegations a = si_client_delegations b
    \<Longrightarrow> delegation_index_ok a = delegation_index_ok b"
  by (simp add: delegation_index_ok_def)

text \<open>What a removal leaves.\<close>

lemma remove_delegation_locked_frame [simp]:
  "si_clients (fst (remove_delegation_locked inner other)) = si_clients inner"
  "si_sessions (fst (remove_delegation_locked inner other)) = si_sessions inner"
  "si_open_files (fst (remove_delegation_locked inner other)) = si_open_files inner"
  "si_lock_files (fst (remove_delegation_locked inner other)) = si_lock_files inner"
  "si_metadata (fst (remove_delegation_locked inner other)) = si_metadata inner"
  by (simp_all add: remove_delegation_locked_def split: option.split)

lemma si_delegations_remove:
  "hm_get (si_delegations (fst (remove_delegation_locked inner other))) k =
     (if k = other then None else hm_get (si_delegations inner) k)"
  by (auto simp: remove_delegation_locked_def hm_simps split: option.split)

lemma fold_remove_delegation_frame [simp]:
  "si_clients (fold (\<lambda>other inner. fst (remove_delegation_locked inner other)) others inner) = si_clients inner"
  "si_sessions (fold (\<lambda>other inner. fst (remove_delegation_locked inner other)) others inner) = si_sessions inner"
  "si_open_files (fold (\<lambda>other inner. fst (remove_delegation_locked inner other)) others inner) = si_open_files inner"
  "si_lock_files (fold (\<lambda>other inner. fst (remove_delegation_locked inner other)) others inner) = si_lock_files inner"
  "si_metadata (fold (\<lambda>other inner. fst (remove_delegation_locked inner other)) others inner) = si_metadata inner"
  by (induction others arbitrary: inner) simp_all

lemma si_delegations_fold_remove:
  "hm_get (si_delegations (fold (\<lambda>other inner. fst (remove_delegation_locked inner other)) others inner)) k =
     (if k \<in> set others then None else hm_get (si_delegations inner) k)"
  by (induction others arbitrary: inner) (simp_all add: si_delegations_remove)

lemma remove_client_delegations_frame [simp]:
  "si_clients (remove_client_delegations_locked inner c) = si_clients inner"
  "si_sessions (remove_client_delegations_locked inner c) = si_sessions inner"
  "si_open_files (remove_client_delegations_locked inner c) = si_open_files inner"
  "si_lock_files (remove_client_delegations_locked inner c) = si_lock_files inner"
  "si_metadata (remove_client_delegations_locked inner c) = si_metadata inner"
  by (simp_all add: remove_client_delegations_locked_def Let_def)

lemma remove_client_delegations_index_ok:
  "delegation_index_ok inner \<Longrightarrow> delegation_index_ok (remove_client_delegations_locked inner c)"
  by (simp add: remove_client_delegations_locked_def Let_def fold_remove_delegation_index_ok)

text \<open>A purge removes exactly the delegations of the client.\<close>

lemma remove_client_delegations_get:
  assumes "delegation_index_ok inner"
  shows "hm_get (si_delegations (remove_client_delegations_locked inner c)) other =
    (case hm_get (si_delegations inner) other of
       None \<Rightarrow> None
     | Some d \<Rightarrow> if dg_clientid d = c then None else Some d)"
  using assms idx.indexes_look [of dg_clientid "si_client_delegations inner" "si_delegations inner" other c]
  by (auto simp: remove_client_delegations_locked_def Let_def si_delegations_fold_remove
      delegation_index_ok_iff split: option.split)

end
