(* ===== verification/Leases.thy ===== *)
theory Leases
  imports Delegation_Index
begin

text \<open>
  Client leases, the part of \<^verbatim>\<open>session/clients.rs\<close> that expires them: revoking and dropping the state
  of a client, and the reaper that every state operation runs first. The lemmas describe the
  effect of the reaper on every table: a client past its deadline loses its opens, locks and
  delegations, a client within its lease loses nothing.
\<close>

definition SEQ4_STATUS_EXPIRED_ALL_STATE_REVOKED :: u32 where
  "SEQ4_STATUS_EXPIRED_ALL_STATE_REVOKED = 0x00000008"

section \<open>The code\<close>

definition lease_deadline :: "state_config \<Rightarrow> instant \<Rightarrow> instant" where
  "lease_deadline config now = now + cf_lease_duration config"

definition revoke_client_state :: "state_inner \<Rightarrow> clientid4 \<Rightarrow> state_inner" where
  "revoke_client_state inner clientid =
     (let inner = inner\<lparr>si_open_files :=
            hm_retain (\<lambda>_ state. of_clientid state \<noteq> clientid) (si_open_files inner)\<rparr>;
          inner = inner\<lparr>si_lock_files :=
            hm_retain (\<lambda>_ state. so_clientid (lf_owner state) \<noteq> clientid) (si_lock_files inner)\<rparr> in
      remove_client_delegations_locked inner clientid)"

definition drop_client_state :: "state_inner \<Rightarrow> clientid4 \<Rightarrow> state_inner \<times> bool" where
  "drop_client_state inner clientid =
     (let inner = inner\<lparr>si_sessions :=
            hm_retain (\<lambda>_ session. ss_clientid session \<noteq> clientid) (si_sessions inner)\<rparr>;
          inner = revoke_client_state inner clientid in
      (inner\<lparr>si_clients := hm_remove clientid (si_clients inner)\<rparr>,
       hm_get (si_clients inner) clientid \<noteq> None))"

definition expired_active :: "instant \<Rightarrow> state_inner \<Rightarrow> clientid4 list" where
  "expired_active now inner = map fst (filter (\<lambda>(clientid, client).
     case cs_lease_state client of
       Lease_Active deadline \<Rightarrow> now \<ge> deadline
     | Lease_Revoked since flags \<Rightarrow> False) (si_clients inner))"

definition expire_client :: "instant \<Rightarrow> clientid4 \<Rightarrow> state_inner \<Rightarrow> state_inner" where
  "expire_client now clientid inner =
     (let inner = revoke_client_state inner clientid in
      case hm_get (si_clients inner) clientid of
        None \<Rightarrow> inner
      | Some client \<Rightarrow> inner\<lparr>si_clients := hm_insert clientid
          (client\<lparr>cs_lease_state := Lease_Revoked now SEQ4_STATUS_EXPIRED_ALL_STATE_REVOKED\<rparr>)
          (si_clients inner)\<rparr>)"

definition drop_revoked :: "state_config \<Rightarrow> instant \<Rightarrow> state_inner \<Rightarrow> clientid4 list" where
  "drop_revoked config now inner = map fst (filter (\<lambda>(clientid, client).
     case cs_lease_state client of
       Lease_Active deadline \<Rightarrow> False
     | Lease_Revoked since flags \<Rightarrow> now - since \<ge> cf_revoked_retention config
         \<or> \<not> hm_any (\<lambda>_ session. ss_clientid session = clientid) (si_sessions inner))
     (si_clients inner))"

definition reap_expired_clients_locked :: "state_config \<Rightarrow> state_inner \<Rightarrow> instant \<Rightarrow> state_inner" where
  "reap_expired_clients_locked config inner now =
     (let inner = fold (expire_client now) (expired_active now inner) inner in
      fold (\<lambda>clientid inner. fst (drop_client_state inner clientid))
        (drop_revoked config now inner) inner)"

definition reap_expired_clients :: "state_manager \<Rightarrow> instant \<Rightarrow> state_manager" where
  "reap_expired_clients sm now =
     sm\<lparr>sm_inner := reap_expired_clients_locked (sm_config sm) (sm_inner sm) now\<rparr>"

definition client_has_active_state :: "state_inner \<Rightarrow> clientid4 \<Rightarrow> bool" where
  "client_has_active_state inner clientid \<longleftrightarrow>
     hm_any (\<lambda>_ session. ss_clientid session = clientid) (si_sessions inner)
     \<or> hm_any (\<lambda>_ state. of_clientid state = clientid) (si_open_files inner)
     \<or> hm_any (\<lambda>_ state. so_clientid (lf_owner state) = clientid) (si_lock_files inner)
     \<or> has_live_client_delegations inner clientid"

section \<open>Well-formed tables\<close>

definition tables_wf :: "state_inner \<Rightarrow> bool" where
  "tables_wf inner \<longleftrightarrow> hm_wf (si_clients inner) \<and> hm_wf (si_sessions inner)
     \<and> hm_wf (si_open_files inner) \<and> hm_wf (si_lock_files inner) \<and> hm_wf (si_metadata inner)"

text \<open>A client record carries its own key.\<close>

definition clients_keyed :: "state_inner \<Rightarrow> bool" where
  "clients_keyed inner \<longleftrightarrow> hm_all (\<lambda>clientid client. cs_clientid client = clientid) (si_clients inner)"

lemma clients_keyedD:
  "clients_keyed inner \<Longrightarrow> tables_wf inner \<Longrightarrow> hm_get (si_clients inner) c = Some cs \<Longrightarrow> cs_clientid cs = c"
  by (auto simp: clients_keyed_def tables_wf_def hm_all_iff)

lemma hm_retain_retain: "hm_retain P (hm_retain Q m) = hm_retain (\<lambda>k v. Q k v \<and> P k v) m"
  by (auto simp: hm_retain_def intro!: filter_cong)

lemma hm_retain_True: "hm_retain (\<lambda>k v. True) m = m"
  by (simp add: hm_retain_def)

section \<open>Revoking and dropping a client\<close>

lemma revoke_client_state_sel [simp]:
  "si_clients (revoke_client_state inner c) = si_clients inner"
  "si_sessions (revoke_client_state inner c) = si_sessions inner"
  "si_open_files (revoke_client_state inner c) =
     hm_retain (\<lambda>_ s. of_clientid s \<noteq> c) (si_open_files inner)"
  "si_lock_files (revoke_client_state inner c) =
     hm_retain (\<lambda>_ s. so_clientid (lf_owner s) \<noteq> c) (si_lock_files inner)"
  "si_metadata (revoke_client_state inner c) = si_metadata inner"
  by (simp_all add: revoke_client_state_def Let_def)

lemma revoke_client_state_index_ok:
  "delegation_index_ok inner \<Longrightarrow> delegation_index_ok (revoke_client_state inner c)"
  unfolding revoke_client_state_def Let_def
  by (rule remove_client_delegations_index_ok) (simp add: delegation_index_ok_def)

lemma revoke_client_state_delegations:
  assumes "delegation_index_ok inner"
  shows "hm_get (si_delegations (revoke_client_state inner c)) other =
    (case hm_get (si_delegations inner) other of
       None \<Rightarrow> None
     | Some d \<Rightarrow> if dg_clientid d = c then None else Some d)"
  unfolding revoke_client_state_def Let_def
  using assms by (subst remove_client_delegations_get) (simp_all add: delegation_index_ok_def)

lemma drop_client_state_sel [simp]:
  "si_clients (fst (drop_client_state inner c)) = hm_remove c (si_clients inner)"
  "si_sessions (fst (drop_client_state inner c)) =
     hm_retain (\<lambda>_ s. ss_clientid s \<noteq> c) (si_sessions inner)"
  "si_open_files (fst (drop_client_state inner c)) =
     hm_retain (\<lambda>_ s. of_clientid s \<noteq> c) (si_open_files inner)"
  "si_lock_files (fst (drop_client_state inner c)) =
     hm_retain (\<lambda>_ s. so_clientid (lf_owner s) \<noteq> c) (si_lock_files inner)"
  "si_metadata (fst (drop_client_state inner c)) = si_metadata inner"
  by (simp_all add: drop_client_state_def Let_def)

lemma drop_client_state_index_ok:
  "delegation_index_ok inner \<Longrightarrow> delegation_index_ok (fst (drop_client_state inner c))"
  using revoke_client_state_index_ok [of "inner\<lparr>si_sessions :=
    hm_retain (\<lambda>_ session. ss_clientid session \<noteq> c) (si_sessions inner)\<rparr>" c]
  by (simp add: drop_client_state_def Let_def delegation_index_ok_def)

lemma drop_client_state_delegations:
  assumes "delegation_index_ok inner"
  shows "hm_get (si_delegations (fst (drop_client_state inner c))) other =
    (case hm_get (si_delegations inner) other of
       None \<Rightarrow> None
     | Some d \<Rightarrow> if dg_clientid d = c then None else Some d)"
  using assms by (simp add: drop_client_state_def Let_def)
    (subst revoke_client_state_delegations, simp_all add: delegation_index_ok_def)

lemma fold_drop_sel:
  "si_sessions (fold (\<lambda>c inner. fst (drop_client_state inner c)) ids inner) =
     hm_retain (\<lambda>_ s. ss_clientid s \<notin> set ids) (si_sessions inner)"
  "si_open_files (fold (\<lambda>c inner. fst (drop_client_state inner c)) ids inner) =
     hm_retain (\<lambda>_ s. of_clientid s \<notin> set ids) (si_open_files inner)"
  "si_lock_files (fold (\<lambda>c inner. fst (drop_client_state inner c)) ids inner) =
     hm_retain (\<lambda>_ s. so_clientid (lf_owner s) \<notin> set ids) (si_lock_files inner)"
  "si_clients (fold (\<lambda>c inner. fst (drop_client_state inner c)) ids inner) =
     fold hm_remove ids (si_clients inner)"
  "si_metadata (fold (\<lambda>c inner. fst (drop_client_state inner c)) ids inner) = si_metadata inner"
  by (induction ids arbitrary: inner) (simp_all add: hm_retain_retain hm_retain_True conj_commute)

lemma fold_drop_index_ok:
  "delegation_index_ok inner \<Longrightarrow>
    delegation_index_ok (fold (\<lambda>c inner. fst (drop_client_state inner c)) ids inner)"
  by (induction ids arbitrary: inner) (simp_all add: drop_client_state_index_ok)

lemma fold_drop_delegations:
  "delegation_index_ok inner \<Longrightarrow>
    hm_get (si_delegations (fold (\<lambda>c inner. fst (drop_client_state inner c)) ids inner)) other =
    (case hm_get (si_delegations inner) other of
       None \<Rightarrow> None
     | Some d \<Rightarrow> if dg_clientid d \<in> set ids then None else Some d)"
  by (induction ids arbitrary: inner)
    (auto simp: drop_client_state_index_ok drop_client_state_delegations split: option.split)

section \<open>Expiring a client\<close>

lemma expire_client_sel:
  "si_sessions (expire_client now c inner) = si_sessions inner"
  "si_open_files (expire_client now c inner) =
     hm_retain (\<lambda>_ s. of_clientid s \<noteq> c) (si_open_files inner)"
  "si_lock_files (expire_client now c inner) =
     hm_retain (\<lambda>_ s. so_clientid (lf_owner s) \<noteq> c) (si_lock_files inner)"
  "si_metadata (expire_client now c inner) = si_metadata inner"
  "si_delegations (expire_client now c inner) = si_delegations (revoke_client_state inner c)"
  "si_dir_delegations (expire_client now c inner) = si_dir_delegations (revoke_client_state inner c)"
  "si_client_delegations (expire_client now c inner) =
     si_client_delegations (revoke_client_state inner c)"
  by (simp_all add: expire_client_def Let_def split: option.split)

lemma expire_client_clients:
  "hm_get (si_clients (expire_client now c inner)) k =
     (if k = c then map_option (\<lambda>cl. cl\<lparr>cs_lease_state :=
        Lease_Revoked now SEQ4_STATUS_EXPIRED_ALL_STATE_REVOKED\<rparr>) (hm_get (si_clients inner) k)
      else hm_get (si_clients inner) k)"
  by (auto simp: expire_client_def Let_def hm_simps split: option.split)

lemma expire_client_wf: "hm_wf (si_clients inner) \<Longrightarrow> hm_wf (si_clients (expire_client now c inner))"
  by (auto simp: expire_client_def Let_def hm_simps split: option.split)

lemma expire_client_index_ok:
  "delegation_index_ok inner \<Longrightarrow> delegation_index_ok (expire_client now c inner)"
  using revoke_client_state_index_ok [of inner c]
  by (simp add: delegation_index_ok_def expire_client_sel)

lemma fold_expire_sel:
  "si_sessions (fold (expire_client now) ids inner) = si_sessions inner"
  "si_open_files (fold (expire_client now) ids inner) =
     hm_retain (\<lambda>_ s. of_clientid s \<notin> set ids) (si_open_files inner)"
  "si_lock_files (fold (expire_client now) ids inner) =
     hm_retain (\<lambda>_ s. so_clientid (lf_owner s) \<notin> set ids) (si_lock_files inner)"
  "si_metadata (fold (expire_client now) ids inner) = si_metadata inner"
  by (induction ids arbitrary: inner)
    (simp_all add: expire_client_sel hm_retain_retain hm_retain_True conj_commute)

lemma fold_expire_wf:
  "hm_wf (si_clients inner) \<Longrightarrow> hm_wf (si_clients (fold (expire_client now) ids inner))"
  by (induction ids arbitrary: inner) (simp_all add: expire_client_wf)

lemma fold_expire_index_ok:
  "delegation_index_ok inner \<Longrightarrow> delegation_index_ok (fold (expire_client now) ids inner)"
  by (induction ids arbitrary: inner) (simp_all add: expire_client_index_ok)

lemma fold_expire_clients:
  "hm_get (si_clients (fold (expire_client now) ids inner)) k =
     (if k \<in> set ids then map_option (\<lambda>cl. cl\<lparr>cs_lease_state :=
        Lease_Revoked now SEQ4_STATUS_EXPIRED_ALL_STATE_REVOKED\<rparr>) (hm_get (si_clients inner) k)
      else hm_get (si_clients inner) k)"
  by (induction ids arbitrary: inner) (auto simp: expire_client_clients option.map_comp comp_def)

lemma fold_expire_delegations:
  "delegation_index_ok inner \<Longrightarrow>
    hm_get (si_delegations (fold (expire_client now) ids inner)) other =
    (case hm_get (si_delegations inner) other of
       None \<Rightarrow> None
     | Some d \<Rightarrow> if dg_clientid d \<in> set ids then None else Some d)"
  by (induction ids arbitrary: inner)
    (auto simp: expire_client_index_ok expire_client_sel revoke_client_state_delegations
      split: option.split)

lemma mem_expired_active:
  assumes "hm_wf (si_clients inner)"
  shows "c \<in> set (expired_active now inner) \<longleftrightarrow>
    (\<exists>cl d. hm_get (si_clients inner) c = Some cl \<and> cs_lease_state cl = Lease_Active d \<and> d \<le> now)"
  unfolding expired_active_def mem_filter_keys [OF assms]
  by (rule arg_cong [where f = Ex], rule ext) (auto split: client_lease_state.split)

lemma mem_drop_revoked:
  assumes "hm_wf (si_clients inner)"
  shows "c \<in> set (drop_revoked config now inner) \<longleftrightarrow>
    (\<exists>cl since flags. hm_get (si_clients inner) c = Some cl
      \<and> cs_lease_state cl = Lease_Revoked since flags
      \<and> (cf_revoked_retention config \<le> now - since
         \<or> \<not> hm_any (\<lambda>_ session. ss_clientid session = c) (si_sessions inner)))"
  unfolding drop_revoked_def mem_filter_keys [OF assms]
  by (rule arg_cong [where f = Ex], rule ext) (auto split: client_lease_state.split)

section \<open>The reaper\<close>

text \<open>
  \<open>reaped_ids\<close> are the clients whose opens, locks and delegations go, \<open>dropped_ids\<close> those whose
  record and sessions go as well.
\<close>

definition dropped_ids :: "state_config \<Rightarrow> state_inner \<Rightarrow> instant \<Rightarrow> clientid4 list" where
  "dropped_ids config inner now =
     drop_revoked config now (fold (expire_client now) (expired_active now inner) inner)"

definition reaped_ids :: "state_config \<Rightarrow> state_inner \<Rightarrow> instant \<Rightarrow> clientid4 list" where
  "reaped_ids config inner now = expired_active now inner @ dropped_ids config inner now"

lemma reap_eq:
  "reap_expired_clients_locked config inner now =
     fold (\<lambda>clientid inner. fst (drop_client_state inner clientid)) (dropped_ids config inner now)
       (fold (expire_client now) (expired_active now inner) inner)"
  by (simp add: reap_expired_clients_locked_def dropped_ids_def Let_def)

lemma reap_sel:
  "si_sessions (reap_expired_clients_locked config inner now) =
     hm_retain (\<lambda>_ s. ss_clientid s \<notin> set (dropped_ids config inner now)) (si_sessions inner)"
  "si_open_files (reap_expired_clients_locked config inner now) =
     hm_retain (\<lambda>_ s. of_clientid s \<notin> set (reaped_ids config inner now)) (si_open_files inner)"
  "si_lock_files (reap_expired_clients_locked config inner now) =
     hm_retain (\<lambda>_ s. so_clientid (lf_owner s) \<notin> set (reaped_ids config inner now)) (si_lock_files inner)"
  "si_metadata (reap_expired_clients_locked config inner now) = si_metadata inner"
  by (simp_all add: reap_eq fold_drop_sel fold_expire_sel hm_retain_retain reaped_ids_def)

lemma reap_clients:
  "hm_get (si_clients (reap_expired_clients_locked config inner now)) k =
     (if k \<in> set (dropped_ids config inner now) then None
      else if k \<in> set (expired_active now inner)
      then map_option (\<lambda>cl. cl\<lparr>cs_lease_state :=
        Lease_Revoked now SEQ4_STATUS_EXPIRED_ALL_STATE_REVOKED\<rparr>) (hm_get (si_clients inner) k)
      else hm_get (si_clients inner) k)"
  by (simp add: reap_eq fold_drop_sel fold_expire_clients hm.get_fold_rem)

lemma reap_delegations:
  assumes "delegation_index_ok inner"
  shows "hm_get (si_delegations (reap_expired_clients_locked config inner now)) other =
    (case hm_get (si_delegations inner) other of
       None \<Rightarrow> None
     | Some d \<Rightarrow> if dg_clientid d \<in> set (reaped_ids config inner now) then None else Some d)"
  using assms fold_expire_index_ok [OF assms]
  by (auto simp: reap_eq fold_drop_delegations fold_expire_delegations reaped_ids_def
      split: option.split)

lemma reap_index_ok:
  "delegation_index_ok inner \<Longrightarrow> delegation_index_ok (reap_expired_clients_locked config inner now)"
  by (simp add: reap_eq fold_drop_index_ok fold_expire_index_ok)

lemma reap_tables_wf:
  "tables_wf inner \<Longrightarrow> tables_wf (reap_expired_clients_locked config inner now)"
  by (simp add: tables_wf_def reap_sel hm_simps)
    (simp add: reap_eq fold_drop_sel fold_expire_wf hm.invar_fold_rem)

lemma mem_dropped_ids:
  assumes "hm_wf (si_clients inner)"
  shows "c \<in> set (dropped_ids config inner now) \<longleftrightarrow>
    (\<exists>cl. hm_get (si_clients inner) c = Some cl \<and>
      (case cs_lease_state cl of
         Lease_Active d \<Rightarrow> d \<le> now \<and> (cf_revoked_retention config = 0
           \<or> \<not> hm_any (\<lambda>_ s. ss_clientid s = c) (si_sessions inner))
       | Lease_Revoked since flags \<Rightarrow> cf_revoked_retention config \<le> now - since
           \<or> \<not> hm_any (\<lambda>_ s. ss_clientid s = c) (si_sessions inner)))"
proof (cases "hm_get (si_clients inner) c")
  case None
  then show ?thesis
    unfolding dropped_ids_def mem_drop_revoked [OF fold_expire_wf [OF assms]]
    by (simp add: fold_expire_clients)
next
  case (Some cl)
  then show ?thesis
    unfolding dropped_ids_def mem_drop_revoked [OF fold_expire_wf [OF assms]]
    by (cases "cs_lease_state cl")
      (simp_all add: fold_expire_clients fold_expire_sel mem_expired_active [OF assms])
qed

text \<open>A client within its lease is not touched.\<close>

lemma live_not_reaped:
  assumes "hm_wf (si_clients inner)" and "hm_get (si_clients inner) c = Some cl"
    and "cs_lease_state cl = Lease_Active d" and "now < d"
  shows "c \<notin> set (reaped_ids config inner now)"
  using assms by (auto simp: reaped_ids_def mem_expired_active mem_dropped_ids)

text \<open>The client records after the reaper are in one of two states.\<close>

lemma reap_client_cases:
  assumes "hm_wf (si_clients inner)"
    and "hm_get (si_clients (reap_expired_clients_locked config inner now)) c = Some cl"
  shows "(\<exists>d. cs_lease_state cl = Lease_Active d \<and> now < d \<and> hm_get (si_clients inner) c = Some cl)
    \<or> (\<exists>since flags. cs_lease_state cl = Lease_Revoked since flags)"
  using assms
  by (cases "cs_lease_state cl")
    (auto simp: reap_clients mem_expired_active split: if_splits)

lemma reap_clients_keyed:
  assumes "tables_wf inner" and "clients_keyed inner"
  shows "clients_keyed (reap_expired_clients_locked config inner now)"
proof -
  have "hm_wf (si_clients (reap_expired_clients_locked config inner now))"
    using reap_tables_wf [OF assms(1)] by (simp add: tables_wf_def)
  then show ?thesis
    using clients_keyedD [OF assms(2,1)]
    by (auto simp: clients_keyed_def hm_all_iff reap_clients split: if_splits)
qed

end
