(* ===== verification/Sequence.thy ===== *)
theory Sequence
  imports Leases
begin

text \<open>
  The forechannel replay cache, \<^verbatim>\<open>session/sequence.rs\<close>: classifying a SEQUENCE as a new request, a
  retry or an error, and storing the reply of a finished request in its slot. The lemmas show that
  a slot executes consecutive sequence ids, each once, and that a retry of a finished request is
  answered from the cache.
\<close>

section \<open>The code\<close>

definition sequence_res :: "session_state \<Rightarrow> sequence_args4 \<Rightarrow> u32 \<Rightarrow> sequence_res4" where
  "sequence_res session args status_flags =
     (let highest_slot = word_of_nat (length (ss_slots session) - 1) in
      \<lparr>sr_sessionid = sa_sessionid args, sr_sequenceid = sa_sequenceid args,
       sr_slotid = sa_slotid args, sr_highest_slotid = highest_slot,
       sr_target_highest_slotid = highest_slot, sr_status_flags = status_flags\<rparr>)"

definition bind_forechannel_for_sequence :: "session_state \<Rightarrow> u64 \<Rightarrow> nfsstat4 + session_state" where
  "bind_forechannel_for_sequence session connection_id =
     (if connection_id \<in> set (ss_back_connections session)
         \<and> connection_id \<notin> set (ss_fore_connections session)
      then Inl Stat_ConnNotBoundToSession
      else Inr (session\<lparr>ss_fore_connections := hs_insert connection_id (ss_fore_connections session)\<rparr>))"

text \<open>The decision on the slot: the new slot state and the classification.\<close>

definition classify_slot ::
  "slot_state \<Rightarrow> sequence_args4 \<Rightarrow> bytes \<Rightarrow> sequence_res4 \<Rightarrow> slot_state \<times> sequence_replay" where
  "classify_slot slot args fingerprint res =
     (let retry_seq = sl_sequence_id slot - 1 in
      if sa_sequenceid args = sl_sequence_id slot then
        (slot\<lparr>sl_sequence_id := sl_sequence_id slot + 1, sl_in_progress := Some fingerprint,
            sl_cached_reply := None\<rparr>,
         Seq_Execute res \<lparr>tk_sessionid = sa_sessionid args, tk_slotid = sa_slotid args,
           tk_fingerprint = fingerprint\<rparr>)
      else if sa_sequenceid args \<noteq> retry_seq then (slot, Seq_Error Stat_SeqMisordered)
      else
        case sl_in_progress slot of
          Some in_progress \<Rightarrow>
            if in_progress = fingerprint then (slot, Seq_Error Stat_Delay)
            else (slot, Seq_Error Stat_SeqFalseRetry)
        | None \<Rightarrow>
            (case sl_cached_reply slot of
               Some cached \<Rightarrow>
                 if cr_fingerprint cached = fingerprint then (slot, Seq_Replay (cr_response cached))
                 else (slot, Seq_Error Stat_SeqFalseRetry)
             | None \<Rightarrow> (slot, Seq_Error Stat_Serverfault)))"

definition is_execute_or_replay :: "sequence_replay \<Rightarrow> bool" where
  "is_execute_or_replay r = (case r of
       Seq_Execute res token \<Rightarrow> True
     | Seq_Replay cached \<Rightarrow> True
     | Seq_StatusOnly res \<Rightarrow> False
     | Seq_Error status \<Rightarrow> False)"

definition put_session :: "sessionid4 \<Rightarrow> session_state \<Rightarrow> state_inner \<Rightarrow> state_inner" where
  "put_session sessionid session inner =
     inner\<lparr>si_sessions := hm_insert sessionid session (si_sessions inner)\<rparr>"

definition renew_client :: "state_config \<Rightarrow> instant \<Rightarrow> clientid4 \<Rightarrow> state_inner \<Rightarrow> state_inner" where
  "renew_client config now clientid inner =
     (case hm_get (si_clients inner) clientid of
        None \<Rightarrow> inner
      | Some client \<Rightarrow> inner\<lparr>si_clients := hm_insert clientid
          (client\<lparr>cs_lease_state := Lease_Active (lease_deadline config now)\<rparr>) (si_clients inner)\<rparr>)"

definition prepare_sequence_locked ::
  "state_config \<Rightarrow> state_inner \<Rightarrow> instant \<Rightarrow> sequence_args4 \<Rightarrow> bytes \<Rightarrow> u64 \<Rightarrow> state_inner \<times> sequence_replay" where
  "prepare_sequence_locked config inner now args fingerprint connection_id =
     (let inner = reap_expired_clients_locked config inner now in
      case hm_get (si_sessions inner) (sa_sessionid args) of
        None \<Rightarrow> (inner, Seq_Error Stat_BadSession)
      | Some session \<Rightarrow>
          let clientid = ss_clientid session; slot_count = length (ss_slots session);
              slot_idx = unat (sa_slotid args) in
          if slot_idx \<ge> slot_count then (inner, Seq_Error Stat_BadSlot)
          else
            case hm_get (si_clients inner) clientid of
              None \<Rightarrow> (inner, Seq_Error Stat_BadSession)
            | Some client \<Rightarrow>
                (case cs_lease_state client of
                   Lease_Revoked since status_flags \<Rightarrow>
                     (case bind_forechannel_for_sequence session connection_id of
                        Inl status \<Rightarrow> (inner, Seq_Error status)
                      | Inr session \<Rightarrow>
                          (put_session (sa_sessionid args) session inner,
                           Seq_StatusOnly (sequence_res session args status_flags)))
                 | Lease_Active deadline \<Rightarrow>
                     let status_flags = cs_status_flags client in
                     (case bind_forechannel_for_sequence session connection_id of
                        Inl status \<Rightarrow> (inner, Seq_Error status)
                      | Inr session \<Rightarrow>
                          let (slot, replay) = classify_slot (ss_slots session ! slot_idx) args fingerprint
                                (sequence_res session args status_flags);
                              session = session\<lparr>ss_slots := (ss_slots session)[slot_idx := slot]\<rparr>;
                              inner = put_session (sa_sessionid args) session inner in
                          (if is_execute_or_replay replay then renew_client config now clientid inner
                           else inner, replay))))"

definition prepare_sequence ::
  "state_manager \<Rightarrow> instant \<Rightarrow> sequence_args4 \<Rightarrow> bytes \<Rightarrow> u64 \<Rightarrow> state_manager \<times> sequence_replay" where
  "prepare_sequence sm now args fingerprint connection_id =
     (let (inner, replay) = prepare_sequence_locked (sm_config sm) (sm_inner sm) now args fingerprint
            connection_id in
      (sm\<lparr>sm_inner := inner\<rparr>, replay))"

definition finish_sequence_locked ::
  "state_inner \<Rightarrow> sequence_cache_token \<Rightarrow> bytes \<Rightarrow> state_inner \<times> (nfsstat4 + unit)" where
  "finish_sequence_locked inner token response =
     (case hm_get (si_sessions inner) (tk_sessionid token) of
        None \<Rightarrow> (inner, Inl Stat_BadSession)
      | Some session \<Rightarrow>
          let slot_idx = unat (tk_slotid token) in
          if slot_idx \<ge> length (ss_slots session) then (inner, Inl Stat_BadSlot)
          else
            let slot = (ss_slots session ! slot_idx)\<lparr>sl_in_progress := None,
                  sl_cached_reply := Some \<lparr>cr_fingerprint = tk_fingerprint token, cr_response = response\<rparr>\<rparr> in
            (put_session (tk_sessionid token)
               (session\<lparr>ss_slots := (ss_slots session)[slot_idx := slot]\<rparr>) inner, Inr ()))"

definition finish_sequence ::
  "state_manager \<Rightarrow> sequence_cache_token \<Rightarrow> bytes \<Rightarrow> state_manager \<times> (nfsstat4 + unit)" where
  "finish_sequence sm token response =
     (let (inner, res) = finish_sequence_locked (sm_inner sm) token response in
      (sm\<lparr>sm_inner := inner\<rparr>, res))"

section \<open>The slot decision\<close>

lemma word_minus_one_neq [simp]: "(w :: u32) - 1 \<noteq> w" "w \<noteq> w - 1"
  by simp_all

lemma classify_slot_new:
  "sa_sequenceid args = sl_sequence_id slot \<Longrightarrow> classify_slot slot args fp res =
     (slot\<lparr>sl_sequence_id := sl_sequence_id slot + 1, sl_in_progress := Some fp, sl_cached_reply := None\<rparr>,
      Seq_Execute res \<lparr>tk_sessionid = sa_sessionid args, tk_slotid = sa_slotid args, tk_fingerprint = fp\<rparr>)"
  by (simp add: classify_slot_def Let_def)

lemma classify_slot_not_new:
  "sa_sequenceid args \<noteq> sl_sequence_id slot \<Longrightarrow> fst (classify_slot slot args fp res) = slot"
  by (simp add: classify_slot_def Let_def split: option.split)

lemma classify_slot_execute_iff:
  "(\<exists>r token. snd (classify_slot slot args fp res) = Seq_Execute r token)
     \<longleftrightarrow> sa_sequenceid args = sl_sequence_id slot"
  by (auto simp: classify_slot_def Let_def split: option.split)

lemma classify_slot_executeD:
  "classify_slot slot args fp res = (slot', Seq_Execute r token) \<Longrightarrow> sa_sequenceid args = sl_sequence_id slot"
  by (auto simp: classify_slot_def Let_def split: option.splits if_splits)

lemma classify_slot_seq:
  "sl_sequence_id (fst (classify_slot slot args fp res)) =
     (if sa_sequenceid args = sl_sequence_id slot then sl_sequence_id slot + 1 else sl_sequence_id slot)"
  by (simp add: classify_slot_def Let_def split: option.split)

text \<open>A retry of the last request of the slot.\<close>

lemma classify_slot_retry:
  assumes "sa_sequenceid args + 1 = sl_sequence_id slot"
  shows "classify_slot slot args fp res = (slot,
    case sl_in_progress slot of
      Some p \<Rightarrow> Seq_Error (if p = fp then Stat_Delay else Stat_SeqFalseRetry)
    | None \<Rightarrow> (case sl_cached_reply slot of
         Some c \<Rightarrow> if cr_fingerprint c = fp then Seq_Replay (cr_response c) else Seq_Error Stat_SeqFalseRetry
       | None \<Rightarrow> Seq_Error Stat_Serverfault))"
  using assms [symmetric] by (simp add: classify_slot_def Let_def split: option.split)

lemma classify_slot_misordered:
  assumes "sa_sequenceid args \<noteq> sl_sequence_id slot" and "sa_sequenceid args + 1 \<noteq> sl_sequence_id slot"
  shows "classify_slot slot args fp res = (slot, Seq_Error Stat_SeqMisordered)"
proof -
  have "sa_sequenceid args \<noteq> sl_sequence_id slot - 1"
    using assms(2) by (metis diff_add_cancel)
  with assms(1) show ?thesis by (simp add: classify_slot_def Let_def)
qed

section \<open>The critical sections\<close>

lemma put_session_sel [simp]:
  "si_sessions (put_session sid s inner) = hm_insert sid s (si_sessions inner)"
  "si_clients (put_session sid s inner) = si_clients inner"
  "si_open_files (put_session sid s inner) = si_open_files inner"
  "si_lock_files (put_session sid s inner) = si_lock_files inner"
  "si_delegations (put_session sid s inner) = si_delegations inner"
  "si_dir_delegations (put_session sid s inner) = si_dir_delegations inner"
  "si_client_delegations (put_session sid s inner) = si_client_delegations inner"
  "si_metadata (put_session sid s inner) = si_metadata inner"
  by (simp_all add: put_session_def)

lemma renew_client_sel [simp]:
  "si_sessions (renew_client config now c inner) = si_sessions inner"
  "si_open_files (renew_client config now c inner) = si_open_files inner"
  "si_lock_files (renew_client config now c inner) = si_lock_files inner"
  "si_delegations (renew_client config now c inner) = si_delegations inner"
  "si_dir_delegations (renew_client config now c inner) = si_dir_delegations inner"
  "si_client_delegations (renew_client config now c inner) = si_client_delegations inner"
  "si_metadata (renew_client config now c inner) = si_metadata inner"
  by (simp_all add: renew_client_def split: option.split)

lemma renew_client_clients:
  "hm_get (si_clients (renew_client config now c inner)) k =
     (if k = c then map_option (\<lambda>cl. cl\<lparr>cs_lease_state := Lease_Active (lease_deadline config now)\<rparr>)
        (hm_get (si_clients inner) k)
      else hm_get (si_clients inner) k)"
  by (auto simp: renew_client_def hm_simps split: option.split)

lemma renew_client_wf: "hm_wf (si_clients inner) \<Longrightarrow> hm_wf (si_clients (renew_client config now c inner))"
  by (auto simp: renew_client_def hm_simps split: option.split)

text \<open>
  The observable part of a slot: its next sequence id. \<open>slot_seq\<close> is \<open>None\<close> when the session or the
  slot does not exist.
\<close>

definition session_slot :: "state_inner \<Rightarrow> sessionid4 \<Rightarrow> u32 \<Rightarrow> slot_state option" where
  "session_slot inner sid slotid = (case hm_get (si_sessions inner) sid of
       None \<Rightarrow> None
     | Some s \<Rightarrow> if unat slotid < length (ss_slots s) then Some (ss_slots s ! unat slotid) else None)"

lemma session_slot_put:
  "session_slot (put_session sid s inner) sid' slotid =
     (if sid' = sid
      then (if unat slotid < length (ss_slots s) then Some (ss_slots s ! unat slotid) else None)
      else session_slot inner sid' slotid)"
  by (simp add: session_slot_def hm_simps)

lemma session_slot_renew [simp]:
  "session_slot (renew_client config now c inner) sid slotid = session_slot inner sid slotid"
  by (simp add: session_slot_def)

text \<open>The reaper keeps a session as it is or removes it.\<close>

lemma session_slot_reap:
  assumes "hm_wf (si_sessions inner)"
  shows "session_slot (reap_expired_clients_locked config inner now) sid slotid =
      session_slot inner sid slotid
    \<or> session_slot (reap_expired_clients_locked config inner now) sid slotid = None"
  using assms by (auto simp: session_slot_def reap_sel hm.get_ret split: option.splits)

text \<open>The outcomes of the critical section, by how far it gets.\<close>

lemma prepare_sequence_locked_cases:
  fixes config inner now args fp conn
  defines "r \<equiv> reap_expired_clients_locked config inner now"
  obtains
    (refused) status where
      "prepare_sequence_locked config inner now args fp conn = (r, Seq_Error status)"
  | (revoked) session res where "hm_get (si_sessions r) (sa_sessionid args) = Some session"
      "prepare_sequence_locked config inner now args fp conn =
         (put_session (sa_sessionid args)
            (session\<lparr>ss_fore_connections := hs_insert conn (ss_fore_connections session)\<rparr>) r,
          Seq_StatusOnly res)"
  | (classified) session client d session' slot slot' res replay inner1 where
      "hm_get (si_sessions r) (sa_sessionid args) = Some session"
      "hm_get (si_clients r) (ss_clientid session) = Some client" "cs_lease_state client = Lease_Active d"
      "unat (sa_slotid args) < length (ss_slots session)"
      "slot = ss_slots session ! unat (sa_slotid args)"
      "classify_slot slot args fp res = (slot', replay)"
      "session' = session\<lparr>ss_fore_connections := hs_insert conn (ss_fore_connections session),
         ss_slots := (ss_slots session)[unat (sa_slotid args) := slot']\<rparr>"
      "inner1 = put_session (sa_sessionid args) session' r"
      "prepare_sequence_locked config inner now args fp conn =
         (if is_execute_or_replay replay then renew_client config now (ss_clientid session) inner1
          else inner1, replay)"
proof (cases "hm_get (si_sessions r) (sa_sessionid args)")
  case None
  then show ?thesis by (intro refused) (simp add: prepare_sequence_locked_def r_def)
next
  case (Some session)
  show ?thesis
  proof (cases "unat (sa_slotid args) < length (ss_slots session)
      \<and> hm_get (si_clients r) (ss_clientid session) \<noteq> None
      \<and> \<not> (conn \<in> set (ss_back_connections session) \<and> conn \<notin> set (ss_fore_connections session))")
    case False
    with Some have "\<exists>status. prepare_sequence_locked config inner now args fp conn = (r, Seq_Error status)"
      by (auto simp: prepare_sequence_locked_def bind_forechannel_for_sequence_def r_def [symmetric]
          Let_def split: client_lease_state.split option.split)
    then show ?thesis using refused by blast
  next
    case True
    then obtain client where client: "hm_get (si_clients r) (ss_clientid session) = Some client"
      by auto
    let ?session = "session\<lparr>ss_fore_connections := hs_insert conn (ss_fore_connections session)\<rparr>"
    show ?thesis
    proof (cases "cs_lease_state client")
      case (Lease_Revoked since flags)
      with Some True client show ?thesis
        by (intro revoked) (auto simp: prepare_sequence_locked_def bind_forechannel_for_sequence_def
            r_def [symmetric] Let_def)
    next
      case (Lease_Active d)
      let ?c = "classify_slot (ss_slots session ! unat (sa_slotid args)) args fp
        (sequence_res ?session args (cs_status_flags client))"
      show ?thesis
        by (rule classified [OF Some client Lease_Active _ refl prod.collapse [symmetric, of ?c] refl refl])
          (use Some True client Lease_Active in \<open>auto simp: prepare_sequence_locked_def
            bind_forechannel_for_sequence_def r_def [symmetric] Let_def case_prod_unfold\<close>)
    qed
  qed
qed

text \<open>What SEQUENCE does to a slot: nothing, or it starts the execution of its next sequence id.\<close>

lemma prepare_sequence_slot:
  assumes wf: "hm_wf (si_sessions inner)"
    and run: "prepare_sequence_locked config inner now args fp conn = (inner', replay)"
    and at_slot: "session_slot inner' sid slotid = Some slot'"
  shows "(session_slot inner sid slotid = Some slot'
      \<and> (sa_sessionid args = sid \<and> sa_slotid args = slotid \<longrightarrow> (\<forall>res token. replay \<noteq> Seq_Execute res token)))
    \<or> (\<exists>slot res. session_slot inner sid slotid = Some slot
      \<and> sa_sessionid args = sid \<and> sa_slotid args = slotid \<and> sa_sequenceid args = sl_sequence_id slot
      \<and> slot' = slot\<lparr>sl_sequence_id := sl_sequence_id slot + 1, sl_in_progress := Some fp,
         sl_cached_reply := None\<rparr>
      \<and> replay = Seq_Execute res \<lparr>tk_sessionid = sid, tk_slotid = slotid, tk_fingerprint = fp\<rparr>)"
proof (cases rule: prepare_sequence_locked_cases [of config inner now args fp conn])
  case (refused status)
  then show ?thesis
    using run at_slot session_slot_reap [OF wf, of config now sid slotid] by auto
next
  case (revoked session res)
  then show ?thesis
    using run at_slot session_slot_reap [OF wf, of config now sid slotid]
    by (auto simp: session_slot_put) (auto simp: session_slot_def split: if_splits)
next
  case (classified session client d session' slot slot1 res replay1 inner1)
  let ?r = "reap_expired_clients_locked config inner now"
  have prior: "session_slot inner sid slotid = Some s" if "session_slot ?r sid slotid = Some s" for s
    using session_slot_reap [OF wf, of config now sid slotid] that by auto
  have replay: "replay1 = replay" and "session_slot inner1 sid slotid = Some slot'"
    using classified(9) run at_slot by (auto split: if_splits)
  then have new: "(if sid = sa_sessionid args then
      (if unat slotid < length (ss_slots session)
       then Some ((ss_slots session)[unat (sa_slotid args) := slot1] ! unat slotid) else None)
      else session_slot ?r sid slotid) = Some slot'"
    using classified(7,8) by (auto simp: session_slot_put split: if_splits)
  show ?thesis
  proof (cases "sa_sessionid args = sid \<and> sa_slotid args = slotid")
    case here: True
    then have "slot' = slot1" and "session_slot ?r sid slotid = Some slot"
      using new classified(1,4,5) by (auto simp: session_slot_def)
    moreover from this(2) have "session_slot inner sid slotid = Some slot"
      by (rule prior)
    ultimately show ?thesis
      using here classified(6) replay
      by (cases "sa_sequenceid args = sl_sequence_id slot")
        (auto simp: classify_slot_new dest: classify_slot_not_new [where fp = fp and res = res]
          classify_slot_executeD)
  next
    case False
    have "session_slot ?r sid slotid = Some slot'"
      using new False classified(1)
      by (auto simp: session_slot_def nth_list_update word_unat_eq_iff split: if_splits)
    then show ?thesis using False prior by auto
  qed
qed

section \<open>Runs\<close>

text \<open>
  The replay cache seen over time: any sequence of SEQUENCE requests and completions, of any
  session and slot, with a clock reading each. \<open>executed\<close> lists the sequence ids that one slot
  executed, in order.
\<close>

datatype seq_event =
    Ev_Prepare instant sequence_args4 bytes u64
  | Ev_Finish sequence_cache_token bytes

primrec seq_event_step :: "state_config \<Rightarrow> seq_event \<Rightarrow> state_inner \<Rightarrow> state_inner" where
  "seq_event_step config (Ev_Prepare now args fp conn) inner =
     fst (prepare_sequence_locked config inner now args fp conn)"
| "seq_event_step config (Ev_Finish token response) inner =
     fst (finish_sequence_locked inner token response)"

definition event_executes :: "state_config \<Rightarrow> state_inner \<Rightarrow> sessionid4 \<Rightarrow> u32 \<Rightarrow> seq_event \<Rightarrow> u32 option" where
  "event_executes config inner sid slotid ev = (case ev of
       Ev_Finish token response \<Rightarrow> None
     | Ev_Prepare now args fp conn \<Rightarrow>
         if sa_sessionid args = sid \<and> sa_slotid args = slotid
         then (case snd (prepare_sequence_locked config inner now args fp conn) of
                 Seq_Execute res token \<Rightarrow> Some (sa_sequenceid args)
               | _ \<Rightarrow> None)
         else None)"

primrec executed :: "state_config \<Rightarrow> sessionid4 \<Rightarrow> u32 \<Rightarrow> seq_event list \<Rightarrow> state_inner \<Rightarrow> u32 list" where
  "executed config sid slotid [] inner = []"
| "executed config sid slotid (ev # evs) inner =
     (case event_executes config inner sid slotid ev of None \<Rightarrow> [] | Some q \<Rightarrow> [q])
     @ executed config sid slotid evs (seq_event_step config ev inner)"

lemma prepare_sequence_wf:
  assumes "tables_wf inner"
  shows "tables_wf (fst (prepare_sequence_locked config inner now args fp conn))"
  using reap_tables_wf [OF assms, of config now]
  by (cases rule: prepare_sequence_locked_cases [of config inner now args fp conn])
    (auto simp: tables_wf_def hm_simps renew_client_wf)

lemma finish_sequence_wf:
  "tables_wf inner \<Longrightarrow> tables_wf (fst (finish_sequence_locked inner token response))"
  by (auto simp: finish_sequence_locked_def tables_wf_def Let_def hm_simps split: option.split)

lemma seq_event_step_wf: "tables_wf inner \<Longrightarrow> tables_wf (seq_event_step config ev inner)"
  by (cases ev) (simp_all add: prepare_sequence_wf finish_sequence_wf)

lemma finish_sequence_seq:
  assumes "session_slot (fst (finish_sequence_locked inner token response)) sid slotid = Some slot'"
  shows "\<exists>slot. session_slot inner sid slotid = Some slot \<and> sl_sequence_id slot' = sl_sequence_id slot"
  using assms
  by (auto simp: finish_sequence_locked_def Let_def session_slot_put nth_list_update
      split: option.splits if_splits) (auto simp: session_slot_def split: if_splits)

lemma prepare_executes_slot:
  assumes "snd (prepare_sequence_locked config inner now args fp conn) = Seq_Execute res token"
  shows "session_slot (fst (prepare_sequence_locked config inner now args fp conn))
    (sa_sessionid args) (sa_slotid args) \<noteq> None"
  using assms
  by (cases rule: prepare_sequence_locked_cases [of config inner now args fp conn])
    (auto simp: session_slot_put)

text \<open>One event either leaves the next sequence id of a slot alone or executes exactly that id.\<close>

lemma seq_event_slot:
  assumes wf: "tables_wf inner"
    and after: "session_slot (seq_event_step config ev inner) sid slotid = Some slot'"
  obtains slot where "session_slot inner sid slotid = Some slot"
    and "event_executes config inner sid slotid ev = None \<Longrightarrow> sl_sequence_id slot' = sl_sequence_id slot"
    and "\<And>q. event_executes config inner sid slotid ev = Some q \<Longrightarrow>
      q = sl_sequence_id slot \<and> sl_sequence_id slot' = sl_sequence_id slot + 1"
proof (cases ev)
  case (Ev_Finish token response)
  then show ?thesis
    using finish_sequence_seq [of inner token response sid slotid slot'] after that
    by (auto simp: event_executes_def)
next
  case (Ev_Prepare now args fp conn)
  have wfs: "hm_wf (si_sessions inner)"
    using wf by (simp add: tables_wf_def)
  have "session_slot (fst (prepare_sequence_locked config inner now args fp conn)) sid slotid = Some slot'"
    using after Ev_Prepare by simp
  from prepare_sequence_slot [OF wfs prod.collapse [symmetric] this] show ?thesis
  proof (elim disjE exE conjE)
    assume "session_slot inner sid slotid = Some slot'"
      and "sa_sessionid args = sid \<and> sa_slotid args = slotid \<longrightarrow> (\<forall>res token.
        snd (prepare_sequence_locked config inner now args fp conn) \<noteq> Seq_Execute res token)"
    then show ?thesis
      using Ev_Prepare by (intro that [of slot'])
        (auto simp: event_executes_def split: sequence_replay.splits if_splits)
  next
    fix slot res
    assume "session_slot inner sid slotid = Some slot" "sa_sessionid args = sid"
      "sa_slotid args = slotid" "sa_sequenceid args = sl_sequence_id slot"
      "slot' = slot\<lparr>sl_sequence_id := sl_sequence_id slot + 1, sl_in_progress := Some fp,
        sl_cached_reply := None\<rparr>"
      "snd (prepare_sequence_locked config inner now args fp conn) =
        Seq_Execute res \<lparr>tk_sessionid = sid, tk_slotid = slotid, tk_fingerprint = fp\<rparr>"
    then show ?thesis
      using Ev_Prepare by (intro that [of slot]) (auto simp: event_executes_def)
  qed
qed

lemma no_slot_stays:
  assumes "tables_wf inner" and "session_slot inner sid slotid = None"
  shows "session_slot (seq_event_step config ev inner) sid slotid = None"
  using seq_event_slot [OF assms(1)] assms(2) by (metis not_None_eq)

lemma event_executes_slot:
  assumes "event_executes config inner sid slotid ev = Some q"
  shows "session_slot (seq_event_step config ev inner) sid slotid \<noteq> None"
  using assms prepare_executes_slot
  by (fastforce simp: event_executes_def split: seq_event.splits if_splits sequence_replay.splits)

lemma executed_no_slot:
  "tables_wf inner \<Longrightarrow> session_slot inner sid slotid = None \<Longrightarrow> executed config sid slotid evs inner = []"
proof (induction evs arbitrary: inner)
  case Nil
  then show ?case by simp
next
  case (Cons ev evs)
  have "session_slot (seq_event_step config ev inner) sid slotid = None"
    using Cons.prems by (rule no_slot_stays)
  moreover from this have "event_executes config inner sid slotid ev = None"
    using event_executes_slot by (metis not_None_eq)
  ultimately show ?case
    using Cons by (simp add: seq_event_step_wf)
qed

lemma map_add_upt_Suc:
  "map (\<lambda>i. s + word_of_nat i) [0..<Suc n] = (s :: u32) # map (\<lambda>i. s + 1 + word_of_nat i) [0..<n]"
  by (simp add: upt_conv_Cons map_Suc_upt [symmetric] comp_def add.assoc del: upt_Suc)

text \<open>A slot executes consecutive sequence ids.\<close>

lemma executed_consecutive:
  assumes "tables_wf inner" and "session_slot inner sid slotid = Some slot"
  shows "executed config sid slotid evs inner =
    map (\<lambda>i. sl_sequence_id slot + word_of_nat i) [0..<length (executed config sid slotid evs inner)]"
  using assms
proof (induction evs arbitrary: inner slot)
  case Nil
  then show ?case by simp
next
  case (Cons ev evs)
  let ?inner' = "seq_event_step config ev inner"
  have wf': "tables_wf ?inner'"
    using Cons.prems(1) by (rule seq_event_step_wf)
  show ?case
  proof (cases "session_slot ?inner' sid slotid")
    case None
    then have "event_executes config inner sid slotid ev = None"
      using event_executes_slot by (metis not_None_eq)
    with None show ?thesis by (simp add: executed_no_slot [OF wf'])
  next
    case (Some slot')
    obtain s where s: "session_slot inner sid slotid = Some s"
      "event_executes config inner sid slotid ev = None \<Longrightarrow> sl_sequence_id slot' = sl_sequence_id s"
      "\<And>q. event_executes config inner sid slotid ev = Some q \<Longrightarrow>
        q = sl_sequence_id s \<and> sl_sequence_id slot' = sl_sequence_id s + 1"
      using seq_event_slot [OF Cons.prems(1) Some] by blast
    have [simp]: "s = slot"
      using s(1) Cons.prems(2) by simp
    show ?thesis
    proof (cases "event_executes config inner sid slotid ev")
      case None
      then show ?thesis using s(2) Cons.IH [OF wf' Some] by simp
    next
      case exec: (Some q)
      then show ?thesis
        using s(3) [OF exec] Cons.IH [OF wf' Some]
        by (simp only: executed.simps option.simps length_append length_Cons list.size append_Cons
            append_Nil add_0 plus_nat.add_Suc map_add_upt_Suc) simp
    qed
  qed
qed

lemma distinct_consecutive: "n \<le> 2 ^ 32 \<Longrightarrow> distinct (map (\<lambda>i. (s :: u32) + word_of_nat i) [0..<n])"
  by (auto simp: distinct_map inj_on_def word_of_nat_eq_iff take_bit_nat_eq_self)

section \<open>Retries\<close>

lemma prepare_execute_state:
  assumes "prepare_sequence_locked config inner now args fp conn = (inner1, Seq_Execute res token)"
  obtains session client slot where
    "token = \<lparr>tk_sessionid = sa_sessionid args, tk_slotid = sa_slotid args, tk_fingerprint = fp\<rparr>"
    "hm_get (si_sessions inner1) (sa_sessionid args) = Some session"
    "unat (sa_slotid args) < length (ss_slots session)"
    "conn \<in> set (ss_fore_connections session)"
    "ss_slots session ! unat (sa_slotid args) = slot"
    "sl_sequence_id slot = sa_sequenceid args + 1"
    "hm_get (si_clients inner1) (ss_clientid session) = Some client"
    "cs_lease_state client = Lease_Active (lease_deadline config now)"
proof (cases rule: prepare_sequence_locked_cases [of config inner now args fp conn])
  case (classified session client d session' slot slot' res' replay inner1')
  have exec: "replay = Seq_Execute res token" and inner1: "inner1 = renew_client config now (ss_clientid session) inner1'"
    using assms classified(9) by (auto simp: is_execute_or_replay_def)
  have seq: "sa_sequenceid args = sl_sequence_id slot"
    using classified(6) exec classify_slot_executeD by blast
  show ?thesis
    using classified exec inner1 seq
    by (intro that [of session' slot' "client\<lparr>cs_lease_state := Lease_Active (lease_deadline config now)\<rparr>"])
      (auto simp: renew_client_clients hm_simps classify_slot_new)
qed (use assms in auto)

lemma prepare_retry:
  assumes wf: "tables_wf inner"
    and session: "hm_get (si_sessions inner) (sa_sessionid args) = Some session"
      "unat (sa_slotid args) < length (ss_slots session)" "conn \<in> set (ss_fore_connections session)"
    and client: "hm_get (si_clients inner) (ss_clientid session) = Some client"
      "cs_lease_state client = Lease_Active d" "now < d"
  obtains res where "snd (prepare_sequence_locked config inner now args fp conn) =
    snd (classify_slot (ss_slots session ! unat (sa_slotid args)) args fp res)"
proof -
  let ?r = "reap_expired_clients_locked config inner now"
  have wfc: "hm_wf (si_clients inner)" and wfs: "hm_wf (si_sessions inner)"
    using wf by (simp_all add: tables_wf_def)
  have "ss_clientid session \<notin> set (reaped_ids config inner now)"
    using live_not_reaped [OF wfc client] .
  then have keep: "hm_get (si_sessions ?r) (sa_sessionid args) = Some session"
    "hm_get (si_clients ?r) (ss_clientid session) = Some client"
    using session(1) client(1) wfs by (auto simp: reap_sel reap_clients hm.get_ret_Some reaped_ids_def)
  then show ?thesis
    using session(2,3) client(2)
    by (intro that [of "sequence_res (session\<lparr>ss_fore_connections :=
        hs_insert conn (ss_fore_connections session)\<rparr>) args (cs_status_flags client)"])
      (simp add: prepare_sequence_locked_def bind_forechannel_for_sequence_def Let_def case_prod_unfold)
qed

text \<open>A request that finished is replayed, and nothing else is answered in its place.\<close>

lemma finished_retry:
  assumes wf: "tables_wf inner"
    and prep: "prepare_sequence_locked config inner now args fp conn = (inner1, Seq_Execute res token)"
    and fin: "finish_sequence_locked inner1 token response = (inner2, Inr ())"
    and lease: "now' < lease_deadline config now"
  shows "snd (prepare_sequence_locked config inner2 now' args fp' conn) =
    (if fp' = fp then Seq_Replay response else Seq_Error Stat_SeqFalseRetry)"
proof -
  obtain session client slot where s:
    "token = \<lparr>tk_sessionid = sa_sessionid args, tk_slotid = sa_slotid args, tk_fingerprint = fp\<rparr>"
    "hm_get (si_sessions inner1) (sa_sessionid args) = Some session"
    "unat (sa_slotid args) < length (ss_slots session)"
    "conn \<in> set (ss_fore_connections session)"
    "ss_slots session ! unat (sa_slotid args) = slot"
    "sl_sequence_id slot = sa_sequenceid args + 1"
    "hm_get (si_clients inner1) (ss_clientid session) = Some client"
    "cs_lease_state client = Lease_Active (lease_deadline config now)"
    by (rule prepare_execute_state [OF prep])
  define slot2 where "slot2 = slot\<lparr>sl_in_progress := None,
    sl_cached_reply := Some \<lparr>cr_fingerprint = fp, cr_response = response\<rparr>\<rparr>"
  define session2 where "session2 = session\<lparr>ss_slots := (ss_slots session)[unat (sa_slotid args) := slot2]\<rparr>"
  have inner2: "inner2 = put_session (sa_sessionid args) session2 inner1"
    using fin s by (auto simp: finish_sequence_locked_def slot2_def session2_def Let_def)
  have "tables_wf inner1"
    using prepare_sequence_wf [OF wf, of config now args fp conn] prep by simp
  then have "tables_wf inner2"
    by (simp add: inner2 tables_wf_def hm_simps)
  moreover have "hm_get (si_sessions inner2) (sa_sessionid args) = Some session2"
    "unat (sa_slotid args) < length (ss_slots session2)" "conn \<in> set (ss_fore_connections session2)"
    "hm_get (si_clients inner2) (ss_clientid session2) = Some client"
    using s by (simp_all add: inner2 session2_def hm_simps)
  ultimately obtain res' where "snd (prepare_sequence_locked config inner2 now' args fp' conn) =
      snd (classify_slot (ss_slots session2 ! unat (sa_slotid args)) args fp' res')"
    using prepare_retry s(8) lease by metis
  moreover have "ss_slots session2 ! unat (sa_slotid args) = slot2"
    using s(3) by (simp add: session2_def)
  moreover have "sa_sequenceid args + 1 = sl_sequence_id slot2"
    using s(6) by (simp add: slot2_def)
  ultimately show ?thesis
    by (simp add: classify_slot_retry) (simp add: slot2_def)
qed

end
