(* ===== verification/Clients.thy ===== *)
theory Clients
  imports Sequence
begin

text \<open>
  Client and session management, the rest of \<^verbatim>\<open>session/clients.rs\<close>: EXCHANGE_ID, CREATE_SESSION,
  DESTROY_SESSION, DESTROY_CLIENTID, BIND_CONN_TO_SESSION, RECLAIM_COMPLETE, the NFSv4.0 client
  operations and the backchannel bookkeeping. All of these run in one critical section.

  The invariant \<open>sessions_ok\<close> ties sessions to clients: a session belongs to a registered client, its
  id is made of the client id and a CREATE_SESSION sequence number below the client's next one,
  and it has between 1 and 64 slots.
\<close>

definition EXCHGID4_FLAG_USE_NON_PNFS :: u32 where "EXCHGID4_FLAG_USE_NON_PNFS = 0x00010000"
definition EXCHGID4_FLAG_CONFIRMED_R :: u32 where "EXCHGID4_FLAG_CONFIRMED_R = 0x80000000"
definition CREATE_SESSION4_FLAG_CONN_BACK_CHAN :: u32 where
  "CREATE_SESSION4_FLAG_CONN_BACK_CHAN = 0x00000002"
definition CDFC4_FORE :: u32 where "CDFC4_FORE = 0x00000001"
definition CDFC4_BACK :: u32 where "CDFC4_BACK = 0x00000002"
definition CDFC4_FORE_OR_BOTH :: u32 where "CDFC4_FORE_OR_BOTH = 0x00000003"
definition CDFC4_BACK_OR_BOTH :: u32 where "CDFC4_BACK_OR_BOTH = 0x00000007"
definition CDFS4_FORE :: u32 where "CDFS4_FORE = 0x00000001"
definition CDFS4_BACK :: u32 where "CDFS4_BACK = 0x00000002"
definition CDFS4_BOTH :: u32 where "CDFS4_BOTH = 0x00000003"

text \<open>The byte string of an ASCII string literal.\<close>

definition ascii :: "string \<Rightarrow> rust_string" where
  "ascii s = map (\<lambda>c. word_of_nat (of_char c)) s"

definition put_client :: "clientid4 \<Rightarrow> client_state \<Rightarrow> state_inner \<Rightarrow> state_inner" where
  "put_client clientid client inner =
     inner\<lparr>si_clients := hm_insert clientid client (si_clients inner)\<rparr>"

section \<open>EXCHANGE_ID\<close>

definition same_owner :: "client_owner4 \<Rightarrow> client_state \<Rightarrow> bool" where
  "same_owner owner client \<longleftrightarrow> co_ownerid (cs_owner client) = co_ownerid owner"

definition same_verifier :: "client_owner4 \<Rightarrow> client_state \<Rightarrow> bool" where
  "same_verifier owner client \<longleftrightarrow> co_verifier (cs_owner client) = co_verifier owner"

text \<open>The client a new registration of the owner will replace once it is confirmed.\<close>

definition old_clientid :: "state_inner \<Rightarrow> client_owner4 \<Rightarrow> clientid4 option" where
  "old_clientid inner owner =
     (case hm_find (\<lambda>_ client. same_owner owner client \<and> \<not> same_verifier owner client
         \<and> (cs_confirmed client \<or> lease_is_revoked (cs_lease_state client))) (si_clients inner) of
        Some (k, client) \<Rightarrow> Some (cs_clientid client)
      | None \<Rightarrow> map_option (\<lambda>(k, client). cs_clientid client)
          (hm_find (\<lambda>_ client. same_owner owner client \<and> same_verifier owner client
             \<and> lease_is_revoked (cs_lease_state client)) (si_clients inner)))"

definition stale_unconfirmed :: "state_inner \<Rightarrow> client_owner4 \<Rightarrow> clientid4 list" where
  "stale_unconfirmed inner owner =
     map (\<lambda>(k, client). cs_clientid client)
       (filter (\<lambda>(k, client). same_owner owner client \<and> \<not> same_verifier owner client
          \<and> \<not> cs_confirmed client \<and> lease_is_active (cs_lease_state client)) (si_clients inner))"

definition drop_clients :: "clientid4 list \<Rightarrow> state_inner \<Rightarrow> state_inner" where
  "drop_clients ids inner = fold (\<lambda>clientid inner. fst (drop_client_state inner clientid)) ids inner"

definition new_client :: "clientid4 \<Rightarrow> client_owner4 \<Rightarrow> clientid4 option \<Rightarrow> instant \<Rightarrow> client_state" where
  "new_client clientid owner replaced deadline =
     \<lparr>cs_clientid = clientid, cs_owner = owner, cs_confirmed = False,
      cs_reclaim_complete_global = False, cs_sequence_id = 1, cs_status_flags = 0,
      cs_replaced_clientid = replaced, cs_lease_state = Lease_Active deadline, cs_v40_confirm = None\<rparr>"

definition exchange_id_res :: "state_manager \<Rightarrow> clientid4 \<Rightarrow> u32 \<Rightarrow> bool \<Rightarrow> exchange_id_res4" where
  "exchange_id_res sm clientid seq confirmed =
     \<lparr>er_clientid = clientid, er_sequenceid = seq,
      er_flags = EXCHGID4_FLAG_USE_NON_PNFS OR (if confirmed then EXCHGID4_FLAG_CONFIRMED_R else 0),
      er_state_protect = SpR_None, er_server_owner = sm_server_owner sm,
      er_server_scope = sm_server_scope sm,
      er_server_impl_id = [\<lparr>im_domain = ascii ''embednfs.local'', im_name = ascii ''embednfs'',
        im_date = \<lparr>nt_seconds = 0, nt_nseconds = 0\<rparr>\<rparr>]\<rparr>"

definition exchange_id ::
  "state_manager \<Rightarrow> instant \<Rightarrow> exchange_id_args4 \<Rightarrow> state_manager \<times> (nfsstat4 + exchange_id_res4)" where
  "exchange_id sm now args =
     (if ea_state_protect args \<noteq> SpA_None then (sm, Inl Stat_Inval)
      else
        let owner = ea_clientowner args;
            inner = reap_expired_clients_locked (sm_config sm) (sm_inner sm) now in
        case hm_find (\<lambda>_ client. same_owner owner client \<and> same_verifier owner client
            \<and> lease_is_active (cs_lease_state client)) (si_clients inner) of
          Some (k, existing) \<Rightarrow>
            (sm\<lparr>sm_inner := inner\<rparr>,
             Inr (exchange_id_res sm (cs_clientid existing) (cs_sequence_id existing) (cs_confirmed existing)))
        | None \<Rightarrow>
            let old = old_clientid inner owner;
                inner = drop_clients (stale_unconfirmed inner owner) inner;
                i = sm_next_clientid sm;
                inner = put_client i (new_client i owner old (lease_deadline (sm_config sm) now)) inner in
            (sm\<lparr>sm_inner := inner, sm_next_clientid := i + 1\<rparr>, Inr (exchange_id_res sm i 1 False)))"

section \<open>CREATE_SESSION\<close>

fun callback_auth :: "callback_sec_parms4 list \<Rightarrow> opaque_auth option" where
  "callback_auth [] = None"
| "callback_auth (CbSec_None # ps) = Some opaque_auth_null"
| "callback_auth (CbSec_Sys params # ps) =
     Some \<lparr>oa_flavor = auth_flavor_to_u32 Auth_Sys, oa_body = encode_auth_sys_params params\<rparr>"
| "callback_auth (CbSec_RpcSecGss h # ps) = callback_auth ps"

definition callback_backchannel ::
  "create_session_args4 \<Rightarrow> channel_attrs4 \<Rightarrow> backchannel_state option" where
  "callback_backchannel args response_back_chan =
     (case callback_auth (cs_args_sec_parms args) of
        None \<Rightarrow> None
      | Some auth \<Rightarrow>
          if cs_args_cb_program args = 0 then None
          else Some \<lparr>bc_cb_program = cs_args_cb_program args, bc_auth = auth, bc_next_sequenceid = 1,
                 bc_highest_slotid = saturating_sub (ca_maxrequests response_back_chan) 1\<rparr>)"

definition mk_sessionid :: "clientid4 \<Rightarrow> u32 \<Rightarrow> sessionid4" where
  "mk_sessionid clientid seq = be_u64 clientid @ be_u64 (ucast seq)"

definition fore_chan_of :: "channel_attrs4 \<Rightarrow> channel_attrs4" where
  "fore_chan_of req = \<lparr>ca_headerpadsize = 0,
     ca_maxrequestsize = min (ca_maxrequestsize req) MAX_REQUEST_SIZE,
     ca_maxresponsesize = min (ca_maxresponsesize req) MAX_REQUEST_SIZE,
     ca_maxresponsesize_cached = min (ca_maxresponsesize_cached req) MAX_CACHED_RESPONSE,
     ca_maxoperations = min (ca_maxoperations req) MAX_FORE_CHAN_SLOTS,
     ca_maxrequests = min (ca_maxrequests req) MAX_FORE_CHAN_SLOTS, ca_rdma_ird = []\<rparr>"

definition back_chan_attrs :: channel_attrs4 where
  "back_chan_attrs = \<lparr>ca_headerpadsize = 0, ca_maxrequestsize = 4096, ca_maxresponsesize = 4096,
     ca_maxresponsesize_cached = 0, ca_maxoperations = 2, ca_maxrequests = 1, ca_rdma_ird = []\<rparr>"

definition new_slots :: "channel_attrs4 \<Rightarrow> slot_state list" where
  "new_slots req = replicate (max (unat (min (ca_maxrequests req) MAX_FORE_CHAN_SLOTS)) 1)
     \<lparr>sl_sequence_id = 1, sl_in_progress = None, sl_cached_reply = None\<rparr>"

definition create_session ::
  "state_manager \<Rightarrow> instant \<Rightarrow> create_session_args4 \<Rightarrow> u64 \<Rightarrow> state_manager \<times> (nfsstat4 + create_session_res4)" where
  "create_session sm now args connection_id =
     (let inner = reap_expired_clients_locked (sm_config sm) (sm_inner sm) now;
          clientid = cs_args_clientid args in
      case hm_get (si_clients inner) clientid of
        None \<Rightarrow> (sm\<lparr>sm_inner := inner\<rparr>, Inl Stat_StaleClientid)
      | Some client \<Rightarrow>
          if lease_is_revoked (cs_lease_state client)
          then (sm\<lparr>sm_inner := inner\<rparr>, Inl Stat_StaleClientid)
          else if cs_args_sequence args \<noteq> cs_sequence_id client
          then (sm\<lparr>sm_inner := inner\<rparr>, Inl Stat_SeqMisordered)
          else
            let replaced_clientid = cs_replaced_clientid client;
                client = client\<lparr>cs_sequence_id := cs_sequence_id client + 1, cs_confirmed := True,
                  cs_status_flags := 0,
                  cs_lease_state := Lease_Active (lease_deadline (sm_config sm) now),
                  cs_replaced_clientid := None\<rparr>;
                inner = put_client clientid client inner;
                inner = (case replaced_clientid of
                    None \<Rightarrow> inner
                  | Some old \<Rightarrow> fst (drop_client_state inner old));
                sessionid = mk_sessionid clientid (cs_sequence_id client);
                backchannel = callback_backchannel args back_chan_attrs;
                accept_current_backchannel = (backchannel \<noteq> None
                  \<and> cs_args_flags args AND CREATE_SESSION4_FLAG_CONN_BACK_CHAN \<noteq> 0);
                session = \<lparr>ss_clientid = clientid, ss_slots = new_slots (cs_args_fore_chan_attrs args),
                  ss_fore_connections = [connection_id],
                  ss_back_connections = (if accept_current_backchannel then [connection_id] else []),
                  ss_backchannel = backchannel\<rparr>;
                inner = put_session sessionid session inner in
            (sm\<lparr>sm_inner := inner\<rparr>,
             Inr \<lparr>cr_sessionid = sessionid, cr_sequenceid = cs_args_sequence args,
               cr_flags = (if accept_current_backchannel then CREATE_SESSION4_FLAG_CONN_BACK_CHAN else 0),
               cr_fore_chan_attrs = fore_chan_of (cs_args_fore_chan_attrs args),
               cr_back_chan_attrs = back_chan_attrs\<rparr>))"

section \<open>Sessions and connections\<close>

definition destroy_session ::
  "state_manager \<Rightarrow> instant \<Rightarrow> sessionid4 \<Rightarrow> u64 \<Rightarrow> state_manager \<times> (nfsstat4 + unit)" where
  "destroy_session sm now sessionid connection_id =
     (let inner = reap_expired_clients_locked (sm_config sm) (sm_inner sm) now in
      case hm_get (si_sessions inner) sessionid of
        None \<Rightarrow> (sm\<lparr>sm_inner := inner\<rparr>, Inl Stat_BadSession)
      | Some session \<Rightarrow>
          if connection_id \<notin> set (ss_fore_connections session)
             \<and> connection_id \<notin> set (ss_back_connections session)
          then (sm\<lparr>sm_inner := inner\<rparr>, Inl Stat_ConnNotBoundToSession)
          else (sm\<lparr>sm_inner := inner\<lparr>si_sessions := hm_remove sessionid (si_sessions inner)\<rparr>\<rparr>, Inr ()))"

definition destroy_clientid ::
  "state_manager \<Rightarrow> instant \<Rightarrow> clientid4 \<Rightarrow> state_manager \<times> (nfsstat4 + unit)" where
  "destroy_clientid sm now clientid =
     (let inner = reap_expired_clients_locked (sm_config sm) (sm_inner sm) now in
      if client_has_active_state inner clientid then (sm\<lparr>sm_inner := inner\<rparr>, Inl Stat_ClientidBusy)
      else
        let (inner, existed) = drop_client_state inner clientid in
        (sm\<lparr>sm_inner := inner\<rparr>, if existed then Inr () else Inl Stat_StaleClientid))"

definition ensure_backchannel_configured :: "session_state \<Rightarrow> nfsstat4 + unit" where
  "ensure_backchannel_configured session =
     (if ss_backchannel session \<noteq> None then Inr () else Inl Stat_Inval)"

definition add_fore :: "u64 \<Rightarrow> session_state \<Rightarrow> session_state" where
  "add_fore connection_id session =
     session\<lparr>ss_fore_connections := hs_insert connection_id (ss_fore_connections session)\<rparr>"

definition add_back :: "u64 \<Rightarrow> session_state \<Rightarrow> session_state" where
  "add_back connection_id session =
     session\<lparr>ss_back_connections := hs_insert connection_id (ss_back_connections session)\<rparr>"

definition bind_connection_direction ::
  "session_state \<Rightarrow> u32 \<Rightarrow> u64 \<Rightarrow> session_state \<times> (nfsstat4 + u32)" where
  "bind_connection_direction session client_dir connection_id =
     (if client_dir = CDFC4_FORE then (add_fore connection_id session, Inr CDFS4_FORE)
      else if client_dir = CDFC4_BACK then
        (case ensure_backchannel_configured session of
           Inl e \<Rightarrow> (session, Inl e)
         | Inr u \<Rightarrow> (add_back connection_id session, Inr CDFS4_BACK))
      else if client_dir = CDFC4_FORE_OR_BOTH then
        (let session = add_fore connection_id session in
         if ss_backchannel session \<noteq> None then (add_back connection_id session, Inr CDFS4_BOTH)
         else (session, Inr CDFS4_FORE))
      else if client_dir = CDFC4_BACK_OR_BOTH then
        (case ensure_backchannel_configured session of
           Inl e \<Rightarrow> (session, Inl e)
         | Inr u \<Rightarrow> (add_fore connection_id (add_back connection_id session), Inr CDFS4_BOTH))
      else (session, Inl Stat_Inval))"

definition bind_conn_to_session ::
  "state_manager \<Rightarrow> instant \<Rightarrow> bind_conn_to_session_args4 \<Rightarrow> u64
    \<Rightarrow> state_manager \<times> (nfsstat4 + bind_conn_to_session_res4)" where
  "bind_conn_to_session sm now args connection_id =
     (let inner = reap_expired_clients_locked (sm_config sm) (sm_inner sm) now in
      case hm_get (si_sessions inner) (bc_args_sessionid args) of
        None \<Rightarrow> (sm\<lparr>sm_inner := inner\<rparr>, Inl Stat_BadSession)
      | Some session \<Rightarrow>
          let (session, res) = bind_connection_direction session (bc_args_dir args) connection_id in
          (sm\<lparr>sm_inner := put_session (bc_args_sessionid args) session inner\<rparr>,
           case res of
             Inl e \<Rightarrow> Inl e
           | Inr dir \<Rightarrow> Inr \<lparr>br_sessionid = bc_args_sessionid args, br_dir = dir,
               br_use_conn_in_rdma_mode = False\<rparr>))"

definition session_clientid :: "state_manager \<Rightarrow> sessionid4 \<Rightarrow> clientid4 option" where
  "session_clientid sm sessionid = map_option ss_clientid (hm_get (si_sessions (sm_inner sm)) sessionid)"

definition callback_connection_ids :: "state_manager \<Rightarrow> clientid4 \<Rightarrow> u64 list" where
  "callback_connection_ids sm clientid =
     concat (map (\<lambda>(k, session). ss_back_connections session)
       (filter (\<lambda>(k, session). ss_clientid session = clientid \<and> ss_backchannel session \<noteq> None)
         (si_sessions (sm_inner sm))))"

definition next_callback_target_on ::
  "state_manager \<Rightarrow> clientid4 \<Rightarrow> u64 \<Rightarrow> state_manager \<times> callback_target option" where
  "next_callback_target_on sm clientid connection_id =
     (let inner = sm_inner sm in
      case hm_find (\<lambda>_ session. ss_clientid session = clientid \<and> ss_backchannel session \<noteq> None
          \<and> connection_id \<in> set (ss_back_connections session)) (si_sessions inner) of
        None \<Rightarrow> (sm, None)
      | Some (sessionid, session) \<Rightarrow>
          (case ss_backchannel session of
             None \<Rightarrow> (sm, None)
           | Some backchannel \<Rightarrow>
               let sequenceid = bc_next_sequenceid backchannel;
                   backchannel' = backchannel\<lparr>bc_next_sequenceid := max (sequenceid + 1) 1\<rparr> in
               (sm\<lparr>sm_inner := put_session sessionid (session\<lparr>ss_backchannel := Some backchannel'\<rparr>) inner\<rparr>,
                Some \<lparr>ct_sessionid = sessionid, ct_connection_id = connection_id,
                  ct_cb_program = bc_cb_program backchannel, ct_auth = bc_auth backchannel,
                  ct_sequenceid = sequenceid, ct_highest_slotid = bc_highest_slotid backchannel\<rparr>)))"

definition remove_connection :: "state_manager \<Rightarrow> u64 \<Rightarrow> state_manager" where
  "remove_connection sm connection_id =
     (let inner = sm_inner sm in
      sm\<lparr>sm_inner := inner\<lparr>si_sessions := hm_map_values (\<lambda>session. session\<lparr>
           ss_fore_connections := hs_remove connection_id (ss_fore_connections session),
           ss_back_connections := hs_remove connection_id (ss_back_connections session)\<rparr>)
         (si_sessions inner)\<rparr>\<rparr>)"

section \<open>Reclaim and leases\<close>

definition reclaim_complete ::
  "state_manager \<Rightarrow> instant \<Rightarrow> clientid4 \<Rightarrow> bool \<Rightarrow> state_manager \<times> (nfsstat4 + unit)" where
  "reclaim_complete sm now clientid one_fs =
     (let inner = reap_expired_clients_locked (sm_config sm) (sm_inner sm) now in
      case hm_get (si_clients inner) clientid of
        None \<Rightarrow> (sm\<lparr>sm_inner := inner\<rparr>, Inl Stat_StaleClientid)
      | Some client \<Rightarrow>
          if one_fs then (sm\<lparr>sm_inner := inner\<rparr>, Inr ())
          else if cs_reclaim_complete_global client then (sm\<lparr>sm_inner := inner\<rparr>, Inl Stat_CompleteAlready)
          else (sm\<lparr>sm_inner := put_client clientid (client\<lparr>cs_reclaim_complete_global := True\<rparr>) inner\<rparr>, Inr ()))"

definition validate_open_reclaim ::
  "state_manager \<Rightarrow> instant \<Rightarrow> clientid4 \<Rightarrow> open_claim4 \<Rightarrow> state_manager \<times> (nfsstat4 + unit)" where
  "validate_open_reclaim sm now clientid claim =
     (let sm = reap_expired_clients sm now in
      (sm,
       case hm_get (si_clients (sm_inner sm)) clientid of
         None \<Rightarrow> Inl Stat_StaleClientid
       | Some client \<Rightarrow>
           if lease_is_revoked (cs_lease_state client) then Inl Stat_StaleClientid
           else
             case claim of
               Claim_Previous t \<Rightarrow>
                 if cs_reclaim_complete_global client then Inl Stat_NoGrace else Inr ()
             | _ \<Rightarrow> Inr ()))"

definition next_v40_confirm_verifier :: "state_manager \<Rightarrow> clientid4 \<Rightarrow> verifier4" where
  "next_v40_confirm_verifier sm clientid = be_u64 (u64_of_be (sm_write_verifier sm) XOR clientid)"

definition set_client_id ::
  "state_manager \<Rightarrow> instant \<Rightarrow> set_client_id_args4 \<Rightarrow> state_manager \<times> set_client_id_res4" where
  "set_client_id sm now args =
     (let inner = reap_expired_clients_locked (sm_config sm) (sm_inner sm) now;
          owner = sc_client args;
          existing = map_option (\<lambda>(k, c). cs_clientid c)
            (hm_find (\<lambda>_ c. same_owner owner c \<and> same_verifier owner c \<and> cs_confirmed c) (si_clients inner));
          stale = map (\<lambda>(k, c). cs_clientid c)
            (filter (\<lambda>(k, c). same_owner owner c \<and> \<not> cs_confirmed c) (si_clients inner));
          inner = drop_clients stale inner;
          (clientid, next_clientid) = (case existing of
              Some i \<Rightarrow> (i, sm_next_clientid sm)
            | None \<Rightarrow> (sm_next_clientid sm, sm_next_clientid sm + 1));
          confirm_verifier = next_v40_confirm_verifier sm clientid;
          deadline = lease_deadline (sm_config sm) now;
          inner = (case existing of
              Some existing_id \<Rightarrow>
                (case hm_get (si_clients inner) existing_id of
                   None \<Rightarrow> inner
                 | Some client \<Rightarrow> put_client existing_id (client\<lparr>cs_v40_confirm := Some confirm_verifier,
                     cs_lease_state := Lease_Active deadline\<rparr>) inner)
            | None \<Rightarrow> put_client clientid ((new_client clientid owner None deadline)\<lparr>
                cs_v40_confirm := Some confirm_verifier\<rparr>) inner) in
      (sm\<lparr>sm_inner := inner, sm_next_clientid := next_clientid\<rparr>,
       \<lparr>scr_clientid = clientid, scr_setclientid_confirm = confirm_verifier\<rparr>))"

definition set_client_id_confirm ::
  "state_manager \<Rightarrow> instant \<Rightarrow> set_client_id_confirm_args4 \<Rightarrow> state_manager \<times> (nfsstat4 + unit)" where
  "set_client_id_confirm sm now args =
     (let inner = reap_expired_clients_locked (sm_config sm) (sm_inner sm) now in
      case hm_get (si_clients inner) (scc_clientid args) of
        None \<Rightarrow> (sm\<lparr>sm_inner := inner\<rparr>, Inl Stat_StaleClientid)
      | Some client \<Rightarrow>
          if cs_v40_confirm client = Some (scc_verifier args)
          then (sm\<lparr>sm_inner := put_client (scc_clientid args) (client\<lparr>cs_v40_confirm := None,
                  cs_confirmed := True, cs_status_flags := 0,
                  cs_lease_state := Lease_Active (lease_deadline (sm_config sm) now)\<rparr>) inner\<rparr>, Inr ())
          else (sm\<lparr>sm_inner := inner\<rparr>, Inl Stat_StaleClientid))"

definition renew :: "state_manager \<Rightarrow> instant \<Rightarrow> clientid4 \<Rightarrow> state_manager \<times> (nfsstat4 + unit)" where
  "renew sm now clientid =
     (let inner = sm_inner sm in
      case hm_get (si_clients inner) clientid of
        None \<Rightarrow> (sm, Inl Stat_StaleClientid)
      | Some client \<Rightarrow>
          if \<not> cs_confirmed client then (sm, Inl Stat_StaleClientid)
          else
            case cs_lease_state client of
              Lease_Active d \<Rightarrow>
                (sm\<lparr>sm_inner := put_client clientid (client\<lparr>cs_lease_state :=
                   Lease_Active (lease_deadline (sm_config sm) now)\<rparr>) inner\<rparr>, Inr ())
            | Lease_Revoked since flags \<Rightarrow> (sm, Inl Stat_Expired))"

end
