(* ===== verification/Opens.thy ===== *)
theory Opens
  imports Leases
begin

text \<open>
  Open state and share reservations, \<^verbatim>\<open>session/opens.rs\<close>. Each operation first runs the reaper in a
  critical section of its own and then its own critical section, here the \<open>_locked\<close> function.

  The invariant \<open>opens_ok\<close> is the contract of OPEN: the stored access modes are well formed, no
  active open of an object denies what another active open of it has, and an owner has at most one
  active open of an object.
\<close>

definition OPEN4_SHARE_ACCESS_READ :: u32 where "OPEN4_SHARE_ACCESS_READ = 0x00000001"
definition OPEN4_SHARE_ACCESS_WRITE :: u32 where "OPEN4_SHARE_ACCESS_WRITE = 0x00000002"
definition OPEN4_SHARE_ACCESS_BOTH :: u32 where "OPEN4_SHARE_ACCESS_BOTH = 0x00000003"
definition OPEN4_SHARE_DENY_NONE :: u32 where "OPEN4_SHARE_DENY_NONE = 0x00000000"
definition OPEN4_SHARE_DENY_READ :: u32 where "OPEN4_SHARE_DENY_READ = 0x00000001"
definition OPEN4_SHARE_DENY_WRITE :: u32 where "OPEN4_SHARE_DENY_WRITE = 0x00000002"
definition OPEN4_SHARE_DENY_BOTH :: u32 where "OPEN4_SHARE_DENY_BOTH = 0x00000003"
definition OPEN4_SHARE_ACCESS_WANT_DELEG_MASK :: u32 where
  "OPEN4_SHARE_ACCESS_WANT_DELEG_MASK = 0xFF00"

lemmas share_consts = OPEN4_SHARE_ACCESS_READ_def OPEN4_SHARE_ACCESS_WRITE_def
  OPEN4_SHARE_ACCESS_BOTH_def OPEN4_SHARE_DENY_NONE_def OPEN4_SHARE_DENY_READ_def
  OPEN4_SHARE_DENY_WRITE_def OPEN4_SHARE_DENY_BOTH_def OPEN4_SHARE_ACCESS_WANT_DELEG_MASK_def

text \<open>Replacing one open file state in the shared state.\<close>

definition put_open :: "stateid_other \<Rightarrow> open_file_state \<Rightarrow> state_manager \<Rightarrow> state_manager" where
  "put_open other state sm = sm\<lparr>sm_inner := (sm_inner sm)\<lparr>si_open_files :=
     hm_insert other state (si_open_files (sm_inner sm))\<rparr>\<rparr>"

abbreviation "sm_opens sm \<equiv> si_open_files (sm_inner sm)"
abbreviation "sm_locks sm \<equiv> si_lock_files (sm_inner sm)"

section \<open>The code\<close>

definition has_conflicting_share_deny ::
  "state_manager \<Rightarrow> instant \<Rightarrow> server_object \<Rightarrow> u32 \<Rightarrow> stateid_other option \<Rightarrow> state_manager \<times> bool" where
  "has_conflicting_share_deny sm now object access ignore_open_other =
     (let sm = reap_expired_clients sm now in
      (sm, hm_any (\<lambda>other state. of_active state \<and> of_object state = object
         \<and> Some other \<noteq> ignore_open_other \<and> of_share_deny state AND access \<noteq> 0) (sm_opens sm)))"

definition create_open_state_locked ::
  "state_manager \<Rightarrow> server_object \<Rightarrow> state_owner4 \<Rightarrow> u32 \<Rightarrow> u32 \<Rightarrow> state_manager \<times> (nfsstat4 + stateid4)" where
  "create_open_state_locked sm object owner share_access share_deny =
     (let clientid = so_clientid owner in
      if is_retired sm object then (sm, Inl Stat_Stale)
      else
        let existing = map_option (\<lambda>(other, state). (other, of_share_access state, of_share_deny state))
              (hm_find (\<lambda>_ state. of_active state \<and> of_object state = object
                 \<and> of_clientid state = clientid \<and> of_owner state = so_owner owner) (sm_opens sm));
            (want_access, want_deny) = (case existing of
                Some (other, access, deny) \<Rightarrow> (access OR share_access, deny OR share_deny)
              | None \<Rightarrow> (share_access, share_deny));
            own_other = map_option (\<lambda>(other, access, deny). other) existing in
        if hm_any (\<lambda>other state. of_active state \<and> Some other \<noteq> own_other
             \<and> of_object state = object
             \<and> (of_share_deny state AND want_access \<noteq> 0 \<or> want_deny AND of_share_access state \<noteq> 0))
             (sm_opens sm)
        then (sm, Inl Stat_ShareDenied)
        else
          case own_other of
            Some other \<Rightarrow>
              (case hm_get (sm_opens sm) other of
                 None \<Rightarrow> (sm, Inl Stat_Serverfault)
               | Some state \<Rightarrow>
                   let state = state\<lparr>of_share_access := want_access, of_share_deny := want_deny,
                         of_stateid_seq := of_stateid_seq state + 1\<rparr> in
                   (put_open other state sm, Inr (mk_stateid (of_stateid_seq state) other)))
          | None \<Rightarrow>
              let seq = sm_next_stateid sm;
                  sm = sm\<lparr>sm_next_stateid := seq + 1\<rparr>;
                  other = mk_other seq clientid in
              (put_open other \<lparr>of_object = object, of_clientid = clientid,
                 of_owner = so_owner owner, of_stateid_seq = 1, of_active = True,
                 of_share_access = share_access, of_share_deny = share_deny\<rparr> sm,
               Inr (mk_stateid 1 other)))"

definition create_open_state ::
  "state_manager \<Rightarrow> instant \<Rightarrow> server_object \<Rightarrow> state_owner4 \<Rightarrow> u32 \<Rightarrow> u32
    \<Rightarrow> state_manager \<times> (nfsstat4 + stateid4)" where
  "create_open_state sm now object owner share_access share_deny =
     (let sm = reap_expired_clients sm now;
          share_access = share_access AND OPEN4_SHARE_ACCESS_BOTH in
      if share_access = 0 \<or> share_deny AND NOT OPEN4_SHARE_DENY_BOTH \<noteq> 0
      then (sm, Inl Stat_Inval)
      else create_open_state_locked sm object owner share_access share_deny)"

definition confirm_open_state_locked ::
  "state_manager \<Rightarrow> stateid4 \<Rightarrow> state_manager \<times> (nfsstat4 + stateid4)" where
  "confirm_open_state_locked sm stateid =
     (case hm_get (sm_opens sm) (sid_other stateid) of
        None \<Rightarrow> (sm, Inl Stat_BadStateid)
      | Some state \<Rightarrow>
          if \<not> of_active state then (sm, Inl Stat_BadStateid)
          else
            case validate_stateid_seq (of_stateid_seq state) (sid_seqid stateid) of
              Inl e \<Rightarrow> (sm, Inl e)
            | Inr u \<Rightarrow>
                let state = state\<lparr>of_stateid_seq := of_stateid_seq state + 1\<rparr> in
                (put_open (sid_other stateid) state sm,
                 Inr (mk_stateid (of_stateid_seq state) (sid_other stateid))))"

definition confirm_open_state ::
  "state_manager \<Rightarrow> instant \<Rightarrow> stateid4 \<Rightarrow> state_manager \<times> (nfsstat4 + stateid4)" where
  "confirm_open_state sm now stateid = confirm_open_state_locked (reap_expired_clients sm now) stateid"

record close_outcome =
  cl_stateid :: stateid4
  cl_last_writer :: bool

definition close_state_locked ::
  "state_manager \<Rightarrow> stateid4 \<Rightarrow> state_manager \<times> (nfsstat4 + close_outcome)" where
  "close_state_locked sm stateid =
     (case hm_get (sm_opens sm) (sid_other stateid) of
        None \<Rightarrow> (sm, Inl Stat_BadStateid)
      | Some state \<Rightarrow>
          let stored_seq = of_stateid_seq state; active = of_active state;
              object = of_object state;
              was_writer = (of_share_access state AND OPEN4_SHARE_ACCESS_WRITE \<noteq> 0) in
          case validate_stateid_seq stored_seq (sid_seqid stateid) of
            Inl e \<Rightarrow> (sm, Inl e)
          | Inr u \<Rightarrow>
              if \<not> active then (sm, Inl Stat_BadStateid)
              else if hm_any (\<lambda>_ lock. lf_active lock \<and> lf_open_state_other lock = sid_other stateid)
                (sm_locks sm) then (sm, Inl Stat_LocksHeld)
              else
                let new_seqid = stored_seq + 1;
                    sm = put_open (sid_other stateid)
                      (state\<lparr>of_active := False, of_stateid_seq := new_seqid\<rparr>) sm;
                    writers_remain = hm_any (\<lambda>_ s. of_active s \<and> of_object s = object
                      \<and> of_share_access s AND OPEN4_SHARE_ACCESS_WRITE \<noteq> 0) (sm_opens sm) in
                (sm, Inr \<lparr>cl_stateid = mk_stateid new_seqid (sid_other stateid),
                       cl_last_writer = (was_writer \<and> \<not> writers_remain)\<rparr>))"

definition close_state ::
  "state_manager \<Rightarrow> instant \<Rightarrow> stateid4 \<Rightarrow> state_manager \<times> (nfsstat4 + close_outcome)" where
  "close_state sm now stateid = close_state_locked (reap_expired_clients sm now) stateid"

definition free_stateid_locked ::
  "state_manager \<Rightarrow> stateid4 \<Rightarrow> state_manager \<times> (nfsstat4 + unit)" where
  "free_stateid_locked sm stateid =
     (let inner = sm_inner sm; other = sid_other stateid in
      case hm_get (si_open_files inner) other of
        Some open_st \<Rightarrow>
          (case validate_stateid_seq (of_stateid_seq open_st) (sid_seqid stateid) of
             Inl e \<Rightarrow> (sm, Inl e)
           | Inr u \<Rightarrow>
               let locks_held = hm_any (\<lambda>_ lock. lf_active lock \<and> lf_open_state_other lock = other)
                     (si_lock_files inner) in
               if of_active open_st \<or> locks_held then (sm, Inl Stat_LocksHeld)
               else (sm\<lparr>sm_inner := inner\<lparr>si_open_files := hm_remove other (si_open_files inner)\<rparr>\<rparr>, Inr ()))
      | None \<Rightarrow>
          (case hm_get (si_lock_files inner) other of
             Some lock \<Rightarrow>
               (case validate_stateid_seq (lf_stateid_seq lock) (sid_seqid stateid) of
                  Inl e \<Rightarrow> (sm, Inl e)
                | Inr u \<Rightarrow>
                    if lf_active lock then (sm, Inl Stat_LocksHeld)
                    else (sm\<lparr>sm_inner := inner\<lparr>si_lock_files := hm_remove other (si_lock_files inner)\<rparr>\<rparr>, Inr ()))
           | None \<Rightarrow>
               (case hm_get (si_delegations inner) other of
                  Some delegation \<Rightarrow>
                    (case validate_stateid_seq (dg_stateid_seq delegation) (sid_seqid stateid) of
                       Inl e \<Rightarrow> (sm, Inl e)
                     | Inr u \<Rightarrow>
                         if \<not> (dg_status delegation = Deleg_Revoked \<or> dg_status delegation = Deleg_Returned)
                         then (sm, Inl Stat_LocksHeld)
                         else (sm\<lparr>sm_inner := fst (remove_delegation_locked inner other)\<rparr>, Inr ()))
                | None \<Rightarrow> (sm, Inl Stat_BadStateid))))"

definition free_stateid ::
  "state_manager \<Rightarrow> instant \<Rightarrow> stateid4 \<Rightarrow> state_manager \<times> (nfsstat4 + unit)" where
  "free_stateid sm now stateid = free_stateid_locked (reap_expired_clients sm now) stateid"

definition open_downgrade_locked ::
  "state_manager \<Rightarrow> stateid4 \<Rightarrow> u32 \<Rightarrow> u32 \<Rightarrow> state_manager \<times> (nfsstat4 + stateid4)" where
  "open_downgrade_locked sm open_stateid access_mode share_deny =
     (case hm_get (sm_opens sm) (sid_other open_stateid) of
        None \<Rightarrow> (sm, Inl Stat_BadStateid)
      | Some state \<Rightarrow>
          case validate_stateid_seq (of_stateid_seq state) (sid_seqid open_stateid) of
            Inl e \<Rightarrow> (sm, Inl e)
          | Inr u \<Rightarrow>
              if \<not> of_active state then (sm, Inl Stat_BadStateid)
              else if access_mode AND NOT (of_share_access state) \<noteq> 0
                \<or> share_deny AND NOT (of_share_deny state) \<noteq> 0 then (sm, Inl Stat_Inval)
              else
                let state = state\<lparr>of_share_access := access_mode, of_share_deny := share_deny,
                      of_stateid_seq := of_stateid_seq state + 1\<rparr> in
                (put_open (sid_other open_stateid) state sm,
                 Inr (mk_stateid (of_stateid_seq state) (sid_other open_stateid))))"

definition open_downgrade ::
  "state_manager \<Rightarrow> instant \<Rightarrow> stateid4 \<Rightarrow> u32 \<Rightarrow> u32 \<Rightarrow> state_manager \<times> (nfsstat4 + stateid4)" where
  "open_downgrade sm now open_stateid share_access share_deny =
     (let sm = reap_expired_clients sm now;
          access_mode = share_access AND NOT OPEN4_SHARE_ACCESS_WANT_DELEG_MASK in
      if \<not> (access_mode = OPEN4_SHARE_ACCESS_READ \<or> access_mode = OPEN4_SHARE_ACCESS_WRITE
            \<or> access_mode = OPEN4_SHARE_ACCESS_BOTH) then (sm, Inl Stat_Inval)
      else if \<not> (share_deny = OPEN4_SHARE_DENY_NONE \<or> share_deny = OPEN4_SHARE_DENY_READ
            \<or> share_deny = OPEN4_SHARE_DENY_WRITE \<or> share_deny = OPEN4_SHARE_DENY_BOTH)
      then (sm, Inl Stat_Inval)
      else open_downgrade_locked sm open_stateid access_mode share_deny)"

section \<open>The invariant\<close>

definition open_mode_ok :: "open_file_state \<Rightarrow> bool" where
  "open_mode_ok s \<longleftrightarrow> of_share_access s \<noteq> 0
     \<and> of_share_access s AND NOT OPEN4_SHARE_ACCESS_BOTH = 0
     \<and> of_share_deny s AND NOT OPEN4_SHARE_DENY_BOTH = 0"

text \<open>Two opens that may be stored side by side.\<close>

definition opens_compatible :: "open_file_state \<Rightarrow> open_file_state \<Rightarrow> bool" where
  "opens_compatible a b \<longleftrightarrow> of_active a \<and> of_active b \<and> of_object a = of_object b \<longrightarrow>
     of_share_deny a AND of_share_access b = 0 \<and> of_share_deny b AND of_share_access a = 0
     \<and> \<not> (of_clientid a = of_clientid b \<and> of_owner a = of_owner b)"

definition opens_ok :: "(stateid_other, open_file_state) hmap \<Rightarrow> bool" where
  "opens_ok m \<longleftrightarrow> hm_wf m
     \<and> hm_all (\<lambda>k s. open_mode_ok s \<and> hm_all (\<lambda>k' s'. k = k' \<or> opens_compatible s s') m) m"

lemma opens_compatible_sym: "opens_compatible a b \<longleftrightarrow> opens_compatible b a"
  by (auto simp: opens_compatible_def)

lemma opens_ok_iff:
  "opens_ok m \<longleftrightarrow> hm_wf m \<and> (\<forall>k s. hm_get m k = Some s \<longrightarrow> open_mode_ok s)
     \<and> (\<forall>k k' s s'. hm_get m k = Some s \<longrightarrow> hm_get m k' = Some s' \<longrightarrow> k \<noteq> k' \<longrightarrow> opens_compatible s s')"
  unfolding opens_ok_def by (cases "hm_wf m") (simp_all add: hm_all_iff, blast)

lemma opens_okD:
  assumes "opens_ok m"
  shows "hm_wf m" and "hm_get m k = Some s \<Longrightarrow> open_mode_ok s"
    and "hm_get m k = Some s \<Longrightarrow> hm_get m k' = Some s' \<Longrightarrow> k \<noteq> k' \<Longrightarrow> opens_compatible s s'"
  using assms unfolding opens_ok_iff by blast+

lemma opens_ok_Nil [simp]: "opens_ok []"
  by (simp add: opens_ok_iff)

lemma opens_ok_submap:
  assumes "opens_ok m" and "hm_wf m'" and "\<And>k s. hm_get m' k = Some s \<Longrightarrow> hm_get m k = Some s"
  shows "opens_ok m'"
  using assms unfolding opens_ok_iff by blast

lemma opens_ok_retain: "opens_ok m \<Longrightarrow> opens_ok (hm_retain P m)"
  by (rule opens_ok_submap [of m]) (auto simp: opens_okD(1) hm_simps)

lemma opens_ok_remove: "opens_ok m \<Longrightarrow> opens_ok (hm_remove k m)"
  by (rule opens_ok_submap [of m]) (auto simp: opens_okD(1) hm_simps split: if_splits)

lemma opens_ok_insert:
  assumes "opens_ok m" and "open_mode_ok s"
    and "\<And>k' s'. hm_get m k' = Some s' \<Longrightarrow> k' \<noteq> k \<Longrightarrow> opens_compatible s s'"
  shows "opens_ok (hm_insert k s m)"
  unfolding opens_ok_iff
proof (intro conjI allI impI)
  show "hm_wf (hm_insert k s m)"
    using opens_okD(1) [OF assms(1)] by (simp add: hm_simps)
  show "open_mode_ok t" if "hm_get (hm_insert k s m) i = Some t" for i t
    using that assms(2) opens_okD(2) [OF assms(1)] by (auto simp: hm_simps split: if_splits)
  show "opens_compatible t t'" if "hm_get (hm_insert k s m) i = Some t"
    "hm_get (hm_insert k s m) j = Some t'" "i \<noteq> j" for i j t t'
    using that assms(3) opens_okD(3) [OF assms(1)] opens_compatible_sym
    by (fastforce simp: hm_simps split: if_splits)
qed

text \<open>A state that asks for no more than the one it replaces.\<close>

lemma and_or_eq_0: "(a :: u32) AND (b OR c) = 0 \<longleftrightarrow> a AND b = 0 \<and> a AND c = 0"
  by (auto simp: bit_eq_iff bit_simps)

lemma or_and_eq_0: "((a :: u32) OR b) AND c = 0 \<longleftrightarrow> a AND c = 0 \<and> b AND c = 0"
  by (auto simp: bit_eq_iff bit_simps)

lemma submask_and_0:
  assumes "(a :: u32) AND NOT b = 0" and "b AND c = 0"
  shows "a AND c = 0" and "c AND a = 0"
  using assms by (auto simp: bit_eq_iff bit_simps)

lemma opens_compatible_weaken:
  assumes "opens_compatible s t"
    and "of_active s' \<Longrightarrow> of_active s" and "of_object s' = of_object s"
    and "of_clientid s' = of_clientid s" and "of_owner s' = of_owner s"
    and "of_share_access s' AND NOT (of_share_access s) = 0"
    and "of_share_deny s' AND NOT (of_share_deny s) = 0"
  shows "opens_compatible s' t"
  using assms(1-5) submask_and_0(2) [OF assms(6)] submask_and_0(1) [OF assms(7)]
  by (auto simp: opens_compatible_def and.commute [of _ "of_share_access s"])

lemma opens_ok_weaken:
  assumes "opens_ok m" and "hm_get m k = Some s" and "open_mode_ok s'"
    and "of_active s' \<Longrightarrow> of_active s" and "of_object s' = of_object s"
    and "of_clientid s' = of_clientid s" and "of_owner s' = of_owner s"
    and "of_share_access s' AND NOT (of_share_access s) = 0"
    and "of_share_deny s' AND NOT (of_share_deny s) = 0"
  shows "opens_ok (hm_insert k s' m)"
proof (rule opens_ok_insert [OF assms(1,3)])
  fix k' t
  assume "hm_get m k' = Some t" and "k' \<noteq> k"
  with assms(1,2) have "opens_compatible s t"
    by (auto intro: opens_okD(3))
  then show "opens_compatible s' t"
    by (rule opens_compatible_weaken) (use assms in auto)
qed

section \<open>OPEN\<close>

lemma put_open_sel [simp]:
  "sm_inner (put_open other s sm) =
     (sm_inner sm)\<lparr>si_open_files := hm_insert other s (sm_opens sm)\<rparr>"
  "sm_next_stateid (put_open other s sm) = sm_next_stateid sm"
  "sm_retired_objects (put_open other s sm) = sm_retired_objects sm"
  "sm_config (put_open other s sm) = sm_config sm"
  by (simp_all add: put_open_def)

text \<open>An open that stands in the way of the requested access and deny modes.\<close>

definition share_conflict :: "server_object \<Rightarrow> u32 \<Rightarrow> u32 \<Rightarrow> open_file_state \<Rightarrow> bool" where
  "share_conflict object access deny s \<longleftrightarrow> of_active s \<and> of_object s = object
     \<and> (of_share_deny s AND access \<noteq> 0 \<or> deny AND of_share_access s \<noteq> 0)"

definition owned_open :: "server_object \<Rightarrow> state_owner4 \<Rightarrow> open_file_state \<Rightarrow> bool" where
  "owned_open object owner s \<longleftrightarrow> of_active s \<and> of_object s = object
     \<and> of_clientid s = so_clientid owner \<and> of_owner s = so_owner owner"

text \<open>The outcomes of OPEN's critical section.\<close>

lemma create_open_state_locked_cases:
  assumes wf: "hm_wf (sm_opens sm)"
  obtains
    (stale) "is_retired sm object"
      "create_open_state_locked sm object owner access deny = (sm, Inl Stat_Stale)"
  | (denied) k s own where "\<not> is_retired sm object" "hm_get (sm_opens sm) k = Some s"
      "share_conflict object (case own of None \<Rightarrow> access | Some s0 \<Rightarrow> of_share_access s0 OR access)
         (case own of None \<Rightarrow> deny | Some s0 \<Rightarrow> of_share_deny s0 OR deny) s"
      "\<And>s0. own = Some s0 \<Longrightarrow> \<exists>k0. k0 \<noteq> k \<and> hm_get (sm_opens sm) k0 = Some s0 \<and> owned_open object owner s0"
      "create_open_state_locked sm object owner access deny = (sm, Inl Stat_ShareDenied)"
  | (upgrade) other s where "\<not> is_retired sm object" "hm_get (sm_opens sm) other = Some s"
      "owned_open object owner s"
      "\<And>k t. hm_get (sm_opens sm) k = Some t \<Longrightarrow> k \<noteq> other \<Longrightarrow>
         \<not> share_conflict object (of_share_access s OR access) (of_share_deny s OR deny) t"
      "create_open_state_locked sm object owner access deny =
         (put_open other (s\<lparr>of_share_access := of_share_access s OR access,
            of_share_deny := of_share_deny s OR deny, of_stateid_seq := of_stateid_seq s + 1\<rparr>) sm,
          Inr (mk_stateid (of_stateid_seq s + 1) other))"
  | (fresh) "\<not> is_retired sm object"
      "\<And>k t. hm_get (sm_opens sm) k = Some t \<Longrightarrow> \<not> owned_open object owner t"
      "\<And>k t. hm_get (sm_opens sm) k = Some t \<Longrightarrow> \<not> share_conflict object access deny t"
      "create_open_state_locked sm object owner access deny =
         (put_open (mk_other (sm_next_stateid sm) (so_clientid owner))
            \<lparr>of_object = object, of_clientid = so_clientid owner, of_owner = so_owner owner,
             of_stateid_seq = 1, of_active = True, of_share_access = access, of_share_deny = deny\<rparr>
            (sm\<lparr>sm_next_stateid := sm_next_stateid sm + 1\<rparr>),
          Inr (mk_stateid 1 (mk_other (sm_next_stateid sm) (so_clientid owner))))"
proof (cases "is_retired sm object")
  case True
  then show ?thesis by (intro stale) (simp_all add: create_open_state_locked_def)
next
  case nr: False
  define own where "own = hm_find (\<lambda>_ s. owned_open object owner s) (sm_opens sm)"
  have own_eq: "own = hm_find (\<lambda>_ state. of_active state \<and> of_object state = object
      \<and> of_clientid state = so_clientid owner \<and> of_owner state = so_owner owner) (sm_opens sm)"
    by (simp add: own_def owned_open_def)
  show ?thesis
  proof (cases own)
    case None
    show ?thesis
    proof (cases "hm_any (\<lambda>other state. of_active state \<and> of_object state = object
        \<and> (of_share_deny state AND access \<noteq> 0 \<or> deny AND of_share_access state \<noteq> 0)) (sm_opens sm)")
      case True
      then obtain k s where "hm_get (sm_opens sm) k = Some s" "share_conflict object access deny s"
        using wf by (auto simp: hm_any_iff share_conflict_def)
      then show ?thesis
        using nr None [unfolded own_eq] True
        by (intro denied [of k s None]) (simp_all add: create_open_state_locked_def)
    next
      case False
      then have "\<not> share_conflict object access deny t" if "hm_get (sm_opens sm) k = Some t" for k t
        using wf that by (auto simp: hm_any_iff share_conflict_def)
      moreover have "\<not> owned_open object owner t" if "hm_get (sm_opens sm) k = Some t" for k t
        using hm_find_NoneD [OF None [unfolded own_def] that] by simp
      ultimately show ?thesis
        using nr None [unfolded own_eq] False
        by (intro fresh) (simp_all add: create_open_state_locked_def Let_def)
    qed
  next
    case (Some kv)
    then obtain other s where kv: "own = Some (other, s)"
      by (cases kv) simp
    have s: "hm_get (sm_opens sm) other = Some s" "owned_open object owner s"
      using hm_find_SomeD [OF kv [unfolded own_def] wf] by simp_all
    show ?thesis
    proof (cases "hm_any (\<lambda>k state. of_active state \<and> Some k \<noteq> Some other \<and> of_object state = object
        \<and> (of_share_deny state AND (of_share_access s OR access) \<noteq> 0
           \<or> (of_share_deny s OR deny) AND of_share_access state \<noteq> 0)) (sm_opens sm)")
      case True
      then obtain k t where "hm_get (sm_opens sm) k = Some t" "k \<noteq> other"
        "share_conflict object (of_share_access s OR access) (of_share_deny s OR deny) t"
        using wf by (auto simp: hm_any_iff share_conflict_def)
      moreover have "create_open_state_locked sm object owner access deny = (sm, Inl Stat_ShareDenied)"
        using nr kv [unfolded own_eq] True by (simp add: create_open_state_locked_def)
      ultimately show ?thesis
        using nr s by (intro denied [of k t "Some s"]) auto
    next
      case False
      then have "\<not> share_conflict object (of_share_access s OR access) (of_share_deny s OR deny) t"
        if "hm_get (sm_opens sm) k = Some t" "k \<noteq> other" for k t
        using wf that by (auto simp: hm_any_iff share_conflict_def)
      then show ?thesis
        using nr kv [unfolded own_eq] False s
        by (intro upgrade [of other s]) (simp_all add: create_open_state_locked_def Let_def)
    qed
  qed
qed

lemma and_both_mask: "((a :: u32) AND 3) AND NOT 3 = 0"
  by (auto simp: bit_eq_iff bit_simps)

lemma no_conflict_compatible:
  assumes "\<not> share_conflict (of_object s) (of_share_access s) (of_share_deny s) t"
    and "\<not> (owned_open (of_object s) \<lparr>so_clientid = of_clientid s, so_owner = of_owner s\<rparr> t)"
  shows "opens_compatible s t"
  using assms by (auto simp: opens_compatible_def share_conflict_def owned_open_def)

lemma create_open_state_locked_opens_ok:
  assumes ok: "opens_ok (sm_opens sm)"
    and "access \<noteq> 0" and "access AND NOT OPEN4_SHARE_ACCESS_BOTH = 0"
    and "deny AND NOT OPEN4_SHARE_DENY_BOTH = 0"
  shows "opens_ok (sm_opens (fst (create_open_state_locked sm object owner access deny)))"
  using opens_okD(1) [OF ok]
proof (cases rule: create_open_state_locked_cases
    [where object = object and owner = owner and access = access and deny = deny])
  case (upgrade other s)
  let ?s = "s\<lparr>of_share_access := of_share_access s OR access,
    of_share_deny := of_share_deny s OR deny, of_stateid_seq := of_stateid_seq s + 1\<rparr>"
  have "open_mode_ok s"
    using opens_okD(2) [OF ok upgrade(2)] .
  then have "open_mode_ok ?s"
    using assms(3,4) by (auto simp: open_mode_ok_def or_eq_0_iff or_and_eq_0)
  moreover have "opens_compatible ?s t" if "hm_get (sm_opens sm) k = Some t" "k \<noteq> other" for k t
    using opens_okD(3) [OF ok upgrade(2) that(1)] that(2) upgrade(3,4) that
    by (intro no_conflict_compatible) (auto simp: owned_open_def opens_compatible_def)
  ultimately show ?thesis
    unfolding upgrade(5) by (simp add: opens_ok_insert [OF ok])
next
  case fresh
  then show ?thesis
    using assms(2-4)
    by (auto simp: open_mode_ok_def owned_open_def intro!: opens_ok_insert [OF ok] no_conflict_compatible)
qed (simp_all add: ok)

section \<open>The other operations\<close>

lemma and_not_self [simp]: "(a :: u32) AND NOT a = 0"
  by (auto simp: bit_eq_iff bit_simps)

lemma confirm_open_state_locked_opens_ok:
  "opens_ok (sm_opens sm) \<Longrightarrow> opens_ok (sm_opens (fst (confirm_open_state_locked sm stateid)))"
  by (auto simp: confirm_open_state_locked_def Let_def open_mode_ok_def
      intro!: opens_ok_weaken dest: opens_okD(2) split: option.split sum.split)

lemma close_state_locked_Inr:
  assumes wf: "hm_wf (sm_opens sm)" and "close_state_locked sm stateid = (sm', Inr out)"
  obtains s where "hm_get (sm_opens sm) (sid_other stateid) = Some s" "of_active s"
    "validate_stateid_seq (of_stateid_seq s) (sid_seqid stateid) = Inr ()"
    "sm' = put_open (sid_other stateid) (s\<lparr>of_active := False, of_stateid_seq := of_stateid_seq s + 1\<rparr>) sm"
    "cl_stateid out = mk_stateid (of_stateid_seq s + 1) (sid_other stateid)"
    "cl_last_writer out \<longleftrightarrow> of_share_access s AND OPEN4_SHARE_ACCESS_WRITE \<noteq> 0
       \<and> \<not> (\<exists>k t. k \<noteq> sid_other stateid \<and> hm_get (sm_opens sm) k = Some t \<and> of_active t
            \<and> of_object t = of_object s \<and> of_share_access t AND OPEN4_SHARE_ACCESS_WRITE \<noteq> 0)"
    "\<not> hm_any (\<lambda>_ lock. lf_active lock \<and> lf_open_state_other lock = sid_other stateid) (sm_locks sm)"
proof -
  obtain s where s: "hm_get (sm_opens sm) (sid_other stateid) = Some s"
    using assms(2) by (auto simp: close_state_locked_def split: option.splits)
  let ?s = "s\<lparr>of_active := False, of_stateid_seq := of_stateid_seq s + 1\<rparr>"
  have act: "of_active s" "validate_stateid_seq (of_stateid_seq s) (sid_seqid stateid) = Inr ()"
    "\<not> hm_any (\<lambda>_ lock. lf_active lock \<and> lf_open_state_other lock = sid_other stateid) (sm_locks sm)"
    and sm': "sm' = put_open (sid_other stateid) ?s sm"
    and out: "cl_stateid out = mk_stateid (of_stateid_seq s + 1) (sid_other stateid)"
      "cl_last_writer out \<longleftrightarrow> of_share_access s AND OPEN4_SHARE_ACCESS_WRITE \<noteq> 0
       \<and> \<not> hm_any (\<lambda>_ t. of_active t \<and> of_object t = of_object s
            \<and> of_share_access t AND OPEN4_SHARE_ACCESS_WRITE \<noteq> 0) (sm_opens sm')"
    using assms(2) s by (auto simp: close_state_locked_def Let_def split: sum.splits if_splits)
  have "hm_wf (hm_insert (sid_other stateid) ?s (sm_opens sm))"
    using wf by (simp add: hm_simps)
  then have "hm_any (\<lambda>_ t. of_active t \<and> of_object t = of_object s
        \<and> of_share_access t AND OPEN4_SHARE_ACCESS_WRITE \<noteq> 0) (sm_opens sm') \<longleftrightarrow>
      (\<exists>k t. k \<noteq> sid_other stateid \<and> hm_get (sm_opens sm) k = Some t \<and> of_active t
            \<and> of_object t = of_object s \<and> of_share_access t AND OPEN4_SHARE_ACCESS_WRITE \<noteq> 0)"
    unfolding sm' by (auto simp: hm_any_iff hm.get_ins split: if_splits)
  with out act sm' s show ?thesis by (intro that [of s]) auto
qed

lemma close_state_locked_Inl: "close_state_locked sm stateid = (sm', Inl e) \<Longrightarrow> sm' = sm"
  by (auto simp: close_state_locked_def Let_def split: option.splits sum.splits if_splits)

lemma close_state_locked_opens_ok:
  assumes ok: "opens_ok (sm_opens sm)"
  shows "opens_ok (sm_opens (fst (close_state_locked sm stateid)))"
proof (cases "snd (close_state_locked sm stateid)")
  case (Inl e)
  then have "fst (close_state_locked sm stateid) = sm"
    by (metis close_state_locked_Inl prod.collapse)
  with ok show ?thesis by simp
next
  case (Inr out)
  then have "close_state_locked sm stateid = (fst (close_state_locked sm stateid), Inr out)"
    by (simp add: prod_eq_iff)
  then show ?thesis
  proof (rule close_state_locked_Inr [OF opens_okD(1) [OF ok]])
    fix s
    assume s: "hm_get (sm_opens sm) (sid_other stateid) = Some s"
      and "fst (close_state_locked sm stateid) = put_open (sid_other stateid)
        (s\<lparr>of_active := False, of_stateid_seq := of_stateid_seq s + 1\<rparr>) sm"
    moreover have "open_mode_ok s"
      using opens_okD(2) [OF ok s] .
    ultimately show ?thesis
      using ok s by (auto simp: open_mode_ok_def intro!: opens_ok_weaken)
  qed
qed

lemma free_stateid_locked_opens_ok:
  "opens_ok (sm_opens sm) \<Longrightarrow> opens_ok (sm_opens (fst (free_stateid_locked sm stateid)))"
  by (auto simp: free_stateid_locked_def Let_def opens_ok_remove split: option.split sum.split)

lemma downgrade_mode_ok:
  assumes "open_mode_ok s" and "a \<noteq> 0" and "a AND NOT (of_share_access s) = 0"
    and "d AND NOT (of_share_deny s) = 0"
  shows "open_mode_ok (s\<lparr>of_share_access := a, of_share_deny := d, of_stateid_seq := q\<rparr>)"
  using assms submask_and_0(1) [OF assms(3)] submask_and_0(1) [OF assms(4)]
  by (simp add: open_mode_ok_def)

lemma open_downgrade_locked_opens_ok:
  assumes ok: "opens_ok (sm_opens sm)" and "access_mode \<noteq> 0"
  shows "opens_ok (sm_opens (fst (open_downgrade_locked sm stateid access_mode share_deny)))"
proof (cases "hm_get (sm_opens sm) (sid_other stateid)")
  case None
  then show ?thesis using ok by (simp add: open_downgrade_locked_def)
next
  case (Some s)
  have "opens_ok (hm_insert (sid_other stateid) (s\<lparr>of_share_access := access_mode,
      of_share_deny := share_deny, of_stateid_seq := of_stateid_seq s + 1\<rparr>) (sm_opens sm))"
    if "access_mode AND NOT (of_share_access s) = 0" "share_deny AND NOT (of_share_deny s) = 0"
    using ok Some that downgrade_mode_ok [OF opens_okD(2) [OF ok Some] assms(2) that]
    by (intro opens_ok_weaken [OF ok Some]) auto
  with ok Some show ?thesis
    by (auto simp: open_downgrade_locked_def Let_def split: sum.split)
qed

text \<open>The reaper only removes opens.\<close>

lemma reap_opens_ok:
  "opens_ok (si_open_files inner) \<Longrightarrow>
    opens_ok (si_open_files (reap_expired_clients_locked config inner now))"
  by (simp add: reap_sel opens_ok_retain)

lemma reap_manager_sel [simp]:
  "sm_inner (reap_expired_clients sm now) =
     reap_expired_clients_locked (sm_config sm) (sm_inner sm) now"
  "sm_next_stateid (reap_expired_clients sm now) = sm_next_stateid sm"
  "sm_retired_objects (reap_expired_clients sm now) = sm_retired_objects sm"
  "sm_config (reap_expired_clients sm now) = sm_config sm"
  by (simp_all add: reap_expired_clients_def)

lemma create_open_state_opens_ok:
  assumes "opens_ok (sm_opens sm)"
  shows "opens_ok (sm_opens (fst (create_open_state sm now object owner access deny)))"
proof -
  have "(access AND OPEN4_SHARE_ACCESS_BOTH) AND NOT OPEN4_SHARE_ACCESS_BOTH = 0"
    using and_both_mask by (simp add: share_consts)
  with reap_opens_ok [OF assms] show ?thesis
    by (auto simp: create_open_state_def Let_def intro!: create_open_state_locked_opens_ok)
qed

lemma open_downgrade_opens_ok:
  "opens_ok (sm_opens sm) \<Longrightarrow> opens_ok (sm_opens (fst (open_downgrade sm now stateid access deny)))"
  using reap_opens_ok [of "sm_inner sm"]
  by (auto simp: open_downgrade_def Let_def share_consts intro!: open_downgrade_locked_opens_ok)

end
