(* ===== verification/Delegations.thy ===== *)
theory Delegations
  imports Opens
begin

text \<open>
  Directory delegations, the operations of \<^verbatim>\<open>session/delegations.rs\<close>: granting within the limits,
  returning, purging, recalling and revoking. The tables and their index invariant are in
  \<open>Delegation_Index\<close>. \<open>now'\<close> is the second clock reading of an operation that reads it again after
  the reaper has run.
\<close>

definition SEQ4_STATUS_RECALLABLE_STATE_REVOKED :: u32 where
  "SEQ4_STATUS_RECALLABLE_STATE_REVOKED = 0x00000040"

definition put_delegation :: "stateid_other \<Rightarrow> delegation_state \<Rightarrow> state_inner \<Rightarrow> state_inner" where
  "put_delegation other state inner =
     inner\<lparr>si_delegations := hm_insert other state (si_delegations inner)\<rparr>"

section \<open>Granting\<close>

definition new_delegation ::
  "server_object \<Rightarrow> clientid4 \<Rightarrow> sessionid4 option \<Rightarrow> instant \<Rightarrow> delegation_state" where
  "new_delegation object clientid sessionid now =
     \<lparr>dg_object = object, dg_clientid = clientid, dg_sessionid = sessionid, dg_stateid_seq = 1,
      dg_kind = DirectoryRead, dg_status = Deleg_Granted, dg_granted_at = now,
      dg_last_recall_at = None\<rparr>"

text \<open>Allocating the state id and entering the delegation, the common tail of both grant paths.\<close>

definition enter_delegation ::
  "state_manager \<Rightarrow> instant \<Rightarrow> server_object \<Rightarrow> clientid4 \<Rightarrow> sessionid4 option \<Rightarrow> state_manager \<times> stateid4" where
  "enter_delegation sm now' object clientid sessionid =
     (let seq = sm_next_stateid sm; other = mk_other seq clientid in
      (sm\<lparr>sm_next_stateid := seq + 1,
          sm_inner := insert_delegation_locked (sm_inner sm) other
            (new_delegation object clientid sessionid now')\<rparr>,
       mk_stateid 1 other))"

definition create_directory_delegation_locked ::
  "state_manager \<Rightarrow> instant \<Rightarrow> server_object \<Rightarrow> clientid4 \<Rightarrow> sessionid4 option
    \<Rightarrow> state_manager \<times> (nfsstat4 + stateid4)" where
  "create_directory_delegation_locked sm now' object clientid sessionid =
     (if is_retired sm object then (sm, Inl Stat_Stale)
      else
        case find_live_directory_delegation (sm_inner sm) object clientid of
          Some other \<Rightarrow>
            (case hm_get (si_delegations (sm_inner sm)) other of
               None \<Rightarrow> (sm, Inl Stat_BadStateid)
             | Some state \<Rightarrow> (sm, Inr (mk_stateid (dg_stateid_seq state) other)))
        | None \<Rightarrow>
            let (sm, stateid) = enter_delegation sm now' object clientid sessionid in (sm, Inr stateid))"

definition create_directory_delegation ::
  "state_manager \<Rightarrow> instant \<Rightarrow> instant \<Rightarrow> server_object \<Rightarrow> clientid4 \<Rightarrow> sessionid4 option
    \<Rightarrow> state_manager \<times> (nfsstat4 + stateid4)" where
  "create_directory_delegation sm now now' object clientid sessionid =
     create_directory_delegation_locked (reap_expired_clients sm now) now' object clientid sessionid"

definition client_delegation_count :: "state_inner \<Rightarrow> clientid4 \<Rightarrow> nat" where
  "client_delegation_count inner clientid =
     length (filter (is_live_delegation inner) (idx_get (si_client_delegations inner) clientid))"

definition total_delegation_count :: "state_inner \<Rightarrow> nat" where
  "total_delegation_count inner =
     length (filter (\<lambda>(other, state). is_live_delegation_status (dg_status state)) (si_delegations inner))"

definition grant_directory_delegation_locked ::
  "state_manager \<Rightarrow> instant \<Rightarrow> server_object \<Rightarrow> clientid4 \<Rightarrow> sessionid4 option \<Rightarrow> nat \<Rightarrow> nat
    \<Rightarrow> state_manager \<times> (nfsstat4 + directory_delegation_grant)" where
  "grant_directory_delegation_locked sm now' object clientid sessionid max_per_client max_total =
     (if is_retired sm object then (sm, Inl Stat_Stale)
      else if find_live_directory_delegation (sm_inner sm) object clientid \<noteq> None
      then (sm, Inr Grant_AlreadyHeld)
      else if has_recall_in_progress (sm_inner sm) object then (sm, Inr Grant_Unavailable)
      else if client_delegation_count (sm_inner sm) clientid \<ge> max_per_client
      then (sm, Inr Grant_Unavailable)
      else if total_delegation_count (sm_inner sm) \<ge> max_total then (sm, Inr Grant_Unavailable)
      else
        let (sm, stateid) = enter_delegation sm now' object clientid sessionid in
        (sm, Inr (Grant_Granted stateid)))"

definition grant_directory_delegation ::
  "state_manager \<Rightarrow> instant \<Rightarrow> instant \<Rightarrow> server_object \<Rightarrow> clientid4 \<Rightarrow> sessionid4 option \<Rightarrow> nat \<Rightarrow> nat
    \<Rightarrow> state_manager \<times> (nfsstat4 + directory_delegation_grant)" where
  "grant_directory_delegation sm now now' object clientid sessionid max_per_client max_total =
     grant_directory_delegation_locked (reap_expired_clients sm now) now' object clientid sessionid
       max_per_client max_total"

section \<open>Returning, purging, revoking\<close>

definition return_delegation_state_locked ::
  "state_manager \<Rightarrow> stateid4 \<Rightarrow> clientid4 option \<Rightarrow> state_manager \<times> (nfsstat4 + unit)" where
  "return_delegation_state_locked sm stateid clientid =
     (case hm_get (si_delegations (sm_inner sm)) (sid_other stateid) of
        None \<Rightarrow> (sm, Inl Stat_BadStateid)
      | Some state \<Rightarrow>
          case validate_stateid_seq (dg_stateid_seq state) (sid_seqid stateid) of
            Inl e \<Rightarrow> (sm, Inl e)
          | Inr u \<Rightarrow>
              if (case clientid of None \<Rightarrow> False | Some c \<Rightarrow> dg_clientid state \<noteq> c)
              then (sm, Inl Stat_BadStateid)
              else if dg_status state = Deleg_Revoked then (sm, Inl Stat_DelegRevoked)
              else
                let inner = put_delegation (sid_other stateid)
                      (state\<lparr>dg_status := Deleg_Returned\<rparr>) (sm_inner sm) in
                (sm\<lparr>sm_inner := fst (remove_delegation_locked inner (sid_other stateid))\<rparr>, Inr ()))"

definition return_delegation_state ::
  "state_manager \<Rightarrow> instant \<Rightarrow> stateid4 \<Rightarrow> clientid4 option \<Rightarrow> state_manager \<times> (nfsstat4 + unit)" where
  "return_delegation_state sm now stateid clientid =
     return_delegation_state_locked (reap_expired_clients sm now) stateid clientid"

definition purge_client_delegations :: "state_manager \<Rightarrow> instant \<Rightarrow> clientid4 \<Rightarrow> state_manager" where
  "purge_client_delegations sm now clientid =
     (let sm = reap_expired_clients sm now in
      sm\<lparr>sm_inner := remove_client_delegations_locked (sm_inner sm) clientid\<rparr>)"

definition revoke_delegation_state_locked ::
  "state_manager \<Rightarrow> stateid4 \<Rightarrow> state_manager \<times> (nfsstat4 + unit)" where
  "revoke_delegation_state_locked sm stateid =
     (case hm_get (si_delegations (sm_inner sm)) (sid_other stateid) of
        None \<Rightarrow> (sm, Inl Stat_BadStateid)
      | Some state \<Rightarrow>
          case validate_stateid_seq (dg_stateid_seq state) (sid_seqid stateid) of
            Inl e \<Rightarrow> (sm, Inl e)
          | Inr u \<Rightarrow>
              (sm\<lparr>sm_inner := put_delegation (sid_other stateid)
                 (state\<lparr>dg_status := Deleg_Revoked\<rparr>) (sm_inner sm)\<rparr>, Inr ()))"

definition revoke_delegation_state ::
  "state_manager \<Rightarrow> instant \<Rightarrow> stateid4 \<Rightarrow> state_manager \<times> (nfsstat4 + unit)" where
  "revoke_delegation_state sm now stateid =
     revoke_delegation_state_locked (reap_expired_clients sm now) stateid"

definition revoke_recallable_delegation_locked ::
  "state_manager \<Rightarrow> stateid4 \<Rightarrow> state_manager \<times> (nfsstat4 + unit)" where
  "revoke_recallable_delegation_locked sm stateid =
     (case hm_get (si_delegations (sm_inner sm)) (sid_other stateid) of
        None \<Rightarrow> (sm, Inl Stat_BadStateid)
      | Some state \<Rightarrow>
          case validate_stateid_seq (dg_stateid_seq state) (sid_seqid stateid) of
            Inl e \<Rightarrow> (sm, Inl e)
          | Inr u \<Rightarrow>
              let inner = put_delegation (sid_other stateid) (state\<lparr>dg_status := Deleg_Revoked\<rparr>) (sm_inner sm);
                  clientid = dg_clientid state;
                  inner = (case hm_get (si_clients inner) clientid of
                      None \<Rightarrow> inner
                    | Some client \<Rightarrow> inner\<lparr>si_clients := hm_insert clientid
                        (client\<lparr>cs_status_flags := cs_status_flags client
                           OR SEQ4_STATUS_RECALLABLE_STATE_REVOKED\<rparr>) (si_clients inner)\<rparr>) in
              (sm\<lparr>sm_inner := inner\<rparr>, Inr ()))"

definition revoke_recallable_delegation ::
  "state_manager \<Rightarrow> instant \<Rightarrow> stateid4 \<Rightarrow> state_manager \<times> (nfsstat4 + unit)" where
  "revoke_recallable_delegation sm now stateid =
     revoke_recallable_delegation_locked (reap_expired_clients sm now) stateid"

section \<open>Recalling\<close>

text \<open>One iteration of the recall loop: the state after it and what it adds to the recalls.\<close>

definition recall_one ::
  "instant \<Rightarrow> clientid4 option \<Rightarrow> stateid_other \<Rightarrow> state_inner \<Rightarrow> state_inner \<times> directory_delegation_recall list" where
  "recall_one now' excluded_clientid other inner =
     (case hm_get (si_delegations inner) other of
        None \<Rightarrow> (inner, [])
      | Some state \<Rightarrow>
          if dg_kind state \<noteq> DirectoryRead then (inner, [])
          else
            let recall = (\<lambda>send. [\<lparr>dr_stateid = mk_stateid (dg_stateid_seq state) other,
                  dr_clientid = dg_clientid state, dr_send_callback = send\<rparr>]) in
            case dg_status state of
              Deleg_Granted \<Rightarrow>
                if excluded_clientid = Some (dg_clientid state) then (inner, [])
                else (put_delegation other (state\<lparr>dg_status := Deleg_RecallInProgress,
                        dg_last_recall_at := Some now'\<rparr>) inner, recall True)
            | Deleg_RecallInProgress \<Rightarrow> (inner, recall False)
            | Deleg_Returned \<Rightarrow> (inner, [])
            | Deleg_Revoked \<Rightarrow> (inner, []))"

primrec recall_loop ::
  "instant \<Rightarrow> clientid4 option \<Rightarrow> stateid_other list \<Rightarrow> state_inner
    \<Rightarrow> state_inner \<times> directory_delegation_recall list" where
  "recall_loop now' excluded [] inner = (inner, [])"
| "recall_loop now' excluded (other # others) inner =
     (let (inner, r) = recall_one now' excluded other inner;
          (inner, rs) = recall_loop now' excluded others inner in
      (inner, r @ rs))"

definition begin_directory_recall_excluding ::
  "state_manager \<Rightarrow> instant \<Rightarrow> instant \<Rightarrow> server_object \<Rightarrow> clientid4 option
    \<Rightarrow> state_manager \<times> directory_delegation_recall list" where
  "begin_directory_recall_excluding sm now now' object excluded_clientid =
     (let sm = reap_expired_clients sm now;
          others = idx_get (si_dir_delegations (sm_inner sm)) object;
          (inner, recalls) = recall_loop now' excluded_clientid others (sm_inner sm) in
      (sm\<lparr>sm_inner := inner\<rparr>, recalls))"

definition write_delegations_over :: "state_manager \<Rightarrow> server_object hset \<Rightarrow> stateid4 list" where
  "write_delegations_over sm objects =
     map (\<lambda>(other, state). mk_stateid (dg_stateid_seq state) other)
       (filter (\<lambda>(other, state). conveys_write (dg_kind state) \<and> dg_object state \<in> set objects
          \<and> (dg_status state = Deleg_Granted \<or> dg_status state = Deleg_RecallInProgress))
         (si_delegations (sm_inner sm)))"

definition delegation_recall_complete :: "state_manager \<Rightarrow> stateid4 \<Rightarrow> bool" where
  "delegation_recall_complete sm stateid =
     (\<not> (case hm_get (si_delegations (sm_inner sm)) (sid_other stateid) of
           None \<Rightarrow> False
         | Some state \<Rightarrow> dg_status state = Deleg_Granted \<or> dg_status state = Deleg_RecallInProgress))"

section \<open>The index invariant\<close>

lemma put_delegation_index_ok:
  assumes "delegation_index_ok inner" and "hm_get (si_delegations inner) other = Some d"
    and "dg_object d' = dg_object d" and "dg_clientid d' = dg_clientid d"
  shows "delegation_index_ok (put_delegation other d' inner)"
  unfolding put_delegation_def using assms by (rule update_delegation_index_ok)

lemma enter_delegation_index_ok:
  assumes "delegation_index_ok (sm_inner sm)"
    and "hm_get (si_delegations (sm_inner sm)) (mk_other (sm_next_stateid sm) clientid) = None"
  shows "delegation_index_ok (sm_inner (fst (enter_delegation sm now' object clientid sessionid)))"
  using assms by (simp add: enter_delegation_def Let_def insert_delegation_locked_index_ok)

lemma create_directory_delegation_index_ok:
  assumes "delegation_index_ok (sm_inner sm)"
    and "hm_get (si_delegations (sm_inner sm)) (mk_other (sm_next_stateid sm) clientid) = None"
  shows "delegation_index_ok (sm_inner (fst (create_directory_delegation_locked sm now' object clientid sessionid)))"
  using assms enter_delegation_index_ok [OF assms]
  by (auto simp: create_directory_delegation_locked_def Let_def case_prod_unfold split: option.split)

lemma grant_directory_delegation_index_ok:
  assumes "delegation_index_ok (sm_inner sm)"
    and "hm_get (si_delegations (sm_inner sm)) (mk_other (sm_next_stateid sm) clientid) = None"
  shows "delegation_index_ok (sm_inner (fst (grant_directory_delegation_locked sm now' object clientid
    sessionid max_per_client max_total)))"
  using assms enter_delegation_index_ok [OF assms]
  by (simp add: grant_directory_delegation_locked_def Let_def case_prod_unfold)

lemma return_delegation_index_ok:
  "delegation_index_ok (sm_inner sm) \<Longrightarrow>
    delegation_index_ok (sm_inner (fst (return_delegation_state_locked sm stateid clientid)))"
  by (auto simp: return_delegation_state_locked_def Let_def
      intro!: remove_delegation_locked_index_ok put_delegation_index_ok split: option.split sum.split)

lemma revoke_delegation_index_ok:
  "delegation_index_ok (sm_inner sm) \<Longrightarrow>
    delegation_index_ok (sm_inner (fst (revoke_delegation_state_locked sm stateid)))"
  by (auto simp: revoke_delegation_state_locked_def intro!: put_delegation_index_ok
      split: option.split sum.split)

lemma delegation_index_ok_clients [simp]:
  "delegation_index_ok (inner\<lparr>si_clients := m\<rparr>) \<longleftrightarrow> delegation_index_ok inner"
  by (simp add: delegation_index_ok_def)

lemma revoke_recallable_index_ok:
  "delegation_index_ok (sm_inner sm) \<Longrightarrow>
    delegation_index_ok (sm_inner (fst (revoke_recallable_delegation_locked sm stateid)))"
  by (auto simp: revoke_recallable_delegation_locked_def Let_def intro!: put_delegation_index_ok
      split: option.split sum.split)

lemma recall_one_index_ok:
  "delegation_index_ok inner \<Longrightarrow> delegation_index_ok (fst (recall_one now' excluded other inner))"
  by (auto simp: recall_one_def Let_def intro!: put_delegation_index_ok
      split: option.split delegation_status.split)

lemma recall_loop_index_ok:
  "delegation_index_ok inner \<Longrightarrow> delegation_index_ok (fst (recall_loop now' excluded others inner))"
  by (induction others arbitrary: inner) (simp_all add: case_prod_unfold Let_def recall_one_index_ok)

section \<open>The limits\<close>

text \<open>A grant happens only below both limits, and raises each count by one.\<close>

lemma is_live_new [simp]: "is_live_delegation_status (dg_status (new_delegation object clientid sessionid now'))"
  by (simp add: new_delegation_def is_live_delegation_status_def)

lemma length_filter_hm_insert_new:
  "hm_get m k = None \<Longrightarrow> length (filter (\<lambda>(k, v). P k v) (hm_insert k v m)) =
     length (filter (\<lambda>(k, v). P k v) m) + (if P k v then 1 else 0)"
  by (simp add: hm_get_def hm_insert_def) (induction m; auto)

lemma total_count_insert:
  assumes "hm_get (si_delegations inner) other = None"
  shows "total_delegation_count (insert_delegation_locked inner other d) =
    total_delegation_count inner + (if is_live_delegation_status (dg_status d) then 1 else 0)"
  using length_filter_hm_insert_new [OF assms, of "\<lambda>_ s. is_live_delegation_status (dg_status s)"]
  by (simp add: total_delegation_count_def insert_delegation_locked_def)

lemma client_count_insert:
  assumes ok: "delegation_index_ok inner" and fresh: "hm_get (si_delegations inner) other = None"
  shows "client_delegation_count (insert_delegation_locked inner other d) c =
    client_delegation_count inner c
      + (if dg_clientid d = c \<and> is_live_delegation_status (dg_status d) then 1 else 0)"
proof -
  let ?i = "insert_delegation_locked inner other d"
  have mem: "x \<noteq> other" if "x \<in> set (idx_get (si_client_delegations inner) k)" for x k
    using that fresh ok idx.indexes_look by (fastforce simp: delegation_index_ok_iff)
  have live: "is_live_delegation ?i x = is_live_delegation inner x" if "x \<noteq> other" for x
    using that by (simp add: is_live_delegation_def insert_delegation_locked_def hm_simps)
  have "filter (is_live_delegation ?i) (idx_get (si_client_delegations inner) c) =
      filter (is_live_delegation inner) (idx_get (si_client_delegations inner) c)"
    using mem live by (intro filter_cong) auto
  moreover have "is_live_delegation ?i other \<longleftrightarrow> is_live_delegation_status (dg_status d)"
    by (simp add: is_live_delegation_def insert_delegation_locked_def hm_simps)
  moreover have "idx_get (si_client_delegations ?i) c = (if dg_clientid d = c
      then idx_get (si_client_delegations inner) c @ [other] else idx_get (si_client_delegations inner) c)"
    using mem [of _ c] by (auto simp: insert_delegation_locked_def idx_insert_def idx_get_def hm_simps hs_insert_def)
  ultimately show ?thesis
    by (simp add: client_delegation_count_def)
qed

text \<open>What a recall does to the delegations of a directory.\<close>

lemma recall_one_get:
  "hm_get (si_delegations (fst (recall_one now' excluded other inner))) k =
     (case hm_get (si_delegations inner) k of
        None \<Rightarrow> None
      | Some d \<Rightarrow> if k = other \<and> dg_status d = Deleg_Granted \<and> excluded \<noteq> Some (dg_clientid d)
          then Some (d\<lparr>dg_status := Deleg_RecallInProgress, dg_last_recall_at := Some now'\<rparr>) else Some d)"
proof -
  have "dg_kind d = DirectoryRead" for d :: delegation_state
    by (cases "dg_kind d")
  then show ?thesis
    by (auto simp: recall_one_def Let_def put_delegation_def hm_simps
        split: option.split delegation_status.split)
qed

lemma recall_loop_get:
  "hm_get (si_delegations (fst (recall_loop now' excluded others inner))) k =
     (case hm_get (si_delegations inner) k of
        None \<Rightarrow> None
      | Some d \<Rightarrow> if k \<in> set others \<and> dg_status d = Deleg_Granted \<and> excluded \<noteq> Some (dg_clientid d)
          then Some (d\<lparr>dg_status := Deleg_RecallInProgress, dg_last_recall_at := Some now'\<rparr>) else Some d)"
  by (induction others arbitrary: inner)
    (auto simp: case_prod_unfold Let_def recall_one_get split: option.split)

lemma recall_one_frame:
  "si_dir_delegations (fst (recall_one now' excluded other inner)) = si_dir_delegations inner"
  "si_client_delegations (fst (recall_one now' excluded other inner)) = si_client_delegations inner"
  "si_clients (fst (recall_one now' excluded other inner)) = si_clients inner"
  "si_sessions (fst (recall_one now' excluded other inner)) = si_sessions inner"
  "si_open_files (fst (recall_one now' excluded other inner)) = si_open_files inner"
  "si_lock_files (fst (recall_one now' excluded other inner)) = si_lock_files inner"
  "si_metadata (fst (recall_one now' excluded other inner)) = si_metadata inner"
  by (simp_all add: recall_one_def put_delegation_def Let_def split: option.split delegation_status.split)

lemma recall_loop_frame:
  "si_clients (fst (recall_loop now' excluded others inner)) = si_clients inner"
  "si_sessions (fst (recall_loop now' excluded others inner)) = si_sessions inner"
  "si_open_files (fst (recall_loop now' excluded others inner)) = si_open_files inner"
  "si_lock_files (fst (recall_loop now' excluded others inner)) = si_lock_files inner"
  "si_metadata (fst (recall_loop now' excluded others inner)) = si_metadata inner"
  by (induction others arbitrary: inner) (simp_all add: case_prod_unfold Let_def recall_one_frame)

text \<open>This server grants nothing that conveys write authority.\<close>

lemma write_delegations_over_empty: "write_delegations_over sm objects = []"
proof -
  have "\<not> conveys_write k" for k
    by (cases k) simp
  then show ?thesis by (simp add: write_delegations_over_def)
qed

end
