(* ===== verification/Locks.thy ===== *)
theory Locks
  imports Opens
begin

text \<open>
  Byte-range lock state, \<^verbatim>\<open>session/locks.rs\<close>: the conflict queries and the critical sections of LOCK
  and LOCKU on the lock table. The range arithmetic is in \<open>Lock_Ranges\<close>. A result \<open>None\<close> of
  \<open>update_lock_state_locked\<close> is the panic of the merge loop, which the invariant rules out.
\<close>

definition put_lock :: "stateid_other \<Rightarrow> lock_file_state \<Rightarrow> state_manager \<Rightarrow> state_manager" where
  "put_lock other state sm = sm\<lparr>sm_inner := (sm_inner sm)\<lparr>si_lock_files :=
     hm_insert other state (si_lock_files (sm_inner sm))\<rparr>\<rparr>"

section \<open>The code\<close>

definition same_lock_owner :: "state_owner4 \<Rightarrow> state_owner4 \<Rightarrow> bool" where
  "same_lock_owner a b \<longleftrightarrow> so_clientid a = so_clientid b \<and> so_owner a = so_owner b"

definition has_conflicting_io_lock_locked ::
  "state_inner \<Rightarrow> server_object \<Rightarrow> state_owner4 option \<Rightarrow> bool \<Rightarrow> u64 \<Rightarrow> u64 \<Rightarrow> stateid_other option \<Rightarrow> bool" where
  "has_conflicting_io_lock_locked inner object owner is_write offset len ignore_stateid =
     hm_any (\<lambda>other state.
       if \<not> lf_active state \<or> lf_object state \<noteq> object \<or> Some other = ignore_stateid
          \<or> (case owner of None \<Rightarrow> False | Some ow \<Rightarrow> same_lock_owner (lf_owner state) ow)
       then False
       else list_ex (\<lambda>rng. locks_overlap (lr_offset rng) (lr_length rng) offset len
              \<and> (is_write \<or> is_write_lock (lr_locktype rng))) (lf_ranges state)) (si_lock_files inner)"

definition has_conflicting_io_lock ::
  "state_manager \<Rightarrow> instant \<Rightarrow> server_object \<Rightarrow> state_owner4 option \<Rightarrow> bool \<Rightarrow> u64 \<Rightarrow> u64
    \<Rightarrow> stateid_other option \<Rightarrow> state_manager \<times> bool" where
  "has_conflicting_io_lock sm now object owner is_write offset len ignore_stateid =
     (let sm = reap_expired_clients sm now in
      if len = 0 then (sm, False)
      else (sm, has_conflicting_io_lock_locked (sm_inner sm) object owner is_write offset len ignore_stateid))"

definition lock_conflict_in ::
  "server_object \<Rightarrow> state_owner4 \<Rightarrow> nfs_lock_type4 \<Rightarrow> u64 \<Rightarrow> u64 \<Rightarrow> stateid_other option
    \<Rightarrow> stateid_other \<Rightarrow> lock_file_state \<Rightarrow> lock_denied4 option" where
  "lock_conflict_in object owner locktype offset len ignore_other other state =
     (if Some other = ignore_other then None
      else if \<not> lf_active state then None
      else if lf_object state \<noteq> object then None
      else if same_lock_owner (lf_owner state) owner then None
      else map_option (\<lambda>rng. \<lparr>ld_offset = lr_offset rng, ld_length = lr_length rng,
             ld_locktype = lr_locktype rng, ld_owner = lf_owner state\<rparr>)
        (List.find (\<lambda>rng. locks_overlap (lr_offset rng) (lr_length rng) offset len
           \<and> (is_write_lock (lr_locktype rng) \<or> is_write_lock locktype)) (lf_ranges state)))"

definition find_lock_conflict_locked ::
  "state_inner \<Rightarrow> server_object \<Rightarrow> state_owner4 \<Rightarrow> nfs_lock_type4 \<Rightarrow> u64 \<Rightarrow> u64 \<Rightarrow> stateid4 option
    \<Rightarrow> lock_denied4 option" where
  "find_lock_conflict_locked inner object owner locktype offset len ignore_stateid =
     hm_find_map (lock_conflict_in object owner locktype offset len
       (map_option sid_other ignore_stateid)) (si_lock_files inner)"

definition find_lock_conflict ::
  "state_manager \<Rightarrow> instant \<Rightarrow> server_object \<Rightarrow> state_owner4 \<Rightarrow> nfs_lock_type4 \<Rightarrow> u64 \<Rightarrow> u64
    \<Rightarrow> stateid4 option \<Rightarrow> state_manager \<times> lock_denied4 option" where
  "find_lock_conflict sm now object owner locktype offset len ignore_stateid =
     (let sm = reap_expired_clients sm now in
      (sm, find_lock_conflict_locked (sm_inner sm) object owner locktype offset len ignore_stateid))"

definition create_lock_state_locked ::
  "state_manager \<Rightarrow> stateid4 \<Rightarrow> state_owner4 \<Rightarrow> server_object \<Rightarrow> nfs_lock_type4 \<Rightarrow> u64 \<Rightarrow> u64
    \<Rightarrow> state_manager \<times> (nfsstat4 + stateid4)" where
  "create_lock_state_locked sm open_stateid owner object locktype offset len =
     (if is_retired sm object then (sm, Inl Stat_Stale)
      else
        case hm_get (sm_opens sm) (sid_other open_stateid) of
          None \<Rightarrow> (sm, Inl Stat_Openmode)
        | Some open_st \<Rightarrow>
            if \<not> of_active open_st \<or> of_object open_st \<noteq> object then (sm, Inl Stat_Openmode)
            else
              let seq = sm_next_stateid sm;
                  sm = sm\<lparr>sm_next_stateid := seq + 1\<rparr>;
                  other = mk_other seq (so_clientid owner) in
              (put_lock other \<lparr>lf_object = object, lf_owner = owner,
                 lf_open_state_other = sid_other open_stateid,
                 lf_ranges = [\<lparr>lr_locktype = locktype, lr_offset = offset, lr_length = len\<rparr>],
                 lf_active = True, lf_stateid_seq = 1\<rparr> sm,
               Inr (mk_stateid 1 other)))"

definition create_lock_state ::
  "state_manager \<Rightarrow> instant \<Rightarrow> stateid4 \<Rightarrow> state_owner4 \<Rightarrow> server_object \<Rightarrow> nfs_lock_type4 \<Rightarrow> u64 \<Rightarrow> u64
    \<Rightarrow> state_manager \<times> (nfsstat4 + stateid4)" where
  "create_lock_state sm now open_stateid owner object locktype offset len =
     (let sm = reap_expired_clients sm now in
      case validate_lock_bounds offset len of
        Inl e \<Rightarrow> (sm, Inl e)
      | Inr u \<Rightarrow> create_lock_state_locked sm open_stateid owner object locktype offset len)"

definition update_lock_state_locked ::
  "state_manager \<Rightarrow> stateid4 \<Rightarrow> nfs_lock_type4 \<Rightarrow> u64 \<Rightarrow> u64
    \<Rightarrow> (state_manager \<times> (nfsstat4 + stateid4)) option" where
  "update_lock_state_locked sm lock_stateid locktype offset len =
     (case hm_get (sm_locks sm) (sid_other lock_stateid) of
        None \<Rightarrow> Some (sm, Inl Stat_BadStateid)
      | Some state \<Rightarrow>
          case validate_stateid_seq (lf_stateid_seq state) (sid_seqid lock_stateid) of
            Inl e \<Rightarrow> Some (sm, Inl e)
          | Inr u \<Rightarrow>
              let replacement = \<lparr>lr_locktype = locktype, lr_offset = offset, lr_length = len\<rparr> in
              (case replace_lock_range (lf_ranges state) replacement of
                 None \<Rightarrow> None
               | Some ranges \<Rightarrow>
                   let state = state\<lparr>lf_ranges := ranges, lf_active := True,
                         lf_stateid_seq := lf_stateid_seq state + 1\<rparr> in
                   Some (put_lock (sid_other lock_stateid) state sm,
                     Inr (mk_stateid (lf_stateid_seq state) (sid_other lock_stateid)))))"

definition update_lock_state ::
  "state_manager \<Rightarrow> instant \<Rightarrow> stateid4 \<Rightarrow> nfs_lock_type4 \<Rightarrow> u64 \<Rightarrow> u64
    \<Rightarrow> (state_manager \<times> (nfsstat4 + stateid4)) option" where
  "update_lock_state sm now lock_stateid locktype offset len =
     (let sm = reap_expired_clients sm now in
      case validate_lock_bounds offset len of
        Inl e \<Rightarrow> Some (sm, Inl e)
      | Inr u \<Rightarrow> update_lock_state_locked sm lock_stateid locktype offset len)"

definition unlock_state_locked ::
  "state_manager \<Rightarrow> stateid4 \<Rightarrow> u64 \<Rightarrow> u64 \<Rightarrow> state_manager \<times> (nfsstat4 + stateid4)" where
  "unlock_state_locked sm lock_stateid offset len =
     (case hm_get (sm_locks sm) (sid_other lock_stateid) of
        None \<Rightarrow> (sm, Inl Stat_BadStateid)
      | Some state \<Rightarrow>
          case validate_stateid_seq (lf_stateid_seq state) (sid_seqid lock_stateid) of
            Inl e \<Rightarrow> (sm, Inl e)
          | Inr u \<Rightarrow>
              let new_seq = lf_stateid_seq state + 1;
                  reply = Inr (mk_stateid new_seq (sid_other lock_stateid)) in
              if \<not> list_ex (\<lambda>rng. locks_overlap (lr_offset rng) (lr_length rng) offset len) (lf_ranges state)
              then (put_lock (sid_other lock_stateid) (state\<lparr>lf_stateid_seq := new_seq\<rparr>) sm, reply)
              else
                let next_ranges = release_lock_range (lf_ranges state) offset len in
                (put_lock (sid_other lock_stateid) (state\<lparr>lf_ranges := next_ranges,
                   lf_active := (next_ranges \<noteq> []), lf_stateid_seq := new_seq\<rparr>) sm, reply))"

definition unlock_state ::
  "state_manager \<Rightarrow> instant \<Rightarrow> stateid4 \<Rightarrow> u64 \<Rightarrow> u64 \<Rightarrow> state_manager \<times> (nfsstat4 + stateid4)" where
  "unlock_state sm now lock_stateid offset len =
     (let sm = reap_expired_clients sm now in
      case validate_lock_bounds offset len of
        Inl e \<Rightarrow> (sm, Inl e)
      | Inr u \<Rightarrow> unlock_state_locked sm lock_stateid offset len)"

section \<open>The invariant\<close>

text \<open>Stored ranges are valid, and a lock state is active exactly when it has a range.\<close>

definition lock_state_ok :: "lock_file_state \<Rightarrow> bool" where
  "lock_state_ok l \<longleftrightarrow> list_all range_wf (lf_ranges l) \<and> (lf_active l \<longleftrightarrow> lf_ranges l \<noteq> [])"

definition locks_ok :: "(stateid_other, lock_file_state) hmap \<Rightarrow> bool" where
  "locks_ok m \<longleftrightarrow> hm_wf m \<and> hm_all (\<lambda>_ l. lock_state_ok l) m"

lemma locks_ok_iff: "locks_ok m \<longleftrightarrow> hm_wf m \<and> (\<forall>k l. hm_get m k = Some l \<longrightarrow> lock_state_ok l)"
  by (cases "hm_wf m") (simp_all add: locks_ok_def hm_all_iff)

lemma locks_ok_Nil [simp]: "locks_ok []"
  by (simp add: locks_ok_iff)

lemma locks_ok_insert: "locks_ok m \<Longrightarrow> lock_state_ok l \<Longrightarrow> locks_ok (hm_insert k l m)"
  by (auto simp: locks_ok_iff hm_simps)

lemma locks_ok_retain: "locks_ok m \<Longrightarrow> locks_ok (hm_retain P m)"
  by (auto simp: locks_ok_iff hm_simps)

lemma locks_ok_remove: "locks_ok m \<Longrightarrow> locks_ok (hm_remove k m)"
  by (auto simp: locks_ok_iff hm_simps)

lemma put_lock_sel [simp]:
  "sm_inner (put_lock other l sm) = (sm_inner sm)\<lparr>si_lock_files := hm_insert other l (sm_locks sm)\<rparr>"
  "sm_next_stateid (put_lock other l sm) = sm_next_stateid sm"
  "sm_retired_objects (put_lock other l sm) = sm_retired_objects sm"
  "sm_config (put_lock other l sm) = sm_config sm"
  by (simp_all add: put_lock_def)

lemma create_lock_state_locked_locks_ok:
  assumes "locks_ok (sm_locks sm)" and "validate_lock_bounds offset len = Inr ()"
  shows "locks_ok (sm_locks (fst (create_lock_state_locked sm sid owner object t offset len)))"
  using assms
  by (auto simp: create_lock_state_locked_def Let_def lock_state_ok_def range_wf_def
      intro!: locks_ok_insert split: option.split)

lemma unlock_state_locked_locks_ok:
  assumes "locks_ok (sm_locks sm)" and "validate_lock_bounds offset len = Inr ()"
  shows "locks_ok (sm_locks (fst (unlock_state_locked sm sid offset len)))"
proof (cases "hm_get (sm_locks sm) (sid_other sid)")
  case None
  then show ?thesis using assms(1) by (simp add: unlock_state_locked_def)
next
  case (Some l)
  then have "lock_state_ok l"
    using assms(1) by (simp add: locks_ok_iff)
  then have "lock_state_ok (l\<lparr>lf_stateid_seq := q\<rparr>)"
    and "lock_state_ok (l\<lparr>lf_ranges := release_lock_range (lf_ranges l) offset len,
      lf_active := (release_lock_range (lf_ranges l) offset len \<noteq> []), lf_stateid_seq := q\<rparr>)" for q
    using release_lock_range_wf [OF _ assms(2)] by (auto simp: lock_state_ok_def)
  with Some assms(1) show ?thesis
    by (auto simp: unlock_state_locked_def Let_def locks_ok_insert split: sum.split)
qed

text \<open>LOCK on an existing lock state never panics and covers what it should.\<close>

lemma update_lock_state_locked_Some:
  assumes ok: "locks_ok (sm_locks sm)" and v: "validate_lock_bounds offset len = Inr ()"
    and l: "hm_get (sm_locks sm) (sid_other sid) = Some l"
    and seq: "validate_stateid_seq (lf_stateid_seq l) (sid_seqid sid) = Inr ()"
  obtains ns where
    "update_lock_state_locked sm sid t offset len =
       Some (put_lock (sid_other sid) (l\<lparr>lf_ranges := ns, lf_active := True,
               lf_stateid_seq := lf_stateid_seq l + 1\<rparr>) sm,
             Inr (mk_stateid (lf_stateid_seq l + 1) (sid_other sid)))"
    "list_all range_wf ns" "ns \<noteq> []" "merged_ranges ns"
    "\<And>t' b. lock_byte b \<Longrightarrow>
       covered t' ns b \<longleftrightarrow> (if in_lock offset len b then t' = t else covered t' (lf_ranges l) b)"
proof -
  let ?r = "\<lparr>lr_locktype = t, lr_offset = offset, lr_length = len\<rparr>"
  have "range_wf ?r" and "list_all range_wf (lf_ranges l)"
    using v ok l by (auto simp: range_wf_def locks_ok_iff lock_state_ok_def)
  then obtain ns where "replace_lock_range (lf_ranges l) ?r = Some ns" "list_all range_wf ns"
    "merged_ranges ns" "\<And>t' b. lock_byte b \<Longrightarrow>
      covered t' ns b \<longleftrightarrow> (if in_range ?r b then t' = lr_locktype ?r else covered t' (lf_ranges l) b)"
    using replace_lock_range_spec by blast
  then show ?thesis
    using l seq replace_lock_range_nonempty
    by (intro that [of ns]) (auto simp: update_lock_state_locked_def in_range_def)
qed

lemma update_lock_state_locked_total:
  assumes ok: "locks_ok (sm_locks sm)" and v: "validate_lock_bounds offset len = Inr ()"
  obtains sm' res where "update_lock_state_locked sm sid t offset len = Some (sm', res)"
    and "locks_ok (sm_locks sm')"
proof (cases "hm_get (sm_locks sm) (sid_other sid)")
  case None
  then show ?thesis using ok that by (simp add: update_lock_state_locked_def)
next
  case (Some l)
  show ?thesis
  proof (cases "validate_stateid_seq (lf_stateid_seq l) (sid_seqid sid)")
    case (Inl e)
    then show ?thesis using Some ok that by (simp add: update_lock_state_locked_def)
  next
    case (Inr u)
    with ok v Some obtain ns where up:
      "update_lock_state_locked sm sid t offset len =
         Some (put_lock (sid_other sid) (l\<lparr>lf_ranges := ns, lf_active := True,
               lf_stateid_seq := lf_stateid_seq l + 1\<rparr>) sm,
             Inr (mk_stateid (lf_stateid_seq l + 1) (sid_other sid)))"
      and "list_all range_wf ns" "ns \<noteq> []"
      by (auto elim: update_lock_state_locked_Some [of sm offset len sid l t])
    then show ?thesis
      using ok by (intro that [OF up]) (auto simp: lock_state_ok_def intro!: locks_ok_insert)
  qed
qed

section \<open>Conflicts\<close>

lemma lock_conflict_in_None_iff:
  "lock_conflict_in object owner t offset len ignore other l = None \<longleftrightarrow>
     Some other = ignore \<or> \<not> lf_active l \<or> lf_object l \<noteq> object \<or> same_lock_owner (lf_owner l) owner
     \<or> (\<forall>rng\<in>set (lf_ranges l). \<not> (locks_overlap (lr_offset rng) (lr_length rng) offset len
          \<and> (is_write_lock (lr_locktype rng) \<or> is_write_lock t)))"
  by (auto simp: lock_conflict_in_def find_None_iff)

text \<open>Two lock states whose owners exclude each other on every byte.\<close>

definition locks_exclude :: "lock_file_state \<Rightarrow> lock_file_state \<Rightarrow> bool" where
  "locks_exclude l l' \<longleftrightarrow> (lf_active l \<and> lf_active l' \<and> lf_object l = lf_object l'
     \<and> \<not> same_lock_owner (lf_owner l) (lf_owner l') \<longrightarrow>
     (\<forall>b t t'. lock_byte b \<longrightarrow> covered t (lf_ranges l) b \<longrightarrow> covered t' (lf_ranges l') b \<longrightarrow>
        \<not> is_write_lock t \<and> \<not> is_write_lock t'))"

definition lock_exclusion :: "(stateid_other, lock_file_state) hmap \<Rightarrow> bool" where
  "lock_exclusion m \<longleftrightarrow> (\<forall>k k' l l'. hm_get m k = Some l \<longrightarrow> hm_get m k' = Some l' \<longrightarrow> k \<noteq> k' \<longrightarrow>
     locks_exclude l l')"

lemma same_lock_owner_sym: "same_lock_owner a b \<longleftrightarrow> same_lock_owner b a"
  by (auto simp: same_lock_owner_def)

lemma locks_exclude_sym: "locks_exclude l l' \<Longrightarrow> locks_exclude l' l"
  unfolding locks_exclude_def by (metis same_lock_owner_sym)

lemma lock_exclusion_Nil [simp]: "lock_exclusion []"
  by (simp add: lock_exclusion_def)

lemma lock_exclusion_insert:
  assumes "lock_exclusion m"
    and "\<And>k' l'. hm_get m k' = Some l' \<Longrightarrow> k' \<noteq> k \<Longrightarrow> locks_exclude l l'"
  shows "lock_exclusion (hm_insert k l m)"
  using assms locks_exclude_sym unfolding lock_exclusion_def
  by (auto simp: hm_simps split: if_splits)

lemma covered_iff: "covered t rs b \<longleftrightarrow> (\<exists>r\<in>set rs. lr_locktype r = t \<and> in_range r b)"
  by (auto simp: covered_def list_ex_iff)

text \<open>
  When the conflict query finds nothing, no byte of the requested range is held by another owner
  with a type that conflicts with the requested one.
\<close>

lemma find_lock_conflict_None:
  assumes wf: "hm_wf (si_lock_files inner)"
    and none: "find_lock_conflict_locked inner object owner t offset len ignore = None"
    and l: "hm_get (si_lock_files inner) k = Some l" "Some k \<noteq> map_option sid_other ignore"
    and act: "lf_active l" "lf_object l = object" "\<not> same_lock_owner (lf_owner l) owner"
    and b: "in_lock offset len b" "covered t' (lf_ranges l) b"
  shows "\<not> is_write_lock t' \<and> \<not> is_write_lock t"
proof -
  have "lock_conflict_in object owner t offset len (map_option sid_other ignore) k l = None"
    using none wf l(1) by (simp add: find_lock_conflict_locked_def hm_find_map_None_iff)
  moreover obtain r where r: "r \<in> set (lf_ranges l)" "lr_locktype r = t'" "in_range r b"
    using b(2) by (auto simp: covered_iff)
  moreover have "locks_overlap (lr_offset r) (lr_length r) offset len"
    using b(1) r(3) by (auto simp: in_range_def intro: locks_overlapI)
  ultimately show ?thesis
    using act l(2) unfolding lock_conflict_in_None_iff by blast
qed

lemma find_lock_conflict_Some:
  assumes "hm_wf (si_lock_files inner)"
    and "find_lock_conflict_locked inner object owner t offset len ignore = Some d"
  obtains k l r where "hm_get (si_lock_files inner) k = Some l" "Some k \<noteq> map_option sid_other ignore"
    "lf_active l" "lf_object l = object" "\<not> same_lock_owner (lf_owner l) owner"
    "r \<in> set (lf_ranges l)" "locks_overlap (lr_offset r) (lr_length r) offset len"
    "is_write_lock (lr_locktype r) \<or> is_write_lock t"
    "d = \<lparr>ld_offset = lr_offset r, ld_length = lr_length r, ld_locktype = lr_locktype r,
          ld_owner = lf_owner l\<rparr>"
proof -
  from hm_find_map_SomeD [OF assms(1) assms(2) [unfolded find_lock_conflict_locked_def]]
  obtain k l where "hm_get (si_lock_files inner) k = Some l"
    "lock_conflict_in object owner t offset len (map_option sid_other ignore) k l = Some d"
    by blast
  then show ?thesis
    by (auto simp: lock_conflict_in_def find_Some_iff nth_mem intro!: that split: if_splits)
qed

text \<open>Granting a lock the query allows keeps owners apart, and so does releasing one.\<close>

lemma create_lock_keeps_exclusion:
  assumes wf: "hm_wf (sm_locks sm)" and ex: "lock_exclusion (sm_locks sm)"
    and none: "find_lock_conflict_locked (sm_inner sm) object owner t offset len None = None"
  shows "lock_exclusion (sm_locks (fst (create_lock_state_locked sm sid owner object t offset len)))"
  using ex find_lock_conflict_None [OF wf none] same_lock_owner_sym
  by (auto simp: create_lock_state_locked_def Let_def locks_exclude_def in_range_def
      intro!: lock_exclusion_insert split: option.split) blast+

lemma update_lock_keeps_exclusion:
  assumes ok: "locks_ok (sm_locks sm)" and ex: "lock_exclusion (sm_locks sm)"
    and v: "validate_lock_bounds offset len = Inr ()"
    and l: "hm_get (sm_locks sm) (sid_other sid) = Some l"
    and none: "find_lock_conflict_locked (sm_inner sm) (lf_object l) (lf_owner l) t offset len (Some sid) = None"
    and upd: "update_lock_state_locked sm sid t offset len = Some (sm', Inr sid')"
    and held: "lf_active l"
  shows "lock_exclusion (sm_locks sm')"
proof -
  have wf: "hm_wf (sm_locks sm)"
    using ok by (simp add: locks_ok_iff)
  have seq: "validate_stateid_seq (lf_stateid_seq l) (sid_seqid sid) = Inr ()"
    using upd l by (auto simp: update_lock_state_locked_def split: sum.splits)
  obtain ns where up: "update_lock_state_locked sm sid t offset len =
      Some (put_lock (sid_other sid) (l\<lparr>lf_ranges := ns, lf_active := True,
          lf_stateid_seq := lf_stateid_seq l + 1\<rparr>) sm,
        Inr (mk_stateid (lf_stateid_seq l + 1) (sid_other sid)))"
    and cov: "\<And>t' b. lock_byte b \<Longrightarrow>
       covered t' ns b \<longleftrightarrow> (if in_lock offset len b then t' = t else covered t' (lf_ranges l) b)"
    by (rule update_lock_state_locked_Some [OF ok v l seq]) blast
  have "locks_exclude (l\<lparr>lf_ranges := ns, lf_active := True, lf_stateid_seq := q\<rparr>) l'"
    if l': "hm_get (sm_locks sm) k' = Some l'" "k' \<noteq> sid_other sid" for k' l' q
  proof -
    have "locks_exclude l l'"
      using ex l l' unfolding lock_exclusion_def by metis
    then show ?thesis
      using find_lock_conflict_None [OF wf none l'(1)] l'(2) same_lock_owner_sym held
      by (auto simp: locks_exclude_def cov split: if_splits)
  qed
  then show ?thesis
    using up upd ex by (auto intro!: lock_exclusion_insert)
qed

end
