(* ===== verification/Stateids.thy ===== *)
theory Stateids
  imports Locks
begin

text \<open>
  Interpreting the state ids that clients send, \<^verbatim>\<open>session/stateids.rs\<close> and \<^verbatim>\<open>test_stateids\<close> of
  \<^verbatim>\<open>session/opens.rs\<close>: the special values, the current state id of a COMPOUND, and resolution to an
  open or a lock that belongs to the caller.
\<close>

datatype current_stateid_mode = Mode_ZeroSeqid | Mode_PreserveSeqid

datatype normalized_stateid = Norm_Anonymous | Norm_Bypass | Norm_Concrete stateid4

section \<open>The code\<close>

definition share_access_mode :: "u32 \<Rightarrow> u32" where
  "share_access_mode share_access = share_access AND NOT OPEN4_SHARE_ACCESS_WANT_DELEG_MASK"

definition is_special_stateid :: "stateid4 \<Rightarrow> bool" where
  "is_special_stateid stateid \<longleftrightarrow> stateid = STATEID_ANONYMOUS \<or> stateid = STATEID_BYPASS
     \<or> stateid = STATEID_CURRENT"

definition is_invalid_special_stateid :: "stateid4 \<Rightarrow> bool" where
  "is_invalid_special_stateid stateid =
     (let all_zero_other = (sid_other stateid = replicate 12 0);
          all_one_other = (sid_other stateid = replicate 12 0xff) in
      (all_zero_other \<or> all_one_other) \<and> \<not> is_special_stateid stateid)"

definition normalize_stateid ::
  "stateid4 \<Rightarrow> stateid4 option \<Rightarrow> current_stateid_mode \<Rightarrow> nfsstat4 + normalized_stateid" where
  "normalize_stateid requested current_stateid current_mode =
     (if requested = STATEID_ANONYMOUS then Inr Norm_Anonymous
      else if requested = STATEID_BYPASS then Inr Norm_Bypass
      else if requested = STATEID_CURRENT then
        (case current_stateid of
           None \<Rightarrow> Inl Stat_BadStateid
         | Some current \<Rightarrow>
             if is_special_stateid current then Inl Stat_BadStateid
             else Inr (Norm_Concrete (case current_mode of
                 Mode_ZeroSeqid \<Rightarrow> mk_stateid 0 (sid_other current)
               | Mode_PreserveSeqid \<Rightarrow> current)))
      else if is_invalid_special_stateid requested then Inl Stat_BadStateid
      else Inr (Norm_Concrete requested))"

definition wrong_client :: "clientid4 option \<Rightarrow> clientid4 \<Rightarrow> bool" where
  "wrong_client clientid actual = (case clientid of None \<Rightarrow> False | Some cid \<Rightarrow> actual \<noteq> cid)"

definition resolve_concrete ::
  "state_inner \<Rightarrow> clientid4 option \<Rightarrow> stateid4 \<Rightarrow> nfsstat4 + resolved_stateid" where
  "resolve_concrete inner clientid stateid =
     (case hm_get (si_open_files inner) (sid_other stateid) of
        Some open_st \<Rightarrow>
          (case validate_stateid_seq (of_stateid_seq open_st) (sid_seqid stateid) of
             Inl e \<Rightarrow> Inl e
           | Inr u \<Rightarrow>
               if \<not> of_active open_st then Inl Stat_BadStateid
               else if wrong_client clientid (of_clientid open_st) then Inl Stat_BadStateid
               else Inr (Resolved_Open \<lparr>ro_other = sid_other stateid, ro_object = of_object open_st,
                      ro_share_access = of_share_access open_st\<rparr>))
      | None \<Rightarrow>
          (case hm_get (si_lock_files inner) (sid_other stateid) of
             Some lock \<Rightarrow>
               (case validate_stateid_seq (lf_stateid_seq lock) (sid_seqid stateid) of
                  Inl e \<Rightarrow> Inl e
                | Inr u \<Rightarrow>
                    if wrong_client clientid (so_clientid (lf_owner lock)) then Inl Stat_BadStateid
                    else
                      case hm_get (si_open_files inner) (lf_open_state_other lock) of
                        None \<Rightarrow> Inl Stat_BadStateid
                      | Some open_st \<Rightarrow>
                          if \<not> of_active open_st then Inl Stat_BadStateid
                          else if wrong_client clientid (of_clientid open_st) then Inl Stat_BadStateid
                          else Inr (Resolved_Lock \<lparr>rl_other = sid_other stateid,
                            rl_object = lf_object lock, rl_owner = lf_owner lock,
                            rl_open_state = \<lparr>ro_other = lf_open_state_other lock,
                              ro_object = of_object open_st,
                              ro_share_access = of_share_access open_st\<rparr>\<rparr>))
           | None \<Rightarrow> Inl Stat_BadStateid))"

definition resolve_stateid ::
  "state_manager \<Rightarrow> instant \<Rightarrow> clientid4 option \<Rightarrow> stateid4 \<Rightarrow> stateid4 option \<Rightarrow> current_stateid_mode
    \<Rightarrow> state_manager \<times> (nfsstat4 + resolved_stateid)" where
  "resolve_stateid sm now clientid requested current_stateid current_mode =
     (let sm = reap_expired_clients sm now in
      (sm, case normalize_stateid requested current_stateid current_mode of
         Inl e \<Rightarrow> Inl e
       | Inr Norm_Anonymous \<Rightarrow> Inr Resolved_Anonymous
       | Inr Norm_Bypass \<Rightarrow> Inr Resolved_Bypass
       | Inr (Norm_Concrete stateid) \<Rightarrow> resolve_concrete (sm_inner sm) clientid stateid))"

definition status_of :: "nfsstat4 + unit \<Rightarrow> nfsstat4" where
  "status_of r = (case r of Inr u \<Rightarrow> Stat_Ok | Inl status \<Rightarrow> status)"

definition test_stateid :: "state_inner \<Rightarrow> stateid4 \<Rightarrow> nfsstat4" where
  "test_stateid inner stateid =
     (if is_special_stateid stateid \<or> \<not> is_ok (normalize_stateid stateid None Mode_ZeroSeqid)
      then Stat_BadStateid
      else
        case hm_get (si_open_files inner) (sid_other stateid) of
          Some state \<Rightarrow>
            if \<not> of_active state then Stat_BadStateid
            else status_of (validate_stateid_seq (of_stateid_seq state) (sid_seqid stateid))
        | None \<Rightarrow>
            (case hm_get (si_lock_files inner) (sid_other stateid) of
               Some state \<Rightarrow> status_of (validate_stateid_seq (lf_stateid_seq state) (sid_seqid stateid))
             | None \<Rightarrow>
                 (case hm_get (si_delegations inner) (sid_other stateid) of
                    Some state \<Rightarrow> delegation_test_status state stateid
                  | None \<Rightarrow> Stat_BadStateid)))"

definition test_stateids ::
  "state_manager \<Rightarrow> instant \<Rightarrow> stateid4 list \<Rightarrow> state_manager \<times> nfsstat4 list" where
  "test_stateids sm now stateids =
     (let sm = reap_expired_clients sm now in (sm, map (test_stateid (sm_inner sm)) stateids))"

section \<open>Special values\<close>

lemma special_others:
  "is_special_stateid s \<Longrightarrow> sid_other s = replicate 12 0 \<or> sid_other s = replicate 12 0xff"
  by (auto simp: is_special_stateid_def STATEID_ANONYMOUS_def STATEID_BYPASS_def STATEID_CURRENT_def)

lemma normalize_stateid_plain:
  assumes "sid_other s \<noteq> replicate 12 0" and "sid_other s \<noteq> replicate 12 0xff"
  shows "normalize_stateid s cur mode = Inr (Norm_Concrete s)" and "\<not> is_special_stateid s"
proof -
  have ns: "\<not> is_special_stateid s"
    using special_others assms by blast
  then show "\<not> is_special_stateid s" .
  show "normalize_stateid s cur mode = Inr (Norm_Concrete s)"
    using ns assms by (auto simp: normalize_stateid_def is_invalid_special_stateid_def is_special_stateid_def)
qed

text \<open>
  A state id the server allocated is never mistaken for a special one: its counter part is neither
  all zeros nor all ones until the counter has gone through all its values.
\<close>

lemma replicate_4: "replicate 4 x = [x, x, x, x]"
  by (simp add: numeral_eq_Suc)

lemma be_u32_0: "be_u32 0 = replicate 4 0"
  unfolding replicate_4 be_u32_def by (simp add: to_be_numeral)

lemma be_u32_ones: "be_u32 0xffffffff = replicate 4 0xff"
  unfolding replicate_4 be_u32_def by (simp add: to_be_numeral)

lemma mk_other_not_special:
  assumes "seq \<noteq> 0" and "seq \<noteq> 0xffffffff"
  shows "mk_other seq c \<noteq> replicate 12 0" and "mk_other seq c \<noteq> replicate 12 0xff"
proof -
  have "take 4 (mk_other seq c) = be_u32 seq"
    by (simp add: mk_other_def)
  moreover have "be_u32 seq \<noteq> replicate 4 0" "be_u32 seq \<noteq> replicate 4 0xff"
    using assms be_u32_eq_iff [of seq 0] be_u32_eq_iff [of seq "0xffffffff"]
    unfolding be_u32_0 be_u32_ones by auto
  moreover have "take 4 (replicate 12 x) = replicate 4 x" for x :: u8
    by (simp add: take_replicate)
  ultimately show "mk_other seq c \<noteq> replicate 12 0" and "mk_other seq c \<noteq> replicate 12 0xff"
    by metis+
qed

section \<open>Resolution\<close>

text \<open>What a client is told about a state id is the truth about the stored state.\<close>

lemma resolve_concrete_Open:
  assumes "resolve_concrete inner clientid stateid = Inr (Resolved_Open ro)"
  obtains s where "hm_get (si_open_files inner) (sid_other stateid) = Some s" "of_active s"
    "validate_stateid_seq (of_stateid_seq s) (sid_seqid stateid) = Inr ()"
    "\<And>c. clientid = Some c \<Longrightarrow> of_clientid s = c"
    "ro = \<lparr>ro_other = sid_other stateid, ro_object = of_object s, ro_share_access = of_share_access s\<rparr>"
  using assms
  by (auto simp: resolve_concrete_def wrong_client_def split: option.splits sum.splits if_splits)

lemma resolve_concrete_Lock:
  assumes "resolve_concrete inner clientid stateid = Inr (Resolved_Lock rl)"
  obtains l s where "hm_get (si_lock_files inner) (sid_other stateid) = Some l"
    "hm_get (si_open_files inner) (lf_open_state_other l) = Some s" "of_active s"
    "validate_stateid_seq (lf_stateid_seq l) (sid_seqid stateid) = Inr ()"
    "\<And>c. clientid = Some c \<Longrightarrow> so_clientid (lf_owner l) = c \<and> of_clientid s = c"
    "rl = \<lparr>rl_other = sid_other stateid, rl_object = lf_object l, rl_owner = lf_owner l,
       rl_open_state = \<lparr>ro_other = lf_open_state_other l, ro_object = of_object s,
         ro_share_access = of_share_access s\<rparr>\<rparr>"
  using assms
  by (auto simp: resolve_concrete_def wrong_client_def split: option.splits sum.splits if_splits)

lemma resolve_concrete_openI:
  assumes "hm_get (si_open_files inner) (sid_other stateid) = Some s" and "of_active s"
    and "validate_stateid_seq (of_stateid_seq s) (sid_seqid stateid) = Inr ()"
    and "clientid = None \<or> clientid = Some (of_clientid s)"
  shows "resolve_concrete inner clientid stateid = Inr (Resolved_Open
    \<lparr>ro_other = sid_other stateid, ro_object = of_object s, ro_share_access = of_share_access s\<rparr>)"
  using assms by (auto simp: resolve_concrete_def wrong_client_def)

text \<open>An open keeps existing while its client is within its lease.\<close>

lemma open_survives_reap:
  assumes "hm_wf (si_open_files inner)" and "hm_get (si_open_files inner) k = Some s"
    and "of_clientid s \<notin> set (reaped_ids config inner now)"
  shows "hm_get (si_open_files (reap_expired_clients_locked config inner now)) k = Some s"
  using assms by (simp add: reap_sel hm.get_ret_Some)

text \<open>TEST_STATEID and resolution agree on opens.\<close>

lemma test_stateid_open:
  assumes "sid_other s \<noteq> replicate 12 0" and "sid_other s \<noteq> replicate 12 0xff"
    and "hm_get (si_open_files inner) (sid_other s) = Some st"
  shows "test_stateid inner s = Stat_Ok \<longleftrightarrow> is_ok (resolve_concrete inner None s)"
  using normalize_stateid_plain [OF assms(1,2)] assms(3)
  by (auto simp: test_stateid_def resolve_concrete_def wrong_client_def status_of_def
      validate_stateid_seq_def split: sum.splits)

end
