(* ===== verification/Fs_Types.thy ===== *)
theory Fs_Types
  imports Nfs_Status
begin

text \<open>
  The data of the filesystem interface, \<^verbatim>\<open>crates/embednfs/src/fs.rs\<close>: errors and their protocol
  status, attributes, attribute updates, access masks and the results of the operations. The
  interface itself (the trait) is the locale of \<open>Memfs\<close>.
\<close>

section \<open>Errors\<close>

datatype fs_error =
    Fse_Ok | Fse_PermissionDenied | Fse_NotFound | Fse_Io | Fse_AccessDenied | Fse_AlreadyExists
  | Fse_CrossDevice | Fse_NotDirectory | Fse_IsDirectory | Fse_InvalidInput | Fse_FileTooLarge
  | Fse_NoSpace | Fse_ReadOnly | Fse_NameTooLong | Fse_NotEmpty | Fse_Stale | Fse_Unsupported
  | Fse_BadHandle | Fse_ServerFault | Fse_Delay

type_synonym 'a fs_result = "fs_error + 'a"

primrec fs_error_to_nfsstat4 :: "fs_error \<Rightarrow> nfsstat4" where
  "fs_error_to_nfsstat4 Fse_Ok = Stat_Ok"
| "fs_error_to_nfsstat4 Fse_PermissionDenied = Stat_Perm"
| "fs_error_to_nfsstat4 Fse_NotFound = Stat_Noent"
| "fs_error_to_nfsstat4 Fse_Io = Stat_Io"
| "fs_error_to_nfsstat4 Fse_AccessDenied = Stat_Access"
| "fs_error_to_nfsstat4 Fse_AlreadyExists = Stat_Exist"
| "fs_error_to_nfsstat4 Fse_CrossDevice = Stat_Xdev"
| "fs_error_to_nfsstat4 Fse_NotDirectory = Stat_Notdir"
| "fs_error_to_nfsstat4 Fse_IsDirectory = Stat_Isdir"
| "fs_error_to_nfsstat4 Fse_InvalidInput = Stat_Inval"
| "fs_error_to_nfsstat4 Fse_FileTooLarge = Stat_Fbig"
| "fs_error_to_nfsstat4 Fse_NoSpace = Stat_Nospc"
| "fs_error_to_nfsstat4 Fse_ReadOnly = Stat_Rofs"
| "fs_error_to_nfsstat4 Fse_NameTooLong = Stat_Nametoolong"
| "fs_error_to_nfsstat4 Fse_NotEmpty = Stat_Notempty"
| "fs_error_to_nfsstat4 Fse_Stale = Stat_Stale"
| "fs_error_to_nfsstat4 Fse_Unsupported = Stat_Notsupp"
| "fs_error_to_nfsstat4 Fse_BadHandle = Stat_Badhandle"
| "fs_error_to_nfsstat4 Fse_ServerFault = Stat_Serverfault"
| "fs_error_to_nfsstat4 Fse_Delay = Stat_Delay"

section \<open>Attributes\<close>

datatype object_type = Ot_File | Ot_Directory | Ot_Symlink

record fs_id =
  fi_major :: u64
  fi_minor :: u64

definition fs_id_default :: fs_id where
  "fs_id_default = \<lparr>fi_major = 1, fi_minor = 1\<rparr>"

record fs_capabilities =
  cap_symlinks :: bool
  cap_hard_links :: bool
  cap_xattrs :: bool
  cap_explicit_sync :: bool
  cap_case_sensitive :: bool
  cap_case_preserving :: bool

definition fs_capabilities_default :: fs_capabilities where
  "fs_capabilities_default = \<lparr>cap_symlinks = False, cap_hard_links = False, cap_xattrs = False,
     cap_explicit_sync = False, cap_case_sensitive = True, cap_case_preserving = True\<rparr>"

record fs_limits =
  lim_max_name_bytes :: u32
  lim_max_read :: u32
  lim_max_write :: u32
  lim_max_file_size :: u64

definition fs_limits_default :: fs_limits where
  "fs_limits_default = \<lparr>lim_max_name_bytes = 255, lim_max_read = 1048576, lim_max_write = 1048576,
     lim_max_file_size = push_bit 40 1\<rparr>"

record fs_stats =
  st_total_bytes :: u64
  st_free_bytes :: u64
  st_avail_bytes :: u64
  st_total_files :: u64
  st_free_files :: u64
  st_avail_files :: u64

definition fs_stats_default :: fs_stats where
  "fs_stats_default = \<lparr>st_total_bytes = push_bit 40 1, st_free_bytes = push_bit 39 1,
     st_avail_bytes = push_bit 39 1, st_total_files = push_bit 30 1, st_free_files = push_bit 29 1,
     st_avail_files = push_bit 29 1\<rparr>"

text \<open>The seconds are an \<^verbatim>\<open>i64\<close>: the word is read with \<^const>\<open>sint\<close>.\<close>

record timestamp =
  ts_seconds :: u64
  ts_nanos :: u32

datatype set_time = St_ServerNow | St_Client timestamp

record attrs =
  at_object_type :: object_type
  at_fsid :: fs_id
  at_fileid :: u64
  at_change :: u64
  at_size :: u64
  at_space_used :: u64
  at_link_count :: u32
  at_mode :: u32
  at_uid :: u32
  at_gid :: u32
  at_atime :: timestamp
  at_mtime :: timestamp
  at_ctime :: timestamp
  at_birthtime :: timestamp
  at_archive :: bool
  at_hidden :: bool
  at_system :: bool
  at_has_named_attrs :: bool

definition attrs_new :: "timestamp \<Rightarrow> object_type \<Rightarrow> u64 \<Rightarrow> attrs" where
  "attrs_new now object_type fileid =
     \<lparr>at_object_type = object_type,
      at_fsid = fs_id_default,
      at_fileid = fileid,
      at_change = max fileid 1,
      at_size = 0,
      at_space_used = 0,
      at_link_count = (case object_type of Ot_Directory \<Rightarrow> 2 | _ \<Rightarrow> 1),
      at_mode = (case object_type of Ot_Directory \<Rightarrow> 493 | Ot_File \<Rightarrow> 420 | Ot_Symlink \<Rightarrow> 511),
      at_uid = 0, at_gid = 0,
      at_atime = now, at_mtime = now, at_ctime = now, at_birthtime = now,
      at_archive = False, at_hidden = False, at_system = False, at_has_named_attrs = False\<rparr>"

record set_attrs =
  sa_size :: "u64 option"
  sa_archive :: "bool option"
  sa_hidden :: "bool option"
  sa_mode :: "u32 option"
  sa_uid :: "u32 option"
  sa_gid :: "u32 option"
  sa_system :: "bool option"
  sa_atime :: "set_time option"
  sa_mtime :: "set_time option"
  sa_birthtime :: "set_time option"

definition set_attrs_default :: set_attrs where
  "set_attrs_default = \<lparr>sa_size = None, sa_archive = None, sa_hidden = None, sa_mode = None,
     sa_uid = None, sa_gid = None, sa_system = None, sa_atime = None, sa_mtime = None,
     sa_birthtime = None\<rparr>"

definition set_attrs_is_empty :: "set_attrs \<Rightarrow> bool" where
  "set_attrs_is_empty a \<longleftrightarrow>
     sa_size a = None \<and> sa_archive a = None \<and> sa_hidden a = None \<and> sa_mode a = None
     \<and> sa_uid a = None \<and> sa_gid a = None \<and> sa_system a = None \<and> sa_atime a = None
     \<and> sa_mtime a = None \<and> sa_birthtime a = None"

section \<open>Access masks\<close>

type_synonym access_mask = u32

definition ACCESS_NONE :: access_mask where "ACCESS_NONE = 0"
definition ACCESS_READ :: access_mask where "ACCESS_READ = push_bit 0 1"
definition ACCESS_LOOKUP :: access_mask where "ACCESS_LOOKUP = push_bit 1 1"
definition ACCESS_MODIFY :: access_mask where "ACCESS_MODIFY = push_bit 2 1"
definition ACCESS_EXTEND :: access_mask where "ACCESS_EXTEND = push_bit 3 1"
definition ACCESS_DELETE :: access_mask where "ACCESS_DELETE = push_bit 4 1"
definition ACCESS_EXECUTE :: access_mask where "ACCESS_EXECUTE = push_bit 5 1"
definition ACCESS_XATTR_READ :: access_mask where "ACCESS_XATTR_READ = push_bit 6 1"
definition ACCESS_XATTR_WRITE :: access_mask where "ACCESS_XATTR_WRITE = push_bit 7 1"
definition ACCESS_XATTR_LIST :: access_mask where "ACCESS_XATTR_LIST = push_bit 8 1"

definition access_contains :: "access_mask \<Rightarrow> access_mask \<Rightarrow> bool" where
  "access_contains m other = (m AND other = other)"

definition access_intersects :: "access_mask \<Rightarrow> access_mask \<Rightarrow> bool" where
  "access_intersects m other = (m AND other \<noteq> 0)"

lemmas access_mask_defs =
  ACCESS_NONE_def ACCESS_READ_def ACCESS_LOOKUP_def ACCESS_MODIFY_def ACCESS_EXTEND_def
  ACCESS_DELETE_def ACCESS_EXECUTE_def ACCESS_XATTR_READ_def ACCESS_XATTR_WRITE_def
  ACCESS_XATTR_LIST_def

section \<open>Requests and results\<close>

datatype auth_context =
    Ctx_None
  | Ctx_Sys (auth_uid: u32) (auth_gid: u32) (auth_supplemental_gids: "u32 list")
  | Ctx_Unknown (auth_unknown_flavor: u32)

record request_context =
  rc_auth :: auth_context

definition request_context_anonymous :: request_context where
  "request_context_anonymous = \<lparr>rc_auth = Ctx_None\<rparr>"

datatype create_kind = Ck_File | Ck_Directory

record create_request =
  crq_kind :: create_kind
  crq_attrs :: set_attrs

record 'h create_result =
  crs_handle :: 'h
  crs_attrs :: attrs

record read_result =
  rr_data :: bytes
  rr_eof :: bool

datatype write_stability = Ws_Unstable | Ws_DataSync | Ws_FileSync

record write_result =
  wr_written :: u32
  wr_stability :: write_stability

record 'h dir_entry =
  de_name :: rust_string
  de_handle :: 'h
  de_cookie :: u64
  de_attrs :: "attrs option"

record 'h dir_page =
  dp_entries :: "'h dir_entry list"
  dp_eof :: bool

datatype xattr_set_mode = Xs_CreateOrReplace | Xs_CreateOnly | Xs_ReplaceOnly

end
