(* ===== verification/Metadata.thy ===== *)
theory Metadata
  imports Session_Model Fs_Types
begin

text \<open>
  The synthesized attributes of \<^verbatim>\<open>session/metadata.rs\<close>: what the server keeps for objects whose backend
  has no attributes of its own, above all named attributes. Every operation is one critical section;
  \<open>now\<close> and \<open>now'\<close> are its readings of the wall clock. The lemmas are about the two counters: file ids
  are unique, and the change id of an object grows with every change.
\<close>

section \<open>The code\<close>

definition default_mode :: "server_file_type \<Rightarrow> u32" where
  "default_mode file_type = (case file_type of
       Sft_Regular \<Rightarrow> 420 | Sft_NamedAttr \<Rightarrow> 420
     | Sft_Directory \<Rightarrow> 493 | Sft_NamedAttrDir \<Rightarrow> 493
     | Sft_Symlink \<Rightarrow> 511)"

definition default_nlink :: "server_file_type \<Rightarrow> u32" where
  "default_nlink file_type = (case file_type of
       Sft_Directory \<Rightarrow> 2 | Sft_NamedAttrDir \<Rightarrow> 2 | _ \<Rightarrow> 1)"

definition root_name :: rust_string where "root_name = [0x72, 0x6f, 0x6f, 0x74]"

text \<open>The file id of a new entry: the backend's for a file, the next synthetic one otherwise.\<close>

definition alloc_fileid :: "state_manager \<Rightarrow> server_object \<Rightarrow> state_manager \<times> u64" where
  "alloc_fileid sm object = (case object of
       Obj_Fs i \<Rightarrow> (sm, i)
     | _ \<Rightarrow> (sm\<lparr>sm_next_synth_fileid := sm_next_synth_fileid sm + 1\<rparr>, sm_next_synth_fileid sm))"

definition alloc_changeid :: "state_manager \<Rightarrow> state_manager \<times> u64" where
  "alloc_changeid sm = (sm\<lparr>sm_next_changeid := sm_next_changeid sm + 1\<rparr>, sm_next_changeid sm)"

definition put_meta :: "state_manager \<Rightarrow> server_object \<Rightarrow> synth_meta \<Rightarrow> state_manager" where
  "put_meta sm object meta =
     sm\<lparr>sm_inner := (sm_inner sm)\<lparr>si_metadata := hm_insert object meta (si_metadata (sm_inner sm))\<rparr>\<rparr>"

definition synth_meta_new :: "timestamp \<Rightarrow> server_file_type \<Rightarrow> u64 \<Rightarrow> u64 \<Rightarrow> synth_meta" where
  "synth_meta_new now file_type fileid change_id =
     \<lparr>me_fileid = fileid,
      me_mode = default_mode file_type,
      me_nlink = default_nlink file_type,
      me_uid = 0, me_gid = 0,
      me_owner = root_name, me_owner_group = root_name,
      me_atime_sec = ts_seconds now, me_atime_nsec = ts_nanos now,
      me_mtime_sec = ts_seconds now, me_mtime_nsec = ts_nanos now,
      me_ctime_sec = ts_seconds now, me_ctime_nsec = ts_nanos now,
      me_crtime_sec = ts_seconds now, me_crtime_nsec = ts_nanos now,
      me_change_id = change_id,
      me_archive = False, me_hidden = False, me_system = False,
      me_named_attr_count = None\<rparr>"

definition ensure_meta_locked ::
  "state_manager \<Rightarrow> timestamp \<Rightarrow> server_object \<Rightarrow> server_file_type \<Rightarrow> state_manager \<times> synth_meta" where
  "ensure_meta_locked sm now object file_type =
     (case hm_get (si_metadata (sm_inner sm)) object of
        Some meta \<Rightarrow> (sm, meta)
      | None \<Rightarrow>
          let (sm, fileid) = alloc_fileid sm object;
              (sm, change_id) = alloc_changeid sm;
              meta = synth_meta_new now file_type fileid change_id in
          (put_meta sm object meta, meta))"

definition ensure_meta ::
  "state_manager \<Rightarrow> timestamp \<Rightarrow> server_object \<Rightarrow> server_file_type \<Rightarrow> state_manager \<times> synth_meta" where
  "ensure_meta sm now object file_type = ensure_meta_locked sm now object file_type"

definition touch_data ::
  "state_manager \<Rightarrow> timestamp \<Rightarrow> timestamp \<Rightarrow> server_object \<Rightarrow> server_file_type \<Rightarrow> state_manager" where
  "touch_data sm now now' object file_type =
     (let (sm, meta) = ensure_meta_locked sm now object file_type;
          meta = meta\<lparr>me_mtime_sec := ts_seconds now', me_mtime_nsec := ts_nanos now',
                      me_ctime_sec := ts_seconds now', me_ctime_nsec := ts_nanos now'\<rparr>;
          (sm, change_id) = alloc_changeid sm;
          meta = meta\<lparr>me_change_id := change_id\<rparr> in
      put_meta sm object meta)"

definition named_attr_count :: "state_manager \<Rightarrow> server_object \<Rightarrow> u64 option" where
  "named_attr_count sm object =
     Option.bind (hm_get (si_metadata (sm_inner sm)) object) me_named_attr_count"

definition set_named_attr_count ::
  "state_manager \<Rightarrow> timestamp \<Rightarrow> server_object \<Rightarrow> server_file_type \<Rightarrow> u64 \<Rightarrow> state_manager" where
  "set_named_attr_count sm now object file_type count =
     (let (sm, meta) = ensure_meta_locked sm now object file_type in
      put_meta sm object (meta\<lparr>me_named_attr_count := Some count\<rparr>))"

definition touch_metadata ::
  "state_manager \<Rightarrow> timestamp \<Rightarrow> timestamp \<Rightarrow> server_object \<Rightarrow> server_file_type \<Rightarrow> state_manager" where
  "touch_metadata sm now now' object file_type =
     (let (sm, meta) = ensure_meta_locked sm now object file_type;
          meta = meta\<lparr>me_ctime_sec := ts_seconds now', me_ctime_nsec := ts_nanos now',
                      me_mtime_sec := ts_seconds now', me_mtime_nsec := ts_nanos now'\<rparr>;
          (sm, change_id) = alloc_changeid sm;
          meta = meta\<lparr>me_change_id := change_id\<rparr> in
      put_meta sm object meta)"

definition resolve_set_time :: "timestamp \<Rightarrow> set_time \<Rightarrow> timestamp" where
  "resolve_set_time now t = (case t of St_ServerNow \<Rightarrow> now | St_Client ts \<Rightarrow> ts)"

text \<open>\<^verbatim>\<open>if let Some(v) = o { ... }\<close> on a value that is being built.\<close>

definition if_some :: "'a option \<Rightarrow> ('a \<Rightarrow> 'b \<Rightarrow> 'b) \<Rightarrow> 'b \<Rightarrow> 'b" where
  "if_some o4 f x = (case o4 of None \<Rightarrow> x | Some v \<Rightarrow> f v x)"

definition apply_setattr_fields :: "timestamp \<Rightarrow> set_attrs \<Rightarrow> synth_meta \<Rightarrow> synth_meta" where
  "apply_setattr_fields now a meta =
     (let meta = if_some (sa_mode a) (\<lambda>v m. m\<lparr>me_mode := v\<rparr>) meta;
          meta = if_some (sa_archive a) (\<lambda>v m. m\<lparr>me_archive := v\<rparr>) meta;
          meta = if_some (sa_hidden a) (\<lambda>v m. m\<lparr>me_hidden := v\<rparr>) meta;
          meta = if_some (sa_uid a) (\<lambda>v m. m\<lparr>me_uid := v\<rparr>) meta;
          meta = if_some (sa_gid a) (\<lambda>v m. m\<lparr>me_gid := v\<rparr>) meta;
          meta = if_some (sa_system a) (\<lambda>v m. m\<lparr>me_system := v\<rparr>) meta;
          meta = if_some (sa_atime a) (\<lambda>t m. let ts = resolve_set_time now t in
            m\<lparr>me_atime_sec := ts_seconds ts, me_atime_nsec := ts_nanos ts\<rparr>) meta;
          meta = if_some (sa_mtime a) (\<lambda>t m. let ts = resolve_set_time now t in
            m\<lparr>me_mtime_sec := ts_seconds ts, me_mtime_nsec := ts_nanos ts\<rparr>) meta;
          meta = if_some (sa_birthtime a) (\<lambda>t m. let ts = resolve_set_time now t in
            m\<lparr>me_crtime_sec := ts_seconds ts, me_crtime_nsec := ts_nanos ts\<rparr>) meta in
      meta)"

lemma if_some_frame: "(\<And>v y. g (f v y) = g y) \<Longrightarrow> g (if_some o4 f x) = g x"
  by (simp add: if_some_def split: option.split)

definition apply_setattr ::
  "state_manager \<Rightarrow> timestamp \<Rightarrow> timestamp \<Rightarrow> server_object \<Rightarrow> server_file_type \<Rightarrow> set_attrs \<Rightarrow> state_manager" where
  "apply_setattr sm now now' object file_type a =
     (let (sm, meta) = ensure_meta_locked sm now object file_type;
          meta = apply_setattr_fields now' a meta;
          (sm, meta) =
            (if \<not> set_attrs_is_empty a
             then let meta = meta\<lparr>me_ctime_sec := ts_seconds now', me_ctime_nsec := ts_nanos now'\<rparr>;
                      (sm, change_id) = alloc_changeid sm in
                  (sm, meta\<lparr>me_change_id := change_id\<rparr>)
             else (sm, meta)) in
      put_meta sm object meta)"

section \<open>File ids and change ids\<close>

text \<open>
  Synthetic file ids are those the counter has handed out, no two objects share one, an entry of a
  backend object carries the object's own id, and no change id is ahead of the counter.
\<close>

definition meta_of :: "state_manager \<Rightarrow> server_object \<Rightarrow> synth_meta option" where
  "meta_of sm object = hm_get (si_metadata (sm_inner sm)) object"

definition is_synthetic :: "server_object \<Rightarrow> bool" where
  "is_synthetic object = (case object of Obj_Fs i \<Rightarrow> False | _ \<Rightarrow> True)"

definition fileid_ok :: "u64 \<Rightarrow> server_object \<Rightarrow> u64 \<Rightarrow> bool" where
  "fileid_ok next_id object fileid = (case object of
       Obj_Fs i \<Rightarrow> fileid = i
     | _ \<Rightarrow> SYNTH_FILEID_BASE \<le> fileid \<and> fileid < next_id)"

definition metadata_ok :: "state_manager \<Rightarrow> bool" where
  "metadata_ok sm \<longleftrightarrow>
     hm_wf (si_metadata (sm_inner sm))
     \<and> SYNTH_FILEID_BASE \<le> sm_next_synth_fileid sm
     \<and> hm_all (\<lambda>object meta. fileid_ok (sm_next_synth_fileid sm) object (me_fileid meta) \<and> me_change_id meta < sm_next_changeid sm)
         (si_metadata (sm_inner sm))
     \<and> hm_all (\<lambda>o1 m1. hm_all (\<lambda>o2 m2. is_synthetic o1 \<longrightarrow> is_synthetic o2 \<longrightarrow>
         me_fileid m1 = me_fileid m2 \<longrightarrow> o1 = o2) (si_metadata (sm_inner sm))) (si_metadata (sm_inner sm))"

lemma metadata_ok_iff:
  "metadata_ok sm \<longleftrightarrow>
     hm_wf (si_metadata (sm_inner sm))
     \<and> SYNTH_FILEID_BASE \<le> sm_next_synth_fileid sm
     \<and> (\<forall>object meta. meta_of sm object = Some meta \<longrightarrow>
          fileid_ok (sm_next_synth_fileid sm) object (me_fileid meta) \<and> me_change_id meta < sm_next_changeid sm)
     \<and> (\<forall>o1 m1 o2 m2. meta_of sm o1 = Some m1 \<longrightarrow> meta_of sm o2 = Some m2 \<longrightarrow>
          is_synthetic o1 \<longrightarrow> is_synthetic o2 \<longrightarrow> me_fileid m1 = me_fileid m2 \<longrightarrow> o1 = o2)"
  unfolding metadata_ok_def meta_of_def
  by (cases "hm_wf (si_metadata (sm_inner sm))") (auto simp: hm_all_iff)

lemma metadata_ok_change:
  "metadata_ok sm \<Longrightarrow> meta_of sm object = Some meta \<Longrightarrow> me_change_id meta < sm_next_changeid sm"
  unfolding metadata_ok_iff by blast

text \<open>The two counters have room for one more id.\<close>

definition meta_counters_ok :: "state_manager \<Rightarrow> bool" where
  "meta_counters_ok sm \<longleftrightarrow> unat (sm_next_synth_fileid sm) + 1 < 2 ^ 64 \<and> unat (sm_next_changeid sm) + 2 < 2 ^ 64"

lemma u64_succ_less: "unat x + 1 < 2 ^ 64 \<Longrightarrow> y < x \<Longrightarrow> y < x + (1 :: u64)"
  "unat x + 1 < 2 ^ 64 \<Longrightarrow> x < x + (1 :: u64)"
  "unat x + 1 < 2 ^ 64 \<Longrightarrow> unat (x + (1 :: u64)) = unat x + 1"
  by (simp_all add: word_less_nat_alt unat_word_ariths)

lemma fileid_ok_mono: "fileid_ok n object fileid \<Longrightarrow> n \<le> n' \<Longrightarrow> fileid_ok n' object fileid"
  by (auto simp: fileid_ok_def split: server_object.splits)

lemma put_meta_sel [simp]:
  "sm_next_synth_fileid (put_meta sm object meta) = sm_next_synth_fileid sm"
  "sm_next_changeid (put_meta sm object meta) = sm_next_changeid sm"
  "hm_wf (si_metadata (sm_inner sm)) \<Longrightarrow> hm_wf (si_metadata (sm_inner (put_meta sm object meta)))"
  "meta_of (put_meta sm object meta) object' = (if object' = object then Some meta else meta_of sm object')"
  by (simp_all add: put_meta_def meta_of_def hm_simps)

text \<open>Replacing an entry by one with the same file id keeps the invariant.\<close>

lemma put_meta_ok:
  assumes "metadata_ok sm" and "meta_of sm object = Some meta0"
    and "me_fileid meta = me_fileid meta0" and "me_change_id meta < sm_next_changeid sm"
  shows "metadata_ok (put_meta sm object meta)"
  using assms unfolding metadata_ok_iff by auto

lemma alloc_changeid_ok:
  assumes "metadata_ok sm" and "unat (sm_next_changeid sm) + 1 < 2 ^ 64"
  shows "metadata_ok (fst (alloc_changeid sm))"
  using assms unfolding metadata_ok_iff
  by (auto simp: alloc_changeid_def meta_of_def u64_succ_less)

lemma ensure_meta_known:
  "meta_of sm object = Some meta \<Longrightarrow> ensure_meta_locked sm now object file_type = (sm, meta)"
  by (simp add: ensure_meta_locked_def meta_of_def)

text \<open>A first entry takes a file id nothing else has.\<close>

lemma put_meta_new_ok:
  assumes ok: "metadata_ok sm" and new: "meta_of sm object = None"
    and "fileid_ok (sm_next_synth_fileid sm) object (me_fileid meta)" and "me_change_id meta < sm_next_changeid sm"
    and "is_synthetic object \<Longrightarrow> (\<forall>o2 m2. meta_of sm o2 = Some m2 \<longrightarrow> is_synthetic o2 \<longrightarrow> me_fileid m2 \<noteq> me_fileid meta)"
  shows "metadata_ok (put_meta sm object meta)"
  using assms unfolding metadata_ok_iff by auto metis

lemma alloc_fileid_spec:
  assumes ok: "metadata_ok sm" and c: "unat (sm_next_synth_fileid sm) + 1 < 2 ^ 64"
    and fresh: "alloc_fileid sm object = (sm', fileid)"
  shows "metadata_ok sm'" and "fileid_ok (sm_next_synth_fileid sm') object fileid"
    and "is_synthetic object \<Longrightarrow> meta_of sm' o2 = Some m2 \<Longrightarrow> is_synthetic o2 \<Longrightarrow> me_fileid m2 \<noteq> fileid"
    and "meta_of sm' o2 = meta_of sm o2" and "sm_next_changeid sm' = sm_next_changeid sm"
proof -
  have sel: "meta_of sm' x = meta_of sm x" "sm_next_changeid sm' = sm_next_changeid sm"
    "sm_inner sm' = sm_inner sm" for x
    using fresh by (auto simp: alloc_fileid_def meta_of_def split: server_object.splits)
  show "meta_of sm' o2 = meta_of sm o2" "sm_next_changeid sm' = sm_next_changeid sm"
    by (rule sel)+
  have le: "sm_next_synth_fileid sm \<le> sm_next_synth_fileid sm'"
    using fresh u64_succ_less(2) [OF c] by (auto simp: alloc_fileid_def split: server_object.splits)
  show "metadata_ok sm'"
    using ok order_trans [OF _ le, of SYNTH_FILEID_BASE] fileid_ok_mono [OF _ le]
    unfolding metadata_ok_iff sel by simp
  show "fileid_ok (sm_next_synth_fileid sm') object fileid"
    using ok fresh u64_succ_less(2) [OF c]
    by (auto simp: metadata_ok_iff alloc_fileid_def fileid_ok_def split: server_object.splits)
  show "me_fileid m2 \<noteq> fileid" if "is_synthetic object" "meta_of sm' o2 = Some m2" "is_synthetic o2"
  proof -
    have "fileid = sm_next_synth_fileid sm"
      using fresh that(1) by (auto simp: alloc_fileid_def is_synthetic_def split: server_object.splits)
    moreover have "fileid_ok (sm_next_synth_fileid sm) o2 (me_fileid m2)"
      using ok that(2) unfolding sel metadata_ok_iff by blast
    ultimately show ?thesis
      using that(3) by (auto simp: fileid_ok_def is_synthetic_def split: server_object.splits)
  qed
qed

lemma ensure_meta_spec:
  assumes ok: "metadata_ok sm" and c: "meta_counters_ok sm"
    and run: "ensure_meta_locked sm now object file_type = (sm', meta)"
  shows "metadata_ok sm'" and "meta_of sm' object = Some meta"
    and "object' \<noteq> object \<Longrightarrow> meta_of sm' object' = meta_of sm object'"
    and "unat (sm_next_changeid sm') + 1 < 2 ^ 64"
    and "meta_of sm object = Some prior \<Longrightarrow> sm' = sm \<and> meta = prior"
proof -
  have "metadata_ok sm' \<and> meta_of sm' object = Some meta
    \<and> (object' \<noteq> object \<longrightarrow> meta_of sm' object' = meta_of sm object')
    \<and> unat (sm_next_changeid sm') + 1 < 2 ^ 64
    \<and> (meta_of sm object = Some prior \<longrightarrow> sm' = sm \<and> meta = prior)"
  proof (cases "meta_of sm object")
    case (Some m)
    then show ?thesis using ok c run by (simp add: ensure_meta_known meta_counters_ok_def)
  next
    case None
    obtain sm1 fileid where a: "alloc_fileid sm object = (sm1, fileid)" by fastforce
    have c1: "unat (sm_next_synth_fileid sm) + 1 < 2 ^ 64" and c2: "unat (sm_next_changeid sm1) + 2 < 2 ^ 64"
      using c alloc_fileid_spec(5) [OF ok _ a] by (simp_all add: meta_counters_ok_def)
    note f = alloc_fileid_spec [OF ok c1 a]
    let ?sm2 = "fst (alloc_changeid sm1)"
    have ok2: "metadata_ok ?sm2" using alloc_changeid_ok [OF f(1)] c2 by simp
    have sel: "meta_of ?sm2 x = meta_of sm x" "sm_next_changeid ?sm2 = sm_next_changeid sm1 + 1"
      "sm_next_synth_fileid ?sm2 = sm_next_synth_fileid sm1" for x
      using f(4) by (simp_all add: alloc_changeid_def meta_of_def)
    have less: "sm_next_changeid sm1 < sm_next_changeid sm1 + 1"
      "unat (sm_next_changeid sm1 + 1) = unat (sm_next_changeid sm1) + 1"
      using u64_succ_less [of "sm_next_changeid sm1"] c2 by simp_all
    have res: "meta = synth_meta_new now file_type fileid (sm_next_changeid sm1)" "sm' = put_meta ?sm2 object meta"
      using run None a by (auto simp: ensure_meta_locked_def meta_of_def alloc_changeid_def Let_def)
    have "metadata_ok (put_meta ?sm2 object meta)"
    proof (rule put_meta_new_ok [OF ok2])
      show "meta_of ?sm2 object = None" by (simp add: sel None)
      show "fileid_ok (sm_next_synth_fileid ?sm2) object (me_fileid meta)"
        using f(2) by (simp add: sel res(1) synth_meta_new_def)
      show "me_change_id meta < sm_next_changeid ?sm2"
        by (simp add: res(1) synth_meta_new_def sel less)
      show "\<forall>o2 m2. meta_of ?sm2 o2 = Some m2 \<longrightarrow> is_synthetic o2 \<longrightarrow> me_fileid m2 \<noteq> me_fileid meta"
        if "is_synthetic object"
        using f(3) [OF that] f(4) by (auto simp: sel res(1) synth_meta_new_def)
    qed
    then show ?thesis using res(2) None c2 less by (simp add: sel)
  qed
  then show "metadata_ok sm'" and "meta_of sm' object = Some meta"
    and "object' \<noteq> object \<Longrightarrow> meta_of sm' object' = meta_of sm object'"
    and "unat (sm_next_changeid sm') + 1 < 2 ^ 64"
    and "meta_of sm object = Some prior \<Longrightarrow> sm' = sm \<and> meta = prior" by blast+
qed

text \<open>
  What a change does: the entry exists afterwards, its file id is the one it had, its change id is
  larger than the one it had, and no other object's entry is touched.
\<close>

definition changed :: "state_manager \<Rightarrow> state_manager \<Rightarrow> server_object \<Rightarrow> bool" where
  "changed sm sm' object \<longleftrightarrow> (\<exists>meta'. meta_of sm' object = Some meta' \<and>
     (case meta_of sm object of None \<Rightarrow> True
      | Some meta \<Rightarrow> me_fileid meta' = me_fileid meta \<and> me_change_id meta < me_change_id meta'))"

lemma put_changed:
  assumes ok: "metadata_ok sm" and c: "meta_counters_ok sm"
    and run: "ensure_meta_locked sm now object file_type = (sm1, meta)"
    and same: "me_fileid meta' = me_fileid meta"
  defines "sm2 \<equiv> put_meta (fst (alloc_changeid sm1)) object (meta'\<lparr>me_change_id := sm_next_changeid sm1\<rparr>)"
  shows "metadata_ok sm2" and "changed sm sm2 object"
    and "object' \<noteq> object \<Longrightarrow> meta_of sm2 object' = meta_of sm object'"
proof -
  note e = ensure_meta_spec [OF ok c run]
  have ok2: "metadata_ok (fst (alloc_changeid sm1))"
    by (rule alloc_changeid_ok [OF e(1) e(4)])
  have sel: "meta_of (fst (alloc_changeid sm1)) x = meta_of sm1 x"
    "sm_next_changeid (fst (alloc_changeid sm1)) = sm_next_changeid sm1 + 1" for x
    by (simp_all add: alloc_changeid_def meta_of_def)
  have known: "meta_of (fst (alloc_changeid sm1)) object = Some meta"
    by (simp only: sel e(2))
  show "metadata_ok sm2"
    unfolding sm2_def
    by (rule put_meta_ok [OF ok2 known]) (simp_all add: sel same u64_succ_less(2) [OF e(4)])
  have "me_change_id m < sm_next_changeid sm1 \<and> me_fileid m = me_fileid meta" if "meta_of sm object = Some m" for m
    using e(5) [OF that] metadata_ok_change [OF ok that] by simp
  note grows = this
  have new: "meta_of sm2 object = Some (meta'\<lparr>me_change_id := sm_next_changeid sm1\<rparr>)"
    by (simp add: sm2_def)
  show "changed sm sm2 object"
  proof (cases "meta_of sm object")
    case None
    then show ?thesis by (simp add: changed_def new)
  next
    case (Some m)
    then show ?thesis using grows [OF Some] by (simp add: changed_def new same)
  qed
  show "object' \<noteq> object \<Longrightarrow> meta_of sm2 object' = meta_of sm object'"
    by (simp add: sm2_def sel e(3))
qed

lemma touch_data_eq:
  "ensure_meta_locked sm now object file_type = (sm1, meta) \<Longrightarrow>
   touch_data sm now now' object file_type = put_meta (fst (alloc_changeid sm1)) object
     ((meta\<lparr>me_mtime_sec := ts_seconds now', me_mtime_nsec := ts_nanos now',
            me_ctime_sec := ts_seconds now', me_ctime_nsec := ts_nanos now'\<rparr>)
        \<lparr>me_change_id := sm_next_changeid sm1\<rparr>)"
  by (simp add: touch_data_def alloc_changeid_def)

lemma touch_metadata_eq:
  "ensure_meta_locked sm now object file_type = (sm1, meta) \<Longrightarrow>
   touch_metadata sm now now' object file_type = put_meta (fst (alloc_changeid sm1)) object
     ((meta\<lparr>me_ctime_sec := ts_seconds now', me_ctime_nsec := ts_nanos now',
            me_mtime_sec := ts_seconds now', me_mtime_nsec := ts_nanos now'\<rparr>)
        \<lparr>me_change_id := sm_next_changeid sm1\<rparr>)"
  by (simp add: touch_metadata_def alloc_changeid_def)

lemma apply_setattr_eq:
  "ensure_meta_locked sm now object file_type = (sm1, meta) \<Longrightarrow> \<not> set_attrs_is_empty a \<Longrightarrow>
   apply_setattr sm now now' object file_type a = put_meta (fst (alloc_changeid sm1)) object
     (((apply_setattr_fields now' a meta)\<lparr>me_ctime_sec := ts_seconds now', me_ctime_nsec := ts_nanos now'\<rparr>)
        \<lparr>me_change_id := sm_next_changeid sm1\<rparr>)"
  by (simp add: apply_setattr_def alloc_changeid_def)

lemma apply_setattr_fields_frame [simp]:
  "me_fileid (apply_setattr_fields now a meta) = me_fileid meta"
  "me_change_id (apply_setattr_fields now a meta) = me_change_id meta"
  by (simp_all add: apply_setattr_fields_def Let_def if_some_frame)

lemma touch_spec:
  assumes ok: "metadata_ok sm" and c: "meta_counters_ok sm"
  shows "metadata_ok (touch_data sm now now' object file_type)"
    and "changed sm (touch_data sm now now' object file_type) object"
    and "object' \<noteq> object \<Longrightarrow> meta_of (touch_data sm now now' object file_type) object' = meta_of sm object'"
    and "metadata_ok (touch_metadata sm now now' object file_type)"
    and "changed sm (touch_metadata sm now now' object file_type) object"
    and "object' \<noteq> object \<Longrightarrow> meta_of (touch_metadata sm now now' object file_type) object' = meta_of sm object'"
proof -
  obtain sm1 meta where e: "ensure_meta_locked sm now object file_type = (sm1, meta)" by fastforce
  show "metadata_ok (touch_data sm now now' object file_type)"
    and "changed sm (touch_data sm now now' object file_type) object"
    and "object' \<noteq> object \<Longrightarrow> meta_of (touch_data sm now now' object file_type) object' = meta_of sm object'"
    unfolding touch_data_eq [OF e] by (rule put_changed [OF ok c e]; simp)+
  show "metadata_ok (touch_metadata sm now now' object file_type)"
    and "changed sm (touch_metadata sm now now' object file_type) object"
    and "object' \<noteq> object \<Longrightarrow> meta_of (touch_metadata sm now now' object file_type) object' = meta_of sm object'"
    unfolding touch_metadata_eq [OF e] by (rule put_changed [OF ok c e]; simp)+
qed

lemma apply_setattr_spec:
  assumes ok: "metadata_ok sm" and c: "meta_counters_ok sm"
  shows "metadata_ok (apply_setattr sm now now' object file_type a)"
    and "\<not> set_attrs_is_empty a \<Longrightarrow> changed sm (apply_setattr sm now now' object file_type a) object"
    and "object' \<noteq> object \<Longrightarrow> meta_of (apply_setattr sm now now' object file_type a) object' = meta_of sm object'"
proof -
  obtain sm1 meta where e: "ensure_meta_locked sm now object file_type = (sm1, meta)" by fastforce
  note es = ensure_meta_spec [OF ok c e]
  have empty: "apply_setattr sm now now' object file_type a = put_meta sm1 object (apply_setattr_fields now' a meta)"
    if "set_attrs_is_empty a" using that e by (simp add: apply_setattr_def)
  have lt: "me_change_id meta < sm_next_changeid sm1"
    by (rule metadata_ok_change [OF es(1,2)])
  show "metadata_ok (apply_setattr sm now now' object file_type a)"
  proof (cases "set_attrs_is_empty a")
    case True
    show ?thesis unfolding empty [OF True]
      by (rule put_meta_ok [OF es(1,2)]) (simp_all add: lt)
  next
    case False
    show ?thesis unfolding apply_setattr_eq [OF e False] by (rule put_changed(1) [OF ok c e]) simp
  qed
  show "changed sm (apply_setattr sm now now' object file_type a) object" if "\<not> set_attrs_is_empty a"
    unfolding apply_setattr_eq [OF e that] by (rule put_changed(2) [OF ok c e]) simp
  show "meta_of (apply_setattr sm now now' object file_type a) object' = meta_of sm object'" if "object' \<noteq> object"
  proof (cases "set_attrs_is_empty a")
    case True
    show ?thesis unfolding empty [OF True] using that es(3) by simp
  next
    case False
    show ?thesis unfolding apply_setattr_eq [OF e False]
      using that by (intro put_changed(3) [OF ok c e]) simp_all
  qed
qed

lemma set_named_attr_count_spec:
  assumes ok: "metadata_ok sm" and c: "meta_counters_ok sm"
  shows "metadata_ok (set_named_attr_count sm now object file_type n)"
    and "named_attr_count (set_named_attr_count sm now object file_type n) object = Some n"
proof -
  obtain sm1 meta where e: "ensure_meta_locked sm now object file_type = (sm1, meta)" by fastforce
  note es = ensure_meta_spec [OF ok c e]
  have eq: "set_named_attr_count sm now object file_type n = put_meta sm1 object (meta\<lparr>me_named_attr_count := Some n\<rparr>)"
    by (simp add: set_named_attr_count_def e)
  have "me_change_id meta < sm_next_changeid sm1"
    by (rule metadata_ok_change [OF es(1,2)])
  then show "metadata_ok (set_named_attr_count sm now object file_type n)"
    unfolding eq by (intro put_meta_ok [OF es(1,2)]) simp_all
  show "named_attr_count (set_named_attr_count sm now object file_type n) object = Some n"
    by (simp add: eq named_attr_count_def put_meta_def hm_simps)
qed

end
