(* ===== verification/Filehandles.thy ===== *)
theory Filehandles
  imports Session_Model
begin

text \<open>
  File handles, \<^verbatim>\<open>session/filehandles.rs\<close>: minting the opaque bytes that name an object and resolving
  them. There are two layouts, the persistent one (a tag and the backend's encoding) and the boot
  scoped one (the nonce of the boot and a counter). The lemmas of this theory are about calls that
  run one after the other; interleavings with a retirement are in \<open>Mint_Race\<close>.

  The invariant \<open>fh_ok\<close> says that every handle an object has resolves to it, that every known handle
  is in one of the two layouts, and that the counter is ahead of all of them.
\<close>

definition MAX_PERSISTENT_HANDLE_LEN :: nat where "MAX_PERSISTENT_HANDLE_LEN = 127"

section \<open>The code\<close>

definition alloc_connection_id :: "state_manager \<Rightarrow> state_manager \<times> u64" where
  "alloc_connection_id sm =
     (sm\<lparr>sm_next_connectionid := sm_next_connectionid sm + 1\<rparr>, sm_next_connectionid sm)"

definition record_persistent_fh :: "state_manager \<Rightarrow> object_id \<Rightarrow> bytes \<Rightarrow> state_manager" where
  "record_persistent_fh sm i encoded =
     (let fh = PERSISTENT_FH_TAG # encoded in
      sm\<lparr>sm_persistent_fh := hm_insert i fh (sm_persistent_fh sm)\<rparr>)"

definition persistent_fh_body :: "nfs_fh4 \<Rightarrow> bytes option" where
  "persistent_fh_body fh = (case fh of
       [] \<Rightarrow> None
     | t # body \<Rightarrow>
         if t = PERSISTENT_FH_TAG \<and> body \<noteq> [] \<and> length body \<le> MAX_PERSISTENT_HANDLE_LEN
         then Some body else None)"

definition claim_persistent_fh :: "state_manager \<Rightarrow> server_object \<Rightarrow> state_manager \<times> bytes option" where
  "claim_persistent_fh sm object = (case object of
       Obj_NamedAttrDir i \<Rightarrow> (sm, None)
     | Obj_NamedAttrFile parent name \<Rightarrow> (sm, None)
     | Obj_Fs i \<Rightarrow>
         (case hm_get (sm_persistent_fh sm) i of
            None \<Rightarrow> (sm, None)
          | Some fh \<Rightarrow>
              (case hm_get (sm_fh_to_object sm) fh of
                 Some existing \<Rightarrow> if existing \<noteq> object then (sm, None) else (sm, Some fh)
               | None \<Rightarrow> (sm\<lparr>sm_fh_to_object := hm_insert fh object (sm_fh_to_object sm)\<rparr>, Some fh))))"

definition mint_boot_fh :: "state_manager \<Rightarrow> server_object \<Rightarrow> state_manager \<times> bytes" where
  "mint_boot_fh sm object =
     (let fh_num = sm_next_fh sm; fh = sm_fh_boot_nonce sm @ be_u64 fh_num in
      (sm\<lparr>sm_next_fh := fh_num + 1, sm_fh_to_object := hm_insert fh object (sm_fh_to_object sm)\<rparr>, fh))"

definition object_to_fh :: "state_manager \<Rightarrow> server_object \<Rightarrow> state_manager \<times> nfs_fh4 option" where
  "object_to_fh sm object =
     (case hm_get (sm_object_to_fh sm) object of
        Some fh \<Rightarrow> (sm, Some fh)
      | None \<Rightarrow>
          if is_retired sm object then (sm, None)
          else
            let (sm, claimed) = claim_persistent_fh sm object;
                (sm, fh) = (case claimed of Some fh \<Rightarrow> (sm, fh) | None \<Rightarrow> mint_boot_fh sm object) in
            case hm_get (sm_object_to_fh sm) object of
              Some winner \<Rightarrow>
                (if winner \<noteq> fh \<and> hm_get (sm_fh_to_object sm) fh = Some object
                 then sm\<lparr>sm_fh_to_object := hm_remove fh (sm_fh_to_object sm)\<rparr> else sm, Some winner)
            | None \<Rightarrow>
                let sm = sm\<lparr>sm_object_to_fh := hm_insert object fh (sm_object_to_fh sm)\<rparr> in
                if is_retired sm object
                then (sm\<lparr>sm_fh_to_object := hm_remove fh (sm_fh_to_object sm),
                         sm_object_to_fh := hm_remove object (sm_object_to_fh sm)\<rparr>, None)
                else (sm, Some fh))"

definition fh_to_object :: "state_manager \<Rightarrow> nfs_fh4 \<Rightarrow> server_object option" where
  "fh_to_object sm fh =
     (if persistent_fh_body fh = None
         \<and> (length fh \<noteq> FH_LEN \<or> take FH_NONCE_LEN fh \<noteq> sm_fh_boot_nonce sm)
      then None
      else hm_get (sm_fh_to_object sm) fh)"

section \<open>The layouts\<close>

definition is_boot_fh :: "state_manager \<Rightarrow> bytes \<Rightarrow> bool" where
  "is_boot_fh sm fh \<longleftrightarrow> length fh = FH_LEN \<and> take FH_NONCE_LEN fh = sm_fh_boot_nonce sm"

definition boot_nonce_ok :: "bytes \<Rightarrow> bool" where
  "boot_nonce_ok nonce \<longleftrightarrow> length nonce = FH_NONCE_LEN \<and> nonce ! 0 \<noteq> PERSISTENT_FH_TAG"

text \<open>No byte string has both layouts.\<close>

lemma layouts_disjoint:
  assumes "boot_nonce_ok (sm_fh_boot_nonce sm)" and "is_boot_fh sm fh"
  shows "persistent_fh_body fh = None"
proof -
  obtain t body where fh: "fh = t # body"
    using assms(2) by (cases fh) (auto simp: is_boot_fh_def FH_LEN_def FH_NONCE_LEN_def)
  have "t = sm_fh_boot_nonce sm ! 0"
    using assms(2) unfolding is_boot_fh_def fh by (metis FH_NONCE_LEN_def nth_Cons_0 take_Cons_numeral)
  with assms(1) show ?thesis by (simp add: fh persistent_fh_body_def boot_nonce_ok_def)
qed

lemma minted_is_boot_fh:
  "length (sm_fh_boot_nonce sm) = FH_NONCE_LEN \<Longrightarrow> is_boot_fh sm (sm_fh_boot_nonce sm @ be_u64 n)"
  by (simp add: is_boot_fh_def FH_LEN_def FH_NONCE_LEN_def)

lemma fh_to_object_layout:
  "fh_to_object sm fh = (if persistent_fh_body fh \<noteq> None \<or> is_boot_fh sm fh
     then hm_get (sm_fh_to_object sm) fh else None)"
  by (auto simp: fh_to_object_def is_boot_fh_def)

section \<open>The invariant\<close>

definition fh_ok :: "state_manager \<Rightarrow> bool" where
  "fh_ok sm \<longleftrightarrow>
     hm_wf (sm_fh_to_object sm) \<and> hm_wf (sm_object_to_fh sm) \<and> hm_wf (sm_persistent_fh sm)
     \<and> boot_nonce_ok (sm_fh_boot_nonce sm)
     \<and> hm_all (\<lambda>object fh. hm_get (sm_fh_to_object sm) fh = Some object) (sm_object_to_fh sm)
     \<and> hm_all (\<lambda>fh object. hm_get (sm_object_to_fh sm) object = Some fh
         \<and> (persistent_fh_body fh \<noteq> None
            \<or> is_boot_fh sm fh \<and> u64_of_be (drop FH_NONCE_LEN fh) < sm_next_fh sm)) (sm_fh_to_object sm)
     \<and> hm_all (\<lambda>i fh. persistent_fh_body fh \<noteq> None) (sm_persistent_fh sm)"

lemma fh_ok_iff:
  "fh_ok sm \<longleftrightarrow>
     hm_wf (sm_fh_to_object sm) \<and> hm_wf (sm_object_to_fh sm) \<and> hm_wf (sm_persistent_fh sm)
     \<and> boot_nonce_ok (sm_fh_boot_nonce sm)
     \<and> (\<forall>object fh. hm_get (sm_object_to_fh sm) object = Some fh \<longleftrightarrow> hm_get (sm_fh_to_object sm) fh = Some object)
     \<and> (\<forall>fh object. hm_get (sm_fh_to_object sm) fh = Some object \<longrightarrow> persistent_fh_body fh \<noteq> None
          \<or> is_boot_fh sm fh \<and> u64_of_be (drop FH_NONCE_LEN fh) < sm_next_fh sm)
     \<and> (\<forall>i fh. hm_get (sm_persistent_fh sm) i = Some fh \<longrightarrow> persistent_fh_body fh \<noteq> None)"
proof (cases "hm_wf (sm_fh_to_object sm) \<and> hm_wf (sm_object_to_fh sm) \<and> hm_wf (sm_persistent_fh sm)")
  case True
  then show ?thesis unfolding fh_ok_def by (simp add: hm_all_iff) blast
next
  case False
  then show ?thesis by (auto simp: fh_ok_def)
qed

lemma fh_okD:
  assumes "fh_ok sm"
  shows "hm_wf (sm_fh_to_object sm)" and "hm_wf (sm_object_to_fh sm)" and "hm_wf (sm_persistent_fh sm)"
    and "boot_nonce_ok (sm_fh_boot_nonce sm)"
    and "hm_get (sm_object_to_fh sm) object = Some fh \<longleftrightarrow> hm_get (sm_fh_to_object sm) fh = Some object"
    and "hm_get (sm_fh_to_object sm) fh = Some object \<Longrightarrow> persistent_fh_body fh \<noteq> None
      \<or> is_boot_fh sm fh \<and> u64_of_be (drop FH_NONCE_LEN fh) < sm_next_fh sm"
    and "hm_get (sm_persistent_fh sm) i = Some fh \<Longrightarrow> persistent_fh_body fh \<noteq> None"
  using assms unfolding fh_ok_iff by blast+

lemma fresh_boot_fh:
  assumes "fh_ok sm"
  shows "hm_get (sm_fh_to_object sm) (sm_fh_boot_nonce sm @ be_u64 (sm_next_fh sm)) = None"
proof (rule ccontr)
  let ?fh = "sm_fh_boot_nonce sm @ be_u64 (sm_next_fh sm)"
  have len: "length (sm_fh_boot_nonce sm) = FH_NONCE_LEN"
    using assms by (simp add: fh_ok_iff boot_nonce_ok_def)
  assume "hm_get (sm_fh_to_object sm) ?fh \<noteq> None"
  then have "persistent_fh_body ?fh \<noteq> None \<or> u64_of_be (drop FH_NONCE_LEN ?fh) < sm_next_fh sm"
    using assms unfolding fh_ok_iff by blast
  moreover have "persistent_fh_body ?fh = None"
    using minted_is_boot_fh [OF len] layouts_disjoint [OF fh_okD(4) [OF assms]] by blast
  ultimately show False
    using len by simp
qed

text \<open>Sequential minting: the outcomes of \<open>object_to_fh\<close> in a state with the invariant.\<close>

lemma object_to_fh_cases:
  assumes ok: "fh_ok sm"
  obtains (known) fh where "hm_get (sm_object_to_fh sm) object = Some fh"
      "object_to_fh sm object = (sm, Some fh)"
  | (retired) "hm_get (sm_object_to_fh sm) object = None" "is_retired sm object"
      "object_to_fh sm object = (sm, None)"
  | (persistent) i fh where "hm_get (sm_object_to_fh sm) object = None" "\<not> is_retired sm object"
      "object = Obj_Fs i" "hm_get (sm_persistent_fh sm) i = Some fh"
      "hm_get (sm_fh_to_object sm) fh = None"
      "object_to_fh sm object = (sm\<lparr>sm_fh_to_object := hm_insert fh object (sm_fh_to_object sm),
         sm_object_to_fh := hm_insert object fh (sm_object_to_fh sm)\<rparr>, Some fh)"
  | (boot) fh where "hm_get (sm_object_to_fh sm) object = None" "\<not> is_retired sm object"
      "fh = sm_fh_boot_nonce sm @ be_u64 (sm_next_fh sm)"
      "object_to_fh sm object = (sm\<lparr>sm_next_fh := sm_next_fh sm + 1,
         sm_fh_to_object := hm_insert fh object (sm_fh_to_object sm),
         sm_object_to_fh := hm_insert object fh (sm_object_to_fh sm)\<rparr>, Some fh)"
proof (cases "hm_get (sm_object_to_fh sm) object")
  case (Some fh)
  then show ?thesis by (intro known) (simp_all add: object_to_fh_def)
next
  case None
  show ?thesis
  proof (cases "is_retired sm object")
    case True
    with None show ?thesis by (intro retired) (simp_all add: object_to_fh_def)
  next
    case nr: False
    have not_mine: "hm_get (sm_fh_to_object sm) fh \<noteq> Some object" for fh
      using fh_okD(5) [OF ok, of object fh] None by simp
    show ?thesis
    proof (cases "\<exists>i fh. object = Obj_Fs i \<and> hm_get (sm_persistent_fh sm) i = Some fh
        \<and> hm_get (sm_fh_to_object sm) fh = None")
      case True
      then obtain i fh where "object = Obj_Fs i" "hm_get (sm_persistent_fh sm) i = Some fh"
        "hm_get (sm_fh_to_object sm) fh = None"
        by blast
      with None nr show ?thesis
        by (intro persistent) (simp_all add: object_to_fh_def claim_persistent_fh_def is_retired_def)
    next
      case False
      then have "claim_persistent_fh sm object = (sm, None)"
        using not_mine by (auto simp: claim_persistent_fh_def split: server_object.split option.split)
      with None nr show ?thesis
        by (intro boot [OF _ _ refl])
          (simp_all add: object_to_fh_def mint_boot_fh_def is_retired_def Let_def)
    qed
  qed
qed

lemma u64_less_plus_1:
  assumes "(n :: u64) + 1 \<noteq> 0"
  shows "n < n + 1"
proof -
  have "1 + n \<noteq> 0"
    using assms by (simp add: add.commute)
  then have "unat (1 + n) = Suc (unat n)"
    by (rule unatSuc)
  then show ?thesis by (simp add: word_less_nat_alt add.commute)
qed

lemma fh_ok_insert:
  assumes ok: "fh_ok sm" and "hm_get (sm_object_to_fh sm) object = None"
    and "hm_get (sm_fh_to_object sm) fh = None"
    and "persistent_fh_body fh \<noteq> None \<or> is_boot_fh sm fh \<and> u64_of_be (drop FH_NONCE_LEN fh) < n"
    and "sm_next_fh sm \<le> n"
  shows "fh_ok (sm\<lparr>sm_next_fh := n, sm_fh_to_object := hm_insert fh object (sm_fh_to_object sm),
     sm_object_to_fh := hm_insert object fh (sm_object_to_fh sm)\<rparr>)"
proof -
  have 1: "persistent_fh_body g \<noteq> None \<or> is_boot_fh sm g \<and> u64_of_be (drop FH_NONCE_LEN g) < n"
    if "hm_get (sm_fh_to_object sm) g = Some x" for g x
    using ok that assms(5) unfolding fh_ok_iff by (meson order_less_le_trans)
  have 2: "hm_get (sm_object_to_fh sm) x = Some g \<longleftrightarrow> hm_get (sm_fh_to_object sm) g = Some x" for x g
    using ok by (simp add: fh_ok_iff)
  have 3: "hm_get (sm_fh_to_object sm) g \<noteq> Some object" "hm_get (sm_object_to_fh sm) x \<noteq> Some fh" for g x
    using 2 assms(2,3) by (metis option.distinct(1))+
  show ?thesis
    unfolding fh_ok_iff
    using ok assms(4) 1 2 3
    by (auto simp: hm_simps is_boot_fh_def fh_ok_iff)
qed

text \<open>Minting keeps the invariant while the counter has not run out.\<close>

lemma object_to_fh_ok:
  assumes ok: "fh_ok sm" and room: "sm_next_fh sm + 1 \<noteq> 0"
  shows "fh_ok (fst (object_to_fh sm object))"
  using ok
proof (cases rule: object_to_fh_cases [where object = object])
  case (persistent i fh)
  have "persistent_fh_body fh \<noteq> None"
    using ok persistent(4) by (auto simp: fh_ok_iff)
  then show ?thesis
    using fh_ok_insert [OF ok persistent(1,5), of "sm_next_fh sm"] persistent(6) by simp
next
  case (boot fh)
  have len: "length (sm_fh_boot_nonce sm) = FH_NONCE_LEN"
    using ok by (simp add: fh_ok_iff boot_nonce_ok_def)
  have "sm_next_fh sm < sm_next_fh sm + 1" and "sm_next_fh sm \<le> sm_next_fh sm + 1"
    using u64_less_plus_1 [OF room] by simp_all
  then show ?thesis
    using fh_ok_insert [OF ok boot(1), of fh "sm_next_fh sm + 1"] fresh_boot_fh [OF ok]
      minted_is_boot_fh [OF len, of "sm_next_fh sm"] boot(3,4) len by simp
qed (simp_all add: ok)

text \<open>A handle the server hands out resolves to the object it was handed out for.\<close>

lemma fh_ok_resolves:
  assumes "fh_ok sm" and "hm_get (sm_object_to_fh sm) object = Some fh"
  shows "fh_to_object sm fh = Some object"
  using assms unfolding fh_ok_iff fh_to_object_layout by metis

lemma object_to_fh_known:
  assumes "fh_ok sm" and "object_to_fh sm object = (sm', Some fh)"
  shows "hm_get (sm_object_to_fh sm') object = Some fh"
  using assms(1)
  by (cases rule: object_to_fh_cases [where object = object]) (use assms(2) in \<open>auto simp: hm_simps\<close>)

end
