(* ===== verification/Retirement.thy ===== *)
theory Retirement
  imports Filehandles Stateids Delegations
begin

text \<open>
  Retiring backend objects, \<^verbatim>\<open>session/invalidate.rs\<close>: the permanent mark, the sweep over the file
  handle maps and the sweep over the shared state. The lemmas show that the sweep removes exactly
  what belongs to the retired objects, keeps the delegation indexes consistent, and that no later
  call creates a handle, an open, a lock or a delegation for a retired object.
\<close>

record invalidation_counts =
  ic_filehandles :: nat
  ic_opens :: nat
  ic_locks :: nat
  ic_delegations :: nat
  ic_metadata :: nat

definition invalidation_counts_default :: invalidation_counts where
  "invalidation_counts_default = \<lparr>ic_filehandles = 0, ic_opens = 0, ic_locks = 0,
     ic_delegations = 0, ic_metadata = 0\<rparr>"

section \<open>The code\<close>

definition mark_retired :: "state_manager \<Rightarrow> object_id hset \<Rightarrow> state_manager" where
  "mark_retired sm ids = sm\<lparr>sm_retired_objects := fold hs_insert ids (sm_retired_objects sm)\<rparr>"

definition sweep_filehandles :: "state_manager \<Rightarrow> object_id hset \<Rightarrow> state_manager \<times> nat" where
  "sweep_filehandles sm ids =
     (let stale = filter (\<lambda>(fh, object). belongs_to object ids) (sm_fh_to_object sm) in
      (sm\<lparr>sm_fh_to_object := fold (\<lambda>(fh, object) m. hm_remove fh m) stale (sm_fh_to_object sm),
          sm_object_to_fh := fold (\<lambda>(fh, object) m. hm_remove object m) stale (sm_object_to_fh sm)\<rparr>,
       length stale))"

definition sweep_persistent :: "state_manager \<Rightarrow> object_id hset \<Rightarrow> state_manager" where
  "sweep_persistent sm ids = sm\<lparr>sm_persistent_fh := fold hm_remove ids (sm_persistent_fh sm)\<rparr>"

definition dropped_keys :: "('k \<Rightarrow> 'v \<Rightarrow> bool) \<Rightarrow> ('k, 'v) hmap \<Rightarrow> 'k list" where
  "dropped_keys P m = map fst (filter (\<lambda>(k, v). P k v) m)"

definition sweep_inner ::
  "state_inner \<Rightarrow> object_id hset \<Rightarrow> state_inner \<times> (nat \<times> nat \<times> nat \<times> nat)" where
  "sweep_inner inner ids =
     (let dropped_delegations = dropped_keys (\<lambda>_ d. belongs_to (dg_object d) ids) (si_delegations inner);
          inner = inner\<lparr>si_delegations := fold hm_remove dropped_delegations (si_delegations inner)\<rparr>;
          inner = inner\<lparr>si_client_delegations :=
            hm_map_values (\<lambda>s. fold hs_remove dropped_delegations s) (si_client_delegations inner)\<rparr>;
          inner = inner\<lparr>si_dir_delegations :=
            hm_retain (\<lambda>object _. \<not> belongs_to object ids) (si_dir_delegations inner)\<rparr>;
          dropped_opens = dropped_keys (\<lambda>_ o4. belongs_to (of_object o4) ids) (si_open_files inner);
          inner = inner\<lparr>si_open_files := fold hm_remove dropped_opens (si_open_files inner)\<rparr>;
          dropped_locks = dropped_keys (\<lambda>_ l. belongs_to (lf_object l) ids) (si_lock_files inner);
          inner = inner\<lparr>si_lock_files := fold hm_remove dropped_locks (si_lock_files inner)\<rparr>;
          before = length (si_metadata inner);
          inner = inner\<lparr>si_metadata := hm_retain (\<lambda>object _. \<not> belongs_to object ids) (si_metadata inner)\<rparr> in
      (inner, length dropped_delegations, length dropped_opens, length dropped_locks,
       before - length (si_metadata inner)))"

definition invalidate_objects ::
  "state_manager \<Rightarrow> object_id hset \<Rightarrow> state_manager \<times> invalidation_counts" where
  "invalidate_objects sm ids =
     (if ids = [] then (sm, invalidation_counts_default)
      else
        let sm = mark_retired sm ids;
            (sm, filehandles) = sweep_filehandles sm ids;
            sm = sweep_persistent sm ids;
            (inner, delegations, opens, locks, metadata) = sweep_inner (sm_inner sm) ids in
        (sm\<lparr>sm_inner := inner\<rparr>,
         \<lparr>ic_filehandles = filehandles, ic_opens = opens, ic_locks = locks,
          ic_delegations = delegations, ic_metadata = metadata\<rparr>))"

section \<open>What the sweeps remove\<close>

lemma set_fold_hs_insert: "set (fold hs_insert xs s) = set xs \<union> set s"
  by (induction xs arbitrary: s) auto

lemma set_fold_hs_remove: "set (fold hs_remove xs s) = set s - set xs"
  by (induction xs arbitrary: s) auto

lemma distinct_fold_hs_remove: "distinct s \<Longrightarrow> distinct (fold hs_remove xs s)"
  by (induction xs arbitrary: s) simp_all

lemma is_retired_mark:
  "is_retired (mark_retired sm ids) object \<longleftrightarrow> belongs_to object ids \<or> is_retired sm object"
  by (auto simp: is_retired_def mark_retired_def set_fold_hs_insert belongs_to_iff)

lemma get_drop_keys:
  assumes "hm_wf m"
  shows "hm_get (fold hm_remove (dropped_keys P m) m) k = (case hm_get m k of
     None \<Rightarrow> None | Some v \<Rightarrow> if P k v then None else Some v)"
  using mem_filter_keys [OF assms, of k P]
  by (auto simp: dropped_keys_def hm.get_fold_rem split: option.split)

lemma wf_drop_keys: "hm_wf m \<Longrightarrow> hm_wf (fold hm_remove ks m)"
  by (rule hm.invar_fold_rem)

lemma sweep_inner_sel:
  "si_clients (fst (sweep_inner inner ids)) = si_clients inner"
  "si_sessions (fst (sweep_inner inner ids)) = si_sessions inner"
  "si_open_files (fst (sweep_inner inner ids)) =
     fold hm_remove (dropped_keys (\<lambda>_ o4. belongs_to (of_object o4) ids) (si_open_files inner)) (si_open_files inner)"
  "si_lock_files (fst (sweep_inner inner ids)) =
     fold hm_remove (dropped_keys (\<lambda>_ l. belongs_to (lf_object l) ids) (si_lock_files inner)) (si_lock_files inner)"
  "si_delegations (fst (sweep_inner inner ids)) =
     fold hm_remove (dropped_keys (\<lambda>_ d. belongs_to (dg_object d) ids) (si_delegations inner)) (si_delegations inner)"
  "si_dir_delegations (fst (sweep_inner inner ids)) =
     hm_retain (\<lambda>object _. \<not> belongs_to object ids) (si_dir_delegations inner)"
  "si_client_delegations (fst (sweep_inner inner ids)) =
     hm_map_values (\<lambda>s. fold hs_remove
       (dropped_keys (\<lambda>_ d. belongs_to (dg_object d) ids) (si_delegations inner)) s) (si_client_delegations inner)"
  "si_metadata (fst (sweep_inner inner ids)) =
     hm_retain (\<lambda>object _. \<not> belongs_to object ids) (si_metadata inner)"
  by (simp_all add: sweep_inner_def Let_def)

lemma sweep_inner_index_ok:
  assumes "delegation_index_ok inner"
  shows "delegation_index_ok (fst (sweep_inner inner ids))"
proof -
  let ?drop = "dropped_keys (\<lambda>_ d. belongs_to (dg_object d) ids) (si_delegations inner)"
  have wf: "hm_wf (si_delegations inner)" "idx_wf (si_dir_delegations inner)"
    "idx_wf (si_client_delegations inner)"
    using assms by (simp_all add: delegation_index_ok_def)
  have drop: "x \<in> set ?drop \<longleftrightarrow> (\<exists>d. hm_get (si_delegations inner) x = Some d \<and> belongs_to (dg_object d) ids)" for x
    using mem_filter_keys [OF wf(1), of x "\<lambda>_ d. belongs_to (dg_object d) ids"] by (simp add: dropped_keys_def)
  have dir: "set (idx_get (hm_retain (\<lambda>object _. \<not> belongs_to object ids) (si_dir_delegations inner)) k) =
      (if belongs_to k ids then {} else set (idx_get (si_dir_delegations inner) k))" for k
    using wf(2) by (cases "hm_get (si_dir_delegations inner) k") (auto simp: idx_get_def idx_wf_def hm.get_ret)
  have cl: "set (idx_get (hm_map_values (\<lambda>s. fold hs_remove ?drop s) (si_client_delegations inner)) k) =
      set (idx_get (si_client_delegations inner) k) - set ?drop" for k
    by (cases "hm_get (si_client_delegations inner) k") (auto simp: idx_get_def hm_simps set_fold_hs_remove)
  have wf': "hm_wf (fold hm_remove ?drop (si_delegations inner))"
    "idx_wf (hm_retain (\<lambda>object _. \<not> belongs_to object ids) (si_dir_delegations inner))"
    "idx_wf (hm_map_values (\<lambda>s. fold hs_remove ?drop s) (si_client_delegations inner))"
    using wf by (auto simp: idx_wf_iff hm_simps wf_drop_keys distinct_fold_hs_remove)
  have "idx.indexes dg_object (si_dir_delegations inner) (si_delegations inner)"
    "idx.indexes dg_clientid (si_client_delegations inner) (si_delegations inner)"
    using assms by (simp_all add: delegation_index_ok_iff)
  then show ?thesis
    unfolding delegation_index_ok_iff sweep_inner_sel
    using wf' by (auto simp: idx.indexes_def dir cl drop hm.get_fold_rem)
qed

text \<open>The file handle sweep removes the handles of the retired objects and no others.\<close>

lemma fold_remove_fh:
  "hm_get (fold (\<lambda>(fh, object) m. hm_remove fh m) stale m) k =
     (if k \<in> fst ` set stale then None else hm_get m k)"
  by (induction stale arbitrary: m) (auto simp: hm_simps)

lemma fold_remove_obj:
  "hm_get (fold (\<lambda>(fh, object) m. hm_remove object m) stale m) k =
     (if k \<in> snd ` set stale then None else hm_get m k)"
  by (induction stale arbitrary: m) (auto simp: hm_simps)

lemma fold_remove_wf:
  "hm_wf m \<Longrightarrow> hm_wf (fold (\<lambda>(fh, object) m. hm_remove fh m) stale m)"
  "hm_wf n \<Longrightarrow> hm_wf (fold (\<lambda>(fh, object) m. hm_remove object m) stale n)"
  by (induction stale arbitrary: m n) (auto simp: hm_simps)

lemma sweep_filehandles_get:
  assumes ok: "fh_ok sm"
  shows "hm_get (sm_fh_to_object (fst (sweep_filehandles sm ids))) fh =
      (case hm_get (sm_fh_to_object sm) fh of
         None \<Rightarrow> None | Some object \<Rightarrow> if belongs_to object ids then None else Some object)"
    and "hm_get (sm_object_to_fh (fst (sweep_filehandles sm ids))) object =
      (if belongs_to object ids then None else hm_get (sm_object_to_fh sm) object)"
proof -
  let ?stale = "filter (\<lambda>(fh, object). belongs_to object ids) (sm_fh_to_object sm)"
  have mem: "(k, v) \<in> set ?stale \<longleftrightarrow> hm_get (sm_fh_to_object sm) k = Some v \<and> belongs_to v ids" for k v
    using hm_get_iff_mem [OF fh_okD(1) [OF ok]] by auto
  have "fh \<in> fst ` set ?stale \<longleftrightarrow>
      (\<exists>v. hm_get (sm_fh_to_object sm) fh = Some v \<and> belongs_to v ids)"
    using mem by (force simp: image_iff)
  then show "hm_get (sm_fh_to_object (fst (sweep_filehandles sm ids))) fh =
      (case hm_get (sm_fh_to_object sm) fh of
         None \<Rightarrow> None | Some object \<Rightarrow> if belongs_to object ids then None else Some object)"
    by (auto simp: sweep_filehandles_def Let_def fold_remove_fh split: option.split)
  have "object \<in> snd ` set ?stale \<longleftrightarrow>
      belongs_to object ids \<and> (\<exists>fh. hm_get (sm_object_to_fh sm) object = Some fh)"
    using mem fh_okD(5) [OF ok] by (force simp: image_iff)
  then show "hm_get (sm_object_to_fh (fst (sweep_filehandles sm ids))) object =
      (if belongs_to object ids then None else hm_get (sm_object_to_fh sm) object)"
    by (auto simp: sweep_filehandles_def Let_def fold_remove_obj)
qed

lemma sweep_filehandles_sel [simp]:
  "sm_inner (fst (sweep_filehandles sm ids)) = sm_inner sm"
  "sm_persistent_fh (fst (sweep_filehandles sm ids)) = sm_persistent_fh sm"
  "sm_retired_objects (fst (sweep_filehandles sm ids)) = sm_retired_objects sm"
  "sm_next_fh (fst (sweep_filehandles sm ids)) = sm_next_fh sm"
  "sm_fh_boot_nonce (fst (sweep_filehandles sm ids)) = sm_fh_boot_nonce sm"
  "sm_next_stateid (fst (sweep_filehandles sm ids)) = sm_next_stateid sm"
  "sm_next_clientid (fst (sweep_filehandles sm ids)) = sm_next_clientid sm"
  "sm_config (fst (sweep_filehandles sm ids)) = sm_config sm"
  by (simp_all add: sweep_filehandles_def Let_def)

lemma sweep_filehandles_ok:
  assumes ok: "fh_ok sm"
  shows "fh_ok (fst (sweep_filehandles sm ids))"
proof -
  have "hm_wf (sm_fh_to_object (fst (sweep_filehandles sm ids)))"
    "hm_wf (sm_object_to_fh (fst (sweep_filehandles sm ids)))"
    using fold_remove_wf fh_okD(1,2) [OF ok] by (simp_all add: sweep_filehandles_def Let_def)
  then show ?thesis
    unfolding fh_ok_iff sweep_filehandles_get [OF ok]
    using fh_okD [OF ok] by (auto simp: is_boot_fh_def split: option.splits if_splits)
qed

section \<open>The whole operation\<close>

lemma invalidate_objects_sel:
  assumes "ids \<noteq> []"
  shows "sm_inner (fst (invalidate_objects sm ids)) = fst (sweep_inner (sm_inner sm) ids)"
    and "sm_fh_to_object (fst (invalidate_objects sm ids)) =
      sm_fh_to_object (fst (sweep_filehandles sm ids))"
    and "sm_object_to_fh (fst (invalidate_objects sm ids)) =
      sm_object_to_fh (fst (sweep_filehandles sm ids))"
    and "sm_persistent_fh (fst (invalidate_objects sm ids)) = fold hm_remove ids (sm_persistent_fh sm)"
    and "sm_retired_objects (fst (invalidate_objects sm ids)) =
      fold hs_insert ids (sm_retired_objects sm)"
    and "sm_next_fh (fst (invalidate_objects sm ids)) = sm_next_fh sm"
    and "sm_fh_boot_nonce (fst (invalidate_objects sm ids)) = sm_fh_boot_nonce sm"
    and "sm_next_stateid (fst (invalidate_objects sm ids)) = sm_next_stateid sm"
    and "sm_next_clientid (fst (invalidate_objects sm ids)) = sm_next_clientid sm"
    and "sm_config (fst (invalidate_objects sm ids)) = sm_config sm"
  using assms
  by (simp_all add: invalidate_objects_def Let_def case_prod_unfold sweep_persistent_def mark_retired_def
      sweep_filehandles_def)

lemma invalidate_objects_fh_ok:
  assumes ok: "fh_ok sm"
  shows "fh_ok (fst (invalidate_objects sm ids))"
proof (cases "ids = []")
  case True
  then show ?thesis using ok by (simp add: invalidate_objects_def)
next
  case False
  have "hm_wf (fold hm_remove ids (sm_persistent_fh sm))"
    using fh_okD(3) [OF ok] by (rule wf_drop_keys)
  then show ?thesis
    using sweep_filehandles_ok [OF ok, of ids]
    unfolding fh_ok_iff invalidate_objects_sel [OF False]
    by (auto simp: is_boot_fh_def invalidate_objects_sel [OF False] hm.get_fold_rem)
qed

lemma is_retired_invalidate:
  "ids \<noteq> [] \<Longrightarrow> is_retired (fst (invalidate_objects sm ids)) object \<longleftrightarrow>
    belongs_to object ids \<or> is_retired sm object"
  by (auto simp: is_retired_def invalidate_objects_sel set_fold_hs_insert belongs_to_iff)

text \<open>A state in which nothing of the given objects is left.\<close>

definition nothing_left :: "state_manager \<Rightarrow> object_id hset \<Rightarrow> bool" where
  "nothing_left sm ids \<longleftrightarrow>
     hm_all (\<lambda>_ object. \<not> belongs_to object ids) (sm_fh_to_object sm)
     \<and> hm_all (\<lambda>object _. \<not> belongs_to object ids) (sm_object_to_fh sm)
     \<and> hm_all (\<lambda>i _. i \<notin> set ids) (sm_persistent_fh sm)
     \<and> hm_all (\<lambda>_ s. \<not> belongs_to (of_object s) ids) (si_open_files (sm_inner sm))
     \<and> hm_all (\<lambda>_ l. \<not> belongs_to (lf_object l) ids) (si_lock_files (sm_inner sm))
     \<and> hm_all (\<lambda>_ d. \<not> belongs_to (dg_object d) ids) (si_delegations (sm_inner sm))
     \<and> hm_all (\<lambda>object _. \<not> belongs_to object ids) (si_metadata (sm_inner sm))"

lemma tables_wfD:
  assumes "tables_wf inner"
  shows "hm_wf (si_clients inner)" "hm_wf (si_sessions inner)" "hm_wf (si_open_files inner)"
    "hm_wf (si_lock_files inner)" "hm_wf (si_metadata inner)"
  using assms by (simp_all add: tables_wf_def)

lemma sweep_inner_tables_wf: "tables_wf inner \<Longrightarrow> tables_wf (fst (sweep_inner inner ids))"
  by (simp add: tables_wf_def sweep_inner_sel wf_drop_keys hm_simps)

lemma sweep_inner_get:
  assumes "tables_wf inner" and "delegation_index_ok inner"
  shows "hm_get (si_open_files (fst (sweep_inner inner ids))) k = (case hm_get (si_open_files inner) k of
      None \<Rightarrow> None | Some s \<Rightarrow> if belongs_to (of_object s) ids then None else Some s)"
    and "hm_get (si_lock_files (fst (sweep_inner inner ids))) k = (case hm_get (si_lock_files inner) k of
      None \<Rightarrow> None | Some l \<Rightarrow> if belongs_to (lf_object l) ids then None else Some l)"
    and "hm_get (si_delegations (fst (sweep_inner inner ids))) k = (case hm_get (si_delegations inner) k of
      None \<Rightarrow> None | Some d \<Rightarrow> if belongs_to (dg_object d) ids then None else Some d)"
    and "hm_get (si_metadata (fst (sweep_inner inner ids))) object = (case hm_get (si_metadata inner) object of
      None \<Rightarrow> None | Some m \<Rightarrow> if belongs_to object ids then None else Some m)"
  using tables_wfD [OF assms(1)] assms(2)
  by (simp_all add: sweep_inner_sel get_drop_keys delegation_index_ok_def hm.get_ret split: option.split)

lemma invalidate_nothing_left:
  assumes fh: "fh_ok sm" and wf: "tables_wf (sm_inner sm)" "delegation_index_ok (sm_inner sm)"
    and ids: "ids \<noteq> []"
  shows "nothing_left (fst (invalidate_objects sm ids)) ids"
proof -
  note get = sweep_inner_get [OF wf] sweep_filehandles_get [OF fh]
  have fh': "fh_ok (fst (invalidate_objects sm ids))"
    by (rule invalidate_objects_fh_ok [OF fh])
  have wf': "tables_wf (sm_inner (fst (invalidate_objects sm ids)))"
    "hm_wf (si_delegations (sm_inner (fst (invalidate_objects sm ids))))"
    using sweep_inner_tables_wf [OF wf(1)] sweep_inner_index_ok [OF wf(2)]
    by (simp_all add: invalidate_objects_sel [OF ids] delegation_index_ok_def)
  show ?thesis
    unfolding nothing_left_def hm_all_iff [OF fh_okD(1) [OF fh']] hm_all_iff [OF fh_okD(2) [OF fh']]
      hm_all_iff [OF fh_okD(3) [OF fh']] hm_all_iff [OF tables_wfD(3) [OF wf'(1)]]
      hm_all_iff [OF tables_wfD(4) [OF wf'(1)]] hm_all_iff [OF tables_wfD(5) [OF wf'(1)]]
      hm_all_iff [OF wf'(2)]
    unfolding invalidate_objects_sel [OF ids] get
    by (auto simp: hm.get_fold_rem split: option.splits if_splits)
qed

text \<open>In such a state there is nothing to sweep.\<close>

lemma dropped_none: "hm_all (\<lambda>k v. \<not> P k v) m \<Longrightarrow> dropped_keys P m = []"
  by (auto simp: dropped_keys_def hm_all_def list_all_iff filter_empty_conv)

lemma length_dropped: "length (filter (\<lambda>(k, v). P k v) m) = length (dropped_keys P m)"
  by (simp add: dropped_keys_def)

lemma retain_all: "hm_all (\<lambda>k v. P k v) m \<Longrightarrow> hm_retain (\<lambda>k v. P k v) m = m"
  by (auto simp: hm_all_def hm_retain_def list_all_iff intro!: filter_True)

lemma sweep_inner_nothing:
  assumes "hm_all (\<lambda>_ s. \<not> belongs_to (of_object s) ids) (si_open_files inner)"
    and "hm_all (\<lambda>_ l. \<not> belongs_to (lf_object l) ids) (si_lock_files inner)"
    and "hm_all (\<lambda>_ d. \<not> belongs_to (dg_object d) ids) (si_delegations inner)"
    and "hm_all (\<lambda>object _. \<not> belongs_to object ids) (si_metadata inner)"
  shows "snd (sweep_inner inner ids) = (0, 0, 0, 0)"
  using assms by (simp add: sweep_inner_def Let_def dropped_none retain_all)

lemma sweep_filehandles_nothing:
  "hm_all (\<lambda>_ object. \<not> belongs_to object ids) (sm_fh_to_object sm) \<Longrightarrow> snd (sweep_filehandles sm ids) = 0"
  using dropped_none [of "\<lambda>_ object. belongs_to object ids" "sm_fh_to_object sm"]
  by (simp add: sweep_filehandles_def Let_def length_dropped)

lemma mark_retired_sel [simp]:
  "sm_inner (mark_retired sm ids) = sm_inner sm"
  "sm_fh_to_object (mark_retired sm ids) = sm_fh_to_object sm"
  by (simp_all add: mark_retired_def)

lemma invalidate_nothing:
  assumes "nothing_left sm ids"
  shows "snd (invalidate_objects sm ids) = invalidation_counts_default"
proof -
  have "snd (sweep_filehandles (mark_retired sm ids) ids) = 0"
    using assms by (intro sweep_filehandles_nothing) (simp add: nothing_left_def)
  moreover have "snd (sweep_inner (sm_inner sm) ids) = (0, 0, 0, 0)"
    using assms by (intro sweep_inner_nothing) (simp_all add: nothing_left_def)
  ultimately show ?thesis
    by (simp add: invalidate_objects_def invalidation_counts_default_def Let_def case_prod_unfold
        sweep_persistent_def)
qed

section \<open>Retired objects acquire nothing\<close>

lemma retired_no_open:
  "is_retired sm object \<Longrightarrow> create_open_state_locked sm object owner access deny = (sm, Inl Stat_Stale)"
  by (simp add: create_open_state_locked_def)

lemma retired_no_lock:
  "is_retired sm object \<Longrightarrow> create_lock_state_locked sm sid owner object t offset len = (sm, Inl Stat_Stale)"
  by (simp add: create_lock_state_locked_def)

lemma retired_no_delegation:
  "is_retired sm object \<Longrightarrow> grant_directory_delegation_locked sm now' object c sid m n = (sm, Inl Stat_Stale)"
  "is_retired sm object \<Longrightarrow> create_directory_delegation_locked sm now' object c sid = (sm, Inl Stat_Stale)"
  by (simp_all add: grant_directory_delegation_locked_def create_directory_delegation_locked_def)

lemma retired_no_mint:
  "is_retired sm object \<Longrightarrow> hm_get (sm_object_to_fh sm) object = None
    \<Longrightarrow> object_to_fh sm object = (sm, None)"
  by (simp add: object_to_fh_def)

end
