(* ===== verification/Session_Invariant.thy ===== *)
theory Session_Invariant
  imports Clients Retirement Metadata
begin

text \<open>
  The invariant of the state behind the server's lock. It ties the tables to each other: client
  records carry their keys and ids below the counter, a session belongs to a registered client and
  is named by it and by a CREATE_SESSION sequence number the client has used, the state ids of
  opens, locks and delegations are apart and name their owner, and each table keeps its own
  invariant. The lemmas say what a change of the tables must respect to keep it.
\<close>

section \<open>The invariant\<close>

definition client_ok :: "clientid4 \<Rightarrow> clientid4 \<Rightarrow> client_state \<Rightarrow> bool" where
  "client_ok next_id clientid c \<longleftrightarrow> cs_clientid c = clientid \<and> clientid < next_id
     \<and> (case cs_replaced_clientid c of None \<Rightarrow> True | Some old \<Rightarrow> old < clientid)"

text \<open>The sequence number in a session id.\<close>

definition sessionid_seq :: "sessionid4 \<Rightarrow> u64" where
  "sessionid_seq sid = u64_of_be (drop 8 sid)"

definition session_ok :: "(clientid4, client_state) hmap \<Rightarrow> sessionid4 \<Rightarrow> session_state \<Rightarrow> bool" where
  "session_ok clients sid s \<longleftrightarrow>
     (case hm_get clients (ss_clientid s) of
        None \<Rightarrow> False
      | Some c \<Rightarrow> sid = be_u64 (ss_clientid s) @ be_u64 (sessionid_seq sid)
          \<and> unat (sessionid_seq sid) \<le> unat (cs_sequence_id c))
     \<and> ss_slots s \<noteq> [] \<and> length (ss_slots s) \<le> 64"

text \<open>The counter in a state id.\<close>

definition other_seq :: "stateid_other \<Rightarrow> u32" where
  "other_seq other = u32_of_be (take 4 other)"

definition key_ok :: "u32 \<Rightarrow> clientid4 \<Rightarrow> stateid_other \<Rightarrow> bool" where
  "key_ok next_id owner other \<longleftrightarrow>
     other = mk_other (other_seq other) owner \<and> 0 < other_seq other \<and> other_seq other < next_id"

definition keys_ok :: "u32 \<Rightarrow> state_inner \<Rightarrow> bool" where
  "keys_ok next_id inner \<longleftrightarrow>
     hm_all (\<lambda>k s. key_ok next_id (of_clientid s) k
       \<and> hm_get (si_lock_files inner) k = None \<and> hm_get (si_delegations inner) k = None) (si_open_files inner)
     \<and> hm_all (\<lambda>k l. key_ok next_id (so_clientid (lf_owner l)) k
       \<and> hm_get (si_delegations inner) k = None) (si_lock_files inner)
     \<and> hm_all (\<lambda>k d. key_ok next_id (dg_clientid d) k) (si_delegations inner)"

definition sm_inv :: "state_manager \<Rightarrow> bool" where
  "sm_inv sm \<longleftrightarrow>
     tables_wf (sm_inner sm)
     \<and> hm_all (client_ok (sm_next_clientid sm)) (si_clients (sm_inner sm))
     \<and> hm_all (session_ok (si_clients (sm_inner sm))) (si_sessions (sm_inner sm))
     \<and> 0 < sm_next_stateid sm \<and> keys_ok (sm_next_stateid sm) (sm_inner sm)
     \<and> opens_ok (sm_opens sm) \<and> locks_ok (sm_locks sm) \<and> delegation_index_ok (sm_inner sm)
     \<and> metadata_ok sm"

text \<open>No counter is about to wrap.\<close>

definition counters_ok :: "state_manager \<Rightarrow> bool" where
  "counters_ok sm \<longleftrightarrow> unat (sm_next_clientid sm) + 1 < 2 ^ 64 \<and> unat (sm_next_stateid sm) + 1 < 2 ^ 32
     \<and> meta_counters_ok sm
     \<and> hm_all (\<lambda>_ c. unat (cs_sequence_id c) + 1 < 2 ^ 32) (si_clients (sm_inner sm))"

lemma sm_inv_wf:
  assumes "sm_inv sm"
  shows "tables_wf (sm_inner sm)" "hm_wf (si_clients (sm_inner sm))" "hm_wf (si_sessions (sm_inner sm))"
    "hm_wf (sm_opens sm)" "hm_wf (sm_locks sm)" "hm_wf (si_delegations (sm_inner sm))"
    "hm_wf (si_metadata (sm_inner sm))"
  using assms by (simp_all add: sm_inv_def tables_wf_def delegation_index_ok_def)

lemma sm_inv_parts:
  assumes "sm_inv sm"
  shows "opens_ok (sm_opens sm)" "locks_ok (sm_locks sm)" "delegation_index_ok (sm_inner sm)"
    "metadata_ok sm" "0 < sm_next_stateid sm"
  using assms by (simp_all add: sm_inv_def)

lemma sm_inv_clientD:
  "sm_inv sm \<Longrightarrow> hm_get (si_clients (sm_inner sm)) k = Some c \<Longrightarrow> client_ok (sm_next_clientid sm) k c"
  using sm_inv_wf(2) [of sm] by (auto simp: sm_inv_def hm_all_iff)

lemma sm_inv_sessionD:
  "sm_inv sm \<Longrightarrow> hm_get (si_sessions (sm_inner sm)) k = Some s
    \<Longrightarrow> session_ok (si_clients (sm_inner sm)) k s"
  using sm_inv_wf(3) [of sm] by (auto simp: sm_inv_def hm_all_iff)

lemma keys_ok_iff:
  assumes "tables_wf inner" and "hm_wf (si_delegations inner)"
  shows "keys_ok n inner \<longleftrightarrow>
     (\<forall>k s. hm_get (si_open_files inner) k = Some s \<longrightarrow> key_ok n (of_clientid s) k
       \<and> hm_get (si_lock_files inner) k = None \<and> hm_get (si_delegations inner) k = None)
     \<and> (\<forall>k l. hm_get (si_lock_files inner) k = Some l \<longrightarrow> key_ok n (so_clientid (lf_owner l)) k
       \<and> hm_get (si_delegations inner) k = None)
     \<and> (\<forall>k d. hm_get (si_delegations inner) k = Some d \<longrightarrow> key_ok n (dg_clientid d) k)"
  using assms by (simp add: keys_ok_def hm_all_iff tables_wf_def)

lemma sm_inv_keysD:
  assumes "sm_inv sm"
  shows "hm_get (sm_opens sm) k = Some s \<Longrightarrow> key_ok (sm_next_stateid sm) (of_clientid s) k
       \<and> hm_get (sm_locks sm) k = None \<and> hm_get (si_delegations (sm_inner sm)) k = None"
    and "hm_get (sm_locks sm) k = Some l \<Longrightarrow> key_ok (sm_next_stateid sm) (so_clientid (lf_owner l)) k
       \<and> hm_get (si_delegations (sm_inner sm)) k = None"
    and "hm_get (si_delegations (sm_inner sm)) k = Some d \<Longrightarrow> key_ok (sm_next_stateid sm) (dg_clientid d) k"
  using assms unfolding sm_inv_def
  by (auto simp: keys_ok_iff [OF sm_inv_wf(1) [OF assms] sm_inv_wf(6) [OF assms]])

section \<open>Tables that lose or change entries\<close>

text \<open>Every entry of the new table comes from one of the old table that it may replace.\<close>

definition keeps :: "('v \<Rightarrow> 'v \<Rightarrow> bool) \<Rightarrow> ('k, 'v) hmap \<Rightarrow> ('k, 'v) hmap \<Rightarrow> bool" where
  "keeps R m' m \<longleftrightarrow> (\<forall>k v'. hm_get m' k = Some v' \<longrightarrow> (\<exists>v. hm_get m k = Some v \<and> R v v'))"

lemma keepsD: "keeps R m' m \<Longrightarrow> hm_get m' k = Some v' \<Longrightarrow> \<exists>v. hm_get m k = Some v \<and> R v v'"
  by (simp add: keeps_def)

lemma keeps_None: "keeps R m' m \<Longrightarrow> hm_get m k = None \<Longrightarrow> hm_get m' k = None"
  by (cases "hm_get m' k") (auto dest: keepsD)

lemma keeps_refl [simp]: "(\<And>v. R v v) \<Longrightarrow> keeps R m m"
  by (simp add: keeps_def)

lemma keeps_retain [simp]: "(\<And>v. R v v) \<Longrightarrow> hm_wf m \<Longrightarrow> keeps R (hm_retain P m) m"
  by (simp add: keeps_def hm_simps)

lemma keeps_remove [simp]: "(\<And>v. R v v) \<Longrightarrow> keeps R (hm_remove k m) m"
  by (simp add: keeps_def hm_simps)

lemma keeps_insert: "(\<And>v. R v v) \<Longrightarrow> hm_get m k = Some v \<Longrightarrow> R v v' \<Longrightarrow> keeps R (hm_insert k v' m) m"
  by (simp add: keeps_def hm_simps)

lemma keeps_map_values: "(\<And>v. R v (f v)) \<Longrightarrow> keeps R (hm_map_values f m) m"
  by (auto simp: keeps_def hm_simps)

text \<open>The changes the tables allow.\<close>

definition client_step :: "client_state \<Rightarrow> client_state \<Rightarrow> bool" where
  "client_step c c' \<longleftrightarrow> cs_clientid c' = cs_clientid c \<and> cs_sequence_id c' = cs_sequence_id c
     \<and> (cs_replaced_clientid c' = None \<or> cs_replaced_clientid c' = cs_replaced_clientid c)"

definition session_step :: "session_state \<Rightarrow> session_state \<Rightarrow> bool" where
  "session_step s s' \<longleftrightarrow> ss_clientid s' = ss_clientid s \<and> length (ss_slots s') = length (ss_slots s)"

definition same_on :: "('v \<Rightarrow> 'w) \<Rightarrow> 'v \<Rightarrow> 'v \<Rightarrow> bool" where
  "same_on f v v' \<longleftrightarrow> f v' = f v"

lemma step_refl [simp]: "client_step c c" "session_step s s" "same_on f v v"
  by (simp_all add: client_step_def session_step_def same_on_def)

text \<open>Every session's client is registered.\<close>

definition attached :: "state_inner \<Rightarrow> bool" where
  "attached inner \<longleftrightarrow> (\<forall>k s. hm_get (si_sessions inner) k = Some s \<longrightarrow>
     hm_get (si_clients inner) (ss_clientid s) \<noteq> None)"

lemma sm_inv_attached: "sm_inv sm \<Longrightarrow> attached (sm_inner sm)"
  using sm_inv_sessionD [of sm] by (fastforce simp: attached_def session_ok_def split: option.splits)

lemma client_ok_step: "client_step c c' \<Longrightarrow> client_ok n k c \<Longrightarrow> client_ok n k c'"
  by (auto simp: client_step_def client_ok_def)

lemma session_ok_step:
  assumes "session_ok clients k s" and "session_step s s'" and "keeps client_step clients' clients"
    and "hm_get clients' (ss_clientid s') \<noteq> None"
  shows "session_ok clients' k s'"
proof -
  obtain c' where c': "hm_get clients' (ss_clientid s') = Some c'" using assms(4) by blast
  moreover obtain c where "hm_get clients (ss_clientid s) = Some c" "client_step c c'"
    using keepsD [OF assms(3) c'] assms(2) by (auto simp: session_step_def)
  ultimately show ?thesis
    using assms(1,2) by (auto simp: session_ok_def session_step_def client_step_def)
qed

lemma keys_ok_keeps:
  assumes "keys_ok n inner" and "tables_wf inner" "hm_wf (si_delegations inner)"
    and "tables_wf inner'" "hm_wf (si_delegations inner')"
    and o4: "keeps (same_on of_clientid) (si_open_files inner') (si_open_files inner)"
    and l4: "keeps (same_on (\<lambda>l. so_clientid (lf_owner l))) (si_lock_files inner') (si_lock_files inner)"
    and d4: "keeps (same_on dg_clientid) (si_delegations inner') (si_delegations inner)"
  shows "keys_ok n inner'"
proof -
  note k = assms(1) [unfolded keys_ok_iff [OF assms(2,3)]]
  have "key_ok n (of_clientid s') i \<and> hm_get (si_lock_files inner') i = None
      \<and> hm_get (si_delegations inner') i = None" if at: "hm_get (si_open_files inner') i = Some s'" for i s'
  proof -
    obtain s where "hm_get (si_open_files inner) i = Some s" "of_clientid s' = of_clientid s"
      using keepsD [OF o4 at] by (auto simp: same_on_def)
    then show ?thesis using k keeps_None [OF l4] keeps_None [OF d4] by auto
  qed
  moreover have "key_ok n (so_clientid (lf_owner s')) i \<and> hm_get (si_delegations inner') i = None"
    if at: "hm_get (si_lock_files inner') i = Some s'" for i s'
  proof -
    obtain s where "hm_get (si_lock_files inner) i = Some s" "so_clientid (lf_owner s') = so_clientid (lf_owner s)"
      using keepsD [OF l4 at] by (auto simp: same_on_def)
    then show ?thesis using k keeps_None [OF d4] by auto
  qed
  moreover have "key_ok n (dg_clientid s') i" if "hm_get (si_delegations inner') i = Some s'" for i s'
    using keepsD [OF d4 that] k by (auto simp: same_on_def)
  ultimately show ?thesis unfolding keys_ok_iff [OF assms(4,5)] by blast
qed

text \<open>The frame of an operation that creates no key.\<close>

lemma sm_inv_keeps:
  assumes inv: "sm_inv sm"
    and "sm_next_clientid sm' = sm_next_clientid sm" "sm_next_stateid sm' = sm_next_stateid sm"
    and meta: "metadata_ok sm'" and wf': "tables_wf (sm_inner sm')"
    and cl: "keeps client_step (si_clients (sm_inner sm')) (si_clients (sm_inner sm))"
    and se: "keeps session_step (si_sessions (sm_inner sm')) (si_sessions (sm_inner sm))"
    and at: "attached (sm_inner sm')"
    and "opens_ok (sm_opens sm')" "locks_ok (sm_locks sm')" and ix: "delegation_index_ok (sm_inner sm')"
    and "keeps (same_on of_clientid) (sm_opens sm') (sm_opens sm)"
    and "keeps (same_on (\<lambda>l. so_clientid (lf_owner l))) (sm_locks sm') (sm_locks sm)"
    and "keeps (same_on dg_clientid) (si_delegations (sm_inner sm')) (si_delegations (sm_inner sm))"
  shows "sm_inv sm'"
proof -
  have wfd: "hm_wf (si_delegations (sm_inner sm'))"
    using ix by (simp add: delegation_index_ok_def)
  have "client_ok (sm_next_clientid sm') k c'" if "hm_get (si_clients (sm_inner sm')) k = Some c'" for k c'
    using keepsD [OF cl that] sm_inv_clientD [OF inv, of k] client_ok_step assms(2) by auto
  moreover have "session_ok (si_clients (sm_inner sm')) k s'"
    if got: "hm_get (si_sessions (sm_inner sm')) k = Some s'" for k s'
  proof -
    obtain s where "hm_get (si_sessions (sm_inner sm)) k = Some s" "session_step s s'"
      using keepsD [OF se got] by blast
    then show ?thesis
      using session_ok_step [OF sm_inv_sessionD [OF inv] _ cl] at got by (auto simp: attached_def)
  qed
  moreover have "keys_ok (sm_next_stateid sm') (sm_inner sm')"
    using inv assms(3)
    by (auto simp: sm_inv_def intro!: keys_ok_keeps [OF _ sm_inv_wf(1,6) [OF inv] wf' wfd] assms(12-14))
  ultimately show ?thesis
    using assms(2-3,9-11) meta wf' sm_inv_parts(5) [OF inv]
    by (simp add: sm_inv_def hm_all_iff tables_wf_def)
qed

lemma metadata_ok_cong:
  "si_metadata (sm_inner sm') = si_metadata (sm_inner sm) \<Longrightarrow> sm_next_synth_fileid sm' = sm_next_synth_fileid sm
    \<Longrightarrow> sm_next_changeid sm' = sm_next_changeid sm \<Longrightarrow> metadata_ok sm' = metadata_ok sm"
  by (simp add: metadata_ok_def)


section \<open>Changing one table\<close>

lemma delegation_index_ok_frame [simp]:
  "delegation_index_ok (inner\<lparr>si_open_files := o4\<rparr>) = delegation_index_ok inner"
  "delegation_index_ok (inner\<lparr>si_lock_files := l4\<rparr>) = delegation_index_ok inner"
  "delegation_index_ok (inner\<lparr>si_sessions := s4\<rparr>) = delegation_index_ok inner"
  "delegation_index_ok (inner\<lparr>si_metadata := m4\<rparr>) = delegation_index_ok inner"
  by (simp_all add: delegation_index_ok_def)

lemma tables_wf_frame:
  "tables_wf inner \<Longrightarrow> hm_wf c4 \<Longrightarrow> tables_wf (inner\<lparr>si_clients := c4\<rparr>)"
  "tables_wf inner \<Longrightarrow> hm_wf s4 \<Longrightarrow> tables_wf (inner\<lparr>si_sessions := s4\<rparr>)"
  "tables_wf inner \<Longrightarrow> hm_wf o4 \<Longrightarrow> tables_wf (inner\<lparr>si_open_files := o4\<rparr>)"
  "tables_wf inner \<Longrightarrow> hm_wf l4 \<Longrightarrow> tables_wf (inner\<lparr>si_lock_files := l4\<rparr>)"
  by (simp_all add: tables_wf_def)

lemma attached_frame [simp]:
  "attached (inner\<lparr>si_open_files := o4\<rparr>) = attached inner"
  "attached (inner\<lparr>si_lock_files := l4\<rparr>) = attached inner"
  "attached (inner\<lparr>si_metadata := m4\<rparr>) = attached inner"
  by (simp_all add: attached_def)

lemma metadata_ok_frame [simp]:
  "metadata_ok (sm\<lparr>sm_inner := (sm_inner sm)\<lparr>si_open_files := o4\<rparr>\<rparr>) = metadata_ok sm"
  "metadata_ok (sm\<lparr>sm_inner := (sm_inner sm)\<lparr>si_lock_files := l4\<rparr>\<rparr>) = metadata_ok sm"
  "metadata_ok (sm\<lparr>sm_inner := (sm_inner sm)\<lparr>si_sessions := s4\<rparr>\<rparr>) = metadata_ok sm"
  "metadata_ok (sm\<lparr>sm_inner := (sm_inner sm)\<lparr>si_clients := c4\<rparr>\<rparr>) = metadata_ok sm"
  by (simp_all add: metadata_ok_def)

lemma sm_inv_opens:
  assumes "sm_inv sm" and "opens_ok m" and "keeps (same_on of_clientid) m (sm_opens sm)"
  shows "sm_inv (sm\<lparr>sm_inner := (sm_inner sm)\<lparr>si_open_files := m\<rparr>\<rparr>)"
  using assms sm_inv_wf [OF assms(1)] sm_inv_parts [OF assms(1)] sm_inv_attached [OF assms(1)]
  by (intro sm_inv_keeps [OF assms(1)]) (simp_all add: tables_wf_frame opens_okD(1))

lemma sm_inv_locks:
  assumes "sm_inv sm" and "locks_ok m" and "keeps (same_on (\<lambda>l. so_clientid (lf_owner l))) m (sm_locks sm)"
  shows "sm_inv (sm\<lparr>sm_inner := (sm_inner sm)\<lparr>si_lock_files := m\<rparr>\<rparr>)"
  using assms sm_inv_wf [OF assms(1)] sm_inv_parts [OF assms(1)] sm_inv_attached [OF assms(1)]
  by (intro sm_inv_keeps [OF assms(1)]) (simp_all add: tables_wf_frame locks_ok_iff)

lemma sm_inv_sessions:
  assumes "sm_inv sm" and "hm_wf m" and "keeps session_step m (si_sessions (sm_inner sm))"
  shows "sm_inv (sm\<lparr>sm_inner := (sm_inner sm)\<lparr>si_sessions := m\<rparr>\<rparr>)"
proof -
  have "attached ((sm_inner sm)\<lparr>si_sessions := m\<rparr>)"
    using keepsD [OF assms(3)] sm_inv_attached [OF assms(1)]
    by (fastforce simp: attached_def session_step_def)
  then show ?thesis
    using assms sm_inv_wf [OF assms(1)] sm_inv_parts [OF assms(1)]
    by (intro sm_inv_keeps [OF assms(1)]) (simp_all add: tables_wf_frame)
qed

text \<open>Replacing the record of a registered client.\<close>

lemma sm_inv_client:
  assumes "sm_inv sm" and "hm_get (si_clients (sm_inner sm)) k = Some c" and "client_step c c'"
  shows "sm_inv (sm\<lparr>sm_inner := (sm_inner sm)\<lparr>si_clients := hm_insert k c' (si_clients (sm_inner sm))\<rparr>\<rparr>)"
proof -
  have "attached ((sm_inner sm)\<lparr>si_clients := hm_insert k c' (si_clients (sm_inner sm))\<rparr>)"
    using sm_inv_attached [OF assms(1)] by (auto simp: attached_def hm_simps)
  then show ?thesis
    using assms sm_inv_wf [OF assms(1)] sm_inv_parts [OF assms(1)]
    by (intro sm_inv_keeps [OF assms(1)]) (simp_all add: tables_wf_frame hm_simps keeps_insert)
qed

text \<open>Changing the delegation tables.\<close>

lemma sm_inv_delegations:
  assumes inv: "sm_inv sm" and ix: "delegation_index_ok inner'"
    and k: "keeps (same_on dg_clientid) (si_delegations inner') (si_delegations (sm_inner sm))"
    and frame: "si_clients inner' = si_clients (sm_inner sm)" "si_sessions inner' = si_sessions (sm_inner sm)"
      "si_open_files inner' = sm_opens sm" "si_lock_files inner' = sm_locks sm"
      "si_metadata inner' = si_metadata (sm_inner sm)"
  shows "sm_inv (sm\<lparr>sm_inner := inner'\<rparr>)"
proof -
  have "attached inner'" "tables_wf inner'" "metadata_ok (sm\<lparr>sm_inner := inner'\<rparr>)"
    using sm_inv_attached [OF inv] sm_inv_wf(1) [OF inv] sm_inv_parts(4) [OF inv] frame
    by (simp_all add: attached_def tables_wf_def metadata_ok_def)
  then show ?thesis
    using sm_inv_parts [OF inv] ix k frame by (intro sm_inv_keeps [OF inv]) simp_all
qed

text \<open>Changing the metadata and its counters.\<close>

lemma sm_inv_metadata:
  assumes inv: "sm_inv sm" and "metadata_ok sm'"
    and frame: "si_clients (sm_inner sm') = si_clients (sm_inner sm)" "si_sessions (sm_inner sm') = si_sessions (sm_inner sm)"
      "sm_opens sm' = sm_opens sm" "sm_locks sm' = sm_locks sm"
      "si_delegations (sm_inner sm') = si_delegations (sm_inner sm)"
      "si_dir_delegations (sm_inner sm') = si_dir_delegations (sm_inner sm)"
      "si_client_delegations (sm_inner sm') = si_client_delegations (sm_inner sm)"
    and "sm_next_clientid sm' = sm_next_clientid sm" "sm_next_stateid sm' = sm_next_stateid sm"
  shows "sm_inv sm'"
proof -
  have "attached (sm_inner sm')" "tables_wf (sm_inner sm')" "delegation_index_ok (sm_inner sm')"
    using sm_inv_attached [OF inv] sm_inv_wf(1) [OF inv] sm_inv_parts(3) [OF inv] frame assms(2)
    by (simp_all add: attached_def tables_wf_def metadata_ok_def delegation_index_ok_def)
  then show ?thesis
    using sm_inv_parts [OF inv] frame assms(2,10,11) by (intro sm_inv_keeps [OF inv]) simp_all
qed

section \<open>New keys\<close>

lemma other_seq_mk_other [simp]: "other_seq (mk_other q c) = q"
  by (simp add: other_seq_def mk_other_def)

lemma key_ok_mk_other [simp]: "key_ok n c (mk_other q c') \<longleftrightarrow> c' = c \<and> 0 < q \<and> q < n"
  by (auto simp: key_ok_def)

lemma key_ok_less: "key_ok n c k \<Longrightarrow> n \<le> n' \<Longrightarrow> key_ok n' c k"
  by (auto simp: key_ok_def)

text \<open>The next state id is used by no open, lock or delegation.\<close>

lemma sm_inv_fresh:
  assumes inv: "sm_inv sm"
  shows "hm_get (sm_opens sm) (mk_other (sm_next_stateid sm) c) = None"
    and "hm_get (sm_locks sm) (mk_other (sm_next_stateid sm) c) = None"
    and "hm_get (si_delegations (sm_inner sm)) (mk_other (sm_next_stateid sm) c) = None"
proof -
  note k = sm_inv_keysD [OF inv, of "mk_other (sm_next_stateid sm) c"]
  show "hm_get (sm_opens sm) (mk_other (sm_next_stateid sm) c) = None"
    using k(1) by (cases "hm_get (sm_opens sm) (mk_other (sm_next_stateid sm) c)") simp_all
  show "hm_get (sm_locks sm) (mk_other (sm_next_stateid sm) c) = None"
    using k(2) by (cases "hm_get (sm_locks sm) (mk_other (sm_next_stateid sm) c)") simp_all
  show "hm_get (si_delegations (sm_inner sm)) (mk_other (sm_next_stateid sm) c) = None"
    using k(3) by (cases "hm_get (si_delegations (sm_inner sm)) (mk_other (sm_next_stateid sm) c)") simp_all
qed

lemma put_counters [simp]:
  "sm_next_clientid (put_open k s sm) = sm_next_clientid sm"
  "sm_next_clientid (put_lock k l sm) = sm_next_clientid sm"
  "sm_next_synth_fileid (put_open k s sm) = sm_next_synth_fileid sm"
  "sm_next_synth_fileid (put_lock k l sm) = sm_next_synth_fileid sm"
  "sm_next_changeid (put_open k s sm) = sm_next_changeid sm"
  "sm_next_changeid (put_lock k l sm) = sm_next_changeid sm"
  by (simp_all add: put_open_def put_lock_def)

lemma u32_succ: "unat n + 1 < 2 ^ 32 \<Longrightarrow> n < n + (1 :: u32)" "unat n + 1 < 2 ^ 32 \<Longrightarrow> 0 < n + (1 :: u32)"
  "unat n + 1 < 2 ^ 32 \<Longrightarrow> unat (n + (1 :: u32)) = unat n + 1"
  by (simp_all add: word_less_nat_alt unat_word_ariths)

text \<open>The state with the next state id taken still has all its keys below the counter.\<close>

lemma keys_ok_next:
  assumes "sm_inv sm" and "counters_ok sm"
  shows "keys_ok (sm_next_stateid sm + 1) (sm_inner sm)" and "0 < sm_next_stateid sm + 1"
proof -
  have less: "sm_next_stateid sm \<le> sm_next_stateid sm + 1" "0 < sm_next_stateid sm + 1"
    using u32_succ [of "sm_next_stateid sm"] assms(2) by (auto simp: counters_ok_def)
  show "keys_ok (sm_next_stateid sm + 1) (sm_inner sm)"
    unfolding keys_ok_iff [OF sm_inv_wf(1,6) [OF assms(1)]]
    using sm_inv_keysD [OF assms(1)] key_ok_less [OF _ less(1)] by blast
  show "0 < sm_next_stateid sm + 1" by (rule less)
qed

lemma sm_inv_next: "sm_inv sm \<Longrightarrow> counters_ok sm \<Longrightarrow> sm_inv (sm\<lparr>sm_next_stateid := sm_next_stateid sm + 1\<rparr>)"
  using keys_ok_next [of sm] by (simp add: sm_inv_def metadata_ok_def)

lemma sm_inv_new_open:
  assumes inv: "sm_inv sm" and c: "counters_ok sm" and s: "of_clientid s = clientid"
    and ok: "opens_ok (hm_insert (mk_other (sm_next_stateid sm) clientid) s (sm_opens sm))"
  shows "sm_inv (put_open (mk_other (sm_next_stateid sm) clientid) s
    (sm\<lparr>sm_next_stateid := sm_next_stateid sm + 1\<rparr>))" (is "sm_inv ?sm'")
proof -
  have wf: "tables_wf (sm_inner ?sm')" "hm_wf (si_delegations (sm_inner ?sm'))"
    using sm_inv_wf [OF inv] by (simp_all add: tables_wf_frame hm_simps)
  have "keys_ok (sm_next_stateid sm + 1) (sm_inner ?sm')"
    unfolding keys_ok_iff [OF wf]
    using keys_ok_next(1) [OF inv c] sm_inv_fresh [OF inv, of clientid] s sm_inv_parts(5) [OF inv]
      u32_succ(1) [of "sm_next_stateid sm"] c
    unfolding keys_ok_iff [OF sm_inv_wf(1,6) [OF inv]]
    by (simp add: hm_simps counters_ok_def)
  then show ?thesis
    using sm_inv_next [OF inv c] wf ok by (simp add: sm_inv_def metadata_ok_def)
qed

lemma sm_inv_new_lock:
  assumes inv: "sm_inv sm" and c: "counters_ok sm" and l: "so_clientid (lf_owner l) = clientid" "lock_state_ok l"
  shows "sm_inv (put_lock (mk_other (sm_next_stateid sm) clientid) l
    (sm\<lparr>sm_next_stateid := sm_next_stateid sm + 1\<rparr>))" (is "sm_inv ?sm'")
proof -
  have wf: "tables_wf (sm_inner ?sm')" "hm_wf (si_delegations (sm_inner ?sm'))"
    using sm_inv_wf [OF inv] by (simp_all add: tables_wf_frame hm_simps)
  have "keys_ok (sm_next_stateid sm + 1) (sm_inner ?sm')"
    unfolding keys_ok_iff [OF wf]
    using keys_ok_next(1) [OF inv c] sm_inv_fresh [OF inv, of clientid] l sm_inv_parts(5) [OF inv]
      u32_succ(1) [of "sm_next_stateid sm"] c
    unfolding keys_ok_iff [OF sm_inv_wf(1,6) [OF inv]]
    by (auto simp: hm_simps counters_ok_def)
  then show ?thesis
    using sm_inv_next [OF inv c] wf l by (simp add: sm_inv_def metadata_ok_def locks_ok_insert)
qed

lemma insert_delegation_sel [simp]:
  "si_clients (insert_delegation_locked inner other d) = si_clients inner"
  "si_sessions (insert_delegation_locked inner other d) = si_sessions inner"
  "si_open_files (insert_delegation_locked inner other d) = si_open_files inner"
  "si_lock_files (insert_delegation_locked inner other d) = si_lock_files inner"
  "si_metadata (insert_delegation_locked inner other d) = si_metadata inner"
  "si_delegations (insert_delegation_locked inner other d) = hm_insert other d (si_delegations inner)"
  by (simp_all add: insert_delegation_locked_def)

lemma sm_inv_enter_delegation:
  assumes inv: "sm_inv sm" and c: "counters_ok sm"
  shows "sm_inv (fst (enter_delegation sm now' object clientid sessionid))" (is "sm_inv ?sm'")
proof -
  have ix: "delegation_index_ok (sm_inner ?sm')"
    by (rule enter_delegation_index_ok [OF sm_inv_parts(3) [OF inv] sm_inv_fresh(3) [OF inv]])
  have wf: "tables_wf (sm_inner ?sm')" "hm_wf (si_delegations (sm_inner ?sm'))"
    using sm_inv_wf [OF inv] ix by (simp_all add: enter_delegation_def Let_def tables_wf_def delegation_index_ok_def)
  have "keys_ok (sm_next_stateid sm + 1) (sm_inner ?sm')"
    unfolding keys_ok_iff [OF wf]
    using keys_ok_next(1) [OF inv c] sm_inv_fresh [OF inv, of clientid] sm_inv_parts(5) [OF inv]
      u32_succ(1) [of "sm_next_stateid sm"] c
    unfolding keys_ok_iff [OF sm_inv_wf(1,6) [OF inv]]
    by (auto simp: hm_simps counters_ok_def enter_delegation_def Let_def new_delegation_def)
  then show ?thesis
    using sm_inv_next [OF inv c] wf ix
    by (simp add: sm_inv_def metadata_ok_def enter_delegation_def Let_def)
qed

end
