(* ===== verification/Session_Steps.thy ===== *)
theory Session_Steps
  imports Session_Invariant
begin

text \<open>
  Every critical section of the state manager keeps the invariant of \<open>Session_Invariant\<close>: one lemma
  per section, over the whole operation when it takes the lock once and over its \<open>_locked\<close> part
  when it takes the lock again after the reaper.
\<close>

section \<open>The reaper and dropping clients\<close>

lemma sm_inv_shrink:
  assumes inv: "sm_inv sm" and wf: "tables_wf inner'" and ix: "delegation_index_ok inner'"
    and cl: "keeps client_step (si_clients inner') (si_clients (sm_inner sm))"
    and se: "keeps session_step (si_sessions inner') (si_sessions (sm_inner sm))" and at: "attached inner'"
    and o4: "si_open_files inner' = hm_retain P (sm_opens sm)" and l4: "si_lock_files inner' = hm_retain Q (sm_locks sm)"
    and d4: "keeps (same_on dg_clientid) (si_delegations inner') (si_delegations (sm_inner sm))"
    and m4: "si_metadata inner' = si_metadata (sm_inner sm)"
  shows "sm_inv (sm\<lparr>sm_inner := inner'\<rparr>)"
proof -
  have "metadata_ok (sm\<lparr>sm_inner := inner'\<rparr>)"
    using sm_inv_parts(4) [OF inv] m4 by (simp add: metadata_ok_def)
  then show ?thesis
    using assms sm_inv_wf [OF inv] sm_inv_parts [OF inv]
    by (intro sm_inv_keeps [OF inv]) (simp_all add: opens_ok_retain locks_ok_retain)
qed

lemma reap_locked_inv:
  assumes inv: "sm_inv sm"
  shows "sm_inv (sm\<lparr>sm_inner := reap_expired_clients_locked config (sm_inner sm) now\<rparr>)"
proof -
  let ?r = "reap_expired_clients_locked config (sm_inner sm) now"
  show ?thesis
  proof (rule sm_inv_shrink [OF inv])
    show "tables_wf ?r" "delegation_index_ok ?r"
      using reap_tables_wf reap_index_ok sm_inv_wf(1) [OF inv] sm_inv_parts(3) [OF inv] by blast+
    show "keeps client_step (si_clients ?r) (si_clients (sm_inner sm))"
      by (auto simp: keeps_def reap_clients client_step_def split: if_splits)
    show "keeps session_step (si_sessions ?r) (si_sessions (sm_inner sm))"
      using sm_inv_wf(3) [OF inv] by (simp add: reap_sel)
    show "attached ?r"
      using sm_inv_attached [OF inv] sm_inv_wf(3) [OF inv]
      by (auto simp: attached_def reap_sel reap_clients hm_simps)
    show "keeps (same_on dg_clientid) (si_delegations ?r) (si_delegations (sm_inner sm))"
      by (auto simp: keeps_def reap_delegations [OF sm_inv_parts(3) [OF inv]] same_on_def
          split: option.splits if_splits)
  qed (simp_all add: reap_sel)
qed

lemma reap_inv: "sm_inv sm \<Longrightarrow> sm_inv (reap_expired_clients sm now)"
  by (simp add: reap_expired_clients_def reap_locked_inv)

lemma drop_client_inv:
  assumes inv: "sm_inv sm"
  shows "sm_inv (sm\<lparr>sm_inner := fst (drop_client_state (sm_inner sm) c)\<rparr>)"
proof (rule sm_inv_shrink [OF inv])
  let ?r = "fst (drop_client_state (sm_inner sm) c)"
  show "tables_wf ?r" "delegation_index_ok ?r"
    using sm_inv_wf(1) [OF inv] drop_client_state_index_ok [OF sm_inv_parts(3) [OF inv]]
    by (simp_all add: tables_wf_def hm_simps)
  show "attached ?r"
    using sm_inv_attached [OF inv] sm_inv_wf(3) [OF inv] by (auto simp: attached_def hm_simps)
  show "keeps (same_on dg_clientid) (si_delegations ?r) (si_delegations (sm_inner sm))"
    by (auto simp: keeps_def drop_client_state_delegations [OF sm_inv_parts(3) [OF inv]] same_on_def
        split: option.splits if_splits)
qed (use sm_inv_wf [OF inv] in simp_all)

lemma drop_clients_inv: "sm_inv sm \<Longrightarrow> sm_inv (sm\<lparr>sm_inner := drop_clients ids (sm_inner sm)\<rparr>)"
proof (induction ids arbitrary: sm)
  case Nil
  then show ?case by (simp add: drop_clients_def)
next
  case (Cons i ids)
  from Cons.IH [OF drop_client_inv [OF Cons.prems, of i]] show ?case
    by (simp add: drop_clients_def)
qed

section \<open>Registering clients\<close>

lemma hm_get_absent_session:
  assumes "sm_inv sm" and "hm_get (si_clients (sm_inner sm)) c = None"
  shows "hm_get (si_sessions (sm_inner sm)) k = Some s \<Longrightarrow> ss_clientid s \<noteq> c"
  using sm_inv_attached [OF assms(1)] assms(2) unfolding attached_def by blast

text \<open>The next client id is unused.\<close>

lemma next_client_unused: "sm_inv sm \<Longrightarrow> hm_get (si_clients (sm_inner sm)) (sm_next_clientid sm) = None"
  using sm_inv_clientD [of sm "sm_next_clientid sm"]
  by (cases "hm_get (si_clients (sm_inner sm)) (sm_next_clientid sm)") (auto simp: client_ok_def)

lemma register_client_inv:
  assumes inv: "sm_inv sm" and c: "unat (sm_next_clientid sm) + 1 < 2 ^ 64"
    and new: "cs_clientid client = sm_next_clientid sm"
      "\<And>old. cs_replaced_clientid client = Some old \<Longrightarrow> old < sm_next_clientid sm"
  shows "sm_inv (sm\<lparr>sm_inner := put_client (sm_next_clientid sm) client (sm_inner sm),
    sm_next_clientid := sm_next_clientid sm + 1\<rparr>)" (is "sm_inv ?sm'")
proof -
  have wf: "tables_wf (sm_inner ?sm')"
    using sm_inv_wf [OF inv] by (simp add: put_client_def tables_wf_frame hm_simps)
  then have wfc: "hm_wf (si_clients (sm_inner ?sm'))" "hm_wf (si_sessions (sm_inner ?sm'))"
    by (simp_all add: tables_wf_def)
  have less: "sm_next_clientid sm < sm_next_clientid sm + 1" "k < sm_next_clientid sm \<Longrightarrow> k < sm_next_clientid sm + 1" for k
    using u64_succ_less [OF c] by simp_all
  have "hm_all (client_ok (sm_next_clientid sm + 1)) (si_clients (sm_inner ?sm'))"
    unfolding hm_all_iff [OF wfc(1)]
    using sm_inv_clientD [OF inv] new less
    by (auto simp: put_client_def hm_simps client_ok_def split: option.split)
  moreover have "session_ok (si_clients (sm_inner ?sm')) k s" if "hm_get (si_sessions (sm_inner sm)) k = Some s" for k s
    using sm_inv_sessionD [OF inv that] hm_get_absent_session [OF inv next_client_unused [OF inv] that]
    by (simp add: session_ok_def put_client_def hm_simps)
  then have "hm_all (session_ok (si_clients (sm_inner ?sm'))) (si_sessions (sm_inner ?sm'))"
    unfolding hm_all_iff [OF wfc(2)] by (simp add: put_client_def)
  ultimately show ?thesis
    using wf inv by (simp add: sm_inv_def put_client_def metadata_ok_def keys_ok_def)
qed

lemma drop_clients_sel:
  "si_clients (drop_clients ids inner) = fold hm_remove ids (si_clients inner)"
  by (simp add: drop_clients_def fold_drop_sel)

lemma old_clientid_known:
  assumes "sm_inv sm" and "old_clientid (sm_inner sm) owner = Some old"
  shows "old < sm_next_clientid sm"
proof -
  have "\<exists>k c. hm_get (si_clients (sm_inner sm)) k = Some c \<and> cs_clientid c = old"
    using assms(2) hm_find_SomeD [OF _ sm_inv_wf(2) [OF assms(1)]]
    by (fastforce simp: old_clientid_def split: option.splits)
  then show ?thesis
    using sm_inv_clientD [OF assms(1)] by (auto simp: client_ok_def)
qed

lemma exchange_id_inv:
  assumes inv: "sm_inv sm" and c: "counters_ok sm"
  shows "sm_inv (fst (exchange_id sm now args))"
proof -
  let ?r = "reap_expired_clients_locked (sm_config sm) (sm_inner sm) now"
  let ?owner = "ea_clientowner args"
  have r: "sm_inv (sm\<lparr>sm_inner := ?r\<rparr>)" by (rule reap_locked_inv [OF inv])
  let ?d = "drop_clients (stale_unconfirmed ?r ?owner) ?r"
  have d: "sm_inv (sm\<lparr>sm_inner := ?d\<rparr>)"
    using drop_clients_inv [OF r] by simp
  have "sm_inv (sm\<lparr>sm_inner := put_client (sm_next_clientid sm) (new_client (sm_next_clientid sm) ?owner
      (old_clientid ?r ?owner) (lease_deadline (sm_config sm) now)) ?d, sm_next_clientid := sm_next_clientid sm + 1\<rparr>)"
    using register_client_inv [OF d, of "new_client (sm_next_clientid sm) ?owner
      (old_clientid ?r ?owner) (lease_deadline (sm_config sm) now)"] c old_clientid_known [OF r, of ?owner]
    by (simp add: new_client_def counters_ok_def)
  then show ?thesis
    using inv r by (simp add: exchange_id_def Let_def split: option.split)
qed


lemma put_client_inv:
  assumes "sm_inv (sm\<lparr>sm_inner := inner\<rparr>)" and "hm_get (si_clients inner) k = Some c" and "client_step c c'"
  shows "sm_inv (sm\<lparr>sm_inner := put_client k c' inner\<rparr>)"
  using sm_inv_client [of "sm\<lparr>sm_inner := inner\<rparr>" k c c'] assms by (simp add: put_client_def)

lemma set_client_id_inv:
  assumes inv: "sm_inv sm" and c: "counters_ok sm"
  shows "sm_inv (fst (set_client_id sm now args))"
proof -
  let ?r = "reap_expired_clients_locked (sm_config sm) (sm_inner sm) now"
  have r: "sm_inv (sm\<lparr>sm_inner := ?r\<rparr>)" by (rule reap_locked_inv [OF inv])
  have d: "sm_inv (sm\<lparr>sm_inner := drop_clients ids ?r\<rparr>)" for ids
    using drop_clients_inv [OF r] by simp
  have new: "sm_inv (sm\<lparr>sm_inner := put_client (sm_next_clientid sm)
      ((new_client (sm_next_clientid sm) owner None deadline)\<lparr>cs_v40_confirm := v\<rparr>) (drop_clients ids ?r),
      sm_next_clientid := sm_next_clientid sm + 1\<rparr>)" for owner deadline v ids
    using register_client_inv [OF d [of ids], of "(new_client (sm_next_clientid sm) owner None deadline)\<lparr>cs_v40_confirm := v\<rparr>"] c
    by (simp add: new_client_def counters_ok_def)
  have upd: "sm_inv (sm\<lparr>sm_inner := put_client k (client\<lparr>cs_v40_confirm := v, cs_lease_state := l\<rparr>) (drop_clients ids ?r)\<rparr>)"
    if "hm_get (si_clients (drop_clients ids ?r)) k = Some client" for k client v l ids
    using put_client_inv [OF d that] by (simp add: client_step_def)
  show ?thesis
    unfolding set_client_id_def Let_def using d new upd
    by (auto simp: case_prod_unfold split: option.split)
qed

lemma set_client_id_confirm_inv:
  assumes inv: "sm_inv sm"
  shows "sm_inv (fst (set_client_id_confirm sm now args))"
  unfolding set_client_id_confirm_def Let_def using reap_locked_inv [OF inv]
  by (auto simp: client_step_def intro!: put_client_inv split: option.split)

lemma renew_inv:
  assumes inv: "sm_inv sm"
  shows "sm_inv (fst (renew sm now clientid))"
  using put_client_inv [where sm = sm and inner = "sm_inner sm" and k = clientid] inv
  by (auto simp: renew_def Let_def client_step_def split: option.split client_lease_state.split)

lemma reclaim_complete_inv:
  assumes inv: "sm_inv sm"
  shows "sm_inv (fst (reclaim_complete sm now clientid one_fs))"
  unfolding reclaim_complete_def Let_def using reap_locked_inv [OF inv]
  by (auto simp: client_step_def intro!: put_client_inv split: option.split)

lemma validate_open_reclaim_inv: "sm_inv sm \<Longrightarrow> sm_inv (fst (validate_open_reclaim sm now clientid claim))"
  by (simp add: validate_open_reclaim_def Let_def reap_inv)

section \<open>Sessions\<close>

lemma put_session_inv:
  assumes "sm_inv (sm\<lparr>sm_inner := inner\<rparr>)" and "hm_get (si_sessions inner) k = Some s" and "session_step s s'"
  shows "sm_inv (sm\<lparr>sm_inner := put_session k s' inner\<rparr>)"
  using sm_inv_sessions [OF assms(1), of "hm_insert k s' (si_sessions inner)"] assms sm_inv_wf(3) [OF assms(1)]
  by (simp add: put_session_def keeps_insert hm_simps)

lemma sessionid_seq_mk [simp]: "sessionid_seq (be_u64 c @ be_u64 q) = q"
  by (simp add: sessionid_seq_def)

lemma unat_ucast_u64 [simp]: "unat (ucast (q :: u32) :: u64) = unat q"
  by transfer (simp add: take_bit_take_bit)

lemma mk_sessionid_eq_iff [simp]: "mk_sessionid c q = mk_sessionid c' q' \<longleftrightarrow> c = c' \<and> q = q'"
proof -
  have "(ucast q :: u64) = ucast q' \<longleftrightarrow> q = q'"
    by (metis unat_ucast_u64 word_unat_eq_iff)
  then show ?thesis by (simp add: mk_sessionid_def)
qed

text \<open>CREATE_SESSION advances the client's sequence number and names the session by it.\<close>

lemma create_session_core:
  assumes inv: "sm_inv (sm\<lparr>sm_inner := inner\<rparr>)"
    and got: "hm_get (si_clients inner) clientid = Some client"
    and room: "unat (cs_sequence_id client) + 1 < 2 ^ 32"
    and c': "cs_clientid client' = cs_clientid client" "cs_sequence_id client' = cs_sequence_id client + 1"
      "cs_replaced_clientid client' = None"
  shows "sm_inv (sm\<lparr>sm_inner := put_client clientid client' inner\<rparr>)"
    and "hm_get (si_sessions inner) (mk_sessionid clientid (cs_sequence_id client + 1)) = None"
proof -
  let ?sm = "sm\<lparr>sm_inner := inner\<rparr>" and ?sm' = "sm\<lparr>sm_inner := put_client clientid client' inner\<rparr>"
  have seq: "unat (cs_sequence_id client + 1) = unat (cs_sequence_id client) + 1"
    by (rule u32_succ(3) [OF room])
  have wf: "tables_wf (sm_inner ?sm')"
    using sm_inv_wf [OF inv] by (simp add: put_client_def tables_wf_frame hm_simps)
  then have wfc: "hm_wf (si_clients (sm_inner ?sm'))" "hm_wf (si_sessions (sm_inner ?sm'))"
    by (simp_all add: tables_wf_def)
  have cl: "hm_all (client_ok (sm_next_clientid sm)) (si_clients (sm_inner ?sm'))"
    unfolding hm_all_iff [OF wfc(1)]
    using sm_inv_clientD [OF inv] got c' by (auto simp: put_client_def hm_simps client_ok_def)
  have se: "session_ok (si_clients (sm_inner ?sm')) k s" if "hm_get (si_sessions inner) k = Some s" for k s
    using sm_inv_sessionD [OF inv, of k s] that got c' seq
    by (auto simp: session_ok_def put_client_def hm_simps split: if_splits option.splits)
  show "sm_inv ?sm'"
    using wf cl se inv unfolding sm_inv_def hm_all_iff [OF wfc(2)]
    by (simp add: put_client_def metadata_ok_def keys_ok_def)
  show "hm_get (si_sessions inner) (mk_sessionid clientid (cs_sequence_id client + 1)) = None"
  proof (cases "hm_get (si_sessions inner) (mk_sessionid clientid (cs_sequence_id client + 1))")
    case (Some s)
    have "session_ok (si_clients inner) (mk_sessionid clientid (cs_sequence_id client + 1)) s"
      using sm_inv_sessionD [OF inv] Some by simp
    then have "ss_clientid s = clientid" "unat (cs_sequence_id client + 1) \<le> unat (cs_sequence_id client)"
      using got by (auto simp: session_ok_def mk_sessionid_def split: option.splits)
    then show ?thesis using seq by simp
  qed
qed

lemma new_session_inv:
  assumes inv: "sm_inv (sm\<lparr>sm_inner := inner\<rparr>)"
    and got: "hm_get (si_clients inner) (ss_clientid s) = Some client"
    and slots: "ss_slots s \<noteq> []" "length (ss_slots s) \<le> 64"
  shows "sm_inv (sm\<lparr>sm_inner := put_session (mk_sessionid (ss_clientid s) (cs_sequence_id client)) s inner\<rparr>)"
proof -
  let ?k = "mk_sessionid (ss_clientid s) (cs_sequence_id client)"
  have wf: "tables_wf (put_session ?k s inner)"
    using sm_inv_wf [OF inv] by (simp add: put_session_def tables_wf_frame hm_simps)
  have "session_ok (si_clients inner) ?k s"
    using got slots by (simp add: session_ok_def mk_sessionid_def)
  then have "hm_all (session_ok (si_clients inner)) (si_sessions (put_session ?k s inner))"
    using sm_inv_sessionD [OF inv] sm_inv_wf(3) [OF inv] by (auto simp: hm_all_iff hm_simps)
  then show ?thesis
    using wf inv by (simp add: sm_inv_def metadata_ok_def keys_ok_def delegation_index_ok_def)
qed

lemma new_slots_ok [simp]: "new_slots req \<noteq> []" "length (new_slots req) \<le> 64"
proof -
  have "unat (min (ca_maxrequests req) MAX_FORE_CHAN_SLOTS) \<le> 64"
    by (simp add: MAX_FORE_CHAN_SLOTS_def min_def word_le_nat_alt)
  then show "new_slots req \<noteq> []" "length (new_slots req) \<le> 64"
    by (simp_all add: new_slots_def)
qed


lemma reap_sequence_room:
  assumes "sm_inv sm" and "counters_ok sm"
    and "hm_get (si_clients (reap_expired_clients_locked config (sm_inner sm) now)) k = Some client"
  shows "unat (cs_sequence_id client) + 1 < 2 ^ 32"
proof -
  obtain c0 where "hm_get (si_clients (sm_inner sm)) k = Some c0" "cs_sequence_id client = cs_sequence_id c0"
    using assms(3) by (auto simp: reap_clients split: if_splits)
  then show ?thesis
    using assms(2) by (auto simp: counters_ok_def hm_all_iff [OF sm_inv_wf(2) [OF assms(1)]])
qed

text \<open>The state in which CREATE_SESSION enters the session.\<close>

definition confirmed_client :: "client_state \<Rightarrow> instant \<Rightarrow> client_state" where
  "confirmed_client client deadline = client\<lparr>cs_sequence_id := cs_sequence_id client + 1, cs_confirmed := True,
     cs_status_flags := 0, cs_lease_state := Lease_Active deadline, cs_replaced_clientid := None\<rparr>"

definition replace_client :: "clientid4 option \<Rightarrow> state_inner \<Rightarrow> state_inner" where
  "replace_client replaced inner = (case replaced of None \<Rightarrow> inner | Some old \<Rightarrow> fst (drop_client_state inner old))"

lemma create_session_cases:
  fixes sm now args conn
  defines "r \<equiv> reap_expired_clients_locked (sm_config sm) (sm_inner sm) now"
  obtains
    (refused) e where "create_session sm now args conn = (sm\<lparr>sm_inner := r\<rparr>, Inl e)"
  | (created) client s res inner1 where
      "hm_get (si_clients r) (cs_args_clientid args) = Some client"
      "\<not> lease_is_revoked (cs_lease_state client)" "cs_args_sequence args = cs_sequence_id client"
      "inner1 = replace_client (cs_replaced_clientid client) (put_client (cs_args_clientid args)
         (confirmed_client client (lease_deadline (sm_config sm) now)) r)"
      "ss_clientid s = cs_args_clientid args" "ss_slots s = new_slots (cs_args_fore_chan_attrs args)"
      "ss_fore_connections s = [conn]"
      "cr_sessionid res = mk_sessionid (cs_args_clientid args) (cs_sequence_id client + 1)"
      "create_session sm now args conn =
         (sm\<lparr>sm_inner := put_session (mk_sessionid (cs_args_clientid args) (cs_sequence_id client + 1)) s inner1\<rparr>,
          Inr res)"
proof (cases "hm_get (si_clients r) (cs_args_clientid args)")
  case None
  then show ?thesis by (intro refused) (simp add: create_session_def r_def)
next
  case (Some client)
  show ?thesis
  proof (cases "lease_is_revoked (cs_lease_state client) \<or> cs_args_sequence args \<noteq> cs_sequence_id client")
    case True
    have "\<exists>e. create_session sm now args conn = (sm\<lparr>sm_inner := r\<rparr>, Inl e)"
      using Some True by (cases "lease_is_revoked (cs_lease_state client)")
        (simp_all add: create_session_def Let_def r_def [symmetric])
    then show ?thesis using refused by blast
  next
    case False
    then show ?thesis
      using Some
      by (intro created [OF Some _ _ refl]) (simp_all add: create_session_def Let_def r_def [symmetric]
          replace_client_def confirmed_client_def)
  qed
qed

lemma replace_client_inv:
  assumes "sm_inv (sm\<lparr>sm_inner := inner\<rparr>)"
  shows "sm_inv (sm\<lparr>sm_inner := replace_client replaced inner\<rparr>)"
  using drop_client_inv [OF assms] assms by (simp add: replace_client_def split: option.split)

lemma replace_client_get:
  "hm_get (si_clients (replace_client replaced inner)) k =
    (if replaced = Some k then None else hm_get (si_clients inner) k)"
  by (auto simp: replace_client_def hm_simps split: option.split)

lemma replace_client_sessions:
  "hm_get (si_sessions inner) k = None \<Longrightarrow> hm_wf (si_sessions inner)
    \<Longrightarrow> hm_get (si_sessions (replace_client replaced inner)) k = None"
  by (auto simp: replace_client_def hm.get_ret split: option.split)

lemma create_session_inv:
  assumes inv: "sm_inv sm" and c: "counters_ok sm"
  shows "sm_inv (fst (create_session sm now args conn))"
proof (cases rule: create_session_cases [of sm now args conn])
  case (refused e)
  then show ?thesis using reap_locked_inv [OF inv] by simp
next
  case (created client s res inner1)
  let ?r = "reap_expired_clients_locked (sm_config sm) (sm_inner sm) now"
  have r: "sm_inv (sm\<lparr>sm_inner := ?r\<rparr>)" by (rule reap_locked_inv [OF inv])
  let ?c = "confirmed_client client (lease_deadline (sm_config sm) now)"
  let ?p = "put_client (cs_args_clientid args) ?c ?r"
  have "sm_inv (sm\<lparr>sm_inner := ?p\<rparr>)"
    by (rule create_session_core(1) [OF r created(1) reap_sequence_room [OF inv c created(1)]])
      (simp_all add: confirmed_client_def)
  then have i1: "sm_inv (sm\<lparr>sm_inner := inner1\<rparr>)"
    unfolding created(4) by (rule replace_client_inv)
  have "client_ok (sm_next_clientid sm) (cs_args_clientid args) client"
    using sm_inv_clientD [OF r, of "cs_args_clientid args"] created(1) by simp
  then have "hm_get (si_clients inner1) (ss_clientid s) = Some ?c"
    unfolding created(4) by (auto simp: replace_client_get put_client_def hm_simps client_ok_def created(5))
  then show ?thesis
    using new_session_inv [OF i1, of s ?c] created
    by (simp add: confirmed_client_def)
qed

lemma destroy_session_inv:
  assumes inv: "sm_inv sm"
  shows "sm_inv (fst (destroy_session sm now sid conn))"
proof -
  let ?r = "reap_expired_clients_locked (sm_config sm) (sm_inner sm) now"
  have r: "sm_inv (sm\<lparr>sm_inner := ?r\<rparr>)" by (rule reap_locked_inv [OF inv])
  have "sm_inv (sm\<lparr>sm_inner := ?r\<lparr>si_sessions := hm_remove sid (si_sessions ?r)\<rparr>\<rparr>)"
    using sm_inv_sessions [OF r, of "hm_remove sid (si_sessions ?r)"] sm_inv_wf(3) [OF r]
    by (simp add: hm_simps)
  then show ?thesis
    using r by (simp add: destroy_session_def Let_def split: option.split)
qed

lemma destroy_clientid_inv:
  assumes inv: "sm_inv sm"
  shows "sm_inv (fst (destroy_clientid sm now clientid))"
  using reap_locked_inv [OF inv] drop_client_inv [OF reap_locked_inv [OF inv]]
  by (simp add: destroy_clientid_def Let_def case_prod_unfold)

lemma bind_direction_step: "session_step s (fst (bind_connection_direction s dir conn))"
  by (simp add: bind_connection_direction_def session_step_def add_fore_def add_back_def
      ensure_backchannel_configured_def Let_def split: sum.split)

lemma bind_conn_inv:
  assumes inv: "sm_inv sm"
  shows "sm_inv (fst (bind_conn_to_session sm now args conn))"
  using reap_locked_inv [OF inv] put_session_inv [OF reap_locked_inv [OF inv] _ bind_direction_step]
  by (auto simp: bind_conn_to_session_def Let_def case_prod_unfold split: option.split)

lemma next_callback_target_inv:
  assumes inv: "sm_inv sm"
  shows "sm_inv (fst (next_callback_target_on sm clientid conn))"
proof -
  have "sm_inv (sm\<lparr>sm_inner := put_session sid (s\<lparr>ss_backchannel := b\<rparr>) (sm_inner sm)\<rparr>)"
    if "hm_find P (si_sessions (sm_inner sm)) = Some (sid, s)" for P sid s b
    using put_session_inv [where sm = sm and inner = "sm_inner sm" and k = sid and s = s
        and s' = "s\<lparr>ss_backchannel := b\<rparr>"] inv hm_find_SomeD [OF that sm_inv_wf(3) [OF inv]]
    by (simp add: session_step_def)
  then show ?thesis
    using inv by (auto simp: next_callback_target_on_def Let_def split: option.split)
qed

lemma remove_connection_inv:
  assumes inv: "sm_inv sm"
  shows "sm_inv (remove_connection sm conn)"
  unfolding remove_connection_def Let_def
  by (rule sm_inv_sessions [OF inv])
    (use sm_inv_wf(3) [OF inv] in \<open>simp_all add: hm_simps keeps_map_values session_step_def\<close>)

section \<open>SEQUENCE\<close>

lemma renew_client_inv:
  assumes "sm_inv (sm\<lparr>sm_inner := inner\<rparr>)"
  shows "sm_inv (sm\<lparr>sm_inner := renew_client config now c inner\<rparr>)"
  using assms put_client_inv [OF assms, of c]
  by (auto simp: renew_client_def put_client_def client_step_def split: option.split)

lemma prepare_sequence_inv:
  assumes inv: "sm_inv sm"
  shows "sm_inv (fst (prepare_sequence sm now args fp conn))"
proof -
  let ?r = "reap_expired_clients_locked (sm_config sm) (sm_inner sm) now"
  have r: "sm_inv (sm\<lparr>sm_inner := ?r\<rparr>)" by (rule reap_locked_inv [OF inv])
  show ?thesis
  proof (cases rule: prepare_sequence_locked_cases [of "sm_config sm" "sm_inner sm" now args fp conn])
    case (refused status)
    then show ?thesis using r by (simp add: prepare_sequence_def)
  next
    case (revoked session res)
    then show ?thesis
      using put_session_inv [OF r revoked(1)] by (simp add: prepare_sequence_def session_step_def)
  next
    case (classified session client d session' slot slot' res replay inner1)
    then have "sm_inv (sm\<lparr>sm_inner := inner1\<rparr>)"
      using put_session_inv [OF r classified(1)] by (simp add: session_step_def)
    then show ?thesis
      using classified(9) renew_client_inv by (simp add: prepare_sequence_def)
  qed
qed

lemma finish_sequence_inv:
  assumes inv: "sm_inv sm"
  shows "sm_inv (fst (finish_sequence sm token response))"
  using inv put_session_inv [where sm = sm and inner = "sm_inner sm" and k = "tk_sessionid token"]
  by (auto simp: finish_sequence_def finish_sequence_locked_def Let_def case_prod_unfold session_step_def
      split: option.split)


section \<open>Opens\<close>

lemma put_open_inv:
  assumes inv: "sm_inv sm" and "hm_get (sm_opens sm) k = Some s" and "of_clientid s' = of_clientid s"
    and "opens_ok (hm_insert k s' (sm_opens sm))"
  shows "sm_inv (put_open k s' sm)"
  unfolding put_open_def
  by (rule sm_inv_opens [OF inv assms(4)]) (rule keeps_insert [OF _ assms(2)], simp_all add: same_on_def assms)

text \<open>An outcome that only replaces the open keeps the invariant when the table stays consistent.\<close>

lemma open_outcome_inv:
  assumes inv: "sm_inv sm" and ok: "opens_ok (sm_opens (fst r))"
    and shape: "fst r = sm \<or> (\<exists>k s s'. fst r = put_open k s' sm \<and> hm_get (sm_opens sm) k = Some s
       \<and> of_clientid s' = of_clientid s)"
  shows "sm_inv (fst r)"
  using shape
proof
  assume "\<exists>k s s'. fst r = put_open k s' sm \<and> hm_get (sm_opens sm) k = Some s \<and> of_clientid s' = of_clientid s"
  then obtain k s s' where p: "fst r = put_open k s' sm" "hm_get (sm_opens sm) k = Some s"
    "of_clientid s' = of_clientid s" by blast
  show ?thesis
    unfolding p(1) by (rule put_open_inv [OF inv p(2,3)]) (use ok p(1) in simp)
qed (simp add: inv)

lemma create_open_inv:
  assumes inv: "sm_inv sm" and c: "counters_ok sm"
    and mode: "access \<noteq> 0" "access AND NOT OPEN4_SHARE_ACCESS_BOTH = 0" "deny AND NOT OPEN4_SHARE_DENY_BOTH = 0"
  shows "sm_inv (fst (create_open_state_locked sm object owner access deny))"
proof -
  have ok: "opens_ok (sm_opens (fst (create_open_state_locked sm object owner access deny)))"
    by (rule create_open_state_locked_opens_ok [OF sm_inv_parts(1) [OF inv] mode])
  show ?thesis
    using sm_inv_wf(4) [OF inv]
  proof (cases rule: create_open_state_locked_cases
      [where object = object and owner = owner and access = access and deny = deny])
    case (upgrade other s)
    show ?thesis
      using ok unfolding upgrade(5) fst_conv by (intro put_open_inv [OF inv upgrade(2)]) simp_all
  next
    case fresh
    show ?thesis
      using ok unfolding fresh(4) fst_conv by (intro sm_inv_new_open [OF inv c]) simp_all
  qed (simp_all add: inv)
qed

lemma confirm_open_inv:
  assumes inv: "sm_inv sm"
  shows "sm_inv (fst (confirm_open_state_locked sm stateid))"
  by (rule open_outcome_inv [OF inv confirm_open_state_locked_opens_ok [OF sm_inv_parts(1) [OF inv]]])
    (auto simp: confirm_open_state_locked_def Let_def split: option.split sum.split intro!: exI)

lemma close_inv:
  assumes inv: "sm_inv sm"
  shows "sm_inv (fst (close_state_locked sm stateid))"
  by (rule open_outcome_inv [OF inv close_state_locked_opens_ok [OF sm_inv_parts(1) [OF inv]]])
    (auto simp: close_state_locked_def Let_def split: option.split sum.split intro!: exI)

lemma downgrade_inv:
  assumes inv: "sm_inv sm" and "access_mode \<noteq> 0"
  shows "sm_inv (fst (open_downgrade_locked sm stateid access_mode share_deny))"
  by (rule open_outcome_inv [OF inv open_downgrade_locked_opens_ok [OF sm_inv_parts(1) [OF inv] assms(2)]])
    (auto simp: open_downgrade_locked_def Let_def split: option.split sum.split intro!: exI)

lemma remove_delegation_inv:
  assumes inv: "sm_inv sm"
  shows "sm_inv (sm\<lparr>sm_inner := fst (remove_delegation_locked (sm_inner sm) other)\<rparr>)"
  by (rule sm_inv_delegations [OF inv remove_delegation_locked_index_ok [OF sm_inv_parts(3) [OF inv]]])
    (simp_all add: keeps_def si_delegations_remove same_on_def)

lemma free_stateid_inv:
  assumes inv: "sm_inv sm"
  shows "sm_inv (fst (free_stateid_locked sm stateid))"
proof -
  have "sm_inv (sm\<lparr>sm_inner := (sm_inner sm)\<lparr>si_open_files := hm_remove k (sm_opens sm)\<rparr>\<rparr>)"
    "sm_inv (sm\<lparr>sm_inner := (sm_inner sm)\<lparr>si_lock_files := hm_remove k (sm_locks sm)\<rparr>\<rparr>)" for k
    using sm_inv_parts [OF inv]
    by (simp_all add: sm_inv_opens [OF inv] sm_inv_locks [OF inv] opens_ok_remove locks_ok_remove)
  then show ?thesis
    using inv remove_delegation_inv [OF inv]
    by (simp add: free_stateid_locked_def Let_def split: option.split sum.split)
qed

section \<open>Locks\<close>

lemma put_lock_inv:
  assumes inv: "sm_inv sm" and got: "hm_get (sm_locks sm) k = Some l" and "lf_owner l' = lf_owner l"
    and ok: "locks_ok (hm_insert k l' (sm_locks sm))"
  shows "sm_inv (put_lock k l' sm)"
  unfolding put_lock_def
  by (rule sm_inv_locks [OF inv ok]) (rule keeps_insert [OF _ got], simp_all add: same_on_def assms)

lemma create_lock_inv:
  assumes inv: "sm_inv sm" and c: "counters_ok sm" and v: "validate_lock_bounds offset len = Inr ()"
  shows "sm_inv (fst (create_lock_state_locked sm sid owner object t offset len))"
  using inv v
  by (auto simp: create_lock_state_locked_def Let_def lock_state_ok_def range_wf_def
      intro!: sm_inv_new_lock [OF inv c] split: option.split)

lemma update_lock_inv:
  assumes inv: "sm_inv sm" and v: "validate_lock_bounds offset len = Inr ()"
    and run: "update_lock_state_locked sm sid t offset len = Some (sm', res)"
  shows "sm_inv sm'"
proof -
  obtain sm1 res1 where "update_lock_state_locked sm sid t offset len = Some (sm1, res1)" "locks_ok (sm_locks sm1)"
    by (rule update_lock_state_locked_total [OF sm_inv_parts(2) [OF inv] v])
  then have ok: "locks_ok (sm_locks sm')" using run by simp
  then show ?thesis
    using run inv by (auto simp: update_lock_state_locked_def Let_def intro!: put_lock_inv
        split: option.splits sum.splits)
qed

lemma unlock_inv:
  assumes inv: "sm_inv sm" and v: "validate_lock_bounds offset len = Inr ()"
  shows "sm_inv (fst (unlock_state_locked sm sid offset len))"
  using unlock_state_locked_locks_ok [OF sm_inv_parts(2) [OF inv] v, of sid] inv
  by (auto simp: unlock_state_locked_def Let_def intro!: put_lock_inv split: option.splits sum.splits if_splits)

section \<open>Delegations\<close>

lemma create_delegation_inv:
  assumes inv: "sm_inv sm" and c: "counters_ok sm"
  shows "sm_inv (fst (create_directory_delegation_locked sm now' object clientid sessionid))"
  using inv sm_inv_enter_delegation [OF inv c]
  by (auto simp: create_directory_delegation_locked_def Let_def case_prod_unfold split: option.split)

lemma grant_delegation_inv:
  assumes inv: "sm_inv sm" and c: "counters_ok sm"
  shows "sm_inv (fst (grant_directory_delegation_locked sm now' object clientid sessionid m n))"
  using inv sm_inv_enter_delegation [OF inv c]
  by (simp add: grant_directory_delegation_locked_def Let_def case_prod_unfold)

lemma put_delegation_sel [simp]:
  "si_clients (put_delegation k d inner) = si_clients inner"
  "si_sessions (put_delegation k d inner) = si_sessions inner"
  "si_open_files (put_delegation k d inner) = si_open_files inner"
  "si_lock_files (put_delegation k d inner) = si_lock_files inner"
  "si_metadata (put_delegation k d inner) = si_metadata inner"
  "si_delegations (put_delegation k d inner) = hm_insert k d (si_delegations inner)"
  by (simp_all add: put_delegation_def)

lemma put_delegation_inv:
  assumes inv: "sm_inv sm" and got: "hm_get (si_delegations (sm_inner sm)) k = Some d"
    and same: "dg_object d' = dg_object d" "dg_clientid d' = dg_clientid d"
  shows "sm_inv (sm\<lparr>sm_inner := put_delegation k d' (sm_inner sm)\<rparr>)"
  by (rule sm_inv_delegations [OF inv put_delegation_index_ok [OF sm_inv_parts(3) [OF inv] got same]])
    (simp_all add: same_on_def keeps_insert [OF _ got] same)

lemma return_delegation_inv:
  assumes inv: "sm_inv sm"
  shows "sm_inv (fst (return_delegation_state_locked sm stateid clientid))"
proof -
  have "sm_inv (sm\<lparr>sm_inner := fst (remove_delegation_locked (put_delegation k (d\<lparr>dg_status := st\<rparr>) (sm_inner sm)) k)\<rparr>)"
    if "hm_get (si_delegations (sm_inner sm)) k = Some d" for k d st
    using remove_delegation_inv [OF put_delegation_inv [OF inv that, of "d\<lparr>dg_status := st\<rparr>"], of k] by simp
  then show ?thesis
    using inv by (auto simp: return_delegation_state_locked_def Let_def split: option.split sum.split)
qed

lemma revoke_delegation_inv:
  assumes inv: "sm_inv sm"
  shows "sm_inv (fst (revoke_delegation_state_locked sm stateid))"
  using inv put_delegation_inv [OF inv]
  by (auto simp: revoke_delegation_state_locked_def split: option.split sum.split)

lemma revoke_recallable_inv:
  assumes inv: "sm_inv sm"
  shows "sm_inv (fst (revoke_recallable_delegation_locked sm stateid))"
proof -
  have "sm_inv (fst (revoke_recallable_delegation_locked sm stateid))"
    if "hm_get (si_delegations (sm_inner sm)) (sid_other stateid) = Some d"
      "validate_stateid_seq (dg_stateid_seq d) (sid_seqid stateid) = Inr ()" for d
  proof -
    let ?i = "put_delegation (sid_other stateid) (d\<lparr>dg_status := Deleg_Revoked\<rparr>) (sm_inner sm)"
    have i: "sm_inv (sm\<lparr>sm_inner := ?i\<rparr>)"
      using put_delegation_inv [OF inv that(1), of "d\<lparr>dg_status := Deleg_Revoked\<rparr>"] by simp
    then show ?thesis
      using that put_client_inv [OF i, of "dg_clientid d"]
      by (auto simp: revoke_recallable_delegation_locked_def Let_def put_client_def client_step_def
          split: option.split)
  qed
  then show ?thesis
    using inv by (auto simp: revoke_recallable_delegation_locked_def split: option.split sum.split)
qed

lemma purge_delegations_inv:
  assumes inv: "sm_inv sm"
  shows "sm_inv (sm\<lparr>sm_inner := remove_client_delegations_locked (sm_inner sm) clientid\<rparr>)"
  by (rule sm_inv_delegations [OF inv remove_client_delegations_index_ok [OF sm_inv_parts(3) [OF inv]]])
    (auto simp: keeps_def remove_client_delegations_get [OF sm_inv_parts(3) [OF inv]] same_on_def
      split: option.splits if_splits)

lemma recall_inv:
  assumes inv: "sm_inv sm"
  shows "sm_inv (sm\<lparr>sm_inner := fst (recall_loop now' excluded others (sm_inner sm))\<rparr>)"
  by (rule sm_inv_delegations [OF inv recall_loop_index_ok [OF sm_inv_parts(3) [OF inv]]])
    (auto simp: keeps_def recall_loop_get recall_loop_frame same_on_def split: option.splits if_splits)

section \<open>Metadata and retirement\<close>

text \<open>The metadata operations touch the metadata table and its two counters only.\<close>

definition meta_frame :: "state_manager \<Rightarrow> state_manager \<Rightarrow> bool" where
  "meta_frame sm sm' \<longleftrightarrow> si_clients (sm_inner sm') = si_clients (sm_inner sm)
     \<and> si_sessions (sm_inner sm') = si_sessions (sm_inner sm)
     \<and> sm_opens sm' = sm_opens sm \<and> sm_locks sm' = sm_locks sm
     \<and> si_delegations (sm_inner sm') = si_delegations (sm_inner sm)
     \<and> si_dir_delegations (sm_inner sm') = si_dir_delegations (sm_inner sm)
     \<and> si_client_delegations (sm_inner sm') = si_client_delegations (sm_inner sm)
     \<and> sm_next_clientid sm' = sm_next_clientid sm \<and> sm_next_stateid sm' = sm_next_stateid sm
     \<and> sm_retired_objects sm' = sm_retired_objects sm"

lemma meta_frame_inv:
  assumes inv: "sm_inv sm" and "metadata_ok sm'" and "meta_frame sm sm'"
  shows "sm_inv sm'"
  using assms(3) by (intro sm_inv_metadata [OF inv assms(2)]) (simp_all add: meta_frame_def)

lemma meta_frame_refl [simp]: "meta_frame sm sm"
  by (simp add: meta_frame_def)

lemma meta_frame_put [simp]: "meta_frame a (put_meta b object meta) = meta_frame a b"
  by (simp add: meta_frame_def put_meta_def)

lemma meta_frame_change [simp]: "meta_frame a (fst (alloc_changeid b)) = meta_frame a b"
  by (simp add: meta_frame_def alloc_changeid_def)

lemma meta_frame_fileid [simp]: "meta_frame a (fst (alloc_fileid b object)) = meta_frame a b"
  by (simp add: meta_frame_def alloc_fileid_def split: server_object.split)

lemma meta_frame_ensure [simp]: "meta_frame a (fst (ensure_meta_locked sm now object ft)) = meta_frame a sm"
  by (simp add: ensure_meta_locked_def Let_def case_prod_unfold split: option.split)

lemma metadata_ops_frame:
  "meta_frame sm (fst (ensure_meta sm now object ft))"
  "meta_frame sm (touch_data sm now now' object ft)"
  "meta_frame sm (touch_metadata sm now now' object ft)"
  "meta_frame sm (set_named_attr_count sm now object ft count)"
  "meta_frame sm (apply_setattr sm now now' object ft a)"
  by (simp_all add: ensure_meta_def touch_data_def touch_metadata_def set_named_attr_count_def apply_setattr_def
      Let_def case_prod_unfold)

lemma metadata_ops_inv:
  assumes inv: "sm_inv sm" and c: "counters_ok sm"
  shows "sm_inv (fst (ensure_meta sm now object ft))"
    and "sm_inv (touch_data sm now now' object ft)"
    and "sm_inv (touch_metadata sm now now' object ft)"
    and "sm_inv (set_named_attr_count sm now object ft count)"
    and "sm_inv (apply_setattr sm now now' object ft a)"
proof -
  have m: "metadata_ok sm" "meta_counters_ok sm"
    using sm_inv_parts(4) [OF inv] c by (simp_all add: counters_ok_def)
  have "metadata_ok (fst (ensure_meta sm now object ft))"
    using ensure_meta_spec(1) [OF m prod.collapse [symmetric]] by (simp add: ensure_meta_def)
  then show "sm_inv (fst (ensure_meta sm now object ft))"
    and "sm_inv (touch_data sm now now' object ft)"
    and "sm_inv (touch_metadata sm now now' object ft)"
    and "sm_inv (set_named_attr_count sm now object ft count)"
    and "sm_inv (apply_setattr sm now now' object ft a)"
    using touch_spec [OF m] apply_setattr_spec(1) [OF m] set_named_attr_count_spec(1) [OF m]
    by (auto intro: meta_frame_inv [OF inv] metadata_ops_frame)
qed

lemma mark_retired_inv: "sm_inv sm \<Longrightarrow> sm_inv (mark_retired sm ids)"
  by (simp add: sm_inv_def mark_retired_def metadata_ok_def)

lemma sweep_inner_inv:
  assumes inv: "sm_inv sm"
  shows "sm_inv (sm\<lparr>sm_inner := fst (sweep_inner (sm_inner sm) ids)\<rparr>)"
proof -
  let ?i = "fst (sweep_inner (sm_inner sm) ids)"
  note get = sweep_inner_get [OF sm_inv_wf(1) [OF inv] sm_inv_parts(3) [OF inv], of ids]
  have wf: "tables_wf ?i" by (rule sweep_inner_tables_wf [OF sm_inv_wf(1) [OF inv]])
  have "metadata_ok (sm\<lparr>sm_inner := ?i\<rparr>)"
    using sm_inv_parts(4) [OF inv] tables_wfD(5) [OF wf]
    unfolding metadata_ok_iff meta_of_def by (auto simp: get split: option.splits if_splits)
  moreover have "opens_ok (si_open_files ?i)"
    by (rule opens_ok_submap [OF sm_inv_parts(1) [OF inv] tables_wfD(3) [OF wf]])
      (auto simp: get split: option.splits if_splits)
  moreover have "locks_ok (si_lock_files ?i)"
    using sm_inv_parts(2) [OF inv] tables_wfD(4) [OF wf]
    by (auto simp: locks_ok_iff get split: option.splits if_splits)
  moreover have "attached ?i"
    using sm_inv_attached [OF inv] by (simp add: attached_def sweep_inner_sel)
  ultimately show ?thesis
    using wf sweep_inner_index_ok [OF sm_inv_parts(3) [OF inv], of ids]
    by (intro sm_inv_keeps [OF inv])
      (auto simp: sweep_inner_sel(1,2) keeps_def get same_on_def split: option.splits if_splits)
qed

end
