(* ===== verification/State_Machine.thy ===== *)
theory State_Machine
  imports Session_Steps
begin

text \<open>
  The state manager as a state machine. Every operation of \<^verbatim>\<open>StateManager\<close> is a short sequence of
  critical sections on the shared state, most of them the reaper followed by the operation proper;
  requests of different connections interleave between sections. A \<open>sm_section\<close> names a section with its
  arguments and clock readings, \<open>run_section\<close> runs it, and \<open>None\<close> is a panic. Whatever sections run in
  whatever order, the invariant holds as long as no counter wraps.
\<close>

section \<open>Critical sections\<close>

datatype sm_section =
    Sec_Reap instant
  | Sec_ExchangeId instant exchange_id_args4
  | Sec_CreateSession instant create_session_args4 u64
  | Sec_DestroySession instant sessionid4 u64
  | Sec_DestroyClientid instant clientid4
  | Sec_BindConn instant bind_conn_to_session_args4 u64
  | Sec_RemoveConnection u64
  | Sec_CallbackTarget clientid4 u64
  | Sec_ReclaimComplete instant clientid4 bool
  | Sec_SetClientId instant set_client_id_args4
  | Sec_SetClientIdConfirm instant set_client_id_confirm_args4
  | Sec_Renew instant clientid4
  | Sec_Sequence instant sequence_args4 bytes u64
  | Sec_FinishSequence sequence_cache_token bytes
  | Sec_Open server_object state_owner4 u32 u32
  | Sec_OpenConfirm stateid4
  | Sec_Close stateid4
  | Sec_FreeStateid stateid4
  | Sec_Downgrade stateid4 u32 u32
  | Sec_CreateLock stateid4 state_owner4 server_object nfs_lock_type4 u64 u64
  | Sec_UpdateLock stateid4 nfs_lock_type4 u64 u64
  | Sec_Unlock stateid4 u64 u64
  | Sec_CreateDelegation instant server_object clientid4 "sessionid4 option"
  | Sec_GrantDelegation instant server_object clientid4 "sessionid4 option" nat nat
  | Sec_ReturnDelegation stateid4 "clientid4 option"
  | Sec_RevokeDelegation stateid4
  | Sec_RevokeRecallable stateid4
  | Sec_PurgeDelegations clientid4
  | Sec_Recall instant server_object "clientid4 option"
  | Sec_EnsureMeta timestamp server_object server_file_type
  | Sec_TouchData timestamp timestamp server_object server_file_type
  | Sec_TouchMetadata timestamp timestamp server_object server_file_type
  | Sec_SetNamedAttrCount timestamp server_object server_file_type u64
  | Sec_ApplySetattr timestamp timestamp server_object server_file_type set_attrs
  | Sec_MarkRetired "object_id hset"
  | Sec_Sweep "object_id hset"

text \<open>
  The arguments an operation checks before it takes the lock again: a share mode OPEN accepts, a mode
  OPEN_DOWNGRADE accepts, a byte range LOCK and LOCKU accept.
\<close>

definition open_mode_accepted :: "u32 \<Rightarrow> u32 \<Rightarrow> bool" where
  "open_mode_accepted access deny \<longleftrightarrow> access \<noteq> 0 \<and> access AND NOT OPEN4_SHARE_ACCESS_BOTH = 0
     \<and> deny AND NOT OPEN4_SHARE_DENY_BOTH = 0"

fun section_enabled :: "sm_section \<Rightarrow> bool" where
  "section_enabled (Sec_Open object owner access deny) = open_mode_accepted access deny"
| "section_enabled (Sec_Downgrade stateid access deny) = (access \<noteq> 0)"
| "section_enabled (Sec_CreateLock sid owner object t offset len) = is_ok (validate_lock_bounds offset len)"
| "section_enabled (Sec_UpdateLock sid t offset len) = is_ok (validate_lock_bounds offset len)"
| "section_enabled (Sec_Unlock sid offset len) = is_ok (validate_lock_bounds offset len)"
| "section_enabled _ = True"

fun run_section :: "sm_section \<Rightarrow> state_manager \<Rightarrow> state_manager option" where
  "run_section (Sec_Reap now) sm = Some (reap_expired_clients sm now)"
| "run_section (Sec_ExchangeId now args) sm = Some (fst (exchange_id sm now args))"
| "run_section (Sec_CreateSession now args conn) sm = Some (fst (create_session sm now args conn))"
| "run_section (Sec_DestroySession now sid conn) sm = Some (fst (destroy_session sm now sid conn))"
| "run_section (Sec_DestroyClientid now clientid) sm = Some (fst (destroy_clientid sm now clientid))"
| "run_section (Sec_BindConn now args conn) sm = Some (fst (bind_conn_to_session sm now args conn))"
| "run_section (Sec_RemoveConnection conn) sm = Some (remove_connection sm conn)"
| "run_section (Sec_CallbackTarget clientid conn) sm = Some (fst (next_callback_target_on sm clientid conn))"
| "run_section (Sec_ReclaimComplete now clientid one_fs) sm = Some (fst (reclaim_complete sm now clientid one_fs))"
| "run_section (Sec_SetClientId now args) sm = Some (fst (set_client_id sm now args))"
| "run_section (Sec_SetClientIdConfirm now args) sm = Some (fst (set_client_id_confirm sm now args))"
| "run_section (Sec_Renew now clientid) sm = Some (fst (renew sm now clientid))"
| "run_section (Sec_Sequence now args fp conn) sm = Some (fst (prepare_sequence sm now args fp conn))"
| "run_section (Sec_FinishSequence token response) sm = Some (fst (finish_sequence sm token response))"
| "run_section (Sec_Open object owner access deny) sm =
     Some (fst (create_open_state_locked sm object owner access deny))"
| "run_section (Sec_OpenConfirm stateid) sm = Some (fst (confirm_open_state_locked sm stateid))"
| "run_section (Sec_Close stateid) sm = Some (fst (close_state_locked sm stateid))"
| "run_section (Sec_FreeStateid stateid) sm = Some (fst (free_stateid_locked sm stateid))"
| "run_section (Sec_Downgrade stateid access deny) sm = Some (fst (open_downgrade_locked sm stateid access deny))"
| "run_section (Sec_CreateLock sid owner object t offset len) sm =
     Some (fst (create_lock_state_locked sm sid owner object t offset len))"
| "run_section (Sec_UpdateLock sid t offset len) sm = map_option fst (update_lock_state_locked sm sid t offset len)"
| "run_section (Sec_Unlock sid offset len) sm = Some (fst (unlock_state_locked sm sid offset len))"
| "run_section (Sec_CreateDelegation now' object clientid session) sm =
     Some (fst (create_directory_delegation_locked sm now' object clientid session))"
| "run_section (Sec_GrantDelegation now' object clientid session m n) sm =
     Some (fst (grant_directory_delegation_locked sm now' object clientid session m n))"
| "run_section (Sec_ReturnDelegation stateid clientid) sm =
     Some (fst (return_delegation_state_locked sm stateid clientid))"
| "run_section (Sec_RevokeDelegation stateid) sm = Some (fst (revoke_delegation_state_locked sm stateid))"
| "run_section (Sec_RevokeRecallable stateid) sm = Some (fst (revoke_recallable_delegation_locked sm stateid))"
| "run_section (Sec_PurgeDelegations clientid) sm =
     Some (sm\<lparr>sm_inner := remove_client_delegations_locked (sm_inner sm) clientid\<rparr>)"
| "run_section (Sec_Recall now' object excluded) sm =
     Some (sm\<lparr>sm_inner := fst (recall_loop now' excluded
       (idx_get (si_dir_delegations (sm_inner sm)) object) (sm_inner sm))\<rparr>)"
| "run_section (Sec_EnsureMeta now object ft) sm = Some (fst (ensure_meta sm now object ft))"
| "run_section (Sec_TouchData now now' object ft) sm = Some (touch_data sm now now' object ft)"
| "run_section (Sec_TouchMetadata now now' object ft) sm = Some (touch_metadata sm now now' object ft)"
| "run_section (Sec_SetNamedAttrCount now object ft n) sm = Some (set_named_attr_count sm now object ft n)"
| "run_section (Sec_ApplySetattr now now' object ft a) sm = Some (apply_setattr sm now now' object ft a)"
| "run_section (Sec_MarkRetired ids) sm = Some (mark_retired sm ids)"
| "run_section (Sec_Sweep ids) sm = Some (sm\<lparr>sm_inner := fst (sweep_inner (sm_inner sm) ids)\<rparr>)"

section \<open>Reachable states\<close>

text \<open>
  A state is reachable from a start state when sections lead to it, each run with arguments its
  operation lets through and with room in the counters.
\<close>

inductive sm_reach :: "state_manager \<Rightarrow> state_manager \<Rightarrow> bool" for start where
  start: "sm_reach start start"
| step: "sm_reach start sm \<Longrightarrow> section_enabled s \<Longrightarrow> counters_ok sm \<Longrightarrow> run_section s sm = Some sm'
    \<Longrightarrow> sm_reach start sm'"

fun run_sections :: "sm_section list \<Rightarrow> state_manager \<Rightarrow> state_manager option" where
  "run_sections [] sm = Some sm"
| "run_sections (s # ss) sm = (case run_section s sm of None \<Rightarrow> None | Some sm' \<Rightarrow> run_sections ss sm')"

text \<open>A schedule whose sections are all enabled and leave room in the counters.\<close>

fun schedule_ok :: "sm_section list \<Rightarrow> state_manager \<Rightarrow> bool" where
  "schedule_ok [] sm = True"
| "schedule_ok (s # ss) sm = (section_enabled s \<and> counters_ok sm
     \<and> (case run_section s sm of None \<Rightarrow> False | Some sm' \<Rightarrow> schedule_ok ss sm'))"

lemma run_sections_reach:
  "sm_reach start sm \<Longrightarrow> schedule_ok ss sm \<Longrightarrow> run_sections ss sm = Some sm' \<Longrightarrow> sm_reach start sm'"
  by (induction ss arbitrary: sm) (auto intro: sm_reach.step split: option.splits)

lemma run_sections_append:
  "run_sections (ss @ ts) sm = Option.bind (run_sections ss sm) (run_sections ts)"
  by (induction ss arbitrary: sm) (auto split: option.split)

lemma sm_inv_start: "sm_inv (state_manager_with_config config secs nanos nonce)"
  by (simp add: state_manager_with_config_def state_inner_new_def sm_inv_def tables_wf_def keys_ok_def
      hm_all_def delegation_index_ok_def idx_wf_def metadata_ok_def)

lemma is_ok_unit: "is_ok r \<Longrightarrow> r = Inr ()"
  by (cases r) simp_all

text \<open>No section panics, and each keeps the invariant.\<close>

lemma run_section_total:
  assumes inv: "sm_inv sm" and en: "section_enabled s"
  shows "run_section s sm \<noteq> None"
proof (cases s)
  case (Sec_UpdateLock sid t offset len)
  have "validate_lock_bounds offset len = Inr ()" using en Sec_UpdateLock by (simp add: is_ok_unit)
  then obtain sm' res where "update_lock_state_locked sm sid t offset len = Some (sm', res)"
    by (rule update_lock_state_locked_total [OF sm_inv_parts(2) [OF inv]])
  then show ?thesis using Sec_UpdateLock by simp
qed simp_all

lemma run_section_inv:
  assumes inv: "sm_inv sm" and c: "counters_ok sm" and en: "section_enabled s" and run: "run_section s sm = Some sm'"
  shows "sm_inv sm'"
proof -
  note client_inv = reap_inv [OF inv] exchange_id_inv [OF inv c] create_session_inv [OF inv c] destroy_session_inv [OF inv]
    destroy_clientid_inv [OF inv] bind_conn_inv [OF inv] remove_connection_inv [OF inv] next_callback_target_inv [OF inv]
    reclaim_complete_inv [OF inv] set_client_id_inv [OF inv c] set_client_id_confirm_inv [OF inv] renew_inv [OF inv]
    prepare_sequence_inv [OF inv] finish_sequence_inv [OF inv]
  note state_inv = confirm_open_inv [OF inv] close_inv [OF inv] free_stateid_inv [OF inv]
    create_delegation_inv [OF inv c] grant_delegation_inv [OF inv c] return_delegation_inv [OF inv]
    revoke_delegation_inv [OF inv] revoke_recallable_inv [OF inv] purge_delegations_inv [OF inv] recall_inv [OF inv]
    metadata_ops_inv [OF inv c] mark_retired_inv [OF inv] sweep_inner_inv [OF inv]
  show ?thesis
  proof (cases s)
    case (Sec_Open object owner access deny)
    then show ?thesis
      using run en create_open_inv [OF inv c, of access deny] by (auto simp: open_mode_accepted_def)
  next
    case (Sec_Downgrade stateid access deny)
    then show ?thesis using run en downgrade_inv [OF inv, of access] by auto
  next
    case (Sec_CreateLock sid owner object t offset len)
    then show ?thesis using run en create_lock_inv [OF inv c, of offset len] by (auto simp: is_ok_unit)
  next
    case (Sec_UpdateLock sid t offset len)
    then show ?thesis using run en update_lock_inv [OF inv, of offset len] by (auto simp: is_ok_unit)
  next
    case (Sec_Unlock sid offset len)
    then show ?thesis using run en unlock_inv [OF inv, of offset len] by (auto simp: is_ok_unit)
  qed (use run client_inv state_inv in auto)
qed

lemma sm_reach_inv: "sm_reach start sm \<Longrightarrow> sm_inv start \<Longrightarrow> sm_inv sm"
  by (induction rule: sm_reach.induct) (auto intro: run_section_inv)


section \<open>Operations as sequences of sections\<close>

text \<open>What the whole operations do, as the sections they run.\<close>

lemma operation_sections:
  "open_mode_accepted (access AND OPEN4_SHARE_ACCESS_BOTH) deny \<Longrightarrow>
     run_sections [Sec_Reap now, Sec_Open object owner (access AND OPEN4_SHARE_ACCESS_BOTH) deny] sm =
       Some (fst (create_open_state sm now object owner access deny))"
  "run_sections [Sec_Reap now, Sec_OpenConfirm stateid] sm = Some (fst (confirm_open_state sm now stateid))"
  "run_sections [Sec_Reap now, Sec_Close stateid] sm = Some (fst (close_state sm now stateid))"
  "run_sections [Sec_Reap now, Sec_FreeStateid stateid] sm = Some (fst (free_stateid sm now stateid))"
  "is_ok (validate_lock_bounds offset len) \<Longrightarrow>
     run_sections [Sec_Reap now, Sec_CreateLock stateid owner object t offset len] sm =
       Some (fst (create_lock_state sm now stateid owner object t offset len))"
  "is_ok (validate_lock_bounds offset len) \<Longrightarrow>
     run_sections [Sec_Reap now, Sec_UpdateLock stateid t offset len] sm =
       map_option fst (update_lock_state sm now stateid t offset len)"
  "is_ok (validate_lock_bounds offset len) \<Longrightarrow>
     run_sections [Sec_Reap now, Sec_Unlock stateid offset len] sm = Some (fst (unlock_state sm now stateid offset len))"
  "run_sections [Sec_Reap now, Sec_CreateDelegation now' object clientid session] sm =
       Some (fst (create_directory_delegation sm now now' object clientid session))"
  "run_sections [Sec_Reap now, Sec_GrantDelegation now' object clientid session m n] sm =
       Some (fst (grant_directory_delegation sm now now' object clientid session m n))"
  "run_sections [Sec_Reap now, Sec_ReturnDelegation stateid c] sm = Some (fst (return_delegation_state sm now stateid c))"
  "run_sections [Sec_Reap now, Sec_RevokeDelegation stateid] sm = Some (fst (revoke_delegation_state sm now stateid))"
  "run_sections [Sec_Reap now, Sec_RevokeRecallable stateid] sm = Some (fst (revoke_recallable_delegation sm now stateid))"
  "run_sections [Sec_Reap now, Sec_PurgeDelegations clientid] sm = Some (purge_client_delegations sm now clientid)"
  "run_sections [Sec_Reap now, Sec_Recall now' object excluded] sm =
       Some (fst (begin_directory_recall_excluding sm now now' object excluded))"
  by (auto simp: create_open_state_def open_mode_accepted_def confirm_open_state_def close_state_def free_stateid_def
      create_lock_state_def update_lock_state_def unlock_state_def create_directory_delegation_def
      grant_directory_delegation_def return_delegation_state_def revoke_delegation_state_def
      revoke_recallable_delegation_def purge_client_delegations_def begin_directory_recall_excluding_def
      Let_def case_prod_unfold is_ok_def split: sum.splits option.split)

section \<open>Retired objects stay gone\<close>

text \<open>A change of the state manager that only loses opens, locks and delegations.\<close>

definition loses :: "state_manager \<Rightarrow> state_manager \<Rightarrow> bool" where
  "loses sm sm' \<longleftrightarrow> keeps (=) (sm_opens sm') (sm_opens sm) \<and> keeps (=) (sm_locks sm') (sm_locks sm)
     \<and> keeps (=) (si_delegations (sm_inner sm')) (si_delegations (sm_inner sm))
     \<and> sm_retired_objects sm' = sm_retired_objects sm"

lemma loses_refl [simp]: "loses sm sm"
  by (simp add: loses_def)

lemma keeps_trans: "keeps (=) a b \<Longrightarrow> keeps (=) b c \<Longrightarrow> keeps (=) a c"
  by (simp add: keeps_def)

lemma loses_trans: "loses a b \<Longrightarrow> loses b c \<Longrightarrow> loses a c"
  by (auto simp: loses_def intro: keeps_trans)

lemma loses_frame [simp]:
  "loses a (sm\<lparr>sm_inner := put_client k c inner\<rparr>) = loses a (sm\<lparr>sm_inner := inner\<rparr>)"
  "loses a (sm\<lparr>sm_inner := put_session sid s inner\<rparr>) = loses a (sm\<lparr>sm_inner := inner\<rparr>)"
  "loses a (sm\<lparr>sm_inner := inner\<lparr>si_sessions := ss\<rparr>\<rparr>) = loses a (sm\<lparr>sm_inner := inner\<rparr>)"
  "loses a (sm\<lparr>sm_inner := inner, sm_next_clientid := n\<rparr>) = loses a (sm\<lparr>sm_inner := inner\<rparr>)"
  "loses a (sm\<lparr>sm_inner := renew_client config now i inner\<rparr>) = loses a (sm\<lparr>sm_inner := inner\<rparr>)"
  by (simp_all add: loses_def put_client_def)

lemma reap_loses:
  assumes "sm_inv sm"
  shows "loses sm (sm\<lparr>sm_inner := reap_expired_clients_locked config (sm_inner sm) now\<rparr>)"
  using sm_inv_wf [OF assms] sm_inv_parts(3) [OF assms]
  by (auto simp: loses_def reap_sel keeps_def [of _ _ "si_delegations (sm_inner sm)"] reap_delegations
      split: option.splits if_splits)

lemma drop_client_loses:
  assumes "sm_inv sm"
  shows "loses sm (sm\<lparr>sm_inner := fst (drop_client_state (sm_inner sm) c)\<rparr>)"
  using sm_inv_wf [OF assms] sm_inv_parts(3) [OF assms]
  by (auto simp: loses_def keeps_def [of _ _ "si_delegations (sm_inner sm)"] drop_client_state_delegations
      split: option.splits if_splits)

lemma drop_clients_loses: "sm_inv sm \<Longrightarrow> loses sm (sm\<lparr>sm_inner := drop_clients ids (sm_inner sm)\<rparr>)"
proof (induction ids arbitrary: sm)
  case Nil
  then show ?case by (simp add: drop_clients_def)
next
  case (Cons i ids)
  from Cons.IH [OF drop_client_inv [OF Cons.prems, of i]] drop_client_loses [OF Cons.prems, of i]
  show ?case by (auto simp: drop_clients_def intro: loses_trans)
qed

text \<open>The sections on clients, sessions and leases.\<close>

fun is_client_section :: "sm_section \<Rightarrow> bool" where
  "is_client_section (Sec_Reap _) = True"
| "is_client_section (Sec_ExchangeId _ _) = True"
| "is_client_section (Sec_CreateSession _ _ _) = True"
| "is_client_section (Sec_DestroySession _ _ _) = True"
| "is_client_section (Sec_DestroyClientid _ _) = True"
| "is_client_section (Sec_BindConn _ _ _) = True"
| "is_client_section (Sec_RemoveConnection _) = True"
| "is_client_section (Sec_CallbackTarget _ _) = True"
| "is_client_section (Sec_ReclaimComplete _ _ _) = True"
| "is_client_section (Sec_SetClientId _ _) = True"
| "is_client_section (Sec_SetClientIdConfirm _ _) = True"
| "is_client_section (Sec_Renew _ _) = True"
| "is_client_section (Sec_Sequence _ _ _ _) = True"
| "is_client_section (Sec_FinishSequence _ _) = True"
| "is_client_section _ = False"

lemma create_session_loses:
  assumes inv: "sm_inv sm"
  shows "loses sm (fst (create_session sm now args conn))"
proof (cases rule: create_session_cases [of sm now args conn])
  case (refused e)
  then show ?thesis using reap_loses [OF inv] by simp
next
  case (created client s res inner1)
  let ?r = "reap_expired_clients_locked (sm_config sm) (sm_inner sm) now"
  let ?c = "confirmed_client client (lease_deadline (sm_config sm) now)"
  have r: "sm_inv (sm\<lparr>sm_inner := ?r\<rparr>)" by (rule reap_locked_inv [OF inv])
  have "loses (sm\<lparr>sm_inner := ?r\<rparr>) (sm\<lparr>sm_inner := inner1\<rparr>)"
  proof (cases "cs_replaced_clientid client")
    case None
    then show ?thesis by (simp add: created(4) replace_client_def)
  next
    case (Some old)
    have "keeps (=) (si_delegations (fst (drop_client_state (put_client (cs_args_clientid args) ?c ?r) old)))
        (si_delegations ?r)"
      using sm_inv_parts(3) [OF r]
      by (auto simp: keeps_def drop_client_state_delegations put_client_def split: option.splits if_splits)
    then show ?thesis
      using sm_inv_wf [OF r] Some by (simp add: created(4) replace_client_def loses_def put_client_def)
  qed
  then show ?thesis
    using reap_loses [OF inv, of "sm_config sm" now] by (auto simp: created(9) intro: loses_trans)
qed

lemma client_section_loses:
  assumes inv: "sm_inv sm" and s: "is_client_section s" and run: "run_section s sm = Some sm'"
  shows "loses sm sm'"
proof -
  note r = reap_loses [OF inv]
  have d: "loses sm (sm\<lparr>sm_inner := drop_clients ids (reap_expired_clients_locked (sm_config sm) (sm_inner sm) now)\<rparr>)" for ids now
    using loses_trans [OF r [of "sm_config sm" now] drop_clients_loses [OF reap_locked_inv [OF inv]]] by simp
  have d1: "loses sm (sm\<lparr>sm_inner := fst (drop_client_state (reap_expired_clients_locked (sm_config sm) (sm_inner sm) now) c)\<rparr>)" for c now
    using loses_trans [OF r [of "sm_config sm" now] drop_client_loses [OF reap_locked_inv [OF inv]]] by simp
  show ?thesis
  proof (cases s)
    case (Sec_Sequence now args fp conn)
    then show ?thesis
      using run r by (cases rule: prepare_sequence_locked_cases [of "sm_config sm" "sm_inner sm" now args fp conn])
        (auto simp: prepare_sequence_def)
  next
    case (Sec_CreateSession now args conn)
    then show ?thesis using run create_session_loses [OF inv] by auto
  next
    case (Sec_SetClientId now args)
    then show ?thesis
      using run d by (auto simp: set_client_id_def Let_def case_prod_unfold split: option.split)
  qed (use run s r d d1 in \<open>auto simp: reap_expired_clients_def exchange_id_def destroy_session_def destroy_clientid_def
      bind_conn_to_session_def remove_connection_def next_callback_target_on_def reclaim_complete_def
      set_client_id_confirm_def renew_def finish_sequence_def finish_sequence_locked_def Let_def case_prod_unfold
      split: option.split client_lease_state.split\<close>)
qed


text \<open>The objects are marked and nothing that clients hold names them any more.\<close>

definition gone :: "state_manager \<Rightarrow> object_id hset \<Rightarrow> bool" where
  "gone sm ids \<longleftrightarrow> list_all (\<lambda>i. i \<in> set (sm_retired_objects sm)) ids
     \<and> hm_all (\<lambda>_ s. \<not> belongs_to (of_object s) ids) (sm_opens sm)
     \<and> hm_all (\<lambda>_ l. \<not> belongs_to (lf_object l) ids) (sm_locks sm)
     \<and> hm_all (\<lambda>_ d. \<not> belongs_to (dg_object d) ids) (si_delegations (sm_inner sm))"

lemma gone_iff:
  assumes "sm_inv sm"
  shows "gone sm ids \<longleftrightarrow> set ids \<subseteq> set (sm_retired_objects sm)
     \<and> (\<forall>k s. hm_get (sm_opens sm) k = Some s \<longrightarrow> \<not> belongs_to (of_object s) ids)
     \<and> (\<forall>k l. hm_get (sm_locks sm) k = Some l \<longrightarrow> \<not> belongs_to (lf_object l) ids)
     \<and> (\<forall>k d. hm_get (si_delegations (sm_inner sm)) k = Some d \<longrightarrow> \<not> belongs_to (dg_object d) ids)"
  using sm_inv_wf [OF assms] by (auto simp: gone_def hm_all_iff list_all_iff)

lemma gone_retired: "gone sm ids \<Longrightarrow> belongs_to object ids \<Longrightarrow> is_retired sm object"
  by (auto simp: gone_def belongs_to_iff is_retired_def list_all_iff)

text \<open>What keeps the objects gone: no entry names an object that none named before, unless it is live.\<close>

definition names_live :: "state_manager \<Rightarrow> ('v \<Rightarrow> server_object) \<Rightarrow> ('k, 'v) hmap \<Rightarrow> ('k, 'v) hmap \<Rightarrow> bool" where
  "names_live sm obj m' m \<longleftrightarrow> (\<forall>k v'. hm_get m' k = Some v' \<longrightarrow>
     (\<exists>i v. hm_get m i = Some v \<and> obj v = obj v') \<or> \<not> is_retired sm (obj v'))"

lemma names_live_refl [simp]: "names_live sm obj m m"
  by (auto simp: names_live_def)

lemma names_live_keeps: "keeps R m' m \<Longrightarrow> (\<And>v v'. R v v' \<Longrightarrow> obj v = obj v') \<Longrightarrow> names_live sm obj m' m"
  unfolding keeps_def names_live_def by blast

lemma names_live_insert [simp]:
  "hm_get m k = Some v \<Longrightarrow> obj v = obj v' \<Longrightarrow> names_live sm obj (hm_insert k v' m) m"
  "\<not> is_retired sm (obj v') \<Longrightarrow> names_live sm obj (hm_insert k v' m) m"
  by (auto simp: names_live_def hm_simps split: if_splits)

lemma names_live_remove [simp]: "names_live sm obj (hm_remove k m) m"
  by (auto simp: names_live_def hm_simps split: if_splits)

lemma names_live_absent:
  assumes "names_live sm obj m' m" and "\<forall>k v. hm_get m k = Some v \<longrightarrow> \<not> belongs_to (obj v) ids"
    and "\<And>object. belongs_to object ids \<Longrightarrow> is_retired sm object"
  shows "\<forall>k v. hm_get m' k = Some v \<longrightarrow> \<not> belongs_to (obj v) ids"
proof (intro allI impI)
  fix k v
  assume "hm_get m' k = Some v"
  with assms(1) consider i w where "hm_get m i = Some w" "obj w = obj v" | "\<not> is_retired sm (obj v)"
    unfolding names_live_def by blast
  then show "\<not> belongs_to (obj v) ids"
    using assms(2,3) by cases (metis, blast)
qed

lemma gone_names_live:
  assumes inv: "sm_inv sm" "sm_inv sm'" and g: "gone sm ids"
    and "set (sm_retired_objects sm) \<subseteq> set (sm_retired_objects sm')"
    and "names_live sm of_object (sm_opens sm') (sm_opens sm)"
    and "names_live sm lf_object (sm_locks sm') (sm_locks sm)"
    and "names_live sm dg_object (si_delegations (sm_inner sm')) (si_delegations (sm_inner sm))"
  shows "gone sm' ids"
proof -
  note old = g [unfolded gone_iff [OF inv(1)]]
  show ?thesis
    unfolding gone_iff [OF inv(2)]
    using old assms(4) names_live_absent [OF assms(5) _ gone_retired [OF g]]
      names_live_absent [OF assms(6) _ gone_retired [OF g]] names_live_absent [OF assms(7) _ gone_retired [OF g]]
    by (elim conjE) (intro conjI; (rule order_trans)?; assumption?; simp)
qed

lemma loses_names_live:
  "loses sm sm' \<Longrightarrow> names_live sm of_object (sm_opens sm') (sm_opens sm)
    \<and> names_live sm lf_object (sm_locks sm') (sm_locks sm)
    \<and> names_live sm dg_object (si_delegations (sm_inner sm')) (si_delegations (sm_inner sm))"
  by (auto simp: loses_def intro: names_live_keeps)

text \<open>What each operation leaves alone.\<close>

lemma open_ops_frame [simp]:
  "sm_locks (fst (create_open_state_locked sm object owner access deny)) = sm_locks sm"
  "si_delegations (sm_inner (fst (create_open_state_locked sm object owner access deny))) = si_delegations (sm_inner sm)"
  "sm_retired_objects (fst (create_open_state_locked sm object owner access deny)) = sm_retired_objects sm"
  "sm_locks (fst (confirm_open_state_locked sm stateid)) = sm_locks sm"
  "si_delegations (sm_inner (fst (confirm_open_state_locked sm stateid))) = si_delegations (sm_inner sm)"
  "sm_retired_objects (fst (confirm_open_state_locked sm stateid)) = sm_retired_objects sm"
  "sm_locks (fst (close_state_locked sm stateid)) = sm_locks sm"
  "si_delegations (sm_inner (fst (close_state_locked sm stateid))) = si_delegations (sm_inner sm)"
  "sm_retired_objects (fst (close_state_locked sm stateid)) = sm_retired_objects sm"
  "sm_locks (fst (open_downgrade_locked sm stateid access deny)) = sm_locks sm"
  "si_delegations (sm_inner (fst (open_downgrade_locked sm stateid access deny))) = si_delegations (sm_inner sm)"
  "sm_retired_objects (fst (open_downgrade_locked sm stateid access deny)) = sm_retired_objects sm"
  "sm_retired_objects (fst (free_stateid_locked sm stateid)) = sm_retired_objects sm"
  by (simp_all add: create_open_state_locked_def confirm_open_state_locked_def close_state_locked_def
      open_downgrade_locked_def free_stateid_locked_def Let_def case_prod_unfold split: option.split sum.split)

lemma lock_ops_frame [simp]:
  "sm_opens (fst (create_lock_state_locked sm sid owner object t offset len)) = sm_opens sm"
  "si_delegations (sm_inner (fst (create_lock_state_locked sm sid owner object t offset len))) = si_delegations (sm_inner sm)"
  "sm_retired_objects (fst (create_lock_state_locked sm sid owner object t offset len)) = sm_retired_objects sm"
  "sm_opens (fst (unlock_state_locked sm sid offset len)) = sm_opens sm"
  "si_delegations (sm_inner (fst (unlock_state_locked sm sid offset len))) = si_delegations (sm_inner sm)"
  "sm_retired_objects (fst (unlock_state_locked sm sid offset len)) = sm_retired_objects sm"
  by (simp_all add: create_lock_state_locked_def unlock_state_locked_def Let_def split: option.split sum.split)

lemma update_lock_frame:
  assumes "update_lock_state_locked sm sid t offset len = Some (sm', res)"
  shows "sm_opens sm' = sm_opens sm" "si_delegations (sm_inner sm') = si_delegations (sm_inner sm)"
    "sm_retired_objects sm' = sm_retired_objects sm" "names_live sm lf_object (sm_locks sm') (sm_locks sm)"
  using assms by (auto simp: update_lock_state_locked_def Let_def split: option.splits sum.splits)

lemma delegation_ops_frame [simp]:
  "sm_opens (fst (enter_delegation sm now' object c sid)) = sm_opens sm"
  "sm_locks (fst (enter_delegation sm now' object c sid)) = sm_locks sm"
  "sm_retired_objects (fst (enter_delegation sm now' object c sid)) = sm_retired_objects sm"
  "sm_opens (fst (return_delegation_state_locked sm stateid oc)) = sm_opens sm"
  "sm_locks (fst (return_delegation_state_locked sm stateid oc)) = sm_locks sm"
  "sm_retired_objects (fst (return_delegation_state_locked sm stateid oc)) = sm_retired_objects sm"
  "sm_opens (fst (revoke_delegation_state_locked sm stateid)) = sm_opens sm"
  "sm_locks (fst (revoke_delegation_state_locked sm stateid)) = sm_locks sm"
  "sm_retired_objects (fst (revoke_delegation_state_locked sm stateid)) = sm_retired_objects sm"
  "sm_opens (fst (revoke_recallable_delegation_locked sm stateid)) = sm_opens sm"
  "sm_locks (fst (revoke_recallable_delegation_locked sm stateid)) = sm_locks sm"
  "sm_retired_objects (fst (revoke_recallable_delegation_locked sm stateid)) = sm_retired_objects sm"
  by (simp_all add: enter_delegation_def return_delegation_state_locked_def revoke_delegation_state_locked_def
      revoke_recallable_delegation_locked_def Let_def split: option.split sum.split)

lemma grant_ops_frame [simp]:
  "sm_opens (fst (create_directory_delegation_locked sm now' object c sid)) = sm_opens sm"
  "sm_locks (fst (create_directory_delegation_locked sm now' object c sid)) = sm_locks sm"
  "sm_retired_objects (fst (create_directory_delegation_locked sm now' object c sid)) = sm_retired_objects sm"
  "sm_opens (fst (grant_directory_delegation_locked sm now' object c sid m n)) = sm_opens sm"
  "sm_locks (fst (grant_directory_delegation_locked sm now' object c sid m n)) = sm_locks sm"
  "sm_retired_objects (fst (grant_directory_delegation_locked sm now' object c sid m n)) = sm_retired_objects sm"
  by (simp_all add: create_directory_delegation_locked_def grant_directory_delegation_locked_def Let_def
      case_prod_unfold split: option.split)

text \<open>What each operation does to its own table.\<close>

lemma open_ops_live:
  assumes "sm_inv sm"
  shows "names_live sm of_object (sm_opens (fst (create_open_state_locked sm object owner access deny))) (sm_opens sm)"
    and "names_live sm of_object (sm_opens (fst (confirm_open_state_locked sm stateid))) (sm_opens sm)"
    and "names_live sm of_object (sm_opens (fst (close_state_locked sm stateid))) (sm_opens sm)"
    and "names_live sm of_object (sm_opens (fst (open_downgrade_locked sm stateid access deny))) (sm_opens sm)"
    and "names_live sm of_object (sm_opens (fst (free_stateid_locked sm stateid))) (sm_opens sm)"
proof -
  show "names_live sm of_object (sm_opens (fst (create_open_state_locked sm object owner access deny))) (sm_opens sm)"
    using sm_inv_wf(4) [OF assms]
    by (cases rule: create_open_state_locked_cases [where object = object and owner = owner and access = access and deny = deny])
      auto
qed (auto simp: confirm_open_state_locked_def close_state_locked_def open_downgrade_locked_def
    free_stateid_locked_def Let_def split: option.split sum.split)

lemma lock_ops_live:
  "names_live sm lf_object (sm_locks (fst (create_lock_state_locked sm sid owner object t offset len))) (sm_locks sm)"
  "names_live sm lf_object (sm_locks (fst (unlock_state_locked sm sid offset len))) (sm_locks sm)"
  "names_live sm lf_object (sm_locks (fst (free_stateid_locked sm stateid))) (sm_locks sm)"
  by (auto simp: create_lock_state_locked_def unlock_state_locked_def free_stateid_locked_def Let_def
      split: option.split sum.split)

lemma names_live_removed:
  "names_live sm dg_object (si_delegations inner) m \<Longrightarrow>
   names_live sm dg_object (si_delegations (fst (remove_delegation_locked inner k))) m"
  by (auto simp: names_live_def si_delegations_remove)

lemma delegation_ops_live:
  fixes sm
  defines "m \<equiv> si_delegations (sm_inner sm)"
  assumes "delegation_index_ok (sm_inner sm)"
  shows "names_live sm dg_object (si_delegations (sm_inner (fst (create_directory_delegation_locked sm now' object c sid)))) m"
    and "names_live sm dg_object (si_delegations (sm_inner (fst (grant_directory_delegation_locked sm now' object c sid m4 n4)))) m"
    and "names_live sm dg_object (si_delegations (sm_inner (fst (return_delegation_state_locked sm stateid oc)))) m"
    and "names_live sm dg_object (si_delegations (sm_inner (fst (revoke_delegation_state_locked sm stateid)))) m"
    and "names_live sm dg_object (si_delegations (sm_inner (fst (revoke_recallable_delegation_locked sm stateid)))) m"
    and "names_live sm dg_object (si_delegations (sm_inner (fst (free_stateid_locked sm stateid)))) m"
    and "names_live sm dg_object (si_delegations (remove_client_delegations_locked (sm_inner sm) c)) m"
    and "names_live sm dg_object (si_delegations (fst (recall_loop now' excluded others (sm_inner sm)))) m"
proof -
  have enter: "\<not> is_retired sm object \<Longrightarrow>
      names_live sm dg_object (si_delegations (sm_inner (fst (enter_delegation sm now' object c sid)))) m"
    by (simp add: enter_delegation_def Let_def new_delegation_def m_def)
  then show "names_live sm dg_object (si_delegations (sm_inner (fst (create_directory_delegation_locked sm now' object c sid)))) m"
    "names_live sm dg_object (si_delegations (sm_inner (fst (grant_directory_delegation_locked sm now' object c sid m4 n4)))) m"
    by (simp_all add: create_directory_delegation_locked_def grant_directory_delegation_locked_def Let_def
        case_prod_unfold m_def split: option.split)
  show "names_live sm dg_object (si_delegations (sm_inner (fst (return_delegation_state_locked sm stateid oc)))) m"
    "names_live sm dg_object (si_delegations (sm_inner (fst (revoke_delegation_state_locked sm stateid)))) m"
    "names_live sm dg_object (si_delegations (sm_inner (fst (revoke_recallable_delegation_locked sm stateid)))) m"
    "names_live sm dg_object (si_delegations (sm_inner (fst (free_stateid_locked sm stateid)))) m"
    by (simp_all add: return_delegation_state_locked_def revoke_delegation_state_locked_def free_stateid_locked_def
        revoke_recallable_delegation_locked_def Let_def m_def names_live_removed split: option.split sum.split)
  show "names_live sm dg_object (si_delegations (remove_client_delegations_locked (sm_inner sm) c)) m"
    "names_live sm dg_object (si_delegations (fst (recall_loop now' excluded others (sm_inner sm)))) m"
    by (rule names_live_keeps [where R = "same_on dg_object"];
        auto simp: keeps_def same_on_def m_def remove_client_delegations_get [OF assms(2)] recall_loop_get
          split: option.splits if_splits)+
qed


fun is_meta_section :: "sm_section \<Rightarrow> bool" where
  "is_meta_section (Sec_EnsureMeta _ _ _) = True"
| "is_meta_section (Sec_TouchData _ _ _ _) = True"
| "is_meta_section (Sec_TouchMetadata _ _ _ _) = True"
| "is_meta_section (Sec_SetNamedAttrCount _ _ _ _) = True"
| "is_meta_section (Sec_ApplySetattr _ _ _ _ _) = True"
| "is_meta_section _ = False"

lemma meta_section_frame: "is_meta_section s \<Longrightarrow> run_section s sm = Some sm' \<Longrightarrow> meta_frame sm sm'"
  by (cases s) (auto simp: metadata_ops_frame)

text \<open>No section names a retired object that no entry of the table named before.\<close>

lemma section_names_live:
  assumes inv: "sm_inv sm" and run: "run_section s sm = Some sm'"
  shows "names_live sm of_object (sm_opens sm') (sm_opens sm)
    \<and> names_live sm lf_object (sm_locks sm') (sm_locks sm)
    \<and> names_live sm dg_object (si_delegations (sm_inner sm')) (si_delegations (sm_inner sm))
    \<and> set (sm_retired_objects sm) \<subseteq> set (sm_retired_objects sm')"
proof -
  consider (client) "is_client_section s" | (meta) "is_meta_section s"
    | (sweep) ids where "s = Sec_Sweep ids" | (mark) ids where "s = Sec_MarkRetired ids"
    | (lock) sid t offset len where "s = Sec_UpdateLock sid t offset len"
    | (other) "\<not> is_client_section s" "\<not> is_meta_section s" "\<And>ids. s \<noteq> Sec_Sweep ids"
        "\<And>ids. s \<noteq> Sec_MarkRetired ids" "\<And>sid t offset len. s \<noteq> Sec_UpdateLock sid t offset len"
    by blast
  then show ?thesis
  proof cases
    case client
    then show ?thesis
      using client_section_loses [OF inv client run] loses_names_live by (auto simp: loses_def)
  next
    case meta
    then show ?thesis using meta_section_frame [OF meta run] by (simp add: meta_frame_def)
  next
    case (sweep ids)
    let ?i = "fst (sweep_inner (sm_inner sm) ids)"
    note get = sweep_inner_get [OF sm_inv_wf(1) [OF inv] sm_inv_parts(3) [OF inv], of ids]
    have "keeps (=) (si_open_files ?i) (sm_opens sm)" "keeps (=) (si_lock_files ?i) (sm_locks sm)"
      "keeps (=) (si_delegations ?i) (si_delegations (sm_inner sm))"
      by (auto simp: keeps_def get split: option.splits if_splits)
    then show ?thesis using run sweep by (auto intro: names_live_keeps)
  next
    case (mark ids)
    then show ?thesis using run by (auto simp: mark_retired_def set_fold_hs_insert)
  next
    case (lock sid t offset len)
    then show ?thesis using run update_lock_frame [of sm sid t offset len] by auto
  next
    case other
    then show ?thesis
      using run open_ops_live [OF inv] lock_ops_live delegation_ops_live [OF sm_inv_parts(3) [OF inv]]
      by (cases s) (auto simp: recall_loop_frame)
  qed
qed

lemma run_section_gone:
  assumes "sm_inv sm" "counters_ok sm" "section_enabled s" "run_section s sm = Some sm'" "gone sm ids"
  shows "gone sm' ids"
  using section_names_live [OF assms(1,4)] run_section_inv [OF assms(1-4)] assms(1,5)
  by (intro gone_names_live [of sm sm']) auto

lemma sm_reach_gone: "sm_reach start sm \<Longrightarrow> sm_inv start \<Longrightarrow> gone start ids \<Longrightarrow> gone sm ids"
  by (induction rule: sm_reach.induct) (auto intro: run_section_gone sm_reach_inv)

lemma sm_reach_retired: "sm_reach start sm \<Longrightarrow> sm_inv start \<Longrightarrow>
    set (sm_retired_objects start) \<subseteq> set (sm_retired_objects sm)"
proof (induction rule: sm_reach.induct)
  case (step sm s sm')
  then show ?case
    using section_names_live [OF sm_reach_inv [OF step.hyps(1) step.prems] step.hyps(4)] by blast
qed simp

text \<open>The sweep establishes it, whatever ran between the mark and the sweep.\<close>

lemma sweep_gone:
  assumes inv: "sm_inv sm" and "set ids \<subseteq> set (sm_retired_objects sm)"
  shows "gone (sm\<lparr>sm_inner := fst (sweep_inner (sm_inner sm) ids)\<rparr>) ids"
  unfolding gone_iff [OF sweep_inner_inv [OF inv]]
  using assms(2) sweep_inner_get [OF sm_inv_wf(1) [OF inv] sm_inv_parts(3) [OF inv], of ids]
  by (auto split: option.splits if_splits)

end
