(* ===== verification/Mint_Race.thy ===== *)
theory Mint_Race
  imports Retirement
begin

text \<open>
  Minting against retirement, at the grain of the concurrent maps. \<open>object_to_fh\<close>
  (\<^verbatim>\<open>session/filehandles.rs\<close>) and the file handle part of \<open>invalidate_objects\<close>
  (\<^verbatim>\<open>session/invalidate.rs\<close>) take no common lock: they are sequences of operations on shared maps, each
  of them atomic. A configuration is the shared state, the retirement and any number of callers of
  \<open>object_to_fh\<close>; a step is one atomic operation of one of them.

  The comment in \<open>object_to_fh\<close> says that there is no interleaving in which a mapping outlives the
  retirement. The theory proves it for boot scoped handles, and gives a run with a persistent handle
  in which it does not hold.

  The iteration that collects the handles to remove is taken as one step.
\<close>

section \<open>The atomic steps\<close>

datatype mint_pc =
    M_Start
  | M_Missed
  | M_Checked
  | M_Claiming bytes
  | M_Counter
  | M_Insert bytes
  | M_Claimed bytes
  | M_Lost bytes bytes
  | M_Published bytes
  | M_Retract bytes
  | M_Retract_Name
  | M_Done "nfs_fh4 option"

record mint_thread =
  mt_object :: server_object
  mt_pc :: mint_pc

definition mint_pc_step :: "state_manager \<Rightarrow> server_object \<Rightarrow> mint_pc \<Rightarrow> state_manager \<times> mint_pc" where
  "mint_pc_step sm object pc = (case pc of
       M_Start \<Rightarrow> (sm, case hm_get (sm_object_to_fh sm) object of
           Some fh \<Rightarrow> M_Done (Some fh) | None \<Rightarrow> M_Missed)
     | M_Missed \<Rightarrow> (sm, if is_retired sm object then M_Done None else M_Checked)
     | M_Checked \<Rightarrow> (sm, case object of
           Obj_Fs i \<Rightarrow> (case hm_get (sm_persistent_fh sm) i of
               None \<Rightarrow> M_Counter | Some fh \<Rightarrow> M_Claiming fh)
         | _ \<Rightarrow> M_Counter)
     | M_Claiming fh \<Rightarrow> (case hm_get (sm_fh_to_object sm) fh of
           Some existing \<Rightarrow> (sm, if existing \<noteq> object then M_Counter else M_Claimed fh)
         | None \<Rightarrow> (sm\<lparr>sm_fh_to_object := hm_insert fh object (sm_fh_to_object sm)\<rparr>, M_Claimed fh))
     | M_Counter \<Rightarrow> (sm\<lparr>sm_next_fh := sm_next_fh sm + 1\<rparr>,
           M_Insert (sm_fh_boot_nonce sm @ be_u64 (sm_next_fh sm)))
     | M_Insert fh \<Rightarrow> (sm\<lparr>sm_fh_to_object := hm_insert fh object (sm_fh_to_object sm)\<rparr>, M_Claimed fh)
     | M_Claimed fh \<Rightarrow> (case hm_get (sm_object_to_fh sm) object of
           Some winner \<Rightarrow> (sm, if winner \<noteq> fh then M_Lost fh winner else M_Done (Some winner))
         | None \<Rightarrow> (sm\<lparr>sm_object_to_fh := hm_insert object fh (sm_object_to_fh sm)\<rparr>, M_Published fh))
     | M_Lost fh winner \<Rightarrow>
         (if hm_get (sm_fh_to_object sm) fh = Some object
          then sm\<lparr>sm_fh_to_object := hm_remove fh (sm_fh_to_object sm)\<rparr> else sm,
          M_Done (Some winner))
     | M_Published fh \<Rightarrow> (sm, if is_retired sm object then M_Retract fh else M_Done (Some fh))
     | M_Retract fh \<Rightarrow> (sm\<lparr>sm_fh_to_object := hm_remove fh (sm_fh_to_object sm)\<rparr>, M_Retract_Name)
     | M_Retract_Name \<Rightarrow>
         (sm\<lparr>sm_object_to_fh := hm_remove object (sm_object_to_fh sm)\<rparr>, M_Done None)
     | M_Done res \<Rightarrow> (sm, M_Done res))"

datatype retire_pc =
    R_Mark "object_id list"
  | R_Collect
  | R_Sweep "(bytes \<times> server_object) list"
  | R_Sweep_Name server_object "(bytes \<times> server_object) list"
  | R_Persistent "object_id list"
  | R_Done

definition retire_pc_step :: "state_manager \<Rightarrow> object_id hset \<Rightarrow> retire_pc \<Rightarrow> state_manager \<times> retire_pc" where
  "retire_pc_step sm ids pc = (case pc of
       R_Mark left4 \<Rightarrow> (case left4 of
           [] \<Rightarrow> (sm, R_Collect)
         | i # rest \<Rightarrow> (sm\<lparr>sm_retired_objects := hs_insert i (sm_retired_objects sm)\<rparr>, R_Mark rest))
     | R_Collect \<Rightarrow>
         (sm, R_Sweep (filter (\<lambda>(fh, object). belongs_to object ids) (sm_fh_to_object sm)))
     | R_Sweep stale \<Rightarrow> (case stale of
           [] \<Rightarrow> (sm, R_Persistent ids)
         | (fh, object) # rest \<Rightarrow>
             (sm\<lparr>sm_fh_to_object := hm_remove fh (sm_fh_to_object sm)\<rparr>, R_Sweep_Name object rest))
     | R_Sweep_Name object rest \<Rightarrow>
         (sm\<lparr>sm_object_to_fh := hm_remove object (sm_object_to_fh sm)\<rparr>, R_Sweep rest)
     | R_Persistent left4 \<Rightarrow> (case left4 of
           [] \<Rightarrow> (sm, R_Done)
         | i # rest \<Rightarrow> (sm\<lparr>sm_persistent_fh := hm_remove i (sm_persistent_fh sm)\<rparr>, R_Persistent rest))
     | R_Done \<Rightarrow> (sm, R_Done))"

record race_config =
  rc_sm :: state_manager
  rc_ids :: "object_id hset"
  rc_retire :: retire_pc
  rc_mints :: "mint_thread list"

text \<open>Scheduling: the retirement moves, or caller \<open>i\<close> does.\<close>

datatype race_actor = Act_Retire | Act_Mint nat

definition race_move :: "race_config \<Rightarrow> race_actor \<Rightarrow> race_config" where
  "race_move c a = (case a of
       Act_Retire \<Rightarrow>
         (let (sm, pc) = retire_pc_step (rc_sm c) (rc_ids c) (rc_retire c) in
          c\<lparr>rc_sm := sm, rc_retire := pc\<rparr>)
     | Act_Mint i \<Rightarrow>
         if i < length (rc_mints c)
         then let t = rc_mints c ! i; (sm, pc) = mint_pc_step (rc_sm c) (mt_object t) (mt_pc t) in
              c\<lparr>rc_sm := sm, rc_mints := (rc_mints c)[i := t\<lparr>mt_pc := pc\<rparr>]\<rparr>
         else c)"

definition race_init :: "state_manager \<Rightarrow> object_id hset \<Rightarrow> server_object list \<Rightarrow> race_config" where
  "race_init sm ids objects = \<lparr>rc_sm = sm, rc_ids = ids, rc_retire = R_Mark ids,
     rc_mints = map (\<lambda>object. \<lparr>mt_object = object, mt_pc = M_Start\<rparr>) objects\<rparr>"

definition mint_finished :: "mint_thread \<Rightarrow> bool" where
  "mint_finished t = (case mt_pc t of M_Done r \<Rightarrow> True | _ \<Rightarrow> False)"

definition race_finished :: "race_config \<Rightarrow> bool" where
  "race_finished c \<longleftrightarrow> rc_retire c = R_Done \<and> list_all mint_finished (rc_mints c)"

text \<open>
  A run: one actor at a time, and the handle counter does not run out (it has 64 bits).
\<close>

inductive race_reach :: "race_config \<Rightarrow> race_config \<Rightarrow> bool" for c0 where
  start: "race_reach c0 c0"
| move: "race_reach c0 c \<Longrightarrow> sm_next_fh (rc_sm c) + 1 \<noteq> 0 \<Longrightarrow> race_reach c0 (race_move c a)"

definition race_run :: "race_config \<Rightarrow> race_actor list \<Rightarrow> race_config" where
  "race_run c as = fold (\<lambda>a c. race_move c a) as c"

section \<open>A caller on its own\<close>

text \<open>With nobody else moving, the steps of a caller are \<open>object_to_fh\<close>.\<close>

definition mint_alone :: "nat \<Rightarrow> state_manager \<Rightarrow> server_object \<Rightarrow> state_manager \<times> mint_pc" where
  "mint_alone n sm object = ((\<lambda>(sm, pc). mint_pc_step sm object pc) ^^ n) (sm, M_Start)"

lemma funpow_10: "(f ^^ 10) x = f (f (f (f (f (f (f (f (f (f x)))))))))"
  by (simp add: eval_nat_numeral)

lemma mint_alone_is_object_to_fh:
  "mint_alone 10 sm object = map_prod id M_Done (object_to_fh sm object)"
proof (cases "hm_get (sm_object_to_fh sm) object")
  case (Some fh)
  then show ?thesis by (simp add: mint_alone_def funpow_10 mint_pc_step_def object_to_fh_def)
next
  case miss: None
  show ?thesis
  proof (cases "is_retired sm object")
    case True
    with miss show ?thesis by (simp add: mint_alone_def funpow_10 mint_pc_step_def object_to_fh_def)
  next
    case False
    with miss show ?thesis
      by (cases object)
        (auto simp: mint_alone_def funpow_10 mint_pc_step_def object_to_fh_def claim_persistent_fh_def
          mint_boot_fh_def is_retired_def Let_def split: option.split)
  qed
qed

section \<open>Boot scoped handles never outlive a retirement\<close>

text \<open>
  The invariant is over a view of the configuration: the two maps as functions, the retired ids, and
  the callers as a partial function from their index to object and position.
\<close>

type_synonym mint_view = "nat \<rightharpoonup> server_object \<times> mint_pc"

definition mints_view :: "mint_thread list \<Rightarrow> mint_view" where
  "mints_view ts i = (if i < length ts then Some (mt_object (ts ! i), mt_pc (ts ! i)) else None)"

text \<open>The handle a caller has minted and not yet given back or published for good.\<close>

fun held :: "mint_pc \<Rightarrow> bytes option" where
  "held (M_Insert fh) = Some fh"
| "held (M_Claimed fh) = Some fh"
| "held (M_Lost fh winner) = Some fh"
| "held (M_Published fh) = Some fh"
| "held (M_Retract fh) = Some fh"
| "held pc = None"

definition minted :: "bytes \<Rightarrow> u64 \<Rightarrow> bytes \<Rightarrow> bool" where
  "minted nonce n fh \<longleftrightarrow> (\<exists>k < n. fh = nonce @ be_u64 k)"

text \<open>
  Nothing is shared by accident: every handle in use comes from the counter, two callers never hold
  the same one, and a handle that is not published names no object.
\<close>

definition handles_apart ::
  "bytes \<Rightarrow> u64 \<Rightarrow> (bytes \<rightharpoonup> server_object) \<Rightarrow> (server_object \<rightharpoonup> bytes) \<Rightarrow> mint_view \<Rightarrow> bool" where
  "handles_apart nonce n F N T \<longleftrightarrow>
     (\<forall>fh object. F fh = Some object \<longrightarrow> minted nonce n fh)
     \<and> (\<forall>object fh. N object = Some fh \<longrightarrow> minted nonce n fh)
     \<and> (\<forall>i object pc fh. T i = Some (object, pc) \<longrightarrow> held pc = Some fh \<longrightarrow> minted nonce n fh)
     \<and> (\<forall>i object fh. T i \<noteq> Some (object, M_Claiming fh))
     \<and> (\<forall>i j o1 p1 o2 p2 fh. T i = Some (o1, p1) \<longrightarrow> T j = Some (o2, p2) \<longrightarrow>
          held p1 = Some fh \<longrightarrow> held p2 = Some fh \<longrightarrow> i = j)
     \<and> (\<forall>i object pc fh object'. T i = Some (object, pc) \<longrightarrow> held pc = Some fh \<longrightarrow>
          N object' = Some fh \<longrightarrow> object' = object \<and> pc \<in> {M_Published fh, M_Retract fh})"

text \<open>Who is going to remove the entry of a retired object.\<close>

definition will_drop_handle :: "mint_view \<Rightarrow> server_object \<Rightarrow> bytes \<Rightarrow> bool" where
  "will_drop_handle T object fh \<longleftrightarrow> (\<exists>i pc. T i = Some (object, pc) \<and> held pc = Some fh)"

definition will_drop_name :: "mint_view \<Rightarrow> server_object \<Rightarrow> bytes \<Rightarrow> bool" where
  "will_drop_name T object fh \<longleftrightarrow>
     (\<exists>i pc. T i = Some (object, pc) \<and> pc \<in> {M_Published fh, M_Retract fh, M_Retract_Name})"

definition before_sweep :: "retire_pc \<Rightarrow> bool" where
  "before_sweep r = (case r of R_Mark left4 \<Rightarrow> True | R_Collect \<Rightarrow> True | _ \<Rightarrow> False)"

fun sweep_handles :: "retire_pc \<Rightarrow> (bytes \<times> server_object) set" where
  "sweep_handles (R_Sweep stale) = set stale"
| "sweep_handles (R_Sweep_Name object rest) = set rest"
| "sweep_handles r = {}"

fun sweep_names :: "retire_pc \<Rightarrow> server_object set" where
  "sweep_names (R_Sweep stale) = snd ` set stale"
| "sweep_names (R_Sweep_Name object rest) = insert object (snd ` set rest)"
| "sweep_names r = {}"

definition accounted ::
  "object_id set \<Rightarrow> (bytes \<rightharpoonup> server_object) \<Rightarrow> (server_object \<rightharpoonup> bytes) \<Rightarrow> mint_view \<Rightarrow> retire_pc \<Rightarrow> bool" where
  "accounted I F N T r \<longleftrightarrow>
     (\<forall>fh object. object_owner_id object \<in> I \<longrightarrow> F fh = Some object \<longrightarrow>
        will_drop_handle T object fh \<or> before_sweep r \<or> (fh, object) \<in> sweep_handles r)
     \<and> (\<forall>fh object. object_owner_id object \<in> I \<longrightarrow> N object = Some fh \<longrightarrow>
        will_drop_name T object fh \<or> before_sweep r \<and> F fh = Some object \<or> object \<in> sweep_names r)
     \<and> (\<forall>i object fh pc. before_sweep r \<longrightarrow> T i = Some (object, pc) \<longrightarrow>
        pc \<in> {M_Claimed fh, M_Published fh} \<longrightarrow> F fh = Some object)"

definition marked :: "object_id set \<Rightarrow> object_id set \<Rightarrow> retire_pc \<Rightarrow> bool" where
  "marked I R r \<longleftrightarrow> (case r of R_Mark left4 \<Rightarrow> I \<subseteq> R \<union> set left4 | _ \<Rightarrow> I \<subseteq> R)"

text \<open>The effect of a caller's step on the view, when there are no persistent handles.\<close>

inductive view_step ::
  "bytes \<Rightarrow> object_id set \<Rightarrow> server_object \<Rightarrow>
   (u64 \<times> (bytes \<rightharpoonup> server_object) \<times> (server_object \<rightharpoonup> bytes) \<times> mint_pc) \<Rightarrow>
   (u64 \<times> (bytes \<rightharpoonup> server_object) \<times> (server_object \<rightharpoonup> bytes) \<times> mint_pc) \<Rightarrow> bool"
  for nonce R object where
  named: "N object = Some fh \<Longrightarrow> view_step nonce R object (n, F, N, M_Start) (n, F, N, M_Done (Some fh))"
| missed: "N object = None \<Longrightarrow> view_step nonce R object (n, F, N, M_Start) (n, F, N, M_Missed)"
| refused: "object_owner_id object \<in> R \<Longrightarrow> view_step nonce R object (n, F, N, M_Missed) (n, F, N, M_Done None)"
| checked: "object_owner_id object \<notin> R \<Longrightarrow> view_step nonce R object (n, F, N, M_Missed) (n, F, N, M_Checked)"
| no_persistent: "view_step nonce R object (n, F, N, M_Checked) (n, F, N, M_Counter)"
| counter: "view_step nonce R object (n, F, N, M_Counter) (n + 1, F, N, M_Insert (nonce @ be_u64 n))"
| insert: "view_step nonce R object (n, F, N, M_Insert fh) (n, F(fh \<mapsto> object), N, M_Claimed fh)"
| lost: "N object = Some winner \<Longrightarrow> winner \<noteq> fh \<Longrightarrow>
    view_step nonce R object (n, F, N, M_Claimed fh) (n, F, N, M_Lost fh winner)"
| same: "N object = Some fh \<Longrightarrow>
    view_step nonce R object (n, F, N, M_Claimed fh) (n, F, N, M_Done (Some fh))"
| published: "N object = None \<Longrightarrow>
    view_step nonce R object (n, F, N, M_Claimed fh) (n, F, N(object \<mapsto> fh), M_Published fh)"
| gave_back: "F fh = Some object \<Longrightarrow>
    view_step nonce R object (n, F, N, M_Lost fh winner) (n, F(fh := None), N, M_Done (Some winner))"
| kept: "F fh \<noteq> Some object \<Longrightarrow>
    view_step nonce R object (n, F, N, M_Lost fh winner) (n, F, N, M_Done (Some winner))"
| valid: "object_owner_id object \<notin> R \<Longrightarrow>
    view_step nonce R object (n, F, N, M_Published fh) (n, F, N, M_Done (Some fh))"
| invalid: "object_owner_id object \<in> R \<Longrightarrow>
    view_step nonce R object (n, F, N, M_Published fh) (n, F, N, M_Retract fh)"
| retract: "view_step nonce R object (n, F, N, M_Retract fh) (n, F(fh := None), N, M_Retract_Name)"
| retract_name: "view_step nonce R object (n, F, N, M_Retract_Name) (n, F, N(object := None), M_Done None)"
| finished: "view_step nonce R object (n, F, N, M_Done res) (n, F, N, M_Done res)"

lemma hm_get_fun [simp]:
  "hm_get (hm_insert k v m) = (hm_get m)(k \<mapsto> v)"
  "hm_get (hm_remove k m) = (hm_get m)(k := None)"
  by (auto simp: hm_simps fun_eq_iff)

lemma hm_remove_Nil [simp]: "hm_remove k [] = []"
  by (simp add: hm_remove_def)

lemma mint_pc_step_view:
  assumes "mint_pc_step sm object pc = (sm', pc')" and "sm_persistent_fh sm = []"
    and "\<And>fh. pc \<noteq> M_Claiming fh"
  shows "view_step (sm_fh_boot_nonce sm) (set (sm_retired_objects sm)) object
     (sm_next_fh sm, hm_get (sm_fh_to_object sm), hm_get (sm_object_to_fh sm), pc)
     (sm_next_fh sm', hm_get (sm_fh_to_object sm'), hm_get (sm_object_to_fh sm'), pc')"
    and "sm_persistent_fh sm' = []" and "sm_retired_objects sm' = sm_retired_objects sm"
    and "sm_fh_boot_nonce sm' = sm_fh_boot_nonce sm"
    and "hm_wf (sm_fh_to_object sm) \<Longrightarrow> hm_wf (sm_fh_to_object sm')"
  using assms
  by (cases pc; force simp: mint_pc_step_def is_retired_def hm_get_def [of "[]"] hm_simps
      intro: view_step.intros split: option.splits if_splits server_object.splits)+

lemma minted_mono: "minted nonce n fh \<Longrightarrow> n \<le> n' \<Longrightarrow> minted nonce n' fh"
  unfolding minted_def by (blast intro: order_less_le_trans)

lemma unpublished:
  assumes "handles_apart nonce n F N T" and "T i = Some (object, pc)" and "held pc = Some fh"
    and "N object' = Some fh"
  shows "object' = object \<and> pc \<in> {M_Published fh, M_Retract fh}"
  using assms unfolding handles_apart_def by blast

lemma handles_apartD:
  assumes "handles_apart nonce n F N T"
  shows "F fh = Some object \<Longrightarrow> minted nonce n fh"
    and "N object = Some fh \<Longrightarrow> minted nonce n fh"
    and "T i = Some (object, pc) \<Longrightarrow> held pc = Some fh \<Longrightarrow> minted nonce n fh"
    and "T i \<noteq> Some (object, M_Claiming fh)"
    and "T i = Some (o1, p1) \<Longrightarrow> T j = Some (o2, p2) \<Longrightarrow> held p1 = Some fh \<Longrightarrow> held p2 = Some fh \<Longrightarrow> i = j"
  using assms unfolding handles_apart_def by (elim conjE; simp)+

lemma handles_apart_sub:
  assumes ok: "handles_apart nonce n F N T"
    and F: "\<And>fh object. F' fh = Some object \<Longrightarrow> F fh = Some object"
    and N: "\<And>object fh. N' object = Some fh \<Longrightarrow> N object = Some fh"
  shows "handles_apart nonce n F' N' T"
  unfolding handles_apart_def
proof (intro conjI allI impI)
  show "minted nonce n fh" if "F' fh = Some object" for fh object
    by (rule handles_apartD(1) [OF ok F [OF that]])
  show "minted nonce n fh" if "N' object = Some fh" for fh object
    by (rule handles_apartD(2) [OF ok N [OF that]])
  show "minted nonce n fh" if "T i = Some (object, pc)" "held pc = Some fh" for i object pc fh
    by (rule handles_apartD(3) [OF ok that])
  show "T i \<noteq> Some (object, M_Claiming fh)" for i object fh
    by (rule handles_apartD(4) [OF ok])
  show "i = j" if "T i = Some (o1, p1)" "T j = Some (o2, p2)" "held p1 = Some fh" "held p2 = Some fh"
    for i j o1 p1 o2 p2 fh
    by (rule handles_apartD(5) [OF ok that])
  show "object' = object" "pc \<in> {M_Published fh, M_Retract fh}"
    if "T i = Some (object, pc)" "held pc = Some fh" "N' object' = Some fh" for i object pc fh object'
    using unpublished [OF ok that(1,2) N [OF that(3)]] by simp_all
qed

lemma handles_apart_step:
  assumes step: "view_step nonce R object (n, F, N, pc) (n', F', N', pc')"
    and ok: "handles_apart nonce n F N T" and t: "T i = Some (object, pc)" and room: "n + 1 \<noteq> 0"
  shows "handles_apart nonce n' F' N' (T(i \<mapsto> (object, pc')))"
  using step
proof cases
  case counter
  have new: "\<not> minted nonce n (nonce @ be_u64 n)"
    by (auto simp: minted_def)
  have le: "n < n + 1" using u64_less_plus_1 [OF room] .
  have now: "minted nonce (n + 1) (nonce @ be_u64 n)"
    using le by (auto simp: minted_def)
  have mono: "minted nonce n fh \<Longrightarrow> minted nonce (n + 1) fh" for fh
    using minted_mono le by (meson order_less_imp_le)
  show ?thesis
    using ok t new now mono unfolding counter handles_apart_def
    by (auto split: if_splits)
next
  case (insert fh)
  have "N object' \<noteq> Some fh" for object'
    using unpublished [OF ok t] insert by fastforce
  then show ?thesis using ok t unfolding insert handles_apart_def by (auto split: if_splits)
next
  case (lost winner fh)
  have "N object' \<noteq> Some fh" for object'
    using unpublished [OF ok t] lost by fastforce
  then show ?thesis using ok t unfolding lost handles_apart_def by (auto split: if_splits)
qed (use ok t in \<open>auto simp: handles_apart_def split: if_splits\<close>)

text \<open>A caller never drops an entry that nobody else accounts for.\<close>

lemma will_drop_handle_upd:
  "will_drop_handle (T(i \<mapsto> (object, pc'))) object' fh \<longleftrightarrow>
     object' = object \<and> held pc' = Some fh \<or> (\<exists>j q. j \<noteq> i \<and> T j = Some (object', q) \<and> held q = Some fh)"
  by (auto simp: will_drop_handle_def)

lemma will_drop_handleE:
  assumes "T i = Some (object, pc)" and "will_drop_handle T object' fh"
  obtains "object' = object" "held pc = Some fh"
    | j q where "j \<noteq> i" "T j = Some (object', q)" "held q = Some fh"
  using assms by (force simp: will_drop_handle_def)

lemma unmarked_before_sweep: "marked I R r \<Longrightarrow> x \<in> I \<Longrightarrow> x \<notin> R \<Longrightarrow> before_sweep r"
  by (auto simp: marked_def before_sweep_def split: retire_pc.splits)

lemma accounted_handles_step:
  assumes step: "view_step nonce R object (n, F, N, pc) (n', F', N', pc')"
    and apart: "handles_apart nonce n F N T" and ok: "accounted I F N T r"
    and t: "T i = Some (object, pc)" and marked: "marked I R r"
    and o: "object_owner_id object' \<in> I" and f: "F' fh = Some object'"
  shows "will_drop_handle (T(i \<mapsto> (object, pc'))) object' fh \<or> before_sweep r \<or> (fh, object') \<in> sweep_handles r"
proof (cases "F fh = Some object'")
  case True
  then consider "will_drop_handle T object' fh" | "before_sweep r" | "(fh, object') \<in> sweep_handles r"
    using ok o unfolding accounted_def by blast
  then show ?thesis
  proof cases
    case 1
    with t show ?thesis
    proof (cases rule: will_drop_handleE)
      case mine: 1
      from step show ?thesis
        using mine f o unmarked_before_sweep [OF marked] unpublished [OF apart t mine(2), of object]
        by cases (auto simp: will_drop_handle_upd)
    next
      case (2 j q)
      then show ?thesis by (auto simp: will_drop_handle_upd)
    qed
  qed simp_all
next
  case False
  with step f show ?thesis
    by cases (auto simp: will_drop_handle_upd split: if_splits)
qed

lemma will_drop_name_upd:
  "will_drop_name (T(i \<mapsto> (object, pc'))) object' fh \<longleftrightarrow>
     object' = object \<and> pc' \<in> {M_Published fh, M_Retract fh, M_Retract_Name}
     \<or> (\<exists>j q. j \<noteq> i \<and> T j = Some (object', q) \<and> q \<in> {M_Published fh, M_Retract fh, M_Retract_Name})"
  by (auto simp: will_drop_name_def)

lemma will_drop_nameE:
  assumes "T i = Some (object, pc)" and "will_drop_name T object' fh"
  obtains "object' = object" "pc \<in> {M_Published fh, M_Retract fh, M_Retract_Name}"
    | j q where "j \<noteq> i" "T j = Some (object', q)" "q \<in> {M_Published fh, M_Retract fh, M_Retract_Name}"
  using assms unfolding will_drop_name_def by (metis option.inject prod.inject)

lemma accounted_claim:
  assumes "accounted I F N T r" and "before_sweep r" and "T i = Some (object, pc)"
    and "pc \<in> {M_Claimed fh, M_Published fh}"
  shows "F fh = Some object"
  using assms unfolding accounted_def by blast

lemma accounted_names_step:
  assumes step: "view_step nonce R object (n, F, N, pc) (n', F', N', pc')"
    and apart: "handles_apart nonce n F N T" and ok: "accounted I F N T r"
    and t: "T i = Some (object, pc)" and marked: "marked I R r"
    and o: "object_owner_id object' \<in> I" and f: "N' object' = Some fh"
  shows "will_drop_name (T(i \<mapsto> (object, pc'))) object' fh \<or> before_sweep r \<and> F' fh = Some object'
     \<or> object' \<in> sweep_names r"
proof (cases "N object' = Some fh")
  case True
  then consider "will_drop_name T object' fh" | "before_sweep r" "F fh = Some object'" | "object' \<in> sweep_names r"
    using ok o unfolding accounted_def by blast
  then show ?thesis
  proof cases
    case 1
    with t show ?thesis
    proof (cases rule: will_drop_nameE)
      case mine: 1
      from step show ?thesis
        using mine f o unmarked_before_sweep [OF marked, of "object_owner_id object"]
          accounted_claim [OF ok _ t, of fh]
        by cases (auto simp: will_drop_name_upd)
    next
      case (2 j q)
      then show ?thesis unfolding will_drop_name_upd by blast
    qed
  next
    case 2
    from step show ?thesis
      using 2 unpublished [OF apart t _ True]
      by cases (auto simp: will_drop_name_upd)
  qed simp
next
  case False
  with step f show ?thesis
    by cases (auto simp: will_drop_name_upd split: if_splits)
qed

lemma accounted_claims_step:
  assumes step: "view_step nonce R object (n, F, N, pc) (n', F', N', pc')"
    and apart: "handles_apart nonce n F N T" and ok: "accounted I F N T r"
    and t: "T i = Some (object, pc)" and b: "before_sweep r"
    and j: "(T(i \<mapsto> (object, pc'))) j = Some (object', q)" and q: "q \<in> {M_Claimed fh, M_Published fh}"
  shows "F' fh = Some object'"
proof (cases "j = i")
  case True
  with step j q show ?thesis
    using accounted_claim [OF ok b t] by cases auto
next
  case False
  then have tj: "T j = Some (object', q)" using j by simp
  then have F: "F fh = Some object'" by (rule accounted_claim [OF ok b _ q])
  have "held q = Some fh" using q by auto
  then have other: "held pc \<noteq> Some fh"
    using apart t tj False unfolding handles_apart_def by blast
  from step show ?thesis using F other by cases auto
qed

lemma accounted_step:
  assumes "view_step nonce R object (n, F, N, pc) (n', F', N', pc')"
    and "handles_apart nonce n F N T" and "accounted I F N T r"
    and "T i = Some (object, pc)" and "marked I R r"
  shows "accounted I F' N' (T(i \<mapsto> (object, pc'))) r"
  unfolding accounted_def
  using accounted_handles_step [OF assms] accounted_names_step [OF assms] accounted_claims_step [OF assms(1-4)]
  by blast

text \<open>The sweep takes exactly what was there when it started.\<close>

lemma accounted_cong:
  assumes "accounted I F N T r" and "before_sweep r' = before_sweep r"
    and "sweep_handles r' = sweep_handles r" and "sweep_names r' = sweep_names r"
  shows "accounted I F N T r'"
  using assms(1) unfolding accounted_def assms(2-4) .

lemma accounted_collect:
  assumes ok: "accounted I F N T R_Collect"
    and stale: "\<And>fh object. (fh, object) \<in> set stale \<longleftrightarrow> F fh = Some object \<and> object_owner_id object \<in> I"
  shows "accounted I F N T (R_Sweep stale)"
proof -
  have "will_drop_name T object fh \<or> object \<in> snd ` set stale"
    if "object_owner_id object \<in> I" "N object = Some fh" for fh object
  proof -
    have "will_drop_name T object fh \<or> F fh = Some object"
      using ok that unfolding accounted_def by auto
    then show ?thesis using stale [of fh object] that(1) by force
  qed
  then show ?thesis unfolding accounted_def by (simp add: before_sweep_def stale)
qed

lemma accounted_drop_handle:
  assumes "accounted I F N T (R_Sweep ((fh, object) # rest))"
  shows "accounted I (F(fh := None)) N T (R_Sweep_Name object rest)"
  using assms unfolding accounted_def by (auto simp: before_sweep_def)

lemma accounted_drop_name:
  assumes "accounted I F N T (R_Sweep_Name object rest)"
  shows "accounted I F (N(object := None)) T (R_Sweep rest)"
  using assms unfolding accounted_def by (auto simp: before_sweep_def)

lemma accounted_retire:
  assumes "accounted (set ids) (hm_get (sm_fh_to_object sm)) (hm_get (sm_object_to_fh sm)) T r"
    and "hm_wf (sm_fh_to_object sm)" and "retire_pc_step sm ids r = (sm', r')"
  shows "accounted (set ids) (hm_get (sm_fh_to_object sm')) (hm_get (sm_object_to_fh sm')) T r'"
proof -
  have stale: "(fh, object) \<in> set (filter (\<lambda>(fh, object). belongs_to object ids) (sm_fh_to_object sm)) \<longleftrightarrow>
      hm_get (sm_fh_to_object sm) fh = Some object \<and> object_owner_id object \<in> set ids" for fh object
    using hm_get_iff_mem [OF assms(2)] by (auto simp: belongs_to_iff)
  show ?thesis
  proof (cases r)
    case (R_Mark left4)
    then show ?thesis using assms(1,3)
      by (cases left4) (auto simp: retire_pc_step_def before_sweep_def intro: accounted_cong)
  next
    case R_Collect
    then have r': "r' = R_Sweep (filter (\<lambda>(fh, object). belongs_to object ids) (sm_fh_to_object sm))" "sm' = sm"
      using assms(3) by (auto simp: retire_pc_step_def)
    show ?thesis
      using accounted_collect [OF _ stale] assms(1) by (simp add: r' R_Collect)
  next
    case (R_Sweep stale)
    then show ?thesis using assms(1,3) accounted_drop_handle
      by (cases stale) (auto simp: retire_pc_step_def before_sweep_def intro: accounted_cong)
  next
    case (R_Sweep_Name object rest)
    then show ?thesis using assms(1,3) accounted_drop_name
      by (auto simp: retire_pc_step_def)
  next
    case (R_Persistent left4)
    then show ?thesis using assms(1,3)
      by (cases left4) (auto simp: retire_pc_step_def before_sweep_def intro: accounted_cong)
  next
    case R_Done
    then show ?thesis using assms(1,3) by (simp add: retire_pc_step_def)
  qed
qed

text \<open>The invariant of a run.\<close>

definition race_inv :: "race_config \<Rightarrow> bool" where
  "race_inv c \<longleftrightarrow>
     (let sm = rc_sm c; F = hm_get (sm_fh_to_object sm); N = hm_get (sm_object_to_fh sm);
          T = mints_view (rc_mints c) in
      sm_persistent_fh sm = [] \<and> hm_wf (sm_fh_to_object sm)
      \<and> marked (set (rc_ids c)) (set (sm_retired_objects sm)) (rc_retire c)
      \<and> handles_apart (sm_fh_boot_nonce sm) (sm_next_fh sm) F N T
      \<and> accounted (set (rc_ids c)) F N T (rc_retire c))"

lemma mints_view_upd:
  "i < length ts \<Longrightarrow> mints_view (ts[i := t\<lparr>mt_pc := pc\<rparr>]) = (mints_view ts)(i \<mapsto> (mt_object t, pc))"
  by (auto simp: mints_view_def fun_eq_iff nth_list_update)

lemma race_inv_mint:
  assumes inv: "race_inv c" and room: "sm_next_fh (rc_sm c) + 1 \<noteq> 0"
  shows "race_inv (race_move c (Act_Mint i))"
proof (cases "i < length (rc_mints c)")
  case True
  let ?t = "rc_mints c ! i"
  obtain sm' pc' where s: "mint_pc_step (rc_sm c) (mt_object ?t) (mt_pc ?t) = (sm', pc')" by fastforce
  have t: "mints_view (rc_mints c) i = Some (mt_object ?t, mt_pc ?t)"
    using True by (simp add: mints_view_def)
  have I: "sm_persistent_fh (rc_sm c) = []" "hm_wf (sm_fh_to_object (rc_sm c))"
    "marked (set (rc_ids c)) (set (sm_retired_objects (rc_sm c))) (rc_retire c)"
    "handles_apart (sm_fh_boot_nonce (rc_sm c)) (sm_next_fh (rc_sm c)) (hm_get (sm_fh_to_object (rc_sm c)))
      (hm_get (sm_object_to_fh (rc_sm c))) (mints_view (rc_mints c))"
    "accounted (set (rc_ids c)) (hm_get (sm_fh_to_object (rc_sm c))) (hm_get (sm_object_to_fh (rc_sm c)))
      (mints_view (rc_mints c)) (rc_retire c)"
    using inv by (simp_all add: race_inv_def Let_def)
  have nc: "mt_pc ?t \<noteq> M_Claiming fh" for fh
    using I(4) t unfolding handles_apart_def by metis
  note v = mint_pc_step_view [OF s I(1) nc]
  show ?thesis
    using v(2,5) I(2,3) handles_apart_step [OF v(1) I(4) t room] accounted_step [OF v(1) I(4,5) t I(3)]
    by (simp add: race_inv_def race_move_def Let_def s True mints_view_upd v(3,4))
qed (simp add: race_move_def inv)

lemma race_inv_retire:
  assumes inv: "race_inv c"
  shows "race_inv (race_move c Act_Retire)"
proof -
  obtain sm' r' where s: "retire_pc_step (rc_sm c) (rc_ids c) (rc_retire c) = (sm', r')" by fastforce
  have frame: "sm_next_fh sm' = sm_next_fh (rc_sm c)" "sm_fh_boot_nonce sm' = sm_fh_boot_nonce (rc_sm c)"
    "sm_persistent_fh (rc_sm c) = [] \<Longrightarrow> sm_persistent_fh sm' = []"
    "hm_wf (sm_fh_to_object (rc_sm c)) \<Longrightarrow> hm_wf (sm_fh_to_object sm')"
    "hm_get (sm_fh_to_object sm') fh = Some x \<Longrightarrow> hm_get (sm_fh_to_object (rc_sm c)) fh = Some x"
    "hm_get (sm_object_to_fh sm') x = Some fh \<Longrightarrow> hm_get (sm_object_to_fh (rc_sm c)) x = Some fh"
    "marked (set (rc_ids c)) (set (sm_retired_objects (rc_sm c))) (rc_retire c) \<Longrightarrow>
      marked (set (rc_ids c)) (set (sm_retired_objects sm')) r'" for fh x
    using s by (auto simp: retire_pc_step_def marked_def hm_simps split: retire_pc.splits list.splits
        prod.splits if_splits)
  have "handles_apart (sm_fh_boot_nonce sm') (sm_next_fh sm') (hm_get (sm_fh_to_object sm'))
      (hm_get (sm_object_to_fh sm')) (mints_view (rc_mints c))"
    unfolding frame(1,2)
  proof (rule handles_apart_sub)
    show "handles_apart (sm_fh_boot_nonce (rc_sm c)) (sm_next_fh (rc_sm c)) (hm_get (sm_fh_to_object (rc_sm c)))
        (hm_get (sm_object_to_fh (rc_sm c))) (mints_view (rc_mints c))"
      using inv by (simp add: race_inv_def Let_def)
  qed (simp_all add: frame(5,6))
  moreover have "accounted (set (rc_ids c)) (hm_get (sm_fh_to_object sm')) (hm_get (sm_object_to_fh sm'))
      (mints_view (rc_mints c)) r'"
    using accounted_retire [OF _ _ s] inv by (simp add: race_inv_def Let_def)
  ultimately show ?thesis
    using inv frame(3,4,7) by (simp add: race_inv_def race_move_def Let_def s)
qed

lemma race_inv_reach:
  assumes "race_reach c0 c" and "race_inv c0"
  shows "race_inv c"
  using assms
proof induction
  case (move c a)
  then show ?case by (cases a) (simp_all add: race_inv_retire race_inv_mint)
qed

definition boot_only :: "state_manager \<Rightarrow> bool" where
  "boot_only sm \<longleftrightarrow> sm_persistent_fh sm = [] \<and> hm_all (\<lambda>fh _. is_boot_fh sm fh) (sm_fh_to_object sm)"

lemma boot_fh_minted:
  assumes "is_boot_fh sm fh" and "u64_of_be (drop FH_NONCE_LEN fh) < n"
  shows "minted (sm_fh_boot_nonce sm) n fh"
proof -
  have "fh = take FH_NONCE_LEN fh @ drop FH_NONCE_LEN fh" by simp
  also have "\<dots> = sm_fh_boot_nonce sm @ be_u64 (u64_of_be (drop FH_NONCE_LEN fh))"
    using assms(1) by (simp add: is_boot_fh_def FH_LEN_def be_u64_of_be)
  finally show ?thesis using assms(2) unfolding minted_def by blast
qed

lemma race_inv_init:
  assumes ok: "fh_ok sm" and boot: "boot_only sm"
  shows "race_inv (race_init sm ids objects)"
proof -
  have b: "hm_get (sm_fh_to_object sm) fh = Some x \<Longrightarrow> is_boot_fh sm fh" for fh x
    using boot hm_all_iff [OF fh_okD(1) [OF ok]] by (auto simp: boot_only_def)
  have m: "hm_get (sm_fh_to_object sm) fh = Some x \<Longrightarrow> minted (sm_fh_boot_nonce sm) (sm_next_fh sm) fh" for fh x
    using b [of fh x] fh_okD(6) [OF ok, of fh x] layouts_disjoint [OF fh_okD(4) [OF ok], of fh]
    by (auto intro: boot_fh_minted)
  have t: "mints_view (rc_mints (race_init sm ids objects)) i = Some (object, pc) \<longleftrightarrow>
      i < length objects \<and> object = objects ! i \<and> pc = M_Start" for i object pc
    by (auto simp: mints_view_def race_init_def)
  have sel: "rc_sm (race_init sm ids objects) = sm" "rc_retire (race_init sm ids objects) = R_Mark ids"
    "rc_ids (race_init sm ids objects) = ids"
    by (simp_all add: race_init_def)
  have "handles_apart (sm_fh_boot_nonce sm) (sm_next_fh sm) (hm_get (sm_fh_to_object sm))
      (hm_get (sm_object_to_fh sm)) (mints_view (rc_mints (race_init sm ids objects)))"
    using m by (auto simp: handles_apart_def t fh_okD(5) [OF ok])
  moreover have "accounted (set ids) (hm_get (sm_fh_to_object sm)) (hm_get (sm_object_to_fh sm))
      (mints_view (rc_mints (race_init sm ids objects))) (R_Mark ids)"
    by (auto simp: accounted_def t fh_okD(5) [OF ok] before_sweep_def)
  ultimately show ?thesis
    using boot fh_okD(1) [OF ok] by (simp add: race_inv_def Let_def sel boot_only_def marked_def)
qed

lemma race_inv_finished:
  assumes inv: "race_inv c" and fin: "race_finished c" and o: "belongs_to object (rc_ids c)"
  shows "hm_get (sm_fh_to_object (rc_sm c)) fh \<noteq> Some object"
    and "hm_get (sm_object_to_fh (rc_sm c)) object = None"
proof -
  have finished: "\<exists>r. pc = M_Done r" if "mints_view (rc_mints c) i = Some (x, pc)" for i x pc
  proof -
    have "i < length (rc_mints c)" and pc: "mt_pc (rc_mints c ! i) = pc"
      using that by (simp_all add: mints_view_def split: if_splits)
    then have "mint_finished (rc_mints c ! i)"
      using fin by (simp add: race_finished_def list_all_length)
    then show ?thesis by (cases pc) (simp_all add: mint_finished_def pc)
  qed
  have "\<not> will_drop_handle (mints_view (rc_mints c)) object fh"
    "\<not> will_drop_name (mints_view (rc_mints c)) object fh" for fh
    unfolding will_drop_handle_def will_drop_name_def by (auto dest!: finished)
  moreover have "accounted (set (rc_ids c)) (hm_get (sm_fh_to_object (rc_sm c)))
      (hm_get (sm_object_to_fh (rc_sm c))) (mints_view (rc_mints c)) R_Done"
    using inv fin by (simp add: race_inv_def race_finished_def Let_def)
  ultimately have none: "hm_get (sm_fh_to_object (rc_sm c)) fh \<noteq> Some object"
    "hm_get (sm_object_to_fh (rc_sm c)) object \<noteq> Some fh" for fh
    using o unfolding accounted_def belongs_to_iff by (fastforce simp: before_sweep_def)+
  show "hm_get (sm_fh_to_object (rc_sm c)) fh \<noteq> Some object"
    by (rule none)
  show "hm_get (sm_object_to_fh (rc_sm c)) object = None"
    using none(2) by (cases "hm_get (sm_object_to_fh (rc_sm c)) object") auto
qed

lemma race_ids [simp]: "rc_ids (race_move c a) = rc_ids c"
  by (simp add: race_move_def Let_def split: race_actor.split prod.split)

lemma race_reach_ids: "race_reach c0 c \<Longrightarrow> rc_ids c = rc_ids c0"
  by (induction rule: race_reach.induct) simp_all

text \<open>The counter has room at every move of a schedule.\<close>

primrec race_room :: "race_config \<Rightarrow> race_actor list \<Rightarrow> bool" where
  "race_room c [] = True"
| "race_room c (a # as) = (sm_next_fh (rc_sm c) + 1 \<noteq> 0 \<and> race_room (race_move c a) as)"

lemma race_run_reach:
  assumes "race_reach c0 c" and "race_room c as"
  shows "race_reach c0 (race_run c as)"
  using assms by (induction as arbitrary: c) (simp_all add: race_run_def race_reach.move)

section \<open>A handle that outlives its object\<close>

definition race_sm :: state_manager where
  "race_sm = record_persistent_fh
     (state_manager_with_config (state_config_new \<lparr>id_owner_major_id = [], id_owner_minor_id = 0, id_scope = []\<rparr>)
        0 0 [1, 2, 3, 4, 5, 6, 7, 8]) 7 [42]"

definition race_schedule :: "race_actor list" where
  "race_schedule =
     replicate 3 (Act_Mint 1) @ replicate 5 (Act_Mint 0)
     @ [Act_Retire, Act_Mint 0, Act_Mint 0] @ [Act_Retire, Act_Retire]
     @ [Act_Mint 1, Act_Mint 1] @ replicate 4 Act_Retire @ [Act_Mint 0]"

lemma race_run_outcome:
  "let c = race_run (race_init race_sm [7] [Obj_Fs 7, Obj_Fs 7]) race_schedule in
   race_finished c \<and> is_retired (rc_sm c) (Obj_Fs 7)
   \<and> mt_pc (rc_mints c ! 1) = M_Done (Some [PERSISTENT_FH_TAG, 42])
   \<and> fh_to_object (rc_sm c) [PERSISTENT_FH_TAG, 42] = Some (Obj_Fs 7)"
  by code_simp

end
