(* ===== verification/Handle_Properties.thy ===== *)
theory Handle_Properties
  imports Mint_Race
begin

text \<open>
  The properties of file handles and of retirement: what the lemmas of \<open>Filehandles\<close>, \<open>Retirement\<close> and
  \<open>Mint_Race\<close> say about the server's promises, each with a concrete instance.
\<close>

section \<open>Example states\<close>

definition example_config :: state_config where
  "example_config = state_config_new \<lparr>id_owner_major_id = [115], id_owner_minor_id = 0, id_scope = [115]\<rparr>"

definition example_boot :: "bytes \<Rightarrow> state_manager" where
  "example_boot nonce = state_manager_with_config example_config 1700000000 5 nonce"

definition example_server :: state_manager where
  "example_server = example_boot [1, 2, 3, 4, 5, 6, 7, 8]"

text \<open>Object 7 has a persistent encoding, object 8 a boot scoped handle and an open.\<close>

definition example_handles :: state_manager where
  "example_handles =
     (let sm = record_persistent_fh example_server 7 [42];
          sm = fst (object_to_fh sm (Obj_Fs 7));
          sm = fst (object_to_fh sm (Obj_Fs 8));
          sm = fst (object_to_fh sm (Obj_NamedAttrDir 8)) in
      fst (create_open_state sm 0 (Obj_Fs 8) \<lparr>so_clientid = 3, so_owner = [65]\<rparr> 3 0))"

section \<open>Minting and resolving\<close>

text \<open>
  C8. A file handle that the server hands out for an object resolves to that object in the state the
  call leaves behind, a second call for the object returns the same handle, and no other object gets
  it: handles and objects correspond one to one.
\<close>

theorem minted_handle_resolves:
  assumes ok: "fh_ok sm" and room: "sm_next_fh sm + 1 \<noteq> 0"
    and mint: "object_to_fh sm object = (sm', Some fh)"
  shows "fh_to_object sm' fh = Some object \<and> object_to_fh sm' object = (sm', Some fh)
    \<and> (hm_get (sm_object_to_fh sm') object' = Some fh \<longrightarrow> object' = object)"
proof -
  have ok': "fh_ok sm'"
    using object_to_fh_ok [OF ok room, of object] mint by simp
  have known: "hm_get (sm_object_to_fh sm') object = Some fh"
    by (rule object_to_fh_known [OF ok mint])
  show ?thesis
    using fh_ok_resolves [OF ok' known] known fh_okD(5) [OF ok', of object fh] fh_okD(5) [OF ok', of object' fh]
    by (auto simp: object_to_fh_def)
qed

theorem minted_handle_resolves_witness:
  "fh_to_object (fst (object_to_fh example_handles (Obj_Fs 9))) ([1, 2, 3, 4, 5, 6, 7, 8] @ be_u64 3) = Some (Obj_Fs 9)"
proof -
  have "fh_ok example_handles" "sm_next_fh example_handles + 1 \<noteq> 0"
    "snd (object_to_fh example_handles (Obj_Fs 9)) = Some ([1, 2, 3, 4, 5, 6, 7, 8] @ be_u64 3)"
    by code_simp+
  then show ?thesis
    using minted_handle_resolves [of example_handles "Obj_Fs 9"] by (metis prod.collapse)
qed

text \<open>
  C23. A boot scoped handle of one boot never resolves in a boot with another nonce, whatever handles
  that boot has handed out: the handle is refused before the table is consulted.
\<close>

theorem foreign_boot_handle_refused:
  assumes ok: "fh_ok sm1" and mint: "object_to_fh sm1 object = (sm1', Some fh)"
    and boot: "persistent_fh_body fh = None"
    and other: "sm_fh_boot_nonce sm2 \<noteq> sm_fh_boot_nonce sm1"
  shows "fh_to_object sm2 fh = None"
proof -
  have known: "hm_get (sm_object_to_fh sm1') object = Some fh"
    by (rule object_to_fh_known [OF ok mint])
  have "is_boot_fh sm1 fh"
    using ok
  proof (cases rule: object_to_fh_cases [where object = object])
    case (known fh')
    then show ?thesis
      using mint boot fh_okD(5) [OF ok, of object fh] fh_okD(6) [OF ok, of fh object] by auto
  next
    case (persistent i fh')
    then show ?thesis using mint boot fh_okD(7) [OF ok, of i fh] by auto
  next
    case (boot fh')
    moreover have "length (sm_fh_boot_nonce sm1) = FH_NONCE_LEN"
      using fh_okD(4) [OF ok] by (simp add: boot_nonce_ok_def)
    ultimately show ?thesis using mint minted_is_boot_fh by auto
  qed (use mint in simp)
  then show ?thesis
    using boot other by (simp add: fh_to_object_def is_boot_fh_def)
qed

theorem foreign_boot_handle_refused_witness:
  "fh_to_object (fst (object_to_fh (example_boot [9, 9, 9, 9, 9, 9, 9, 9]) (Obj_Fs 8)))
     ([1, 2, 3, 4, 5, 6, 7, 8] @ be_u64 1) = None"
proof -
  have "fh_ok example_server"
    "snd (object_to_fh example_server (Obj_Fs 8)) = Some ([1, 2, 3, 4, 5, 6, 7, 8] @ be_u64 1)"
    "persistent_fh_body ([1, 2, 3, 4, 5, 6, 7, 8] @ be_u64 1) = None"
    "sm_fh_boot_nonce (fst (object_to_fh (example_boot [9, 9, 9, 9, 9, 9, 9, 9]) (Obj_Fs 8))) \<noteq>
       sm_fh_boot_nonce example_server"
    by code_simp+
  then show ?thesis
    using foreign_boot_handle_refused [of example_server "Obj_Fs 8"] by (metis prod.collapse)
qed

section \<open>Retirement\<close>



text \<open>
  C7. Minting races with retirement at the grain of single map operations, with any number of callers
  and any schedule. When the backend has no persistent handles, no mapping outlives the retirement:
  once everybody has finished, no handle resolves to a retired object and no retired object has a
  handle.
\<close>

theorem boot_handles_never_outlive_retirement:
  assumes "fh_ok sm" and "boot_only sm"
    and "race_reach (race_init sm ids objects) c" and "race_finished c" and "belongs_to object ids"
  shows "fh_to_object (rc_sm c) fh \<noteq> Some object \<and> hm_get (sm_object_to_fh (rc_sm c)) object = None"
proof -
  have "race_inv c"
    by (rule race_inv_reach [OF assms(3) race_inv_init [OF assms(1,2)]])
  moreover have "belongs_to object (rc_ids c)"
    using race_reach_ids [OF assms(3)] assms(5) by (simp add: race_init_def)
  ultimately show ?thesis
    using race_inv_finished [of c object] assms(4) by (auto simp: fh_to_object_def)
qed

text \<open>A caller and a retirement, each step of one in turn.\<close>

definition fair_schedule :: "race_actor list" where
  "fair_schedule = concat (replicate 11 [Act_Mint 0, Act_Retire])"

lemma fair_schedule_outcome:
  "let c = race_run (race_init example_server [8] [Obj_Fs 8]) fair_schedule in race_finished c"
  by code_simp

theorem boot_handles_never_outlive_retirement_witness:
  "hm_get (sm_object_to_fh (rc_sm (race_run (race_init example_server [8] [Obj_Fs 8]) fair_schedule))) (Obj_Fs 8) = None"
proof -
  let ?c = "race_init example_server [8] [Obj_Fs 8]"
  have "race_reach ?c (race_run ?c fair_schedule)"
    by (rule race_run_reach [OF race_reach.start]) code_simp
  moreover have "fh_ok example_server" "boot_only example_server" "belongs_to (Obj_Fs 8) [8]"
    by code_simp+
  ultimately show ?thesis
    using boot_handles_never_outlive_retirement fair_schedule_outcome unfolding Let_def by blast
qed

text \<open>
  C24. With a persistent handle the promise fails. Two callers mint for object 7 while it is retired:
  the first publishes the persistent handle, sees the mark and withdraws the handle, the retirement
  collects nothing, the second claims the handle again and finds the first caller's name entry still
  there, so it returns without looking at the mark. All three finish, the object is retired, and the
  handle resolves.
\<close>

theorem persistent_handle_outlives_retirement:
  "\<exists>c. race_reach (race_init race_sm [7] [Obj_Fs 7, Obj_Fs 7]) c \<and> race_finished c
     \<and> is_retired (rc_sm c) (Obj_Fs 7)
     \<and> fh_to_object (rc_sm c) [PERSISTENT_FH_TAG, 42] = Some (Obj_Fs 7)"
proof -
  let ?c = "race_init race_sm [7] [Obj_Fs 7, Obj_Fs 7]"
  have "race_reach ?c (race_run ?c race_schedule)"
    by (rule race_run_reach [OF race_reach.start]) code_simp
  then show ?thesis using race_run_outcome unfolding Let_def by blast
qed

end
