(* ===== verification/Session_Properties.thy ===== *)
theory Session_Properties
  imports State_Machine Handle_Properties
begin

text \<open>
  The properties of the state manager over all reachable states: what the invariant of
  \<open>Session_Invariant\<close> and the step lemmas of \<open>State_Machine\<close> say about clients, sessions, opens,
  locks and delegations, each with a concrete run.
\<close>

section \<open>An example run\<close>

definition example_owner :: client_owner4 where
  "example_owner = \<lparr>co_verifier = replicate 8 1, co_ownerid = [99]\<rparr>"

definition example_exchange :: exchange_id_args4 where
  "example_exchange = \<lparr>ea_clientowner = example_owner, ea_flags = 0, ea_state_protect = SpA_None,
     ea_client_impl_id = []\<rparr>"

definition example_create :: create_session_args4 where
  "example_create = \<lparr>cs_args_clientid = 1, cs_args_sequence = 1, cs_args_flags = 0,
     cs_args_fore_chan_attrs = channel_attrs4_default\<lparr>ca_maxrequests := 2\<rparr>,
     cs_args_back_chan_attrs = channel_attrs4_default, cs_args_cb_program = 0, cs_args_sec_parms = []\<rparr>"

definition example_sid :: sessionid4 where
  "example_sid = mk_sessionid 1 2"

definition example_sequence :: "u32 \<Rightarrow> sequence_args4" where
  "example_sequence q = \<lparr>sa_sessionid = example_sid, sa_sequenceid = q, sa_slotid = 0,
     sa_highest_slotid = 0, sa_cachethis = True\<rparr>"

definition example_open_owner :: state_owner4 where
  "example_open_owner = \<lparr>so_clientid = 1, so_owner = [65]\<rparr>"

definition example_open_id :: stateid4 where
  "example_open_id = mk_stateid 1 (mk_other 1 1)"

definition example_lock_id :: stateid4 where
  "example_lock_id = mk_stateid 1 (mk_other 2 1)"

text \<open>A client registers, creates a session, opens a file, locks a range and gets a delegation.\<close>

definition example_schedule :: "sm_section list" where
  "example_schedule =
     [Sec_ExchangeId 0 example_exchange, Sec_CreateSession 1 example_create 5,
      Sec_Sequence 2 (example_sequence 1) [1] 5,
      Sec_Reap 3, Sec_Open (Obj_Fs 8) example_open_owner 3 2,
      Sec_CreateLock example_open_id \<lparr>so_clientid = 1, so_owner = [66]\<rparr> (Obj_Fs 8) WriteLt 10 20,
      Sec_GrantDelegation 4 (Obj_Fs 3) 1 None 4 8,
      Sec_TouchData \<lparr>ts_seconds = 9, ts_nanos = 0\<rparr> \<lparr>ts_seconds = 9, ts_nanos = 0\<rparr> (Obj_NamedAttrDir 8) Sft_NamedAttrDir]"

definition example_state :: state_manager where
  "example_state = the (run_sections example_schedule example_server)"

lemma example_schedule_ok: "schedule_ok example_schedule example_server"
  by code_simp

lemma example_schedule_runs: "run_sections example_schedule example_server \<noteq> None"
  by code_simp

lemma example_reach: "sm_reach example_server example_state"
  using run_sections_reach [OF sm_reach.start example_schedule_ok] example_schedule_runs
  by (auto simp: example_state_def)

lemma from_example:
  "sm_reach example_server sm \<Longrightarrow>
    sm_reach (state_manager_with_config example_config 1700000000 5 [1, 2, 3, 4, 5, 6, 7, 8]) sm"
  by (simp add: example_server_def example_boot_def)

abbreviation boot :: "state_config \<Rightarrow> u64 \<Rightarrow> u32 \<Rightarrow> bytes \<Rightarrow> state_manager" where
  "boot \<equiv> state_manager_with_config"

lemma boot_reach_inv: "sm_reach (boot config secs nanos nonce) sm \<Longrightarrow> sm_inv sm"
  by (rule sm_reach_inv [OF _ sm_inv_start])

lemma example_inv: "sm_inv example_state"
  using boot_reach_inv [OF from_example [OF example_reach]] .

section \<open>Reachable states\<close>

text \<open>
  C1. Whatever critical sections run, in whatever order and for whatever clients, the tables stay
  consistent as long as no counter wraps: every session belongs to a registered client and is named by
  it, state ids are unique across opens, locks and delegations, the delegation indexes name exactly
  the stored delegations, opens, locks and metadata keep their own invariants. No section panics.
\<close>

theorem reachable_states_are_consistent:
  assumes "sm_reach (state_manager_with_config config secs nanos nonce) sm" and "section_enabled s"
  shows "sm_inv sm \<and> run_section s sm \<noteq> None"
  using boot_reach_inv [OF assms(1)] run_section_total [OF _ assms(2)] by blast

theorem reachable_states_are_consistent_witness:
  "sm_inv example_state \<and> run_section (Sec_UpdateLock example_lock_id ReadLt 0 0xffffffffffffffff) example_state \<noteq> None"
proof -
  have "section_enabled (Sec_UpdateLock example_lock_id ReadLt 0 0xffffffffffffffff)" by code_simp
  then show ?thesis
    using reachable_states_are_consistent [OF from_example [OF example_reach]] by blast
qed

text \<open>
  C2. Share reservations hold in every reachable state: of two active opens of a file, neither denies
  what the other has, and they belong to different owners.
\<close>

theorem share_reservations_hold:
  assumes "sm_reach (state_manager_with_config config secs nanos nonce) sm"
    and "hm_get (si_open_files (sm_inner sm)) k = Some s" "hm_get (si_open_files (sm_inner sm)) k' = Some s'" "k \<noteq> k'"
    and "of_active s" "of_active s'" "of_object s = of_object s'"
  shows "of_share_deny s AND of_share_access s' = 0 \<and> of_share_deny s' AND of_share_access s = 0
    \<and> (of_clientid s, of_owner s) \<noteq> (of_clientid s', of_owner s')"
  using opens_okD(3) [OF sm_inv_parts(1) [OF boot_reach_inv [OF assms(1)]] assms(2-4)] assms(5-7)
  by (auto simp: opens_compatible_def)

definition share_schedule :: "sm_section list" where
  "share_schedule = [Sec_Open (Obj_Fs 8) example_open_owner 1 2, Sec_Open (Obj_Fs 8) \<lparr>so_clientid = 1, so_owner = [66]\<rparr> 1 0,
     Sec_Open (Obj_Fs 8) \<lparr>so_clientid = 1, so_owner = [67]\<rparr> 2 0]"

theorem share_reservations_hold_witness:
  "\<exists>s s'. hm_get (sm_opens (the (run_sections share_schedule example_server))) (mk_other 1 1) = Some s
     \<and> hm_get (sm_opens (the (run_sections share_schedule example_server))) (mk_other 2 1) = Some s'
     \<and> of_share_deny s AND of_share_access s' = 0"
proof -
  let ?r = "run_sections share_schedule example_server"
  have ok: "schedule_ok share_schedule example_server \<and> ?r \<noteq> None
      \<and> (case hm_get (sm_opens (the ?r)) (mk_other 1 1) of Some s \<Rightarrow>
           (case hm_get (sm_opens (the ?r)) (mk_other 2 1) of Some s' \<Rightarrow>
             of_active s \<and> of_active s' \<and> of_object s = of_object s' | None \<Rightarrow> False) | None \<Rightarrow> False)"
    by code_simp
  then obtain s s' where got: "hm_get (sm_opens (the ?r)) (mk_other 1 1) = Some s"
    "hm_get (sm_opens (the ?r)) (mk_other 2 1) = Some s'" "of_active s" "of_active s'" "of_object s = of_object s'"
    by (auto split: option.splits)
  have "sm_reach example_server (the ?r)"
    using ok run_sections_reach [OF sm_reach.start, of share_schedule example_server] by auto
  from share_reservations_hold [OF from_example [OF this] got(1,2)] got(3-5)
  show ?thesis using got by auto
qed

text \<open>
  C18. A state id names at most one open, lock or delegation, and it carries the client it was issued
  to in its last eight bytes.
\<close>

theorem state_ids_name_one_state:
  assumes "sm_reach (state_manager_with_config config secs nanos nonce) sm"
  shows "(hm_get (si_open_files (sm_inner sm)) k = Some s \<longrightarrow> drop 4 k = be_u64 (of_clientid s)
        \<and> hm_get (si_lock_files (sm_inner sm)) k = None \<and> hm_get (si_delegations (sm_inner sm)) k = None)
    \<and> (hm_get (si_lock_files (sm_inner sm)) k = Some l \<longrightarrow> drop 4 k = be_u64 (so_clientid (lf_owner l))
        \<and> hm_get (si_delegations (sm_inner sm)) k = None)
    \<and> (hm_get (si_delegations (sm_inner sm)) k = Some d \<longrightarrow> drop 4 k = be_u64 (dg_clientid d))"
proof -
  have "drop 4 k = be_u64 c" if "key_ok n c k" for n c
  proof -
    have "drop 4 k = drop 4 (mk_other (other_seq k) c)" using that by (simp add: key_ok_def)
    then show ?thesis by (simp add: mk_other_def)
  qed
  then show ?thesis using sm_inv_keysD [OF boot_reach_inv [OF assms]] by blast
qed

theorem state_ids_name_one_state_witness:
  "hm_get (sm_locks example_state) (mk_other 1 1) = None \<and> hm_get (sm_opens example_state) (mk_other 1 1) \<noteq> None"
proof -
  have "hm_get (sm_opens example_state) (mk_other 1 1) \<noteq> None" by code_simp
  then show ?thesis
    using state_ids_name_one_state [OF from_example [OF example_reach], of "mk_other 1 1"] by auto
qed

section \<open>Retirement over time\<close>

text \<open>
  C5. Once an object has been marked retired and the sweep has run, no open, lock or delegation of
  it exists in any later state, whatever ran between the mark and the sweep and whatever runs after.
\<close>

theorem retired_objects_stay_gone:
  assumes "sm_reach (state_manager_with_config config secs nanos nonce) sm0"
    and "sm_reach (mark_retired sm0 ids) sm1"
    and "sm_reach (sm1\<lparr>sm_inner := fst (sweep_inner (sm_inner sm1) ids)\<rparr>) sm2" and "belongs_to object ids"
  shows "(\<forall>k s. hm_get (si_open_files (sm_inner sm2)) k = Some s \<longrightarrow> of_object s \<noteq> object)
    \<and> (\<forall>k l. hm_get (si_lock_files (sm_inner sm2)) k = Some l \<longrightarrow> lf_object l \<noteq> object)
    \<and> (\<forall>k d. hm_get (si_delegations (sm_inner sm2)) k = Some d \<longrightarrow> dg_object d \<noteq> object)"
proof -
  have i0: "sm_inv (mark_retired sm0 ids)"
    by (rule mark_retired_inv [OF boot_reach_inv [OF assms(1)]])
  have i1: "sm_inv sm1" by (rule sm_reach_inv [OF assms(2) i0])
  have "set ids \<subseteq> set (sm_retired_objects sm1)"
    using sm_reach_retired [OF assms(2) i0] by (auto simp: mark_retired_def set_fold_hs_insert)
  then have "gone sm2 ids"
    by (intro sm_reach_gone [OF assms(3) sweep_inner_inv [OF i1]] sweep_gone [OF i1])
  then show ?thesis
    unfolding gone_iff [OF sm_reach_inv [OF assms(3) sweep_inner_inv [OF i1]]] using assms(4) by blast
qed

definition retire_schedule :: "sm_section list" where
  "retire_schedule = [Sec_MarkRetired [8], Sec_Sweep [8], Sec_Open (Obj_Fs 8) example_open_owner 1 0,
     Sec_Open (Obj_Fs 9) example_open_owner 1 0]"

theorem retired_objects_stay_gone_witness:
  "\<not> hm_any (\<lambda>_ s. of_object s = Obj_Fs 8) (sm_opens (the (run_sections retire_schedule example_state)))"
proof -
  let ?m = "mark_retired example_state [8]"
  let ?w = "?m\<lparr>sm_inner := fst (sweep_inner (sm_inner ?m) [8])\<rparr>"
  have eq: "run_sections retire_schedule example_state = run_sections (drop 2 retire_schedule) ?w"
    by (simp add: retire_schedule_def numeral_2_eq_2)
  have "schedule_ok (drop 2 retire_schedule) ?w \<and> run_sections (drop 2 retire_schedule) ?w \<noteq> None" by code_simp
  then have reach: "sm_reach ?w (the (run_sections retire_schedule example_state))"
    unfolding eq using run_sections_reach [OF sm_reach.start] by auto
  have "hm_wf (sm_opens (the (run_sections retire_schedule example_state)))"
    by (rule sm_inv_wf(4) [OF sm_reach_inv [OF reach sweep_inner_inv [OF mark_retired_inv [OF example_inv]]]])
  moreover have "belongs_to (Obj_Fs 8) [8]" by (simp add: belongs_to_def)
  ultimately show ?thesis
    using retired_objects_stay_gone [OF from_example [OF example_reach] sm_reach.start reach]
    by (auto simp: hm_any_iff)
qed


section \<open>Clients and sessions\<close>

lemma created_session_frame:
  assumes inv: "sm_inv (sm\<lparr>sm_inner := inner\<rparr>)" and "hm_get (si_sessions inner) k = Some s"
    and "replaced \<noteq> Some (ss_clientid s)"
  shows "hm_get (si_sessions (replace_client replaced inner)) k = Some s"
  using assms(2,3) sm_inv_wf(3) [OF inv] by (auto simp: replace_client_def hm_simps split: option.split)

lemma new_slots_seq: "slot \<in> set (new_slots req) \<Longrightarrow> sl_sequence_id slot = 1"
  by (simp add: new_slots_def)

text \<open>
  C9. CREATE_SESSION never reuses the id of a session that exists: the id it returns named no
  session before, it names one of the requesting client afterwards, with between 1 and 64 slots that
  all expect sequence id 1, and the client is confirmed. No other session is changed, except that the
  sessions of the client this one replaces may go.
\<close>

theorem create_session_is_fresh:
  assumes "sm_reach (state_manager_with_config config secs nanos nonce) sm" and "counters_ok sm"
    and run: "create_session sm now args conn = (sm', Inr res)"
  shows "hm_get (si_sessions (reap_expired_clients_locked (sm_config sm) (sm_inner sm) now)) (cr_sessionid res) = None
    \<and> (\<exists>session. hm_get (si_sessions (sm_inner sm')) (cr_sessionid res) = Some session
        \<and> ss_clientid session = cs_args_clientid args \<and> ss_slots session \<noteq> [] \<and> length (ss_slots session) \<le> 64
        \<and> (\<forall>slot\<in>set (ss_slots session). sl_sequence_id slot = 1))
    \<and> (\<exists>client. hm_get (si_clients (sm_inner sm')) (cs_args_clientid args) = Some client \<and> cs_confirmed client)"
proof -
  have inv: "sm_inv sm" by (rule boot_reach_inv [OF assms(1)])
  show ?thesis
  proof (cases rule: create_session_cases [of sm now args conn])
    case (refused e)
    then show ?thesis using run by simp
  next
    case (created client s res' inner1)
    let ?r = "reap_expired_clients_locked (sm_config sm) (sm_inner sm) now"
    have r: "sm_inv (sm\<lparr>sm_inner := ?r\<rparr>)" by (rule reap_locked_inv [OF inv])
    have "hm_get (si_sessions ?r) (mk_sessionid (cs_args_clientid args) (cs_sequence_id client + 1)) = None"
      by (rule create_session_core(2) [OF r created(1) reap_sequence_room [OF inv assms(2) created(1)],
            of "confirmed_client client (lease_deadline (sm_config sm) now)"]) (simp_all add: confirmed_client_def)
    moreover have "client_ok (sm_next_clientid sm) (cs_args_clientid args) client"
      using sm_inv_clientD [OF r, of "cs_args_clientid args"] created(1) by simp
    then have "hm_get (si_clients inner1) (cs_args_clientid args) =
        Some (confirmed_client client (lease_deadline (sm_config sm) now))"
      unfolding created(4) by (auto simp: replace_client_get put_client_def hm_simps client_ok_def)
    ultimately show ?thesis
      using created run new_slots_seq by (auto simp: hm_simps confirmed_client_def)
  qed
qed

theorem create_session_is_fresh_witness:
  "\<exists>session. hm_get (si_sessions (sm_inner (fst (create_session example_state 5
     (example_create\<lparr>cs_args_sequence := 2\<rparr>) 5)))) (mk_sessionid 1 3) = Some session \<and> ss_clientid session = 1"
proof -
  let ?c = "create_session example_state 5 (example_create\<lparr>cs_args_sequence := 2\<rparr>) 5"
  have ok: "counters_ok example_state \<and> is_ok (snd ?c)
      \<and> (case snd ?c of Inr res \<Rightarrow> cr_sessionid res = mk_sessionid 1 3 | Inl e \<Rightarrow> False)" by code_simp
  then obtain res where res: "snd ?c = Inr res" "cr_sessionid res = mk_sessionid 1 3"
    by (cases "snd ?c") auto
  then have "?c = (fst ?c, Inr res)" by (metis prod.collapse)
  from create_session_is_fresh [OF from_example [OF example_reach] _ this] ok res(2)
  show ?thesis by (auto simp: example_create_def)
qed

text \<open>
  C10. A lease decides over a client's state. When the reaper runs after the lease of a client has
  ended, the client has no open, lock or delegation left, and its record is gone or marked
  revoked; a client whose lease has not ended keeps its record, its sessions, opens, locks and
  delegations.
\<close>

theorem reaper_respects_leases:
  assumes inv: "sm_inv sm" and "hm_get (si_clients (sm_inner sm)) c = Some client" "cs_lease_state client = Lease_Active d"
    and "sm' = reap_expired_clients sm now"
  shows "(d \<le> now \<longrightarrow>
      (\<forall>k s. hm_get (sm_opens sm') k = Some s \<longrightarrow> of_clientid s \<noteq> c)
      \<and> (\<forall>k l. hm_get (sm_locks sm') k = Some l \<longrightarrow> so_clientid (lf_owner l) \<noteq> c)
      \<and> (\<forall>k g. hm_get (si_delegations (sm_inner sm')) k = Some g \<longrightarrow> dg_clientid g \<noteq> c)
      \<and> (\<forall>client'. hm_get (si_clients (sm_inner sm')) c = Some client' \<longrightarrow> lease_is_revoked (cs_lease_state client')))
    \<and> (now < d \<longrightarrow>
      hm_get (si_clients (sm_inner sm')) c = Some client
      \<and> (\<forall>k s. hm_get (si_sessions (sm_inner sm)) k = Some s \<longrightarrow> ss_clientid s = c \<longrightarrow>
          hm_get (si_sessions (sm_inner sm')) k = Some s)
      \<and> (\<forall>k s. hm_get (sm_opens sm) k = Some s \<longrightarrow> of_clientid s = c \<longrightarrow> hm_get (sm_opens sm') k = Some s)
      \<and> (\<forall>k l. hm_get (sm_locks sm) k = Some l \<longrightarrow> so_clientid (lf_owner l) = c \<longrightarrow> hm_get (sm_locks sm') k = Some l)
      \<and> (\<forall>k g. hm_get (si_delegations (sm_inner sm)) k = Some g \<longrightarrow> dg_clientid g = c \<longrightarrow>
          hm_get (si_delegations (sm_inner sm')) k = Some g))"
proof -
  note wf = sm_inv_wf [OF inv] and ix = sm_inv_parts(3) [OF inv]
  let ?ids = "reaped_ids (sm_config sm) (sm_inner sm) now"
  have gone: "c \<in> set ?ids" "c \<in> set (expired_active now (sm_inner sm))" if "d \<le> now"
    using that assms(2,3) by (auto simp: reaped_ids_def mem_expired_active [OF wf(2)])
  have kept: "c \<notin> set ?ids" if "now < d"
    by (rule live_not_reaped [OF wf(2) assms(2,3) that])
  show ?thesis
    using gone kept assms(2) wf
    by (auto simp: assms(4) reap_sel reap_clients reap_delegations [OF ix] hm.get_ret_Some reaped_ids_def
        lease_is_revoked_def split: option.splits if_splits)
qed

theorem reaper_respects_leases_witness:
  "hm_get (sm_opens (reap_expired_clients example_state 50)) (mk_other 1 1) = hm_get (sm_opens example_state) (mk_other 1 1)
   \<and> hm_get (sm_opens (reap_expired_clients example_state 500)) (mk_other 1 1) = None"
proof -
  have ex: "(case hm_get (si_clients (sm_inner example_state)) 1 of Some c \<Rightarrow> cs_lease_state c = Lease_Active 92 | None \<Rightarrow> False)
      \<and> (case hm_get (sm_opens example_state) (mk_other 1 1) of Some s \<Rightarrow> of_clientid s = 1 | None \<Rightarrow> False)"
    by code_simp
  then obtain client s where got: "hm_get (si_clients (sm_inner example_state)) 1 = Some client"
    "cs_lease_state client = Lease_Active 92" "hm_get (sm_opens example_state) (mk_other 1 1) = Some s" "of_clientid s = 1"
    by (auto split: option.splits)
  note r = reaper_respects_leases [OF example_inv got(1,2) refl]
  have "hm_get (sm_opens (reap_expired_clients example_state 50)) (mk_other 1 1) = Some s"
    using r [of 50] got(3,4) by auto
  moreover have "of_clientid t \<noteq> 1" if "hm_get (sm_opens (reap_expired_clients example_state 500)) (mk_other 1 1) = Some t" for t
    using r [of 500] that by auto
  moreover have "hm_get (sm_opens (reap_expired_clients example_state 500)) (mk_other 1 1) = Some t \<Longrightarrow> of_clientid t = 1" for t
    using got(3,4) sm_inv_wf(4) [OF example_inv] by (auto simp: reap_sel hm.get_ret_Some)
  ultimately show ?thesis using got(3) by (metis option.exhaust)
qed




lemma stale_unconfirmed_mem:
  assumes inv: "sm_inv (sm\<lparr>sm_inner := inner\<rparr>)" and "c \<in> set (stale_unconfirmed inner owner)"
  shows "\<exists>client. hm_get (si_clients inner) c = Some client \<and> \<not> cs_confirmed client"
proof -
  obtain k client where "(k, client) \<in> set (si_clients inner)" "\<not> cs_confirmed client" "cs_clientid client = c"
    using assms(2) by (auto simp: stale_unconfirmed_def)
  moreover from this have "hm_get (si_clients inner) k = Some client"
    using hm_get_iff_mem [OF sm_inv_wf(2) [OF inv], of k client] by simp
  ultimately show ?thesis
    using sm_inv_clientD [OF inv, of k client] by (auto simp: client_ok_def)
qed

text \<open>
  C19. EXCHANGE_ID never takes a confirmed client away: a confirmed client within its lease is
  still registered, unchanged, after any EXCHANGE_ID. A client that registers again with the same owner
  and verifier gets the id it had; otherwise the id is one no client has.
\<close>

theorem exchange_id_keeps_confirmed_clients:
  assumes inv: "sm_inv sm" and run: "exchange_id sm now args = (sm', Inr res)"
    and c: "hm_get (si_clients (sm_inner sm)) c = Some client" "cs_confirmed client"
      "cs_lease_state client = Lease_Active d" "now < d"
  shows "hm_get (si_clients (sm_inner sm')) c = Some client
    \<and> (er_clientid res = sm_next_clientid sm \<or>
       (\<exists>existing. hm_get (si_clients (sm_inner sm)) (er_clientid res) = Some existing
          \<and> cs_owner existing = ea_clientowner args))
    \<and> (cs_owner client = ea_clientowner args \<longrightarrow>
       (\<exists>existing. hm_get (si_clients (sm_inner sm)) (er_clientid res) = Some existing \<and> cs_owner existing = cs_owner client))"
proof -
  let ?r = "reap_expired_clients_locked (sm_config sm) (sm_inner sm) now" and ?owner = "ea_clientowner args"
  have r: "sm_inv (sm\<lparr>sm_inner := ?r\<rparr>)" by (rule reap_locked_inv [OF inv])
  have cr: "hm_get (si_clients ?r) c = Some client"
    using live_not_reaped [OF sm_inv_wf(2) [OF inv] c(1,3,4)] c(1) by (simp add: reap_clients reaped_ids_def)
  show ?thesis
  proof (cases "hm_find (\<lambda>_ cl. same_owner ?owner cl \<and> same_verifier ?owner cl \<and> lease_is_active (cs_lease_state cl)) (si_clients ?r)")
    case (Some kv)
    obtain k e where kv: "kv = (k, e)" by (cases kv)
    have e: "hm_get (si_clients ?r) k = Some e" "same_owner ?owner e" "same_verifier ?owner e" "lease_is_active (cs_lease_state e)"
      using hm_find_SomeD [OF Some [unfolded kv] sm_inv_wf(2) [OF r, simplified]] by simp_all
    have "client_ok (sm_next_clientid sm) k e" using sm_inv_clientD [OF r, of k e] e(1) by simp
    moreover have "hm_get (si_clients (sm_inner sm)) k = Some e"
      using reap_client_cases [OF sm_inv_wf(2) [OF inv] e(1)] e(4)
      by (auto simp: lease_is_active_def split: client_lease_state.splits)
    ultimately show ?thesis
      using run Some kv e cr
      by (auto simp: exchange_id_def exchange_id_res_def client_ok_def same_owner_def same_verifier_def Let_def
          intro!: client_owner4.equality split: if_splits)
  next
    case None
    have next_id: "c \<noteq> sm_next_clientid sm"
      using sm_inv_clientD [OF inv c(1)] by (auto simp: client_ok_def)
    have "c \<notin> set (stale_unconfirmed ?r ?owner)"
      using stale_unconfirmed_mem [OF r] cr c(2) by fastforce
    then have "hm_get (si_clients (sm_inner sm')) c = Some client" "er_clientid res = sm_next_clientid sm"
      using run None cr next_id
      by (auto simp: exchange_id_def exchange_id_res_def put_client_def drop_clients_sel hm_simps hm.get_fold_rem Let_def split: if_splits)
    moreover have "cs_owner client \<noteq> ?owner"
      using hm_find_NoneD [OF None cr] c(3) by (auto simp: same_owner_def same_verifier_def lease_is_active_def)
    ultimately show ?thesis by simp
  qed
qed

theorem exchange_id_keeps_confirmed_clients_witness:
  "hm_get (si_clients (sm_inner (fst (exchange_id example_state 5
     (example_exchange\<lparr>ea_clientowner := example_owner\<lparr>co_verifier := replicate 8 2\<rparr>\<rparr>))))) 1
   = hm_get (si_clients (sm_inner example_state)) 1"
proof -
  let ?e = "exchange_id example_state 5 (example_exchange\<lparr>ea_clientowner := example_owner\<lparr>co_verifier := replicate 8 2\<rparr>\<rparr>)"
  have ex: "is_ok (snd ?e) \<and> (case hm_get (si_clients (sm_inner example_state)) 1 of
      Some c \<Rightarrow> cs_lease_state c = Lease_Active 92 \<and> cs_confirmed c | None \<Rightarrow> False)"
    by code_simp
  then obtain res client where got: "snd ?e = Inr res" "hm_get (si_clients (sm_inner example_state)) 1 = Some client"
    "cs_lease_state client = Lease_Active 92" "cs_confirmed client"
    by (cases "snd ?e") (auto split: option.splits)
  then have "?e = (fst ?e, Inr res)" by (metis prod.collapse)
  from exchange_id_keeps_confirmed_clients [OF example_inv this got(2,4,3)] show ?thesis using got(2) by simp
qed

text \<open>SETCLIENTID leaves the client registered with the verifier it returns and a fresh lease.\<close>

lemma unconfirmed_keys:
  assumes r: "sm_inv (sm\<lparr>sm_inner := inner\<rparr>)" and "hm_get (si_clients inner) k = Some e" "cs_confirmed e"
  shows "k \<notin> set (map (\<lambda>(k, c). cs_clientid c) (filter (\<lambda>(k, c). P c \<and> \<not> cs_confirmed c) (si_clients inner)))"
proof
  assume "k \<in> set (map (\<lambda>(k, c). cs_clientid c) (filter (\<lambda>(k, c). P c \<and> \<not> cs_confirmed c) (si_clients inner)))"
  then obtain j s where s: "(j, s) \<in> set (si_clients inner)" "\<not> cs_confirmed s" "cs_clientid s = k" by auto
  then have "hm_get (si_clients inner) j = Some s"
    using hm_get_iff_mem [OF sm_inv_wf(2) [OF r, simplified], of j s] by simp
  then show False using sm_inv_clientD [OF r, of j s] s assms(2,3) by (simp add: client_ok_def)
qed

lemma set_client_id_registers:
  assumes inv: "sm_inv sm" and run: "set_client_id sm now args = (sm1, res)"
  obtains client where "hm_get (si_clients (sm_inner sm1)) (scr_clientid res) = Some client"
    "cs_v40_confirm client = Some (scr_setclientid_confirm res)"
    "cs_lease_state client = Lease_Active (lease_deadline (sm_config sm) now)" "sm_config sm1 = sm_config sm"
proof -
  let ?r = "reap_expired_clients_locked (sm_config sm) (sm_inner sm) now"
  let ?P = "\<lambda>_ c. same_owner (sc_client args) c \<and> same_verifier (sc_client args) c \<and> cs_confirmed c"
  have r: "sm_inv (sm\<lparr>sm_inner := ?r\<rparr>)" by (rule reap_locked_inv [OF inv])
  show ?thesis
  proof (cases "hm_find ?P (si_clients ?r)")
    case None
    then show ?thesis
      using run that by (auto simp: set_client_id_def Let_def put_client_def hm_simps new_client_def)
  next
    case (Some kv)
    obtain k e where kv: "kv = (k, e)" by (cases kv)
    have e: "hm_get (si_clients ?r) k = Some e" "cs_confirmed e"
      using hm_find_SomeD [OF Some [unfolded kv] sm_inv_wf(2) [OF r, simplified]] by simp_all
    have key: "cs_clientid e = k" using sm_inv_clientD [OF r, of k e] e(1) by (simp add: client_ok_def)
    then show ?thesis
      using run that Some kv e(1) unconfirmed_keys [OF r e, of "same_owner (sc_client args)"]
      by (auto simp: set_client_id_def Let_def put_client_def hm_simps drop_clients_sel hm.get_fold_rem)
  qed
qed

text \<open>
  C21. The NFSv4.0 handshake: the client id and verifier that SETCLIENTID returns are accepted by
  SETCLIENTID_CONFIRM while the lease runs, the client is confirmed from then on, and RENEW extends its lease.
\<close>

theorem setclientid_handshake:
  assumes inv: "sm_inv sm" and c: "counters_ok sm"
    and run: "set_client_id sm now args = (sm1, res)"
    and lease: "now' < lease_deadline (sm_config sm) now"
    and conf: "set_client_id_confirm sm1 now' \<lparr>scc_clientid = scr_clientid res, scc_verifier = scr_setclientid_confirm res\<rparr> = (sm2, r2)"
    and ren: "renew sm2 now'' (scr_clientid res) = (sm3, r3)"
  shows "r2 = Inr () \<and> r3 = Inr ()
    \<and> (\<exists>client. hm_get (si_clients (sm_inner sm3)) (scr_clientid res) = Some client \<and> cs_confirmed client
         \<and> cs_lease_state client = Lease_Active (lease_deadline (sm_config sm) now''))"
proof -
  have i1: "sm_inv sm1" using set_client_id_inv [OF inv c, of now args] run by simp
  obtain client where client: "hm_get (si_clients (sm_inner sm1)) (scr_clientid res) = Some client"
    "cs_v40_confirm client = Some (scr_setclientid_confirm res)"
    "cs_lease_state client = Lease_Active (lease_deadline (sm_config sm) now)" "sm_config sm1 = sm_config sm"
    by (rule set_client_id_registers [OF inv run])
  have "hm_get (si_clients (reap_expired_clients_locked (sm_config sm1) (sm_inner sm1) now')) (scr_clientid res) = Some client"
    using live_not_reaped [OF sm_inv_wf(2) [OF i1] client(1,3) lease] client(1) by (simp add: reap_clients reaped_ids_def)
  then show ?thesis
    using conf ren client(2,4)
    by (auto simp: set_client_id_confirm_def renew_def put_client_def hm_simps Let_def)
qed

theorem setclientid_handshake_witness:
  "let args = \<lparr>sc_client = example_owner, sc_callback = \<lparr>nc_cb_program = 0, nc_cb_netid = [], nc_cb_addr = []\<rparr>, sc_callback_ident = 0\<rparr>;
       (sm1, res) = set_client_id example_server 0 args;
       (sm2, r2) = set_client_id_confirm sm1 10 \<lparr>scc_clientid = scr_clientid res, scc_verifier = scr_setclientid_confirm res\<rparr> in
   r2 = Inr () \<and> snd (renew sm2 20 (scr_clientid res)) = Inr ()"
proof -
  have "counters_ok example_server" "10 < lease_deadline (sm_config example_server) 0" by code_simp+
  from setclientid_handshake [OF boot_reach_inv [OF from_example [OF sm_reach.start]] this(1) prod.collapse [symmetric] this(2)
      prod.collapse [symmetric] prod.collapse [symmetric], of
      "\<lparr>sc_client = example_owner, sc_callback = \<lparr>nc_cb_program = 0, nc_cb_netid = [], nc_cb_addr = []\<rparr>, sc_callback_ident = 0\<rparr>" 20]
  show ?thesis by (simp add: Let_def case_prod_unfold)
qed

end
