(* ===== verification/State_Properties.thy ===== *)
theory State_Properties
  imports Session_Properties
begin

text \<open>
  The properties of the single operations on sessions, opens, locks, delegations and metadata: what
  each of them promises to its caller, with a concrete instance.
\<close>

section \<open>SEQUENCE\<close>

text \<open>
  C3. Exactly once: over any series of SEQUENCE requests and completions, of any sessions, slots and
  connections, the requests that one slot executes carry consecutive sequence ids, so that no sequence id
  is executed twice before all $2^{32}$ of them have been used.
\<close>

theorem slot_executes_each_id_once:
  assumes "tables_wf inner" and "session_slot inner sid slotid = Some slot"
  shows "executed config sid slotid evs inner =
      map (\<lambda>i. sl_sequence_id slot + word_of_nat i) [0..<length (executed config sid slotid evs inner)]
    \<and> (length (executed config sid slotid evs inner) \<le> 2 ^ 32 \<longrightarrow> distinct (executed config sid slotid evs inner))"
  using executed_consecutive [OF assms, of config evs] distinct_consecutive by metis

text \<open>A request, its retry while it runs, its completion, its retry, and the next request.\<close>

definition example_events :: "seq_event list" where
  "example_events = [Ev_Prepare 3 (example_sequence 2) [7] 5, Ev_Prepare 4 (example_sequence 2) [7] 5,
     Ev_Finish \<lparr>tk_sessionid = example_sid, tk_slotid = 0, tk_fingerprint = [7]\<rparr> [1, 2],
     Ev_Prepare 5 (example_sequence 2) [7] 5, Ev_Prepare 6 (example_sequence 3) [8] 5]"

theorem slot_executes_each_id_once_witness:
  "executed example_config example_sid 0 example_events (sm_inner example_state) = [2, 3]
   \<and> distinct (executed example_config example_sid 0 example_events (sm_inner example_state))"
proof -
  have ex: "executed example_config example_sid 0 example_events (sm_inner example_state) = [2, 3]
      \<and> session_slot (sm_inner example_state) example_sid 0 \<noteq> None" by code_simp
  then obtain slot where "session_slot (sm_inner example_state) example_sid 0 = Some slot" by auto
  from slot_executes_each_id_once [OF sm_inv_wf(1) [OF example_inv] this, of example_config example_events]
  show ?thesis using ex by simp
qed

text \<open>
  C11. A retry of a request that has finished is answered with the cached reply when it is the same
  request, and refused as a false retry when it is not; it is never executed again.
\<close>

theorem finished_request_is_replayed:
  assumes "sm_inv sm" and "prepare_sequence sm now args fp conn = (sm1, Seq_Execute res token)"
    and "finish_sequence sm1 token response = (sm2, Inr ())"
    and "now' < lease_deadline (sm_config sm) now"
  shows "snd (prepare_sequence sm2 now' args fp' conn) =
    (if fp' = fp then Seq_Replay response else Seq_Error Stat_SeqFalseRetry)"
proof -
  have p: "prepare_sequence_locked (sm_config sm) (sm_inner sm) now args fp conn = (sm_inner sm1, Seq_Execute res token)"
    and c: "sm_config sm1 = sm_config sm"
    using assms(2) by (auto simp: prepare_sequence_def split: prod.splits)
  have f: "finish_sequence_locked (sm_inner sm1) token response = (sm_inner sm2, Inr ())" "sm_config sm2 = sm_config sm1"
    using assms(3) by (auto simp: finish_sequence_def split: prod.splits)
  show ?thesis
    using finished_retry [OF sm_inv_wf(1) [OF assms(1)] p f(1) assms(4), of fp'] c f(2)
    by (simp add: prepare_sequence_def case_prod_unfold)
qed

theorem finished_request_is_replayed_witness:
  "let (sm1, r) = prepare_sequence example_state 3 (example_sequence 2) [7] 5;
       sm2 = fst (finish_sequence sm1 \<lparr>tk_sessionid = example_sid, tk_slotid = 0, tk_fingerprint = [7]\<rparr> [1, 2]) in
   snd (prepare_sequence sm2 4 (example_sequence 2) [7] 5) = Seq_Replay [1, 2]"
proof -
  let ?p = "prepare_sequence example_state 3 (example_sequence 2) [7] 5"
  let ?tok = "\<lparr>tk_sessionid = example_sid, tk_slotid = 0, tk_fingerprint = [7]\<rparr>"
  let ?f = "finish_sequence (fst ?p) ?tok [1, 2]"
  have ex: "(case snd ?p of Seq_Execute res token \<Rightarrow> token = ?tok | _ \<Rightarrow> False) \<and> is_ok (snd ?f)
      \<and> 4 < lease_deadline (sm_config example_state) 3" by code_simp
  then obtain res where "snd ?p = Seq_Execute res ?tok" by (cases "snd ?p") auto
  then have p: "?p = (fst ?p, Seq_Execute res ?tok)" by (metis prod.collapse)
  have f: "?f = (fst ?f, Inr ())" using ex is_ok_unit by (metis prod.collapse)
  from finished_request_is_replayed [OF example_inv p f, of 4 "[7]"] ex
  show ?thesis by (simp add: Let_def case_prod_unfold)
qed

section \<open>Opens\<close>

lemma create_open_state_Inr:
  assumes wf: "hm_wf (sm_opens sm)" and "create_open_state_locked sm object owner access deny = (sm', Inr sid)"
  obtains s where "hm_get (sm_opens sm') (sid_other sid) = Some s" "of_active s" "of_object s = object"
    "of_clientid s = so_clientid owner" "of_stateid_seq s = sid_seqid sid" "of_share_access s AND access = access"
    "si_clients (sm_inner sm') = si_clients (sm_inner sm)" "sm_config sm' = sm_config sm"
    "sid_other sid = mk_other (sm_next_stateid sm) (so_clientid owner) \<or> hm_get (sm_opens sm) (sid_other sid) \<noteq> None"
  using wf
proof (cases rule: create_open_state_locked_cases [where object = object and owner = owner and access = access and deny = deny])
  case (upgrade other s)
  have "(of_share_access s OR access) AND access = access" by (auto simp: bit_eq_iff bit_simps)
  then show ?thesis
    using assms(2) upgrade by (intro that [of "s\<lparr>of_share_access := of_share_access s OR access,
        of_share_deny := of_share_deny s OR deny, of_stateid_seq := of_stateid_seq s + 1\<rparr>"])
      (auto simp: hm_simps owned_open_def)
next
  case fresh
  then show ?thesis using assms(2) by (intro that) (auto simp: hm_simps)
qed (use assms(2) in auto)

lemma key_ok_plain:
  assumes "key_ok n c k"
  shows "k \<noteq> replicate 12 0" "k \<noteq> replicate 12 0xff"
proof -
  have "0 < other_seq k" "other_seq k < n" and k: "k = mk_other (other_seq k) c" using assms by (simp_all add: key_ok_def)
  moreover have "unat n < 4294967296" by simp
  then have "\<not> 4294967295 < unat n" by linarith
  then have "\<not> (0xffffffff :: u32) < n" by (simp add: word_less_nat_alt)
  ultimately have "other_seq k \<noteq> 0" "other_seq k \<noteq> 0xffffffff" by auto
  then show "k \<noteq> replicate 12 0" "k \<noteq> replicate 12 0xff"
    using mk_other_not_special [of "other_seq k" c] k by metis+
qed

text \<open>
  C14. The state id that OPEN returns resolves: while the client's lease runs, resolving it for that
  client yields the open of the requested object with at least the requested access, and TEST_STATEID
  reports it as valid.
\<close>

theorem opened_stateid_resolves:
  assumes inv: "sm_inv sm" and c: "counters_ok sm"
    and run: "create_open_state sm now object owner access deny = (sm', Inr sid)"
    and client: "hm_get (si_clients (sm_inner sm')) (so_clientid owner) = Some client"
      "cs_lease_state client = Lease_Active d" "now' < d"
  shows "(\<exists>ro. snd (resolve_stateid sm' now' (Some (so_clientid owner)) sid cur mode) = Inr (Resolved_Open ro)
      \<and> ro_object ro = object \<and> ro_share_access ro AND access AND 3 = access AND 3)
    \<and> snd (test_stateids sm' now' [sid]) = [Stat_Ok]"
proof -
  let ?r = "reap_expired_clients sm now" and ?a = "access AND OPEN4_SHARE_ACCESS_BOTH"
  have ir: "sm_inv ?r" by (rule reap_inv [OF inv])
  have cr: "counters_ok ?r"
    using c reap_sequence_room [OF inv c] sm_inv_wf(2) [OF ir]
    by (auto simp: counters_ok_def meta_counters_ok_def reap_expired_clients_def hm_all_iff)
  have mode: "?a \<noteq> 0" "deny AND NOT OPEN4_SHARE_DENY_BOTH = 0"
    and locked: "create_open_state_locked ?r object owner ?a deny = (sm', Inr sid)"
    using run by (auto simp: create_open_state_def Let_def split: if_splits)
  have "?a AND NOT OPEN4_SHARE_ACCESS_BOTH = 0" using and_both_mask by (simp add: share_consts)
  then have i': "sm_inv sm'"
    using create_open_inv [OF ir cr mode(1) _ mode(2), of object owner] locked by simp
  obtain s where s: "hm_get (sm_opens sm') (sid_other sid) = Some s" "of_active s" "of_object s = object"
    "of_clientid s = so_clientid owner" "of_stateid_seq s = sid_seqid sid" "of_share_access s AND ?a = ?a"
    by (rule create_open_state_Inr [OF sm_inv_wf(4) [OF ir] locked])
  let ?i = "reap_expired_clients_locked (sm_config sm') (sm_inner sm') now'"
  have keep: "hm_get (si_open_files ?i) (sid_other sid) = Some s"
    using open_survives_reap [OF sm_inv_wf(4) [OF i'] s(1)] live_not_reaped [OF sm_inv_wf(2) [OF i'] client] s(4) by simp
  have plain: "sid_other sid \<noteq> replicate 12 0" "sid_other sid \<noteq> replicate 12 0xff"
    using key_ok_plain sm_inv_keysD(1) [OF i' s(1)] by blast+
  have res: "resolve_concrete ?i cl sid = Inr (Resolved_Open
      \<lparr>ro_other = sid_other sid, ro_object = object, ro_share_access = of_share_access s\<rparr>)"
    if "cl = None \<or> cl = Some (so_clientid owner)" for cl
    using resolve_concrete_openI [OF keep s(2), of cl] s that by simp
  show ?thesis
    using res [of None] res [of "Some (so_clientid owner)"] test_stateid_open [OF plain keep] normalize_stateid_plain [OF plain] s(6)
    by (auto simp: resolve_stateid_def test_stateids_def Let_def share_consts and.assoc)
qed

theorem opened_stateid_resolves_witness:
  "snd (test_stateids (fst (create_open_state example_state 5 (Obj_Fs 9) example_open_owner 1 0)) 6 [mk_stateid 1 (mk_other 4 1)]) = [Stat_Ok]"
proof -
  let ?o = "create_open_state example_state 5 (Obj_Fs 9) example_open_owner 1 0"
  have ex: "counters_ok example_state \<and> so_clientid example_open_owner = 1
      \<and> (case snd ?o of Inr sid \<Rightarrow> sid = mk_stateid 1 (mk_other 4 1) | Inl e \<Rightarrow> False)
      \<and> (case hm_get (si_clients (sm_inner (fst ?o))) 1 of Some c \<Rightarrow> cs_lease_state c = Lease_Active 92 | None \<Rightarrow> False)"
    by code_simp
  then have o4: "?o = (fst ?o, Inr (mk_stateid 1 (mk_other 4 1)))" by (cases "snd ?o") (auto simp: prod_eq_iff)
  obtain client where "hm_get (si_clients (sm_inner (fst ?o))) (so_clientid example_open_owner) = Some client"
    "cs_lease_state client = Lease_Active 92" using ex by (auto split: option.splits)
  from opened_stateid_resolves [OF example_inv _ o4 this, of 6] ex show ?thesis by simp
qed


text \<open>
  C15. CLOSE succeeds only for an active open whose state id is current and that no active lock
  depends on. It ends the open and nothing else, the state id no longer resolves, and the caller
  is told that this was the last writer exactly when the open could write and no other active open
  of the object can.
\<close>

theorem close_ends_the_open:
  assumes inv: "sm_inv sm" and run: "close_state_locked sm sid = (sm', Inr out)"
  shows "\<exists>s. hm_get (sm_opens sm) (sid_other sid) = Some s \<and> of_active s
    \<and> (\<forall>k l. hm_get (sm_locks sm) k = Some l \<longrightarrow> lf_active l \<longrightarrow> lf_open_state_other l \<noteq> sid_other sid)
    \<and> (\<forall>k. k \<noteq> sid_other sid \<longrightarrow> hm_get (sm_opens sm') k = hm_get (sm_opens sm) k)
    \<and> sm_locks sm' = sm_locks sm
    \<and> (\<forall>c q. \<not> is_ok (resolve_concrete (sm_inner sm') c (mk_stateid q (sid_other sid))))
    \<and> (cl_last_writer out \<longleftrightarrow> of_share_access s AND 2 \<noteq> 0
        \<and> \<not> (\<exists>k t. hm_get (sm_opens sm') k = Some t \<and> of_active t \<and> of_object t = of_object s
              \<and> of_share_access t AND 2 \<noteq> 0))"
proof -
  obtain s where s: "hm_get (sm_opens sm) (sid_other sid) = Some s" "of_active s"
    "sm' = put_open (sid_other sid) (s\<lparr>of_active := False, of_stateid_seq := of_stateid_seq s + 1\<rparr>) sm"
    "cl_last_writer out \<longleftrightarrow> of_share_access s AND OPEN4_SHARE_ACCESS_WRITE \<noteq> 0
       \<and> \<not> (\<exists>k t. k \<noteq> sid_other sid \<and> hm_get (sm_opens sm) k = Some t \<and> of_active t
            \<and> of_object t = of_object s \<and> of_share_access t AND OPEN4_SHARE_ACCESS_WRITE \<noteq> 0)"
    "\<not> hm_any (\<lambda>_ lock. lf_active lock \<and> lf_open_state_other lock = sid_other sid) (sm_locks sm)"
    by (rule close_state_locked_Inr [OF sm_inv_wf(4) [OF inv] run])
  have "\<not> is_ok (resolve_concrete (sm_inner sm') c (mk_stateid q (sid_other sid)))" for c q
    by (simp add: s(3) resolve_concrete_def hm_simps validate_stateid_seq_def)
  then show ?thesis
    using s(1,2,4,5) sm_inv_wf(5) [OF inv]
    by (intro exI [of _ s]) (auto simp: s(3) hm_simps hm_any_iff share_consts split: if_splits)
qed

theorem close_ends_the_open_witness:
  "hm_get (sm_locks (the (run_sections [Sec_Unlock example_lock_id 0 0xffffffffffffffff, Sec_Close example_open_id] example_state)))
     (mk_other 2 1) \<noteq> None"
proof -
  let ?sm = "the (run_section (Sec_Unlock example_lock_id 0 0xffffffffffffffff) example_state)"
  have ex: "section_enabled (Sec_Unlock example_lock_id 0 0xffffffffffffffff) \<and> counters_ok example_state
      \<and> is_ok (snd (close_state_locked ?sm example_open_id)) \<and> hm_get (sm_locks ?sm) (mk_other 2 1) \<noteq> None"
    by code_simp
  have inv: "sm_inv ?sm"
    using run_section_inv [OF example_inv _ _, of "Sec_Unlock example_lock_id 0 0xffffffffffffffff" ?sm] ex by simp
  obtain out where "snd (close_state_locked ?sm example_open_id) = Inr out"
    using ex by (cases "snd (close_state_locked ?sm example_open_id)") auto
  then have "close_state_locked ?sm example_open_id = (fst (close_state_locked ?sm example_open_id), Inr out)"
    by (metis prod.collapse)
  from close_ends_the_open [OF inv this] ex show ?thesis by (auto simp: option.case_eq_if)
qed

section \<open>Locks\<close>






text \<open>Two owners with the same file open for writing.\<close>

definition racing_owner :: "u8 \<Rightarrow> state_owner4" where
  "racing_owner n = \<lparr>so_clientid = 1, so_owner = [n]\<rparr>"

definition racing_schedule :: "sm_section list" where
  "racing_schedule = [Sec_Open (Obj_Fs 8) (racing_owner 1) 2 0, Sec_Open (Obj_Fs 8) (racing_owner 2) 2 0]"

definition racing_opens :: state_manager where
  "racing_opens = the (run_sections racing_schedule example_server)"

lemma racing_reach: "sm_reach example_server racing_opens"
proof -
  have "schedule_ok racing_schedule example_server \<and> run_sections racing_schedule example_server \<noteq> None" by code_simp
  then show ?thesis
    using run_sections_reach [OF sm_reach.start, of racing_schedule example_server racing_opens]
    by (auto simp: racing_opens_def)
qed





definition lock_race :: "sm_section list" where
  "lock_race = [Sec_CreateLock (mk_stateid 1 (mk_other 1 1)) (racing_owner 1) (Obj_Fs 8) WriteLt 0 10,
      Sec_CreateLock (mk_stateid 1 (mk_other 2 1)) (racing_owner 2) (Obj_Fs 8) WriteLt 0 10]"

definition racing_locks :: state_manager where
  "racing_locks = the (run_sections lock_race racing_opens)"

text \<open>
  C25. LOCK asks for conflicts in one critical section and grants in another, and the grant does not
  ask again. Two owners that both ask first and then both get their lock hold a write lock on the
  same byte.
\<close>

theorem racing_locks_overlap:
  "snd (find_lock_conflict racing_opens 0 (Obj_Fs 8) (racing_owner 1) WriteLt 0 10 None) = None
   \<and> snd (find_lock_conflict racing_opens 0 (Obj_Fs 8) (racing_owner 2) WriteLt 0 10 None) = None
   \<and> sm_reach example_server racing_locks \<and> \<not> lock_exclusion (sm_locks racing_locks)"
proof -
  have ex: "snd (find_lock_conflict racing_opens 0 (Obj_Fs 8) (racing_owner 1) WriteLt 0 10 None) = None
     \<and> snd (find_lock_conflict racing_opens 0 (Obj_Fs 8) (racing_owner 2) WriteLt 0 10 None) = None"
    by code_simp
  have "schedule_ok lock_race racing_opens \<and> run_sections lock_race racing_opens \<noteq> None" by code_simp
  then have reach: "sm_reach example_server racing_locks"
    using run_sections_reach [OF racing_reach, of lock_race racing_locks] by (auto simp: racing_locks_def)
  have "(case hm_get (sm_locks racing_locks) (mk_other 3 1) of Some l \<Rightarrow>
      (case hm_get (sm_locks racing_locks) (mk_other 4 1) of Some l' \<Rightarrow>
        lf_active l \<and> lf_active l' \<and> lf_object l = lf_object l' \<and> \<not> same_lock_owner (lf_owner l) (lf_owner l')
        \<and> covered WriteLt (lf_ranges l) 0 \<and> covered WriteLt (lf_ranges l') 0 | None \<Rightarrow> False) | None \<Rightarrow> False)"
    by code_simp
  then obtain l l' where "hm_get (sm_locks racing_locks) (mk_other 3 1) = Some l"
    "hm_get (sm_locks racing_locks) (mk_other 4 1) = Some l'" "\<not> locks_exclude l l'"
    by (fastforce simp: locks_exclude_def lock_byte_def is_write_lock_def split: option.splits)
  then have "\<not> lock_exclusion (sm_locks racing_locks)"
    unfolding lock_exclusion_def using mk_other_eq_iff [of 3 1 4 1] by force
  then show ?thesis using ex reach by blast
qed





section \<open>Delegations\<close>

lemma find_live_None:
  assumes ok: "delegation_index_ok inner" and none: "find_live_directory_delegation inner object c = None"
    and d: "hm_get (si_delegations inner) k = Some d" "dg_object d = object" "dg_clientid d = c"
  shows "\<not> is_live_delegation_status (dg_status d)"
proof -
  have "k \<in> set (idx_get (si_client_delegations inner) c)"
    using ok d idx.indexes_look [of dg_clientid "si_client_delegations inner" "si_delegations inner" k c]
    by (auto simp: delegation_index_ok_iff)
  moreover have "dg_kind d = DirectoryRead" by (cases "dg_kind d")
  ultimately show ?thesis
    using none d by (auto simp: find_live_directory_delegation_def idx_get_def find_None_iff
        is_live_delegation_status_def split: option.splits)
qed

lemma no_recall_None:
  assumes ok: "delegation_index_ok inner" and none: "\<not> has_recall_in_progress inner object"
    and d: "hm_get (si_delegations inner) k = Some d" "dg_object d = object"
  shows "dg_status d \<noteq> Deleg_RecallInProgress"
proof -
  have "k \<in> set (idx_get (si_dir_delegations inner) object)"
    using ok d idx.indexes_look [of dg_object "si_dir_delegations inner" "si_delegations inner" k object]
    by (auto simp: delegation_index_ok_iff)
  then show ?thesis
    using none d by (auto simp: has_recall_in_progress_def idx_get_def list_ex_iff split: option.splits)
qed

text \<open>
  C16. A delegation is granted only within the limits: the grant finds the client below its limit and
  the server below the total limit, no live delegation of the client on the directory and no recall
  under way on it, and both counts grow by exactly one.
\<close>

theorem delegation_grant_within_limits:
  assumes inv: "sm_inv sm"
    and run: "grant_directory_delegation_locked sm now' object c session m n = (sm', Inr (Grant_Granted sid))"
  shows "client_delegation_count (sm_inner sm) c < m \<and> total_delegation_count (sm_inner sm) < n
    \<and> client_delegation_count (sm_inner sm') c = client_delegation_count (sm_inner sm) c + 1
    \<and> total_delegation_count (sm_inner sm') = total_delegation_count (sm_inner sm) + 1
    \<and> (\<forall>c'. c' \<noteq> c \<longrightarrow> client_delegation_count (sm_inner sm') c' = client_delegation_count (sm_inner sm) c')
    \<and> (\<forall>k d. hm_get (si_delegations (sm_inner sm)) k = Some d \<longrightarrow> dg_object d = object \<longrightarrow>
        dg_status d \<noteq> Deleg_RecallInProgress \<and> (dg_clientid d = c \<longrightarrow> \<not> is_live_delegation_status (dg_status d)))
    \<and> \<not> is_retired sm object"
proof -
  let ?other = "mk_other (sm_next_stateid sm) c" and ?d = "new_delegation object c session now'"
  have guards: "\<not> is_retired sm object" "find_live_directory_delegation (sm_inner sm) object c = None"
    "\<not> has_recall_in_progress (sm_inner sm) object" "client_delegation_count (sm_inner sm) c < m"
    "total_delegation_count (sm_inner sm) < n"
    and sm': "sm_inner sm' = insert_delegation_locked (sm_inner sm) ?other ?d"
    using run by (auto simp: grant_directory_delegation_locked_def enter_delegation_def Let_def split: if_splits)
  have new: "dg_clientid ?d = c" by (simp add: new_delegation_def)
  note fresh = sm_inv_fresh(3) [OF inv, of c]
  show ?thesis
    unfolding sm' total_count_insert [OF fresh] client_count_insert [OF sm_inv_parts(3) [OF inv] fresh]
    using guards find_live_None [OF sm_inv_parts(3) [OF inv] guards(2)] no_recall_None [OF sm_inv_parts(3) [OF inv] guards(3)]
    by (auto simp: new)
qed

theorem delegation_grant_within_limits_witness:
  "client_delegation_count (sm_inner (fst (grant_directory_delegation_locked example_state 5 (Obj_Fs 4) 1 None 2 2))) 1 = 2"
proof -
  let ?g = "grant_directory_delegation_locked example_state 5 (Obj_Fs 4) 1 None 2 2"
  have ex: "(case snd ?g of Inr (Grant_Granted sid) \<Rightarrow> True | _ \<Rightarrow> False)
      \<and> client_delegation_count (sm_inner example_state) 1 = 1" by code_simp
  then obtain sid where "?g = (fst ?g, Inr (Grant_Granted sid))"
    by (cases "snd ?g") (auto simp: prod_eq_iff split: directory_delegation_grant.splits)
  from delegation_grant_within_limits [OF example_inv this] ex show ?thesis by simp
qed

lemma recall_loop_list:
  "k \<in> set others \<Longrightarrow> hm_get (si_delegations inner) k = Some d \<Longrightarrow> dg_status d = Deleg_Granted
    \<Longrightarrow> excluded \<noteq> Some (dg_clientid d) \<Longrightarrow>
    \<exists>r\<in>set (snd (recall_loop now' excluded others inner)). sid_other (dr_stateid r) = k \<and> dr_send_callback r
      \<and> dr_clientid r = dg_clientid d"
proof (induction others arbitrary: inner)
  case (Cons x xs)
  have kind: "dg_kind d = DirectoryRead" by (cases "dg_kind d")
  have split: "snd (recall_loop now' excluded (x # xs) inner) = snd (recall_one now' excluded x inner)
      @ snd (recall_loop now' excluded xs (fst (recall_one now' excluded x inner)))"
    by (simp add: case_prod_unfold Let_def)
  have get: "k \<noteq> x \<Longrightarrow> hm_get (si_delegations (fst (recall_one now' excluded x inner))) k = hm_get (si_delegations inner) k"
    by (simp add: recall_one_get split: option.split)
  show ?case
    using Cons.IH [of "fst (recall_one now' excluded x inner)"] Cons.prems get
    unfolding split by (cases "k = x") (auto simp: recall_one_def kind Let_def)
qed simp

text \<open>
  C17. Recalling the delegations of a directory puts every granted delegation on it, except those of
  the client that caused the recall, into the recall state, leaves all other delegations as they
  are, and is the work list of the callbacks: each delegation that changes is to be called back.
\<close>

theorem recall_reaches_every_holder:
  assumes inv: "sm_inv sm" and run: "begin_directory_recall_excluding sm now now' object excluded = (sm', recalls)"
    and d: "hm_get (si_delegations (sm_inner (reap_expired_clients sm now))) k = Some d"
  shows "if dg_object d = object \<and> dg_status d = Deleg_Granted \<and> excluded \<noteq> Some (dg_clientid d)
    then hm_get (si_delegations (sm_inner sm')) k =
        Some (d\<lparr>dg_status := Deleg_RecallInProgress, dg_last_recall_at := Some now'\<rparr>)
      \<and> (\<exists>r\<in>set recalls. sid_other (dr_stateid r) = k \<and> dr_clientid r = dg_clientid d \<and> dr_send_callback r)
    else hm_get (si_delegations (sm_inner sm')) k = Some d"
proof -
  let ?i = "sm_inner (reap_expired_clients sm now)" and ?others = "idx_get (si_dir_delegations (sm_inner (reap_expired_clients sm now))) object"
  note ix = sm_inv_parts(3) [OF reap_inv [OF inv]]
  have mem: "k \<in> set ?others \<longleftrightarrow> dg_object d = object"
    using ix d idx.indexes_look [of dg_object "si_dir_delegations ?i" "si_delegations ?i" k object]
    by (auto simp: delegation_index_ok_iff)
  have sm': "sm_inner sm' = fst (recall_loop now' excluded ?others ?i)"
    and rs: "recalls = snd (recall_loop now' excluded ?others ?i)"
    using run by (auto simp: begin_directory_recall_excluding_def Let_def case_prod_unfold)
  show ?thesis
    using recall_loop_list [OF _ d, of ?others excluded now'] mem d
    by (auto simp: sm' rs recall_loop_get)
qed


theorem recall_reaches_every_holder_witness:
  "\<exists>r\<in>set (snd (begin_directory_recall_excluding example_state 5 6 (Obj_Fs 3) (Some 7))).
     sid_other (dr_stateid r) = mk_other 3 1 \<and> dr_send_callback r"
proof -
  let ?b = "begin_directory_recall_excluding example_state 5 6 (Obj_Fs 3) (Some 7)"
  have "(case hm_get (si_delegations (sm_inner (reap_expired_clients example_state 5))) (mk_other 3 1) of
      Some d \<Rightarrow> dg_object d = Obj_Fs 3 \<and> dg_status d = Deleg_Granted \<and> dg_clientid d = 1 | None \<Rightarrow> False)" by code_simp
  then obtain d where "hm_get (si_delegations (sm_inner (reap_expired_clients example_state 5))) (mk_other 3 1) = Some d"
    "dg_object d = Obj_Fs 3" "dg_status d = Deleg_Granted" "dg_clientid d = 1" by (auto split: option.splits)
  then show ?thesis
    using recall_reaches_every_holder [OF example_inv prod.collapse [symmetric, of ?b]] by fastforce
qed

section \<open>Metadata\<close>



end
