(* ===== verification/Memfs.thy ===== *)
theory Memfs
  imports Fs_Types "HOL-Library.List_Lexorder"
begin

text \<open>
  The in-memory backend, \<^verbatim>\<open>crates/embednfs/src/memfs\<close>: the inode table and one function per method of
  the \<^verbatim>\<open>FileSystem\<close>, \<^verbatim>\<open>Symlinks\<close>, \<^verbatim>\<open>HardLinks\<close>, \<^verbatim>\<open>Xattrs\<close> and \<^verbatim>\<open>CommitSupport\<close> traits. Each method holds
  the lock on the table from its first access to its last, so it is one function on the state; the
  wall clock it reads is the argument \<open>now\<close>. \<^verbatim>\<open>usize\<close> has 64 bits.
\<close>

section \<open>State\<close>

datatype inode_data =
    Idata_File bytes
  | Idata_Directory "(rust_string, u64) hmap"
  | Idata_Symlink rust_string

record inode =
  in_attrs :: attrs
  in_parent :: "u64 option"
  in_data :: inode_data
  in_xattrs :: "(rust_string, bytes) hmap"

record memfs =
  mf_inodes :: "(u64, inode) hmap"
  mf_next_id :: u64
  mf_next_change :: u64

definition MAX_FILE_BYTES :: u64 where
  "MAX_FILE_BYTES = 64 * 1024 * 1024"

definition memfs_new :: "timestamp \<Rightarrow> memfs" where
  "memfs_new now =
     (let root_attrs = (attrs_new now Ot_Directory 1)\<lparr>at_mode := 511\<rparr> in
      \<lparr>mf_inodes = hm_insert 1 \<lparr>in_attrs = root_attrs, in_parent = None, in_data = Idata_Directory [],
         in_xattrs = []\<rparr> [],
       mf_next_id = 2, mf_next_change = 2\<rparr>)"

text \<open>The entries of a directory.\<close>

definition dir_entries :: "inode \<Rightarrow> (rust_string, u64) hmap option" where
  "dir_entries i = (case in_data i of Idata_Directory es \<Rightarrow> Some es | _ \<Rightarrow> None)"

section \<open>Helpers\<close>

definition mem_next_id :: "memfs \<Rightarrow> memfs \<times> u64" where
  "mem_next_id fs = (fs\<lparr>mf_next_id := mf_next_id fs + 1\<rparr>, mf_next_id fs)"

definition mem_next_change :: "memfs \<Rightarrow> memfs \<times> u64" where
  "mem_next_change fs = (fs\<lparr>mf_next_change := mf_next_change fs + 1\<rparr>, mf_next_change fs)"

definition checked_file_len :: "u64 \<Rightarrow> nat fs_result" where
  "checked_file_len len = (if len > MAX_FILE_BYTES then Inl Fse_FileTooLarge else Inr (unat len))"

definition checked_write_range :: "u64 \<Rightarrow> nat \<Rightarrow> (nat \<times> nat) fs_result" where
  "checked_write_range offset len =
     (case checked_add offset (word_of_nat len) of
        None \<Rightarrow> Inl Fse_FileTooLarge
      | Some stop \<Rightarrow>
          (case checked_file_len offset of
             Inl e \<Rightarrow> Inl e
           | Inr first \<Rightarrow> (case checked_file_len stop of Inl e \<Rightarrow> Inl e | Inr past \<Rightarrow> Inr (first, past))))"

text \<open>\<^verbatim>\<open>Vec::resize(n, 0)\<close>, and \<^verbatim>\<open>v[offset..end].copy_from_slice(data)\<close> on a vector that covers the range.\<close>

definition resize :: "nat \<Rightarrow> bytes \<Rightarrow> bytes" where
  "resize n data = take n data @ replicate (n - length data) 0"

definition splice :: "nat \<Rightarrow> bytes \<Rightarrow> bytes \<Rightarrow> bytes" where
  "splice offset data file = take offset file @ data @ drop (offset + length data) file"

definition touch_change :: "timestamp \<Rightarrow> u64 \<Rightarrow> attrs \<Rightarrow> attrs" where
  "touch_change now change a = a\<lparr>at_change := change, at_ctime := now\<rparr>"

definition touch_data_change :: "timestamp \<Rightarrow> u64 \<Rightarrow> attrs \<Rightarrow> attrs" where
  "touch_data_change now change a = a\<lparr>at_change := change, at_mtime := now, at_ctime := now\<rparr>"

definition apply_set_time :: "timestamp \<Rightarrow> set_time \<Rightarrow> timestamp" where
  "apply_set_time now v = (case v of St_ServerNow \<Rightarrow> now | St_Client ts \<Rightarrow> ts)"

definition apply_create_owner :: "request_context \<Rightarrow> attrs \<Rightarrow> attrs" where
  "apply_create_owner ctx a = (case rc_auth ctx of
       Ctx_Sys uid gid _ \<Rightarrow> a\<lparr>at_uid := uid, at_gid := gid\<rparr>
     | _ \<Rightarrow> a)"

text \<open>
  \<^verbatim>\<open>apply_setattrs\<close>: the size first, which is the only field that can be refused, then the plain
  fields, then the change id and the times. The second component of the state is the change counter.
\<close>

definition set_field :: "'a option \<Rightarrow> ('a \<Rightarrow> attrs \<Rightarrow> attrs) \<Rightarrow> attrs \<Rightarrow> attrs" where
  "set_field v f a = (case v of None \<Rightarrow> a | Some x \<Rightarrow> f x a)"

definition apply_size :: "u64 option \<Rightarrow> inode \<Rightarrow> inode fs_result" where
  "apply_size requested i = (case requested of
       None \<Rightarrow> Inr i
     | Some len \<Rightarrow>
         (case in_data i of
            Idata_File data \<Rightarrow>
              (case checked_file_len len of
                 Inl e \<Rightarrow> Inl e
               | Inr n \<Rightarrow> Inr (i\<lparr>in_data := Idata_File (resize n data),
                   in_attrs := (in_attrs i)\<lparr>at_size := len, at_space_used := len\<rparr>\<rparr>))
          | _ \<Rightarrow> Inl Fse_InvalidInput))"

definition apply_fields :: "timestamp \<Rightarrow> set_attrs \<Rightarrow> attrs \<Rightarrow> attrs" where
  "apply_fields now s =
     set_field (sa_birthtime s) (\<lambda>t. at_birthtime_update (\<lambda>_. apply_set_time now t))
     \<circ> set_field (sa_mtime s) (\<lambda>t. at_mtime_update (\<lambda>_. apply_set_time now t))
     \<circ> set_field (sa_atime s) (\<lambda>t. at_atime_update (\<lambda>_. apply_set_time now t))
     \<circ> set_field (sa_system s) (\<lambda>b. at_system_update (\<lambda>_. b))
     \<circ> set_field (sa_hidden s) (\<lambda>b. at_hidden_update (\<lambda>_. b))
     \<circ> set_field (sa_archive s) (\<lambda>b. at_archive_update (\<lambda>_. b))
     \<circ> set_field (sa_gid s) (\<lambda>g. at_gid_update (\<lambda>_. g))
     \<circ> set_field (sa_uid s) (\<lambda>u. at_uid_update (\<lambda>_. u))
     \<circ> set_field (sa_mode s) (\<lambda>m. at_mode_update (\<lambda>_. m AND 4095))"

definition apply_setattrs ::
  "timestamp \<Rightarrow> set_attrs \<Rightarrow> memfs \<Rightarrow> inode \<Rightarrow> (memfs \<times> inode) fs_result" where
  "apply_setattrs now s fs i =
     (case apply_size (sa_size s) i of
        Inl e \<Rightarrow> Inl e
      | Inr i \<Rightarrow>
          let i = i\<lparr>in_attrs := apply_fields now s (in_attrs i)\<rparr> in
          if set_attrs_is_empty s then Inr (fs, i)
          else
            let (fs, change) = mem_next_change fs;
                a = (in_attrs i)\<lparr>at_change := change, at_ctime := now\<rparr>;
                a = (if sa_size s \<noteq> None \<and> sa_mtime s = None then a\<lparr>at_mtime := now\<rparr> else a) in
            Inr (fs, i\<lparr>in_attrs := a\<rparr>))"

text \<open>\<^verbatim>\<open>recompute_link_counts\<close>: reset every count, then one pass over the entries of every directory.\<close>

definition set_link_count :: "u32 \<Rightarrow> inode \<Rightarrow> inode" where
  "set_link_count n i = i\<lparr>in_attrs := (in_attrs i)\<lparr>at_link_count := n\<rparr>\<rparr>"

definition base_link_count :: "inode \<Rightarrow> u32" where
  "base_link_count i = (case at_object_type (in_attrs i) of Ot_Directory \<Rightarrow> 2 | _ \<Rightarrow> 0)"

definition bump_link :: "u64 \<Rightarrow> (u64, inode) hmap \<Rightarrow> (u64, inode) hmap" where
  "bump_link k inodes = (case hm_get inodes k of
       None \<Rightarrow> inodes
     | Some i \<Rightarrow> hm_insert k (set_link_count (at_link_count (in_attrs i) + 1) i) inodes)"

definition count_link :: "u64 \<Rightarrow> u64 \<Rightarrow> (u64, inode) hmap \<Rightarrow> (u64, inode) hmap" where
  "count_link dir_id child_id inodes = (case hm_get inodes child_id of
       None \<Rightarrow> inodes
     | Some child \<Rightarrow>
         (case at_object_type (in_attrs child) of
            Ot_Directory \<Rightarrow> bump_link dir_id inodes
          | _ \<Rightarrow> bump_link child_id inodes))"

definition count_dir :: "u64 \<Rightarrow> (u64, inode) hmap \<Rightarrow> (u64, inode) hmap" where
  "count_dir dir_id inodes = (case Option.bind (hm_get inodes dir_id) dir_entries of
       None \<Rightarrow> inodes
     | Some es \<Rightarrow> fold (count_link dir_id) (map snd es) inodes)"

definition directory_ids :: "(u64, inode) hmap \<Rightarrow> u64 list" where
  "directory_ids inodes = map fst (filter (\<lambda>(_, i). dir_entries i \<noteq> None) inodes)"

definition recompute_link_counts :: "(u64, inode) hmap \<Rightarrow> (u64, inode) hmap" where
  "recompute_link_counts inodes =
     (let inodes = hm_map_values (\<lambda>i. set_link_count (base_link_count i) i) inodes in
      fold count_dir (directory_ids inodes) inodes)"

definition remove_if_unlinked :: "u64 \<Rightarrow> (u64, inode) hmap \<Rightarrow> (u64, inode) hmap" where
  "remove_if_unlinked inode_id inodes =
     (let should_remove = (case hm_get inodes inode_id of
            None \<Rightarrow> False
          | Some i \<Rightarrow> (case at_object_type (in_attrs i) of
              Ot_Directory \<Rightarrow> True
            | _ \<Rightarrow> \<not> hm_any (\<lambda>_ candidate. case dir_entries candidate of
                 None \<Rightarrow> False
               | Some es \<Rightarrow> hm_any (\<lambda>_ k. k = inode_id) es) inodes)) in
      if should_remove then hm_remove inode_id inodes else inodes)"

text \<open>The walk up the parents, with its step bound.\<close>

definition parent_of :: "(u64, inode) hmap \<Rightarrow> u64 \<Rightarrow> u64 option" where
  "parent_of inodes k = Option.bind (hm_get inodes k) (\<lambda>i.
     if at_object_type (in_attrs i) = Ot_Directory then in_parent i else None)"

function descends_loop :: "(u64, inode) hmap \<Rightarrow> u64 \<Rightarrow> u64 option \<Rightarrow> nat \<Rightarrow> bool" where
  "descends_loop inodes ancestor_id current remaining =
     (case current of
        None \<Rightarrow> False
      | Some k \<Rightarrow>
          if k = ancestor_id then True
          else if remaining = 0 then False
          else descends_loop inodes ancestor_id (parent_of inodes k) (remaining - 1))"
  by pat_completeness auto

termination
  by (relation "measure (\<lambda>(_, _, _, remaining). remaining)") auto

declare descends_loop.simps [simp del]

definition directory_descends_from :: "(u64, inode) hmap \<Rightarrow> u64 \<Rightarrow> u64 \<Rightarrow> bool" where
  "directory_descends_from inodes descendant_id ancestor_id =
     descends_loop inodes ancestor_id (Some descendant_id) (length inodes)"

definition update_has_named_attrs :: "inode \<Rightarrow> inode" where
  "update_has_named_attrs i =
     i\<lparr>in_attrs := (in_attrs i)\<lparr>at_has_named_attrs := (in_xattrs i \<noteq> [])\<rparr>\<rparr>"

definition put_inode :: "u64 \<Rightarrow> inode \<Rightarrow> memfs \<Rightarrow> memfs" where
  "put_inode k i fs = fs\<lparr>mf_inodes := hm_insert k i (mf_inodes fs)\<rparr>"

section \<open>Attributes, lookups and data\<close>

definition mem_root :: u64 where "mem_root = 1"

definition mem_capabilities :: fs_capabilities where
  "mem_capabilities = \<lparr>cap_symlinks = True, cap_hard_links = True, cap_xattrs = True,
     cap_explicit_sync = True, cap_case_sensitive = True, cap_case_preserving = True\<rparr>"

definition mem_limits :: fs_limits where
  "mem_limits = fs_limits_default\<lparr>lim_max_file_size := MAX_FILE_BYTES\<rparr>"

definition saturating_add :: "u64 \<Rightarrow> u64 \<Rightarrow> u64" where
  "saturating_add a b = (case checked_add a b of Some c \<Rightarrow> c | None \<Rightarrow> 0xffffffffffffffff)"

definition mem_statfs :: "memfs \<Rightarrow> u64 \<Rightarrow> fs_stats fs_result" where
  "mem_statfs fs h = (case hm_get (mf_inodes fs) h of
       None \<Rightarrow> Inl Fse_Stale
     | Some _ \<Rightarrow>
         let used_bytes = fold (\<lambda>(_, i) total. saturating_add total (at_space_used (in_attrs i)))
               (mf_inodes fs) 0;
             total_files = push_bit 20 1;
             used_files = word_of_nat (length (mf_inodes fs)) in
         Inr \<lparr>st_total_bytes = push_bit 30 1,
           st_free_bytes = saturating_sub (push_bit 30 1) used_bytes,
           st_avail_bytes = saturating_sub (push_bit 30 1) used_bytes,
           st_total_files = total_files,
           st_free_files = saturating_sub total_files used_files,
           st_avail_files = saturating_sub total_files used_files\<rparr>)"

definition mem_getattr :: "memfs \<Rightarrow> u64 \<Rightarrow> attrs fs_result" where
  "mem_getattr fs h = (case hm_get (mf_inodes fs) h of
       None \<Rightarrow> Inl Fse_Stale | Some i \<Rightarrow> Inr (in_attrs i))"

definition mem_access :: "memfs \<Rightarrow> u64 \<Rightarrow> access_mask \<Rightarrow> access_mask fs_result" where
  "mem_access fs h requested = (case hm_get (mf_inodes fs) h of
       None \<Rightarrow> Inl Fse_Stale | Some i \<Rightarrow> Inr requested)"

definition mem_lookup :: "memfs \<Rightarrow> u64 \<Rightarrow> rust_string \<Rightarrow> u64 fs_result" where
  "mem_lookup fs parent name = (case hm_get (mf_inodes fs) parent of
       None \<Rightarrow> Inl Fse_Stale
     | Some i \<Rightarrow> (case dir_entries i of
         None \<Rightarrow> Inl Fse_NotDirectory
       | Some es \<Rightarrow> ok_or Fse_NotFound (hm_get es name)))"

definition mem_parent :: "memfs \<Rightarrow> u64 \<Rightarrow> u64 option fs_result" where
  "mem_parent fs d = (case hm_get (mf_inodes fs) d of
       None \<Rightarrow> Inl Fse_Stale
     | Some i \<Rightarrow> if at_object_type (in_attrs i) \<noteq> Ot_Directory then Inl Fse_NotDirectory
         else Inr (in_parent i))"

text \<open>A page of a directory: the entries sorted by name, from the position the cookie names. The
  position counter of the loop is the first argument.\<close>

primrec readdir_page ::
  "nat \<Rightarrow> (u64, inode) hmap \<Rightarrow> bool \<Rightarrow> (rust_string \<times> u64) list \<Rightarrow> u64 dir_entry list fs_result" where
  "readdir_page pos inodes with_attrs [] = Inr []"
| "readdir_page pos inodes with_attrs (e # es) = (case hm_get inodes (snd e) of
       None \<Rightarrow> Inl Fse_Stale
     | Some child \<Rightarrow>
         (case readdir_page (Suc pos) inodes with_attrs es of
            Inl err \<Rightarrow> Inl err
          | Inr page \<Rightarrow> Inr (\<lparr>de_name = fst e, de_handle = snd e, de_cookie = word_of_nat (pos + 3),
              de_attrs = (if with_attrs then Some (in_attrs child) else None)\<rparr> # page)))"

definition mem_readdir ::
  "memfs \<Rightarrow> u64 \<Rightarrow> u64 \<Rightarrow> u32 \<Rightarrow> bool \<Rightarrow> u64 dir_page fs_result" where
  "mem_readdir fs d cookie max_entries with_attrs = (case hm_get (mf_inodes fs) d of
       None \<Rightarrow> Inl Fse_Stale
     | Some i \<Rightarrow> (case dir_entries i of
         None \<Rightarrow> Inl Fse_NotDirectory
       | Some es \<Rightarrow>
           let names = sort_key fst es;
               start = (if cookie = 0 then 0 else unat (saturating_sub cookie 2));
               rest = drop start names;
               rest = (if max_entries = 0 then rest else take (unat max_entries) rest) in
           (case readdir_page start (mf_inodes fs) with_attrs rest of
              Inl e \<Rightarrow> Inl e
            | Inr page \<Rightarrow> Inr \<lparr>dp_entries = page, dp_eof = (start + length page \<ge> length es)\<rparr>)))"

definition mem_read :: "memfs \<Rightarrow> u64 \<Rightarrow> u64 \<Rightarrow> u32 \<Rightarrow> read_result fs_result" where
  "mem_read fs h offset count = (case hm_get (mf_inodes fs) h of
       None \<Rightarrow> Inl Fse_Stale
     | Some i \<Rightarrow> (case in_data i of
         Idata_File data \<Rightarrow>
           let offset = unat offset in
           if offset \<ge> length data then Inr \<lparr>rr_data = [], rr_eof = True\<rparr>
           else
             let stop = min (offset + unat count) (length data) in
             Inr \<lparr>rr_data = drop offset (take stop data), rr_eof = (stop = length data)\<rparr>
       | _ \<Rightarrow> Inl Fse_InvalidInput))"

definition mem_write ::
  "timestamp \<Rightarrow> memfs \<Rightarrow> u64 \<Rightarrow> u64 \<Rightarrow> bytes \<Rightarrow> memfs \<times> write_result fs_result" where
  "mem_write now fs h offset data = (case hm_get (mf_inodes fs) h of
       None \<Rightarrow> (fs, Inl Fse_Stale)
     | Some i \<Rightarrow> (case in_data i of
         Idata_File file \<Rightarrow>
           (case checked_write_range offset (length data) of
              Inl e \<Rightarrow> (fs, Inl e)
            | Inr (offset, stop) \<Rightarrow>
                let file = (if stop > length file then resize stop file else file);
                    file = splice offset data file;
                    a = (in_attrs i)\<lparr>at_size := word_of_nat (length file),
                          at_space_used := word_of_nat (length file)\<rparr>;
                    (fs, change) = mem_next_change fs;
                    i = i\<lparr>in_data := Idata_File file, in_attrs := touch_data_change now change a\<rparr> in
                (put_inode h i fs,
                 Inr \<lparr>wr_written = word_of_nat (length data), wr_stability = Ws_FileSync\<rparr>))
       | _ \<Rightarrow> (fs, Inl Fse_InvalidInput)))"

section \<open>The namespace\<close>

text \<open>Entering a name into a directory, and dropping one, with the directory's times and change id.\<close>

definition touch_dir ::
  "timestamp \<Rightarrow> ((rust_string, u64) hmap \<Rightarrow> (rust_string, u64) hmap) \<Rightarrow> u64 \<Rightarrow> memfs \<Rightarrow> memfs" where
  "touch_dir now f d fs = (case hm_get (mf_inodes fs) d of
       None \<Rightarrow> fs
     | Some i \<Rightarrow>
         let i = (case in_data i of Idata_Directory es \<Rightarrow> i\<lparr>in_data := Idata_Directory (f es)\<rparr> | _ \<Rightarrow> i);
             (fs, change) = mem_next_change fs in
         put_inode d (i\<lparr>in_attrs := (touch_change now change (in_attrs i))\<lparr>at_mtime := now\<rparr>\<rparr>) fs)"

definition recount :: "memfs \<Rightarrow> memfs" where
  "recount fs = fs\<lparr>mf_inodes := recompute_link_counts (mf_inodes fs)\<rparr>"

definition drop_unlinked :: "u64 \<Rightarrow> memfs \<Rightarrow> memfs" where
  "drop_unlinked k fs = fs\<lparr>mf_inodes := remove_if_unlinked k (mf_inodes fs)\<rparr>"

definition create_kind_type :: "create_kind \<Rightarrow> object_type" where
  "create_kind_type k = (case k of Ck_File \<Rightarrow> Ot_File | Ck_Directory \<Rightarrow> Ot_Directory)"

definition create_kind_data :: "create_kind \<Rightarrow> inode_data" where
  "create_kind_data k = (case k of Ck_File \<Rightarrow> Idata_File [] | Ck_Directory \<Rightarrow> Idata_Directory [])"

text \<open>The last part of both creating methods: enter the name, insert the inode, recount, read the
  attributes back.\<close>

definition enter_inode ::
  "timestamp \<Rightarrow> memfs \<Rightarrow> u64 \<Rightarrow> rust_string \<Rightarrow> u64 \<Rightarrow> inode \<Rightarrow> memfs \<times> u64 create_result fs_result" where
  "enter_inode now fs parent name new_id i = (case hm_get (mf_inodes fs) parent of
       None \<Rightarrow> (fs, Inl Fse_Stale)
     | Some p \<Rightarrow> (case dir_entries p of
         None \<Rightarrow> (fs, Inl Fse_NotDirectory)
       | Some es \<Rightarrow>
           let fs = touch_dir now (hm_insert name new_id) parent fs;
               fs = recount (put_inode new_id i fs) in
           (fs, case hm_get (mf_inodes fs) new_id of
              None \<Rightarrow> Inl Fse_ServerFault
            | Some i \<Rightarrow> Inr \<lparr>crs_handle = new_id, crs_attrs = in_attrs i\<rparr>)))"

definition mem_create ::
  "timestamp \<Rightarrow> request_context \<Rightarrow> memfs \<Rightarrow> u64 \<Rightarrow> rust_string \<Rightarrow> create_request
    \<Rightarrow> memfs \<times> u64 create_result fs_result" where
  "mem_create now ctx fs parent name req =
     (let (fs, new_id) = mem_next_id fs in
      case hm_get (mf_inodes fs) parent of
        None \<Rightarrow> (fs, Inl Fse_Stale)
      | Some p \<Rightarrow>
          if at_object_type (in_attrs p) \<noteq> Ot_Directory then (fs, Inl Fse_NotDirectory)
          else if (case dir_entries p of None \<Rightarrow> False | Some es \<Rightarrow> hm_get es name \<noteq> None)
          then (fs, Inl Fse_AlreadyExists)
          else
            let i = \<lparr>in_attrs = apply_create_owner ctx (attrs_new now (create_kind_type (crq_kind req)) new_id),
                  in_parent = Some parent, in_data = create_kind_data (crq_kind req), in_xattrs = []\<rparr> in
            (case apply_setattrs now (crq_attrs req) fs i of
               Inl e \<Rightarrow> (fs, Inl e)
             | Inr (fs, i) \<Rightarrow> enter_inode now fs parent name new_id i))"

definition mem_create_symlink ::
  "timestamp \<Rightarrow> request_context \<Rightarrow> memfs \<Rightarrow> u64 \<Rightarrow> rust_string \<Rightarrow> rust_string \<Rightarrow> set_attrs
    \<Rightarrow> memfs \<times> u64 create_result fs_result" where
  "mem_create_symlink now ctx fs parent name target attrs =
     (let (fs, new_id) = mem_next_id fs in
      case hm_get (mf_inodes fs) parent of
        None \<Rightarrow> (fs, Inl Fse_Stale)
      | Some p \<Rightarrow> (case dir_entries p of
          None \<Rightarrow> (fs, Inl Fse_NotDirectory)
        | Some es \<Rightarrow>
            if hm_get es name \<noteq> None then (fs, Inl Fse_AlreadyExists)
            else
              let len = word_of_nat (length target);
                  a = apply_create_owner ctx (attrs_new now Ot_Symlink new_id);
                  i = \<lparr>in_attrs = a\<lparr>at_size := len, at_space_used := len\<rparr>,
                    in_parent = Some parent, in_data = Idata_Symlink target, in_xattrs = []\<rparr> in
              (case apply_setattrs now attrs fs i of
                 Inl e \<Rightarrow> (fs, Inl e)
               | Inr (fs, i) \<Rightarrow>
                   enter_inode now fs parent name new_id
                     (i\<lparr>in_attrs := (in_attrs i)\<lparr>at_size := len, at_space_used := len\<rparr>\<rparr>))))"

definition mem_readlink :: "memfs \<Rightarrow> u64 \<Rightarrow> rust_string fs_result" where
  "mem_readlink fs h = (case hm_get (mf_inodes fs) h of
       None \<Rightarrow> Inl Fse_Stale
     | Some i \<Rightarrow> (case in_data i of Idata_Symlink target \<Rightarrow> Inr target | _ \<Rightarrow> Inl Fse_InvalidInput))"

definition mem_remove :: "timestamp \<Rightarrow> memfs \<Rightarrow> u64 \<Rightarrow> rust_string \<Rightarrow> memfs \<times> unit fs_result" where
  "mem_remove now fs parent name = (case mem_lookup fs parent name of
       Inl e \<Rightarrow> (fs, Inl e)
     | Inr child_id \<Rightarrow>
         if (case Option.bind (hm_get (mf_inodes fs) child_id) dir_entries of
               None \<Rightarrow> False | Some es \<Rightarrow> es \<noteq> [])
         then (fs, Inl Fse_NotEmpty)
         else (recount (drop_unlinked child_id (touch_dir now (hm_remove name) parent fs)), Inr ()))"

definition rename_replace_check :: "object_type \<Rightarrow> inode \<Rightarrow> unit fs_result" where
  "rename_replace_check child_type replaced =
     (case (child_type, at_object_type (in_attrs replaced)) of
        (Ot_Directory, Ot_Directory) \<Rightarrow>
          (case dir_entries replaced of
             Some es \<Rightarrow> if es \<noteq> [] then Inl Fse_NotEmpty else Inr ()
           | None \<Rightarrow> Inr ())
      | (Ot_Directory, _) \<Rightarrow> Inl Fse_NotDirectory
      | (_, Ot_Directory) \<Rightarrow> Inl Fse_IsDirectory
      | _ \<Rightarrow> Inr ())"

definition rename_move ::
  "timestamp \<Rightarrow> memfs \<Rightarrow> u64 \<Rightarrow> rust_string \<Rightarrow> u64 \<Rightarrow> rust_string \<Rightarrow> u64 \<Rightarrow> u64 option \<Rightarrow> memfs" where
  "rename_move now fs from_dir from_name to_dir to_name child_id replaced =
     (let fs = (if from_dir = to_dir
            then touch_dir now (\<lambda>es. hm_insert to_name child_id (hm_remove from_name es)) from_dir fs
            else touch_dir now (hm_insert to_name child_id) to_dir
                   (touch_dir now (hm_remove from_name) from_dir fs));
          fs = (case hm_get (mf_inodes fs) child_id of
              Some c \<Rightarrow> if at_object_type (in_attrs c) = Ot_Directory \<and> from_dir \<noteq> to_dir
                then put_inode child_id (c\<lparr>in_parent := Some to_dir\<rparr>) fs else fs
            | None \<Rightarrow> fs);
          fs = (case replaced of Some r \<Rightarrow> drop_unlinked r fs | None \<Rightarrow> fs) in
      recount fs)"

definition mem_rename ::
  "timestamp \<Rightarrow> memfs \<Rightarrow> u64 \<Rightarrow> rust_string \<Rightarrow> u64 \<Rightarrow> rust_string \<Rightarrow> memfs \<times> unit fs_result" where
  "mem_rename now fs from_dir from_name to_dir to_name =
     (case mem_lookup fs from_dir from_name of
        Inl e \<Rightarrow> (fs, Inl e)
      | Inr child_id \<Rightarrow>
          (case hm_get (mf_inodes fs) child_id of
             None \<Rightarrow> (fs, Inl Fse_Stale)
           | Some child \<Rightarrow>
               let child_type = at_object_type (in_attrs child) in
               if child_type = Ot_Directory \<and> directory_descends_from (mf_inodes fs) to_dir child_id
               then (fs, Inl Fse_InvalidInput)
               else
                 (case hm_get (mf_inodes fs) to_dir of
                    None \<Rightarrow> (fs, Inl Fse_Stale)
                  | Some target \<Rightarrow> (case dir_entries target of
                      None \<Rightarrow> (fs, Inl Fse_NotDirectory)
                    | Some es \<Rightarrow>
                        let replaced = hm_get es to_name in
                        if replaced = Some child_id then (fs, Inr ())
                        else
                          (case (case replaced of
                                   None \<Rightarrow> Inr ()
                                 | Some r \<Rightarrow> (case hm_get (mf_inodes fs) r of
                                     None \<Rightarrow> Inl Fse_Stale
                                   | Some ri \<Rightarrow> rename_replace_check child_type ri)) of
                             Inl e \<Rightarrow> (fs, Inl e)
                           | Inr _ \<Rightarrow>
                               (rename_move now fs from_dir from_name to_dir to_name child_id replaced,
                                Inr ()))))))"

definition mem_link :: "timestamp \<Rightarrow> memfs \<Rightarrow> u64 \<Rightarrow> u64 \<Rightarrow> rust_string \<Rightarrow> memfs \<times> unit fs_result" where
  "mem_link now fs source parent name = (case hm_get (mf_inodes fs) source of
       None \<Rightarrow> (fs, Inl Fse_Stale)
     | Some s \<Rightarrow>
         if at_object_type (in_attrs s) = Ot_Directory then (fs, Inl Fse_IsDirectory)
         else (case hm_get (mf_inodes fs) parent of
             None \<Rightarrow> (fs, Inl Fse_Stale)
           | Some p \<Rightarrow> (case dir_entries p of
               None \<Rightarrow> (fs, Inl Fse_NotDirectory)
             | Some es \<Rightarrow>
                 if hm_get es name \<noteq> None then (fs, Inl Fse_AlreadyExists)
                 else (recount (touch_dir now (hm_insert name source) parent fs), Inr ()))))"

section \<open>Attribute updates and extended attributes\<close>

definition mem_setattr :: "timestamp \<Rightarrow> memfs \<Rightarrow> u64 \<Rightarrow> set_attrs \<Rightarrow> memfs \<times> attrs fs_result" where
  "mem_setattr now fs h attrs = (case hm_get (mf_inodes fs) h of
       None \<Rightarrow> (fs, Inl Fse_Stale)
     | Some i \<Rightarrow> (case apply_setattrs now attrs fs i of
         Inl e \<Rightarrow> (fs, Inl e)
       | Inr (fs, i) \<Rightarrow> (put_inode h i fs, Inr (in_attrs i))))"

definition mem_list_xattrs :: "memfs \<Rightarrow> u64 \<Rightarrow> rust_string list fs_result" where
  "mem_list_xattrs fs h = (case hm_get (mf_inodes fs) h of
       None \<Rightarrow> Inl Fse_Stale | Some i \<Rightarrow> Inr (sort (map fst (in_xattrs i))))"

definition mem_get_xattr :: "memfs \<Rightarrow> u64 \<Rightarrow> rust_string \<Rightarrow> bytes fs_result" where
  "mem_get_xattr fs h name = (case hm_get (mf_inodes fs) h of
       None \<Rightarrow> Inl Fse_Stale | Some i \<Rightarrow> ok_or Fse_NotFound (hm_get (in_xattrs i) name))"

definition mem_set_xattr ::
  "timestamp \<Rightarrow> memfs \<Rightarrow> u64 \<Rightarrow> rust_string \<Rightarrow> bytes \<Rightarrow> xattr_set_mode \<Rightarrow> memfs \<times> unit fs_result" where
  "mem_set_xattr now fs h name value mode = (case hm_get (mf_inodes fs) h of
       None \<Rightarrow> (fs, Inl Fse_Stale)
     | Some i \<Rightarrow>
         let exists = (hm_get (in_xattrs i) name \<noteq> None) in
         if mode = Xs_CreateOnly \<and> exists then (fs, Inl Fse_AlreadyExists)
         else if mode = Xs_ReplaceOnly \<and> \<not> exists then (fs, Inl Fse_NotFound)
         else
           let i = update_has_named_attrs (i\<lparr>in_xattrs := hm_insert name value (in_xattrs i)\<rparr>);
               (fs, change) = mem_next_change fs in
           (put_inode h (i\<lparr>in_attrs := touch_data_change now change (in_attrs i)\<rparr>) fs, Inr ()))"

definition mem_remove_xattr :: "timestamp \<Rightarrow> memfs \<Rightarrow> u64 \<Rightarrow> rust_string \<Rightarrow> memfs \<times> unit fs_result" where
  "mem_remove_xattr now fs h name = (case hm_get (mf_inodes fs) h of
       None \<Rightarrow> (fs, Inl Fse_Stale)
     | Some i \<Rightarrow> (case hm_get (in_xattrs i) name of
         None \<Rightarrow> (fs, Inl Fse_NotFound)
       | Some _ \<Rightarrow>
           let i = update_has_named_attrs (i\<lparr>in_xattrs := hm_remove name (in_xattrs i)\<rparr>);
               (fs, change) = mem_next_change fs in
           (put_inode h (i\<lparr>in_attrs := touch_change now change (in_attrs i)\<rparr>) fs, Inr ())))"

definition mem_commit :: "memfs \<Rightarrow> u64 \<Rightarrow> unit fs_result" where
  "mem_commit fs h = (if hm_get (mf_inodes fs) h \<noteq> None then Inr () else Inl Fse_Stale)"

end
