(* ===== verification/Memfs_Spec.thy ===== *)
theory Memfs_Spec
  imports Memfs
begin

text \<open>
  What the in-memory backend promises, on an abstract tree: a map from object numbers to file
  contents, directories (maps from names to object numbers) and symbolic links. \<open>abs_fs\<close> forgets the
  attributes, the parent pointers and the order of the tables. \<open>tree_ok\<close> is the shape of a file
  system: no name without an object, no object without a name, directories with exactly one name,
  and every directory below the root. The abstract operations state the effect of each method; the
  ancestry test of a rename is the reflexive transitive closure of the directory relation.
\<close>

section \<open>The abstract tree\<close>

datatype anode = A_File bytes | A_Dir "rust_string \<rightharpoonup> u64" | A_Link rust_string

type_synonym atree = "u64 \<rightharpoonup> anode"

definition abs_node :: "inode \<Rightarrow> anode" where
  "abs_node i = (case in_data i of
       Idata_File d \<Rightarrow> A_File d
     | Idata_Directory es \<Rightarrow> A_Dir (hm_get es)
     | Idata_Symlink t \<Rightarrow> A_Link t)"

definition abs_tree :: "(u64, inode) hmap \<Rightarrow> atree" where
  "abs_tree inodes = (\<lambda>k. map_option abs_node (hm_get inodes k))"

definition abs_fs :: "memfs \<Rightarrow> atree" where
  "abs_fs fs = abs_tree (mf_inodes fs)"

definition has_entry :: "atree \<Rightarrow> u64 \<Rightarrow> rust_string \<Rightarrow> u64 \<Rightarrow> bool" where
  "has_entry t d n k \<longleftrightarrow> (\<exists>es. t d = Some (A_Dir es) \<and> es n = Some k)"

definition is_adir :: "atree \<Rightarrow> u64 \<Rightarrow> bool" where
  "is_adir t k \<longleftrightarrow> (\<exists>es. t k = Some (A_Dir es))"

definition subdirs :: "atree \<Rightarrow> (u64 \<times> u64) set" where
  "subdirs t = {(d, k). is_adir t k \<and> (\<exists>n. has_entry t d n k)}"

definition tree_ok :: "atree \<Rightarrow> bool" where
  "tree_ok t \<longleftrightarrow>
     is_adir t mem_root
     \<and> (\<forall>d n k. has_entry t d n k \<longrightarrow> t k \<noteq> None \<and> k \<noteq> mem_root)
     \<and> (\<forall>k. t k \<noteq> None \<and> k \<noteq> mem_root \<longrightarrow> (\<exists>d n. has_entry t d n k))
     \<and> (\<forall>k d n d' n'. is_adir t k \<and> has_entry t d n k \<and> has_entry t d' n' k \<longrightarrow> d = d' \<and> n = n')
     \<and> (\<forall>k. is_adir t k \<longrightarrow> (mem_root, k) \<in> (subdirs t)\<^sup>*)"

section \<open>The abstract operations\<close>

definition a_lookup :: "atree \<Rightarrow> u64 \<Rightarrow> rust_string \<Rightarrow> u64 fs_result" where
  "a_lookup t d n = (case t d of
       None \<Rightarrow> Inl Fse_Stale
     | Some (A_Dir es) \<Rightarrow> ok_or Fse_NotFound (es n)
     | Some _ \<Rightarrow> Inl Fse_NotDirectory)"

definition a_enter :: "atree \<Rightarrow> u64 \<Rightarrow> rust_string \<Rightarrow> u64 \<Rightarrow> atree" where
  "a_enter t d n k = (case t d of Some (A_Dir es) \<Rightarrow> t(d \<mapsto> A_Dir (es(n \<mapsto> k))) | _ \<Rightarrow> t)"

definition a_drop_name :: "atree \<Rightarrow> u64 \<Rightarrow> rust_string \<Rightarrow> atree" where
  "a_drop_name t d n = (case t d of Some (A_Dir es) \<Rightarrow> t(d \<mapsto> A_Dir (es(n := None))) | _ \<Rightarrow> t)"

definition a_drop_unlinked :: "atree \<Rightarrow> u64 \<Rightarrow> atree" where
  "a_drop_unlinked t k =
     (if is_adir t k \<or> (\<nexists>d n. has_entry t d n k) then t(k := None) else t)"

text \<open>A name can be entered into a directory that does not have it yet.\<close>

definition a_vacant :: "atree \<Rightarrow> u64 \<Rightarrow> rust_string \<Rightarrow> unit fs_result" where
  "a_vacant t d n = (case t d of
       None \<Rightarrow> Inl Fse_Stale
     | Some (A_Dir es) \<Rightarrow> if es n \<noteq> None then Inl Fse_AlreadyExists else Inr ()
     | Some _ \<Rightarrow> Inl Fse_NotDirectory)"

definition a_create :: "atree \<Rightarrow> u64 \<Rightarrow> u64 \<Rightarrow> rust_string \<Rightarrow> anode fs_result \<Rightarrow> atree \<times> unit fs_result" where
  "a_create t new_id d n node = (case a_vacant t d n of
       Inl e \<Rightarrow> (t, Inl e)
     | Inr _ \<Rightarrow> (case node of
         Inl e \<Rightarrow> (t, Inl e)
       | Inr v \<Rightarrow> ((a_enter t d n new_id)(new_id \<mapsto> v), Inr ())))"

definition a_link :: "atree \<Rightarrow> u64 \<Rightarrow> u64 \<Rightarrow> rust_string \<Rightarrow> atree \<times> unit fs_result" where
  "a_link t k d n = (case t k of
       None \<Rightarrow> (t, Inl Fse_Stale)
     | Some v \<Rightarrow>
         if is_adir t k then (t, Inl Fse_IsDirectory)
         else (case a_vacant t d n of
             Inl e \<Rightarrow> (t, Inl e)
           | Inr _ \<Rightarrow> (a_enter t d n k, Inr ())))"

definition a_nonempty :: "atree \<Rightarrow> u64 \<Rightarrow> bool" where
  "a_nonempty t k \<longleftrightarrow> (\<exists>n c. has_entry t k n c)"

definition a_remove :: "atree \<Rightarrow> u64 \<Rightarrow> rust_string \<Rightarrow> atree \<times> unit fs_result" where
  "a_remove t d n = (case a_lookup t d n of
       Inl e \<Rightarrow> (t, Inl e)
     | Inr k \<Rightarrow>
         if a_nonempty t k then (t, Inl Fse_NotEmpty)
         else (a_drop_unlinked (a_drop_name t d n) k, Inr ()))"

definition a_replace :: "atree \<Rightarrow> u64 \<Rightarrow> u64 \<Rightarrow> unit fs_result" where
  "a_replace t k r =
     (if is_adir t k
      then (if is_adir t r then (if a_nonempty t r then Inl Fse_NotEmpty else Inr ())
            else Inl Fse_NotDirectory)
      else (if is_adir t r then Inl Fse_IsDirectory else Inr ()))"

definition a_rename ::
  "atree \<Rightarrow> u64 \<Rightarrow> rust_string \<Rightarrow> u64 \<Rightarrow> rust_string \<Rightarrow> atree \<times> unit fs_result" where
  "a_rename t d n d' n' = (case a_lookup t d n of
       Inl e \<Rightarrow> (t, Inl e)
     | Inr k \<Rightarrow>
         if is_adir t k \<and> (k, d') \<in> (subdirs t)\<^sup>* then (t, Inl Fse_InvalidInput)
         else (case a_lookup t d' n' of
             Inl e \<Rightarrow>
               if e = Fse_NotFound then (a_enter (a_drop_name t d n) d' n' k, Inr ()) else (t, Inl e)
           | Inr r \<Rightarrow>
               if r = k then (t, Inr ())
               else (case a_replace t k r of
                   Inl e \<Rightarrow> (t, Inl e)
                 | Inr _ \<Rightarrow>
                     (a_drop_unlinked (a_enter (a_drop_name t d n) d' n' k) r, Inr ()))))"

definition a_write :: "atree \<Rightarrow> u64 \<Rightarrow> u64 \<Rightarrow> bytes \<Rightarrow> atree \<times> unit fs_result" where
  "a_write t h offset data = (case t h of
       None \<Rightarrow> (t, Inl Fse_Stale)
     | Some (A_File file) \<Rightarrow>
         if unat offset + length data > unat MAX_FILE_BYTES then (t, Inl Fse_FileTooLarge)
         else (t(h \<mapsto> A_File (splice (unat offset) data
                  (resize (max (unat offset + length data) (length file)) file))), Inr ())
     | Some _ \<Rightarrow> (t, Inl Fse_InvalidInput))"

definition a_resize :: "u64 option \<Rightarrow> anode \<Rightarrow> anode fs_result" where
  "a_resize requested v = (case requested of
       None \<Rightarrow> Inr v
     | Some len \<Rightarrow> (case v of
         A_File file \<Rightarrow> if len > MAX_FILE_BYTES then Inl Fse_FileTooLarge
           else Inr (A_File (resize (unat len) file))
       | _ \<Rightarrow> Inl Fse_InvalidInput))"

definition a_setattr :: "atree \<Rightarrow> u64 \<Rightarrow> set_attrs \<Rightarrow> atree \<times> unit fs_result" where
  "a_setattr t h s = (case t h of
       None \<Rightarrow> (t, Inl Fse_Stale)
     | Some v \<Rightarrow> (case a_resize (sa_size s) v of
         Inl e \<Rightarrow> (t, Inl e)
       | Inr v \<Rightarrow> (t(h \<mapsto> v), Inr ())))"

section \<open>The invariant of the inode table\<close>

definition data_type :: "inode_data \<Rightarrow> object_type" where
  "data_type d = (case d of Idata_File _ \<Rightarrow> Ot_File | Idata_Directory _ \<Rightarrow> Ot_Directory | Idata_Symlink _ \<Rightarrow> Ot_Symlink)"

definition size_ok :: "attrs \<Rightarrow> inode_data \<Rightarrow> bool" where
  "size_ok a d = (case d of
       Idata_File data \<Rightarrow> length data \<le> unat MAX_FILE_BYTES \<and> at_size a = word_of_nat (length data)
         \<and> at_space_used a = at_size a
     | Idata_Directory es \<Rightarrow> hm_wf es
     | Idata_Symlink target \<Rightarrow> at_size a = word_of_nat (length target))"

definition inode_ok :: "u64 \<Rightarrow> inode \<Rightarrow> bool" where
  "inode_ok k i \<longleftrightarrow>
     at_object_type (in_attrs i) = data_type (in_data i) \<and> at_fileid (in_attrs i) = k
     \<and> size_ok (in_attrs i) (in_data i) \<and> hm_wf (in_xattrs i)
     \<and> at_has_named_attrs (in_attrs i) = (in_xattrs i \<noteq> [])"

definition inodes_ok :: "(u64, inode) hmap \<Rightarrow> bool" where
  "inodes_ok m \<longleftrightarrow> hm_wf m \<and> (\<forall>k i. hm_get m k = Some i \<longrightarrow> inode_ok k i)"

definition parents_ok :: "(u64, inode) hmap \<Rightarrow> bool" where
  "parents_ok m \<longleftrightarrow>
     (\<forall>k. is_adir (abs_tree m) k \<longrightarrow>
       (case parent_of m k of None \<Rightarrow> k = mem_root | Some p \<Rightarrow> (p, k) \<in> subdirs (abs_tree m)))"

text \<open>The link count of a file is the number of its names; of a directory, two and its
  subdirectories.\<close>

definition link_count :: "atree \<Rightarrow> u64 \<Rightarrow> nat" where
  "link_count t k =
     (if is_adir t k then 2 + card {n. \<exists>c. has_entry t k n c \<and> is_adir t c}
      else card {(d, n). has_entry t d n k})"

definition links_ok :: "(u64, inode) hmap \<Rightarrow> bool" where
  "links_ok m \<longleftrightarrow> (\<forall>k i. hm_get m k = Some i \<longrightarrow>
     at_link_count (in_attrs i) = word_of_nat (link_count (abs_tree m) k))"

definition memfs_ok :: "memfs \<Rightarrow> bool" where
  "memfs_ok fs \<longleftrightarrow>
     inodes_ok (mf_inodes fs) \<and> tree_ok (abs_fs fs) \<and> parents_ok (mf_inodes fs)
     \<and> links_ok (mf_inodes fs)
     \<and> (\<forall>k. hm_get (mf_inodes fs) k \<noteq> None \<longrightarrow> unat k < unat (mf_next_id fs))"

end
