(* ===== verification/Memfs_Links.thy ===== *)
theory Memfs_Links
  imports Memfs_Spec
begin

text \<open>
  Recomputing the link counts: the two passes of \<^verbatim>\<open>recompute_link_counts\<close> change nothing but the
  counts, and leave in every inode the count the specification asks for.
\<close>

section \<open>Tables that differ in link counts only\<close>

definition same_shape :: "(u64, inode) hmap \<Rightarrow> (u64, inode) hmap \<Rightarrow> bool" where
  "same_shape m m' \<longleftrightarrow>
     hm_wf m' \<and> (\<forall>k. map_option (set_link_count 0) (hm_get m' k) = map_option (set_link_count 0) (hm_get m k))"

definition links_at :: "(u64, inode) hmap \<Rightarrow> u64 \<Rightarrow> u32" where
  "links_at m k = (case hm_get m k of None \<Rightarrow> 0 | Some i \<Rightarrow> at_link_count (in_attrs i))"

lemma set_link_count_sel [simp]:
  "in_data (set_link_count n i) = in_data i"
  "in_parent (set_link_count n i) = in_parent i"
  "in_xattrs (set_link_count n i) = in_xattrs i"
  "at_object_type (in_attrs (set_link_count n i)) = at_object_type (in_attrs i)"
  "at_link_count (in_attrs (set_link_count n i)) = n"
  "set_link_count n (set_link_count n' i) = set_link_count n i"
  "dir_entries (set_link_count n i) = dir_entries i"
  "abs_node (set_link_count n i) = abs_node i"
  "inode_ok k (set_link_count n i) = inode_ok k i"
  "base_link_count (set_link_count n i) = base_link_count i"
  by (simp_all add: set_link_count_def dir_entries_def abs_node_def inode_ok_def size_ok_def
      base_link_count_def split: inode_data.split)

lemma set_link_count_eqD:
  assumes "set_link_count 0 i = set_link_count 0 j"
  shows "in_data i = in_data j" "in_parent i = in_parent j" "dir_entries i = dir_entries j"
    "at_object_type (in_attrs i) = at_object_type (in_attrs j)" "abs_node i = abs_node j"
    "inode_ok k i = inode_ok k j"
proof -
  show "in_data i = in_data j"
    using arg_cong [OF assms, of in_data] by simp
  show "in_parent i = in_parent j"
    using arg_cong [OF assms, of in_parent] by simp
  show "dir_entries i = dir_entries j"
    using arg_cong [OF assms, of dir_entries] by simp
  show "at_object_type (in_attrs i) = at_object_type (in_attrs j)"
    using arg_cong [OF assms, of "\<lambda>i. at_object_type (in_attrs i)"] by simp
  show "abs_node i = abs_node j"
    using arg_cong [OF assms, of abs_node] by simp
  show "inode_ok k i = inode_ok k j"
    using arg_cong [OF assms, of "inode_ok k"] by simp
qed

lemma same_shape_refl: "hm_wf m \<Longrightarrow> same_shape m m"
  by (simp add: same_shape_def)

lemma same_shape_trans: "same_shape a b \<Longrightarrow> same_shape b c \<Longrightarrow> same_shape a c"
  by (simp add: same_shape_def)

lemma same_shape_get:
  assumes "same_shape m m'"
  shows "hm_get m k = None \<Longrightarrow> hm_get m' k = None"
    and "hm_get m k = Some i \<Longrightarrow> \<exists>j. hm_get m' k = Some j \<and> set_link_count 0 j = set_link_count 0 i"
    and "hm_get m' k = Some j \<Longrightarrow> \<exists>i. hm_get m k = Some i \<and> set_link_count 0 j = set_link_count 0 i"
    and "hm_get m' k = None \<Longrightarrow> hm_get m k = None"
proof -
  have "map_option (set_link_count 0) (hm_get m' k) = map_option (set_link_count 0) (hm_get m k)"
    using assms by (simp add: same_shape_def)
  then show "hm_get m k = None \<Longrightarrow> hm_get m' k = None"
    and "hm_get m k = Some i \<Longrightarrow> \<exists>j. hm_get m' k = Some j \<and> set_link_count 0 j = set_link_count 0 i"
    and "hm_get m' k = Some j \<Longrightarrow> \<exists>i. hm_get m k = Some i \<and> set_link_count 0 j = set_link_count 0 i"
    and "hm_get m' k = None \<Longrightarrow> hm_get m k = None"
    by (cases "hm_get m k"; cases "hm_get m' k"; simp)+
qed

lemma same_shape_dom: "same_shape m m' \<Longrightarrow> hm_get m' k = None \<longleftrightarrow> hm_get m k = None"
  unfolding same_shape_def by (metis option.map_disc_iff)

lemma same_shape_observe:
  assumes "same_shape m m'" and "\<And>i j. set_link_count 0 i = set_link_count 0 j \<Longrightarrow> f i = f j"
  shows "map_option f (hm_get m' k) = map_option f (hm_get m k)"
proof (cases "hm_get m k")
  case None
  then show ?thesis using same_shape_get(1) [OF assms(1) None] by simp
next
  case (Some i)
  with same_shape_get(2) [OF assms(1)] obtain j
    where j: "hm_get m' k = Some j" and eq: "set_link_count 0 j = set_link_count 0 i" by blast
  from assms(2) [OF eq] show ?thesis
    by (simp add: Some j)
qed

lemma same_shape_abs: "same_shape m m' \<Longrightarrow> abs_tree m' = abs_tree m"
  unfolding abs_tree_def
  by (rule ext) (erule same_shape_observe, erule set_link_count_eqD)

lemma same_shape_bind:
  assumes "same_shape m m'" and "\<And>i j. set_link_count 0 i = set_link_count 0 j \<Longrightarrow> f i = f j"
  shows "Option.bind (hm_get m' k) f = Option.bind (hm_get m k) f"
proof -
  have "map_option f (hm_get m' k) = map_option f (hm_get m k)"
    using assms by (rule same_shape_observe)
  then show ?thesis
    by (cases "hm_get m k"; cases "hm_get m' k") simp_all
qed

lemma same_shape_entries:
  "same_shape m m' \<Longrightarrow> Option.bind (hm_get m' k) dir_entries = Option.bind (hm_get m k) dir_entries"
  by (erule same_shape_bind) (erule set_link_count_eqD)

lemma same_shape_parent: "same_shape m m' \<Longrightarrow> parent_of m' k = parent_of m k"
  unfolding parent_of_def by (erule same_shape_bind) (auto dest: set_link_count_eqD(2,4))

lemma same_shape_ok: "same_shape m m' \<Longrightarrow> inodes_ok m \<Longrightarrow> inodes_ok m'"
  unfolding inodes_ok_def by (metis same_shape_def same_shape_get(3) set_link_count_eqD(6))

section \<open>Counting\<close>

definition link_target :: "(u64, inode) hmap \<Rightarrow> u64 \<Rightarrow> u64 \<Rightarrow> u64 option" where
  "link_target m d c = Option.bind (hm_get m c) (\<lambda>i.
     Some (if at_object_type (in_attrs i) = Ot_Directory then d else c))"

definition dir_children :: "(u64, inode) hmap \<Rightarrow> u64 \<Rightarrow> u64 list" where
  "dir_children m d = (case Option.bind (hm_get m d) dir_entries of None \<Rightarrow> [] | Some es \<Rightarrow> map snd es)"

definition link_hits :: "(u64, inode) hmap \<Rightarrow> u64 \<Rightarrow> u64 \<Rightarrow> nat" where
  "link_hits m x d = length (filter (\<lambda>c. link_target m d c = Some x) (dir_children m d))"

lemma same_shape_target: "same_shape m m' \<Longrightarrow> link_target m' = link_target m"
  unfolding link_target_def
  by (intro ext, erule same_shape_bind) (auto dest: set_link_count_eqD(4))

lemma same_shape_children: "same_shape m m' \<Longrightarrow> dir_children m' = dir_children m"
  unfolding dir_children_def by (rule ext) (simp add: same_shape_entries)

lemma same_shape_hits: "same_shape m m' \<Longrightarrow> link_hits m' = link_hits m"
  unfolding link_hits_def by (simp add: same_shape_children same_shape_target)

lemma same_shape_bump: "hm_wf m \<Longrightarrow> same_shape m (bump_link k m)"
  by (auto simp: bump_link_def same_shape_def hm_simps split: option.split)

lemma lc_bump: "hm_get m x \<noteq> None \<Longrightarrow> links_at (bump_link k m) x = links_at m x + (if x = k then 1 else 0)"
  by (auto simp: bump_link_def links_at_def hm_simps split: option.split)

lemma count_link_eq:
  "count_link d c m = (case link_target m d c of None \<Rightarrow> m | Some k \<Rightarrow> bump_link k m)"
  by (auto simp: count_link_def link_target_def split: option.split object_type.split bind_split)

lemma count_link:
  assumes "hm_wf m"
  shows "same_shape m (count_link d c m)"
    and "hm_get m x \<noteq> None \<Longrightarrow>
      links_at (count_link d c m) x = links_at m x + (if link_target m d c = Some x then 1 else 0)"
  using assms
  by (auto simp: count_link_eq same_shape_refl same_shape_bump lc_bump split: option.split)

lemma count_links_shape: "hm_wf m \<Longrightarrow> same_shape m (fold (count_link d) cs m)"
proof (induction cs arbitrary: m)
  case Nil
  then show ?case by (simp add: same_shape_refl)
next
  case (Cons c cs)
  have shape: "same_shape m (count_link d c m)"
    using Cons.prems by (rule count_link)
  then have "hm_wf (count_link d c m)"
    by (simp add: same_shape_def)
  from same_shape_trans [OF shape Cons.IH [OF this]] show ?case by simp
qed

lemma count_links_lc:
  "hm_wf m \<Longrightarrow> hm_get m x \<noteq> None \<Longrightarrow> links_at (fold (count_link d) cs m) x
    = links_at m x + word_of_nat (length (filter (\<lambda>c. link_target m d c = Some x) cs))"
proof (induction cs arbitrary: m)
  case Nil
  then show ?case by simp
next
  case (Cons c cs)
  let ?m = "count_link d c m"
  have shape: "same_shape m ?m"
    using Cons.prems(1) by (rule count_link)
  then have wf: "hm_wf ?m"
    by (simp add: same_shape_def)
  have x: "hm_get ?m x \<noteq> None"
    using Cons.prems(2) by (simp add: same_shape_dom [OF shape])
  note same_shape_target [OF shape]
  then have "links_at (fold (count_link d) cs ?m) x
      = links_at ?m x + word_of_nat (length (filter (\<lambda>c. link_target m d c = Some x) cs))"
    using Cons.IH [OF wf x] by (simp only:)
  also have "links_at ?m x = links_at m x + (if link_target m d c = Some x then 1 else 0)"
    using Cons.prems by (rule count_link)
  finally show ?case
    by (simp add: algebra_simps)
qed

lemma count_dir:
  assumes "hm_wf m"
  shows "same_shape m (count_dir d m)"
    and "hm_get m x \<noteq> None \<Longrightarrow> links_at (count_dir d m) x = links_at m x + word_of_nat (link_hits m x d)"
  using assms count_links_shape [OF assms] count_links_lc [OF assms]
  by (auto simp: count_dir_def dir_children_def link_hits_def same_shape_refl split: option.splits)

lemma count_dirs_shape: "hm_wf m \<Longrightarrow> same_shape m (fold count_dir ds m)"
proof (induction ds arbitrary: m)
  case Nil
  then show ?case by (simp add: same_shape_refl)
next
  case (Cons d ds)
  have shape: "same_shape m (count_dir d m)"
    using Cons.prems by (rule count_dir)
  then have "hm_wf (count_dir d m)"
    by (simp add: same_shape_def)
  from same_shape_trans [OF shape Cons.IH [OF this]] show ?case by simp
qed

lemma count_dirs_lc:
  "hm_wf m \<Longrightarrow> hm_get m x \<noteq> None \<Longrightarrow> links_at (fold count_dir ds m) x
    = links_at m x + word_of_nat (\<Sum>d\<leftarrow>ds. link_hits m x d)"
proof (induction ds arbitrary: m)
  case Nil
  then show ?case by simp
next
  case (Cons d ds)
  let ?m = "count_dir d m"
  have shape: "same_shape m ?m"
    using Cons.prems(1) by (rule count_dir)
  then have wf: "hm_wf ?m"
    by (simp add: same_shape_def)
  have x: "hm_get ?m x \<noteq> None"
    using Cons.prems(2) by (simp add: same_shape_dom [OF shape])
  note same_shape_hits [OF shape]
  then have "links_at (fold count_dir ds ?m) x
      = links_at ?m x + word_of_nat (\<Sum>d\<leftarrow>ds. link_hits m x d)"
    using Cons.IH [OF wf x] by (simp only:)
  also have "links_at ?m x = links_at m x + word_of_nat (link_hits m x d)"
    using Cons.prems by (rule count_dir)
  finally show ?case by simp
qed

section \<open>The counts are the ones of the specification\<close>

lemma length_filter_values:
  assumes "hm_wf es"
  shows "length (filter P (map snd es)) = card {n. \<exists>c. hm_get es n = Some c \<and> P c}"
proof -
  have keys: "distinct (map fst es)"
    using assms by (simp add: hm_wf_def)
  let ?fs = "filter (\<lambda>e. P (snd e)) es"
  have "{n. \<exists>c. hm_get es n = Some c \<and> P c} = fst ` set ?fs"
    using hm_get_iff_mem [OF assms] by force
  moreover have "inj_on fst (set ?fs)"
    using keys by (auto simp: distinct_map intro: inj_on_subset)
  moreover have "card (set ?fs) = length ?fs"
    using keys by (intro distinct_card) (simp add: distinct_map)
  ultimately show ?thesis
    by (simp only: card_image filter_map comp_def length_map)
qed

lemma abs_tree_dir:
  "abs_tree m k = Some (A_Dir f) \<longleftrightarrow>
     (\<exists>i es. hm_get m k = Some i \<and> dir_entries i = Some es \<and> f = hm_get es)"
  by (auto simp: abs_tree_def abs_node_def dir_entries_def split: inode_data.splits)

lemma has_entry_iff:
  "has_entry (abs_tree m) d n k \<longleftrightarrow>
     (\<exists>i es. hm_get m d = Some i \<and> dir_entries i = Some es \<and> hm_get es n = Some k)"
  by (auto simp: has_entry_def abs_tree_dir)

lemma is_adir_iff: "is_adir (abs_tree m) k \<longleftrightarrow> (\<exists>i es. hm_get m k = Some i \<and> dir_entries i = Some es)"
  by (auto simp: is_adir_def abs_tree_dir)

lemma inode_ok_dir:
  "inode_ok k i \<Longrightarrow> at_object_type (in_attrs i) = Ot_Directory \<longleftrightarrow> (\<exists>es. dir_entries i = Some es)"
  by (auto simp: inode_ok_def data_type_def dir_entries_def split: inode_data.splits)

lemma inodes_ok_get: "inodes_ok m \<Longrightarrow> hm_get m k = Some i \<Longrightarrow> inode_ok k i"
  by (simp add: inodes_ok_def)

lemma inodes_ok_entries:
  assumes "inodes_ok m" and "hm_get m k = Some i" and "dir_entries i = Some es"
  shows "hm_wf es"
  using inodes_ok_get [OF assms(1,2)] assms(3)
  by (auto simp: inode_ok_def size_ok_def dir_entries_def split: inode_data.splits)

lemma link_target_eq:
  assumes "inodes_ok m" and "hm_get m c = Some i"
  shows "link_target m d c = Some (if is_adir (abs_tree m) c then d else c)"
  using assms inode_ok_dir [OF inodes_ok_get [OF assms]] by (auto simp: link_target_def is_adir_iff)

lemma directory_ids:
  assumes "hm_wf m"
  shows "distinct (directory_ids m)" and "set (directory_ids m) = {d. is_adir (abs_tree m) d}"
proof -
  show "distinct (directory_ids m)"
    using assms by (simp add: directory_ids_def hm_wf_def distinct_map_filter)
  show "set (directory_ids m) = {d. is_adir (abs_tree m) d}"
    using hm_get_iff_mem [OF assms] by (force simp: directory_ids_def is_adir_iff)
qed

lemma same_shape_reset:
  "hm_wf m \<Longrightarrow> same_shape m (hm_map_values (\<lambda>i. set_link_count (base_link_count i) i) m)"
  by (simp add: same_shape_def hm_simps option.map_comp comp_def)

lemma recompute_shape: "hm_wf m \<Longrightarrow> same_shape m (recompute_link_counts m)"
  unfolding recompute_link_counts_def Let_def
  by (rule same_shape_trans [OF same_shape_reset count_dirs_shape]) (simp_all add: hm_simps)

lemma recompute_lc:
  assumes "hm_wf m" and "hm_get m x = Some i"
  shows "links_at (recompute_link_counts m) x = base_link_count i
    + word_of_nat (\<Sum>d | is_adir (abs_tree m) d. link_hits m x d)"
proof -
  let ?m = "hm_map_values (\<lambda>i. set_link_count (base_link_count i) i) m"
  have shape: "same_shape m ?m" and wf: "hm_wf ?m"
    using assms(1) by (simp_all add: same_shape_reset hm_simps)
  have "links_at (recompute_link_counts m) x = links_at ?m x + word_of_nat (\<Sum>d\<leftarrow>directory_ids ?m. link_hits m x d)"
    using count_dirs_lc [OF wf, of x "directory_ids ?m"] assms(2)
    by (simp add: recompute_link_counts_def Let_def same_shape_hits [OF shape] hm_simps)
  also have "(\<Sum>d\<leftarrow>directory_ids ?m. link_hits m x d) = (\<Sum>d | is_adir (abs_tree m) d. link_hits m x d)"
    using directory_ids [OF wf] by (simp add: sum_list_distinct_conv_sum_set same_shape_abs [OF shape])
  also have "links_at ?m x = base_link_count i"
    using assms(2) by (simp add: links_at_def hm_simps)
  finally show ?thesis .
qed

lemma hits_dir:
  assumes "inodes_ok m" and "is_adir (abs_tree m) x"
    and closed: "\<And>d n c. has_entry (abs_tree m) d n c \<Longrightarrow> abs_tree m c \<noteq> None"
    and "is_adir (abs_tree m) d"
  shows "link_hits m x d = (if d = x then card {n. \<exists>c. has_entry (abs_tree m) x n c \<and> is_adir (abs_tree m) c} else 0)"
proof -
  obtain i es where i: "hm_get m d = Some i" and es: "dir_entries i = Some es"
    using assms(4) by (auto simp: is_adir_iff)
  have wf: "hm_wf es"
    by (rule inodes_ok_entries [OF assms(1) i es])
  have "(link_target m d c = Some x) = (d = x \<and> is_adir (abs_tree m) c)" if c: "c \<in> snd ` set es" for c
  proof -
    obtain n where "hm_get es n = Some c"
      using c hm_get_iff_mem [OF wf] by force
    then have "has_entry (abs_tree m) d n c"
      using i es by (auto simp: has_entry_iff)
    then have "abs_tree m c \<noteq> None"
      by (rule closed)
    then obtain j where "hm_get m c = Some j"
      by (auto simp: abs_tree_def)
    from link_target_eq [OF assms(1) this] assms(2) show ?thesis by auto
  qed
  then have "filter (\<lambda>c. link_target m d c = Some x) (map snd es)
      = filter (\<lambda>c. d = x \<and> is_adir (abs_tree m) c) (map snd es)"
    by (intro filter_cong) auto
  then have "link_hits m x d = length (filter (\<lambda>c. d = x \<and> is_adir (abs_tree m) c) (map snd es))"
    by (simp add: link_hits_def dir_children_def i es)
  also have "\<dots> = card {n. \<exists>c. hm_get es n = Some c \<and> d = x \<and> is_adir (abs_tree m) c}"
    by (rule length_filter_values [OF wf])
  also have "\<dots> = (if d = x then card {n. \<exists>c. has_entry (abs_tree m) x n c \<and> is_adir (abs_tree m) c} else 0)"
    using i es by (auto simp: has_entry_iff intro!: arg_cong [where f = card])
  finally show ?thesis .
qed

lemma hits_file:
  assumes "inodes_ok m" and "\<not> is_adir (abs_tree m) x" and "abs_tree m x \<noteq> None"
    and "is_adir (abs_tree m) d"
  shows "link_hits m x d = card {n. has_entry (abs_tree m) d n x}"
proof -
  obtain i es where i: "hm_get m d = Some i" and es: "dir_entries i = Some es"
    using assms(4) by (auto simp: is_adir_iff)
  have wf: "hm_wf es"
    by (rule inodes_ok_entries [OF assms(1) i es])
  have "(link_target m d c = Some x) = (c = x)" for c
  proof (cases "hm_get m c")
    case None
    then show ?thesis using assms(3) by (auto simp: link_target_def abs_tree_def)
  next
    case (Some j)
    from link_target_eq [OF assms(1) Some] assms(2,4) show ?thesis by auto
  qed
  then have "link_hits m x d = length (filter (\<lambda>c. c = x) (map snd es))"
    by (simp add: link_hits_def dir_children_def i es)
  also have "\<dots> = card {n. \<exists>c. hm_get es n = Some c \<and> c = x}"
    by (rule length_filter_values [OF wf])
  also have "{n. \<exists>c. hm_get es n = Some c \<and> c = x} = {n. has_entry (abs_tree m) d n x}"
    using i es by (auto simp: has_entry_iff)
  finally show ?thesis .
qed

lemma finite_dirs: "hm_wf m \<Longrightarrow> finite {d. is_adir (abs_tree m) d}"
  using directory_ids(2) [of m] by (metis List.finite_set)

lemma finite_names:
  assumes "inodes_ok m"
  shows "finite {n. has_entry (abs_tree m) d n k}"
proof (cases "Option.bind (hm_get m d) dir_entries")
  case None
  then have "{n. has_entry (abs_tree m) d n k} = {}"
    by (auto simp: has_entry_iff)
  then show ?thesis by simp
next
  case (Some es)
  then have "{n. has_entry (abs_tree m) d n k} \<subseteq> fst ` set es"
    by (force simp: has_entry_iff bind_eq_Some_conv hm_get_def dest: map_of_SomeD)
  then show ?thesis by (rule finite_subset) simp
qed

text \<open>After recounting, every inode has the link count the specification asks for.\<close>

lemma recompute_links:
  assumes ok: "inodes_ok m"
    and closed: "\<And>d n c. has_entry (abs_tree m) d n c \<Longrightarrow> abs_tree m c \<noteq> None"
  shows "links_ok (recompute_link_counts m)"
  unfolding links_ok_def
proof (intro allI impI)
  fix k j
  assume j: "hm_get (recompute_link_counts m) k = Some j"
  let ?t = "abs_tree m"
  have wf: "hm_wf m"
    using ok by (simp add: inodes_ok_def)
  note shape = recompute_shape [OF wf]
  obtain i where i: "hm_get m k = Some i"
    using same_shape_get(3) [OF shape j] by blast
  have lc: "at_link_count (in_attrs j) = base_link_count i + word_of_nat (\<Sum>d | is_adir ?t d. link_hits m k d)"
    using recompute_lc [OF wf i] j by (simp add: links_at_def)
  show "at_link_count (in_attrs j) = word_of_nat (link_count (abs_tree (recompute_link_counts m)) k)"
  proof (cases "is_adir ?t k")
    case True
    have "(\<Sum>d | is_adir ?t d. link_hits m k d)
        = (\<Sum>d | is_adir ?t d. if d = k then card {n. \<exists>c. has_entry ?t k n c \<and> is_adir ?t c} else 0)"
      by (intro sum.cong refl hits_dir [OF ok True]) (use closed in auto)
    also have "\<dots> = card {n. \<exists>c. has_entry ?t k n c \<and> is_adir ?t c}"
      using finite_dirs [OF wf] True by (simp add: sum.delta)
    finally have sum: "(\<Sum>d | is_adir ?t d. link_hits m k d) = card {n. \<exists>c. has_entry ?t k n c \<and> is_adir ?t c}" .
    have "base_link_count i = 2"
      using True inode_ok_dir [OF inodes_ok_get [OF ok i]] i
      by (auto simp: base_link_count_def is_adir_iff)
    with True show ?thesis
      by (simp add: lc sum same_shape_abs [OF shape] link_count_def)
  next
    case False
    have "{(d, n). has_entry ?t d n k} = (SIGMA d : {d. is_adir ?t d}. {n. has_entry ?t d n k})"
      by (auto simp: has_entry_def is_adir_def)
    then have "card {(d, n). has_entry ?t d n k} = (\<Sum>d | is_adir ?t d. card {n. has_entry ?t d n k})"
      using finite_dirs [OF wf] finite_names [OF ok] by (simp add: card_SigmaI)
    also have "\<dots> = (\<Sum>d | is_adir ?t d. link_hits m k d)"
      by (intro sum.cong refl hits_file [symmetric, OF ok False]) (use i in \<open>auto simp: abs_tree_def\<close>)
    finally have sum: "(\<Sum>d | is_adir ?t d. link_hits m k d) = card {(d, n). has_entry ?t d n k}" ..
    have "base_link_count i = 0"
      using False inode_ok_dir [OF inodes_ok_get [OF ok i]] i
      by (auto simp: base_link_count_def is_adir_iff split: object_type.split)
    with False show ?thesis
      by (simp add: lc sum same_shape_abs [OF shape] link_count_def)
  qed
qed

end
