(* ===== verification/Memfs_Refine.thy ===== *)
theory Memfs_Refine
  imports Memfs_Links
begin

text \<open>
  The in-memory backend implements the abstract tree: each method changes the tree and answers as
  the abstract operation does (\<open>mem_create_abs\<close> and its siblings), and keeps the inode table well
  formed.
\<close>

section \<open>The building blocks\<close>

lemma abs_tree_insert: "abs_tree (hm_insert k i m) = (abs_tree m)(k \<mapsto> abs_node i)"
  by (rule ext) (simp add: abs_tree_def hm_simps)

lemma abs_tree_remove: "abs_tree (hm_remove k m) = (abs_tree m)(k := None)"
  by (rule ext) (simp add: abs_tree_def hm_simps)

lemma abs_put_inode: "abs_fs (put_inode k i fs) = (abs_fs fs)(k \<mapsto> abs_node i)"
  by (simp add: abs_fs_def put_inode_def abs_tree_insert)

lemma abs_next [simp]:
  "abs_fs (fs\<lparr>mf_next_id := n\<rparr>) = abs_fs fs" "abs_fs (fs\<lparr>mf_next_change := n\<rparr>) = abs_fs fs"
  by (simp_all add: abs_fs_def)

lemma abs_recount: "hm_wf (mf_inodes fs) \<Longrightarrow> abs_fs (recount fs) = abs_fs fs"
  by (simp add: abs_fs_def recount_def same_shape_abs [OF recompute_shape])

lemma inodes_ok_insert: "inodes_ok m \<Longrightarrow> inode_ok k i \<Longrightarrow> inodes_ok (hm_insert k i m)"
  by (auto simp: inodes_ok_def hm_simps)

lemma inodes_ok_remove: "inodes_ok m \<Longrightarrow> inodes_ok (hm_remove k m)"
  by (auto simp: inodes_ok_def hm_simps split: if_splits)

lemma inodes_ok_recount: "inodes_ok (mf_inodes fs) \<Longrightarrow> inodes_ok (mf_inodes (recount fs))"
  unfolding recount_def using same_shape_ok [OF recompute_shape, of "mf_inodes fs"]
  by (simp add: inodes_ok_def [of "mf_inodes fs"])

lemma inodes_ok_put:
  "inodes_ok (mf_inodes fs) \<Longrightarrow> inode_ok k i \<Longrightarrow> inodes_ok (mf_inodes (put_inode k i fs))"
  by (simp add: put_inode_def inodes_ok_insert)

text \<open>The inode \<open>touch_dir\<close> writes, and its effect on the tree.\<close>

definition touched :: "timestamp \<Rightarrow> ((rust_string, u64) hmap \<Rightarrow> (rust_string, u64) hmap) \<Rightarrow> u64 \<Rightarrow> inode \<Rightarrow> inode" where
  "touched now f change i =
     (let i = (case in_data i of Idata_Directory es \<Rightarrow> i\<lparr>in_data := Idata_Directory (f es)\<rparr> | _ \<Rightarrow> i) in
      i\<lparr>in_attrs := (touch_change now change (in_attrs i))\<lparr>at_mtime := now\<rparr>\<rparr>)"

lemma touch_dir_eq:
  "touch_dir now f d fs = (case hm_get (mf_inodes fs) d of
       None \<Rightarrow> fs
     | Some i \<Rightarrow> put_inode d (touched now f (mf_next_change fs) i)
         (fs\<lparr>mf_next_change := mf_next_change fs + 1\<rparr>))"
  by (simp add: touch_dir_def touched_def mem_next_change_def Let_def split: option.split)

lemma touched_sel [simp]:
  "in_parent (touched now f c i) = in_parent i" "in_xattrs (touched now f c i) = in_xattrs i"
  "at_object_type (in_attrs (touched now f c i)) = at_object_type (in_attrs i)"
  "at_link_count (in_attrs (touched now f c i)) = at_link_count (in_attrs i)"
  by (simp_all add: touched_def touch_change_def Let_def split: inode_data.split)

lemma touched_ok:
  "inode_ok k i \<Longrightarrow> (\<And>es. hm_wf es \<Longrightarrow> hm_wf (f es)) \<Longrightarrow> inode_ok k (touched now f c i)"
  by (auto simp: inode_ok_def touched_def touch_change_def size_ok_def data_type_def Let_def
      split: inode_data.splits)

lemma touched_node:
  "(\<And>es. hm_get (f es) = g (hm_get es)) \<Longrightarrow>
    abs_node (touched now f c i) = (case abs_node i of A_Dir e \<Rightarrow> A_Dir (g e) | v \<Rightarrow> v)"
  by (simp add: abs_node_def touched_def touch_change_def Let_def split: inode_data.split)

lemma touch_dir_ok:
  assumes "inodes_ok (mf_inodes fs)" and "\<And>es. hm_wf es \<Longrightarrow> hm_wf (f es)"
  shows "inodes_ok (mf_inodes (touch_dir now f d fs))"
  using assms
  by (auto simp: touch_dir_eq intro!: inodes_ok_put touched_ok dest: inodes_ok_get split: option.split)

lemma touch_dir_get:
  "hm_get (mf_inodes (touch_dir now f d fs)) k =
     (if k = d then map_option (touched now f (mf_next_change fs)) (hm_get (mf_inodes fs) d)
      else hm_get (mf_inodes fs) k)"
  by (simp add: touch_dir_eq put_inode_def hm_simps split: option.split)

lemma abs_touch:
  assumes "\<And>es. hm_get (f es) = g (hm_get es)"
  shows "abs_fs (touch_dir now f d fs) = (case abs_fs fs d of
      Some (A_Dir e) \<Rightarrow> (abs_fs fs)(d \<mapsto> A_Dir (g e)) | _ \<Rightarrow> abs_fs fs)"
proof (rule ext)
  fix x
  show "abs_fs (touch_dir now f d fs) x = (case abs_fs fs d of
      Some (A_Dir e) \<Rightarrow> (abs_fs fs)(d \<mapsto> A_Dir (g e)) | _ \<Rightarrow> abs_fs fs) x"
    by (cases "hm_get (mf_inodes fs) d")
      (auto simp: abs_fs_def abs_tree_def touch_dir_get touched_node [of f g, OF assms] split: anode.split)
qed

lemma abs_touch_insert: "abs_fs (touch_dir now (hm_insert n k) d fs) = a_enter (abs_fs fs) d n k"
  unfolding a_enter_def by (rule abs_touch) (simp add: hm_simps fun_eq_iff)

lemma abs_touch_remove: "abs_fs (touch_dir now (hm_remove n) d fs) = a_drop_name (abs_fs fs) d n"
  unfolding a_drop_name_def by (rule abs_touch) (simp add: hm_simps fun_eq_iff)

lemma abs_touch_move:
  "abs_fs (touch_dir now (\<lambda>es. hm_insert n' k (hm_remove n es)) d fs)
     = a_enter (a_drop_name (abs_fs fs) d n) d n' k"
proof -
  have "abs_fs (touch_dir now (\<lambda>es. hm_insert n' k (hm_remove n es)) d fs) = (case abs_fs fs d of
      Some (A_Dir e) \<Rightarrow> (abs_fs fs)(d \<mapsto> A_Dir (e(n := None, n' \<mapsto> k))) | _ \<Rightarrow> abs_fs fs)"
    by (rule abs_touch) (simp add: hm_simps fun_eq_iff)
  then show ?thesis
    by (simp add: a_enter_def a_drop_name_def split: option.split anode.split)
qed

lemma linked_iff:
  assumes ok: "inodes_ok m"
  shows "hm_any (\<lambda>_ candidate. case dir_entries candidate of
      None \<Rightarrow> False | Some es \<Rightarrow> hm_any (\<lambda>_ c. c = k) es) m \<longleftrightarrow> (\<exists>d n. has_entry (abs_tree m) d n k)"
    (is "?any \<longleftrightarrow> ?named")
proof
  have wf: "hm_wf m"
    using ok by (simp add: inodes_ok_def)
  {
    assume ?any
    then obtain d j es where j: "hm_get m d = Some j" "dir_entries j = Some es"
      and "hm_any (\<lambda>_ c. c = k) es"
      by (auto simp: hm_any_iff [OF wf] split: option.splits)
    then obtain n where "hm_get es n = Some k"
      by (auto simp: hm_any_iff [OF inodes_ok_entries [OF ok j]])
    with j show ?named by (auto simp: has_entry_iff)
  next
    assume ?named
    then obtain d j es n where j: "hm_get m d = Some j" "dir_entries j = Some es"
      and "hm_get es n = Some k"
      by (auto simp: has_entry_iff)
    then have "hm_any (\<lambda>_ c. c = k) es"
      by (auto simp: hm_any_iff [OF inodes_ok_entries [OF ok j]])
    with j show ?any
      by (auto simp: hm_any_iff [OF wf] intro!: exI [of _ d] exI [of _ j])
  }
qed

lemma abs_drop_unlinked:
  assumes ok: "inodes_ok (mf_inodes fs)"
  shows "abs_fs (drop_unlinked k fs) = a_drop_unlinked (abs_fs fs) k"
proof (cases "hm_get (mf_inodes fs) k")
  case None
  then have "(abs_fs fs)(k := None) = abs_fs fs"
    by (auto simp: abs_fs_def abs_tree_def)
  with None show ?thesis
    by (simp add: abs_fs_def drop_unlinked_def remove_if_unlinked_def a_drop_unlinked_def)
next
  case (Some i)
  let ?m = "mf_inodes fs"
  have wf: "hm_wf ?m"
    using ok by (simp add: inodes_ok_def)
  have dir: "at_object_type (in_attrs i) = Ot_Directory \<longleftrightarrow> is_adir (abs_tree ?m) k"
    using inode_ok_dir [OF inodes_ok_get [OF ok Some]] Some by (simp add: is_adir_iff)
  have any: "hm_any (\<lambda>_ candidate. case dir_entries candidate of
      None \<Rightarrow> False | Some es \<Rightarrow> hm_any (\<lambda>_ c. c = k) es) ?m \<longleftrightarrow> (\<exists>d n. has_entry (abs_tree ?m) d n k)"
    by (rule linked_iff [OF ok])
  show ?thesis
  proof (cases "is_adir (abs_tree ?m) k")
    case True
    with Some dir show ?thesis
      by (simp add: abs_fs_def drop_unlinked_def remove_if_unlinked_def a_drop_unlinked_def abs_tree_remove)
  next
    case False
    with dir have "at_object_type (in_attrs i) = Ot_File \<or> at_object_type (in_attrs i) = Ot_Symlink"
      by (cases "at_object_type (in_attrs i)") auto
    with Some False any show ?thesis
      by (auto simp: abs_fs_def drop_unlinked_def remove_if_unlinked_def a_drop_unlinked_def
          abs_tree_remove)
  qed
qed

lemma drop_unlinked_ok: "inodes_ok (mf_inodes fs) \<Longrightarrow> inodes_ok (mf_inodes (drop_unlinked k fs))"
  by (simp add: drop_unlinked_def remove_if_unlinked_def Let_def inodes_ok_remove)

section \<open>Lookups\<close>

lemma abs_lookup: "mem_lookup fs d n = a_lookup (abs_fs fs) d n"
  by (auto simp: mem_lookup_def a_lookup_def abs_fs_def abs_tree_def abs_node_def dir_entries_def
      split: option.split inode_data.split)

lemma abs_nonempty:
  assumes "inodes_ok (mf_inodes fs)"
  shows "(case Option.bind (hm_get (mf_inodes fs) k) dir_entries of None \<Rightarrow> False | Some es \<Rightarrow> es \<noteq> [])
    \<longleftrightarrow> a_nonempty (abs_fs fs) k"
proof (cases "Option.bind (hm_get (mf_inodes fs) k) dir_entries")
  case None
  then show ?thesis
    by (auto simp: a_nonempty_def abs_fs_def has_entry_iff)
next
  case (Some es)
  then obtain i where i: "hm_get (mf_inodes fs) k = Some i" "dir_entries i = Some es"
    by (auto simp: bind_eq_Some_conv)
  have "hm_wf es"
    by (rule inodes_ok_entries [OF assms i])
  then have "es \<noteq> [] \<longleftrightarrow> (\<exists>n c. hm_get es n = Some c)"
    by (auto simp: hm_get_iff_mem) (metis list.set_intros(1) neq_Nil_conv surj_pair)
  with Some i show ?thesis
    by (auto simp: a_nonempty_def abs_fs_def has_entry_iff)
qed

section \<open>Attribute updates\<close>

lemma apply_fields_sel [simp]:
  "at_object_type (apply_fields now s a) = at_object_type a"
  "at_fileid (apply_fields now s a) = at_fileid a"
  "at_size (apply_fields now s a) = at_size a"
  "at_space_used (apply_fields now s a) = at_space_used a"
  "at_link_count (apply_fields now s a) = at_link_count a"
  "at_has_named_attrs (apply_fields now s a) = at_has_named_attrs a"
  by (simp_all add: apply_fields_def set_field_def split: option.split)

lemma apply_setattrs_Inl:
  "apply_setattrs now s fs i = Inl e \<longleftrightarrow> a_resize (sa_size s) (abs_node i) = Inl e"
  by (auto simp: apply_setattrs_def apply_size_def a_resize_def abs_node_def checked_file_len_def
      mem_next_change_def Let_def split: option.splits inode_data.splits)

definition setattrs_effect :: "memfs \<Rightarrow> inode \<Rightarrow> memfs \<Rightarrow> inode \<Rightarrow> bool" where
  "setattrs_effect fs i fs' j \<longleftrightarrow>
     mf_inodes fs' = mf_inodes fs \<and> mf_next_id fs' = mf_next_id fs
     \<and> in_parent j = in_parent i \<and> in_xattrs j = in_xattrs i
     \<and> at_object_type (in_attrs j) = at_object_type (in_attrs i)
     \<and> at_link_count (in_attrs j) = at_link_count (in_attrs i)
     \<and> (\<forall>k. inode_ok k i \<longrightarrow> inode_ok k j)"

lemma unat_MAX_FILE_BYTES: "unat MAX_FILE_BYTES = 67108864"
  by (simp add: MAX_FILE_BYTES_def)

lemma length_resize [simp]: "length (resize n data) = n"
  by (simp add: resize_def)

lemma apply_setattrs_Inr:
  assumes "apply_setattrs now s fs i = Inr (fs', j)"
  shows "a_resize (sa_size s) (abs_node i) = Inr (abs_node j)" and "setattrs_effect fs i fs' j"
proof -
  obtain m where size: "apply_size (sa_size s) i = Inr m"
    and j: "in_data j = in_data m" "in_parent j = in_parent m" "in_xattrs j = in_xattrs m"
      "at_object_type (in_attrs j) = at_object_type (in_attrs m)"
      "at_fileid (in_attrs j) = at_fileid (in_attrs m)"
      "at_size (in_attrs j) = at_size (in_attrs m)"
      "at_space_used (in_attrs j) = at_space_used (in_attrs m)"
      "at_link_count (in_attrs j) = at_link_count (in_attrs m)"
      "at_has_named_attrs (in_attrs j) = at_has_named_attrs (in_attrs m)"
    and fs: "mf_inodes fs' = mf_inodes fs" "mf_next_id fs' = mf_next_id fs"
    using assms
    by (auto simp: apply_setattrs_def mem_next_change_def Let_def split: sum.splits if_splits)
  show "a_resize (sa_size s) (abs_node i) = Inr (abs_node j)"
    using size j(1)
    by (auto simp: apply_size_def a_resize_def abs_node_def checked_file_len_def
        split: option.splits inode_data.splits if_splits)
  have "inode_ok k j" if "inode_ok k i" for k
    using that size j
    by (auto simp: apply_size_def checked_file_len_def inode_ok_def size_ok_def data_type_def
        unat_MAX_FILE_BYTES word_less_nat_alt word_le_nat_alt
        split: option.splits inode_data.splits if_splits)
  moreover have "in_parent m = in_parent i" "in_xattrs m = in_xattrs i"
    "at_object_type (in_attrs m) = at_object_type (in_attrs i)"
    "at_link_count (in_attrs m) = at_link_count (in_attrs i)"
    using size
    by (auto simp: apply_size_def split: option.splits inode_data.splits sum.splits)
  ultimately show "setattrs_effect fs i fs' j"
    using j fs by (simp add: setattrs_effect_def)
qed

section \<open>Refinement of the methods\<close>

definition outcome :: "'a fs_result \<Rightarrow> unit fs_result" where
  "outcome r = (case r of Inl e \<Rightarrow> Inl e | Inr _ \<Rightarrow> Inr ())"

lemma outcome_simps [simp]: "outcome (Inl e) = Inl e" "outcome (Inr x) = Inr ()"
  by (simp_all add: outcome_def)

lemma outcome_unit [simp]: "outcome r = r"
  by (auto simp: outcome_def split: sum.split)

definition refines :: "memfs \<times> 'a fs_result \<Rightarrow> atree \<times> unit fs_result \<Rightarrow> bool" where
  "refines c a \<longleftrightarrow> abs_fs (fst c) = fst a \<and> outcome (snd c) = snd a"

definition create_node :: "create_kind \<Rightarrow> anode" where
  "create_node k = (case k of Ck_File \<Rightarrow> A_File [] | Ck_Directory \<Rightarrow> A_Dir Map.empty)"

lemma vacant_iff:
  assumes "inodes_ok (mf_inodes fs)"
  shows "a_vacant (abs_fs fs) d n = (case hm_get (mf_inodes fs) d of
      None \<Rightarrow> Inl Fse_Stale
    | Some p \<Rightarrow> (case dir_entries p of
        None \<Rightarrow> Inl Fse_NotDirectory
      | Some es \<Rightarrow> if hm_get es n \<noteq> None then Inl Fse_AlreadyExists else Inr ()))"
  by (auto simp: a_vacant_def abs_fs_def abs_tree_def abs_node_def dir_entries_def
      split: option.split inode_data.split)

lemma enter_inode_abs:
  assumes ok: "inodes_ok (mf_inodes fs)" and vacant: "a_vacant (abs_fs fs) d n = Inr ()"
    and i: "inode_ok k i"
  shows "refines (enter_inode now fs d n k i) ((a_enter (abs_fs fs) d n k)(k \<mapsto> abs_node i), Inr ())"
    and "inodes_ok (mf_inodes (fst (enter_inode now fs d n k i)))"
proof -
  obtain p es where p: "hm_get (mf_inodes fs) d = Some p" "dir_entries p = Some es"
    using vacant by (auto simp: vacant_iff [OF ok] split: option.splits)
  let ?fs = "put_inode k i (touch_dir now (hm_insert n k) d fs)"
  have ok': "inodes_ok (mf_inodes ?fs)"
    using ok i by (intro inodes_ok_put touch_dir_ok) (auto simp: hm_simps)
  then have wf: "hm_wf (mf_inodes ?fs)"
    by (simp add: inodes_ok_def)
  then have "hm_get (mf_inodes (recount ?fs)) k \<noteq> None"
    by (simp add: recount_def same_shape_dom [OF recompute_shape]) (simp add: put_inode_def hm_simps)
  then show "refines (enter_inode now fs d n k i) ((a_enter (abs_fs fs) d n k)(k \<mapsto> abs_node i), Inr ())"
    by (auto simp: refines_def enter_inode_def p Let_def abs_recount [OF wf] abs_put_inode abs_touch_insert)
  show "inodes_ok (mf_inodes (fst (enter_inode now fs d n k i)))"
    using inodes_ok_recount [OF ok'] by (simp add: enter_inode_def p Let_def)
qed

lemma inodes_ok_next [simp]:
  "mf_inodes (fs\<lparr>mf_next_id := n\<rparr>) = mf_inodes fs" "mf_inodes (fs\<lparr>mf_next_change := n\<rparr>) = mf_inodes fs"
  by simp_all

lemma abs_fs_cong: "mf_inodes fs' = mf_inodes fs \<Longrightarrow> abs_fs fs' = abs_fs fs"
  by (simp add: abs_fs_def)

lemma new_inode_ok:
  "inode_ok k \<lparr>in_attrs = apply_create_owner ctx (attrs_new now (create_kind_type kind) k),
     in_parent = p, in_data = create_kind_data kind, in_xattrs = []\<rparr>"
  "inode_ok k \<lparr>in_attrs = (apply_create_owner ctx (attrs_new now Ot_Symlink k))
       \<lparr>at_size := word_of_nat (length target), at_space_used := word_of_nat (length target)\<rparr>,
     in_parent = p, in_data = Idata_Symlink target, in_xattrs = []\<rparr>"
  by (auto simp: inode_ok_def apply_create_owner_def attrs_new_def create_kind_type_def
      create_kind_data_def data_type_def size_ok_def split: create_kind.split auth_context.split)

text \<open>Both creating methods: check that the name is free, set the attributes, enter the inode.\<close>

definition create_with ::
  "timestamp \<Rightarrow> memfs \<Rightarrow> u64 \<Rightarrow> rust_string \<Rightarrow> u64 \<Rightarrow> set_attrs \<Rightarrow> inode \<Rightarrow> (inode \<Rightarrow> inode)
    \<Rightarrow> memfs \<times> u64 create_result fs_result" where
  "create_with now fs d n k s i g = (case a_vacant (abs_fs fs) d n of
      Inl e \<Rightarrow> (fs, Inl e)
    | Inr _ \<Rightarrow> (case apply_setattrs now s fs i of
        Inl e \<Rightarrow> (fs, Inl e)
      | Inr (fs, i) \<Rightarrow> enter_inode now fs d n k (g i)))"

lemma create_with_abs:
  assumes ok: "inodes_ok (mf_inodes fs)" and i: "inode_ok k i"
    and g: "\<And>j. inode_ok k j \<Longrightarrow> a_resize (sa_size s) (abs_node i) = Inr (abs_node j) \<Longrightarrow>
      inode_ok k (g j) \<and> abs_node (g j) = abs_node j"
  shows "refines (create_with now fs d n k s i g)
      (a_create (abs_fs fs) k d n (a_resize (sa_size s) (abs_node i)))
    \<and> inodes_ok (mf_inodes (fst (create_with now fs d n k s i g)))"
proof (cases "a_vacant (abs_fs fs) d n")
  case (Inl e)
  then show ?thesis
    using ok by (simp add: create_with_def a_create_def refines_def)
next
  case vacant: (Inr u)
  show ?thesis
  proof (cases "apply_setattrs now s fs i")
    case (Inl e)
    then have "a_resize (sa_size s) (abs_node i) = Inl e"
      by (simp add: apply_setattrs_Inl)
    with vacant Inl show ?thesis
      using ok by (simp add: create_with_def a_create_def refines_def)
  next
    case (Inr r)
    obtain fs' j where r: "r = (fs', j)"
      by fastforce
    note set = apply_setattrs_Inr [OF Inr [unfolded r]]
    have fs': "mf_inodes fs' = mf_inodes fs" "abs_fs fs' = abs_fs fs"
      using set(2) by (simp_all add: setattrs_effect_def abs_fs_def)
    have "inode_ok k j"
      using set(2) i by (simp add: setattrs_effect_def)
    then have gj: "inode_ok k (g j)" "abs_node (g j) = abs_node j"
      using g set(1) by simp_all
    have "inodes_ok (mf_inodes fs')" "a_vacant (abs_fs fs') d n = Inr ()"
      using ok vacant by (simp_all add: fs')
    from enter_inode_abs [OF this gj(1), of now] show ?thesis
      using vacant Inr set(1) by (simp add: create_with_def a_create_def r fs' gj(2))
  qed
qed

definition new_inode :: "timestamp \<Rightarrow> request_context \<Rightarrow> create_kind \<Rightarrow> u64 \<Rightarrow> u64 \<Rightarrow> inode" where
  "new_inode now ctx kind k d = \<lparr>in_attrs = apply_create_owner ctx (attrs_new now (create_kind_type kind) k),
     in_parent = Some d, in_data = create_kind_data kind, in_xattrs = []\<rparr>"

definition new_symlink :: "timestamp \<Rightarrow> request_context \<Rightarrow> rust_string \<Rightarrow> u64 \<Rightarrow> u64 \<Rightarrow> inode" where
  "new_symlink now ctx target k d =
     \<lparr>in_attrs = (apply_create_owner ctx (attrs_new now Ot_Symlink k))
       \<lparr>at_size := word_of_nat (length target), at_space_used := word_of_nat (length target)\<rparr>,
     in_parent = Some d, in_data = Idata_Symlink target, in_xattrs = []\<rparr>"

definition fix_size :: "nat \<Rightarrow> inode \<Rightarrow> inode" where
  "fix_size len i = i\<lparr>in_attrs := (in_attrs i)\<lparr>at_size := word_of_nat len, at_space_used := word_of_nat len\<rparr>\<rparr>"

lemma new_ok:
  "inode_ok k (new_inode now ctx kind k d)" "inode_ok k (new_symlink now ctx target k d)"
  unfolding new_inode_def new_symlink_def by (rule new_inode_ok)+

lemma new_node:
  "abs_node (new_inode now ctx kind k d) = create_node kind"
  "abs_node (new_symlink now ctx target k d) = A_Link target"
  by (simp_all add: new_inode_def new_symlink_def abs_node_def create_node_def create_kind_data_def
      fun_eq_iff split: create_kind.split)

lemma mem_create_eq:
  assumes "inodes_ok (mf_inodes fs)"
  shows "mem_create now ctx fs d n req =
    create_with now (fs\<lparr>mf_next_id := mf_next_id fs + 1\<rparr>) d n (mf_next_id fs) (crq_attrs req)
      (new_inode now ctx (crq_kind req) (mf_next_id fs) d) (\<lambda>i. i)"
proof (cases "hm_get (mf_inodes fs) d")
  case None
  then show ?thesis
    by (simp add: mem_create_def mem_next_id_def create_with_def vacant_iff [OF assms])
next
  case (Some p)
  then show ?thesis
    using inode_ok_dir [OF inodes_ok_get [OF assms Some]]
    by (cases "dir_entries p")
      (simp_all add: mem_create_def mem_next_id_def create_with_def vacant_iff [OF assms] new_inode_def)
qed

lemma mem_create_symlink_eq:
  assumes "inodes_ok (mf_inodes fs)"
  shows "mem_create_symlink now ctx fs d n target attrs =
    create_with now (fs\<lparr>mf_next_id := mf_next_id fs + 1\<rparr>) d n (mf_next_id fs) attrs
      (new_symlink now ctx target (mf_next_id fs) d) (fix_size (length target))"
proof (cases "hm_get (mf_inodes fs) d")
  case None
  then show ?thesis
    by (simp add: mem_create_symlink_def mem_next_id_def create_with_def vacant_iff [OF assms])
next
  case (Some p)
  then show ?thesis
    by (cases "dir_entries p")
      (simp_all add: mem_create_symlink_def mem_next_id_def create_with_def vacant_iff [OF assms]
        new_symlink_def fix_size_def Let_def split: sum.split)
qed

lemma mem_create_abs:
  assumes "inodes_ok (mf_inodes fs)"
  shows "refines (mem_create now ctx fs d n req)
      (a_create (abs_fs fs) (mf_next_id fs) d n (a_resize (sa_size (crq_attrs req)) (create_node (crq_kind req))))
    \<and> inodes_ok (mf_inodes (fst (mem_create now ctx fs d n req)))"
  using create_with_abs [of "fs\<lparr>mf_next_id := mf_next_id fs + 1\<rparr>" "mf_next_id fs"
      "new_inode now ctx (crq_kind req) (mf_next_id fs) d" "crq_attrs req" "\<lambda>i. i" now d n]
    assms new_ok(1)
  by (simp add: mem_create_eq [OF assms] new_node)

lemma fix_symlink:
  assumes "inode_ok k j" and "a_resize req (A_Link target) = Inr (abs_node j)"
  shows "inode_ok k (fix_size (length target) j) \<and> abs_node (fix_size (length target) j) = abs_node j"
proof -
  have "abs_node j = A_Link target"
    using assms(2) by (auto simp: a_resize_def split: option.splits)
  then have "in_data j = Idata_Symlink target"
    by (auto simp: abs_node_def split: inode_data.splits)
  with assms(1) show ?thesis
    by (simp add: fix_size_def inode_ok_def size_ok_def abs_node_def)
qed

lemma mem_create_symlink_abs:
  assumes "inodes_ok (mf_inodes fs)"
  shows "refines (mem_create_symlink now ctx fs d n target attrs)
      (a_create (abs_fs fs) (mf_next_id fs) d n (a_resize (sa_size attrs) (A_Link target)))
    \<and> inodes_ok (mf_inodes (fst (mem_create_symlink now ctx fs d n target attrs)))"
  using create_with_abs [of "fs\<lparr>mf_next_id := mf_next_id fs + 1\<rparr>" "mf_next_id fs"
      "new_symlink now ctx target (mf_next_id fs) d" attrs "fix_size (length target)" now d n]
    assms new_ok(2) fix_symlink
  by (simp add: mem_create_symlink_eq [OF assms] new_node)

lemma recount_refines:
  assumes "inodes_ok (mf_inodes fs)" and "abs_fs fs = t"
  shows "refines (recount fs, Inr ()) (t, Inr ()) \<and> inodes_ok (mf_inodes (recount fs))"
  using assms inodes_ok_recount abs_recount by (simp add: refines_def inodes_ok_def)

lemma mem_link_abs:
  assumes ok: "inodes_ok (mf_inodes fs)"
  shows "refines (mem_link now fs k d n) (a_link (abs_fs fs) k d n)
    \<and> inodes_ok (mf_inodes (fst (mem_link now fs k d n)))"
proof (cases "hm_get (mf_inodes fs) k")
  case None
  then show ?thesis
    using ok by (simp add: mem_link_def a_link_def refines_def abs_fs_def abs_tree_def)
next
  case (Some i)
  have dir: "at_object_type (in_attrs i) = Ot_Directory \<longleftrightarrow> is_adir (abs_fs fs) k"
    using inode_ok_dir [OF inodes_ok_get [OF ok Some]] Some by (simp add: abs_fs_def is_adir_iff)
  have t: "abs_fs fs k = Some (abs_node i)"
    by (simp add: abs_fs_def abs_tree_def Some)
  have link: "mem_link now fs k d n = (if is_adir (abs_fs fs) k then (fs, Inl Fse_IsDirectory)
      else case a_vacant (abs_fs fs) d n of Inl e \<Rightarrow> (fs, Inl e)
        | Inr _ \<Rightarrow> (recount (touch_dir now (hm_insert n k) d fs), Inr ()))"
    by (auto simp: mem_link_def Some dir vacant_iff [OF ok] split: option.split)
  have "inodes_ok (mf_inodes (touch_dir now (hm_insert n k) d fs))"
    using ok by (rule touch_dir_ok) (simp add: hm_simps)
  from recount_refines [OF this abs_touch_insert] show ?thesis
    using ok by (auto simp: link a_link_def t refines_def split: sum.split)
qed

lemma mem_remove_abs:
  assumes ok: "inodes_ok (mf_inodes fs)"
  shows "refines (mem_remove now fs d n) (a_remove (abs_fs fs) d n)
    \<and> inodes_ok (mf_inodes (fst (mem_remove now fs d n)))"
proof (cases "a_lookup (abs_fs fs) d n")
  case (Inl e)
  then show ?thesis
    using ok by (simp add: mem_remove_def abs_lookup a_remove_def refines_def)
next
  case (Inr k)
  let ?fs = "drop_unlinked k (touch_dir now (hm_remove n) d fs)"
  have "inodes_ok (mf_inodes (touch_dir now (hm_remove n) d fs))"
    using ok by (rule touch_dir_ok) (simp add: hm_simps)
  then have "inodes_ok (mf_inodes ?fs)" "abs_fs ?fs = a_drop_unlinked (a_drop_name (abs_fs fs) d n) k"
    by (simp_all add: drop_unlinked_ok abs_drop_unlinked abs_touch_remove)
  from recount_refines [OF this] show ?thesis
    using ok Inr
    by (simp add: mem_remove_def abs_lookup abs_nonempty [OF ok] a_remove_def) (simp add: refines_def)
qed

lemma checked_write_range_iff:
  assumes "length data < 2 ^ 64"
  shows "checked_write_range offset (length data) =
    (if unat offset + length data > unat MAX_FILE_BYTES then Inl Fse_FileTooLarge
     else Inr (unat offset, unat offset + length data))"
proof -
  have len: "unat (word_of_nat (length data) :: u64) = length data"
    using assms by (rule unat_of_nat_u64)
  show ?thesis
  proof (cases "unat offset + length data < 2 ^ 64")
    case True
    then have "unat (offset + word_of_nat (length data)) = unat offset + length data"
      by (simp add: unat_word_ariths len)
    with True show ?thesis
      by (simp add: checked_write_range_def checked_add_def len checked_file_len_def
          word_less_nat_alt unat_MAX_FILE_BYTES)
  next
    case False
    then show ?thesis
      by (simp add: checked_write_range_def checked_add_def len unat_MAX_FILE_BYTES)
  qed
qed

lemma length_splice [simp]:
  "offset + length data \<le> length file \<Longrightarrow> length (splice offset data file) = length file"
  by (simp add: splice_def)

lemma resize_max: "(if n > length file then resize n file else file) = resize (max n (length file)) file"
  by (simp add: resize_def max_def)

lemma mem_write_abs:
  assumes ok: "inodes_ok (mf_inodes fs)" and data: "length data < 2 ^ 64"
  shows "refines (mem_write now fs h offset data) (a_write (abs_fs fs) h offset data)
    \<and> inodes_ok (mf_inodes (fst (mem_write now fs h offset data)))"
proof (cases "hm_get (mf_inodes fs) h")
  case None
  then show ?thesis
    using ok by (simp add: mem_write_def a_write_def refines_def abs_fs_def abs_tree_def)
next
  case (Some i)
  have t: "abs_fs fs h = Some (abs_node i)"
    by (simp add: abs_fs_def abs_tree_def Some)
  show ?thesis
  proof (cases "in_data i")
    case (Idata_File old)
    let ?n = "max (unat offset + length data) (length old)"
    let ?file = "splice (unat offset) data (resize ?n old)"
    show ?thesis
    proof (cases "unat offset + length data > unat MAX_FILE_BYTES")
      case True
      then show ?thesis
        using ok Idata_File
        by (simp add: mem_write_def Some checked_write_range_iff [OF data] a_write_def t abs_node_def
            refines_def)
    next
      case False
      define j where "j = i\<lparr>in_data := Idata_File ?file, in_attrs := touch_data_change now (mf_next_change fs)
        ((in_attrs i)\<lparr>at_size := word_of_nat (length ?file), at_space_used := word_of_nat (length ?file)\<rparr>)\<rparr>"
      have eq: "mem_write now fs h offset data =
          (put_inode h j (fs\<lparr>mf_next_change := mf_next_change fs + 1\<rparr>),
           Inr \<lparr>wr_written = word_of_nat (length data), wr_stability = Ws_FileSync\<rparr>)"
        using False Idata_File
        by (simp add: mem_write_def Some checked_write_range_iff [OF data] resize_max mem_next_change_def
            j_def Let_def)
      have "length old \<le> unat MAX_FILE_BYTES"
        using inodes_ok_get [OF ok Some] Idata_File by (simp add: inode_ok_def size_ok_def)
      then have "inode_ok h j"
        using inodes_ok_get [OF ok Some] Idata_File False
        by (simp add: inode_ok_def size_ok_def j_def data_type_def touch_data_change_def)
      then show ?thesis
        using ok False Idata_File
        by (simp add: eq refines_def abs_put_inode a_write_def t abs_node_def j_def inodes_ok_put)
    qed
  qed (use ok in \<open>simp_all add: mem_write_def Some a_write_def t abs_node_def refines_def\<close>)
qed

lemma mem_setattr_abs:
  assumes ok: "inodes_ok (mf_inodes fs)"
  shows "refines (mem_setattr now fs h attrs) (a_setattr (abs_fs fs) h attrs)
    \<and> inodes_ok (mf_inodes (fst (mem_setattr now fs h attrs)))"
proof (cases "hm_get (mf_inodes fs) h")
  case None
  then show ?thesis
    using ok by (simp add: mem_setattr_def a_setattr_def refines_def abs_fs_def abs_tree_def)
next
  case (Some i)
  have t: "abs_fs fs h = Some (abs_node i)"
    by (simp add: abs_fs_def abs_tree_def Some)
  show ?thesis
  proof (cases "apply_setattrs now attrs fs i")
    case (Inl e)
    then show ?thesis
      using ok apply_setattrs_Inl [of now attrs fs i e]
      by (simp add: mem_setattr_def Some a_setattr_def t refines_def)
  next
    case (Inr r)
    obtain fs' j where r: "r = (fs', j)"
      by fastforce
    note set = apply_setattrs_Inr [OF Inr [unfolded r]]
    then have fs': "mf_inodes fs' = mf_inodes fs" and "inode_ok h j"
      using inodes_ok_get [OF ok Some] by (simp_all add: setattrs_effect_def)
    then show ?thesis
      using ok Inr set(1)
      by (simp add: mem_setattr_def Some a_setattr_def t r refines_def abs_put_inode inodes_ok_put
          abs_fs_cong [OF fs'])
  qed
qed

text \<open>Extended attributes are not part of the tree.\<close>

lemma put_same_node:
  assumes "inodes_ok (mf_inodes fs)" and "hm_get (mf_inodes fs) k = Some i"
    and "abs_node j = abs_node i" and "inode_ok k j"
  shows "abs_fs (put_inode k j fs) = abs_fs fs \<and> inodes_ok (mf_inodes (put_inode k j fs))"
  using assms by (auto simp: abs_put_inode inodes_ok_put) (auto simp: abs_fs_def abs_tree_def)

lemma xattr_inode:
  assumes "inode_ok k i" and "hm_wf xs"
  shows "inode_ok k ((update_has_named_attrs (i\<lparr>in_xattrs := xs\<rparr>))\<lparr>in_attrs := touch_change now c
      (in_attrs (update_has_named_attrs (i\<lparr>in_xattrs := xs\<rparr>)))\<rparr>)"
    and "inode_ok k ((update_has_named_attrs (i\<lparr>in_xattrs := xs\<rparr>))\<lparr>in_attrs := touch_data_change now c
      (in_attrs (update_has_named_attrs (i\<lparr>in_xattrs := xs\<rparr>)))\<rparr>)"
  using assms
  by (auto simp: inode_ok_def size_ok_def update_has_named_attrs_def touch_change_def
      touch_data_change_def split: inode_data.split)

lemma mem_set_xattr_abs:
  assumes ok: "inodes_ok (mf_inodes fs)"
  shows "abs_fs (fst (mem_set_xattr now fs h n v mode)) = abs_fs fs
    \<and> inodes_ok (mf_inodes (fst (mem_set_xattr now fs h n v mode)))"
proof (cases "hm_get (mf_inodes fs) h")
  case None
  then show ?thesis using ok by (simp add: mem_set_xattr_def)
next
  case (Some i)
  let ?fs = "fs\<lparr>mf_next_change := mf_next_change fs + 1\<rparr>"
  let ?i = "update_has_named_attrs (i\<lparr>in_xattrs := hm_insert n v (in_xattrs i)\<rparr>)"
  let ?j = "?i\<lparr>in_attrs := touch_data_change now (mf_next_change fs) (in_attrs ?i)\<rparr>"
  have "hm_wf (in_xattrs i)"
    using inodes_ok_get [OF ok Some] by (simp add: inode_ok_def)
  then have "inode_ok h ?j" "abs_node ?j = abs_node i"
    using inodes_ok_get [OF ok Some] xattr_inode(2)
    by (simp_all add: hm_simps abs_node_def update_has_named_attrs_def)
  from put_same_node [of ?fs h i ?j] ok Some this show ?thesis
    by (simp add: mem_set_xattr_def mem_next_change_def Let_def)
qed

lemma mem_remove_xattr_abs:
  assumes ok: "inodes_ok (mf_inodes fs)"
  shows "abs_fs (fst (mem_remove_xattr now fs h n)) = abs_fs fs
    \<and> inodes_ok (mf_inodes (fst (mem_remove_xattr now fs h n)))"
proof (cases "hm_get (mf_inodes fs) h")
  case None
  then show ?thesis using ok by (simp add: mem_remove_xattr_def)
next
  case (Some i)
  let ?fs = "fs\<lparr>mf_next_change := mf_next_change fs + 1\<rparr>"
  let ?i = "update_has_named_attrs (i\<lparr>in_xattrs := hm_remove n (in_xattrs i)\<rparr>)"
  let ?j = "?i\<lparr>in_attrs := touch_change now (mf_next_change fs) (in_attrs ?i)\<rparr>"
  have "hm_wf (in_xattrs i)"
    using inodes_ok_get [OF ok Some] by (simp add: inode_ok_def)
  then have "inode_ok h ?j" "abs_node ?j = abs_node i"
    using inodes_ok_get [OF ok Some] xattr_inode(1)
    by (simp_all add: hm_simps abs_node_def update_has_named_attrs_def)
  from put_same_node [of ?fs h i ?j] ok Some this show ?thesis
    by (simp add: mem_remove_xattr_def mem_next_change_def Let_def split: option.split)
qed

end
