(* ===== verification/Memfs_Tree.thy ===== *)
theory Memfs_Tree
  imports Memfs_Refine
begin

text \<open>
  The shape of the tree: the walk up the parent pointers decides ancestry within its step bound, and
  every abstract operation keeps \<open>tree_ok\<close>. A rename moves a directory only to a place that is not
  below it, so the moved subtree stays connected to the root.
\<close>

section \<open>Consequences of the shape\<close>

lemma tree_ok_root: "tree_ok t \<Longrightarrow> is_adir t mem_root"
  by (simp add: tree_ok_def)

lemma tree_ok_closed: "tree_ok t \<Longrightarrow> has_entry t d n k \<Longrightarrow> t k \<noteq> None"
  by (auto simp: tree_ok_def)

lemma tree_ok_no_root: "tree_ok t \<Longrightarrow> \<not> has_entry t d n mem_root"
  by (auto simp: tree_ok_def)

lemma tree_ok_named: "tree_ok t \<Longrightarrow> t k \<noteq> None \<Longrightarrow> k \<noteq> mem_root \<Longrightarrow> \<exists>d n. has_entry t d n k"
  unfolding tree_ok_def by blast

lemma tree_ok_unique:
  "tree_ok t \<Longrightarrow> is_adir t k \<Longrightarrow> has_entry t d n k \<Longrightarrow> has_entry t d' n' k \<Longrightarrow> d = d' \<and> n = n'"
  unfolding tree_ok_def by blast

lemma tree_ok_reach: "tree_ok t \<Longrightarrow> is_adir t k \<Longrightarrow> (mem_root, k) \<in> (subdirs t)\<^sup>*"
  by (simp add: tree_ok_def)

lemma tree_okI:
  assumes "is_adir t mem_root"
    and "\<And>d n k. has_entry t d n k \<Longrightarrow> t k \<noteq> None \<and> k \<noteq> mem_root"
    and "\<And>k. t k \<noteq> None \<Longrightarrow> k \<noteq> mem_root \<Longrightarrow> \<exists>d n. has_entry t d n k"
    and "\<And>k d n d' n'. is_adir t k \<Longrightarrow> has_entry t d n k \<Longrightarrow> has_entry t d' n' k \<Longrightarrow> d = d' \<and> n = n'"
    and "\<And>k. is_adir t k \<Longrightarrow> (mem_root, k) \<in> (subdirs t)\<^sup>*"
  shows "tree_ok t"
  using assms unfolding tree_ok_def by blast

lemma subdirs_iff: "(d, k) \<in> subdirs t \<longleftrightarrow> is_adir t k \<and> (\<exists>n. has_entry t d n k)"
  by (simp add: subdirs_def)

lemma subdirs_parent_unique:
  "tree_ok t \<Longrightarrow> (p, k) \<in> subdirs t \<Longrightarrow> (q, k) \<in> subdirs t \<Longrightarrow> p = q"
  using tree_ok_unique by (fastforce simp: subdirs_iff)

lemma has_entry_dir: "has_entry t d n k \<Longrightarrow> is_adir t d"
  by (auto simp: has_entry_def is_adir_def)

lemma subdirs_not_dir: "\<not> is_adir t d \<Longrightarrow> (a, d) \<in> (subdirs t)\<^sup>* \<Longrightarrow> a = d"
  by (erule rtranclE) (simp_all add: subdirs_iff)

lemma subdirs_root:
  assumes "tree_ok t"
  shows "(a, mem_root) \<in> (subdirs t)\<^sup>* \<longleftrightarrow> a = mem_root"
proof
  assume "(a, mem_root) \<in> (subdirs t)\<^sup>*"
  then show "a = mem_root"
    by (rule rtranclE) (simp_all add: subdirs_iff tree_ok_no_root [OF assms])
qed simp

lemma subdirs_step:
  assumes "tree_ok t" and "(p, d) \<in> subdirs t"
  shows "(a, d) \<in> (subdirs t)\<^sup>* \<longleftrightarrow> a = d \<or> (a, p) \<in> (subdirs t)\<^sup>*"
proof
  assume "(a, d) \<in> (subdirs t)\<^sup>*"
  then show "a = d \<or> (a, p) \<in> (subdirs t)\<^sup>*"
  proof (rule rtranclE)
    fix q
    assume "(a, q) \<in> (subdirs t)\<^sup>*" and "(q, d) \<in> subdirs t"
    with subdirs_parent_unique [OF assms] show ?thesis by simp
  qed simp
next
  assume "a = d \<or> (a, p) \<in> (subdirs t)\<^sup>*"
  with assms(2) show "(a, d) \<in> (subdirs t)\<^sup>*"
    by (auto intro: rtrancl_into_rtrancl)
qed

section \<open>Ancestry\<close>

lemma parent_of_dir: "parent_of m k = Some p \<Longrightarrow> inodes_ok m \<Longrightarrow> is_adir (abs_tree m) k"
  using inode_ok_dir inodes_ok_get
  by (fastforce simp: parent_of_def is_adir_iff bind_eq_Some_conv split: if_splits)

lemma parent_of_subdir:
  assumes "inodes_ok m" and "parents_ok m" and "tree_ok (abs_tree m)" and "(p, k) \<in> subdirs (abs_tree m)"
  shows "parent_of m k = Some p"
proof -
  have dir: "is_adir (abs_tree m) k"
    using assms(4) by (simp add: subdirs_iff)
  have "k \<noteq> mem_root"
    using assms(3,4) tree_ok_no_root by (auto simp: subdirs_iff)
  then obtain q where q: "parent_of m k = Some q" "(q, k) \<in> subdirs (abs_tree m)"
    using assms(2) dir by (auto simp: parents_ok_def split: option.splits)
  with subdirs_parent_unique [OF assms(3,4)] show ?thesis by simp
qed

lemma parent_of_root:
  assumes "inodes_ok m" and "parents_ok m" and "tree_ok (abs_tree m)"
  shows "parent_of m mem_root = None"
  using assms tree_ok_root [OF assms(3)] tree_ok_no_root [OF assms(3)]
  by (auto simp: parents_ok_def subdirs_iff split: option.splits)

lemma descends_loop_None: "\<not> descends_loop m a None r"
  by (subst descends_loop.simps) simp

lemma descends_loop_Some:
  "descends_loop m a (Some k) r \<longleftrightarrow> a = k \<or> r \<noteq> 0 \<and> descends_loop m a (parent_of m k) (r - 1)"
  by (subst descends_loop.simps) auto

lemma descends_loop_iff:
  assumes ok: "inodes_ok m" "parents_ok m" "tree_ok (abs_tree m)"
  shows "(mem_root, d) \<in> subdirs (abs_tree m) ^^ n \<Longrightarrow> n \<le> r \<Longrightarrow>
    descends_loop m a (Some d) r \<longleftrightarrow> (a, d) \<in> (subdirs (abs_tree m))\<^sup>*"
proof (induction n arbitrary: d r)
  case 0
  then have d: "d = mem_root" by simp
  have "descends_loop m a (Some mem_root) r \<longleftrightarrow> a = mem_root"
    by (simp add: descends_loop_Some parent_of_root [OF ok] descends_loop_None)
  then show ?case by (simp add: d subdirs_root [OF ok(3)])
next
  case (Suc n)
  then obtain p where p: "(mem_root, p) \<in> subdirs (abs_tree m) ^^ n" "(p, d) \<in> subdirs (abs_tree m)"
    by auto
  have "descends_loop m a (Some d) r \<longleftrightarrow> a = d \<or> descends_loop m a (Some p) (r - 1)"
    using Suc.prems(2) by (simp add: descends_loop_Some [of m a d] parent_of_subdir [OF ok p(2)])
  moreover have "descends_loop m a (Some p) (r - 1) \<longleftrightarrow> (a, p) \<in> (subdirs (abs_tree m))\<^sup>*"
    using Suc.prems(2) by (intro Suc.IH [OF p(1)]) simp
  ultimately show ?case by (simp add: subdirs_step [OF ok(3) p(2)])
qed

lemma card_subdirs:
  assumes "inodes_ok m" and "tree_ok (abs_tree m)"
  shows "finite (subdirs (abs_tree m))" and "card (subdirs (abs_tree m)) \<le> length m"
proof -
  have wf: "hm_wf m"
    using assms(1) by (simp add: inodes_ok_def)
  have inj: "inj_on snd (subdirs (abs_tree m))"
    using subdirs_parent_unique [OF assms(2)] by (auto simp: inj_on_def)
  have sub: "snd ` subdirs (abs_tree m) \<subseteq> {d. is_adir (abs_tree m) d}"
    by (auto simp: subdirs_iff)
  then have "finite (snd ` subdirs (abs_tree m))"
    using finite_dirs [OF wf] by (rule finite_subset)
  then show fin: "finite (subdirs (abs_tree m))"
    using inj by (rule finite_imageD)
  have "card (subdirs (abs_tree m)) = card (snd ` subdirs (abs_tree m))"
    by (simp add: card_image inj)
  also have "\<dots> \<le> card {d. is_adir (abs_tree m) d}"
    using finite_dirs [OF wf] sub by (rule card_mono)
  also have "\<dots> = length (directory_ids m)"
    using directory_ids [OF wf] distinct_card by metis
  also have "\<dots> \<le> length m"
    by (simp add: directory_ids_def)
  finally show "card (subdirs (abs_tree m)) \<le> length m" .
qed

text \<open>The bounded walk is the ancestor relation: the number of inodes is enough steps.\<close>

lemma descends_iff:
  assumes ok: "inodes_ok m" "parents_ok m" "tree_ok (abs_tree m)"
  shows "directory_descends_from m d a \<longleftrightarrow> (a, d) \<in> (subdirs (abs_tree m))\<^sup>*"
proof (cases "is_adir (abs_tree m) d")
  case True
  have "(mem_root, d) \<in> (\<Union>n\<in>{n. n \<le> card (subdirs (abs_tree m))}. subdirs (abs_tree m) ^^ n)"
    using tree_ok_reach [OF ok(3) True] rtrancl_finite_eq_relpow [OF card_subdirs(1) [OF ok(1,3)]] by simp
  then obtain n where "(mem_root, d) \<in> subdirs (abs_tree m) ^^ n" and "n \<le> card (subdirs (abs_tree m))"
    by blast
  then show ?thesis
    using descends_loop_iff [OF ok] card_subdirs(2) [OF ok(1,3)]
    by (auto simp: directory_descends_from_def)
next
  case False
  then have "parent_of m d = None"
    using parent_of_dir [OF _ ok(1)] by (cases "parent_of m d") auto
  then have "directory_descends_from m d a \<longleftrightarrow> a = d"
    by (simp add: directory_descends_from_def descends_loop_Some descends_loop_None)
  then show ?thesis
    using subdirs_not_dir [OF False] by auto
qed

section \<open>Renaming refines the abstract rename\<close>

lemma a_lookup_entry: "a_lookup t d n = Inr k \<longleftrightarrow> has_entry t d n k"
  by (auto simp: a_lookup_def has_entry_def ok_or_def split: option.splits anode.splits)

lemma a_lookup_missing: "a_lookup t d n = Inl Fse_NotFound \<longleftrightarrow> is_adir t d \<and> (\<nexists>k. has_entry t d n k)"
  by (auto simp: a_lookup_def has_entry_def is_adir_def ok_or_def split: option.splits anode.splits)

definition moved_names :: "timestamp \<Rightarrow> memfs \<Rightarrow> u64 \<Rightarrow> rust_string \<Rightarrow> u64 \<Rightarrow> rust_string \<Rightarrow> u64 \<Rightarrow> memfs" where
  "moved_names now fs d n d' n' k =
     (if d = d' then touch_dir now (\<lambda>es. hm_insert n' k (hm_remove n es)) d fs
      else touch_dir now (hm_insert n' k) d' (touch_dir now (hm_remove n) d fs))"

definition reparented :: "u64 \<Rightarrow> u64 \<Rightarrow> u64 \<Rightarrow> memfs \<Rightarrow> memfs" where
  "reparented d d' k fs = (case hm_get (mf_inodes fs) k of
       Some c \<Rightarrow> if at_object_type (in_attrs c) = Ot_Directory \<and> d \<noteq> d'
         then put_inode k (c\<lparr>in_parent := Some d'\<rparr>) fs else fs
     | None \<Rightarrow> fs)"

lemma rename_move_eq:
  "rename_move now fs d n d' n' k replaced = recount
     (case replaced of Some r \<Rightarrow> drop_unlinked r (reparented d d' k (moved_names now fs d n d' n' k))
      | None \<Rightarrow> reparented d d' k (moved_names now fs d n d' n' k))"
  by (simp only: rename_move_def reparented_def moved_names_def Let_def)

lemma moved_names_abs:
  assumes "inodes_ok (mf_inodes fs)"
  shows "abs_fs (moved_names now fs d n d' n' k) = a_enter (a_drop_name (abs_fs fs) d n) d' n' k"
    and "inodes_ok (mf_inodes (moved_names now fs d n d' n' k))"
  using assms
  by (auto simp: moved_names_def abs_touch_move abs_touch_insert abs_touch_remove hm_simps
      intro!: touch_dir_ok)

lemma reparented_abs:
  assumes ok: "inodes_ok (mf_inodes fs)"
  shows "abs_fs (reparented d d' k fs) = abs_fs fs \<and> inodes_ok (mf_inodes (reparented d d' k fs))"
proof (cases "hm_get (mf_inodes fs) k")
  case None
  then show ?thesis using ok by (simp add: reparented_def)
next
  case (Some c)
  have "abs_node (c\<lparr>in_parent := Some d'\<rparr>) = abs_node c" "inode_ok k (c\<lparr>in_parent := Some d'\<rparr>)"
    using inodes_ok_get [OF ok Some] by (simp_all add: abs_node_def inode_ok_def)
  from put_same_node [OF ok Some this] show ?thesis
    using ok by (simp add: reparented_def Some)
qed

lemma rename_move_abs:
  assumes ok: "inodes_ok (mf_inodes fs)"
  shows "refines (rename_move now fs d n d' n' k replaced, Inr ())
      (case replaced of None \<Rightarrow> a_enter (a_drop_name (abs_fs fs) d n) d' n' k
       | Some r \<Rightarrow> a_drop_unlinked (a_enter (a_drop_name (abs_fs fs) d n) d' n' k) r, Inr ())
    \<and> inodes_ok (mf_inodes (rename_move now fs d n d' n' k replaced))"
  unfolding rename_move_eq
  using moved_names_abs [OF ok, of now d n d' n' k]
    reparented_abs [OF moved_names_abs(2) [OF ok], of d d' k now d n d' n' k]
  by (cases replaced) (simp_all add: recount_refines drop_unlinked_ok abs_drop_unlinked)

lemma rename_replace_check_iff:
  assumes ok: "inodes_ok (mf_inodes fs)"
    and k: "hm_get (mf_inodes fs) k = Some i" and r: "hm_get (mf_inodes fs) r = Some j"
  shows "rename_replace_check (at_object_type (in_attrs i)) j = a_replace (abs_fs fs) k r"
proof -
  have dirs: "at_object_type (in_attrs i) = Ot_Directory \<longleftrightarrow> is_adir (abs_fs fs) k"
    "at_object_type (in_attrs j) = Ot_Directory \<longleftrightarrow> is_adir (abs_fs fs) r"
    using inode_ok_dir [OF inodes_ok_get [OF ok k]] inode_ok_dir [OF inodes_ok_get [OF ok r]] k r
    by (simp_all add: abs_fs_def is_adir_iff)
  have "(case dir_entries j of None \<Rightarrow> False | Some es \<Rightarrow> es \<noteq> []) \<longleftrightarrow> a_nonempty (abs_fs fs) r"
    using abs_nonempty [OF ok, of r] r by simp
  then have empty: "(case dir_entries j of Some es \<Rightarrow> if es \<noteq> [] then Inl Fse_NotEmpty else Inr () | None \<Rightarrow> Inr ())
      = (if a_nonempty (abs_fs fs) r then Inl Fse_NotEmpty else Inr ())"
    by (auto split: option.splits)
  show ?thesis
    by (cases "at_object_type (in_attrs i)"; cases "at_object_type (in_attrs j)")
      (use dirs empty in \<open>simp_all add: rename_replace_check_def a_replace_def\<close>)
qed

definition a_move ::
  "atree \<Rightarrow> u64 \<Rightarrow> rust_string \<Rightarrow> u64 \<Rightarrow> rust_string \<Rightarrow> u64 \<Rightarrow> u64 option \<Rightarrow> atree" where
  "a_move t d n d' n' k replaced = (case replaced of
       None \<Rightarrow> a_enter (a_drop_name t d n) d' n' k
     | Some r \<Rightarrow> a_drop_unlinked (a_enter (a_drop_name t d n) d' n' k) r)"

definition move_allowed ::
  "atree \<Rightarrow> u64 \<Rightarrow> rust_string \<Rightarrow> u64 \<Rightarrow> rust_string \<Rightarrow> u64 \<Rightarrow> u64 option \<Rightarrow> bool" where
  "move_allowed t d n d' n' k replaced \<longleftrightarrow>
     has_entry t d n k \<and> is_adir t d' \<and> \<not> (is_adir t k \<and> (k, d') \<in> (subdirs t)\<^sup>*)
     \<and> (case replaced of
          None \<Rightarrow> \<nexists>r. has_entry t d' n' r
        | Some r \<Rightarrow> has_entry t d' n' r \<and> r \<noteq> k \<and> a_replace t k r = Inr ())"

text \<open>A rename fails, or names the object it moves, or moves it.\<close>

lemma mem_rename_cases:
  assumes ok: "inodes_ok (mf_inodes fs)" "parents_ok (mf_inodes fs)" "tree_ok (abs_fs fs)"
  obtains r where "mem_rename now fs d n d' n' = (fs, r)" "a_rename (abs_fs fs) d n d' n' = (abs_fs fs, r)"
  | k replaced where "move_allowed (abs_fs fs) d n d' n' k replaced"
      "mem_rename now fs d n d' n' = (rename_move now fs d n d' n' k replaced, Inr ())"
      "a_rename (abs_fs fs) d n d' n' = (a_move (abs_fs fs) d n d' n' k replaced, Inr ())"
proof (cases "a_lookup (abs_fs fs) d n")
  case (Inl e)
  then show ?thesis
    by (intro that(1) [of "Inl e"]) (simp_all add: mem_rename_def abs_lookup a_rename_def)
next
  case (Inr k)
  then have entry: "has_entry (abs_fs fs) d n k" by (simp add: a_lookup_entry)
  then have "abs_fs fs k \<noteq> None"
    using tree_ok_closed [OF ok(3)] by blast
  then obtain i where i: "hm_get (mf_inodes fs) k = Some i"
    by (auto simp: abs_fs_def abs_tree_def)
  have dir: "at_object_type (in_attrs i) = Ot_Directory \<longleftrightarrow> is_adir (abs_fs fs) k"
    using inode_ok_dir [OF inodes_ok_get [OF ok(1) i]] i by (simp add: abs_fs_def is_adir_iff)
  have desc: "directory_descends_from (mf_inodes fs) d' k \<longleftrightarrow> (k, d') \<in> (subdirs (abs_fs fs))\<^sup>*"
    using descends_iff [OF ok(1,2)] ok(3) by (simp add: abs_fs_def)
  note rename = mem_rename_def abs_lookup i dir desc a_rename_def Inr
  show ?thesis
  proof (cases "is_adir (abs_fs fs) k \<and> (k, d') \<in> (subdirs (abs_fs fs))\<^sup>*")
    case True
    then show ?thesis by (intro that(1) [of "Inl Fse_InvalidInput"]) (simp_all add: rename)
  next
    case go: False
    have target: "a_lookup (abs_fs fs) d' n' = (case hm_get (mf_inodes fs) d' of None \<Rightarrow> Inl Fse_Stale
        | Some p \<Rightarrow> (case dir_entries p of None \<Rightarrow> Inl Fse_NotDirectory | Some es \<Rightarrow> ok_or Fse_NotFound (hm_get es n')))"
      using abs_lookup [of fs d' n'] by (simp add: mem_lookup_def)
    show ?thesis
    proof (cases "Option.bind (hm_get (mf_inodes fs) d') dir_entries")
      case None
      then show ?thesis
        by (cases "hm_get (mf_inodes fs) d'") (auto intro!: that(1) simp: rename go target)
    next
      case (Some es)
      then obtain p where p: "hm_get (mf_inodes fs) d' = Some p" "dir_entries p = Some es"
        by (auto simp: bind_eq_Some_conv)
      then have d': "is_adir (abs_fs fs) d'"
        by (simp add: abs_fs_def is_adir_iff)
      show ?thesis
      proof (cases "hm_get es n'")
        case None
        then have "\<nexists>r. has_entry (abs_fs fs) d' n' r"
          using p target by (simp add: a_lookup_missing)
        with None p entry go d' show ?thesis
          by (intro that(2) [of k None]) (simp_all add: rename target move_allowed_def a_move_def)
      next
        case r: (Some r)
        then have r': "has_entry (abs_fs fs) d' n' r"
          using p by (auto simp: abs_fs_def has_entry_iff)
        then have "abs_fs fs r \<noteq> None"
          using tree_ok_closed [OF ok(3)] by blast
        then obtain j where j: "hm_get (mf_inodes fs) r = Some j"
          by (auto simp: abs_fs_def abs_tree_def)
        note check = rename_replace_check_iff [OF ok(1) i j]
        note same = rename target p r j check go
        consider "r = k" | e where "r \<noteq> k" "a_replace (abs_fs fs) k r = Inl e"
          | "r \<noteq> k" "a_replace (abs_fs fs) k r = Inr ()"
          by (cases "a_replace (abs_fs fs) k r") auto
        then show ?thesis
        proof cases
          case 1
          then show ?thesis by (intro that(1) [of "Inr ()"]) (simp_all add: same)
        next
          case (2 e)
          then show ?thesis by (intro that(1) [of "Inl e"]) (simp_all add: same)
        next
          case 3
          then show ?thesis
            using entry d' r'
            by (intro that(2) [of k "Some r"]) (simp_all add: same move_allowed_def a_move_def)
        qed
      qed
    qed
  qed
qed

lemma mem_rename_abs:
  assumes ok: "inodes_ok (mf_inodes fs)" "parents_ok (mf_inodes fs)" "tree_ok (abs_fs fs)"
  shows "refines (mem_rename now fs d n d' n') (a_rename (abs_fs fs) d n d' n')
    \<and> inodes_ok (mf_inodes (fst (mem_rename now fs d n d' n')))"
  by (rule mem_rename_cases [OF ok, of now d n d' n'])
    (use ok(1) rename_move_abs [OF ok(1), of now d n d' n'] in \<open>auto simp: refines_def a_move_def\<close>)

section \<open>The operations keep the shape\<close>

lemma has_entry_enter:
  "is_adir t d \<Longrightarrow> has_entry (a_enter t d n k) x m c \<longleftrightarrow> (if x = d \<and> m = n then c = k else has_entry t x m c)"
  by (auto simp: a_enter_def has_entry_def is_adir_def split: if_splits)

lemma has_entry_drop_name:
  "has_entry (a_drop_name t d n) x m c \<longleftrightarrow> has_entry t x m c \<and> \<not> (x = d \<and> m = n)"
  by (auto simp: a_drop_name_def has_entry_def split: option.splits anode.splits if_splits)

lemma is_adir_enter [simp]: "is_adir (a_enter t d n k) x \<longleftrightarrow> is_adir t x"
  by (auto simp: a_enter_def is_adir_def split: option.splits anode.splits if_splits)

lemma is_adir_drop_name [simp]: "is_adir (a_drop_name t d n) x \<longleftrightarrow> is_adir t x"
  by (auto simp: a_drop_name_def is_adir_def split: option.splits anode.splits if_splits)

lemma a_enter_dom [simp]: "a_enter t d n k x = None \<longleftrightarrow> t x = None"
  by (auto simp: a_enter_def split: option.splits anode.splits)

lemma a_drop_name_dom [simp]: "a_drop_name t d n x = None \<longleftrightarrow> t x = None"
  by (auto simp: a_drop_name_def split: option.splits anode.splits)

lemma has_entry_gone: "has_entry (t(k := None)) x m c \<longleftrightarrow> x \<noteq> k \<and> has_entry t x m c"
  by (auto simp: has_entry_def)

lemma is_adir_gone: "is_adir (t(k := None)) x \<longleftrightarrow> x \<noteq> k \<and> is_adir t x"
  by (auto simp: is_adir_def)

lemma is_adir_dom: "is_adir t k \<Longrightarrow> t k \<noteq> None"
  by (auto simp: is_adir_def)

lemma a_vacant_iff: "a_vacant t d n = Inr u \<longleftrightarrow> is_adir t d \<and> (\<nexists>k. has_entry t d n k)"
  by (auto simp: a_vacant_def has_entry_def is_adir_def split: option.splits anode.splits)

definition no_entries :: "anode \<Rightarrow> bool" where
  "no_entries v \<longleftrightarrow> (case v of A_Dir es \<Rightarrow> es = Map.empty | _ \<Rightarrow> True)"

lemma create_tree_ok:
  assumes t: "tree_ok t" and new: "t k = None" and v: "no_entries v"
    and vacant: "is_adir t d" "\<nexists>c. has_entry t d n c"
  shows "tree_ok ((a_enter t d n k)(k \<mapsto> v))"
proof -
  let ?t = "(a_enter t d n k)(k \<mapsto> v)"
  have k: "k \<noteq> d" "k \<noteq> mem_root" "\<not> is_adir t k"
    using is_adir_dom [OF vacant(1)] is_adir_dom [OF tree_ok_root [OF t]] is_adir_dom [of t k] new by auto
  have entry: "has_entry ?t x m c \<longleftrightarrow> x = d \<and> m = n \<and> c = k \<or> has_entry t x m c" for x m c
  proof (cases "x = k")
    case True
    then show ?thesis
      using k v has_entry_dir [of t k] by (auto simp: has_entry_def no_entries_def split: anode.splits)
  next
    case False
    then have "has_entry ?t x m c \<longleftrightarrow> has_entry (a_enter t d n k) x m c"
      by (simp add: has_entry_def)
    then show ?thesis
      using has_entry_enter [OF vacant(1), of n k x m c] vacant(2) by auto
  qed
  have fresh: "\<not> has_entry t x m k" for x m
    using tree_ok_closed [OF t] new by blast
  have dirs: "is_adir ?t x \<longleftrightarrow> (if x = k then \<exists>es. v = A_Dir es else is_adir t x)" for x
    by (simp add: is_adir_def) (metis is_adir_def is_adir_enter)
  have "subdirs t \<subseteq> subdirs ?t"
    using fresh by (auto simp: subdirs_iff entry dirs)
  then have mono: "(a, b) \<in> (subdirs t)\<^sup>* \<Longrightarrow> (a, b) \<in> (subdirs ?t)\<^sup>*" for a b
    using rtrancl_mono by blast
  show ?thesis
  proof (rule tree_okI)
    show "is_adir ?t mem_root"
      using tree_ok_root [OF t] k(2) dirs by simp
    show "?t c \<noteq> None \<and> c \<noteq> mem_root" if "has_entry ?t x m c" for x m c
      using that k(2) tree_ok_closed [OF t] tree_ok_no_root [OF t] by (auto simp: entry simp del: not_None_eq)
    show "\<exists>x m. has_entry ?t x m c" if "?t c \<noteq> None" "c \<noteq> mem_root" for c
      using that tree_ok_named [OF t, of c] by (cases "c = k") (auto simp: entry)
    show "x = x' \<and> m = m'" if "is_adir ?t c" "has_entry ?t x m c" "has_entry ?t x' m' c" for c x m x' m'
      using that fresh tree_ok_unique [OF t, of c x m x' m'] by (auto simp: entry dirs split: if_splits)
    show "(mem_root, c) \<in> (subdirs ?t)\<^sup>*" if "is_adir ?t c" for c
    proof (cases "c = k")
      case True
      then have "(d, k) \<in> subdirs ?t"
        using that by (auto simp: subdirs_iff entry)
      then show ?thesis
        using mono [OF tree_ok_reach [OF t vacant(1)]] True by (simp add: rtrancl_into_rtrancl)
    next
      case False
      then show ?thesis
        using that dirs mono tree_ok_reach [OF t] by simp
    qed
  qed
qed

lemma link_tree_ok:
  assumes t: "tree_ok t" and k: "t k \<noteq> None" "\<not> is_adir t k"
    and vacant: "is_adir t d" "\<nexists>c. has_entry t d n c"
  shows "tree_ok (a_enter t d n k)"
proof -
  let ?t = "a_enter t d n k"
  have entry: "has_entry ?t x m c \<longleftrightarrow> x = d \<and> m = n \<and> c = k \<or> has_entry t x m c" for x m c
    using has_entry_enter [OF vacant(1), of n k x m c] vacant(2) by auto
  have dirs: "subdirs ?t = subdirs t"
    using k(2) by (auto simp: subdirs_iff entry)
  show ?thesis
  proof (rule tree_okI)
    show "is_adir ?t mem_root"
      using tree_ok_root [OF t] by simp
    show "?t c \<noteq> None \<and> c \<noteq> mem_root" if "has_entry ?t x m c" for x m c
      using that k tree_ok_root [OF t] tree_ok_closed [OF t] tree_ok_no_root [OF t] by (auto simp: entry)
    show "\<exists>x m. has_entry ?t x m c" if "?t c \<noteq> None" "c \<noteq> mem_root" for c
      using that tree_ok_named [OF t, of c] by (auto simp: entry)
    show "x = x' \<and> m = m'" if "is_adir ?t c" "has_entry ?t x m c" "has_entry ?t x' m' c" for c x m x' m'
      using that k(2) tree_ok_unique [OF t, of c x m x' m'] by (auto simp: entry)
    show "(mem_root, c) \<in> (subdirs ?t)\<^sup>*" if "is_adir ?t c" for c
      using that tree_ok_reach [OF t] by (simp add: dirs)
  qed
qed

lemma remove_tree_ok:
  assumes t: "tree_ok t" and k: "has_entry t d n k" and empty: "\<not> a_nonempty t k"
  shows "tree_ok (a_drop_unlinked (a_drop_name t d n) k)"
proof -
  let ?u = "a_drop_name t d n" and ?t = "a_drop_unlinked (a_drop_name t d n) k"
  define gone where "gone \<longleftrightarrow> is_adir t k \<or> (\<nexists>x m. has_entry ?u x m k)"
  have t': "?t = (if gone then ?u(k := None) else ?u)"
    by (simp add: a_drop_unlinked_def gone_def)
  have no_child: "\<not> has_entry t k m c" for m c
    using empty by (auto simp: a_nonempty_def)
  have entry: "has_entry ?t x m c \<longleftrightarrow> has_entry t x m c \<and> \<not> (x = d \<and> m = n)" for x m c
    using no_child by (auto simp: t' has_entry_gone has_entry_drop_name)
  have dirs: "is_adir ?t x \<longleftrightarrow> is_adir t x \<and> (x = k \<longrightarrow> \<not> gone)" for x
    by (auto simp: t' is_adir_gone)
  have objects: "?t x = None \<longleftrightarrow> t x = None \<or> x = k \<and> gone" for x
    by (simp add: t')
  have not_named: "\<not> has_entry ?t x m k" if gone for x m
    using that tree_ok_unique [OF t, of k x m d n] k
    by (auto simp: gone_def entry has_entry_drop_name)
  have root: "k \<noteq> mem_root"
    using k tree_ok_no_root [OF t] by blast
  have reach: "(mem_root, c) \<in> (subdirs t)\<^sup>* \<Longrightarrow> c \<noteq> k \<Longrightarrow> (mem_root, c) \<in> (subdirs ?t)\<^sup>*" for c
  proof (induction rule: rtrancl_induct)
    case (step y z)
    then have "y \<noteq> k" and "(y, z) \<in> subdirs ?t"
      using no_child k tree_ok_unique [OF t, of z] by (auto simp: subdirs_iff entry dirs) (metis has_entry_def option.inject anode.inject(2))
    then show ?case using step by (meson rtrancl.rtrancl_into_rtrancl)
  qed simp
  show ?thesis
  proof (rule tree_okI)
    show "is_adir ?t mem_root"
      using tree_ok_root [OF t] root by (simp add: dirs)
    show "?t c \<noteq> None \<and> c \<noteq> mem_root" if "has_entry ?t x m c" for x m c
      using that not_named [of x m] tree_ok_closed [OF t, of x m c] tree_ok_no_root [OF t, of x m]
      unfolding objects entry by blast
    show "\<exists>x m. has_entry ?t x m c" if "?t c \<noteq> None" "c \<noteq> mem_root" for c
    proof (cases "c = k")
      case True
      then have "\<not> gone" using that by (simp add: objects)
      then show ?thesis using True by (auto simp: gone_def entry has_entry_drop_name)
    next
      case False
      then have "\<exists>x m. has_entry t x m c" using that tree_ok_named [OF t, of c] by (simp add: objects)
      then obtain x m where "has_entry t x m c" by blast
      moreover from this have "\<not> (x = d \<and> m = n)"
        using False k by (auto simp: has_entry_def)
      ultimately show ?thesis by (auto simp: entry)
    qed
    show "x = x' \<and> m = m'" if "is_adir ?t c" "has_entry ?t x m c" "has_entry ?t x' m' c" for c x m x' m'
      using that tree_ok_unique [OF t, of c x m x' m'] by (auto simp: entry dirs)
    show "(mem_root, c) \<in> (subdirs ?t)\<^sup>*" if "is_adir ?t c" for c
    proof -
      have "c \<noteq> k" using that by (auto simp: dirs gone_def)
      then show ?thesis using that reach tree_ok_reach [OF t] by (simp add: dirs)
    qed
  qed
qed

text \<open>A move takes the name \<open>(d, n)\<close> of \<open>k\<close> to \<open>(d', n')\<close>; the objects of \<open>gone\<close> are dropped, at most
  the one the new name had.\<close>

lemma move_tree_ok:
  assumes t: "tree_ok t" and k: "has_entry t d n k" and d': "is_adir t d'"
    and other: "\<not> (d = d' \<and> n = n')"
    and below: "is_adir t k \<Longrightarrow> (k, d') \<notin> (subdirs t)\<^sup>*"
    and entry: "\<And>x m c. has_entry t' x m c \<longleftrightarrow>
      (if x = d' \<and> m = n' then c = k else has_entry t x m c \<and> \<not> (x = d \<and> m = n))"
    and dirs: "\<And>x. is_adir t' x \<longleftrightarrow> is_adir t x \<and> x \<notin> gone"
    and objects: "\<And>x. t' x = None \<longleftrightarrow> t x = None \<or> x \<in> gone"
    and gone: "\<And>x. x \<in> gone \<Longrightarrow>
      has_entry t d' n' x \<and> x \<noteq> k \<and> \<not> a_nonempty t x \<and> (\<forall>y m. \<not> has_entry t' y m x)"
    and replaced: "\<And>r. has_entry t d' n' r \<Longrightarrow>
      is_adir t r = is_adir t k \<and> r \<noteq> k \<and> (r \<in> gone \<or> \<not> is_adir t r \<and> (\<exists>y m. has_entry t' y m r))"
  shows "tree_ok t'"
proof -
  have no_child: "x \<in> gone \<Longrightarrow> \<not> has_entry t x m c" for x m c
    using gone by (auto simp: a_nonempty_def)
  have root: "mem_root \<notin> gone" "k \<noteq> mem_root"
    using gone k tree_ok_no_root [OF t] by blast+
  have kept: "(y, z) \<in> subdirs t' " if "(y, z) \<in> subdirs t" "z \<noteq> k" "z \<notin> gone" for y z
  proof -
    have "\<exists>m. has_entry t y m z" and z: "is_adir t z"
      using that by (simp_all add: subdirs_iff)
    then obtain m where m: "has_entry t y m z" by blast
    have "\<not> (y = d \<and> m = n)" "\<not> (y = d' \<and> m = n')"
      using m k that replaced z by (auto simp: has_entry_def)
    with m z that(3) show ?thesis by (auto simp: subdirs_iff entry dirs)
  qed
  have source: "y \<notin> gone" if "(y, z) \<in> subdirs t" for y z
    using that no_child by (auto simp: subdirs_iff)
  have outside: "(mem_root, c) \<in> (subdirs t)\<^sup>* \<Longrightarrow> \<not> (is_adir t k \<and> (k, c) \<in> (subdirs t)\<^sup>*) \<Longrightarrow> c \<notin> gone \<Longrightarrow>
    (mem_root, c) \<in> (subdirs t')\<^sup>*" for c
  proof (induction rule: rtrancl_induct)
    case (step y z)
    have "z \<noteq> k"
      using step by (auto simp: subdirs_iff)
    moreover have "\<not> (is_adir t k \<and> (k, y) \<in> (subdirs t)\<^sup>*)"
      using step.hyps(2) step.prems(1) rtrancl_into_rtrancl [of k y _ z] by blast
    ultimately have "z \<noteq> k" "\<not> (is_adir t k \<and> (k, y) \<in> (subdirs t)\<^sup>*)" .
    with step kept source show ?case by (meson rtrancl.rtrancl_into_rtrancl)
  qed simp
  have "d' \<notin> gone"
    using gone no_child by blast
  then have top: "(mem_root, d') \<in> (subdirs t')\<^sup>*"
    using outside tree_ok_reach [OF t d'] below by blast
  have inside: "(k, c) \<in> (subdirs t)\<^sup>* \<Longrightarrow> is_adir t k \<Longrightarrow> c \<notin> gone \<Longrightarrow> (mem_root, c) \<in> (subdirs t')\<^sup>*" for c
  proof (induction rule: rtrancl_induct)
    case base
    then have "(d', k) \<in> subdirs t'" by (auto simp: subdirs_iff entry dirs)
    with top show ?case by (rule rtrancl_into_rtrancl)
  next
    case (step y z)
    show ?case
    proof (cases "z = k")
      case True
      then have "(d', z) \<in> subdirs t'" using step by (auto simp: subdirs_iff entry dirs)
      with top show ?thesis by (rule rtrancl_into_rtrancl)
    next
      case False
      with step kept source show ?thesis by (meson rtrancl.rtrancl_into_rtrancl)
    qed
  qed
  show ?thesis
  proof (rule tree_okI)
    show "is_adir t' mem_root"
      using tree_ok_root [OF t] root by (simp add: dirs)
    show "t' c \<noteq> None \<and> c \<noteq> mem_root" if "has_entry t' x m c" for x m c
      using that gone [of c] k tree_ok_closed [OF t] tree_ok_no_root [OF t] root
      unfolding objects entry by (metis (full_types) that)
    show "\<exists>x m. has_entry t' x m c" if "t' c \<noteq> None" "c \<noteq> mem_root" for c
    proof -
      have "\<exists>x m. has_entry t x m c"
        using that tree_ok_named [OF t, of c] by (simp add: objects)
      then obtain x m where x: "has_entry t x m c" by blast
      have "has_entry t' d' n' k" by (simp add: entry)
      moreover have "c \<notin> gone" using that by (simp add: objects)
      ultimately show ?thesis
      proof (cases "c = k \<or> x = d' \<and> m = n'")
        case True
        with x replaced [of c] \<open>c \<notin> gone\<close> \<open>has_entry t' d' n' k\<close> show ?thesis by blast
      next
        case False
        moreover have "\<not> (x = d \<and> m = n)"
          using False x k by (auto simp: has_entry_def)
        ultimately have "has_entry t' x m c" using x by (simp add: entry)
        then show ?thesis by blast
      qed
    qed
    show "x = x' \<and> m = m'" if "is_adir t' c" "has_entry t' x m c" "has_entry t' x' m' c" for c x m x' m'
    proof (cases "c = k")
      case True
      have "has_entry t' y l k \<Longrightarrow> y = d' \<and> l = n'" for y l
        using that(1) True tree_ok_unique [OF t _ k, of y l] by (auto simp: entry dirs split: if_splits)
      then show ?thesis using that(2,3) True by blast
    next
      case False
      then have "has_entry t x m c" "has_entry t x' m' c"
        using that by (auto simp: entry split: if_splits)
      then show ?thesis
        using that(1) tree_ok_unique [OF t, of c x m x' m'] by (simp add: dirs)
    qed
    show "(mem_root, c) \<in> (subdirs t')\<^sup>*" if "is_adir t' c" for c
      using that outside [of c] inside [of c] tree_ok_reach [OF t, of c] by (auto simp: dirs)
  qed
qed

lemma a_create_tree:
  assumes "tree_ok t" and "t k = None" and "\<And>v. node = Inr v \<Longrightarrow> no_entries v"
  shows "tree_ok (fst (a_create t k d n node))"
  using assms(1) create_tree_ok [OF assms(1,2)] assms(3) a_vacant_iff [of t d n]
  by (auto simp: a_create_def split: sum.splits)

lemma a_link_tree: "tree_ok t \<Longrightarrow> tree_ok (fst (a_link t k d n))"
  using link_tree_ok [of t k d n] a_vacant_iff [of t d n]
  by (auto simp: a_link_def split: sum.splits option.splits)

lemma a_remove_tree: "tree_ok t \<Longrightarrow> tree_ok (fst (a_remove t d n))"
  using remove_tree_ok [of t d n] a_lookup_entry [of t d n]
  by (auto simp: a_remove_def split: sum.splits)

lemma a_replace_empty:
  assumes "a_replace t k r = Inr ()"
  shows "is_adir t r = is_adir t k" and "\<not> a_nonempty t r"
  using assms by (auto simp: a_replace_def a_nonempty_def has_entry_def is_adir_def split: if_splits)

lemma a_move_entry:
  assumes "move_allowed t d n d' n' k replaced"
  shows "has_entry (a_move t d n d' n' k replaced) x m c \<longleftrightarrow>
    (if x = d' \<and> m = n' then c = k else has_entry t x m c \<and> \<not> (x = d \<and> m = n))"
proof -
  have d': "is_adir (a_drop_name t d n) d'"
    using assms by (simp add: move_allowed_def)
  let ?u = "a_enter (a_drop_name t d n) d' n' k"
  have u: "has_entry ?u y m c \<longleftrightarrow>
      (if y = d' \<and> m = n' then c = k else has_entry t y m c \<and> \<not> (y = d \<and> m = n))" for y
    by (simp add: has_entry_enter [OF d'] has_entry_drop_name)
  show ?thesis
  proof (cases replaced)
    case None
    then show ?thesis by (simp only: a_move_def option.case u)
  next
    case (Some r)
    then have r: "has_entry t d' n' r" "\<not> a_nonempty t r"
      using assms a_replace_empty(2) [of t k r] by (simp_all add: move_allowed_def)
    then have "\<not> has_entry ?u r m c"
      unfolding u by (auto simp: a_nonempty_def)
    then have "has_entry (a_drop_unlinked ?u r) x m c = has_entry ?u x m c"
      by (auto simp: a_drop_unlinked_def has_entry_gone)
    then show ?thesis by (simp only: Some a_move_def option.case u)
  qed
qed

lemma move_other: "move_allowed t d n d' n' k replaced \<Longrightarrow> \<not> (d = d' \<and> n = n')"
  by (auto simp: move_allowed_def has_entry_def split: option.splits)

lemma a_move_tree:
  assumes t: "tree_ok t" and move: "move_allowed t d n d' n' k replaced"
  shows "tree_ok (a_move t d n d' n' k replaced)"
proof -
  let ?t' = "a_move t d n d' n' k replaced"
  have k: "has_entry t d n k" and d': "is_adir t d'" and go: "\<not> (is_adir t k \<and> (k, d') \<in> (subdirs t)\<^sup>*)"
    using move by (simp_all add: move_allowed_def)
  note entry = a_move_entry [OF move]
  show ?thesis
  proof (cases replaced)
    case None
    then have free: "\<nexists>r. has_entry t d' n' r"
      using move by (simp add: move_allowed_def)
    show ?thesis
      by (rule move_tree_ok [OF t k d' move_other [OF move] _ entry, where gone = "{}"])
        (use go free in \<open>auto simp: a_move_def None\<close>)
  next
    case (Some r)
    then have r': "has_entry t d' n' r" and rk: "r \<noteq> k" and replace: "a_replace t k r = Inr ()"
      using move by (simp_all add: move_allowed_def)
    note empty = a_replace_empty [OF replace]
    define gone where "gone = (if is_adir t r \<or> (\<nexists>y m. has_entry (a_enter (a_drop_name t d n) d' n' k) y m r) then {r} else {})"
    have t': "?t' = (if r \<in> gone then (a_enter (a_drop_name t d n) d' n' k)(r := None)
        else a_enter (a_drop_name t d n) d' n' k)"
      by (simp add: a_move_def Some a_drop_unlinked_def gone_def)
    have names: "has_entry (a_enter (a_drop_name t d n) d' n' k) x m c \<longleftrightarrow> has_entry ?t' x m c" for x m c
      using d' by (simp add: entry has_entry_enter has_entry_drop_name)
    have unnamed: "\<not> has_entry ?t' y m r" if "is_adir t r" for y m
      using tree_ok_unique [OF t that r', of y m] rk by (auto simp: entry split: if_splits)
    show ?thesis
    proof (rule move_tree_ok [OF t k d' move_other [OF move] _ entry, where gone = gone])
      show "is_adir ?t' x \<longleftrightarrow> is_adir t x \<and> x \<notin> gone" for x
        by (auto simp: t' is_adir_gone gone_def)
      show "?t' x = None \<longleftrightarrow> t x = None \<or> x \<in> gone" for x
        by (auto simp: t' gone_def)
      show "has_entry t d' n' x \<and> x \<noteq> k \<and> \<not> a_nonempty t x \<and> (\<forall>y m. \<not> has_entry ?t' y m x)"
        if "x \<in> gone" for x
        using that unnamed r' rk empty by (auto simp: gone_def names split: if_splits)
      show "is_adir t q = is_adir t k \<and> q \<noteq> k \<and> (q \<in> gone \<or> \<not> is_adir t q \<and> (\<exists>y m. has_entry ?t' y m q))"
        if "has_entry t d' n' q" for q
      proof -
        have "q = r" using that r' by (auto simp: has_entry_def)
        then show ?thesis using empty rk by (auto simp: gone_def names)
      qed
    qed (use go in simp)
  qed
qed

end
