(* ===== verification/Memfs_Invariant.thy ===== *)
theory Memfs_Invariant
  imports Memfs_Tree
begin

text \<open>
  The invariant \<open>memfs_ok\<close> of the in-memory backend: the attributes agree with the data, the names form
  a tree, the parent pointers are the edges of the tree, the link counts are exact and the id counter
  is above every inode. Every method keeps it. The methods fall into three groups: those that only
  change one inode in place (\<open>same_names\<close>), those that end with a recount, and those that fail.
\<close>

section \<open>Updates in place\<close>

definition inode_links :: "inode \<Rightarrow> (rust_string, u64) hmap option \<times> u64 option \<times> object_type \<times> u32" where
  "inode_links i = (dir_entries i, in_parent i, at_object_type (in_attrs i), at_link_count (in_attrs i))"

definition same_names :: "memfs \<Rightarrow> memfs \<Rightarrow> bool" where
  "same_names fs fs' \<longleftrightarrow> mf_next_id fs' = mf_next_id fs
     \<and> (\<forall>k. map_option inode_links (hm_get (mf_inodes fs') k) = map_option inode_links (hm_get (mf_inodes fs) k))"

lemma same_names_refl: "same_names fs fs"
  by (simp add: same_names_def)

lemma same_names_put:
  "hm_get (mf_inodes fs) k = Some i \<Longrightarrow> inode_links j = inode_links i \<Longrightarrow>
    mf_inodes fs' = mf_inodes fs \<Longrightarrow> mf_next_id fs' = mf_next_id fs \<Longrightarrow> same_names fs (put_inode k j fs')"
  by (simp add: same_names_def put_inode_def hm_simps)

lemma same_names_observe:
  assumes "same_names fs fs'"
  shows "Option.bind (hm_get (mf_inodes fs') k) dir_entries = Option.bind (hm_get (mf_inodes fs) k) dir_entries"
    and "parent_of (mf_inodes fs') k = parent_of (mf_inodes fs) k"
    and "map_option (\<lambda>i. at_link_count (in_attrs i)) (hm_get (mf_inodes fs') k)
      = map_option (\<lambda>i. at_link_count (in_attrs i)) (hm_get (mf_inodes fs) k)"
    and "hm_get (mf_inodes fs') k = None \<longleftrightarrow> hm_get (mf_inodes fs) k = None"
proof -
  have "map_option inode_links (hm_get (mf_inodes fs') k) = map_option inode_links (hm_get (mf_inodes fs) k)"
    using assms by (simp add: same_names_def)
  then show "Option.bind (hm_get (mf_inodes fs') k) dir_entries = Option.bind (hm_get (mf_inodes fs) k) dir_entries"
    and "parent_of (mf_inodes fs') k = parent_of (mf_inodes fs) k"
    and "map_option (\<lambda>i. at_link_count (in_attrs i)) (hm_get (mf_inodes fs') k)
      = map_option (\<lambda>i. at_link_count (in_attrs i)) (hm_get (mf_inodes fs) k)"
    and "hm_get (mf_inodes fs') k = None \<longleftrightarrow> hm_get (mf_inodes fs) k = None"
    by (cases "hm_get (mf_inodes fs') k"; cases "hm_get (mf_inodes fs) k";
        simp add: inode_links_def parent_of_def)+
qed

lemma has_entry_bind:
  "has_entry (abs_tree m) d n c \<longleftrightarrow> (\<exists>es. Option.bind (hm_get m d) dir_entries = Some es \<and> hm_get es n = Some c)"
  by (auto simp: has_entry_iff bind_eq_Some_conv)

lemma is_adir_bind: "is_adir (abs_tree m) k \<longleftrightarrow> Option.bind (hm_get m k) dir_entries \<noteq> None"
  by (auto simp: is_adir_iff bind_eq_None_conv)

lemma abs_tree_None: "abs_tree m k = None \<longleftrightarrow> hm_get m k = None"
  by (simp add: abs_tree_def)

lemma same_names_ok:
  assumes same: "same_names fs fs'" and ok: "memfs_ok fs" and inodes: "inodes_ok (mf_inodes fs')"
  shows "memfs_ok fs'"
proof -
  let ?m = "mf_inodes fs" and ?m' = "mf_inodes fs'"
  note obs = same_names_observe [OF same]
  have entry: "has_entry (abs_tree ?m') = has_entry (abs_tree ?m)"
    by (simp add: fun_eq_iff has_entry_bind obs(1))
  have dirs: "is_adir (abs_tree ?m') = is_adir (abs_tree ?m)"
    by (simp add: fun_eq_iff is_adir_bind obs(1))
  have sub: "subdirs (abs_tree ?m') = subdirs (abs_tree ?m)"
    by (simp add: subdirs_def entry dirs)
  have "abs_tree ?m' k = None \<longleftrightarrow> abs_tree ?m k = None" for k
    by (simp add: abs_tree_None obs(4))
  then have "tree_ok (abs_fs fs')"
    using ok unfolding memfs_ok_def abs_fs_def tree_ok_def entry dirs sub by simp
  moreover have "parents_ok ?m'"
    using ok unfolding memfs_ok_def parents_ok_def dirs sub obs(2) by blast
  moreover have "link_count (abs_tree ?m') = link_count (abs_tree ?m)"
    by (simp add: fun_eq_iff link_count_def entry dirs)
  then have "links_ok ?m'"
    using ok obs(3) unfolding memfs_ok_def links_ok_def
    by (metis (mono_tags, lifting) map_option_eq_Some)
  moreover have "\<forall>k. hm_get ?m' k \<noteq> None \<longrightarrow> unat k < unat (mf_next_id fs')"
    using ok same unfolding memfs_ok_def same_names_def by (metis map_option_is_None)
  ultimately show ?thesis
    using inodes by (simp add: memfs_ok_def)
qed

lemma mem_write_names: "same_names fs (fst (mem_write now fs h offset data))"
  by (auto simp: mem_write_def mem_next_change_def Let_def same_names_refl inode_links_def dir_entries_def
      touch_data_change_def split: option.split inode_data.split sum.split intro!: same_names_put)

lemma mem_set_xattr_names: "same_names fs (fst (mem_set_xattr now fs h n v mode))"
  by (auto simp: mem_set_xattr_def mem_next_change_def Let_def same_names_refl inode_links_def dir_entries_def
      touch_data_change_def update_has_named_attrs_def split: option.split intro!: same_names_put)

lemma mem_remove_xattr_names: "same_names fs (fst (mem_remove_xattr now fs h n))"
  by (auto simp: mem_remove_xattr_def mem_next_change_def Let_def same_names_refl inode_links_def dir_entries_def
      touch_change_def update_has_named_attrs_def split: option.split intro!: same_names_put)

lemma apply_setattrs_entries:
  assumes "apply_setattrs now s fs i = Inr (fs', j)"
  shows "dir_entries j = dir_entries i"
  using assms
  by (auto simp: apply_setattrs_def apply_size_def mem_next_change_def Let_def dir_entries_def
      split: sum.splits option.splits inode_data.splits if_splits)

lemma mem_setattr_names: "same_names fs (fst (mem_setattr now fs h s))"
proof (cases "hm_get (mf_inodes fs) h")
  case None
  then show ?thesis by (simp add: mem_setattr_def same_names_refl)
next
  case (Some i)
  show ?thesis
  proof (cases "apply_setattrs now s fs i")
    case (Inl e)
    then show ?thesis by (simp add: mem_setattr_def Some same_names_refl)
  next
    case (Inr r)
    obtain fs' j where r: "r = (fs', j)" by fastforce
    note set = apply_setattrs_Inr(2) [OF Inr [unfolded r]] apply_setattrs_entries [OF Inr [unfolded r]]
    then have "same_names fs (put_inode h j fs')"
      by (intro same_names_put [OF Some]) (simp_all add: inode_links_def setattrs_effect_def)
    then show ?thesis by (simp add: mem_setattr_def Some Inr r)
  qed
qed

section \<open>Updates of the namespace\<close>

lemma recount_next [simp]: "mf_next_id (recount fs) = mf_next_id fs"
  by (simp add: recount_def)

lemma put_next [simp]: "mf_next_id (put_inode k i fs) = mf_next_id fs"
  by (simp add: put_inode_def)

lemma touch_next [simp]: "mf_next_id (touch_dir now f d fs) = mf_next_id fs"
  by (simp add: touch_dir_eq split: option.split)

lemma drop_next [simp]: "mf_next_id (drop_unlinked k fs) = mf_next_id fs"
  by (simp add: drop_unlinked_def)

lemma abs_fs_None: "abs_fs fs k = None \<longleftrightarrow> hm_get (mf_inodes fs) k = None"
  by (simp add: abs_fs_def abs_tree_None)

lemma recount_inodes: "mf_inodes (recount fs) = recompute_link_counts (mf_inodes fs)"
  by (simp add: recount_def)

lemma recount_memfs_ok:
  assumes ok: "inodes_ok (mf_inodes fs)" and tree: "tree_ok (abs_fs fs)" and parents: "parents_ok (mf_inodes fs)"
    and ids: "\<And>k. abs_fs fs k \<noteq> None \<Longrightarrow> unat k < unat (mf_next_id fs)"
  shows "memfs_ok (recount fs)"
proof -
  have wf: "hm_wf (mf_inodes fs)"
    using ok by (simp add: inodes_ok_def)
  note shape = recompute_shape [OF wf]
  have "links_ok (mf_inodes (recount fs))"
    using recompute_links [OF ok] tree_ok_closed [OF tree] by (simp add: recount_def abs_fs_def)
  moreover have "parents_ok (mf_inodes (recount fs))"
    using parents
    unfolding recount_inodes parents_ok_def same_shape_abs [OF shape] same_shape_parent [OF shape] .
  ultimately show ?thesis
    using inodes_ok_recount [OF ok] tree ids
    by (simp add: memfs_ok_def abs_recount [OF wf] flip: abs_fs_None del: not_None_eq)
qed

lemma touch_parent: "parent_of (mf_inodes (touch_dir now f d fs)) k = parent_of (mf_inodes fs) k"
  by (simp add: parent_of_def touch_dir_get split: option.split) (cases "hm_get (mf_inodes fs) d"; simp)

lemma drop_parent:
  "hm_get (mf_inodes (drop_unlinked r fs)) k \<noteq> None \<Longrightarrow>
    parent_of (mf_inodes (drop_unlinked r fs)) k = parent_of (mf_inodes fs) k"
  by (auto simp: drop_unlinked_def remove_if_unlinked_def Let_def parent_of_def hm_simps split: if_splits)

lemma parents_okI:
  assumes old: "parents_ok m"
    and new: "\<And>c. is_adir (abs_tree m') c \<Longrightarrow>
      is_adir (abs_tree m) c \<and> parent_of m' c = parent_of m c
        \<and> (\<forall>p. (p, c) \<in> subdirs (abs_tree m) \<longrightarrow> (p, c) \<in> subdirs (abs_tree m'))
      \<or> (\<exists>p. parent_of m' c = Some p \<and> (p, c) \<in> subdirs (abs_tree m'))"
  shows "parents_ok m'"
  unfolding parents_ok_def
proof (intro allI impI)
  fix c
  assume "is_adir (abs_tree m') c"
  from new [OF this] show "case parent_of m' c of None \<Rightarrow> c = mem_root | Some p \<Rightarrow> (p, c) \<in> subdirs (abs_tree m')"
  proof
    assume same: "is_adir (abs_tree m) c \<and> parent_of m' c = parent_of m c
        \<and> (\<forall>p. (p, c) \<in> subdirs (abs_tree m) \<longrightarrow> (p, c) \<in> subdirs (abs_tree m'))"
    with old have "case parent_of m c of None \<Rightarrow> c = mem_root | Some p \<Rightarrow> (p, c) \<in> subdirs (abs_tree m)"
      by (simp add: parents_ok_def)
    with same show ?thesis by (auto split: option.splits)
  qed auto
qed

text \<open>Entering a name leaves the other edges of the tree; so does dropping one.\<close>

lemma enter_keeps:
  "is_adir t d \<Longrightarrow> \<nexists>c. has_entry t d n c \<Longrightarrow> has_entry t x m c \<Longrightarrow> has_entry (a_enter t d n k) x m c"
  by (auto simp: has_entry_enter)

lemma a_drop_unlinked_dom: "a_drop_unlinked t k c \<noteq> None \<Longrightarrow> t c \<noteq> None"
  by (simp add: a_drop_unlinked_def split: if_splits)

lemma mem_link_ok:
  assumes ok: "memfs_ok fs"
  shows "memfs_ok (fst (mem_link now fs k d n))"
proof (cases "snd (mem_link now fs k d n)")
  case (Inl e)
  then have "fst (mem_link now fs k d n) = fs"
    by (auto simp: mem_link_def split: option.splits if_splits)
  then show ?thesis using ok by simp
next
  case (Inr u)
  let ?fs = "touch_dir now (hm_insert n k) d fs"
  have inodes: "inodes_ok (mf_inodes fs)" and tree: "tree_ok (abs_fs fs)"
    using ok by (simp_all add: memfs_ok_def)
  have eq: "mem_link now fs k d n = (recount ?fs, Inr ())"
    using Inr by (auto simp: mem_link_def split: option.splits if_splits)
  have ok': "inodes_ok (mf_inodes ?fs)"
    using inodes by (rule touch_dir_ok) (simp add: hm_simps)
  have t': "abs_fs ?fs = a_enter (abs_fs fs) d n k"
    by (rule abs_touch_insert)
  have link: "a_link (abs_fs fs) k d n = (abs_fs ?fs, Inr ())"
    using mem_link_abs [OF inodes, of now k d n] abs_recount ok'
    by (simp add: eq refines_def inodes_ok_def prod_eq_iff)
  then have vacant: "is_adir (abs_fs fs) d" "\<nexists>c. has_entry (abs_fs fs) d n c"
    using a_vacant_iff [of "abs_fs fs" d n]
    by (auto simp: a_link_def split: option.splits if_splits sum.splits)
  have sub: "(p, c) \<in> subdirs (abs_fs fs) \<Longrightarrow> (p, c) \<in> subdirs (abs_fs ?fs)" for p c
    unfolding subdirs_iff t' is_adir_enter using enter_keeps [OF vacant] by blast
  have "parents_ok (mf_inodes ?fs)"
    by (rule parents_okI [of "mf_inodes fs"])
      (use ok sub in \<open>auto simp: memfs_ok_def touch_parent t' simp flip: abs_fs_def\<close>)
  moreover have "tree_ok (abs_fs ?fs)"
    using a_link_tree [OF tree, of k d n] by (simp add: link)
  ultimately show ?thesis
    using ok unfolding eq fst_conv
    by (intro recount_memfs_ok ok') (simp_all add: t' memfs_ok_def abs_fs_None del: not_None_eq)
qed

lemma mem_remove_ok:
  assumes ok: "memfs_ok fs"
  shows "memfs_ok (fst (mem_remove now fs d n))"
proof (cases "snd (mem_remove now fs d n)")
  case (Inl e)
  then have "fst (mem_remove now fs d n) = fs"
    by (auto simp: mem_remove_def split: sum.splits if_splits)
  then show ?thesis using ok by simp
next
  case (Inr u)
  have inodes: "inodes_ok (mf_inodes fs)" and tree: "tree_ok (abs_fs fs)"
    using ok by (simp_all add: memfs_ok_def)
  obtain k where k: "a_lookup (abs_fs fs) d n = Inr k"
    and eq: "mem_remove now fs d n = (recount (drop_unlinked k (touch_dir now (hm_remove n) d fs)), Inr ())"
    using Inr by (auto simp: mem_remove_def abs_lookup split: sum.splits if_splits)
  let ?fs1 = "touch_dir now (hm_remove n) d fs" and ?fs = "drop_unlinked k (touch_dir now (hm_remove n) d fs)"
  have entry: "has_entry (abs_fs fs) d n k"
    using k by (simp add: a_lookup_entry)
  have ok1: "inodes_ok (mf_inodes ?fs1)"
    using inodes by (rule touch_dir_ok) (simp add: hm_simps)
  then have ok': "inodes_ok (mf_inodes ?fs)"
    by (rule drop_unlinked_ok)
  have t': "abs_fs ?fs = a_drop_unlinked (a_drop_name (abs_fs fs) d n) k"
    by (simp add: abs_drop_unlinked [OF ok1] abs_touch_remove)
  have remove: "a_remove (abs_fs fs) d n = (abs_fs ?fs, Inr ())"
    using mem_remove_abs [OF inodes, of now d n] abs_recount ok'
    by (simp add: eq refines_def inodes_ok_def prod_eq_iff)
  have step: "is_adir (abs_fs fs) c \<and> parent_of (mf_inodes ?fs) c = parent_of (mf_inodes fs) c
      \<and> (\<forall>p. (p, c) \<in> subdirs (abs_fs fs) \<longrightarrow> (p, c) \<in> subdirs (abs_fs ?fs))"
    if c: "is_adir (abs_fs ?fs) c" for c
  proof -
    have ck: "c \<noteq> k" and dir: "is_adir (abs_fs fs) c"
      using c by (auto simp: t' a_drop_unlinked_def is_adir_gone split: if_splits)
    have "hm_get (mf_inodes ?fs) c \<noteq> None"
      using is_adir_dom [OF c] by (simp add: abs_fs_None del: not_None_eq)
    then have "parent_of (mf_inodes ?fs) c = parent_of (mf_inodes fs) c"
      by (simp add: drop_parent touch_parent del: not_None_eq)
    moreover have "(p, c) \<in> subdirs (abs_fs ?fs)" if "(p, c) \<in> subdirs (abs_fs fs)" for p
    proof -
      have "\<exists>m. has_entry (abs_fs fs) p m c" using that by (simp add: subdirs_iff)
      then obtain m where m: "has_entry (abs_fs fs) p m c" ..
      have "\<not> (p = d \<and> m = n)" using m entry ck by (auto simp: has_entry_def)
      moreover have "p \<noteq> k"
        using m Inr k by (auto simp: mem_remove_def abs_lookup abs_nonempty [OF inodes] a_nonempty_def split: if_splits)
      ultimately have "has_entry (abs_fs ?fs) p m c"
        using m by (simp add: t' a_drop_unlinked_def has_entry_gone has_entry_drop_name)
      with c show ?thesis by (auto simp: subdirs_iff)
    qed
    ultimately show ?thesis using dir by blast
  qed
  have "parents_ok (mf_inodes ?fs)"
    by (rule parents_okI [of "mf_inodes fs"]) (use ok step in \<open>simp_all add: memfs_ok_def abs_fs_def\<close>)
  moreover have "tree_ok (abs_fs ?fs)"
    using a_remove_tree [OF tree, of d n] by (simp add: remove)
  moreover have "abs_fs fs c \<noteq> None" if "abs_fs ?fs c \<noteq> None" for c
    using a_drop_unlinked_dom [OF that [unfolded t']] by (simp del: not_None_eq)
  ultimately show ?thesis
    using ok unfolding eq fst_conv
    by (intro recount_memfs_ok ok') (simp_all add: memfs_ok_def abs_fs_None del: not_None_eq)
qed

lemma moved_parent: "parent_of (mf_inodes (moved_names now fs d n d' n' k)) c = parent_of (mf_inodes fs) c"
  by (simp add: moved_names_def touch_parent)

lemma moved_next [simp]: "mf_next_id (moved_names now fs d n d' n' k) = mf_next_id fs"
  by (simp add: moved_names_def)

lemma reparented_next [simp]: "mf_next_id (reparented d d' k fs) = mf_next_id fs"
  by (simp add: reparented_def split: option.split)

lemma reparented_parent:
  assumes "inodes_ok (mf_inodes fs)"
  shows "parent_of (mf_inodes (reparented d d' k fs)) c =
    (if c = k \<and> d \<noteq> d' \<and> is_adir (abs_fs fs) k then Some d' else parent_of (mf_inodes fs) c)"
proof (cases "hm_get (mf_inodes fs) k")
  case None
  then show ?thesis by (simp add: reparented_def abs_fs_def is_adir_iff)
next
  case (Some i)
  then have "at_object_type (in_attrs i) = Ot_Directory \<longleftrightarrow> is_adir (abs_fs fs) k"
    using inode_ok_dir [OF inodes_ok_get [OF assms Some]] by (simp add: abs_fs_def is_adir_iff)
  then show ?thesis
    using Some by (simp add: reparented_def put_inode_def parent_of_def hm_simps)
qed

definition moved_fs ::
  "timestamp \<Rightarrow> memfs \<Rightarrow> u64 \<Rightarrow> rust_string \<Rightarrow> u64 \<Rightarrow> rust_string \<Rightarrow> u64 \<Rightarrow> u64 option \<Rightarrow> memfs" where
  "moved_fs now fs d n d' n' k replaced =
     (case replaced of Some r \<Rightarrow> drop_unlinked r (reparented d d' k (moved_names now fs d n d' n' k))
      | None \<Rightarrow> reparented d d' k (moved_names now fs d n d' n' k))"

lemma moved_fs_abs:
  assumes ok: "inodes_ok (mf_inodes fs)"
  shows "abs_fs (moved_fs now fs d n d' n' k replaced) = a_move (abs_fs fs) d n d' n' k replaced"
    and "inodes_ok (mf_inodes (moved_fs now fs d n d' n' k replaced))"
    and "mf_next_id (moved_fs now fs d n d' n' k replaced) = mf_next_id fs"
  using moved_names_abs [OF ok, of now d n d' n' k]
    reparented_abs [OF moved_names_abs(2) [OF ok], of d d' k now d n d' n' k]
  by (simp_all add: moved_fs_def a_move_def drop_unlinked_ok abs_drop_unlinked split: option.split)

lemma moved_fs_parent:
  assumes ok: "inodes_ok (mf_inodes fs)" and c: "hm_get (mf_inodes (moved_fs now fs d n d' n' k replaced)) c \<noteq> None"
  shows "parent_of (mf_inodes (moved_fs now fs d n d' n' k replaced)) c =
    (if c = k \<and> d \<noteq> d' \<and> is_adir (abs_fs fs) k then Some d' else parent_of (mf_inodes fs) c)"
proof -
  have "parent_of (mf_inodes (moved_fs now fs d n d' n' k replaced)) c
      = parent_of (mf_inodes (reparented d d' k (moved_names now fs d n d' n' k))) c"
    using c by (cases replaced) (simp_all add: moved_fs_def drop_parent del: not_None_eq)
  then show ?thesis
    by (simp add: reparented_parent [OF moved_names_abs(2) [OF ok]] moved_parent moved_names_abs(1) [OF ok])
qed

lemma a_move_dom: "a_move t d n d' n' k replaced c \<noteq> None \<Longrightarrow> t c \<noteq> None"
  using a_drop_unlinked_dom [of "a_enter (a_drop_name t d n) d' n' k"]
  by (cases replaced) (auto simp: a_move_def simp del: not_None_eq)

lemma a_move_dir: "is_adir (a_move t d n d' n' k replaced) c \<Longrightarrow> is_adir t c \<and> replaced \<noteq> Some c"
  by (auto simp: a_move_def a_drop_unlinked_def is_adir_gone split: option.splits if_splits)

lemma moved_fs_parents:
  assumes ok: "inodes_ok (mf_inodes fs)" "parents_ok (mf_inodes fs)" "tree_ok (abs_fs fs)"
    and move: "move_allowed (abs_fs fs) d n d' n' k replaced"
  shows "parents_ok (mf_inodes (moved_fs now fs d n d' n' k replaced))"
proof (rule parents_okI [OF ok(2)])
  fix c
  let ?fs = "moved_fs now fs d n d' n' k replaced"
  note t' = moved_fs_abs(1) [OF ok(1), of now d n d' n' k replaced]
  note entry = a_move_entry [OF move]
  assume "is_adir (abs_tree (mf_inodes ?fs)) c"
  then have c: "is_adir (abs_fs ?fs) c" by (simp add: abs_fs_def)
  then have dir: "is_adir (abs_fs fs) c" and not_replaced: "replaced \<noteq> Some c"
    using a_move_dir by (auto simp: t')
  have "hm_get (mf_inodes ?fs) c \<noteq> None"
    using is_adir_dom [OF c] by (simp add: abs_fs_None del: not_None_eq)
  note parent = moved_fs_parent [OF ok(1) this]
  have k: "has_entry (abs_fs fs) d n k"
    using move by (simp add: move_allowed_def)
  have "(d', k) \<in> subdirs (abs_fs ?fs)" if "c = k"
    using that c by (auto simp: subdirs_iff t' entry)
  moreover have "(p, c) \<in> subdirs (abs_fs ?fs)" if "c \<noteq> k" "(p, c) \<in> subdirs (abs_fs fs)" for p
  proof -
    have "\<exists>m. has_entry (abs_fs fs) p m c" using that by (simp add: subdirs_iff)
    then obtain m where m: "has_entry (abs_fs fs) p m c" ..
    have "\<not> (p = d \<and> m = n)" using m k that(1) by (auto simp: has_entry_def)
    moreover have "\<not> (p = d' \<and> m = n')"
      using m move not_replaced by (auto simp: move_allowed_def has_entry_def split: option.splits)
    ultimately have "has_entry (abs_fs ?fs) p m c" using m by (auto simp: t' entry)
    with c show ?thesis by (auto simp: subdirs_iff)
  qed
  moreover have "parent_of (mf_inodes fs) k = Some d" if "c = k"
    using parent_of_subdir [OF ok(1,2), of d k] ok(3) dir k that by (auto simp: abs_fs_def subdirs_iff)
  ultimately show "is_adir (abs_tree (mf_inodes fs)) c \<and> parent_of (mf_inodes ?fs) c = parent_of (mf_inodes fs) c
        \<and> (\<forall>p. (p, c) \<in> subdirs (abs_tree (mf_inodes fs)) \<longrightarrow> (p, c) \<in> subdirs (abs_tree (mf_inodes ?fs)))
      \<or> (\<exists>p. parent_of (mf_inodes ?fs) c = Some p \<and> (p, c) \<in> subdirs (abs_tree (mf_inodes ?fs)))"
    using parent dir unfolding abs_fs_def [symmetric] by (cases "c = k"; cases "d = d'") simp_all
qed

lemma mem_rename_ok:
  assumes ok: "memfs_ok fs"
  shows "memfs_ok (fst (mem_rename now fs d n d' n'))"
proof -
  have parts: "inodes_ok (mf_inodes fs)" "parents_ok (mf_inodes fs)" "tree_ok (abs_fs fs)"
    using ok by (simp_all add: memfs_ok_def)
  show ?thesis
  proof (rule mem_rename_cases [OF parts, of now d n d' n'])
    fix k replaced
    assume move: "move_allowed (abs_fs fs) d n d' n' k replaced"
      and eq: "mem_rename now fs d n d' n' = (rename_move now fs d n d' n' k replaced, Inr ())"
    note moved = moved_fs_abs [OF parts(1), of now d n d' n' k replaced]
    have "memfs_ok (recount (moved_fs now fs d n d' n' k replaced))"
    proof (rule recount_memfs_ok)
      show "tree_ok (abs_fs (moved_fs now fs d n d' n' k replaced))"
        using a_move_tree [OF parts(3) move] by (simp add: moved)
      show "unat c < unat (mf_next_id (moved_fs now fs d n d' n' k replaced))"
        if "abs_fs (moved_fs now fs d n d' n' k replaced) c \<noteq> None" for c
        using a_move_dom that ok by (simp add: moved memfs_ok_def flip: abs_fs_None del: not_None_eq)
    qed (simp_all add: moved moved_fs_parents [OF parts move])
    then show ?thesis by (simp add: eq rename_move_eq moved_fs_def)
  qed (use ok in simp)
qed

lemma enter_inode_ok:
  assumes parts: "inodes_ok (mf_inodes fs)" "parents_ok (mf_inodes fs)" "tree_ok (abs_fs fs)"
    and vacant: "is_adir (abs_fs fs) d" "\<nexists>c. has_entry (abs_fs fs) d n c"
    and i: "inode_ok k i" "in_parent i = Some d" "no_entries (abs_node i)" and new: "abs_fs fs k = None"
    and ids: "\<And>c. c = k \<or> abs_fs fs c \<noteq> None \<Longrightarrow> unat c < unat (mf_next_id fs)"
  shows "memfs_ok (fst (enter_inode now fs d n k i))"
proof -
  let ?fs = "put_inode k i (touch_dir now (hm_insert n k) d fs)"
  have "Option.bind (hm_get (mf_inodes fs) d) dir_entries \<noteq> None"
    using vacant(1) by (simp add: abs_fs_def is_adir_bind)
  then obtain p es where p: "hm_get (mf_inodes fs) d = Some p" "dir_entries p = Some es"
    by (auto simp: bind_eq_Some_conv)
  have t': "abs_fs ?fs = (a_enter (abs_fs fs) d n k)(k \<mapsto> abs_node i)"
    by (simp add: abs_put_inode abs_touch_insert)
  have tree: "tree_ok (abs_fs ?fs)"
    unfolding t' by (rule create_tree_ok [OF parts(3) new i(3) vacant])
  have kd: "k \<noteq> d"
    using new is_adir_dom [OF vacant(1)] by auto
  have edge: "has_entry (abs_fs ?fs) x m c" if "has_entry (a_enter (abs_fs fs) d n k) x m c" "x \<noteq> k" for x m c
    using that by (simp add: t' has_entry_def)
  have "parents_ok (mf_inodes ?fs)"
  proof (rule parents_okI [OF parts(2)], goal_cases)
    case (1 c)
    then have c: "is_adir (abs_fs ?fs) c" by (simp add: abs_fs_def)
    show ?case
    proof (cases "c = k")
      case True
      have "has_entry (abs_fs ?fs) d n k"
        using edge [OF _ kd [symmetric]] has_entry_enter [OF vacant(1), of n k d n k] by simp
      then have "(d, k) \<in> subdirs (abs_fs ?fs)"
        using c True by (auto simp: subdirs_iff)
      moreover have "at_object_type (in_attrs i) = Ot_Directory"
        using c True inode_ok_dir [OF i(1)]
        by (simp add: abs_fs_def is_adir_bind put_inode_def hm_simps)
      then have "parent_of (mf_inodes ?fs) k = Some d"
        using i(2) by (simp add: parent_of_def put_inode_def hm_simps)
      ultimately show ?thesis using True by (simp add: abs_fs_def)
    next
      case False
      have "parent_of (mf_inodes ?fs) c = parent_of (mf_inodes fs) c"
        using touch_parent [of now "hm_insert n k" d fs c] False
        by (simp add: parent_of_def put_inode_def hm_simps)
      moreover have "is_adir (abs_fs fs) c"
        using c False unfolding t' by (metis fun_upd_other is_adir_def is_adir_enter)
      moreover have "(q, c) \<in> subdirs (abs_fs ?fs)" if "(q, c) \<in> subdirs (abs_fs fs)" for q
      proof -
        have "\<exists>m. has_entry (abs_fs fs) q m c" using that by (simp add: subdirs_iff)
        then obtain m where m: "has_entry (abs_fs fs) q m c" ..
        then have "q \<noteq> k" using new by (auto simp: has_entry_def)
        then have "has_entry (abs_fs ?fs) q m c"
          using edge enter_keeps [OF vacant m] by blast
        with c show ?thesis by (auto simp: subdirs_iff)
      qed
      ultimately show ?thesis by (simp add: abs_fs_def)
    qed
  qed
  moreover have "inodes_ok (mf_inodes ?fs)"
    using parts(1) i(1) by (intro inodes_ok_put touch_dir_ok) (auto simp: hm_simps)
  moreover have "unat c < unat (mf_next_id ?fs)" if "abs_fs ?fs c \<noteq> None" for c
    using that ids by (cases "c = k") (simp_all add: t' del: not_None_eq)
  ultimately have "memfs_ok (recount ?fs)"
    by (intro recount_memfs_ok tree)
  then show ?thesis by (simp add: enter_inode_def p Let_def)
qed

lemma no_entries_resize: "no_entries v \<Longrightarrow> a_resize r v = Inr w \<Longrightarrow> no_entries w"
  by (auto simp: a_resize_def no_entries_def split: option.splits anode.splits if_splits)

lemma memfs_ok_bump:
  assumes "memfs_ok fs" and "unat (mf_next_id fs) + 1 < 2 ^ 64"
  shows "memfs_ok (fs\<lparr>mf_next_id := mf_next_id fs + 1\<rparr>)" and "abs_fs fs (mf_next_id fs) = None"
    and "unat (mf_next_id fs + 1) = unat (mf_next_id fs) + 1"
proof -
  show next_id: "unat (mf_next_id fs + 1) = unat (mf_next_id fs) + 1"
    using assms(2) by (simp add: unat_word_ariths)
  show "memfs_ok (fs\<lparr>mf_next_id := mf_next_id fs + 1\<rparr>)"
    using assms(1) by (auto simp: memfs_ok_def next_id intro: less_SucI)
  show "abs_fs fs (mf_next_id fs) = None"
    using assms(1) by (auto simp: memfs_ok_def abs_fs_None)
qed

lemma create_with_ok:
  assumes ok: "memfs_ok fs" and i: "inode_ok k i" "in_parent i = Some d" "no_entries (abs_node i)"
    and g: "\<And>j. inode_ok k j \<Longrightarrow> a_resize (sa_size s) (abs_node i) = Inr (abs_node j) \<Longrightarrow>
      inode_ok k (g j) \<and> abs_node (g j) = abs_node j \<and> in_parent (g j) = in_parent j"
    and new: "abs_fs fs k = None" "unat k < unat (mf_next_id fs)"
  shows "memfs_ok (fst (create_with now fs d n k s i g))"
proof (cases "a_vacant (abs_fs fs) d n")
  case (Inl e)
  then show ?thesis using ok by (simp add: create_with_def)
next
  case vacant: (Inr u)
  show ?thesis
  proof (cases "apply_setattrs now s fs i")
    case (Inl e)
    then show ?thesis using ok vacant by (simp add: create_with_def)
  next
    case (Inr r)
    obtain fs' j where r: "r = (fs', j)" by fastforce
    note set = apply_setattrs_Inr [OF Inr [unfolded r]]
    have fs': "mf_inodes fs' = mf_inodes fs" "abs_fs fs' = abs_fs fs" "mf_next_id fs' = mf_next_id fs"
      using set(2) by (simp_all add: setattrs_effect_def abs_fs_def)
    have j: "inode_ok k j" "in_parent j = Some d"
      using set(2) i by (simp_all add: setattrs_effect_def)
    have "memfs_ok (fst (enter_inode now fs' d n k (g j)))"
      using g [OF j(1) set(1)] j(2) no_entries_resize [OF i(3) set(1)] ok new vacant
      by (intro enter_inode_ok)
        (auto simp: fs' memfs_ok_def a_vacant_iff abs_fs_None simp del: not_None_eq)
    then show ?thesis using vacant Inr r by (simp add: create_with_def)
  qed
qed

lemma new_parent [simp]:
  "in_parent (new_inode now ctx kind k d) = Some d" "in_parent (new_symlink now ctx target k d) = Some d"
  "in_parent (fix_size len i) = in_parent i"
  by (simp_all add: new_inode_def new_symlink_def fix_size_def)

lemma new_no_entries: "no_entries (create_node kind)" "no_entries (A_Link target)"
  by (simp_all add: no_entries_def create_node_def split: create_kind.split)

lemma mem_create_ok:
  assumes ok: "memfs_ok fs" and fresh: "unat (mf_next_id fs) + 1 < 2 ^ 64"
  shows "memfs_ok (fst (mem_create now ctx fs d n req))"
    and "memfs_ok (fst (mem_create_symlink now ctx fs d n target attrs))"
proof -
  have inodes: "inodes_ok (mf_inodes fs)"
    using ok by (simp add: memfs_ok_def)
  note bump = memfs_ok_bump [OF ok fresh]
  have new: "abs_fs (fs\<lparr>mf_next_id := mf_next_id fs + 1\<rparr>) (mf_next_id fs) = None"
    using bump(2) by simp
  show "memfs_ok (fst (mem_create now ctx fs d n req))"
    unfolding mem_create_eq [OF inodes]
    by (rule create_with_ok [OF bump(1) new_ok(1)])
      (use new bump in \<open>simp_all add: new_node new_no_entries\<close>)
  show "memfs_ok (fst (mem_create_symlink now ctx fs d n target attrs))"
    unfolding mem_create_symlink_eq [OF inodes]
    by (rule create_with_ok [OF bump(1) new_ok(2)])
      (use new bump fix_symlink in \<open>simp_all add: new_node new_no_entries\<close>)
qed

section \<open>Runs of the backend\<close>

text \<open>The methods that change the table, with the wall clock each of them reads.\<close>

datatype mem_op =
    Mop_Create timestamp request_context u64 rust_string create_request
  | Mop_Symlink timestamp request_context u64 rust_string rust_string set_attrs
  | Mop_Remove timestamp u64 rust_string
  | Mop_Rename timestamp u64 rust_string u64 rust_string
  | Mop_Link timestamp u64 u64 rust_string
  | Mop_Write timestamp u64 u64 bytes
  | Mop_Setattr timestamp u64 set_attrs
  | Mop_SetXattr timestamp u64 rust_string bytes xattr_set_mode
  | Mop_RemoveXattr timestamp u64 rust_string

primrec mem_exec :: "mem_op \<Rightarrow> memfs \<Rightarrow> memfs \<times> unit fs_result" where
  "mem_exec (Mop_Create now ctx d n req) fs = map_prod id outcome (mem_create now ctx fs d n req)"
| "mem_exec (Mop_Symlink now ctx d n target attrs) fs =
     map_prod id outcome (mem_create_symlink now ctx fs d n target attrs)"
| "mem_exec (Mop_Remove now d n) fs = mem_remove now fs d n"
| "mem_exec (Mop_Rename now d n d' n') fs = mem_rename now fs d n d' n'"
| "mem_exec (Mop_Link now k d n) fs = mem_link now fs k d n"
| "mem_exec (Mop_Write now h offset data) fs = map_prod id outcome (mem_write now fs h offset data)"
| "mem_exec (Mop_Setattr now h attrs) fs = map_prod id outcome (mem_setattr now fs h attrs)"
| "mem_exec (Mop_SetXattr now h n v mode) fs = mem_set_xattr now fs h n v mode"
| "mem_exec (Mop_RemoveXattr now h n) fs = mem_remove_xattr now fs h n"

primrec mem_run :: "mem_op list \<Rightarrow> memfs \<Rightarrow> memfs \<times> unit fs_result list" where
  "mem_run [] fs = (fs, [])"
| "mem_run (op # ops) fs =
     (let (fs, r) = mem_exec op fs; (fs, rs) = mem_run ops fs in (fs, r # rs))"

text \<open>What the specification allows: the tree and the number of the next object change as the
  abstract operation says and the result is the abstract one; an extended attribute leaves both as
  they are, and its result is not constrained.\<close>

primrec a_step :: "mem_op \<Rightarrow> atree \<times> u64 \<Rightarrow> atree \<times> u64 \<Rightarrow> unit fs_result \<Rightarrow> bool" where
  "a_step (Mop_Create now ctx d n req) s s' r \<longleftrightarrow>
     (fst s', r) = a_create (fst s) (snd s) d n (a_resize (sa_size (crq_attrs req)) (create_node (crq_kind req)))
     \<and> snd s' = snd s + 1"
| "a_step (Mop_Symlink now ctx d n target attrs) s s' r \<longleftrightarrow>
     (fst s', r) = a_create (fst s) (snd s) d n (a_resize (sa_size attrs) (A_Link target)) \<and> snd s' = snd s + 1"
| "a_step (Mop_Remove now d n) s s' r \<longleftrightarrow> (fst s', r) = a_remove (fst s) d n \<and> snd s' = snd s"
| "a_step (Mop_Rename now d n d' n') s s' r \<longleftrightarrow> (fst s', r) = a_rename (fst s) d n d' n' \<and> snd s' = snd s"
| "a_step (Mop_Link now k d n) s s' r \<longleftrightarrow> (fst s', r) = a_link (fst s) k d n \<and> snd s' = snd s"
| "a_step (Mop_Write now h offset data) s s' r \<longleftrightarrow> (fst s', r) = a_write (fst s) h offset data \<and> snd s' = snd s"
| "a_step (Mop_Setattr now h attrs) s s' r \<longleftrightarrow> (fst s', r) = a_setattr (fst s) h attrs \<and> snd s' = snd s"
| "a_step (Mop_SetXattr now h n v mode) s s' r \<longleftrightarrow> s' = s"
| "a_step (Mop_RemoveXattr now h n) s s' r \<longleftrightarrow> s' = s"

inductive a_run :: "mem_op list \<Rightarrow> atree \<times> u64 \<Rightarrow> atree \<times> u64 \<Rightarrow> unit fs_result list \<Rightarrow> bool" where
  a_run_Nil: "a_run [] s s []"
| a_run_Cons: "a_step op s s' r \<Longrightarrow> a_run ops s' s'' rs \<Longrightarrow> a_run (op # ops) s s'' (r # rs)"

definition abs_state :: "memfs \<Rightarrow> atree \<times> u64" where
  "abs_state fs = (abs_fs fs, mf_next_id fs)"

text \<open>\<^verbatim>\<open>Bytes\<close> holds less than \<^verbatim>\<open>usize::MAX\<close> bytes.\<close>

definition op_fits :: "mem_op \<Rightarrow> bool" where
  "op_fits op \<longleftrightarrow> (case op of Mop_Write _ _ _ data \<Rightarrow> length data < 2 ^ 64 | _ \<Rightarrow> True)"

lemma create_next:
  assumes "inodes_ok (mf_inodes fs)"
  shows "mf_next_id (fst (mem_create now ctx fs d n req)) = mf_next_id fs + 1"
    and "mf_next_id (fst (mem_create_symlink now ctx fs d n target attrs)) = mf_next_id fs + 1"
proof -
  have enter: "mf_next_id (fst (enter_inode now fs d n k i)) = mf_next_id fs" for fs d n k i
    by (simp add: enter_inode_def Let_def split: option.split)
  have "mf_next_id (fst (create_with now fs d n k s i g)) = mf_next_id fs" for fs s i g k
  proof (cases "apply_setattrs now s fs i")
    case (Inl e)
    then show ?thesis by (simp add: create_with_def split: sum.split)
  next
    case (Inr r)
    then have "mf_next_id (fst r) = mf_next_id fs"
      using apply_setattrs_Inr(2) [of now s fs i "fst r" "snd r"] by (simp add: setattrs_effect_def)
    with Inr show ?thesis by (cases r) (simp add: create_with_def enter split: sum.split)
  qed
  then show "mf_next_id (fst (mem_create now ctx fs d n req)) = mf_next_id fs + 1"
    and "mf_next_id (fst (mem_create_symlink now ctx fs d n target attrs)) = mf_next_id fs + 1"
    by (simp_all add: mem_create_eq [OF assms] mem_create_symlink_eq [OF assms])
qed

lemma rename_move_next: "mf_next_id (rename_move now fs d n d' n' k replaced) = mf_next_id fs"
  by (simp add: rename_move_eq split: option.split)

lemma namespace_next:
  "mf_next_id (fst (mem_remove now fs d n)) = mf_next_id fs"
  "mf_next_id (fst (mem_link now fs k d n)) = mf_next_id fs"
  "mf_next_id (fst (mem_rename now fs d n d' n')) = mf_next_id fs"
  by (simp add: mem_remove_def split: sum.split)
    (simp add: mem_link_def split: option.split,
     simp add: mem_rename_def rename_move_next Let_def split: sum.split option.split)

lemma mem_exec_ok:
  assumes "memfs_ok fs" and "unat (mf_next_id fs) + 1 < 2 ^ 64" and "op_fits op"
  shows "memfs_ok (fst (mem_exec op fs))"
proof -
  have inodes: "inodes_ok (mf_inodes fs)"
    using assms(1) by (simp add: memfs_ok_def)
  note quiet = same_names_ok [OF _ assms(1)]
  show ?thesis
  proof (cases op)
    case (Mop_Write now h offset data)
    then show ?thesis
      using quiet [OF mem_write_names] mem_write_abs [OF inodes] assms(3) by (simp add: op_fits_def)
  next
    case (Mop_Setattr now h attrs)
    then show ?thesis using quiet [OF mem_setattr_names] mem_setattr_abs [OF inodes] by simp
  next
    case (Mop_SetXattr now h n v mode)
    then show ?thesis using quiet [OF mem_set_xattr_names] mem_set_xattr_abs [OF inodes] by simp
  next
    case (Mop_RemoveXattr now h n)
    then show ?thesis using quiet [OF mem_remove_xattr_names] mem_remove_xattr_abs [OF inodes] by simp
  qed (use mem_create_ok [OF assms(1,2)] mem_remove_ok [OF assms(1)] mem_rename_ok [OF assms(1)]
      mem_link_ok [OF assms(1)] in simp_all)
qed

lemma mem_exec_step:
  assumes "memfs_ok fs" and "op_fits op"
  shows "a_step op (abs_state fs) (abs_state (fst (mem_exec op fs))) (snd (mem_exec op fs))"
proof -
  have parts: "inodes_ok (mf_inodes fs)" "parents_ok (mf_inodes fs)" "tree_ok (abs_fs fs)"
    using assms(1) by (simp_all add: memfs_ok_def)
  have simulates: "(abs_fs (fst c), snd c) = a" if "refines c a" for c :: "memfs \<times> unit fs_result" and a
    using that by (simp add: refines_def prod_eq_iff)
  have simulates': "(abs_fs (fst c), outcome (snd c)) = a" if "refines c a" for c :: "memfs \<times> 'b fs_result" and a
    using that by (simp add: refines_def prod_eq_iff)
  note quiet = same_names_def [THEN iffD1, THEN conjunct1]
  show ?thesis
  proof (cases op)
    case (Mop_Create now ctx d n req)
    then show ?thesis
      using simulates' [OF mem_create_abs [OF parts(1), THEN conjunct1]] create_next(1) [OF parts(1)]
      by (simp add: abs_state_def)
  next
    case (Mop_Symlink now ctx d n target attrs)
    then show ?thesis
      using simulates' [OF mem_create_symlink_abs [OF parts(1), THEN conjunct1]] create_next(2) [OF parts(1)]
      by (simp add: abs_state_def)
  next
    case (Mop_Remove now d n)
    then show ?thesis
      using simulates [OF mem_remove_abs [OF parts(1), THEN conjunct1]] by (simp add: abs_state_def namespace_next)
  next
    case (Mop_Rename now d n d' n')
    then show ?thesis
      using simulates [OF mem_rename_abs [OF parts, THEN conjunct1]] by (simp add: abs_state_def namespace_next)
  next
    case (Mop_Link now k d n)
    then show ?thesis
      using simulates [OF mem_link_abs [OF parts(1), THEN conjunct1]] by (simp add: abs_state_def namespace_next)
  next
    case (Mop_Write now h offset data)
    then show ?thesis
      using simulates' [OF mem_write_abs [OF parts(1), THEN conjunct1]] assms(2) quiet [OF mem_write_names]
      by (simp add: abs_state_def op_fits_def)
  next
    case (Mop_Setattr now h attrs)
    then show ?thesis
      using simulates' [OF mem_setattr_abs [OF parts(1), THEN conjunct1]] quiet [OF mem_setattr_names]
      by (simp add: abs_state_def)
  next
    case (Mop_SetXattr now h n v mode)
    then show ?thesis
      using mem_set_xattr_abs [OF parts(1)] quiet [OF mem_set_xattr_names] by (simp add: abs_state_def)
  next
    case (Mop_RemoveXattr now h n)
    then show ?thesis
      using mem_remove_xattr_abs [OF parts(1)] quiet [OF mem_remove_xattr_names] by (simp add: abs_state_def)
  qed
qed

lemma unat_succ_le: "unat (x + 1 :: u64) \<le> unat x + 1"
  by (simp add: unat_word_ariths)

lemma mem_exec_next:
  assumes "memfs_ok fs" and "op_fits op"
  shows "unat (mf_next_id (fst (mem_exec op fs))) \<le> unat (mf_next_id fs) + 1"
  using mem_exec_step [OF assms] unat_succ_le [of "mf_next_id fs"]
  by (cases op) (simp_all add: abs_state_def)

lemma mem_run_ok:
  assumes "memfs_ok fs" and "unat (mf_next_id fs) + length ops < 2 ^ 64" and "list_all op_fits ops"
  shows "memfs_ok (fst (mem_run ops fs)) \<and> a_run ops (abs_state fs) (abs_state (fst (mem_run ops fs))) (snd (mem_run ops fs))"
  using assms
proof (induction ops arbitrary: fs)
  case Nil
  then show ?case by (simp add: a_run_Nil)
next
  case (Cons op ops)
  obtain fs' r where exec: "mem_exec op fs = (fs', r)" by fastforce
  obtain fs'' rs where run: "mem_run ops fs' = (fs'', rs)" by fastforce
  have fits: "op_fits op"
    using Cons.prems(3) by simp
  have ok': "memfs_ok fs'" and step: "a_step op (abs_state fs) (abs_state fs') r"
    and next_id: "unat (mf_next_id fs') \<le> unat (mf_next_id fs) + 1"
    using mem_exec_ok [OF Cons.prems(1) _ fits] mem_exec_step [OF Cons.prems(1) fits]
      mem_exec_next [OF Cons.prems(1) fits] Cons.prems(2)
    by (simp_all add: exec)
  have "memfs_ok fs'' \<and> a_run ops (abs_state fs') (abs_state fs'') rs"
    using Cons.IH [OF ok'] next_id Cons.prems(2,3) by (simp add: run)
  with step show ?case by (auto simp: exec run intro: a_run_Cons)
qed

lemma memfs_new_inodes:
  "hm_get (mf_inodes (memfs_new now)) k = (if k = mem_root then
     Some \<lparr>in_attrs = (attrs_new now Ot_Directory 1)\<lparr>at_mode := 511\<rparr>, in_parent = None,
       in_data = Idata_Directory [], in_xattrs = []\<rparr> else None)"
  by (simp add: memfs_new_def mem_root_def hm_simps)

lemma memfs_new_tree: "abs_fs (memfs_new now) = [mem_root \<mapsto> A_Dir Map.empty]"
  by (rule ext) (simp add: abs_fs_def abs_tree_def memfs_new_inodes abs_node_def fun_eq_iff)

lemma memfs_new_ok: "memfs_ok (memfs_new now)"
proof -
  have entry: "\<not> has_entry (abs_fs (memfs_new now)) d n k" for d n k
    by (simp add: memfs_new_tree has_entry_def)
  have dirs: "is_adir (abs_fs (memfs_new now)) k \<longleftrightarrow> k = mem_root" for k
    by (simp add: memfs_new_tree is_adir_def)
  have tree: "tree_ok (abs_fs (memfs_new now))"
    using entry dirs by (intro tree_okI) (auto simp: memfs_new_tree split: if_splits)
  have "inodes_ok (mf_inodes (memfs_new now))"
    by (auto simp: inodes_ok_def memfs_new_inodes inode_ok_def data_type_def size_ok_def attrs_new_def
        mem_root_def split: if_splits) (simp add: memfs_new_def hm_simps)
  moreover have "parents_ok (mf_inodes (memfs_new now))"
    using dirs by (auto simp: parents_ok_def abs_fs_def parent_of_def memfs_new_inodes)
  moreover have "links_ok (mf_inodes (memfs_new now))"
    using entry dirs
    by (auto simp: links_ok_def memfs_new_inodes link_count_def attrs_new_def simp flip: abs_fs_def split: if_splits)
  ultimately show ?thesis
    using tree by (auto simp: memfs_ok_def memfs_new_inodes mem_root_def split: if_splits) (simp add: memfs_new_def)
qed

end
