(* ===== verification/Memfs_Properties.thy ===== *)
theory Memfs_Properties
  imports Memfs_Invariant
begin

text \<open>
  What the in-memory backend guarantees: it implements the abstract tree, its states are trees with
  exact link counts, the bounded parent walk decides ancestry, reads return what was written, and
  reading a directory page by page lists it once.
\<close>

section \<open>Reading and writing\<close>

definition byte_at :: "memfs \<Rightarrow> u64 \<Rightarrow> u64 \<Rightarrow> u8 option" where
  "byte_at fs h i = (case mem_read fs h i 1 of
       Inr r \<Rightarrow> (case rr_data r of b # _ \<Rightarrow> Some b | [] \<Rightarrow> None)
     | Inl _ \<Rightarrow> None)"

lemma mem_read_file:
  assumes "abs_fs fs h = Some (A_File file)"
  shows "mem_read fs h i n = Inr (if unat i \<ge> length file then \<lparr>rr_data = [], rr_eof = True\<rparr>
    else \<lparr>rr_data = take (unat n) (drop (unat i) file), rr_eof = (unat i + unat n \<ge> length file)\<rparr>)"
proof -
  obtain j where j: "hm_get (mf_inodes fs) h = Some j" and node: "abs_node j = A_File file"
    using assms by (auto simp: abs_fs_def abs_tree_def)
  from node have data: "in_data j = Idata_File file"
    by (cases "in_data j") (simp_all add: abs_node_def)
  show ?thesis
    by (auto simp: mem_read_def j data Let_def drop_take min_def)
qed

lemma byte_at_file:
  assumes "abs_fs fs h = Some (A_File file)"
  shows "byte_at fs h i = (if unat i < length file then Some (file ! unat i) else None)"
proof (cases "unat i < length file")
  case True
  then have "drop (unat i) file = file ! unat i # drop (Suc (unat i)) file"
    by (simp add: Cons_nth_drop_Suc)
  with True show ?thesis by (simp add: byte_at_def mem_read_file [OF assms])
qed (simp add: byte_at_def mem_read_file [OF assms])

lemma nth_resize: "i < n \<Longrightarrow> resize n file ! i = (if i < length file then file ! i else 0)"
  by (simp add: resize_def nth_append)

lemma nth_splice:
  assumes "offset + length data \<le> length file" and "i < length file"
  shows "splice offset data file ! i =
    (if offset \<le> i \<and> i < offset + length data then data ! (i - offset) else file ! i)"
  using assms by (auto simp: splice_def nth_append)

lemma take_drop_splice:
  "offset + length data \<le> length file \<Longrightarrow> take (length data) (drop offset (splice offset data file)) = data"
  by (simp add: splice_def)

lemma mem_write_effect:
  assumes ok: "inodes_ok (mf_inodes fs)" and data: "length data < 2 ^ 64"
    and w: "mem_write now fs h offset data = (fs', Inr w)"
  obtains old where "abs_fs fs h = Some (A_File old)"
    "abs_fs fs' = (abs_fs fs)(h \<mapsto> A_File (splice (unat offset) data
       (resize (max (unat offset + length data) (length old)) old)))"
    "\<And>k. k \<noteq> h \<Longrightarrow> hm_get (mf_inodes fs') k = hm_get (mf_inodes fs) k"
proof -
  have "refines (fs', Inr w) (a_write (abs_fs fs) h offset data)"
    using mem_write_abs [OF ok data, of now h offset] w by simp
  then have a: "a_write (abs_fs fs) h offset data = (abs_fs fs', Inr ())"
    by (simp add: refines_def prod_eq_iff)
  have frame: "hm_get (mf_inodes fs') k = hm_get (mf_inodes fs) k" if "k \<noteq> h" for k
    using w that
    by (auto simp: mem_write_def mem_next_change_def put_inode_def hm_simps Let_def
        split: option.splits inode_data.splits sum.splits)
  from a show thesis
    by (auto simp: a_write_def split: option.splits anode.splits if_splits intro!: that frame)
qed

text \<open>
  C30. Read after write: after a successful write, reading as many bytes at the same offset
  gives the data back; every byte outside the written range is as before, and a gap between the old end of
  the file and the written range reads as zero; every other object reads as before.
\<close>

theorem read_after_write:
  assumes "memfs_ok fs" and "length data < 2 ^ 32" and "mem_write now fs h offset data = (fs', Inr w)"
  shows "map_sum id rr_data (mem_read fs' h offset (word_of_nat (length data))) = Inr data
    \<and> (\<forall>i. unat i < unat offset \<or> unat offset + length data \<le> unat i \<longrightarrow>
        byte_at fs' h i = (case byte_at fs h i of Some b \<Rightarrow> Some b
          | None \<Rightarrow> if unat i < unat offset then Some 0 else None))
    \<and> (\<forall>k i n. k \<noteq> h \<longrightarrow> mem_read fs' k i n = mem_read fs k i n)"
proof -
  have ok: "inodes_ok (mf_inodes fs)" and data: "length data < 2 ^ 64"
    using assms(1,2) by (simp_all add: memfs_ok_def)
  obtain contents where old: "abs_fs fs h = Some (A_File contents)"
    and new: "abs_fs fs' = (abs_fs fs)(h \<mapsto> A_File (splice (unat offset) data
       (resize (max (unat offset + length data) (length contents)) contents)))"
    and frame: "\<And>k. k \<noteq> h \<Longrightarrow> hm_get (mf_inodes fs') k = hm_get (mf_inodes fs) k"
    by (rule mem_write_effect [OF ok data assms(3)]) (rule that)
  let ?n = "max (unat offset + length data) (length contents)"
  let ?file = "splice (unat offset) data (resize ?n contents)"
  have h': "abs_fs fs' h = Some (A_File ?file)" and len: "length ?file = ?n"
    using new by simp_all
  have count: "unat (word_of_nat (length data) :: u32) = length data"
    using assms(2) by (simp add: unat_of_nat take_bit_nat_eq_self)
  have "map_sum id rr_data (mem_read fs' h offset (word_of_nat (length data))) = Inr data"
    using take_drop_splice [of "unat offset" data "resize ?n contents"]
    by (auto simp: mem_read_file [OF h'] count len)
  moreover have "byte_at fs' h i = (case byte_at fs h i of Some b \<Rightarrow> Some b
      | None \<Rightarrow> if unat i < unat offset then Some 0 else None)"
    if "unat i < unat offset \<or> unat offset + length data \<le> unat i" for i
    using that nth_splice [of "unat offset" data "resize ?n contents" "unat i"] nth_resize [of "unat i" ?n contents]
    by (auto simp: byte_at_file [OF old] byte_at_file [OF h'] len)
  moreover have "mem_read fs' k i n = mem_read fs k i n" if "k \<noteq> h" for k i n
    using frame [OF that] by (simp add: mem_read_def)
  ultimately show ?thesis by blast
qed

section \<open>The tree\<close>

text \<open>
  C27. Refinement: from a new file system, any sequence of method calls gives the tree, the object
  numbers and the results that the abstract operations give, call by call.
\<close>

theorem memfs_refines_tree:
  assumes "length ops + 2 < 2 ^ 64" and "list_all op_fits ops" and "mem_run ops (memfs_new now) = (fs, rs)"
  shows "a_run ops ([mem_root \<mapsto> A_Dir Map.empty], 2) (abs_fs fs, mf_next_id fs) rs"
proof -
  have start: "mf_next_id (memfs_new now) = 2"
    by (simp add: memfs_new_def)
  from mem_run_ok [OF memfs_new_ok, of now ops] show ?thesis
    using assms by (simp add: start abs_state_def memfs_new_tree)
qed

text \<open>
  C28. Invariant: in every state a sequence of method calls reaches, the names form a tree below the
  root, the parent pointers are its edges, and the link count of every inode is the number of its
  names (for a directory, two and its subdirectories).
\<close>

theorem memfs_states_are_trees:
  assumes "length ops + 2 < 2 ^ 64" and "list_all op_fits ops" and "mem_run ops (memfs_new now) = (fs, rs)"
  shows "tree_ok (abs_fs fs) \<and> parents_ok (mf_inodes fs)
    \<and> (\<forall>k i. hm_get (mf_inodes fs) k = Some i \<longrightarrow>
        inode_ok k i \<and> at_link_count (in_attrs i) = word_of_nat (link_count (abs_fs fs) k))"
proof -
  have start: "mf_next_id (memfs_new now) = 2"
    by (simp add: memfs_new_def)
  have "memfs_ok fs"
    using mem_run_ok [OF memfs_new_ok, of now ops] assms by (simp add: start)
  then show ?thesis
    by (simp add: memfs_ok_def links_ok_def inodes_ok_def abs_fs_def)
qed

text \<open>
  C29. Equivalence: walking up the parents for at most as many steps as there are inodes decides
  whether one directory lies below another, that is, the reflexive transitive closure of the
  subdirectory relation.
\<close>

theorem bounded_walk_decides_ancestry:
  assumes "memfs_ok fs"
  shows "directory_descends_from (mf_inodes fs) d a \<longleftrightarrow> (a, d) \<in> (subdirs (abs_fs fs))\<^sup>*"
  using assms descends_iff by (simp add: memfs_ok_def abs_fs_def)

section \<open>Listing a directory\<close>

text \<open>The pages a client gets that asks again with the cookie of the last entry until the end.\<close>

primrec readdir_walk :: "nat \<Rightarrow> memfs \<Rightarrow> u64 \<Rightarrow> u32 \<Rightarrow> u64 \<Rightarrow> u64 dir_entry list" where
  "readdir_walk 0 fs d max_entries cookie = []"
| "readdir_walk (Suc n) fs d max_entries cookie =
     (case mem_readdir fs d cookie max_entries False of
        Inl _ \<Rightarrow> []
      | Inr page \<Rightarrow> dp_entries page @
          (if dp_eof page \<or> dp_entries page = [] then []
           else readdir_walk n fs d max_entries (de_cookie (last (dp_entries page)))))"

lemma readdir_page_entries:
  assumes "\<And>e. e \<in> set es \<Longrightarrow> hm_get m (snd e) \<noteq> None"
  shows "\<exists>page. readdir_page pos m with_attrs es = Inr page
    \<and> map (\<lambda>e. (de_name e, de_handle e)) page = es
    \<and> map de_cookie page = map (\<lambda>i. word_of_nat (pos + i + 3)) [0..<length es]"
  using assms
proof (induction es arbitrary: pos)
  case (Cons e es)
  obtain child where child: "hm_get m (snd e) = Some child"
    using Cons.prems [of e] by auto
  obtain page where page: "readdir_page (Suc pos) m with_attrs es = Inr page"
    "map (\<lambda>e. (de_name e, de_handle e)) page = es"
    "map de_cookie page = map (\<lambda>i. word_of_nat (Suc pos + i + 3)) [0..<length es]"
    using Cons.IH [of "Suc pos"] Cons.prems by auto
  have "map (\<lambda>i. word_of_nat (pos + i + 3) :: u64) [0..<length (e # es)]
      = word_of_nat (pos + 3) # map (\<lambda>i. word_of_nat (Suc pos + i + 3)) [0..<length es]"
    by (simp add: upt_conv_Cons map_Suc_upt [symmetric] del: upt_Suc)
  then show ?case
    by (simp add: child page(1,2) page(3) [simplified])
qed simp

lemma mem_readdir_page:
  assumes ok: "memfs_ok fs" and d: "hm_get (mf_inodes fs) d = Some i" "dir_entries i = Some es"
    and start: "p \<le> length es" "length es + 3 < 2 ^ 64" and n: "max_entries \<noteq> 0"
    and cookie: "cookie = (if p = 0 then 0 else word_of_nat (p + 2))"
  shows "\<exists>page. mem_readdir fs d cookie max_entries False = Inr page
    \<and> map (\<lambda>e. (de_name e, de_handle e)) (dp_entries page) = take (unat max_entries) (drop p (sort_key fst es))
    \<and> dp_eof page = (p + unat max_entries \<ge> length es)
    \<and> (dp_entries page \<noteq> [] \<longrightarrow>
        de_cookie (last (dp_entries page)) = word_of_nat (p + length (dp_entries page) + 2))"
proof -
  let ?rest = "take (unat max_entries) (drop p (sort_key fst es))"
  have "(if cookie = 0 then 0 else unat (saturating_sub cookie 2)) = p"
  proof (cases "p = 0")
    case False
    then have c: "cookie = word_of_nat (p + 2)"
      by (simp add: cookie)
    then have "unat cookie = p + 2"
      using start by (simp only:) (rule unat_of_nat_u64, simp)
    then have "cookie \<noteq> 0" "2 \<le> cookie"
      by (auto simp: word_le_nat_alt)
    moreover have "cookie - 2 = word_of_nat p" and "unat (word_of_nat p :: u64) = p"
      using start by (simp_all add: c unat_of_nat_u64)
    ultimately show ?thesis
      by (simp add: saturating_sub_def not_less [symmetric])
  qed (simp add: cookie)
  then have eq: "mem_readdir fs d cookie max_entries False =
      (case readdir_page p (mf_inodes fs) False ?rest of Inl e \<Rightarrow> Inl e
       | Inr page \<Rightarrow> Inr \<lparr>dp_entries = page, dp_eof = (p + length page \<ge> length es)\<rparr>)"
    by (simp add: mem_readdir_def d n Let_def)
  have wf: "hm_wf es"
    using ok inodes_ok_entries [OF _ d] by (simp add: memfs_ok_def)
  have "hm_get (mf_inodes fs) (snd e) \<noteq> None" if "e \<in> set ?rest" for e
  proof -
    have "e \<in> set (drop p (sort_key fst es))"
      using that by (rule in_set_takeD)
    then have "e \<in> set es"
      using in_set_dropD by fastforce
    then have "hm_get es (fst e) = Some (snd e)"
      using hm_get_iff_mem [OF wf, of "fst e" "snd e"] by simp
    then have "has_entry (abs_fs fs) d (fst e) (snd e)"
      using d by (auto simp: abs_fs_def has_entry_iff)
    then show ?thesis
      using ok tree_ok_closed abs_fs_None unfolding memfs_ok_def by blast
  qed
  from readdir_page_entries [of ?rest, OF this] obtain page where
    page: "readdir_page p (mf_inodes fs) False ?rest = Inr page"
      "map (\<lambda>e. (de_name e, de_handle e)) page = ?rest"
      "map de_cookie page = map (\<lambda>i. word_of_nat (p + i + 3)) [0..<length ?rest]"
    by blast
  have len: "length page = length ?rest"
    using arg_cong [OF page(2), of length] by simp
  have cookies: "map de_cookie page = map (\<lambda>i. word_of_nat (p + i + 3)) [0..<length page]"
    by (simp only: len page(3))
  from len have eof: "(p + length page \<ge> length es) = (p + unat max_entries \<ge> length es)"
    using start(1) by auto
  have "de_cookie (last page) = word_of_nat (p + length page + 2)" if "page \<noteq> []"
  proof -
    have "de_cookie (last page) = last (map de_cookie page)"
      using that by (simp add: last_map)
    also have "\<dots> = word_of_nat (p + (length page - 1) + 3)"
      using that by (simp add: cookies last_map)
    finally show ?thesis using that by (cases page) (simp_all add: add.commute add.left_commute)
  qed
  then show ?thesis
    using page(2) eof by (simp add: eq page(1))
qed

lemma readdir_walk_from:
  assumes ok: "memfs_ok fs" and d: "hm_get (mf_inodes fs) d = Some i" "dir_entries i = Some es"
    and len: "length es + 3 < 2 ^ 64" and n: "max_entries \<noteq> 0"
  shows "p \<le> length es \<Longrightarrow> length es \<le> p + k * unat max_entries \<Longrightarrow>
    cookie = (if p = 0 then 0 else word_of_nat (p + 2)) \<Longrightarrow> 0 < k \<Longrightarrow>
    map (\<lambda>e. (de_name e, de_handle e)) (readdir_walk k fs d max_entries cookie) = drop p (sort_key fst es)"
proof (induction k arbitrary: p cookie)
  case (Suc k)
  have pos: "0 < unat max_entries"
    using n by (simp add: unat_gt_0)
  from mem_readdir_page [OF ok d Suc.prems(1) len n Suc.prems(3)]
  obtain page where page: "mem_readdir fs d cookie max_entries False = Inr page"
      "map (\<lambda>e. (de_name e, de_handle e)) (dp_entries page) = take (unat max_entries) (drop p (sort_key fst es))"
      "dp_eof page = (p + unat max_entries \<ge> length es)"
      "dp_entries page \<noteq> [] \<longrightarrow> de_cookie (last (dp_entries page)) = word_of_nat (p + length (dp_entries page) + 2)"
    by (elim exE conjE)
  have plen: "length (dp_entries page) = min (unat max_entries) (length es - p)"
    using arg_cong [OF page(2), of length] by (simp add: min.commute)
  show ?case
  proof (cases "dp_eof page")
    case True
    then show ?thesis using page(2,3) by (simp add: page(1))
  next
    case False
    then have more: "p + unat max_entries < length es"
      by (simp add: page(3))
    then have full: "length (dp_entries page) = unat max_entries"
      using plen by simp
    then have "dp_entries page \<noteq> []"
      using pos by auto
    moreover have "0 < k"
      using Suc.prems(2) more by (cases k) auto
    moreover have "map (\<lambda>e. (de_name e, de_handle e))
        (readdir_walk k fs d max_entries (de_cookie (last (dp_entries page))))
        = drop (p + unat max_entries) (sort_key fst es)"
    proof (rule Suc.IH)
      show "de_cookie (last (dp_entries page)) =
          (if p + unat max_entries = 0 then 0 else word_of_nat (p + unat max_entries + 2))"
        using page(4) \<open>dp_entries page \<noteq> []\<close> pos full by simp
    qed (use more Suc.prems(2) \<open>0 < k\<close> in simp_all)
    moreover have "take (unat max_entries) (drop p (sort_key fst es)) @ drop (p + unat max_entries) (sort_key fst es)
        = drop p (sort_key fst es)"
      using append_take_drop_id [of "unat max_entries" "drop p (sort_key fst es)"] by (simp add: add.commute)
    ultimately show ?thesis
      using False page(2) by (simp add: page(1))
  qed
qed simp

text \<open>
  C31. Termination and equivalence: a client that reads a directory page by page, whatever the page
  length, sees the end after enough pages and has then listed every entry exactly once, in the order
  of the names.
\<close>

theorem paging_lists_the_directory:
  assumes "memfs_ok fs" and "hm_get (mf_inodes fs) d = Some i" and "dir_entries i = Some es"
    and "length es + 3 < 2 ^ 64" and "max_entries \<noteq> 0" and "length es < k * unat max_entries"
  shows "map (\<lambda>e. (de_name e, de_handle e)) (readdir_walk k fs d max_entries 0) = sort_key fst es"
proof -
  have "0 < k"
    using assms(6) by (cases k) simp_all
  then show ?thesis
    using readdir_walk_from [OF assms(1-5), of 0 k 0] assms(6) by simp
qed

section \<open>An example run\<close>

text \<open>A directory \<open>d\<close> and a file \<open>f\<close> in the root, then a file \<open>g\<close> in the directory.\<close>

definition epoch :: timestamp where
  "epoch = \<lparr>ts_seconds = 0, ts_nanos = 0\<rparr>"

definition make :: "create_kind \<Rightarrow> u64 \<Rightarrow> rust_string \<Rightarrow> mem_op" where
  "make kind d n = Mop_Create epoch request_context_anonymous d n \<lparr>crq_kind = kind, crq_attrs = set_attrs_default\<rparr>"

definition demo_ops :: "mem_op list" where
  "demo_ops = [make Ck_Directory 1 [100], make Ck_File 1 [102], make Ck_File 2 [103]]"

definition demo_fs :: memfs where
  "demo_fs = fst (mem_run demo_ops (memfs_new epoch))"

lemma demo_ops_fit: "length demo_ops + 2 < 2 ^ 64" "list_all op_fits demo_ops"
  by (simp_all add: demo_ops_def make_def op_fits_def)

lemma demo_run: "mem_run demo_ops (memfs_new epoch) = (demo_fs, [Inr (), Inr (), Inr ()])"
proof -
  have "snd (mem_run demo_ops (memfs_new epoch)) = [Inr (), Inr (), Inr ()]"
    by code_simp
  then show ?thesis by (simp add: demo_fs_def prod_eq_iff)
qed

lemma demo_ok: "memfs_ok demo_fs"
proof -
  have "mf_next_id (memfs_new epoch) = 2"
    by (simp add: memfs_new_def)
  then show ?thesis
    using mem_run_ok [OF memfs_new_ok, of epoch demo_ops] demo_ops_fit demo_run by simp
qed

lemma read_after_write_witness:
  "map_sum id rr_data (mem_read (fst (mem_write epoch demo_fs 3 5 [7, 8])) 3 5 2) = Inr [7, 8]
   \<and> byte_at (fst (mem_write epoch demo_fs 3 5 [7, 8])) 3 4 = Some 0
   \<and> mem_read (fst (mem_write epoch demo_fs 3 5 [7, 8])) 4 0 1 = mem_read demo_fs 4 0 1"
proof -
  have "snd (mem_write epoch demo_fs 3 5 [7, 8]) = Inr \<lparr>wr_written = 2, wr_stability = Ws_FileSync\<rparr>"
    by code_simp
  then have w: "mem_write epoch demo_fs 3 5 [7, 8] =
      (fst (mem_write epoch demo_fs 3 5 [7, 8]), Inr \<lparr>wr_written = 2, wr_stability = Ws_FileSync\<rparr>)"
    by (simp add: prod_eq_iff)
  have "byte_at demo_fs 3 4 = None"
    by code_simp
  then show ?thesis
    using read_after_write [OF demo_ok _ w] by simp
qed

lemma memfs_refines_tree_witness:
  "a_run demo_ops ([mem_root \<mapsto> A_Dir Map.empty], 2) (abs_fs demo_fs, mf_next_id demo_fs) [Inr (), Inr (), Inr ()]"
  by (rule memfs_refines_tree [OF demo_ops_fit demo_run])

lemma memfs_states_are_trees_witness:
  "tree_ok (abs_fs demo_fs) \<and> parents_ok (mf_inodes demo_fs)"
  using memfs_states_are_trees [OF demo_ops_fit demo_run] by simp

lemma bounded_walk_decides_ancestry_witness: "(1, 2) \<in> (subdirs (abs_fs demo_fs))\<^sup>*"
proof -
  have "directory_descends_from (mf_inodes demo_fs) 2 1"
    by code_simp
  then show ?thesis
    using bounded_walk_decides_ancestry [OF demo_ok] by simp
qed

lemma paging_lists_the_directory_witness:
  "map (\<lambda>e. (de_name e, de_handle e)) (readdir_walk 3 demo_fs 1 1 0) = [([100], 2), ([102], 3)]"
proof -
  have "Option.bind (hm_get (mf_inodes demo_fs) 1) dir_entries = Some [([100], 2), ([102], 3)]"
    by code_simp
  then obtain i where i: "hm_get (mf_inodes demo_fs) 1 = Some i"
    and es: "dir_entries i = Some [([100], 2), ([102], 3)]"
    by (auto simp: bind_eq_Some_conv)
  show ?thesis
    using paging_lists_the_directory [OF demo_ok i es, of 1 3] by simp
qed


end
