(* ===== verification/Nfs_Ops.thy ===== *)
theory Nfs_Ops
  imports Session_Types Nfs_Status
begin

text \<open>
  The operations of a COMPOUND, \<^verbatim>\<open>crates/embednfs-proto/src/types/operations.rs\<close>, and the operation
  numbers of \<^verbatim>\<open>types/constants.rs\<close>. An argument structure with one field is that field; the others
  are records. \<open>nfs_argop4\<close> and \<open>nfs_resop4\<close> keep the constructors and their order.
\<close>

section \<open>Operation numbers\<close>

definition OP_ACCESS :: u32 where "OP_ACCESS = 3"
definition OP_CLOSE :: u32 where "OP_CLOSE = 4"
definition OP_COMMIT :: u32 where "OP_COMMIT = 5"
definition OP_CREATE :: u32 where "OP_CREATE = 6"
definition OP_DELEGPURGE :: u32 where "OP_DELEGPURGE = 7"
definition OP_DELEGRETURN :: u32 where "OP_DELEGRETURN = 8"
definition OP_GETATTR :: u32 where "OP_GETATTR = 9"
definition OP_GETFH :: u32 where "OP_GETFH = 10"
definition OP_LINK :: u32 where "OP_LINK = 11"
definition OP_LOCK :: u32 where "OP_LOCK = 12"
definition OP_LOCKT :: u32 where "OP_LOCKT = 13"
definition OP_LOCKU :: u32 where "OP_LOCKU = 14"
definition OP_LOOKUP :: u32 where "OP_LOOKUP = 15"
definition OP_LOOKUPP :: u32 where "OP_LOOKUPP = 16"
definition OP_NVERIFY :: u32 where "OP_NVERIFY = 17"
definition OP_OPEN :: u32 where "OP_OPEN = 18"
definition OP_OPENATTR :: u32 where "OP_OPENATTR = 19"
definition OP_OPEN_CONFIRM :: u32 where "OP_OPEN_CONFIRM = 20"
definition OP_OPEN_DOWNGRADE :: u32 where "OP_OPEN_DOWNGRADE = 21"
definition OP_PUTFH :: u32 where "OP_PUTFH = 22"
definition OP_PUTPUBFH :: u32 where "OP_PUTPUBFH = 23"
definition OP_PUTROOTFH :: u32 where "OP_PUTROOTFH = 24"
definition OP_READ :: u32 where "OP_READ = 25"
definition OP_READDIR :: u32 where "OP_READDIR = 26"
definition OP_READLINK :: u32 where "OP_READLINK = 27"
definition OP_REMOVE :: u32 where "OP_REMOVE = 28"
definition OP_RENAME :: u32 where "OP_RENAME = 29"
definition OP_RENEW :: u32 where "OP_RENEW = 30"
definition OP_RESTOREFH :: u32 where "OP_RESTOREFH = 31"
definition OP_SAVEFH :: u32 where "OP_SAVEFH = 32"
definition OP_SECINFO :: u32 where "OP_SECINFO = 33"
definition OP_SETATTR :: u32 where "OP_SETATTR = 34"
definition OP_SETCLIENTID :: u32 where "OP_SETCLIENTID = 35"
definition OP_SETCLIENTID_CONFIRM :: u32 where "OP_SETCLIENTID_CONFIRM = 36"
definition OP_VERIFY :: u32 where "OP_VERIFY = 37"
definition OP_WRITE :: u32 where "OP_WRITE = 38"
definition OP_RELEASE_LOCKOWNER :: u32 where "OP_RELEASE_LOCKOWNER = 39"
definition OP_BACKCHANNEL_CTL :: u32 where "OP_BACKCHANNEL_CTL = 40"
definition OP_BIND_CONN_TO_SESSION :: u32 where "OP_BIND_CONN_TO_SESSION = 41"
definition OP_EXCHANGE_ID :: u32 where "OP_EXCHANGE_ID = 42"
definition OP_CREATE_SESSION :: u32 where "OP_CREATE_SESSION = 43"
definition OP_DESTROY_SESSION :: u32 where "OP_DESTROY_SESSION = 44"
definition OP_FREE_STATEID :: u32 where "OP_FREE_STATEID = 45"
definition OP_GET_DIR_DELEGATION :: u32 where "OP_GET_DIR_DELEGATION = 46"
definition OP_GETDEVICEINFO :: u32 where "OP_GETDEVICEINFO = 47"
definition OP_GETDEVICELIST :: u32 where "OP_GETDEVICELIST = 48"
definition OP_LAYOUTCOMMIT :: u32 where "OP_LAYOUTCOMMIT = 49"
definition OP_LAYOUTGET :: u32 where "OP_LAYOUTGET = 50"
definition OP_LAYOUTRETURN :: u32 where "OP_LAYOUTRETURN = 51"
definition OP_SECINFO_NO_NAME :: u32 where "OP_SECINFO_NO_NAME = 52"
definition OP_SEQUENCE :: u32 where "OP_SEQUENCE = 53"
definition OP_SET_SSV :: u32 where "OP_SET_SSV = 54"
definition OP_TEST_STATEID :: u32 where "OP_TEST_STATEID = 55"
definition OP_WANT_DELEGATION :: u32 where "OP_WANT_DELEGATION = 56"
definition OP_DESTROY_CLIENTID :: u32 where "OP_DESTROY_CLIENTID = 57"
definition OP_RECLAIM_COMPLETE :: u32 where "OP_RECLAIM_COMPLETE = 58"
definition OP_ALLOCATE :: u32 where "OP_ALLOCATE = 59"
definition OP_COPY :: u32 where "OP_COPY = 60"
definition OP_COPY_NOTIFY :: u32 where "OP_COPY_NOTIFY = 61"
definition OP_DEALLOCATE :: u32 where "OP_DEALLOCATE = 62"
definition OP_IO_ADVISE :: u32 where "OP_IO_ADVISE = 63"
definition OP_LAYOUTERROR :: u32 where "OP_LAYOUTERROR = 64"
definition OP_LAYOUTSTATS :: u32 where "OP_LAYOUTSTATS = 65"
definition OP_OFFLOAD_CANCEL :: u32 where "OP_OFFLOAD_CANCEL = 66"
definition OP_OFFLOAD_STATUS :: u32 where "OP_OFFLOAD_STATUS = 67"
definition OP_READ_PLUS :: u32 where "OP_READ_PLUS = 68"
definition OP_SEEK :: u32 where "OP_SEEK = 69"
definition OP_WRITE_SAME :: u32 where "OP_WRITE_SAME = 70"
definition OP_CLONE :: u32 where "OP_CLONE = 71"
definition OP_GETXATTR :: u32 where "OP_GETXATTR = 72"
definition OP_SETXATTR :: u32 where "OP_SETXATTR = 73"
definition OP_LISTXATTRS :: u32 where "OP_LISTXATTRS = 74"
definition OP_REMOVEXATTR :: u32 where "OP_REMOVEXATTR = 75"
definition OP_ILLEGAL :: u32 where "OP_ILLEGAL = 10044"

lemmas op_defs =
  OP_ACCESS_def OP_CLOSE_def OP_COMMIT_def OP_CREATE_def OP_DELEGPURGE_def OP_DELEGRETURN_def
  OP_GETATTR_def OP_GETFH_def OP_LINK_def OP_LOCK_def OP_LOCKT_def OP_LOCKU_def OP_LOOKUP_def
  OP_LOOKUPP_def OP_NVERIFY_def OP_OPEN_def OP_OPENATTR_def OP_OPEN_CONFIRM_def
  OP_OPEN_DOWNGRADE_def OP_PUTFH_def OP_PUTPUBFH_def OP_PUTROOTFH_def OP_READ_def OP_READDIR_def
  OP_READLINK_def OP_REMOVE_def OP_RENAME_def OP_RENEW_def OP_RESTOREFH_def OP_SAVEFH_def
  OP_SECINFO_def OP_SETATTR_def OP_SETCLIENTID_def OP_SETCLIENTID_CONFIRM_def OP_VERIFY_def
  OP_WRITE_def OP_RELEASE_LOCKOWNER_def OP_BACKCHANNEL_CTL_def OP_BIND_CONN_TO_SESSION_def
  OP_EXCHANGE_ID_def OP_CREATE_SESSION_def OP_DESTROY_SESSION_def OP_FREE_STATEID_def
  OP_GET_DIR_DELEGATION_def OP_GETDEVICEINFO_def OP_GETDEVICELIST_def OP_LAYOUTCOMMIT_def
  OP_LAYOUTGET_def OP_LAYOUTRETURN_def OP_SECINFO_NO_NAME_def OP_SEQUENCE_def OP_SET_SSV_def
  OP_TEST_STATEID_def OP_WANT_DELEGATION_def OP_DESTROY_CLIENTID_def OP_RECLAIM_COMPLETE_def
  OP_ALLOCATE_def OP_COPY_def OP_COPY_NOTIFY_def OP_DEALLOCATE_def OP_IO_ADVISE_def
  OP_LAYOUTERROR_def OP_LAYOUTSTATS_def OP_OFFLOAD_CANCEL_def OP_OFFLOAD_STATUS_def
  OP_READ_PLUS_def OP_SEEK_def OP_WRITE_SAME_def OP_CLONE_def OP_GETXATTR_def OP_SETXATTR_def
  OP_LISTXATTRS_def OP_REMOVEXATTR_def OP_ILLEGAL_def

section \<open>Argument structures\<close>

record open_confirm_args4 =
  oc_open_stateid :: stateid4
  oc_seqid :: u32

record close_args4 =
  cl_seqid :: u32
  cl_open_stateid :: stateid4

record commit_args4 =
  cm_offset :: u64
  cm_count :: u32

datatype createtype4 =
    Ct_Reg
  | Ct_Link rust_string
  | Ct_Blk specdata4
  | Ct_Chr specdata4
  | Ct_Sock
  | Ct_Fifo
  | Ct_Dir
  | Ct_Unsupported u32

record create_args4 =
  ca_objtype :: createtype4
  ca_objname :: rust_string
  ca_createattrs :: fattr4

datatype createhow4 =
    How_Unchecked fattr4
  | How_Guarded fattr4
  | How_Exclusive verifier4
  | How_Exclusive4_1 verifier4 fattr4

datatype openflag4 = Open_NoCreate | Open_Create createhow4

record open_args4 =
  oa_seqid :: u32
  oa_share_access :: u32
  oa_share_deny :: u32
  oa_owner :: state_owner4
  oa_openhow :: openflag4
  oa_claim :: open_claim4

record read_args4 =
  ra_stateid :: stateid4
  ra_offset :: u64
  ra_count :: u32

record readdir_args4 =
  rd_cookie :: u64
  rd_cookieverf :: verifier4
  rd_dircount :: u32
  rd_maxcount :: u32
  rd_attr_request :: bitmap4

record rename_args4 =
  rn_oldname :: rust_string
  rn_newname :: rust_string

record open_downgrade_args4 =
  od_open_stateid :: stateid4
  od_seqid :: u32
  od_share_access :: u32
  od_share_deny :: u32

record setattr_args4 =
  sat_stateid :: stateid4
  sat_obj_attributes :: fattr4

record write_args4 =
  wa_stateid :: stateid4
  wa_offset :: u64
  wa_stable :: u32
  wa_data :: bytes

record open_to_lock_owner4 =
  ol_open_seqid :: u32
  ol_open_stateid :: stateid4
  ol_lock_seqid :: u32
  ol_lock_owner :: state_owner4

record exist_lock_owner4 =
  el_lock_stateid :: stateid4
  el_lock_seqid :: u32

datatype locker4 =
    Locker_NewLockOwner open_to_lock_owner4
  | Locker_ExistingLockOwner exist_lock_owner4

record lock_args4 =
  la_locktype :: nfs_lock_type4
  la_reclaim :: bool
  la_offset :: u64
  la_length :: u64
  la_locker :: locker4

record lockt_args4 =
  lt_locktype :: nfs_lock_type4
  lt_offset :: u64
  lt_length :: u64
  lt_owner :: state_owner4

record locku_args4 =
  lu_locktype :: nfs_lock_type4
  lu_seqid :: u32
  lu_lock_stateid :: stateid4
  lu_offset :: u64
  lu_length :: u64

datatype setxattr_option4 = Sx_Either | Sx_Create | Sx_Replace

record setxattr_args4 =
  sx_option :: setxattr_option4
  sx_key :: rust_string
  sx_value :: bytes

record listxattrs_args4 =
  lx_cookie :: u64
  lx_maxcount :: u32

section \<open>Result structures\<close>

record nfs_ace4 =
  ac_type :: u32
  ac_flags :: u32
  ac_access_mask :: u32
  ac_who :: rust_string

definition encode_nfs_ace4 :: "nfs_ace4 \<Rightarrow> bytes" where
  "encode_nfs_ace4 a = encode_u32 (ac_type a) @ encode_u32 (ac_flags a)
     @ encode_u32 (ac_access_mask a) @ encode_string (ac_who a)"

record nfs_modified_limit4 =
  ml_num_blocks :: u32
  ml_bytes_per_block :: u32

datatype nfs_space_limit4 = Limit_Size u64 | Limit_Blocks nfs_modified_limit4

definition encode_nfs_space_limit4 :: "nfs_space_limit4 \<Rightarrow> bytes" where
  "encode_nfs_space_limit4 l = (case l of
       Limit_Size filesize \<Rightarrow> encode_u32 1 @ encode_u64 filesize
     | Limit_Blocks limit \<Rightarrow> encode_u32 2 @ encode_u32 (ml_num_blocks limit)
         @ encode_u32 (ml_bytes_per_block limit))"

datatype why_no_delegation4 =
    Wnd_NotWanted
  | Wnd_Contention
  | Wnd_ResourceNotAvail
  | Wnd_NotSuppFtype
  | Wnd_WriteDelegNotSuppFtype
  | Wnd_NotSuppUpgrade
  | Wnd_NotSuppDowngrade
  | Wnd_Cancelled
  | Wnd_IsDir

primrec why_no_delegation4_to_u32 :: "why_no_delegation4 \<Rightarrow> u32" where
  "why_no_delegation4_to_u32 Wnd_NotWanted = 0"
| "why_no_delegation4_to_u32 Wnd_Contention = 1"
| "why_no_delegation4_to_u32 Wnd_ResourceNotAvail = 2"
| "why_no_delegation4_to_u32 Wnd_NotSuppFtype = 3"
| "why_no_delegation4_to_u32 Wnd_WriteDelegNotSuppFtype = 4"
| "why_no_delegation4_to_u32 Wnd_NotSuppUpgrade = 5"
| "why_no_delegation4_to_u32 Wnd_NotSuppDowngrade = 6"
| "why_no_delegation4_to_u32 Wnd_Cancelled = 7"
| "why_no_delegation4_to_u32 Wnd_IsDir = 8"

datatype open_delegation_type4 = Odt_None | Odt_Read | Odt_Write | Odt_NoneExt

primrec open_delegation_type4_to_u32 :: "open_delegation_type4 \<Rightarrow> u32" where
  "open_delegation_type4_to_u32 Odt_None = 0"
| "open_delegation_type4_to_u32 Odt_Read = 1"
| "open_delegation_type4_to_u32 Odt_Write = 2"
| "open_delegation_type4_to_u32 Odt_NoneExt = 3"

record open_read_delegation4 =
  ord_stateid :: stateid4
  ord_recall :: bool
  ord_permissions :: nfs_ace4

record open_write_delegation4 =
  owd_stateid :: stateid4
  owd_recall :: bool
  owd_space_limit :: nfs_space_limit4
  owd_permissions :: nfs_ace4

datatype open_none_delegation4 =
    Ond_Contention bool
  | Ond_Resource bool
  | Ond_Other why_no_delegation4

datatype open_delegation4 =
    Deleg_None
  | Deleg_NoneExt open_none_delegation4
  | Deleg_Read open_read_delegation4
  | Deleg_Write open_write_delegation4

record device_addr4 =
  da_layout_type :: u32
  da_addr_body :: bytes

definition encode_device_addr4 :: "device_addr4 \<Rightarrow> bytes" where
  "encode_device_addr4 a = encode_u32 (da_layout_type a) @ encode_opaque (da_addr_body a)"

record layout_content4 =
  lc_layout_type :: u32
  lc_body :: bytes

definition encode_layout_content4 :: "layout_content4 \<Rightarrow> bytes" where
  "encode_layout_content4 c = encode_u32 (lc_layout_type c) @ encode_opaque (lc_body c)"

record layout4 =
  ly_offset :: u64
  ly_length :: u64
  ly_iomode :: u32
  ly_content :: layout_content4

definition encode_layout4 :: "layout4 \<Rightarrow> bytes" where
  "encode_layout4 l = encode_u64 (ly_offset l) @ encode_u64 (ly_length l)
     @ encode_u32 (ly_iomode l) @ encode_layout_content4 (ly_content l)"

datatype newsize4 = Newsize_Unchanged | Newsize_Size u64

definition encode_newsize4 :: "newsize4 \<Rightarrow> bytes" where
  "encode_newsize4 n = (case n of
       Newsize_Unchanged \<Rightarrow> encode_bool False
     | Newsize_Size s \<Rightarrow> encode_bool True @ encode_u64 s)"

record get_dir_delegation_res_ok4 =
  gd_cookieverf :: verifier4
  gd_stateid :: stateid4
  gd_notification :: bitmap4
  gd_child_attributes :: bitmap4
  gd_dir_attributes :: bitmap4

datatype get_dir_delegation_res4 =
    Gdd_Ok get_dir_delegation_res_ok4
  | Gdd_Unavail bool

datatype get_device_info_res4 =
    Gdi_Ok device_addr4 bitmap4
  | Gdi_TooSmall u32

record get_device_list_res_ok4 =
  gl_cookie :: u64
  gl_cookieverf :: verifier4
  gl_deviceid_list :: "bytes list"
  gl_eof :: bool

record layout_get_res_ok4 =
  lg_return_on_close :: bool
  lg_stateid :: stateid4
  lg_layout :: "layout4 list"

datatype layout_get_res4 =
    Lg_Ok layout_get_res_ok4
  | Lg_LayoutTryLater bool

datatype layout_return_stateid4 = Lrs_None | Lrs_Some stateid4

record listxattrs_res_ok4 =
  lxr_cookie :: u64
  lxr_names :: "rust_string list"
  lxr_eof :: bool

record open_res4 =
  or_stateid :: stateid4
  or_cinfo :: change_info4
  or_rflags :: u32
  or_attrset :: bitmap4
  or_delegation :: open_delegation4

record read_res4 =
  rrs_eof :: bool
  rrs_data :: bytes

record write_res4 =
  wrs_count :: u32
  wrs_committed :: u32
  wrs_writeverf :: verifier4

record entry4 =
  en_cookie :: u64
  en_name :: rust_string
  en_attrs :: fattr4

record readdir_res4 =
  rdr_cookieverf :: verifier4
  rdr_entries :: "entry4 list"
  rdr_eof :: bool

record secinfo_entry4 =
  se_flavor :: u32

definition encode_secinfo_entry4 :: "secinfo_entry4 \<Rightarrow> bytes" where
  "encode_secinfo_entry4 e = encode_u32 (se_flavor e)"

section \<open>Operations and their results\<close>

datatype (plugins only: size code) nfs_argop4 =
    Arg_Access u32
  | Arg_Close close_args4
  | Arg_Commit commit_args4
  | Arg_Create create_args4
  | Arg_Getattr bitmap4
  | Arg_Getfh
  | Arg_Link rust_string
  | Arg_Lookup rust_string
  | Arg_Lookupp
  | Arg_Open open_args4
  | Arg_Putfh nfs_fh4
  | Arg_Putpubfh
  | Arg_Putrootfh
  | Arg_Read read_args4
  | Arg_Readdir readdir_args4
  | Arg_Readlink
  | Arg_Remove rust_string
  | Arg_Rename rename_args4
  | Arg_Restorefh
  | Arg_Savefh
  | Arg_Secinfo rust_string
  | Arg_Setattr setattr_args4
  | Arg_Write write_args4
  | Arg_ExchangeId exchange_id_args4
  | Arg_CreateSession create_session_args4
  | Arg_DestroySession sessionid4
  | Arg_Sequence sequence_args4
  | Arg_ReclaimComplete bool
  | Arg_DestroyClientid clientid4
  | Arg_BindConnToSession bind_conn_to_session_args4
  | Arg_SecInfoNoName u32
  | Arg_FreeStateid stateid4
  | Arg_TestStateid "stateid4 list"
  | Arg_DelegReturn stateid4
  | Arg_OpenConfirm open_confirm_args4
  | Arg_Renew clientid4
  | Arg_SetClientId set_client_id_args4
  | Arg_SetClientIdConfirm set_client_id_confirm_args4
  | Arg_ReleaseLockowner state_owner4
  | Arg_Lock lock_args4
  | Arg_Lockt lockt_args4
  | Arg_Locku locku_args4
  | Arg_OpenAttr bool
  | Arg_DelegPurge
  | Arg_Verify fattr4
  | Arg_Nverify fattr4
  | Arg_OpenDowngrade open_downgrade_args4
  | Arg_LayoutGet
  | Arg_LayoutReturn
  | Arg_LayoutCommit
  | Arg_GetDirDelegation
  | Arg_WantDelegation
  | Arg_BackchannelCtl
  | Arg_GetDeviceInfo
  | Arg_GetDeviceList
  | Arg_SetSsv
  | Arg_Getxattr rust_string
  | Arg_Setxattr setxattr_args4
  | Arg_Listxattrs listxattrs_args4
  | Arg_Removexattr rust_string
  | Arg_Unsupported u32
  | Arg_Illegal

datatype (plugins only: size code) nfs_resop4 =
    Res_Access nfsstat4 u32 u32
  | Res_Close nfsstat4 stateid4
  | Res_Commit nfsstat4 verifier4
  | Res_Create nfsstat4 "change_info4 option" bitmap4
  | Res_Getattr nfsstat4 "fattr4 option"
  | Res_Getfh nfsstat4 "nfs_fh4 option"
  | Res_Link nfsstat4 "change_info4 option"
  | Res_Lookup nfsstat4
  | Res_Lookupp nfsstat4
  | Res_Open nfsstat4 "open_res4 option"
  | Res_Putfh nfsstat4
  | Res_Putpubfh nfsstat4
  | Res_Putrootfh nfsstat4
  | Res_Read nfsstat4 "read_res4 option"
  | Res_Readdir nfsstat4 "readdir_res4 option"
  | Res_Readlink nfsstat4 "rust_string option"
  | Res_Remove nfsstat4 "change_info4 option"
  | Res_Rename nfsstat4 "change_info4 option" "change_info4 option"
  | Res_Restorefh nfsstat4
  | Res_Savefh nfsstat4
  | Res_Secinfo nfsstat4 "secinfo_entry4 list"
  | Res_Setattr nfsstat4 bitmap4
  | Res_Write nfsstat4 "write_res4 option"
  | Res_ExchangeId nfsstat4 "exchange_id_res4 option"
  | Res_CreateSession nfsstat4 "create_session_res4 option"
  | Res_DestroySession nfsstat4
  | Res_Sequence nfsstat4 "sequence_res4 option"
  | Res_ReclaimComplete nfsstat4
  | Res_DestroyClientid nfsstat4
  | Res_BindConnToSession nfsstat4 "bind_conn_to_session_res4 option"
  | Res_SecInfoNoName nfsstat4 "secinfo_entry4 list"
  | Res_FreeStateid nfsstat4
  | Res_TestStateid nfsstat4 "nfsstat4 list"
  | Res_DelegReturn nfsstat4
  | Res_OpenConfirm nfsstat4 "stateid4 option"
  | Res_Renew nfsstat4
  | Res_SetClientId nfsstat4 "set_client_id_res4 option"
  | Res_SetClientIdConfirm nfsstat4
  | Res_ReleaseLockowner nfsstat4
  | Res_Lock nfsstat4 "stateid4 option" "lock_denied4 option"
  | Res_Lockt nfsstat4 "lock_denied4 option"
  | Res_Locku nfsstat4 "stateid4 option"
  | Res_OpenAttr nfsstat4
  | Res_DelegPurge nfsstat4
  | Res_Verify nfsstat4
  | Res_Nverify nfsstat4
  | Res_OpenDowngrade nfsstat4 "stateid4 option"
  | Res_LayoutGet nfsstat4 "layout_get_res4 option"
  | Res_LayoutReturn nfsstat4 "layout_return_stateid4 option"
  | Res_LayoutCommit nfsstat4 "newsize4 option"
  | Res_GetDirDelegation nfsstat4 "get_dir_delegation_res4 option"
  | Res_WantDelegation nfsstat4 "open_delegation4 option"
  | Res_BackchannelCtl nfsstat4
  | Res_GetDeviceInfo nfsstat4 "get_device_info_res4 option"
  | Res_GetDeviceList nfsstat4 "get_device_list_res_ok4 option"
  | Res_SetSsv nfsstat4 "bytes option"
  | Res_Getxattr nfsstat4 "bytes option"
  | Res_Setxattr nfsstat4 "change_info4 option"
  | Res_Listxattrs nfsstat4 "listxattrs_res_ok4 option"
  | Res_Removexattr nfsstat4 "change_info4 option"
  | Res_Unsupported u32 nfsstat4
  | Res_Illegal nfsstat4

record compound4_args =
  cp_tag :: rust_string
  cp_minorversion :: u32
  cp_argarray :: "nfs_argop4 list"

record compound4_res =
  cq_status :: nfsstat4
  cq_tag :: rust_string
  cq_resarray :: "nfs_resop4 list"

end
