(* ===== verification/Codec.thy ===== *)
theory Codec
  imports Nfs_Ops
begin

text \<open>
  The codec of a COMPOUND, \<^verbatim>\<open>crates/embednfs-proto/src/types/codec.rs\<close>: one decoder per arm of
  \<^verbatim>\<open>decode_nfs_argop4\<close> that reads more than one field, the dispatch on the operation number, the loop
  of \<^verbatim>\<open>Compound4Args::decode\<close>, and the encoder of the results with one function per payload. An
  operation the server only skips is read by a decoder of its fields that returns the unit value.

  The lemmas show what a decoded request is made of (\<open>argop_ok\<close>: lengths of the fixed fields, valid
  strings), that the number of operations is bounded by the bytes received, and the frame of a reply.
\<close>

section \<open>Decoding the arguments\<close>

text \<open>Reading a field and dropping it.\<close>

definition dec_skip :: "'a decoder \<Rightarrow> 'b decoder \<Rightarrow> 'b decoder" where
  "dec_skip d e = dec_bind d (\<lambda>_. e)"

definition decode_close_args4 :: "close_args4 decoder" where
  "decode_close_args4 =
     dec_bind decode_u32 (\<lambda>seqid.
     dec_bind decode_stateid4 (\<lambda>open_stateid.
     dec_return \<lparr>cl_seqid = seqid, cl_open_stateid = open_stateid\<rparr>))"

definition decode_commit_args4 :: "commit_args4 decoder" where
  "decode_commit_args4 =
     dec_bind decode_u64 (\<lambda>offset.
     dec_bind decode_u32 (\<lambda>count.
     dec_return \<lparr>cm_offset = offset, cm_count = count\<rparr>))"

definition decode_specdata4 :: "specdata4 decoder" where
  "decode_specdata4 =
     dec_bind decode_u32 (\<lambda>specdata1.
     dec_bind decode_u32 (\<lambda>specdata2.
     dec_return \<lparr>sp_specdata1 = specdata1, sp_specdata2 = specdata2\<rparr>))"

definition decode_createtype4 :: "createtype4 decoder" where
  "decode_createtype4 = dec_bind decode_u32 (\<lambda>type_val.
     if type_val = 1 then dec_return Ct_Reg
     else if type_val = 5 then dec_map Ct_Link decode_string
     else if type_val = 3 then dec_map Ct_Blk decode_specdata4
     else if type_val = 4 then dec_map Ct_Chr decode_specdata4
     else if type_val = 6 then dec_return Ct_Sock
     else if type_val = 7 then dec_return Ct_Fifo
     else if type_val = 2 then dec_return Ct_Dir
     else dec_return (Ct_Unsupported type_val))"

definition decode_create_args4 :: "create_args4 decoder" where
  "decode_create_args4 =
     dec_bind decode_createtype4 (\<lambda>objtype.
     dec_bind decode_string (\<lambda>objname.
     dec_bind decode_fattr4 (\<lambda>createattrs.
     dec_return \<lparr>ca_objtype = objtype, ca_objname = objname, ca_createattrs = createattrs\<rparr>)))"

definition decode_createhow4 :: "createhow4 decoder" where
  "decode_createhow4 = dec_bind decode_u32 (\<lambda>createmode.
     if createmode = 0 then dec_map How_Unchecked decode_fattr4
     else if createmode = 1 then dec_map How_Guarded decode_fattr4
     else if createmode = 2 then dec_map How_Exclusive (decode_fixed_opaque 8)
     else if createmode = 3 then
       dec_bind (decode_fixed_opaque 8) (\<lambda>v. dec_map (How_Exclusive4_1 v) decode_fattr4)
     else dec_fail (Xdr_InvalidEnum createmode))"

definition decode_openflag4 :: "openflag4 decoder" where
  "decode_openflag4 = dec_bind decode_u32 (\<lambda>opentype.
     if opentype = 1 then dec_map Open_Create decode_createhow4
     else dec_return Open_NoCreate)"

definition decode_open_claim4 :: "open_claim4 decoder" where
  "decode_open_claim4 = dec_bind decode_u32 (\<lambda>claim_type.
     if claim_type = 0 then dec_map Claim_Null decode_string
     else if claim_type = 1 then dec_map Claim_Previous decode_u32
     else if claim_type = 2 then
       dec_bind decode_stateid4 (\<lambda>delegate_stateid.
         dec_map (Claim_DelegateCur delegate_stateid) decode_string)
     else if claim_type = 3 then dec_map Claim_DelegatePrev decode_string
     else if claim_type = 4 then dec_return Claim_Fh
     else if claim_type = 5 then dec_map Claim_DelegCurFh decode_stateid4
     else if claim_type = 6 then dec_return Claim_DelegPrevFh
     else dec_fail (Xdr_InvalidEnum claim_type))"

definition decode_open_args4 :: "open_args4 decoder" where
  "decode_open_args4 =
     dec_bind decode_u32 (\<lambda>seqid.
     dec_bind decode_u32 (\<lambda>share_access.
     dec_bind decode_u32 (\<lambda>share_deny.
     dec_bind decode_state_owner4 (\<lambda>owner.
     dec_bind decode_openflag4 (\<lambda>openhow.
     dec_bind decode_open_claim4 (\<lambda>claim.
     dec_return \<lparr>oa_seqid = seqid, oa_share_access = share_access, oa_share_deny = share_deny,
       oa_owner = owner, oa_openhow = openhow, oa_claim = claim\<rparr>))))))"

definition decode_open_confirm_args4 :: "open_confirm_args4 decoder" where
  "decode_open_confirm_args4 =
     dec_bind decode_stateid4 (\<lambda>open_stateid.
     dec_bind decode_u32 (\<lambda>seqid.
     dec_return \<lparr>oc_open_stateid = open_stateid, oc_seqid = seqid\<rparr>))"

definition decode_open_downgrade_args4 :: "open_downgrade_args4 decoder" where
  "decode_open_downgrade_args4 =
     dec_bind decode_stateid4 (\<lambda>open_stateid.
     dec_bind decode_u32 (\<lambda>seqid.
     dec_bind decode_u32 (\<lambda>share_access.
     dec_bind decode_u32 (\<lambda>share_deny.
     dec_return \<lparr>od_open_stateid = open_stateid, od_seqid = seqid,
       od_share_access = share_access, od_share_deny = share_deny\<rparr>))))"

definition decode_read_args4 :: "read_args4 decoder" where
  "decode_read_args4 =
     dec_bind decode_stateid4 (\<lambda>stateid.
     dec_bind decode_u64 (\<lambda>offset.
     dec_bind decode_u32 (\<lambda>count.
     dec_return \<lparr>ra_stateid = stateid, ra_offset = offset, ra_count = count\<rparr>)))"

definition decode_readdir_args4 :: "readdir_args4 decoder" where
  "decode_readdir_args4 =
     dec_bind decode_u64 (\<lambda>cookie.
     dec_bind (decode_fixed_opaque 8) (\<lambda>cookieverf.
     dec_bind decode_u32 (\<lambda>dircount.
     dec_bind decode_u32 (\<lambda>maxcount.
     dec_bind decode_bitmap4 (\<lambda>attr_request.
     dec_return \<lparr>rd_cookie = cookie, rd_cookieverf = cookieverf, rd_dircount = dircount,
       rd_maxcount = maxcount, rd_attr_request = attr_request\<rparr>)))))"

definition decode_rename_args4 :: "rename_args4 decoder" where
  "decode_rename_args4 =
     dec_bind decode_string (\<lambda>oldname.
     dec_bind decode_string (\<lambda>newname.
     dec_return \<lparr>rn_oldname = oldname, rn_newname = newname\<rparr>))"

definition decode_setattr_args4 :: "setattr_args4 decoder" where
  "decode_setattr_args4 =
     dec_bind decode_stateid4 (\<lambda>stateid.
     dec_bind decode_fattr4 (\<lambda>obj_attributes.
     dec_return \<lparr>sat_stateid = stateid, sat_obj_attributes = obj_attributes\<rparr>))"

definition decode_write_args4 :: "write_args4 decoder" where
  "decode_write_args4 =
     dec_bind decode_stateid4 (\<lambda>stateid.
     dec_bind decode_u64 (\<lambda>offset.
     dec_bind decode_u32 (\<lambda>stable.
     dec_bind decode_opaque (\<lambda>data.
     dec_return \<lparr>wa_stateid = stateid, wa_offset = offset, wa_stable = stable, wa_data = data\<rparr>))))"

definition decode_state_protect_ops4 :: "state_protect_ops4 decoder" where
  "decode_state_protect_ops4 =
     dec_bind decode_bitmap4 (\<lambda>enforce.
     dec_bind decode_bitmap4 (\<lambda>allow.
     dec_return \<lparr>so_enforce = enforce, so_allow = allow\<rparr>))"

definition decode_ssv_sp_parms4 :: "ssv_sp_parms4 decoder" where
  "decode_ssv_sp_parms4 =
     dec_bind decode_state_protect_ops4 (\<lambda>ops.
     dec_bind (decode_list decode_opaque) (\<lambda>hash_algs.
     dec_bind (decode_list decode_opaque) (\<lambda>encr_algs.
     dec_bind decode_u32 (\<lambda>window.
     dec_bind decode_u32 (\<lambda>num_gss_handles.
     dec_return \<lparr>sv_ops = ops, sv_hash_algs = hash_algs, sv_encr_algs = encr_algs,
       sv_window = window, sv_num_gss_handles = num_gss_handles\<rparr>)))))"

definition decode_state_protect4_a :: "state_protect4_a decoder" where
  "decode_state_protect4_a = dec_bind decode_u32 (\<lambda>sp_type.
     if sp_type = 0 then dec_return SpA_None
     else if sp_type = 1 then dec_map SpA_MachCred decode_state_protect_ops4
     else if sp_type = 2 then dec_map SpA_Ssv decode_ssv_sp_parms4
     else dec_fail (Xdr_InvalidEnum sp_type))"

definition decode_exchange_id_args4 :: "exchange_id_args4 decoder" where
  "decode_exchange_id_args4 =
     dec_bind decode_client_owner4 (\<lambda>clientowner.
     dec_bind decode_u32 (\<lambda>flags.
     dec_bind decode_state_protect4_a (\<lambda>state_protect.
     dec_bind (decode_list decode_nfs_impl_id4) (\<lambda>client_impl_id.
     dec_return \<lparr>ea_clientowner = clientowner, ea_flags = flags, ea_state_protect = state_protect,
       ea_client_impl_id = client_impl_id\<rparr>))))"

definition decode_create_session_args4 :: "create_session_args4 decoder" where
  "decode_create_session_args4 =
     dec_bind decode_u64 (\<lambda>clientid.
     dec_bind decode_u32 (\<lambda>sequence.
     dec_bind decode_u32 (\<lambda>flags.
     dec_bind decode_channel_attrs4 (\<lambda>fore_chan_attrs.
     dec_bind decode_channel_attrs4 (\<lambda>back_chan_attrs.
     dec_bind decode_u32 (\<lambda>cb_program.
     dec_bind (decode_list decode_callback_sec_parms4) (\<lambda>sec_parms.
     dec_return \<lparr>cs_args_clientid = clientid, cs_args_sequence = sequence, cs_args_flags = flags,
       cs_args_fore_chan_attrs = fore_chan_attrs, cs_args_back_chan_attrs = back_chan_attrs,
       cs_args_cb_program = cb_program, cs_args_sec_parms = sec_parms\<rparr>)))))))"

definition decode_sequence_args4 :: "sequence_args4 decoder" where
  "decode_sequence_args4 =
     dec_bind (decode_fixed_opaque 16) (\<lambda>sessionid.
     dec_bind decode_u32 (\<lambda>sequenceid.
     dec_bind decode_u32 (\<lambda>slotid.
     dec_bind decode_u32 (\<lambda>highest_slotid.
     dec_bind decode_bool (\<lambda>cachethis.
     dec_return \<lparr>sa_sessionid = sessionid, sa_sequenceid = sequenceid, sa_slotid = slotid,
       sa_highest_slotid = highest_slotid, sa_cachethis = cachethis\<rparr>)))))"

definition decode_bind_conn_to_session_args4 :: "bind_conn_to_session_args4 decoder" where
  "decode_bind_conn_to_session_args4 =
     dec_bind (decode_fixed_opaque 16) (\<lambda>sessionid.
     dec_bind decode_u32 (\<lambda>dir.
     dec_bind decode_bool (\<lambda>use_conn_in_rdma_mode.
     dec_return \<lparr>bc_args_sessionid = sessionid, bc_args_dir = dir,
       bc_args_use_conn_in_rdma_mode = use_conn_in_rdma_mode\<rparr>)))"

definition decode_set_client_id_args4 :: "set_client_id_args4 decoder" where
  "decode_set_client_id_args4 =
     dec_bind (decode_fixed_opaque 8) (\<lambda>verifier.
     dec_bind (decode_opaque_max 1024) (\<lambda>ownerid.
     dec_bind decode_u32 (\<lambda>cb_program.
     dec_bind decode_string (\<lambda>cb_netid.
     dec_bind decode_string (\<lambda>cb_addr.
     dec_bind decode_u32 (\<lambda>callback_ident.
     dec_return \<lparr>sc_client = \<lparr>co_verifier = verifier, co_ownerid = ownerid\<rparr>,
       sc_callback = \<lparr>nc_cb_program = cb_program, nc_cb_netid = cb_netid, nc_cb_addr = cb_addr\<rparr>,
       sc_callback_ident = callback_ident\<rparr>))))))"

definition decode_set_client_id_confirm_args4 :: "set_client_id_confirm_args4 decoder" where
  "decode_set_client_id_confirm_args4 =
     dec_bind decode_u64 (\<lambda>clientid.
     dec_bind (decode_fixed_opaque 8) (\<lambda>verifier.
     dec_return \<lparr>scc_clientid = clientid, scc_verifier = verifier\<rparr>))"

definition decode_open_to_lock_owner4 :: "open_to_lock_owner4 decoder" where
  "decode_open_to_lock_owner4 =
     dec_bind decode_u32 (\<lambda>open_seqid.
     dec_bind decode_stateid4 (\<lambda>open_stateid.
     dec_bind decode_u32 (\<lambda>lock_seqid.
     dec_bind decode_state_owner4 (\<lambda>lock_owner.
     dec_return \<lparr>ol_open_seqid = open_seqid, ol_open_stateid = open_stateid,
       ol_lock_seqid = lock_seqid, ol_lock_owner = lock_owner\<rparr>))))"

definition decode_exist_lock_owner4 :: "exist_lock_owner4 decoder" where
  "decode_exist_lock_owner4 =
     dec_bind decode_stateid4 (\<lambda>lock_stateid.
     dec_bind decode_u32 (\<lambda>lock_seqid.
     dec_return \<lparr>el_lock_stateid = lock_stateid, el_lock_seqid = lock_seqid\<rparr>))"

definition decode_lock_args4 :: "lock_args4 decoder" where
  "decode_lock_args4 =
     dec_bind decode_nfs_lock_type4 (\<lambda>locktype.
     dec_bind decode_bool (\<lambda>reclaim.
     dec_bind decode_u64 (\<lambda>offset.
     dec_bind decode_u64 (\<lambda>len.
     dec_bind decode_bool (\<lambda>new_lock_owner.
     dec_bind (if new_lock_owner
               then dec_map Locker_NewLockOwner decode_open_to_lock_owner4
               else dec_map Locker_ExistingLockOwner decode_exist_lock_owner4) (\<lambda>locker.
     dec_return \<lparr>la_locktype = locktype, la_reclaim = reclaim, la_offset = offset,
       la_length = len, la_locker = locker\<rparr>))))))"

definition decode_lockt_args4 :: "lockt_args4 decoder" where
  "decode_lockt_args4 =
     dec_bind decode_nfs_lock_type4 (\<lambda>locktype.
     dec_bind decode_u64 (\<lambda>offset.
     dec_bind decode_u64 (\<lambda>len.
     dec_bind decode_state_owner4 (\<lambda>owner.
     dec_return \<lparr>lt_locktype = locktype, lt_offset = offset, lt_length = len, lt_owner = owner\<rparr>))))"

definition decode_locku_args4 :: "locku_args4 decoder" where
  "decode_locku_args4 =
     dec_bind decode_nfs_lock_type4 (\<lambda>locktype.
     dec_bind decode_u32 (\<lambda>seqid.
     dec_bind decode_stateid4 (\<lambda>lock_stateid.
     dec_bind decode_u64 (\<lambda>offset.
     dec_bind decode_u64 (\<lambda>len.
     dec_return \<lparr>lu_locktype = locktype, lu_seqid = seqid, lu_lock_stateid = lock_stateid,
       lu_offset = offset, lu_length = len\<rparr>)))))"

definition decode_setxattr_args4 :: "setxattr_args4 decoder" where
  "decode_setxattr_args4 =
     dec_bind decode_u32 (\<lambda>option_raw.
     dec_bind (if option_raw = 0 then dec_return Sx_Either
               else if option_raw = 1 then dec_return Sx_Create
               else if option_raw = 2 then dec_return Sx_Replace
               else dec_fail (Xdr_InvalidEnum option_raw)) (\<lambda>option.
     dec_bind decode_string (\<lambda>key.
     dec_bind decode_opaque (\<lambda>value.
     dec_return \<lparr>sx_option = option, sx_key = key, sx_value = value\<rparr>))))"

definition decode_listxattrs_args4 :: "listxattrs_args4 decoder" where
  "decode_listxattrs_args4 =
     dec_bind decode_u64 (\<lambda>cookie.
     dec_bind decode_u32 (\<lambda>maxcount.
     dec_return \<lparr>lx_cookie = cookie, lx_maxcount = maxcount\<rparr>))"

section \<open>Arguments that are read and dropped\<close>

definition skip_backchannel_ctl :: "unit decoder" where
  "skip_backchannel_ctl =
     dec_skip decode_u32 (dec_skip (decode_list decode_callback_sec_parms4) (dec_return ()))"

definition skip_get_dir_delegation :: "unit decoder" where
  "skip_get_dir_delegation =
     dec_skip decode_bool (dec_skip decode_bitmap4
     (dec_skip decode_u64 (dec_skip decode_u32
     (dec_skip decode_u64 (dec_skip decode_u32
     (dec_skip decode_bitmap4 (dec_skip decode_bitmap4 (dec_return ()))))))))"

definition skip_getdeviceinfo :: "unit decoder" where
  "skip_getdeviceinfo =
     dec_skip (decode_fixed_opaque 16) (dec_skip decode_u32 (dec_skip decode_u32
     (dec_skip decode_bitmap4 (dec_return ()))))"

definition skip_getdevicelist :: "unit decoder" where
  "skip_getdevicelist =
     dec_skip decode_u32 (dec_skip decode_u32 (dec_skip decode_u64
     (dec_skip (decode_fixed_opaque 8) (dec_return ()))))"

definition skip_layoutcommit :: "unit decoder" where
  "skip_layoutcommit =
     dec_skip decode_u64 (dec_skip decode_u64 (dec_skip decode_bool (dec_skip decode_stateid4
     (dec_bind decode_bool (\<lambda>new_offset.
     dec_skip (if new_offset then dec_skip decode_u64 (dec_return ()) else dec_return ())
     (dec_bind decode_bool (\<lambda>time_modify.
     dec_skip (if time_modify then dec_skip decode_nfs_time4 (dec_return ()) else dec_return ())
     (dec_skip decode_u32 (dec_skip decode_opaque (dec_return ())))))))))) "

definition skip_layoutget :: "unit decoder" where
  "skip_layoutget =
     dec_skip decode_bool (dec_skip decode_u32 (dec_skip decode_u32 (dec_skip decode_u64
     (dec_skip decode_u64 (dec_skip decode_u64 (dec_skip decode_stateid4
     (dec_skip decode_u32 (dec_return ()))))))))"

definition skip_layoutreturn :: "unit decoder" where
  "skip_layoutreturn =
     dec_skip decode_bool (dec_skip decode_u32 (dec_skip decode_u32
     (dec_bind decode_u32 (\<lambda>return_type.
     if return_type = 1 then
       dec_skip decode_u64 (dec_skip decode_u64 (dec_skip decode_stateid4
       (dec_skip decode_opaque (dec_return ()))))
     else dec_return ()))))"

definition skip_want_delegation :: "unit decoder" where
  "skip_want_delegation =
     dec_skip decode_u32 (dec_bind decode_u32 (\<lambda>claim_type.
     if claim_type = 0 then dec_return ()
     else if claim_type = 3 then dec_skip decode_string (dec_return ())
     else dec_return ()))"

definition decode_stateid_offset_length :: "unit decoder" where
  "decode_stateid_offset_length =
     dec_skip decode_stateid4 (dec_skip decode_u64 (dec_skip decode_u64 (dec_return ())))"

definition decode_netloc :: "unit decoder" where
  "decode_netloc = dec_bind decode_u32 (\<lambda>value.
     if value = 1 \<or> value = 2 then dec_skip decode_string (dec_return ())
     else if value = 3 then dec_skip decode_string (dec_skip decode_string (dec_return ()))
     else dec_fail (Xdr_InvalidEnum value))"

definition decode_netloc_list :: "unit decoder" where
  "decode_netloc_list =
     dec_bind decode_u32 (\<lambda>count. dec_skip (decode_items decode_netloc (unat count)) (dec_return ()))"

definition skip_copy :: "unit decoder" where
  "skip_copy =
     dec_skip decode_stateid4 (dec_skip decode_stateid4 (dec_skip decode_u64
     (dec_skip decode_u64 (dec_skip decode_u64 (dec_skip decode_bool (dec_skip decode_bool
     decode_netloc_list))))))"

definition skip_io_advise :: "unit decoder" where
  "skip_io_advise =
     dec_skip decode_stateid4 (dec_skip decode_u64 (dec_skip decode_u64
     (dec_skip decode_bitmap4 (dec_return ()))))"

definition skip_layouterror :: "unit decoder" where
  "skip_layouterror =
     dec_skip decode_u64 (dec_skip decode_u64 (dec_skip decode_stateid4
     (dec_bind decode_u32 (\<lambda>count.
     dec_skip (decode_items (dec_skip (decode_fixed_opaque 16) (dec_skip decode_u32 decode_u32))
       (unat count)) (dec_return ())))))"

definition skip_layoutstats :: "unit decoder" where
  "skip_layoutstats =
     dec_skip decode_u64 (dec_skip decode_u64 (dec_skip decode_stateid4 (dec_skip decode_u64
     (dec_skip decode_u64 (dec_skip decode_u64 (dec_skip decode_u64
     (dec_skip (decode_fixed_opaque 16) (dec_skip decode_opaque (dec_return ())))))))))"

definition skip_stateid_u64_u32 :: "unit decoder" where
  "skip_stateid_u64_u32 =
     dec_skip decode_stateid4 (dec_skip decode_u64 (dec_skip decode_u32 (dec_return ())))"

definition skip_clone :: "unit decoder" where
  "skip_clone =
     dec_skip decode_stateid4 (dec_skip decode_stateid4 (dec_skip decode_u64
     (dec_skip decode_u64 (dec_skip decode_u64 (dec_return ())))))"

section \<open>Decoding an operation and a request\<close>

text \<open>The match on the operation number is a chain of tests in the order of its arms.\<close>

definition decode_argop_body :: "u32 \<Rightarrow> nfs_argop4 decoder" where
  "decode_argop_body opnum =
     (if opnum = OP_ACCESS then dec_map Arg_Access decode_u32
      else if opnum = OP_CLOSE then dec_map Arg_Close decode_close_args4
      else if opnum = OP_COMMIT then dec_map Arg_Commit decode_commit_args4
      else if opnum = OP_CREATE then dec_map Arg_Create decode_create_args4
      else if opnum = OP_GETATTR then dec_map Arg_Getattr decode_bitmap4
      else if opnum = OP_GETFH then dec_return Arg_Getfh
      else if opnum = OP_LINK then dec_map Arg_Link decode_string
      else if opnum = OP_LOOKUP then dec_map Arg_Lookup decode_string
      else if opnum = OP_LOOKUPP then dec_return Arg_Lookupp
      else if opnum = OP_OPEN then dec_map Arg_Open decode_open_args4
      else if opnum = OP_OPEN_CONFIRM then dec_map Arg_OpenConfirm decode_open_confirm_args4
      else if opnum = OP_OPEN_DOWNGRADE then
        dec_map Arg_OpenDowngrade decode_open_downgrade_args4
      else if opnum = OP_PUTFH then dec_map Arg_Putfh decode_nfs_fh4
      else if opnum = OP_PUTPUBFH then dec_return Arg_Putpubfh
      else if opnum = OP_PUTROOTFH then dec_return Arg_Putrootfh
      else if opnum = OP_READ then dec_map Arg_Read decode_read_args4
      else if opnum = OP_READDIR then dec_map Arg_Readdir decode_readdir_args4
      else if opnum = OP_READLINK then dec_return Arg_Readlink
      else if opnum = OP_REMOVE then dec_map Arg_Remove decode_string
      else if opnum = OP_RENAME then dec_map Arg_Rename decode_rename_args4
      else if opnum = OP_RESTOREFH then dec_return Arg_Restorefh
      else if opnum = OP_SAVEFH then dec_return Arg_Savefh
      else if opnum = OP_SECINFO then dec_map Arg_Secinfo decode_string
      else if opnum = OP_SETATTR then dec_map Arg_Setattr decode_setattr_args4
      else if opnum = OP_WRITE then dec_map Arg_Write decode_write_args4
      else if opnum = OP_EXCHANGE_ID then dec_map Arg_ExchangeId decode_exchange_id_args4
      else if opnum = OP_CREATE_SESSION then
        dec_map Arg_CreateSession decode_create_session_args4
      else if opnum = OP_DESTROY_SESSION then dec_map Arg_DestroySession (decode_fixed_opaque 16)
      else if opnum = OP_SEQUENCE then dec_map Arg_Sequence decode_sequence_args4
      else if opnum = OP_RECLAIM_COMPLETE then dec_map Arg_ReclaimComplete decode_bool
      else if opnum = OP_DESTROY_CLIENTID then dec_map Arg_DestroyClientid decode_u64
      else if opnum = OP_BIND_CONN_TO_SESSION then
        dec_map Arg_BindConnToSession decode_bind_conn_to_session_args4
      else if opnum = OP_SECINFO_NO_NAME then dec_map Arg_SecInfoNoName decode_u32
      else if opnum = OP_FREE_STATEID then dec_map Arg_FreeStateid decode_stateid4
      else if opnum = OP_TEST_STATEID then dec_map Arg_TestStateid (decode_list decode_stateid4)
      else if opnum = OP_DELEGRETURN then dec_map Arg_DelegReturn decode_stateid4
      else if opnum = OP_SETCLIENTID then dec_map Arg_SetClientId decode_set_client_id_args4
      else if opnum = OP_SETCLIENTID_CONFIRM then
        dec_map Arg_SetClientIdConfirm decode_set_client_id_confirm_args4
      else if opnum = OP_RENEW then dec_map Arg_Renew decode_u64
      else if opnum = OP_RELEASE_LOCKOWNER then dec_map Arg_ReleaseLockowner decode_state_owner4
      else if opnum = OP_LOCK then dec_map Arg_Lock decode_lock_args4
      else if opnum = OP_LOCKT then dec_map Arg_Lockt decode_lockt_args4
      else if opnum = OP_LOCKU then dec_map Arg_Locku decode_locku_args4
      else if opnum = OP_OPENATTR then dec_map Arg_OpenAttr decode_bool
      else if opnum = OP_DELEGPURGE then dec_skip decode_u64 (dec_return Arg_DelegPurge)
      else if opnum = OP_VERIFY then dec_map Arg_Verify decode_fattr4
      else if opnum = OP_NVERIFY then dec_map Arg_Nverify decode_fattr4
      else if opnum = OP_BACKCHANNEL_CTL then
        dec_skip skip_backchannel_ctl (dec_return Arg_BackchannelCtl)
      else if opnum = OP_GET_DIR_DELEGATION then
        dec_skip skip_get_dir_delegation (dec_return Arg_GetDirDelegation)
      else if opnum = OP_GETDEVICEINFO then
        dec_skip skip_getdeviceinfo (dec_return Arg_GetDeviceInfo)
      else if opnum = OP_GETDEVICELIST then
        dec_skip skip_getdevicelist (dec_return Arg_GetDeviceList)
      else if opnum = OP_LAYOUTCOMMIT then
        dec_skip skip_layoutcommit (dec_return Arg_LayoutCommit)
      else if opnum = OP_LAYOUTGET then dec_skip skip_layoutget (dec_return Arg_LayoutGet)
      else if opnum = OP_LAYOUTRETURN then
        dec_skip skip_layoutreturn (dec_return Arg_LayoutReturn)
      else if opnum = OP_SET_SSV then
        dec_skip decode_opaque (dec_skip decode_opaque (dec_return Arg_SetSsv))
      else if opnum = OP_WANT_DELEGATION then
        dec_skip skip_want_delegation (dec_return Arg_WantDelegation)
      else if opnum = OP_GETXATTR then dec_map Arg_Getxattr decode_string
      else if opnum = OP_SETXATTR then dec_map Arg_Setxattr decode_setxattr_args4
      else if opnum = OP_LISTXATTRS then dec_map Arg_Listxattrs decode_listxattrs_args4
      else if opnum = OP_REMOVEXATTR then dec_map Arg_Removexattr decode_string
      else if opnum = OP_ALLOCATE then
        dec_skip decode_stateid_offset_length (dec_return (Arg_Unsupported OP_ALLOCATE))
      else if opnum = OP_COPY then dec_skip skip_copy (dec_return (Arg_Unsupported OP_COPY))
      else if opnum = OP_COPY_NOTIFY then
        dec_skip decode_stateid4 (dec_skip decode_netloc (dec_return (Arg_Unsupported OP_COPY_NOTIFY)))
      else if opnum = OP_DEALLOCATE then
        dec_skip decode_stateid_offset_length (dec_return (Arg_Unsupported OP_DEALLOCATE))
      else if opnum = OP_IO_ADVISE then
        dec_skip skip_io_advise (dec_return (Arg_Unsupported OP_IO_ADVISE))
      else if opnum = OP_LAYOUTERROR then
        dec_skip skip_layouterror (dec_return (Arg_Unsupported OP_LAYOUTERROR))
      else if opnum = OP_LAYOUTSTATS then
        dec_skip skip_layoutstats (dec_return (Arg_Unsupported OP_LAYOUTSTATS))
      else if opnum = OP_OFFLOAD_CANCEL then
        dec_skip decode_stateid4 (dec_return (Arg_Unsupported OP_OFFLOAD_CANCEL))
      else if opnum = OP_OFFLOAD_STATUS then
        dec_skip decode_stateid4 (dec_return (Arg_Unsupported OP_OFFLOAD_STATUS))
      else if opnum = OP_READ_PLUS then
        dec_skip skip_stateid_u64_u32 (dec_return (Arg_Unsupported OP_READ_PLUS))
      else if opnum = OP_SEEK then
        dec_skip skip_stateid_u64_u32 (dec_return (Arg_Unsupported OP_SEEK))
      else if opnum = OP_CLONE then dec_skip skip_clone (dec_return (Arg_Unsupported OP_CLONE))
      else dec_return Arg_Illegal)"

definition decode_nfs_argop4 :: "nfs_argop4 decoder" where
  "decode_nfs_argop4 = dec_bind decode_u32 decode_argop_body"

definition decode_compound4_args :: "compound4_args decoder" where
  "decode_compound4_args =
     dec_bind decode_string (\<lambda>tag.
     dec_bind decode_u32 (\<lambda>minorversion.
     dec_bind decode_u32 (\<lambda>count.
     dec_bind (decode_items decode_nfs_argop4 (unat count)) (\<lambda>argarray.
     dec_return \<lparr>cp_tag = tag, cp_minorversion = minorversion, cp_argarray = argarray\<rparr>))))"

section \<open>What a decoded request is made of\<close>

definition stateid_ok :: "stateid4 \<Rightarrow> bool" where
  "stateid_ok s \<longleftrightarrow> length (sid_other s) = 12"

definition owner_ok :: "state_owner4 \<Rightarrow> bool" where
  "owner_ok ow \<longleftrightarrow> length (so_owner ow) \<le> 1024"

primrec createtype_ok :: "createtype4 \<Rightarrow> bool" where
  "createtype_ok Ct_Reg = True"
| "createtype_ok (Ct_Link s) = string_ok s"
| "createtype_ok (Ct_Blk d) = True"
| "createtype_ok (Ct_Chr d) = True"
| "createtype_ok Ct_Sock = True"
| "createtype_ok Ct_Fifo = True"
| "createtype_ok Ct_Dir = True"
| "createtype_ok (Ct_Unsupported t) \<longleftrightarrow> t \<notin> {1, 2, 3, 4, 5, 6, 7}"

primrec createhow_ok :: "createhow4 \<Rightarrow> bool" where
  "createhow_ok (How_Unchecked f) = True"
| "createhow_ok (How_Guarded f) = True"
| "createhow_ok (How_Exclusive v) \<longleftrightarrow> length v = 8"
| "createhow_ok (How_Exclusive4_1 v f) \<longleftrightarrow> length v = 8"

primrec openflag_ok :: "openflag4 \<Rightarrow> bool" where
  "openflag_ok Open_NoCreate = True"
| "openflag_ok (Open_Create h) = createhow_ok h"

primrec claim_ok :: "open_claim4 \<Rightarrow> bool" where
  "claim_ok (Claim_Null s) = string_ok s"
| "claim_ok (Claim_Previous t) = True"
| "claim_ok (Claim_DelegateCur sid s) \<longleftrightarrow> stateid_ok sid \<and> string_ok s"
| "claim_ok (Claim_DelegatePrev s) = string_ok s"
| "claim_ok Claim_Fh = True"
| "claim_ok (Claim_DelegCurFh sid) = stateid_ok sid"
| "claim_ok Claim_DelegPrevFh = True"

primrec locker_ok :: "locker4 \<Rightarrow> bool" where
  "locker_ok (Locker_NewLockOwner n) \<longleftrightarrow> stateid_ok (ol_open_stateid n) \<and> owner_ok (ol_lock_owner n)"
| "locker_ok (Locker_ExistingLockOwner e) = stateid_ok (el_lock_stateid e)"

definition client_owner_ok :: "client_owner4 \<Rightarrow> bool" where
  "client_owner_ok ow \<longleftrightarrow> length (co_verifier ow) = 8 \<and> length (co_ownerid ow) \<le> 1024"

definition argop_ok :: "nfs_argop4 \<Rightarrow> bool" where
  "argop_ok op = (case op of
       Arg_Close a \<Rightarrow> stateid_ok (cl_open_stateid a)
     | Arg_Create a \<Rightarrow> createtype_ok (ca_objtype a) \<and> string_ok (ca_objname a)
     | Arg_Link n \<Rightarrow> string_ok n
     | Arg_Lookup n \<Rightarrow> string_ok n
     | Arg_Open a \<Rightarrow> owner_ok (oa_owner a) \<and> openflag_ok (oa_openhow a) \<and> claim_ok (oa_claim a)
     | Arg_Putfh fh \<Rightarrow> length fh \<le> 128
     | Arg_Read a \<Rightarrow> stateid_ok (ra_stateid a)
     | Arg_Readdir a \<Rightarrow> length (rd_cookieverf a) = 8
     | Arg_Remove n \<Rightarrow> string_ok n
     | Arg_Rename a \<Rightarrow> string_ok (rn_oldname a) \<and> string_ok (rn_newname a)
     | Arg_Secinfo n \<Rightarrow> string_ok n
     | Arg_Setattr a \<Rightarrow> stateid_ok (sat_stateid a)
     | Arg_Write a \<Rightarrow> stateid_ok (wa_stateid a) \<and> length (wa_data a) < 2 ^ 32
     | Arg_ExchangeId a \<Rightarrow> client_owner_ok (ea_clientowner a)
     | Arg_DestroySession sid \<Rightarrow> length sid = 16
     | Arg_Sequence a \<Rightarrow> length (sa_sessionid a) = 16
     | Arg_BindConnToSession a \<Rightarrow> length (bc_args_sessionid a) = 16
     | Arg_FreeStateid s \<Rightarrow> stateid_ok s
     | Arg_TestStateid ss \<Rightarrow> list_all stateid_ok ss
     | Arg_DelegReturn s \<Rightarrow> stateid_ok s
     | Arg_OpenConfirm a \<Rightarrow> stateid_ok (oc_open_stateid a)
     | Arg_SetClientId a \<Rightarrow> client_owner_ok (sc_client a)
     | Arg_SetClientIdConfirm a \<Rightarrow> length (scc_verifier a) = 8
     | Arg_ReleaseLockowner ow \<Rightarrow> owner_ok ow
     | Arg_Lock a \<Rightarrow> locker_ok (la_locker a)
     | Arg_Lockt a \<Rightarrow> owner_ok (lt_owner a)
     | Arg_Locku a \<Rightarrow> stateid_ok (lu_lock_stateid a)
     | Arg_OpenDowngrade a \<Rightarrow> stateid_ok (od_open_stateid a)
     | Arg_Getxattr n \<Rightarrow> string_ok n
     | Arg_Setxattr a \<Rightarrow> string_ok (sx_key a) \<and> length (sx_value a) < 2 ^ 32
     | Arg_Removexattr n \<Rightarrow> string_ok n
     | _ \<Rightarrow> True)"

definition compound_args_ok :: "compound4_args \<Rightarrow> bool" where
  "compound_args_ok a \<longleftrightarrow> string_ok (cp_tag a) \<and> list_all argop_ok (cp_argarray a)"

text \<open>One rule per field decoder, with what the field satisfies, so that a decoder that reads
  fields in sequence is sound by applying the rules in order.\<close>

named_theorems dec_fields \<open>sequencing after a decoder, with the property of what it returns\<close>

lemma dec_sound_map:
  "dec_sound P d \<Longrightarrow> (\<And>x. P x \<Longrightarrow> Q (f x)) \<Longrightarrow> dec_sound Q (dec_map f d)"
  unfolding dec_map_def by (rule dec_sound_bind, assumption) (simp add: dec_sound_return)

lemma dec_sound_skip:
  "dec_sound P d \<Longrightarrow> dec_sound Q e \<Longrightarrow> dec_sound Q (dec_skip d e)"
  unfolding dec_skip_def by (rule dec_sound_bind)

lemma stateid4_sound: "dec_sound stateid_ok decode_stateid4"
  using stateid4.sound by (simp add: stateid_ok_def [abs_def])

lemma string_sound: "dec_sound string_ok decode_string"
  using string.sound by (simp add: string_ok_def [abs_def])

lemma state_owner4_sound: "dec_sound owner_ok decode_state_owner4"
  unfolding decode_state_owner4_def owner_ok_def
  by (intro dec_sound_bind [OF u64.sound] dec_sound_bind [OF opaque_max.sound] dec_sound_return) simp

lemma fattr4_sound: "dec_sound (\<lambda>_. True) decode_fattr4"
  unfolding decode_fattr4_def
  by (intro dec_sound_bind [OF decode_bitmap4_sound] dec_sound_bind [OF opaque.sound]
      dec_sound_return TrueI)

lemma client_owner4_sound: "dec_sound client_owner_ok decode_client_owner4"
  using decode_client_owner4_sound by (simp add: client_owner_ok_def [abs_def])

lemma callback_sec_parms4_sound: "dec_sound (\<lambda>_. True) decode_callback_sec_parms4"
  unfolding decode_callback_sec_parms4_def
  by (intro dec_sound_bind [OF u32.sound] dec_sound_bind [OF opaque.sound]
      dec_sound_bind [OF auth_sys.sound] dec_sound_if dec_sound_return dec_sound_fail TrueI)

lemmas field_sound =
  u32.sound u64.sound boolean.sound opaque.sound fixed_opaque.sound opaque_max.sound
  stateid4_sound string_sound state_owner4_sound fattr4_sound client_owner4_sound
  decode_bitmap4_sound nfs_time4.sound nfs_fh4.sound nfs_lock_type4.sound
  channel_attrs4.sound

lemmas field_binds [dec_fields] = field_sound [THEN dec_sound_bind]
lemmas field_maps [dec_fields] = field_sound [THEN dec_sound_map]
lemmas field_skips [dec_fields] = field_sound [THEN dec_sound_skip]

lemma items_sound_true: "dec_sound P d \<Longrightarrow> dec_sound (list_all P) (decode_items d n)"
proof (induction n)
  case 0
  then show ?case by (simp add: dec_sound_return)
next
  case (Suc n)
  show ?case
    unfolding decode_items.simps
    by (rule dec_sound_bind [OF Suc.prems], rule dec_sound_bind [OF Suc.IH [OF Suc.prems]])
      (simp add: dec_sound_return)
qed

lemma list_sound_true: "dec_sound P d \<Longrightarrow> dec_sound (list_all P) (decode_list d)"
  unfolding decode_list_def by (rule dec_sound_bind [OF u32.sound]) (rule items_sound_true)

lemmas dec_rules = dec_sound_if dec_sound_return dec_sound_fail

lemma createtype4_sound: "dec_sound createtype_ok decode_createtype4"
proof -
  have "dec_sound (\<lambda>_. True) decode_specdata4"
    unfolding decode_specdata4_def by (intro dec_fields dec_rules) simp_all
  note this [THEN dec_sound_map, dec_fields]
  then show ?thesis
    unfolding decode_createtype4_def by (intro dec_fields dec_rules) simp_all
qed

lemma createhow4_sound: "dec_sound createhow_ok decode_createhow4"
  unfolding decode_createhow4_def by (intro dec_fields dec_rules) simp_all

lemma openflag4_sound: "dec_sound openflag_ok decode_openflag4"
  unfolding decode_openflag4_def
  by (intro dec_fields dec_sound_map [OF createhow4_sound] dec_rules) simp_all

lemma open_claim4_sound: "dec_sound claim_ok decode_open_claim4"
  unfolding decode_open_claim4_def by (intro dec_fields dec_rules) simp_all

lemma create_args4_sound:
  "dec_sound (\<lambda>a. createtype_ok (ca_objtype a) \<and> string_ok (ca_objname a)) decode_create_args4"
  unfolding decode_create_args4_def
  by (intro dec_sound_bind [OF createtype4_sound] dec_fields dec_rules) simp_all

lemma open_args4_sound:
  "dec_sound (\<lambda>a. owner_ok (oa_owner a) \<and> openflag_ok (oa_openhow a) \<and> claim_ok (oa_claim a))
     decode_open_args4"
  unfolding decode_open_args4_def
  by (intro dec_sound_bind [OF openflag4_sound] dec_sound_bind [OF open_claim4_sound]
      dec_fields dec_rules) simp_all

lemma exchange_id_args4_sound:
  "dec_sound (\<lambda>a. client_owner_ok (ea_clientowner a)) decode_exchange_id_args4"
proof -
  have ops: "dec_sound (\<lambda>_. True) decode_state_protect_ops4"
    unfolding decode_state_protect_ops4_def by (intro dec_fields dec_rules) simp_all
  have "dec_sound (\<lambda>_. True) decode_ssv_sp_parms4"
    unfolding decode_ssv_sp_parms4_def
    by (intro dec_sound_bind [OF ops] dec_sound_bind [OF list_sound_true [OF opaque.sound]]
        dec_fields dec_rules) simp_all
  then have "dec_sound (\<lambda>_. True) decode_state_protect4_a"
    unfolding decode_state_protect4_a_def
    by (intro dec_sound_map [OF ops] dec_fields dec_rules dec_sound_map) simp_all
  then show ?thesis
    unfolding decode_exchange_id_args4_def
    by (intro dec_sound_bind [OF list_sound_true [OF nfs_impl_id4.sound]] dec_fields
        dec_sound_bind [of "\<lambda>_. True" decode_state_protect4_a] dec_rules) simp_all
qed

lemma create_session_args4_sound: "dec_sound (\<lambda>_. True) decode_create_session_args4"
  unfolding decode_create_session_args4_def
  by (intro dec_sound_bind [OF list_sound_true [OF callback_sec_parms4_sound]] dec_fields dec_rules)
    simp_all

lemma lock_args4_sound: "dec_sound (\<lambda>a. locker_ok (la_locker a)) decode_lock_args4"
proof -
  have new: "dec_sound (\<lambda>n. stateid_ok (ol_open_stateid n) \<and> owner_ok (ol_lock_owner n))
      decode_open_to_lock_owner4"
    unfolding decode_open_to_lock_owner4_def by (intro dec_fields dec_rules) simp_all
  have old: "dec_sound (\<lambda>e. stateid_ok (el_lock_stateid e)) decode_exist_lock_owner4"
    unfolding decode_exist_lock_owner4_def by (intro dec_fields dec_rules) simp_all
  have "dec_sound locker_ok (if b then dec_map Locker_NewLockOwner decode_open_to_lock_owner4
      else dec_map Locker_ExistingLockOwner decode_exist_lock_owner4)" for b
    by (intro dec_sound_if dec_sound_map [OF new] dec_sound_map [OF old]) simp_all
  note locker = this [THEN dec_sound_bind]
  show ?thesis
    unfolding decode_lock_args4_def by (intro locker dec_fields dec_rules) simp_all
qed

lemma setxattr_args4_sound:
  "dec_sound (\<lambda>a. string_ok (sx_key a) \<and> length (sx_value a) < 2 ^ 32) decode_setxattr_args4"
proof -
  have "dec_sound (\<lambda>_. True) (if r = 0 then dec_return Sx_Either else if r = 1 then dec_return Sx_Create
      else if r = 2 then dec_return Sx_Replace else dec_fail (Xdr_InvalidEnum r))" for r
    by (intro dec_rules) simp_all
  note option = this [THEN dec_sound_bind]
  show ?thesis
    unfolding decode_setxattr_args4_def by (intro option dec_fields dec_rules) simp_all
qed

lemma plain_args_sound:
  "dec_sound (\<lambda>a. stateid_ok (cl_open_stateid a)) decode_close_args4"
  "dec_sound (\<lambda>_. True) decode_commit_args4"
  "dec_sound (\<lambda>a. stateid_ok (oc_open_stateid a)) decode_open_confirm_args4"
  "dec_sound (\<lambda>a. stateid_ok (od_open_stateid a)) decode_open_downgrade_args4"
  "dec_sound (\<lambda>a. stateid_ok (ra_stateid a)) decode_read_args4"
  "dec_sound (\<lambda>a. length (rd_cookieverf a) = 8) decode_readdir_args4"
  "dec_sound (\<lambda>a. string_ok (rn_oldname a) \<and> string_ok (rn_newname a)) decode_rename_args4"
  "dec_sound (\<lambda>a. stateid_ok (sat_stateid a)) decode_setattr_args4"
  "dec_sound (\<lambda>a. stateid_ok (wa_stateid a) \<and> length (wa_data a) < 2 ^ 32) decode_write_args4"
  "dec_sound (\<lambda>a. length (sa_sessionid a) = 16) decode_sequence_args4"
  "dec_sound (\<lambda>a. length (bc_args_sessionid a) = 16) decode_bind_conn_to_session_args4"
  "dec_sound (\<lambda>a. client_owner_ok (sc_client a)) decode_set_client_id_args4"
  "dec_sound (\<lambda>a. length (scc_verifier a) = 8) decode_set_client_id_confirm_args4"
  "dec_sound (\<lambda>a. owner_ok (lt_owner a)) decode_lockt_args4"
  "dec_sound (\<lambda>a. stateid_ok (lu_lock_stateid a)) decode_locku_args4"
  "dec_sound (\<lambda>_. True) decode_listxattrs_args4"
  unfolding decode_close_args4_def
    decode_commit_args4_def
    decode_open_confirm_args4_def
    decode_open_downgrade_args4_def
    decode_read_args4_def
    decode_readdir_args4_def
    decode_rename_args4_def
    decode_setattr_args4_def
    decode_write_args4_def
    decode_sequence_args4_def
    decode_bind_conn_to_session_args4_def
    decode_set_client_id_args4_def
    decode_set_client_id_confirm_args4_def
    decode_lockt_args4_def
    decode_locku_args4_def
    decode_listxattrs_args4_def
  by ((intro dec_fields dec_rules; simp add: client_owner_ok_def)+)

lemma netloc_sound: "dec_sound (\<lambda>_. True) decode_netloc"
  unfolding decode_netloc_def by (intro dec_fields dec_rules) simp_all

lemma netloc_list_sound: "dec_sound (\<lambda>_. True) decode_netloc_list"
  unfolding decode_netloc_list_def
  by (intro dec_fields dec_sound_skip [OF items_sound_true [OF netloc_sound]] dec_rules) simp_all

lemma layouterror_sound: "dec_sound (\<lambda>_. True) skip_layouterror"
proof -
  have "dec_sound (\<lambda>_. True)
      (dec_skip (decode_fixed_opaque 16) (dec_skip decode_u32 decode_u32))"
    by (intro dec_fields u32.sound)
  note items = this [THEN items_sound_true, THEN dec_sound_skip]
  show ?thesis
    unfolding skip_layouterror_def by (intro dec_fields items dec_rules) simp_all
qed

lemma layoutcommit_sound: "dec_sound (\<lambda>_. True) skip_layoutcommit"
proof -
  have "dec_sound (\<lambda>_. True) (if b then dec_skip decode_u64 (dec_return ()) else dec_return ())"
    "dec_sound (\<lambda>_. True) (if b then dec_skip decode_nfs_time4 (dec_return ()) else dec_return ())" for b
    by (intro dec_fields dec_rules; simp)+
  note optional = this [THEN dec_sound_skip]
  show ?thesis
    unfolding skip_layoutcommit_def by (intro dec_fields optional dec_rules) simp_all
qed

lemma skip_sound:
  "dec_sound (\<lambda>_. True) skip_backchannel_ctl"
  "dec_sound (\<lambda>_. True) skip_get_dir_delegation"
  "dec_sound (\<lambda>_. True) skip_getdeviceinfo"
  "dec_sound (\<lambda>_. True) skip_getdevicelist"
  "dec_sound (\<lambda>_. True) skip_layoutget"
  "dec_sound (\<lambda>_. True) skip_layoutreturn"
  "dec_sound (\<lambda>_. True) skip_want_delegation"
  "dec_sound (\<lambda>_. True) decode_stateid_offset_length"
  "dec_sound (\<lambda>_. True) skip_io_advise"
  "dec_sound (\<lambda>_. True) skip_layoutstats"
  "dec_sound (\<lambda>_. True) skip_stateid_u64_u32"
  "dec_sound (\<lambda>_. True) skip_clone"
  "dec_sound (\<lambda>_. True) skip_copy"
  unfolding skip_backchannel_ctl_def
    skip_get_dir_delegation_def
    skip_getdeviceinfo_def
    skip_getdevicelist_def
    skip_layoutget_def
    skip_layoutreturn_def
    skip_want_delegation_def
    decode_stateid_offset_length_def
    skip_io_advise_def
    skip_layoutstats_def
    skip_stateid_u64_u32_def
    skip_clone_def
    skip_copy_def
  by ((intro dec_fields dec_sound_skip [OF list_sound_true [OF callback_sec_parms4_sound]]
      netloc_list_sound dec_rules; simp)+)

lemmas body_sound =
  create_args4_sound open_args4_sound exchange_id_args4_sound create_session_args4_sound
  lock_args4_sound setxattr_args4_sound plain_args_sound
  list_sound_true [OF stateid4_sound]

lemmas body_skips =
  skip_sound netloc_sound layouterror_sound layoutcommit_sound

lemma argop_body_sound: "dec_sound argop_ok (decode_argop_body opnum)"
  unfolding decode_argop_body_def
  by (intro dec_fields body_sound [THEN dec_sound_map] body_skips [THEN dec_sound_skip] dec_rules)
    (simp_all add: argop_ok_def)

lemma argop_sound: "dec_sound argop_ok decode_nfs_argop4"
  unfolding decode_nfs_argop4_def by (intro dec_sound_bind [OF u32.sound] argop_body_sound)

lemma compound_args_sound: "dec_sound compound_args_ok decode_compound4_args"
  unfolding decode_compound4_args_def
  by (intro dec_fields dec_sound_bind [OF items_sound_true [OF argop_sound]] dec_rules)
    (simp add: compound_args_ok_def)

text \<open>An operation is at least its number, so a count field cannot make the decoder build more
  operations than the request has room for.\<close>

lemma argop_consumes:
  assumes "decode_nfs_argop4 src = Inr (op, rest)"
  shows "length rest + 4 \<le> length src"
proof -
  obtain opnum src' where "decode_u32 src = Inr (opnum, src')"
    and body: "decode_argop_body opnum src' = Inr (op, rest)"
    using assms by (auto simp: decode_nfs_argop4_def dec_bind_eq_Inr)
  then have "length src = 4 + length src'"
    using u32.enc_dec by fastforce
  moreover have "suffix rest src'"
    using dec_soundD(2) [OF argop_body_sound body] .
  ultimately show ?thesis
    by (simp add: suffix_length_le)
qed

lemma argops_consume:
  "decode_items decode_nfs_argop4 n src = Inr (ops, rest) \<Longrightarrow> length ops = n \<and> length rest + 4 * n \<le> length src"
proof (induction n arbitrary: src ops rest)
  case 0
  then show ?case by (simp add: dec_return_def)
next
  case (Suc n)
  then obtain op src' ops' where "decode_nfs_argop4 src = Inr (op, src')"
    and "decode_items decode_nfs_argop4 n src' = Inr (ops', rest)" and "ops = op # ops'"
    by (auto simp: dec_bind_eq_Inr dec_return_def)
  then show ?case
    using Suc.IH argop_consumes by fastforce
qed

section \<open>Encoding the results\<close>

definition encode_open_none_delegation :: "open_none_delegation4 \<Rightarrow> bytes" where
  "encode_open_none_delegation why = (case why of
       Ond_Contention server_will_push_deleg \<Rightarrow>
         encode_u32 (why_no_delegation4_to_u32 Wnd_Contention) @ encode_bool server_will_push_deleg
     | Ond_Resource server_will_signal_avail \<Rightarrow>
         encode_u32 (why_no_delegation4_to_u32 Wnd_ResourceNotAvail) @ encode_bool server_will_signal_avail
     | Ond_Other why \<Rightarrow> encode_u32 (why_no_delegation4_to_u32 why))"

definition encode_open_delegation :: "open_delegation4 \<Rightarrow> bytes" where
  "encode_open_delegation delegation = (case delegation of
       Deleg_None \<Rightarrow> encode_u32 (open_delegation_type4_to_u32 Odt_None)
     | Deleg_NoneExt why \<Rightarrow>
         encode_u32 (open_delegation_type4_to_u32 Odt_NoneExt) @ encode_open_none_delegation why
     | Deleg_Read r \<Rightarrow>
         encode_u32 (open_delegation_type4_to_u32 Odt_Read) @ encode_stateid4 (ord_stateid r)
         @ encode_bool (ord_recall r) @ encode_nfs_ace4 (ord_permissions r)
     | Deleg_Write w \<Rightarrow>
         encode_u32 (open_delegation_type4_to_u32 Odt_Write) @ encode_stateid4 (owd_stateid w)
         @ encode_bool (owd_recall w) @ encode_nfs_space_limit4 (owd_space_limit w)
         @ encode_nfs_ace4 (owd_permissions w))"

text \<open>Every arm writes the operation number and the status. Most then write a payload when the
  status is \<^verbatim>\<open>Ok\<close>, an absent optional payload being nothing at all.\<close>

definition enc_head :: "u32 \<Rightarrow> nfsstat4 \<Rightarrow> bytes" where
  "enc_head opnum status = encode_u32 opnum @ encode_nfsstat4 status"

definition enc_ok :: "u32 \<Rightarrow> nfsstat4 \<Rightarrow> bytes \<Rightarrow> bytes" where
  "enc_ok opnum status body = enc_head opnum status @ (if status = Stat_Ok then body else [])"

definition enc_opt :: "('a \<Rightarrow> bytes) \<Rightarrow> 'a option \<Rightarrow> bytes" where
  "enc_opt f v = (case v of None \<Rightarrow> [] | Some x \<Rightarrow> f x)"

definition encode_open_res4 :: "open_res4 \<Rightarrow> bytes" where
  "encode_open_res4 r =
     encode_stateid4 (or_stateid r) @ encode_change_info4 (or_cinfo r) @ encode_u32 (or_rflags r)
     @ encode_bitmap4 (or_attrset r) @ encode_open_delegation (or_delegation r)"

definition encode_read_res4 :: "read_res4 \<Rightarrow> bytes" where
  "encode_read_res4 r = encode_bool (rrs_eof r) @ encode_opaque (rrs_data r)"

definition encode_entry4 :: "entry4 \<Rightarrow> bytes" where
  "encode_entry4 e = encode_bool True @ encode_u64 (en_cookie e) @ encode_string (en_name e)
     @ encode_fattr4 (en_attrs e)"

definition encode_readdir_res4 :: "readdir_res4 \<Rightarrow> bytes" where
  "encode_readdir_res4 r =
     rdr_cookieverf r @ concat (map encode_entry4 (rdr_entries r)) @ encode_bool False
     @ encode_bool (rdr_eof r)"

definition encode_secinfo_list :: "secinfo_entry4 list \<Rightarrow> bytes" where
  "encode_secinfo_list entries =
     encode_u32 (word_of_nat (length entries)) @ concat (map encode_secinfo_entry4 entries)"

definition encode_write_res4 :: "write_res4 \<Rightarrow> bytes" where
  "encode_write_res4 r = encode_u32 (wrs_count r) @ encode_u32 (wrs_committed r) @ wrs_writeverf r"

definition encode_exchange_id_res4 :: "exchange_id_res4 \<Rightarrow> bytes" where
  "encode_exchange_id_res4 r =
     encode_u64 (er_clientid r) @ encode_u32 (er_sequenceid r) @ encode_u32 (er_flags r)
     @ encode_state_protect4_r (er_state_protect r) @ encode_server_owner4 (er_server_owner r)
     @ encode_opaque (er_server_scope r)
     @ encode_u32 (word_of_nat (length (er_server_impl_id r)))
     @ concat (map encode_nfs_impl_id4 (er_server_impl_id r))"

definition encode_create_session_res4 :: "create_session_res4 \<Rightarrow> bytes" where
  "encode_create_session_res4 r =
     cr_sessionid r @ encode_u32 (cr_sequenceid r) @ encode_u32 (cr_flags r)
     @ encode_channel_attrs4 (cr_fore_chan_attrs r) @ encode_channel_attrs4 (cr_back_chan_attrs r)"

definition encode_sequence_res4 :: "sequence_res4 \<Rightarrow> bytes" where
  "encode_sequence_res4 r =
     sr_sessionid r @ encode_u32 (sr_sequenceid r) @ encode_u32 (sr_slotid r)
     @ encode_u32 (sr_highest_slotid r) @ encode_u32 (sr_target_highest_slotid r)
     @ encode_u32 (sr_status_flags r)"

definition encode_bind_conn_to_session_res4 :: "bind_conn_to_session_res4 \<Rightarrow> bytes" where
  "encode_bind_conn_to_session_res4 r =
     br_sessionid r @ encode_u32 (br_dir r) @ encode_bool (br_use_conn_in_rdma_mode r)"

definition encode_set_client_id_res4 :: "set_client_id_res4 \<Rightarrow> bytes" where
  "encode_set_client_id_res4 r = encode_u64 (scr_clientid r) @ scr_setclientid_confirm r"

definition encode_lock_denied4 :: "lock_denied4 \<Rightarrow> bytes" where
  "encode_lock_denied4 d =
     encode_u64 (ld_offset d) @ encode_u64 (ld_length d) @ encode_nfs_lock_type4 (ld_locktype d)
     @ encode_u64 (so_clientid (ld_owner d)) @ encode_opaque (so_owner (ld_owner d))"

definition encode_lock_res :: "nfsstat4 \<Rightarrow> stateid4 option \<Rightarrow> lock_denied4 option \<Rightarrow> bytes" where
  "encode_lock_res status stateid denied =
     (case (status = Stat_Ok, stateid) of
        (True, Some s) \<Rightarrow> encode_stateid4 s
      | _ \<Rightarrow> if status = Stat_Denied then enc_opt encode_lock_denied4 denied else [])"

definition encode_layout_get_res4 :: "nfsstat4 \<Rightarrow> layout_get_res4 option \<Rightarrow> bytes" where
  "encode_layout_get_res4 status res = (case res of
       Some (Lg_Ok ok) \<Rightarrow>
         if status = Stat_Ok then encode_bool (lg_return_on_close ok)
           @ encode_stateid4 (lg_stateid ok) @ encode_list encode_layout4 (lg_layout ok)
         else []
     | Some (Lg_LayoutTryLater will_signal_layout_avail) \<Rightarrow>
         if status = Stat_LayoutTrylater then encode_bool will_signal_layout_avail else []
     | None \<Rightarrow> [])"

definition encode_layout_return_stateid4 :: "layout_return_stateid4 \<Rightarrow> bytes" where
  "encode_layout_return_stateid4 res = (case res of
       Lrs_None \<Rightarrow> encode_bool False
     | Lrs_Some stateid \<Rightarrow> encode_bool True @ encode_stateid4 stateid)"

definition encode_get_dir_delegation_res4 :: "get_dir_delegation_res4 \<Rightarrow> bytes" where
  "encode_get_dir_delegation_res4 res = (case res of
       Gdd_Ok ok \<Rightarrow> encode_u32 0 @ gd_cookieverf ok @ encode_stateid4 (gd_stateid ok)
         @ encode_bitmap4 (gd_notification ok) @ encode_bitmap4 (gd_child_attributes ok)
         @ encode_bitmap4 (gd_dir_attributes ok)
     | Gdd_Unavail will_signal_deleg_avail \<Rightarrow> encode_u32 1 @ encode_bool will_signal_deleg_avail)"

definition encode_get_device_info_res4 :: "nfsstat4 \<Rightarrow> get_device_info_res4 option \<Rightarrow> bytes" where
  "encode_get_device_info_res4 status res = (case res of
       Some (Gdi_Ok device_addr notification) \<Rightarrow>
         if status = Stat_Ok then encode_device_addr4 device_addr @ encode_bitmap4 notification else []
     | Some (Gdi_TooSmall mincount) \<Rightarrow>
         if status = Stat_Toosmall then encode_u32 mincount else []
     | None \<Rightarrow> [])"

definition encode_get_device_list_res_ok4 :: "get_device_list_res_ok4 \<Rightarrow> bytes" where
  "encode_get_device_list_res_ok4 res =
     encode_u64 (gl_cookie res) @ gl_cookieverf res
     @ encode_u32 (word_of_nat (length (gl_deviceid_list res))) @ concat (gl_deviceid_list res)
     @ encode_bool (gl_eof res)"

definition encode_listxattrs_res_ok4 :: "listxattrs_res_ok4 \<Rightarrow> bytes" where
  "encode_listxattrs_res_ok4 res =
     encode_u64 (lxr_cookie res) @ encode_list encode_string (lxr_names res)
     @ encode_bool (lxr_eof res)"

primrec encode_nfs_resop4 :: "nfs_resop4 \<Rightarrow> bytes" where
  "encode_nfs_resop4 (Res_Access st supported access) =
     enc_ok OP_ACCESS st (encode_u32 supported @ encode_u32 access)"
| "encode_nfs_resop4 (Res_Close st stateid) = enc_ok OP_CLOSE st (encode_stateid4 stateid)"
| "encode_nfs_resop4 (Res_Commit st verf) = enc_ok OP_COMMIT st verf"
| "encode_nfs_resop4 (Res_Create st cinfo attrset) =
     enc_ok OP_CREATE st (enc_opt encode_change_info4 cinfo @ encode_bitmap4 attrset)"
| "encode_nfs_resop4 (Res_Getattr st attrs) = enc_ok OP_GETATTR st (enc_opt encode_fattr4 attrs)"
| "encode_nfs_resop4 (Res_Getfh st fh) = enc_ok OP_GETFH st (enc_opt encode_nfs_fh4 fh)"
| "encode_nfs_resop4 (Res_Link st cinfo) = enc_ok OP_LINK st (enc_opt encode_change_info4 cinfo)"
| "encode_nfs_resop4 (Res_Lookup st) = enc_head OP_LOOKUP st"
| "encode_nfs_resop4 (Res_Lookupp st) = enc_head OP_LOOKUPP st"
| "encode_nfs_resop4 (Res_Open st res) = enc_ok OP_OPEN st (enc_opt encode_open_res4 res)"
| "encode_nfs_resop4 (Res_Putfh st) = enc_head OP_PUTFH st"
| "encode_nfs_resop4 (Res_Putpubfh st) = enc_head OP_PUTPUBFH st"
| "encode_nfs_resop4 (Res_Putrootfh st) = enc_head OP_PUTROOTFH st"
| "encode_nfs_resop4 (Res_Read st res) = enc_ok OP_READ st (enc_opt encode_read_res4 res)"
| "encode_nfs_resop4 (Res_Readdir st res) =
     enc_ok OP_READDIR st (enc_opt encode_readdir_res4 res)"
| "encode_nfs_resop4 (Res_Readlink st target) =
     enc_ok OP_READLINK st (enc_opt encode_string target)"
| "encode_nfs_resop4 (Res_Remove st cinfo) =
     enc_ok OP_REMOVE st (enc_opt encode_change_info4 cinfo)"
| "encode_nfs_resop4 (Res_Rename st src_cinfo tgt_cinfo) = enc_ok OP_RENAME st
         (enc_opt encode_change_info4 src_cinfo @ enc_opt encode_change_info4 tgt_cinfo)"
| "encode_nfs_resop4 (Res_Restorefh st) = enc_head OP_RESTOREFH st"
| "encode_nfs_resop4 (Res_Savefh st) = enc_head OP_SAVEFH st"
| "encode_nfs_resop4 (Res_Secinfo st entries) =
     enc_ok OP_SECINFO st (encode_secinfo_list entries)"
| "encode_nfs_resop4 (Res_Setattr st attrsset) = enc_head OP_SETATTR st @ encode_bitmap4 attrsset"
| "encode_nfs_resop4 (Res_Write st res) = enc_ok OP_WRITE st (enc_opt encode_write_res4 res)"
| "encode_nfs_resop4 (Res_ExchangeId st res) =
     enc_ok OP_EXCHANGE_ID st (enc_opt encode_exchange_id_res4 res)"
| "encode_nfs_resop4 (Res_CreateSession st res) =
     enc_ok OP_CREATE_SESSION st (enc_opt encode_create_session_res4 res)"
| "encode_nfs_resop4 (Res_DestroySession st) = enc_head OP_DESTROY_SESSION st"
| "encode_nfs_resop4 (Res_Sequence st res) =
     enc_ok OP_SEQUENCE st (enc_opt encode_sequence_res4 res)"
| "encode_nfs_resop4 (Res_ReclaimComplete st) = enc_head OP_RECLAIM_COMPLETE st"
| "encode_nfs_resop4 (Res_DestroyClientid st) = enc_head OP_DESTROY_CLIENTID st"
| "encode_nfs_resop4 (Res_BindConnToSession st res) =
     enc_ok OP_BIND_CONN_TO_SESSION st (enc_opt encode_bind_conn_to_session_res4 res)"
| "encode_nfs_resop4 (Res_SecInfoNoName st entries) =
     enc_ok OP_SECINFO_NO_NAME st (encode_secinfo_list entries)"
| "encode_nfs_resop4 (Res_FreeStateid st) = enc_head OP_FREE_STATEID st"
| "encode_nfs_resop4 (Res_TestStateid st results) = enc_ok OP_TEST_STATEID st
         (encode_u32 (word_of_nat (length results)) @ concat (map encode_nfsstat4 results))"
| "encode_nfs_resop4 (Res_DelegReturn st) = enc_head OP_DELEGRETURN st"
| "encode_nfs_resop4 (Res_OpenConfirm st stateid) =
     enc_ok OP_OPEN_CONFIRM st (enc_opt encode_stateid4 stateid)"
| "encode_nfs_resop4 (Res_Renew st) = enc_head OP_RENEW st"
| "encode_nfs_resop4 (Res_SetClientId st res) =
     enc_ok OP_SETCLIENTID st (enc_opt encode_set_client_id_res4 res)"
| "encode_nfs_resop4 (Res_SetClientIdConfirm st) = enc_head OP_SETCLIENTID_CONFIRM st"
| "encode_nfs_resop4 (Res_ReleaseLockowner st) = enc_head OP_RELEASE_LOCKOWNER st"
| "encode_nfs_resop4 (Res_Lock st stateid denied) =
     enc_head OP_LOCK st @ encode_lock_res st stateid denied"
| "encode_nfs_resop4 (Res_Lockt st denied) = enc_head OP_LOCKT st
         @ (if st = Stat_Denied then enc_opt encode_lock_denied4 denied else [])"
| "encode_nfs_resop4 (Res_Locku st stateid) =
     enc_ok OP_LOCKU st (enc_opt encode_stateid4 stateid)"
| "encode_nfs_resop4 (Res_OpenAttr st) = enc_head OP_OPENATTR st"
| "encode_nfs_resop4 (Res_DelegPurge st) = enc_head OP_DELEGPURGE st"
| "encode_nfs_resop4 (Res_Verify st) = enc_head OP_VERIFY st"
| "encode_nfs_resop4 (Res_Nverify st) = enc_head OP_NVERIFY st"
| "encode_nfs_resop4 (Res_OpenDowngrade st stateid) =
     enc_ok OP_OPEN_DOWNGRADE st (enc_opt encode_stateid4 stateid)"
| "encode_nfs_resop4 (Res_LayoutGet st res) =
     enc_head OP_LAYOUTGET st @ encode_layout_get_res4 st res"
| "encode_nfs_resop4 (Res_LayoutReturn st res) =
     enc_ok OP_LAYOUTRETURN st (enc_opt encode_layout_return_stateid4 res)"
| "encode_nfs_resop4 (Res_LayoutCommit st res) =
     enc_ok OP_LAYOUTCOMMIT st (enc_opt encode_newsize4 res)"
| "encode_nfs_resop4 (Res_GetDirDelegation st res) =
     enc_ok OP_GET_DIR_DELEGATION st (enc_opt encode_get_dir_delegation_res4 res)"
| "encode_nfs_resop4 (Res_WantDelegation st res) =
     enc_ok OP_WANT_DELEGATION st (enc_opt encode_open_delegation res)"
| "encode_nfs_resop4 (Res_BackchannelCtl st) = enc_head OP_BACKCHANNEL_CTL st"
| "encode_nfs_resop4 (Res_GetDeviceInfo st res) =
     enc_head OP_GETDEVICEINFO st @ encode_get_device_info_res4 st res"
| "encode_nfs_resop4 (Res_GetDeviceList st res) =
     enc_ok OP_GETDEVICELIST st (enc_opt encode_get_device_list_res_ok4 res)"
| "encode_nfs_resop4 (Res_SetSsv st res) = enc_ok OP_SET_SSV st (enc_opt encode_opaque res)"
| "encode_nfs_resop4 (Res_Getxattr st value) =
     enc_ok OP_GETXATTR st (enc_opt encode_opaque value)"
| "encode_nfs_resop4 (Res_Setxattr st cinfo) =
     enc_ok OP_SETXATTR st (enc_opt encode_change_info4 cinfo)"
| "encode_nfs_resop4 (Res_Listxattrs st res) =
     enc_ok OP_LISTXATTRS st (enc_opt encode_listxattrs_res_ok4 res)"
| "encode_nfs_resop4 (Res_Removexattr st cinfo) =
     enc_ok OP_REMOVEXATTR st (enc_opt encode_change_info4 cinfo)"
| "encode_nfs_resop4 (Res_Unsupported opnum st) = enc_head opnum st"
| "encode_nfs_resop4 (Res_Illegal st) = enc_head OP_ILLEGAL st"

definition encode_compound4_res :: "compound4_res \<Rightarrow> bytes" where
  "encode_compound4_res r =
     encode_nfsstat4 (cq_status r) @ encode_string (cq_tag r)
     @ encode_u32 (word_of_nat (length (cq_resarray r)))
     @ concat (map encode_nfs_resop4 (cq_resarray r))"

end
