(* ===== verification/Wire_Properties.thy ===== *)
theory Wire_Properties
  imports Codec
begin

text \<open>
  What the request decoder guarantees to the rest of the server: fixed-length fields have their
  length, bounded fields respect their bound, strings are UTF-8, and the number of operations is
  bounded by the number of bytes received.
\<close>

lemma compound_args_consume:
  assumes "decode_compound4_args src = Inr (a, rest)"
  shows "length rest + 4 * length (cp_argarray a) + 12 \<le> length src"
proof -
  obtain tag src1 mv src2 n src3 where tag: "decode_string src = Inr (tag, src1)"
    and mv: "decode_u32 src1 = Inr (mv, src2)" and n: "decode_u32 src2 = Inr (n, src3)"
    and ops: "decode_items decode_nfs_argop4 (unat n) src3 = Inr (cp_argarray a, rest)"
    using assms by (auto simp: decode_compound4_args_def dec_bind_eq_Inr dec_return_def)
  have "length src1 + 4 \<le> length src"
  proof -
    obtain len src' where len: "decode_u32 src = Inr (len, src')" and rest: "suffix src1 src'"
      using tag dec_soundD(2) [OF fixed_opaque_sound]
      by (auto simp: decode_string_def decode_opaque_eq string_from_utf8_def dec_bind_eq_Inr dec_return_def
          dec_fail_def split: if_splits)
    have "length src' + 4 \<le> length src"
      using len by (auto simp: decode_u32_def split: if_splits)
    with suffix_length_le [OF rest] show ?thesis by simp
  qed
  moreover have "length src2 + 4 = length src1" "length src3 + 4 = length src2"
    using mv n by (auto simp: decode_u32_def split: if_splits)
  ultimately show ?thesis
    using argops_consume [OF ops] by simp
qed

text \<open>
  C32. Type: whatever the bytes, a COMPOUND request the decoder accepts is well formed (every stateid
  has 12 bytes, every session id 16, every verifier 8, every file handle at most 128, every owner at
  most 1024, every name is valid UTF-8), what is left is a tail of the input, and the request has at
  most one operation per four bytes received, whatever count the client announced.
\<close>

theorem decoded_request_is_well_formed:
  assumes "decode_compound4_args src = Inr (a, rest)"
  shows "string_ok (cp_tag a) \<and> list_all argop_ok (cp_argarray a) \<and> suffix rest src
    \<and> 4 * length (cp_argarray a) + 12 \<le> length src"
  using dec_soundD [OF compound_args_sound assms] compound_args_consume [OF assms]
  by (simp add: compound_args_ok_def)

text \<open>PUTROOTFH and GETFH, in a request of minor version 1 with an empty tag.\<close>

definition demo_request :: bytes where
  "demo_request = [0,0,0,0, 0,0,0,1, 0,0,0,2, 0,0,0,24, 0,0,0,10]"

lemma decoded_request_is_well_formed_witness:
  "decode_compound4_args demo_request
     = Inr (\<lparr>cp_tag = [], cp_minorversion = 1, cp_argarray = [Arg_Putrootfh, Arg_Getfh]\<rparr>, [])
   \<and> list_all argop_ok [Arg_Putrootfh, Arg_Getfh]
   \<and> 4 * length [Arg_Putrootfh, Arg_Getfh] + 12 \<le> length demo_request"
proof -
  have d: "decode_compound4_args demo_request
      = Inr (\<lparr>cp_tag = [], cp_minorversion = 1, cp_argarray = [Arg_Putrootfh, Arg_Getfh]\<rparr>, [])"
    by code_simp
  from decoded_request_is_well_formed [OF d] d show ?thesis by simp
qed

end
