(* ===== verification/Server.thy ===== *)
theory Server
  imports Filehandles Metadata Rpc Codec
begin

text \<open>
  The core of the server, \<^verbatim>\<open>crates/embednfs/src/server/mod.rs\<close>, \<open>objects.rs\<close> and \<open>retirement.rs\<close>: the
  backend interface, the server's state, the authentication policy, the registry of backend handles
  and the thin wrappers through which the operation handlers reach the backend.

  The backend is code of the embedder. It is the parameter \<open>F\<close> of the definitions, a record with one
  function per trait method; a method maps the backend's state to its next state and a result. A
  handler is a function on the server state: between its steps nothing else runs, the wait of a
  delegation recall apart.
\<close>

section \<open>The backend interface\<close>

record ('fs, 'h) xattrs_impl =
  xi_list_xattrs :: "request_context \<Rightarrow> 'h \<Rightarrow> 'fs \<Rightarrow> 'fs \<times> rust_string list fs_result"
  xi_get_xattr :: "request_context \<Rightarrow> 'h \<Rightarrow> rust_string \<Rightarrow> 'fs \<Rightarrow> 'fs \<times> bytes fs_result"
  xi_set_xattr :: "request_context \<Rightarrow> 'h \<Rightarrow> rust_string \<Rightarrow> bytes \<Rightarrow> xattr_set_mode \<Rightarrow> 'fs \<Rightarrow> 'fs \<times> unit fs_result"
  xi_remove_xattr :: "request_context \<Rightarrow> 'h \<Rightarrow> rust_string \<Rightarrow> 'fs \<Rightarrow> 'fs \<times> unit fs_result"

record ('fs, 'h) symlinks_impl =
  sy_create_symlink :: "request_context \<Rightarrow> 'h \<Rightarrow> rust_string \<Rightarrow> rust_string \<Rightarrow> set_attrs \<Rightarrow> 'fs
     \<Rightarrow> 'fs \<times> 'h create_result fs_result"
  sy_readlink :: "request_context \<Rightarrow> 'h \<Rightarrow> 'fs \<Rightarrow> 'fs \<times> rust_string fs_result"

record ('fs, 'h) hard_links_impl =
  hl_link :: "request_context \<Rightarrow> 'h \<Rightarrow> 'h \<Rightarrow> rust_string \<Rightarrow> 'fs \<Rightarrow> 'fs \<times> unit fs_result"

record ('fs, 'h) commit_support_impl =
  cs_commit :: "request_context \<Rightarrow> 'h \<Rightarrow> u64 \<Rightarrow> u32 \<Rightarrow> 'fs \<Rightarrow> 'fs \<times> unit fs_result"

record ('fs, 'h) open_lifecycle_impl =
  lc_on_open :: "request_context \<Rightarrow> 'h \<Rightarrow> bool \<Rightarrow> 'fs \<Rightarrow> 'fs \<times> unit fs_result"
  lc_on_close :: "request_context \<Rightarrow> 'h \<Rightarrow> bool \<Rightarrow> 'fs \<Rightarrow> 'fs \<times> unit fs_result"

record ('fs, 'h) persistent_handles_impl =
  ph_encode_handle :: "'h \<Rightarrow> bytes option"
  ph_decode_handle :: "bytes \<Rightarrow> 'fs \<Rightarrow> 'fs \<times> 'h fs_result"

record ('fs, 'h) file_system =
  fs_root :: 'h
  fs_caps :: fs_capabilities
  fs_lims :: fs_limits
  fs_statfs :: "request_context \<Rightarrow> 'h \<Rightarrow> 'fs \<Rightarrow> 'fs \<times> fs_stats fs_result"
  fs_getattr :: "request_context \<Rightarrow> 'h \<Rightarrow> 'fs \<Rightarrow> 'fs \<times> attrs fs_result"
  fs_access :: "request_context \<Rightarrow> 'h \<Rightarrow> access_mask \<Rightarrow> 'fs \<Rightarrow> 'fs \<times> access_mask fs_result"
  fs_lookup :: "request_context \<Rightarrow> 'h \<Rightarrow> rust_string \<Rightarrow> 'fs \<Rightarrow> 'fs \<times> 'h fs_result"
  fs_parent :: "request_context \<Rightarrow> 'h \<Rightarrow> 'fs \<Rightarrow> 'fs \<times> 'h option fs_result"
  fs_readdir :: "request_context \<Rightarrow> 'h \<Rightarrow> u64 \<Rightarrow> u32 \<Rightarrow> bool \<Rightarrow> 'fs \<Rightarrow> 'fs \<times> 'h dir_page fs_result"
  fs_read :: "request_context \<Rightarrow> 'h \<Rightarrow> u64 \<Rightarrow> u32 \<Rightarrow> 'fs \<Rightarrow> 'fs \<times> read_result fs_result"
  fs_write :: "request_context \<Rightarrow> 'h \<Rightarrow> u64 \<Rightarrow> bytes \<Rightarrow> write_stability \<Rightarrow> 'fs \<Rightarrow> 'fs \<times> write_result fs_result"
  fs_create :: "request_context \<Rightarrow> 'h \<Rightarrow> rust_string \<Rightarrow> create_request \<Rightarrow> 'fs \<Rightarrow> 'fs \<times> 'h create_result fs_result"
  fs_remove :: "request_context \<Rightarrow> 'h \<Rightarrow> rust_string \<Rightarrow> 'fs \<Rightarrow> 'fs \<times> unit fs_result"
  fs_rename :: "request_context \<Rightarrow> 'h \<Rightarrow> rust_string \<Rightarrow> 'h \<Rightarrow> rust_string \<Rightarrow> 'fs \<Rightarrow> 'fs \<times> unit fs_result"
  fs_setattr :: "request_context \<Rightarrow> 'h \<Rightarrow> set_attrs \<Rightarrow> 'fs \<Rightarrow> 'fs \<times> attrs fs_result"
  fs_xattrs :: "('fs, 'h) xattrs_impl option"
  fs_symlinks :: "('fs, 'h) symlinks_impl option"
  fs_hard_links :: "('fs, 'h) hard_links_impl option"
  fs_commit_support :: "('fs, 'h) commit_support_impl option"
  fs_open_lifecycle :: "('fs, 'h) open_lifecycle_impl option"
  fs_persistent_handles :: "('fs, 'h) persistent_handles_impl option"

section \<open>Policy and configuration\<close>

text \<open>Decimal rendering, \<^verbatim>\<open>u32::to_string\<close>.\<close>

fun decimal :: "nat \<Rightarrow> rust_string" where
  "decimal n = (if n < 10 then [word_of_nat (48 + n)] else decimal (n div 10) @ [word_of_nat (48 + n mod 10)])"

declare decimal.simps [simp del]

record id_mapper =
  map_owner :: "u32 \<Rightarrow> rust_string"
  map_group :: "u32 \<Rightarrow> rust_string"

definition numeric_id_mapper :: id_mapper where
  "numeric_id_mapper = \<lparr>map_owner = (\<lambda>uid. decimal (unat uid)), map_group = (\<lambda>gid. decimal (unat gid))\<rparr>"

type_synonym auth_policy = "auth_flavor list"

definition auth_policy_sys_only :: auth_policy where
  "auth_policy_sys_only = [Auth_Sys]"

definition auth_policy_sys_and_none :: auth_policy where
  "auth_policy_sys_and_none = [Auth_Sys, Auth_None]"

definition auth_policy_allows :: "auth_policy \<Rightarrow> u32 \<Rightarrow> bool" where
  "auth_policy_allows policy flavor = (\<exists>f\<in>set policy. auth_flavor_to_u32 f = flavor)"

text \<open>Times are in milliseconds.\<close>

record delegation_config =
  dc_directory_delegations :: bool
  dc_recall_timeout :: nat
  dc_max_delegations_per_client :: nat
  dc_max_delegations_total :: nat

definition delegation_config_default :: delegation_config where
  "delegation_config_default = \<lparr>dc_directory_delegations = False, dc_recall_timeout = 5000,
     dc_max_delegations_per_client = 1024, dc_max_delegations_total = 16384\<rparr>"

section \<open>The state of the server\<close>

text \<open>
  The connections of the back channel carry a channel to their writer; only which connections exist
  matters here. A waiter is a callback whose reply is awaited, named by connection and transaction id.
\<close>

record backchannel_manager =
  bm_connections :: "u64 hset"
  bm_waiters :: "(u64 \<times> u32) hset"
  bm_next_xid :: u32

definition backchannel_manager_default :: backchannel_manager where
  "backchannel_manager_default = \<lparr>bm_connections = [], bm_waiters = [], bm_next_xid = 0\<rparr>"

text \<open>
  \<^verbatim>\<open>NfsServer\<close>, and the two clocks it reads: a monotonic clock in milliseconds and the wall clock.
\<close>

record ('fs, 'h) nfs_server =
  ns_fs :: 'fs
  ns_state :: state_manager
  ns_handle_to_object :: "('h, object_id) hmap"
  ns_object_to_handle :: "(object_id, 'h) hmap"
  ns_next_object_id :: u64
  ns_retired :: "('h \<Rightarrow> bool) list"
  ns_id_mapper :: id_mapper
  ns_delegation_config :: delegation_config
  ns_auth_policy :: auth_policy
  ns_backchannels :: backchannel_manager
  ns_millis :: nat
  ns_wall :: timestamp

definition server_build :: "'fs \<Rightarrow> state_manager \<Rightarrow> id_mapper \<Rightarrow> delegation_config \<Rightarrow> auth_policy
     \<Rightarrow> nat \<Rightarrow> timestamp \<Rightarrow> ('fs, 'h) nfs_server" where
  "server_build fs state mapper config policy millis wall =
     \<lparr>ns_fs = fs, ns_state = state, ns_handle_to_object = [], ns_object_to_handle = [],
      ns_next_object_id = 1, ns_retired = [], ns_id_mapper = mapper, ns_delegation_config = config,
      ns_auth_policy = policy, ns_backchannels = backchannel_manager_default,
      ns_millis = millis, ns_wall = wall\<rparr>"

definition instant_of :: "nat \<Rightarrow> instant" where
  "instant_of millis = millis div 1000"

section \<open>Handlers\<close>

type_synonym ('fs, 'h, 'a) srv = "('fs, 'h) nfs_server \<Rightarrow> ('fs, 'h) nfs_server \<times> 'a"

definition srv_return :: "'a \<Rightarrow> ('fs, 'h, 'a) srv" where
  "srv_return x s = (s, x)"

definition srv_bind :: "('fs, 'h, 'a) srv \<Rightarrow> ('a \<Rightarrow> ('fs, 'h, 'b) srv) \<Rightarrow> ('fs, 'h, 'b) srv" where
  "srv_bind m k s = (case m s of (s', x) \<Rightarrow> k x s')"

text \<open>The \<^verbatim>\<open>?\<close> operator, and a match whose error arm returns from the handler.\<close>

definition srv_try :: "('fs, 'h, 'e + 'a) srv \<Rightarrow> ('a \<Rightarrow> ('fs, 'h, 'e + 'b) srv) \<Rightarrow> ('fs, 'h, 'e + 'b) srv" where
  "srv_try m k = srv_bind m (\<lambda>r. case r of Inl e \<Rightarrow> srv_return (Inl e) | Inr x \<Rightarrow> k x)"

definition srv_else :: "('fs, 'h, 'e + 'a) srv \<Rightarrow> ('e \<Rightarrow> 'b) \<Rightarrow> ('a \<Rightarrow> ('fs, 'h, 'b) srv) \<Rightarrow> ('fs, 'h, 'b) srv" where
  "srv_else m out k = srv_bind m (\<lambda>r. case r of Inl e \<Rightarrow> srv_return (out e) | Inr x \<Rightarrow> k x)"

definition srv_map :: "('a \<Rightarrow> 'b) \<Rightarrow> ('fs, 'h, 'a) srv \<Rightarrow> ('fs, 'h, 'b) srv" where
  "srv_map f m = srv_bind m (\<lambda>x. srv_return (f x))"

definition srv_guard :: "bool \<Rightarrow> ('fs, 'h, 'e + unit) srv \<Rightarrow> ('fs, 'h, 'e + unit) srv" where
  "srv_guard b m = (if b then m else srv_return (Inr ()))"

text \<open>Calls of the backend, of the state manager at the present instant, and at the present time of day.\<close>

definition fs_op :: "('fs \<Rightarrow> 'fs \<times> 'a) \<Rightarrow> ('fs, 'h, 'a) srv" where
  "fs_op f s = (case f (ns_fs s) of (fs, r) \<Rightarrow> (s\<lparr>ns_fs := fs\<rparr>, r))"

definition state_op :: "(state_manager \<Rightarrow> instant \<Rightarrow> state_manager \<times> 'a) \<Rightarrow> ('fs, 'h, 'a) srv" where
  "state_op f s = (case f (ns_state s) (instant_of (ns_millis s)) of (sm, r) \<Rightarrow> (s\<lparr>ns_state := sm\<rparr>, r))"

definition meta_op :: "(state_manager \<Rightarrow> timestamp \<Rightarrow> state_manager \<times> 'a) \<Rightarrow> ('fs, 'h, 'a) srv" where
  "meta_op f s = (case f (ns_state s) (ns_wall s) of (sm, r) \<Rightarrow> (s\<lparr>ns_state := sm\<rparr>, r))"

definition srv_get :: "(('fs, 'h) nfs_server \<Rightarrow> 'a) \<Rightarrow> ('fs, 'h, 'a) srv" where
  "srv_get f s = (s, f s)"

section \<open>Retirement fences and the handle registry\<close>

definition fence_install :: "('h \<Rightarrow> bool) \<Rightarrow> ('h \<Rightarrow> bool) list \<Rightarrow> ('h \<Rightarrow> bool) list" where
  "fence_install fence fences = fences @ [fence]"

definition fence_is_retired :: "('h \<Rightarrow> bool) list \<Rightarrow> 'h \<Rightarrow> bool" where
  "fence_is_retired fences handle = (\<exists>f\<in>set fences. f handle)"

text \<open>
  The two tables change together under the registration lock, and the persistent name is recorded
  before the identifier is known to anyone.
\<close>

definition persistent_name :: "('fs, 'h) file_system \<Rightarrow> 'h \<Rightarrow> bytes option" where
  "persistent_name F handle = (case fs_persistent_handles F of
       None \<Rightarrow> None
     | Some names \<Rightarrow>
         (case ph_encode_handle names handle of
            None \<Rightarrow> None
          | Some e \<Rightarrow> if e \<noteq> [] \<and> length e \<le> MAX_PERSISTENT_HANDLE_LEN then Some e else None))"

definition register_handle :: "('fs, 'h) file_system \<Rightarrow> 'h \<Rightarrow> ('fs, 'h, object_id fs_result) srv" where
  "register_handle F handle s =
     (case hm_get (ns_handle_to_object s) handle of
        Some i \<Rightarrow> (s, Inr i)
      | None \<Rightarrow>
          if fence_is_retired (ns_retired s) handle then (s, Inl Fse_Stale)
          else
            let i = ns_next_object_id s in
            (s\<lparr>ns_next_object_id := i + 1,
               ns_handle_to_object := hm_insert handle i (ns_handle_to_object s),
               ns_object_to_handle := hm_insert i handle (ns_object_to_handle s),
               ns_state := (case persistent_name F handle of
                   None \<Rightarrow> ns_state s
                 | Some encoded \<Rightarrow> record_persistent_fh (ns_state s) i encoded)\<rparr>, Inr i))"

definition object_from_handle :: "('fs, 'h) file_system \<Rightarrow> 'h \<Rightarrow> ('fs, 'h, server_object fs_result) srv" where
  "object_from_handle F handle = srv_try (register_handle F handle) (\<lambda>i. srv_return (Inr (Obj_Fs i)))"

definition root_object :: "('fs, 'h) file_system \<Rightarrow> ('fs, 'h, server_object fs_result) srv" where
  "root_object F = object_from_handle F (fs_root F)"

definition resolve_backend_handle :: "object_id \<Rightarrow> ('fs, 'h, 'h fs_result) srv" where
  "resolve_backend_handle object_id s = (s, ok_or Fse_BadHandle (hm_get (ns_object_to_handle s) object_id))"

text \<open>\<^verbatim>\<open>StateManager::object_to_fh\<close> on the server's state manager.\<close>

definition mint_fh :: "server_object \<Rightarrow> ('fs, 'h, nfs_fh4 option) srv" where
  "mint_fh object = state_op (\<lambda>sm now. object_to_fh sm object)"

definition decode_handle_status :: "fs_error \<Rightarrow> nfsstat4" where
  "decode_handle_status e = (case e of
       Fse_Delay \<Rightarrow> Stat_Delay
     | Fse_Stale \<Rightarrow> Stat_Stale | Fse_NotFound \<Rightarrow> Stat_Stale
     | Fse_BadHandle \<Rightarrow> Stat_Stale | Fse_InvalidInput \<Rightarrow> Stat_Stale
     | other \<Rightarrow> fs_error_to_nfsstat4 other)"

definition decode_persistent_fh ::
  "('fs, 'h) file_system \<Rightarrow> nfs_fh4 \<Rightarrow> ('fs, 'h, nfsstat4 + server_object) srv" where
  "decode_persistent_fh F fh =
     (case persistent_fh_body fh of
        None \<Rightarrow> srv_return (Inl Stat_Stale)
      | Some body \<Rightarrow>
         (case fs_persistent_handles F of
            None \<Rightarrow> srv_return (Inl Stat_Stale)
          | Some names \<Rightarrow>
              srv_else (fs_op (ph_decode_handle names body)) (\<lambda>e. Inl (decode_handle_status e)) (\<lambda>handle.
              srv_else (register_handle F handle) (\<lambda>e. Inl (fs_error_to_nfsstat4 e)) (\<lambda>i.
              srv_bind (mint_fh (Obj_Fs i)) (\<lambda>minted.
              srv_return (if minted = Some fh then Inr (Obj_Fs i) else Inl Stat_Stale))))))"

definition resolve_object ::
  "('fs, 'h) file_system \<Rightarrow> nfs_fh4 option \<Rightarrow> ('fs, 'h, nfsstat4 + nfs_fh4 \<times> server_object) srv" where
  "resolve_object F fh =
     (case fh of
        None \<Rightarrow> srv_return (Inl Stat_Nofilehandle)
      | Some fh \<Rightarrow>
          srv_bind (srv_get (\<lambda>s. fh_to_object (ns_state s) fh)) (\<lambda>known.
          case known of
            Some object \<Rightarrow> srv_return (Inr (fh, object))
          | None \<Rightarrow> srv_try (decode_persistent_fh F fh) (\<lambda>object. srv_return (Inr (fh, object)))))"

section \<open>Credentials\<close>

definition fh_has_valid_format :: "nfs_fh4 \<Rightarrow> bool" where
  "fh_has_valid_format fh \<longleftrightarrow> length fh = FH_LEN \<or> persistent_fh_body fh \<noteq> None"

definition parse_auth_sys :: "bytes \<Rightarrow> auth_sys_params option" where
  "parse_auth_sys body = (case decode_auth_sys_params body of
       Inl _ \<Rightarrow> None
     | Inr (params, rest) \<Rightarrow> if rest = [] then Some params else None)"

definition validate_rpc_auth :: "auth_policy \<Rightarrow> rpc_call_header \<Rightarrow> auth_stat + unit" where
  "validate_rpc_auth policy call =
     (if \<not> auth_policy_allows policy (oa_flavor (rc_cred call)) then Inl AuthStat_TooWeak
      else if oa_flavor (rc_cred call) = auth_flavor_to_u32 Auth_Sys
        \<and> parse_auth_sys (oa_body (rc_cred call)) = None then Inl AuthStat_BadCred
      else if oa_flavor (rc_verf call) = auth_flavor_to_u32 Auth_Sys
        \<and> parse_auth_sys (oa_body (rc_verf call)) = None then Inl AuthStat_BadVerf
      else Inr ())"

definition secinfo_flavors :: "auth_policy \<Rightarrow> secinfo_entry4 list" where
  "secinfo_flavors policy = map (\<lambda>flavor. \<lparr>se_flavor = auth_flavor_to_u32 flavor\<rparr>) policy"

definition request_context :: "opaque_auth \<Rightarrow> request_context" where
  "request_context cred =
     \<lparr>rc_auth =
        (if oa_flavor cred = auth_flavor_to_u32 Auth_None then Ctx_None
         else if oa_flavor cred = auth_flavor_to_u32 Auth_Sys then
           (case parse_auth_sys (oa_body cred) of
              Some params \<Rightarrow> Ctx_Sys (as_uid params) (as_gid params) (as_gids params)
            | None \<Rightarrow> Ctx_Unknown (oa_flavor cred))
         else Ctx_Unknown (oa_flavor cred))\<rparr>"

section \<open>Backend calls by object identifier\<close>

definition statfs_id ::
  "('fs, 'h) file_system \<Rightarrow> request_context \<Rightarrow> object_id \<Rightarrow> ('fs, 'h, fs_stats fs_result) srv" where
  "statfs_id F ctx i = srv_try (resolve_backend_handle i) (\<lambda>handle. fs_op (fs_statfs F ctx handle))"

definition statfs_for_object ::
  "('fs, 'h) file_system \<Rightarrow> request_context \<Rightarrow> server_object \<Rightarrow> ('fs, 'h, fs_stats fs_result) srv" where
  "statfs_for_object F ctx object = (case object of
       Obj_Fs i \<Rightarrow> statfs_id F ctx i
     | Obj_NamedAttrDir i \<Rightarrow> statfs_id F ctx i
     | Obj_NamedAttrFile i name \<Rightarrow> statfs_id F ctx i)"

definition getattr_id ::
  "('fs, 'h) file_system \<Rightarrow> request_context \<Rightarrow> object_id \<Rightarrow> ('fs, 'h, attrs fs_result) srv" where
  "getattr_id F ctx i = srv_try (resolve_backend_handle i) (\<lambda>handle. fs_op (fs_getattr F ctx handle))"

definition kind_of ::
  "('fs, 'h) file_system \<Rightarrow> request_context \<Rightarrow> object_id \<Rightarrow> ('fs, 'h, object_type fs_result) srv" where
  "kind_of F ctx i = srv_try (getattr_id F ctx i) (\<lambda>attrs. srv_return (Inr (at_object_type attrs)))"

definition access_for ::
  "('fs, 'h) file_system \<Rightarrow> request_context \<Rightarrow> object_id \<Rightarrow> access_mask \<Rightarrow> ('fs, 'h, access_mask fs_result) srv" where
  "access_for F ctx i requested =
     srv_try (resolve_backend_handle i) (\<lambda>handle. fs_op (fs_access F ctx handle requested))"

definition require_access ::
  "('fs, 'h) file_system \<Rightarrow> request_context \<Rightarrow> object_id \<Rightarrow> access_mask \<Rightarrow> ('fs, 'h, nfsstat4 + unit) srv" where
  "require_access F ctx i need =
     srv_else (access_for F ctx i need) (\<lambda>e. Inl (fs_error_to_nfsstat4 e)) (\<lambda>granted.
     srv_return (if access_contains granted need then Inr () else Inl Stat_Access))"

definition lookup_id ::
  "('fs, 'h) file_system \<Rightarrow> request_context \<Rightarrow> object_id \<Rightarrow> rust_string \<Rightarrow> ('fs, 'h, object_id fs_result) srv" where
  "lookup_id F ctx dir_id name =
     srv_try (resolve_backend_handle dir_id) (\<lambda>handle.
     srv_try (fs_op (fs_lookup F ctx handle name)) (\<lambda>child.
     register_handle F child))"

definition lookup_parent ::
  "('fs, 'h) file_system \<Rightarrow> request_context \<Rightarrow> object_id \<Rightarrow> ('fs, 'h, object_id fs_result) srv" where
  "lookup_parent F ctx dir_id =
     srv_try (resolve_backend_handle dir_id) (\<lambda>handle.
     srv_try (fs_op (fs_parent F ctx handle)) (\<lambda>parent.
     case parent of
       Some handle \<Rightarrow> register_handle F handle
     | None \<Rightarrow> srv_return (Inl Fse_NotFound)))"

definition read_id ::
  "('fs, 'h) file_system \<Rightarrow> request_context \<Rightarrow> object_id \<Rightarrow> u64 \<Rightarrow> u32 \<Rightarrow> ('fs, 'h, (bytes \<times> bool) fs_result) srv" where
  "read_id F ctx i offset count =
     srv_try (resolve_backend_handle i) (\<lambda>handle.
     srv_try (fs_op (fs_read F ctx handle offset count)) (\<lambda>res.
     srv_return (Inr (rr_data res, rr_eof res))))"

definition write_id ::
  "('fs, 'h) file_system \<Rightarrow> request_context \<Rightarrow> object_id \<Rightarrow> u64 \<Rightarrow> bytes \<Rightarrow> write_stability
     \<Rightarrow> ('fs, 'h, write_result fs_result) srv" where
  "write_id F ctx i offset data requested =
     srv_try (resolve_backend_handle i) (\<lambda>handle. fs_op (fs_write F ctx handle offset data requested))"

definition create_id ::
  "('fs, 'h) file_system \<Rightarrow> request_context \<Rightarrow> object_id \<Rightarrow> rust_string \<Rightarrow> create_kind \<Rightarrow> set_attrs
     \<Rightarrow> ('fs, 'h, object_id create_result fs_result) srv" where
  "create_id F ctx dir_id name kind attrs =
     srv_try (resolve_backend_handle dir_id) (\<lambda>handle.
     srv_try (fs_op (fs_create F ctx handle name \<lparr>crq_kind = kind, crq_attrs = attrs\<rparr>)) (\<lambda>created.
     srv_try (register_handle F (crs_handle created)) (\<lambda>i.
     srv_return (Inr \<lparr>crs_handle = i, crs_attrs = crs_attrs created\<rparr>))))"

definition create_file ::
  "('fs, 'h) file_system \<Rightarrow> request_context \<Rightarrow> object_id \<Rightarrow> rust_string \<Rightarrow> set_attrs
     \<Rightarrow> ('fs, 'h, object_id create_result fs_result) srv" where
  "create_file F ctx dir_id name attrs = create_id F ctx dir_id name Ck_File attrs"

definition create_dir ::
  "('fs, 'h) file_system \<Rightarrow> request_context \<Rightarrow> object_id \<Rightarrow> rust_string \<Rightarrow> set_attrs
     \<Rightarrow> ('fs, 'h, object_id create_result fs_result) srv" where
  "create_dir F ctx dir_id name attrs = create_id F ctx dir_id name Ck_Directory attrs"

definition remove_id ::
  "('fs, 'h) file_system \<Rightarrow> request_context \<Rightarrow> object_id \<Rightarrow> rust_string \<Rightarrow> ('fs, 'h, unit fs_result) srv" where
  "remove_id F ctx dir_id name =
     srv_try (resolve_backend_handle dir_id) (\<lambda>handle. fs_op (fs_remove F ctx handle name))"

definition rename_id ::
  "('fs, 'h) file_system \<Rightarrow> request_context \<Rightarrow> object_id \<Rightarrow> rust_string \<Rightarrow> object_id \<Rightarrow> rust_string
     \<Rightarrow> ('fs, 'h, unit fs_result) srv" where
  "rename_id F ctx from_dir from_name to_dir to_name =
     srv_try (resolve_backend_handle from_dir) (\<lambda>from_handle.
     srv_try (resolve_backend_handle to_dir) (\<lambda>to_handle.
     fs_op (fs_rename F ctx from_handle from_name to_handle to_name)))"

text \<open>An entry whose handle cannot be registered is left out of the page.\<close>

primrec register_entries ::
  "('fs, 'h) file_system \<Rightarrow> 'h dir_entry list \<Rightarrow> ('fs, 'h, object_id dir_entry list) srv" where
  "register_entries F [] = srv_return []"
| "register_entries F (entry # entries) =
     srv_bind (register_handle F (de_handle entry)) (\<lambda>r.
     srv_bind (register_entries F entries) (\<lambda>rest.
     srv_return (case r of
         Inl _ \<Rightarrow> rest
       | Inr i \<Rightarrow> \<lparr>de_name = de_name entry, de_handle = i, de_cookie = de_cookie entry,
           de_attrs = de_attrs entry\<rparr> # rest)))"

definition readdir_id ::
  "('fs, 'h) file_system \<Rightarrow> request_context \<Rightarrow> object_id \<Rightarrow> u64 \<Rightarrow> u32 \<Rightarrow> bool
     \<Rightarrow> ('fs, 'h, object_id dir_page fs_result) srv" where
  "readdir_id F ctx dir_id cookie max_entries with_attrs =
     srv_try (resolve_backend_handle dir_id) (\<lambda>handle.
     srv_try (fs_op (fs_readdir F ctx handle cookie max_entries with_attrs)) (\<lambda>page.
     srv_bind (register_entries F (dp_entries page)) (\<lambda>entries.
     srv_return (Inr \<lparr>dp_entries = entries, dp_eof = dp_eof page\<rparr>))))"

definition setattr_real ::
  "('fs, 'h) file_system \<Rightarrow> request_context \<Rightarrow> object_id \<Rightarrow> set_attrs \<Rightarrow> ('fs, 'h, attrs fs_result) srv" where
  "setattr_real F ctx i attrs =
     srv_try (resolve_backend_handle i) (\<lambda>handle. fs_op (fs_setattr F ctx handle attrs))"

section \<open>Access bits\<close>

definition ACCESS4_READ :: u32 where "ACCESS4_READ = 0x00000001"
definition ACCESS4_LOOKUP :: u32 where "ACCESS4_LOOKUP = 0x00000002"
definition ACCESS4_MODIFY :: u32 where "ACCESS4_MODIFY = 0x00000004"
definition ACCESS4_EXTEND :: u32 where "ACCESS4_EXTEND = 0x00000008"
definition ACCESS4_DELETE :: u32 where "ACCESS4_DELETE = 0x00000010"
definition ACCESS4_EXECUTE :: u32 where "ACCESS4_EXECUTE = 0x00000020"
definition ACCESS4_XAREAD :: u32 where "ACCESS4_XAREAD = 0x00000040"
definition ACCESS4_XAWRITE :: u32 where "ACCESS4_XAWRITE = 0x00000080"
definition ACCESS4_XALIST :: u32 where "ACCESS4_XALIST = 0x00000100"

lemmas access4_defs = ACCESS4_READ_def ACCESS4_LOOKUP_def ACCESS4_MODIFY_def ACCESS4_EXTEND_def
  ACCESS4_DELETE_def ACCESS4_EXECUTE_def ACCESS4_XAREAD_def ACCESS4_XAWRITE_def ACCESS4_XALIST_def

text \<open>The right and the protocol bit that stand for each other, in the order of the code.\<close>

definition access_table :: "(u32 \<times> access_mask) list" where
  "access_table =
     [(ACCESS4_READ, ACCESS_READ), (ACCESS4_LOOKUP, ACCESS_LOOKUP), (ACCESS4_MODIFY, ACCESS_MODIFY),
      (ACCESS4_EXTEND, ACCESS_EXTEND), (ACCESS4_DELETE, ACCESS_DELETE), (ACCESS4_EXECUTE, ACCESS_EXECUTE),
      (ACCESS4_XAREAD, ACCESS_XATTR_READ), (ACCESS4_XAWRITE, ACCESS_XATTR_WRITE),
      (ACCESS4_XALIST, ACCESS_XATTR_LIST)]"

definition nfs_access_mask :: "u32 \<Rightarrow> access_mask" where
  "nfs_access_mask bits =
     fold (\<lambda>(bit, right) out. if bits AND bit \<noteq> 0 then out OR right else out) access_table ACCESS_NONE"

definition access_bits :: "access_mask \<Rightarrow> u32" where
  "access_bits granted =
     fold (\<lambda>(bit, right) out. if access_intersects granted right then out OR bit else out) access_table 0"

section \<open>Names and lengths\<close>

definition UNSTABLE4 :: u32 where "UNSTABLE4 = 0"
definition DATA_SYNC4 :: u32 where "DATA_SYNC4 = 1"
definition FILE_SYNC4 :: u32 where "FILE_SYNC4 = 2"

primrec committed_how :: "write_stability \<Rightarrow> u32" where
  "committed_how Ws_Unstable = UNSTABLE4"
| "committed_how Ws_DataSync = DATA_SYNC4"
| "committed_how Ws_FileSync = FILE_SYNC4"

definition validate_component_name :: "('fs, 'h) file_system \<Rightarrow> rust_string \<Rightarrow> nfsstat4 + unit" where
  "validate_component_name F name =
     (if name = [] then Inl Stat_Inval
      else if name = [46] \<or> name = [46, 46] then Inl Stat_Badname
      else if 47 \<in> set name then Inl Stat_Badchar
      else if length name > unat (lim_max_name_bytes (fs_lims F)) then Inl Stat_Nametoolong
      else Inr ())"

definition xdr_opaque_len :: "nat \<Rightarrow> nat" where
  "xdr_opaque_len len = 4 + len + xdr_pad len"

definition xdr_bitmap4_len :: "bitmap4 \<Rightarrow> nat" where
  "xdr_bitmap4_len bitmap = 4 + length bitmap * 4"

definition xdr_fattr4_len :: "fattr4 \<Rightarrow> nat" where
  "xdr_fattr4_len fattr = xdr_bitmap4_len (fa_attrmask fattr) + xdr_opaque_len (length (fa_attr_vals fattr))"

definition readdir_dir_info_len :: "entry4 \<Rightarrow> nat" where
  "readdir_dir_info_len entry = 8 + xdr_opaque_len (length (en_name entry))"

definition readdir_entry_len :: "entry4 \<Rightarrow> nat" where
  "readdir_entry_len entry =
     8 + xdr_opaque_len (length (en_name entry)) + xdr_fattr4_len (en_attrs entry)"

definition readdir_entry_list_item_len :: "entry4 \<Rightarrow> nat" where
  "readdir_entry_list_item_len entry = 4 + readdir_entry_len entry"

definition readdir_resok_len :: "entry4 list \<Rightarrow> nat" where
  "readdir_resok_len entries = 8 + sum_list (map readdir_entry_list_item_len entries) + 4 + 4"

definition replay_fingerprint :: "opaque_auth \<Rightarrow> bytes \<Rightarrow> bytes" where
  "replay_fingerprint cred payload = encode_u32 (oa_flavor cred) @ encode_opaque (oa_body cred) @ payload"

end
