(* ===== verification/Fattr.thy ===== *)
theory Fattr
  imports Server
begin

text \<open>
  Attributes on the wire, \<^verbatim>\<open>crates/embednfs/src/attrs.rs\<close>: which attributes the server supports, their
  values in the order of their numbers, and the decoding of the attributes a client sets. The encoder
  of the source is a sequence of independent steps, one per attribute: if the attribute is asked for
  (and available), its bit is set in the result and its value appended. Here the steps are the entries
  of a table.
\<close>

section \<open>Attribute numbers\<close>

abbreviation (input) FATTR4_SUPPORTED_ATTRS :: u32 where "FATTR4_SUPPORTED_ATTRS \<equiv> 0"
abbreviation (input) FATTR4_TYPE :: u32 where "FATTR4_TYPE \<equiv> 1"
abbreviation (input) FATTR4_FH_EXPIRE_TYPE :: u32 where "FATTR4_FH_EXPIRE_TYPE \<equiv> 2"
abbreviation (input) FATTR4_CHANGE :: u32 where "FATTR4_CHANGE \<equiv> 3"
abbreviation (input) FATTR4_SIZE :: u32 where "FATTR4_SIZE \<equiv> 4"
abbreviation (input) FATTR4_LINK_SUPPORT :: u32 where "FATTR4_LINK_SUPPORT \<equiv> 5"
abbreviation (input) FATTR4_SYMLINK_SUPPORT :: u32 where "FATTR4_SYMLINK_SUPPORT \<equiv> 6"
abbreviation (input) FATTR4_NAMED_ATTR :: u32 where "FATTR4_NAMED_ATTR \<equiv> 7"
abbreviation (input) FATTR4_FSID :: u32 where "FATTR4_FSID \<equiv> 8"
abbreviation (input) FATTR4_UNIQUE_HANDLES :: u32 where "FATTR4_UNIQUE_HANDLES \<equiv> 9"
abbreviation (input) FATTR4_LEASE_TIME :: u32 where "FATTR4_LEASE_TIME \<equiv> 10"
abbreviation (input) FATTR4_RDATTR_ERROR :: u32 where "FATTR4_RDATTR_ERROR \<equiv> 11"
abbreviation (input) FATTR4_ACL :: u32 where "FATTR4_ACL \<equiv> 12"
abbreviation (input) FATTR4_ACLSUPPORT :: u32 where "FATTR4_ACLSUPPORT \<equiv> 13"
abbreviation (input) FATTR4_ARCHIVE :: u32 where "FATTR4_ARCHIVE \<equiv> 14"
abbreviation (input) FATTR4_CANSETTIME :: u32 where "FATTR4_CANSETTIME \<equiv> 15"
abbreviation (input) FATTR4_CASE_INSENSITIVE :: u32 where "FATTR4_CASE_INSENSITIVE \<equiv> 16"
abbreviation (input) FATTR4_CASE_PRESERVING :: u32 where "FATTR4_CASE_PRESERVING \<equiv> 17"
abbreviation (input) FATTR4_CHOWN_RESTRICTED :: u32 where "FATTR4_CHOWN_RESTRICTED \<equiv> 18"
abbreviation (input) FATTR4_FILEHANDLE :: u32 where "FATTR4_FILEHANDLE \<equiv> 19"
abbreviation (input) FATTR4_FILEID :: u32 where "FATTR4_FILEID \<equiv> 20"
abbreviation (input) FATTR4_FILES_AVAIL :: u32 where "FATTR4_FILES_AVAIL \<equiv> 21"
abbreviation (input) FATTR4_FILES_FREE :: u32 where "FATTR4_FILES_FREE \<equiv> 22"
abbreviation (input) FATTR4_FILES_TOTAL :: u32 where "FATTR4_FILES_TOTAL \<equiv> 23"
abbreviation (input) FATTR4_FS_LOCATIONS :: u32 where "FATTR4_FS_LOCATIONS \<equiv> 24"
abbreviation (input) FATTR4_HIDDEN :: u32 where "FATTR4_HIDDEN \<equiv> 25"
abbreviation (input) FATTR4_HOMOGENEOUS :: u32 where "FATTR4_HOMOGENEOUS \<equiv> 26"
abbreviation (input) FATTR4_MAXFILESIZE :: u32 where "FATTR4_MAXFILESIZE \<equiv> 27"
abbreviation (input) FATTR4_MAXLINK :: u32 where "FATTR4_MAXLINK \<equiv> 28"
abbreviation (input) FATTR4_MAXNAME :: u32 where "FATTR4_MAXNAME \<equiv> 29"
abbreviation (input) FATTR4_MAXREAD :: u32 where "FATTR4_MAXREAD \<equiv> 30"
abbreviation (input) FATTR4_MAXWRITE :: u32 where "FATTR4_MAXWRITE \<equiv> 31"
abbreviation (input) FATTR4_MIMETYPE :: u32 where "FATTR4_MIMETYPE \<equiv> 32"
abbreviation (input) FATTR4_MODE :: u32 where "FATTR4_MODE \<equiv> 33"
abbreviation (input) FATTR4_NO_TRUNC :: u32 where "FATTR4_NO_TRUNC \<equiv> 34"
abbreviation (input) FATTR4_NUMLINKS :: u32 where "FATTR4_NUMLINKS \<equiv> 35"
abbreviation (input) FATTR4_OWNER :: u32 where "FATTR4_OWNER \<equiv> 36"
abbreviation (input) FATTR4_OWNER_GROUP :: u32 where "FATTR4_OWNER_GROUP \<equiv> 37"
abbreviation (input) FATTR4_QUOTA_AVAIL_HARD :: u32 where "FATTR4_QUOTA_AVAIL_HARD \<equiv> 38"
abbreviation (input) FATTR4_QUOTA_AVAIL_SOFT :: u32 where "FATTR4_QUOTA_AVAIL_SOFT \<equiv> 39"
abbreviation (input) FATTR4_QUOTA_USED :: u32 where "FATTR4_QUOTA_USED \<equiv> 40"
abbreviation (input) FATTR4_RAWDEV :: u32 where "FATTR4_RAWDEV \<equiv> 41"
abbreviation (input) FATTR4_SPACE_AVAIL :: u32 where "FATTR4_SPACE_AVAIL \<equiv> 42"
abbreviation (input) FATTR4_SPACE_FREE :: u32 where "FATTR4_SPACE_FREE \<equiv> 43"
abbreviation (input) FATTR4_SPACE_TOTAL :: u32 where "FATTR4_SPACE_TOTAL \<equiv> 44"
abbreviation (input) FATTR4_SPACE_USED :: u32 where "FATTR4_SPACE_USED \<equiv> 45"
abbreviation (input) FATTR4_SYSTEM :: u32 where "FATTR4_SYSTEM \<equiv> 46"
abbreviation (input) FATTR4_TIME_ACCESS :: u32 where "FATTR4_TIME_ACCESS \<equiv> 47"
abbreviation (input) FATTR4_TIME_ACCESS_SET :: u32 where "FATTR4_TIME_ACCESS_SET \<equiv> 48"
abbreviation (input) FATTR4_TIME_BACKUP :: u32 where "FATTR4_TIME_BACKUP \<equiv> 49"
abbreviation (input) FATTR4_TIME_CREATE :: u32 where "FATTR4_TIME_CREATE \<equiv> 50"
abbreviation (input) FATTR4_TIME_DELTA :: u32 where "FATTR4_TIME_DELTA \<equiv> 51"
abbreviation (input) FATTR4_TIME_METADATA :: u32 where "FATTR4_TIME_METADATA \<equiv> 52"
abbreviation (input) FATTR4_TIME_MODIFY :: u32 where "FATTR4_TIME_MODIFY \<equiv> 53"
abbreviation (input) FATTR4_TIME_MODIFY_SET :: u32 where "FATTR4_TIME_MODIFY_SET \<equiv> 54"
abbreviation (input) FATTR4_MOUNTED_ON_FILEID :: u32 where "FATTR4_MOUNTED_ON_FILEID \<equiv> 55"
abbreviation (input) FATTR4_SUPPATTR_EXCLCREAT :: u32 where "FATTR4_SUPPATTR_EXCLCREAT \<equiv> 75"
abbreviation (input) FATTR4_XATTR_SUPPORT :: u32 where "FATTR4_XATTR_SUPPORT \<equiv> 82"

definition MODE_PERM_MASK :: u32 where "MODE_PERM_MASK = 0xFFF"

record server_file_attr =
  sf_fsid :: fs_id
  sf_fileid :: u64
  sf_file_type :: server_file_type
  sf_size :: u64
  sf_used :: u64
  sf_mode :: u32
  sf_nlink :: u32
  sf_owner :: rust_string
  sf_owner_group :: rust_string
  sf_atime_sec :: u64
  sf_atime_nsec :: u32
  sf_mtime_sec :: u64
  sf_mtime_nsec :: u32
  sf_ctime_sec :: u64
  sf_ctime_nsec :: u32
  sf_crtime_sec :: u64
  sf_crtime_nsec :: u32
  sf_change_id :: u64
  sf_rdev_major :: u32
  sf_rdev_minor :: u32
  sf_archive :: bool
  sf_hidden :: bool
  sf_system :: bool
  sf_has_named_attrs :: bool

definition file_type_from_attrs :: "attrs \<Rightarrow> server_file_type" where
  "file_type_from_attrs a = (case at_object_type a of
       Ot_File \<Rightarrow> Sft_Regular | Ot_Directory \<Rightarrow> Sft_Directory | Ot_Symlink \<Rightarrow> Sft_Symlink)"

record attr_encoding_context =
  ax_limits :: fs_limits
  ax_stats :: "fs_stats option"
  ax_capabilities :: fs_capabilities
  ax_minorversion :: u32

section \<open>Supported attributes\<close>

definition request_needs_fs_stats :: "bitmap4 \<Rightarrow> bool" where
  "request_needs_fs_stats request \<longleftrightarrow>
     bitmap4_is_set request FATTR4_FILES_AVAIL \<or> bitmap4_is_set request FATTR4_FILES_FREE
     \<or> bitmap4_is_set request FATTR4_FILES_TOTAL \<or> bitmap4_is_set request FATTR4_SPACE_AVAIL
     \<or> bitmap4_is_set request FATTR4_SPACE_FREE \<or> bitmap4_is_set request FATTR4_SPACE_TOTAL"

definition always_supported :: "u32 list" where
  "always_supported =
     [FATTR4_SUPPORTED_ATTRS, FATTR4_TYPE, FATTR4_FH_EXPIRE_TYPE, FATTR4_CHANGE, FATTR4_SIZE,
      FATTR4_LINK_SUPPORT, FATTR4_SYMLINK_SUPPORT, FATTR4_FSID, FATTR4_UNIQUE_HANDLES,
      FATTR4_LEASE_TIME, FATTR4_RDATTR_ERROR, FATTR4_FILEHANDLE, FATTR4_ACLSUPPORT,
      FATTR4_ARCHIVE, FATTR4_CANSETTIME, FATTR4_CASE_INSENSITIVE, FATTR4_CASE_PRESERVING,
      FATTR4_CHOWN_RESTRICTED, FATTR4_FILEID, FATTR4_FILES_AVAIL, FATTR4_FILES_FREE,
      FATTR4_FILES_TOTAL, FATTR4_HIDDEN, FATTR4_HOMOGENEOUS, FATTR4_MAXFILESIZE,
      FATTR4_MAXLINK, FATTR4_MAXNAME, FATTR4_MAXREAD, FATTR4_MAXWRITE, FATTR4_MODE,
      FATTR4_NO_TRUNC, FATTR4_NUMLINKS, FATTR4_OWNER, FATTR4_OWNER_GROUP, FATTR4_RAWDEV,
      FATTR4_SPACE_AVAIL, FATTR4_SPACE_FREE, FATTR4_SPACE_TOTAL, FATTR4_SPACE_USED,
      FATTR4_SYSTEM, FATTR4_TIME_ACCESS, FATTR4_TIME_ACCESS_SET, FATTR4_TIME_BACKUP,
      FATTR4_TIME_CREATE, FATTR4_TIME_DELTA, FATTR4_TIME_METADATA, FATTR4_TIME_MODIFY,
      FATTR4_TIME_MODIFY_SET, FATTR4_MOUNTED_ON_FILEID, FATTR4_SUPPATTR_EXCLCREAT]"

definition supported_attrs_bitmap :: "fs_capabilities \<Rightarrow> u32 \<Rightarrow> bitmap4" where
  "supported_attrs_bitmap capabilities minorversion =
     (let supported = fold (\<lambda>b bm. bitmap4_set bm b) always_supported [];
          supported = (if cap_xattrs capabilities then bitmap4_set supported FATTR4_NAMED_ATTR else supported) in
      if cap_xattrs capabilities \<and> 2 \<le> minorversion then bitmap4_set supported FATTR4_XATTR_SUPPORT
      else supported)"

section \<open>Encoding\<close>

primrec nfs_ftype_of :: "server_file_type \<Rightarrow> nfs_ftype4" where
  "nfs_ftype_of Sft_Regular = Ft_Reg"
| "nfs_ftype_of Sft_Directory = Ft_Dir"
| "nfs_ftype_of Sft_Symlink = Ft_Lnk"
| "nfs_ftype_of Sft_NamedAttrDir = Ft_AttrDir"
| "nfs_ftype_of Sft_NamedAttr = Ft_NamedAttr"

definition time4 :: "u64 \<Rightarrow> u32 \<Rightarrow> bytes" where
  "time4 seconds nseconds = encode_nfs_time4 \<lparr>nt_seconds = seconds, nt_nseconds = nseconds\<rparr>"

definition stats_value :: "attr_encoding_context \<Rightarrow> (fs_stats \<Rightarrow> u64) \<Rightarrow> bytes option" where
  "stats_value ctx field = map_option (\<lambda>stats. encode_u64 (field stats)) (ax_stats ctx)"

text \<open>The attributes of the first word, up to \<^verbatim>\<open>FATTR4_FILEHANDLE\<close> and from \<^verbatim>\<open>FATTR4_FILEID\<close>.\<close>

definition identity_values ::
  "server_file_attr \<Rightarrow> nfs_fh4 \<Rightarrow> attr_encoding_context \<Rightarrow> (u32 \<times> bytes option) list" where
  "identity_values attr fh ctx =
     (let caps = ax_capabilities ctx in
      [(FATTR4_SUPPORTED_ATTRS, Some (encode_bitmap4 (supported_attrs_bitmap caps (ax_minorversion ctx)))),
       (FATTR4_TYPE, Some (encode_nfs_ftype4 (nfs_ftype_of (sf_file_type attr)))),
       (FATTR4_FH_EXPIRE_TYPE, Some (encode_u32 0)),
       (FATTR4_CHANGE, Some (encode_u64 (sf_change_id attr))),
       (FATTR4_SIZE, Some (encode_u64 (sf_size attr))),
       (FATTR4_LINK_SUPPORT, Some (encode_bool (cap_hard_links caps))),
       (FATTR4_SYMLINK_SUPPORT, Some (encode_bool (cap_symlinks caps))),
       (FATTR4_NAMED_ATTR, Some (encode_bool (sf_has_named_attrs attr))),
       (FATTR4_FSID, Some (encode_fsid4 \<lparr>fs_major = fi_major (sf_fsid attr), fs_minor = fi_minor (sf_fsid attr)\<rparr>)),
       (FATTR4_UNIQUE_HANDLES, Some (encode_bool True)),
       (FATTR4_LEASE_TIME, Some (encode_u32 (word_of_nat DEFAULT_LEASE_TIME_SECS))),
       (FATTR4_RDATTR_ERROR, Some (encode_u32 (nfsstat4_to_u32 Stat_Ok))),
       (FATTR4_ACLSUPPORT, Some (encode_u32 0)),
       (FATTR4_ARCHIVE, Some (encode_bool (sf_archive attr))),
       (FATTR4_CANSETTIME, Some (encode_bool True)),
       (FATTR4_CASE_INSENSITIVE, Some (encode_bool (\<not> cap_case_sensitive caps))),
       (FATTR4_CASE_PRESERVING, Some (encode_bool (cap_case_preserving caps))),
       (FATTR4_CHOWN_RESTRICTED, Some (encode_bool True)),
       (FATTR4_FILEHANDLE, Some (encode_nfs_fh4 fh))])"

definition volume_values :: "server_file_attr \<Rightarrow> attr_encoding_context \<Rightarrow> (u32 \<times> bytes option) list" where
  "volume_values attr ctx =
     [(FATTR4_FILEID, Some (encode_u64 (sf_fileid attr))),
      (FATTR4_FILES_AVAIL, stats_value ctx st_avail_files),
      (FATTR4_FILES_FREE, stats_value ctx st_free_files),
      (FATTR4_FILES_TOTAL, stats_value ctx st_total_files),
      (FATTR4_HIDDEN, Some (encode_bool (sf_hidden attr))),
      (FATTR4_HOMOGENEOUS, Some (encode_bool True)),
      (FATTR4_MAXFILESIZE, Some (encode_u64 (lim_max_file_size (ax_limits ctx)))),
      (FATTR4_MAXLINK, Some (encode_u32 255)),
      (FATTR4_MAXNAME, Some (encode_u32 (lim_max_name_bytes (ax_limits ctx)))),
      (FATTR4_MAXREAD, Some (encode_u64 (ucast (lim_max_read (ax_limits ctx))))),
      (FATTR4_MAXWRITE, Some (encode_u64 (ucast (lim_max_write (ax_limits ctx)))))]"

text \<open>The second and the third word.\<close>

definition word1_values :: "server_file_attr \<Rightarrow> attr_encoding_context \<Rightarrow> (u32 \<times> bytes option) list" where
  "word1_values attr ctx =
     [(FATTR4_MODE, Some (encode_u32 (sf_mode attr AND MODE_PERM_MASK))),
      (FATTR4_NO_TRUNC, Some (encode_bool True)),
      (FATTR4_NUMLINKS, Some (encode_u32 (sf_nlink attr))),
      (FATTR4_OWNER, Some (encode_string (sf_owner attr))),
      (FATTR4_OWNER_GROUP, Some (encode_string (sf_owner_group attr))),
      (FATTR4_RAWDEV, Some (encode_specdata4 \<lparr>sp_specdata1 = sf_rdev_major attr, sp_specdata2 = sf_rdev_minor attr\<rparr>)),
      (FATTR4_SPACE_AVAIL, stats_value ctx st_avail_bytes),
      (FATTR4_SPACE_FREE, stats_value ctx st_free_bytes),
      (FATTR4_SPACE_TOTAL, stats_value ctx st_total_bytes),
      (FATTR4_SPACE_USED, Some (encode_u64 (sf_used attr))),
      (FATTR4_SYSTEM, Some (encode_bool (sf_system attr))),
      (FATTR4_TIME_ACCESS, Some (time4 (sf_atime_sec attr) (sf_atime_nsec attr))),
      (FATTR4_TIME_BACKUP, Some (time4 (sf_crtime_sec attr) (sf_crtime_nsec attr))),
      (FATTR4_TIME_CREATE, Some (time4 (sf_crtime_sec attr) (sf_crtime_nsec attr))),
      (FATTR4_TIME_DELTA, Some (time4 0 1000000)),
      (FATTR4_TIME_METADATA, Some (time4 (sf_ctime_sec attr) (sf_ctime_nsec attr))),
      (FATTR4_TIME_MODIFY, Some (time4 (sf_mtime_sec attr) (sf_mtime_nsec attr))),
      (FATTR4_MOUNTED_ON_FILEID, Some (encode_u64 (sf_fileid attr)))]"

definition word2_values :: "attr_encoding_context \<Rightarrow> (u32 \<times> bytes option) list" where
  "word2_values ctx =
     [(FATTR4_SUPPATTR_EXCLCREAT, Some (encode_bitmap4 (bitmap4_set (bitmap4_set [] FATTR4_SIZE) FATTR4_MODE))),
      (FATTR4_XATTR_SUPPORT,
        if 2 \<le> ax_minorversion ctx then Some (encode_bool (cap_xattrs (ax_capabilities ctx))) else None)]"

definition attr_values ::
  "server_file_attr \<Rightarrow> nfs_fh4 \<Rightarrow> attr_encoding_context \<Rightarrow> (u32 \<times> bytes option) list" where
  "attr_values attr fh ctx =
     identity_values attr fh ctx @ volume_values attr ctx @ word1_values attr ctx @ word2_values ctx"

text \<open>One step: set the bit and append the value.\<close>

definition answer_attr :: "bitmap4 \<Rightarrow> u32 \<times> bytes option \<Rightarrow> fattr4 \<Rightarrow> fattr4" where
  "answer_attr request entry result = (case entry of (number, value) \<Rightarrow>
     if bitmap4_is_set request number then
       (case value of
          None \<Rightarrow> result
        | Some bytes \<Rightarrow> \<lparr>fa_attrmask = bitmap4_set (fa_attrmask result) number,
            fa_attr_vals = fa_attr_vals result @ bytes\<rparr>)
     else result)"

definition attrs_encode_fattr4 ::
  "server_file_attr \<Rightarrow> bitmap4 \<Rightarrow> nfs_fh4 \<Rightarrow> attr_encoding_context \<Rightarrow> fattr4" where
  "attrs_encode_fattr4 attr request fh ctx =
     fold (answer_attr request) (attr_values attr fh ctx) \<lparr>fa_attrmask = [], fa_attr_vals = []\<rparr>"

section \<open>Decoding\<close>

text \<open>\<^verbatim>\<open>str::parse::<u32>\<close>: an optional plus sign, then at least one digit and no overflow.\<close>

fun parse_digits :: "nat \<Rightarrow> rust_string \<Rightarrow> nat option" where
  "parse_digits acc [] = Some acc"
| "parse_digits acc (c # cs) =
     (if 48 \<le> c \<and> c \<le> 57 then
        let acc = acc * 10 + (unat c - 48) in if acc < 2 ^ 32 then parse_digits acc cs else None
      else None)"

definition parse_u32 :: "rust_string \<Rightarrow> u32 option" where
  "parse_u32 s =
     (let digits = (case s of c # cs \<Rightarrow> if c = 43 then cs else s | [] \<Rightarrow> []) in
      if digits = [] then None else map_option word_of_nat (parse_digits 0 digits))"

text \<open>The part before the first at sign.\<close>

definition owner_id :: "rust_string \<Rightarrow> u32 option" where
  "owner_id owner = parse_u32 (takeWhile (\<lambda>c. c \<noteq> 64) owner)"

definition dec_when :: "bool \<Rightarrow> 'a decoder \<Rightarrow> 'a option decoder" where
  "dec_when b d = (if b then dec_map Some d else dec_return None)"

definition client_time :: "nfs_time4 \<Rightarrow> set_time" where
  "client_time t = St_Client \<lparr>ts_seconds = nt_seconds t, ts_nanos = nt_nseconds t\<rparr>"

text \<open>A time to set: how it is given, then the time when the client gives it; other values are ignored.\<close>

definition decode_set_time :: "set_time option decoder" where
  "decode_set_time = dec_bind decode_u32 (\<lambda>how.
     if how = 0 then dec_return (Some St_ServerNow)
     else if how = 1 then dec_map (\<lambda>t. Some (client_time t)) decode_nfs_time4
     else dec_return None)"

definition setattr_decoder :: "bitmap4 \<Rightarrow> set_attrs decoder" where
  "setattr_decoder bm =
     dec_bind (dec_when (bitmap4_is_set bm FATTR4_SIZE) decode_u64) (\<lambda>size_attr.
     dec_bind (dec_when (bitmap4_is_set bm FATTR4_ARCHIVE) decode_bool) (\<lambda>archive.
     dec_bind (dec_when (bitmap4_is_set bm FATTR4_HIDDEN) decode_bool) (\<lambda>hidden.
     dec_bind (dec_when (bitmap4_is_set bm FATTR4_MODE) decode_u32) (\<lambda>mode.
     dec_bind (dec_when (bitmap4_is_set bm FATTR4_OWNER) decode_string) (\<lambda>owner.
     dec_bind (dec_when (bitmap4_is_set bm FATTR4_OWNER_GROUP) decode_string) (\<lambda>group.
     dec_bind (dec_when (bitmap4_is_set bm FATTR4_SYSTEM) decode_bool) (\<lambda>system.
     dec_bind (dec_when (bitmap4_is_set bm FATTR4_TIME_ACCESS_SET) decode_set_time) (\<lambda>atime.
     dec_bind (dec_when (bitmap4_is_set bm FATTR4_TIME_BACKUP) decode_nfs_time4) (\<lambda>backup.
     dec_bind (dec_when (bitmap4_is_set bm FATTR4_TIME_CREATE) decode_nfs_time4) (\<lambda>created.
     dec_bind (dec_when (bitmap4_is_set bm FATTR4_TIME_MODIFY_SET) decode_set_time) (\<lambda>mtime.
     dec_return \<lparr>sa_size = size_attr, sa_archive = archive, sa_hidden = hidden,
       sa_mode = map_option (\<lambda>m. m AND MODE_PERM_MASK) mode,
       sa_uid = Option.bind owner owner_id, sa_gid = Option.bind group owner_id,
       sa_system = system, sa_atime = Option.bind atime (\<lambda>t. t), sa_mtime = Option.bind mtime (\<lambda>t. t),
       sa_birthtime = map_option client_time (case created of Some t \<Rightarrow> Some t | None \<Rightarrow> backup)\<rparr>)))))))))))"

definition decode_setattr :: "fattr4 \<Rightarrow> nfsstat4 + set_attrs" where
  "decode_setattr fattr = (case setattr_decoder (fa_attrmask fattr) (fa_attr_vals fattr) of
       Inl _ \<Rightarrow> Inl Stat_BadXdr
     | Inr (result, rest) \<Rightarrow> Inr result)"

end
