(* ===== verification/File_Attrs.thy ===== *)
theory File_Attrs
  imports Fattr
begin

text \<open>
  Attributes of the server's objects, \<^verbatim>\<open>crates/embednfs/src/server/file_attrs.rs\<close>: a backend object has
  the backend's attributes, the synthetic objects of the named attribute namespace have the state
  manager's, and the value of a named attribute is read and written as a file. Buffers are resized
  without a limit, as in the source; memory is taken to suffice.
\<close>

section \<open>Building attributes\<close>

definition encode_fattr ::
  "('fs, 'h) file_system \<Rightarrow> request_context \<Rightarrow> server_file_attr \<Rightarrow> bitmap4 \<Rightarrow> nfs_fh4 \<Rightarrow> u32
     \<Rightarrow> ('fs, 'h, fattr4 fs_result) srv" where
  "encode_fattr F ctx attr request fh minorversion =
     srv_try (srv_get (\<lambda>s. ok_or Fse_Stale (fh_to_object (ns_state s) fh))) (\<lambda>object.
     srv_try (if request_needs_fs_stats request
              then srv_try (statfs_for_object F ctx object) (\<lambda>stats. srv_return (Inr (Some stats)))
              else srv_return (Inr None)) (\<lambda>stats.
     srv_return (Inr (attrs_encode_fattr4 attr request fh
       \<lparr>ax_limits = fs_lims F, ax_stats = stats, ax_capabilities = fs_caps F, ax_minorversion = minorversion\<rparr>))))"

definition attr_from_meta ::
  "synth_meta \<Rightarrow> server_file_type \<Rightarrow> u64 \<Rightarrow> bool \<Rightarrow> attrs \<Rightarrow> server_file_attr" where
  "attr_from_meta meta file_type size_attr has_named_attrs parent_attrs =
     \<lparr>sf_fsid = at_fsid parent_attrs, sf_fileid = me_fileid meta, sf_file_type = file_type,
      sf_size = size_attr, sf_used = size_attr, sf_mode = me_mode meta, sf_nlink = me_nlink meta,
      sf_owner = me_owner meta, sf_owner_group = me_owner_group meta,
      sf_atime_sec = me_atime_sec meta, sf_atime_nsec = me_atime_nsec meta,
      sf_mtime_sec = me_mtime_sec meta, sf_mtime_nsec = me_mtime_nsec meta,
      sf_ctime_sec = me_ctime_sec meta, sf_ctime_nsec = me_ctime_nsec meta,
      sf_crtime_sec = me_crtime_sec meta, sf_crtime_nsec = me_crtime_nsec meta,
      sf_change_id = me_change_id meta, sf_rdev_major = 0, sf_rdev_minor = 0,
      sf_archive = me_archive meta, sf_hidden = me_hidden meta, sf_system = me_system meta,
      sf_has_named_attrs = has_named_attrs\<rparr>"

definition attr_from_backend :: "id_mapper \<Rightarrow> attrs \<Rightarrow> server_file_attr" where
  "attr_from_backend mapper a =
     \<lparr>sf_fsid = at_fsid a, sf_fileid = at_fileid a, sf_file_type = file_type_from_attrs a,
      sf_size = at_size a, sf_used = at_space_used a, sf_mode = at_mode a, sf_nlink = at_link_count a,
      sf_owner = map_owner mapper (at_uid a), sf_owner_group = map_group mapper (at_gid a),
      sf_atime_sec = ts_seconds (at_atime a), sf_atime_nsec = ts_nanos (at_atime a),
      sf_mtime_sec = ts_seconds (at_mtime a), sf_mtime_nsec = ts_nanos (at_mtime a),
      sf_ctime_sec = ts_seconds (at_ctime a), sf_ctime_nsec = ts_nanos (at_ctime a),
      sf_crtime_sec = ts_seconds (at_birthtime a), sf_crtime_nsec = ts_nanos (at_birthtime a),
      sf_change_id = at_change a, sf_rdev_major = 0, sf_rdev_minor = 0,
      sf_archive = at_archive a, sf_hidden = at_hidden a, sf_system = at_system a,
      sf_has_named_attrs = at_has_named_attrs a\<rparr>"

definition named_attrs :: "('fs, 'h) file_system \<Rightarrow> ('fs, 'h) xattrs_impl fs_result" where
  "named_attrs F = ok_or Fse_Unsupported (fs_xattrs F)"

definition xattr_count ::
  "('fs, 'h) file_system \<Rightarrow> request_context \<Rightarrow> object_id \<Rightarrow> ('fs, 'h, u64 fs_result) srv" where
  "xattr_count F ctx parent =
     srv_try (resolve_backend_handle parent) (\<lambda>parent_handle.
     srv_try (srv_return (named_attrs F)) (\<lambda>named.
     srv_try (fs_op (xi_list_xattrs named ctx parent_handle)) (\<lambda>names.
     srv_return (Inr (word_of_nat (length names))))))"

definition attr_dir_count ::
  "('fs, 'h) file_system \<Rightarrow> request_context \<Rightarrow> object_id \<Rightarrow> ('fs, 'h, u64 fs_result) srv" where
  "attr_dir_count F ctx parent =
     srv_bind (srv_get (\<lambda>s. named_attr_count (ns_state s) (Obj_NamedAttrDir parent))) (\<lambda>known.
     case known of
       Some count \<Rightarrow> srv_return (Inr count)
     | None \<Rightarrow>
         srv_try (xattr_count F ctx parent) (\<lambda>count.
         srv_bind (meta_op (\<lambda>sm now.
           (set_named_attr_count sm now (Obj_NamedAttrDir parent) Sft_NamedAttrDir count, ()))) (\<lambda>_.
         srv_return (Inr count))))"

definition build_attr ::
  "('fs, 'h) file_system \<Rightarrow> request_context \<Rightarrow> server_object \<Rightarrow> ('fs, 'h, server_file_attr fs_result) srv" where
  "build_attr F ctx object = (case object of
       Obj_Fs i \<Rightarrow>
         srv_try (getattr_id F ctx i) (\<lambda>attrs.
         srv_get (\<lambda>s. Inr (attr_from_backend (ns_id_mapper s) attrs)))
     | Obj_NamedAttrDir parent \<Rightarrow>
         if Option.is_none (fs_xattrs F) then srv_return (Inl Fse_Unsupported)
         else
           srv_try (attr_dir_count F ctx parent) (\<lambda>count.
           srv_try (getattr_id F ctx parent) (\<lambda>parent_attrs.
           srv_bind (meta_op (\<lambda>sm now. ensure_meta sm now object Sft_NamedAttrDir)) (\<lambda>meta.
           srv_return (Inr (attr_from_meta meta Sft_NamedAttrDir count False parent_attrs)))))
     | Obj_NamedAttrFile parent name \<Rightarrow>
         srv_try (getattr_id F ctx parent) (\<lambda>parent_attrs.
         srv_try (resolve_backend_handle parent) (\<lambda>parent_handle.
         srv_try (srv_return (named_attrs F)) (\<lambda>named.
         srv_try (fs_op (xi_get_xattr named ctx parent_handle name)) (\<lambda>value.
         srv_bind (meta_op (\<lambda>sm now. ensure_meta sm now object Sft_NamedAttr)) (\<lambda>meta.
         srv_return (Inr (attr_from_meta meta Sft_NamedAttr (word_of_nat (length value)) False parent_attrs))))))))"

section \<open>Named attributes as files\<close>

definition create_mode_requires_nonexistence :: "createhow4 \<Rightarrow> bool" where
  "create_mode_requires_nonexistence how = (case how of
       How_Unchecked _ \<Rightarrow> False | How_Guarded _ \<Rightarrow> True | How_Exclusive _ \<Rightarrow> True | How_Exclusive4_1 _ _ \<Rightarrow> True)"

definition open_set_mode :: "createhow4 \<Rightarrow> xattr_set_mode" where
  "open_set_mode how = (case how of
       How_Unchecked _ \<Rightarrow> Xs_CreateOrReplace
     | How_Guarded _ \<Rightarrow> Xs_CreateOnly | How_Exclusive _ \<Rightarrow> Xs_CreateOnly | How_Exclusive4_1 _ _ \<Rightarrow> Xs_CreateOnly)"

definition xattr_read_slice ::
  "('fs, 'h) file_system \<Rightarrow> request_context \<Rightarrow> object_id \<Rightarrow> rust_string \<Rightarrow> u64 \<Rightarrow> u32
     \<Rightarrow> ('fs, 'h, (bytes \<times> bool) fs_result) srv" where
  "xattr_read_slice F ctx parent name offset count =
     srv_try (resolve_backend_handle parent) (\<lambda>parent_handle.
     srv_try (srv_return (named_attrs F)) (\<lambda>named.
     srv_try (fs_op (xi_get_xattr named ctx parent_handle name)) (\<lambda>value.
     let offset = unat offset in
     if length value \<le> offset then srv_return (Inr ([], True))
     else
       let end = min (min (offset + unat count) (2 ^ 64 - 1)) (length value) in
       srv_return (Inr (take (end - offset) (drop offset value), end = length value)))))"

definition vec_resize :: "nat \<Rightarrow> bytes \<Rightarrow> bytes" where
  "vec_resize n value = take n value @ replicate (n - length value) 0"

definition xattr_resize ::
  "('fs, 'h) file_system \<Rightarrow> request_context \<Rightarrow> object_id \<Rightarrow> rust_string \<Rightarrow> u64 \<Rightarrow> ('fs, 'h, unit fs_result) srv" where
  "xattr_resize F ctx parent name size_attr =
     srv_try (resolve_backend_handle parent) (\<lambda>parent_handle.
     srv_try (srv_return (named_attrs F)) (\<lambda>named.
     srv_try (fs_op (xi_get_xattr named ctx parent_handle name)) (\<lambda>value.
     fs_op (xi_set_xattr named ctx parent_handle name (vec_resize (unat size_attr) value) Xs_CreateOrReplace))))"

definition xattr_write ::
  "('fs, 'h) file_system \<Rightarrow> request_context \<Rightarrow> object_id \<Rightarrow> rust_string \<Rightarrow> u64 \<Rightarrow> bytes
     \<Rightarrow> ('fs, 'h, u32 fs_result) srv" where
  "xattr_write F ctx parent name offset data =
     srv_try (resolve_backend_handle parent) (\<lambda>parent_handle.
     srv_try (srv_return (named_attrs F)) (\<lambda>named.
     srv_try (fs_op (xi_get_xattr named ctx parent_handle name)) (\<lambda>value.
     let offset = unat offset; end = offset + length data in
     if end \<ge> 2 ^ 64 then srv_return (Inl Fse_FileTooLarge)
     else
       let value = (if end > length value then vec_resize end value else value);
           value = take offset value @ data @ drop end value in
       srv_try (fs_op (xi_set_xattr named ctx parent_handle name value Xs_CreateOrReplace)) (\<lambda>_.
       srv_return (Inr (word_of_nat (length data)))))))"

definition refresh_xattr_summary ::
  "('fs, 'h) file_system \<Rightarrow> request_context \<Rightarrow> object_id \<Rightarrow> ('fs, 'h, u64 fs_result) srv" where
  "refresh_xattr_summary F ctx parent =
     srv_try (xattr_count F ctx parent) (\<lambda>count.
     srv_bind (meta_op (\<lambda>sm now.
       (set_named_attr_count sm now (Obj_NamedAttrDir parent) Sft_NamedAttrDir count, ()))) (\<lambda>_.
     srv_return (Inr count)))"

definition parent_change_after_xattr_mutation ::
  "('fs, 'h) file_system \<Rightarrow> request_context \<Rightarrow> object_id \<Rightarrow> ('fs, 'h, unit) srv" where
  "parent_change_after_xattr_mutation F ctx parent = srv_map (\<lambda>_. ()) (getattr_id F ctx parent)"

section \<open>Change information\<close>

definition synthetic_change_info :: "u64 \<Rightarrow> change_info4" where
  "synthetic_change_info before = \<lparr>ci_atomic = False, ci_before = before, ci_after = before + 1\<rparr>"

definition mutation_change_info ::
  "('fs, 'h) file_system \<Rightarrow> request_context \<Rightarrow> server_object \<Rightarrow> u64 \<Rightarrow> ('fs, 'h, change_info4) srv" where
  "mutation_change_info F ctx object before =
     srv_else (build_attr F ctx object) (\<lambda>_. synthetic_change_info before) (\<lambda>attr.
     srv_return \<lparr>ci_atomic = True, ci_before = before, ci_after = sf_change_id attr\<rparr>)"

end
