(* ===== verification/Callback.thy ===== *)
theory Callback
  imports Server
begin

text \<open>
  The back channel: the callback messages of \<^verbatim>\<open>crates/embednfs-proto/src/types/callback.rs\<close> and the
  connection table of \<^verbatim>\<open>crates/embednfs/src/server/backchannel.rs\<close>. What the client answers is not the
  server's: a reply is the parameter \<open>reply\<close>, a function of the connection and the bytes sent, and may
  also be a failed send or a timeout.
\<close>

section \<open>Callback messages\<close>

definition OP_CB_RECALL :: u32 where "OP_CB_RECALL = 4"
definition OP_CB_SEQUENCE :: u32 where "OP_CB_SEQUENCE = 11"

record cb_sequence_args4 =
  cbs_sessionid :: sessionid4
  cbs_sequenceid :: u32
  cbs_slotid :: u32
  cbs_highest_slotid :: u32
  cbs_cachethis :: bool

definition encode_cb_sequence_args4 :: "cb_sequence_args4 \<Rightarrow> bytes" where
  "encode_cb_sequence_args4 a =
     cbs_sessionid a @ encode_u32 (cbs_sequenceid a) @ encode_u32 (cbs_slotid a)
     @ encode_u32 (cbs_highest_slotid a) @ encode_bool (cbs_cachethis a) @ encode_u32 0"

record cb_sequence_res_ok4 =
  cbr_sessionid :: sessionid4
  cbr_sequenceid :: u32
  cbr_slotid :: u32
  cbr_highest_slotid :: u32
  cbr_target_highest_slotid :: u32

definition decode_cb_sequence_res_ok4 :: "cb_sequence_res_ok4 decoder" where
  "decode_cb_sequence_res_ok4 =
     dec_bind (decode_fixed_opaque 16) (\<lambda>session.
     dec_bind decode_u32 (\<lambda>sequenceid.
     dec_bind decode_u32 (\<lambda>slotid.
     dec_bind decode_u32 (\<lambda>highest_slotid.
     dec_bind decode_u32 (\<lambda>target_highest_slotid.
     dec_return \<lparr>cbr_sessionid = session, cbr_sequenceid = sequenceid, cbr_slotid = slotid,
       cbr_highest_slotid = highest_slotid, cbr_target_highest_slotid = target_highest_slotid\<rparr>)))))"

record cb_recall_args4 =
  cbl_stateid :: stateid4
  cbl_truncate :: bool
  cbl_fh :: nfs_fh4

definition encode_cb_recall_args4 :: "cb_recall_args4 \<Rightarrow> bytes" where
  "encode_cb_recall_args4 a =
     encode_stateid4 (cbl_stateid a) @ encode_bool (cbl_truncate a) @ encode_nfs_fh4 (cbl_fh a)"

datatype nfs_cb_argop4 = CbArg_Sequence cb_sequence_args4 | CbArg_Recall cb_recall_args4

definition encode_nfs_cb_argop4 :: "nfs_cb_argop4 \<Rightarrow> bytes" where
  "encode_nfs_cb_argop4 op = (case op of
       CbArg_Sequence args \<Rightarrow> encode_u32 OP_CB_SEQUENCE @ encode_cb_sequence_args4 args
     | CbArg_Recall args \<Rightarrow> encode_u32 OP_CB_RECALL @ encode_cb_recall_args4 args)"

datatype nfs_cb_resop4 = CbRes_Sequence nfsstat4 "cb_sequence_res_ok4 option" | CbRes_Recall nfsstat4

definition decode_nfs_cb_resop4 :: "nfs_cb_resop4 decoder" where
  "decode_nfs_cb_resop4 = dec_bind decode_u32 (\<lambda>op.
     if op = OP_CB_SEQUENCE then
       dec_bind decode_nfsstat4 (\<lambda>status.
       if status = Stat_Ok
       then dec_map (\<lambda>res. CbRes_Sequence status (Some res)) decode_cb_sequence_res_ok4
       else dec_return (CbRes_Sequence status None))
     else if op = OP_CB_RECALL then dec_map CbRes_Recall decode_nfsstat4
     else dec_fail (Xdr_InvalidEnum op))"

record cb_compound4_args =
  cba_tag :: rust_string
  cba_minorversion :: u32
  cba_callback_ident :: u32
  cba_argarray :: "nfs_cb_argop4 list"

definition encode_cb_compound4_args :: "cb_compound4_args \<Rightarrow> bytes" where
  "encode_cb_compound4_args a =
     encode_string (cba_tag a) @ encode_u32 (cba_minorversion a) @ encode_u32 (cba_callback_ident a)
     @ encode_u32 (word_of_nat (length (cba_argarray a))) @ concat (map encode_nfs_cb_argop4 (cba_argarray a))"

record cb_compound4_res =
  cbq_status :: nfsstat4
  cbq_tag :: rust_string
  cbq_resarray :: "nfs_cb_resop4 list"

definition decode_cb_compound4_res :: "cb_compound4_res decoder" where
  "decode_cb_compound4_res =
     dec_bind decode_nfsstat4 (\<lambda>status.
     dec_bind decode_string (\<lambda>tag.
     dec_bind decode_u32 (\<lambda>len.
     dec_bind (decode_items decode_nfs_cb_resop4 (unat len)) (\<lambda>resarray.
     dec_return \<lparr>cbq_status = status, cbq_tag = tag, cbq_resarray = resarray\<rparr>))))"

section \<open>The connection table\<close>

datatype callback_error =
    Cbe_NoConnection | Cbe_SendFailed | Cbe_Timeout | Cbe_RpcRejected accept_stat | Cbe_BadReply xdr_error

record callback_request =
  cbx_connection_id :: u64
  cbx_cb_program :: u32
  cbx_auth :: opaque_auth
  cbx_args :: cb_compound4_args

definition register_connection :: "u64 \<Rightarrow> backchannel_manager \<Rightarrow> backchannel_manager" where
  "register_connection conn bm = bm\<lparr>bm_connections := hs_insert conn (bm_connections bm)\<rparr>"

definition unregister_connection :: "u64 \<Rightarrow> backchannel_manager \<Rightarrow> backchannel_manager" where
  "unregister_connection conn bm = bm\<lparr>bm_connections := hs_remove conn (bm_connections bm)\<rparr>"

definition has_connection :: "backchannel_manager \<Rightarrow> u64 \<Rightarrow> bool" where
  "has_connection bm conn \<longleftrightarrow> conn \<in> set (bm_connections bm)"

text \<open>A reply goes to the waiter of its connection and transaction, once.\<close>

definition handle_reply :: "u64 \<Rightarrow> bytes \<Rightarrow> backchannel_manager \<Rightarrow> backchannel_manager \<times> bool" where
  "handle_reply conn record bm = (case decode_u32 record of
       Inl _ \<Rightarrow> (bm, False)
     | Inr (xid, rest) \<Rightarrow>
         if (conn, xid) \<in> set (bm_waiters bm)
         then (bm\<lparr>bm_waiters := hs_remove (conn, xid) (bm_waiters bm)\<rparr>, True)
         else (bm, False))"

definition next_callback_xid :: "backchannel_manager \<Rightarrow> backchannel_manager \<times> u32" where
  "next_callback_xid bm =
     (let xid = bm_next_xid bm + 1 in
      if xid = 0 then (bm\<lparr>bm_next_xid := bm_next_xid bm + 2\<rparr>, bm_next_xid bm + 2)
      else (bm\<lparr>bm_next_xid := bm_next_xid bm + 1\<rparr>, xid))"

definition decode_callback_reply :: "bytes \<Rightarrow> callback_error + cb_compound4_res" where
  "decode_callback_reply reply = (case decode_rpc_accepted_reply reply of
       Inl e \<Rightarrow> Inl (Cbe_BadReply e)
     | Inr (header, src) \<Rightarrow>
         if ra_accept_stat header \<noteq> Accept_Success then Inl (Cbe_RpcRejected (ra_accept_stat header))
         else (case decode_cb_compound4_res src of
             Inl e \<Rightarrow> Inl (Cbe_BadReply e)
           | Inr (res, rest) \<Rightarrow> Inr res))"

definition callback_payload :: "u32 \<Rightarrow> callback_request \<Rightarrow> bytes" where
  "callback_payload xid request =
     encode_rpc_call xid (cbx_cb_program request) NFS_V4 1 (cbx_auth request) opaque_auth_null
     @ encode_cb_compound4_args (cbx_args request)"

text \<open>
  The waiter is entered before the call goes out and gone when the answer, the failure or the timeout
  is known.
\<close>

definition send_callback ::
  "(u64 \<Rightarrow> bytes \<Rightarrow> callback_error + bytes) \<Rightarrow> callback_request \<Rightarrow> backchannel_manager
     \<Rightarrow> backchannel_manager \<times> (callback_error + cb_compound4_res)" where
  "send_callback reply request bm =
     (if \<not> has_connection bm (cbx_connection_id request) then (bm, Inl Cbe_NoConnection)
      else
        let (bm, xid) = next_callback_xid bm;
            payload = callback_payload xid request;
            waiter = (cbx_connection_id request, xid);
            bm = bm\<lparr>bm_waiters := hs_insert waiter (bm_waiters bm)\<rparr> in
        (case reply (cbx_connection_id request) payload of
           Inl e \<Rightarrow> (bm\<lparr>bm_waiters := hs_remove waiter (bm_waiters bm)\<rparr>, Inl e)
         | Inr record \<Rightarrow>
             (bm\<lparr>bm_waiters := hs_remove waiter (bm_waiters bm)\<rparr>, decode_callback_reply record)))"

end
