(* ===== verification/Recall.thy ===== *)
theory Recall
  imports File_Attrs Callback Delegations Clients Retirement
begin

text \<open>
  Directory delegations at the server, \<^verbatim>\<open>crates/embednfs/src/server/ops/delegation.rs\<close>: the grant, the
  recall before a directory changes, the controls of the embedder, and the retirement of backend
  handles.

  A recall talks to clients and waits. What the rest of the world does meanwhile is an \<open>environment\<close>:
  the answers of the clients, how much later than asked a sleep ends, and what other tasks do to the
  state manager during a sleep.
\<close>

record environment =
  en_reply :: "u64 \<Rightarrow> bytes \<Rightarrow> callback_error + bytes"
  en_lateness :: "nat \<Rightarrow> nat"
  en_interfere :: "nat \<Rightarrow> state_manager \<Rightarrow> state_manager"

section \<open>Callbacks\<close>

definition has_callback_path :: "clientid4 \<Rightarrow> ('fs, 'h) nfs_server \<Rightarrow> bool" where
  "has_callback_path clientid s =
     (\<exists>conn\<in>set (callback_connection_ids (ns_state s) clientid). has_connection (ns_backchannels s) conn)"

primrec next_target_loop :: "clientid4 \<Rightarrow> u64 list \<Rightarrow> ('fs, 'h, callback_target option) srv" where
  "next_target_loop clientid [] = srv_return None"
| "next_target_loop clientid (conn # conns) =
     srv_bind (srv_get (\<lambda>s. has_connection (ns_backchannels s) conn)) (\<lambda>present.
     srv_bind (if present then state_op (\<lambda>sm now. next_callback_target_on sm clientid conn) else srv_return None)
       (\<lambda>found. case found of
           Some callback \<Rightarrow> srv_return (Some callback)
         | None \<Rightarrow> next_target_loop clientid conns))"

definition next_callback_target :: "clientid4 \<Rightarrow> ('fs, 'h, callback_target option) srv" where
  "next_callback_target clientid =
     srv_bind (srv_get (\<lambda>s. callback_connection_ids (ns_state s) clientid)) (next_target_loop clientid)"

definition callback_error_status :: "callback_error \<Rightarrow> nfsstat4" where
  "callback_error_status e = (case e of Cbe_Timeout \<Rightarrow> Stat_Delay | _ \<Rightarrow> Stat_CbPathDown)"

fun check_recall_results :: "nfs_cb_resop4 list \<Rightarrow> bool \<Rightarrow> nfsstat4 + unit" where
  "check_recall_results [] saw_recall = (if saw_recall then Inr () else Inl Stat_Serverfault)"
| "check_recall_results (CbRes_Sequence status res # ops) saw_recall =
     (if status \<noteq> Stat_Ok then Inl status else check_recall_results ops saw_recall)"
| "check_recall_results (CbRes_Recall status # ops) saw_recall =
     (if status = Stat_Ok then check_recall_results ops True else Inl status)"

definition validate_recall_response :: "cb_compound4_res \<Rightarrow> nfsstat4 + unit" where
  "validate_recall_response response =
     (if cbq_status response \<noteq> Stat_Ok then Inl (cbq_status response)
      else check_recall_results (cbq_resarray response) False)"

definition backchannel_op :: "(backchannel_manager \<Rightarrow> backchannel_manager \<times> 'a) \<Rightarrow> ('fs, 'h, 'a) srv" where
  "backchannel_op f s = (case f (ns_backchannels s) of (bm, r) \<Rightarrow> (s\<lparr>ns_backchannels := bm\<rparr>, r))"

definition recall_request :: "callback_target \<Rightarrow> directory_delegation_recall \<Rightarrow> nfs_fh4 \<Rightarrow> callback_request" where
  "recall_request callback recall fh =
     \<lparr>cbx_connection_id = ct_connection_id callback, cbx_cb_program = ct_cb_program callback,
      cbx_auth = ct_auth callback,
      cbx_args = \<lparr>cba_tag = ascii ''recall'', cba_minorversion = 1, cba_callback_ident = 0,
        cba_argarray =
          [CbArg_Sequence \<lparr>cbs_sessionid = ct_sessionid callback, cbs_sequenceid = ct_sequenceid callback,
             cbs_slotid = 0, cbs_highest_slotid = ct_highest_slotid callback, cbs_cachethis = False\<rparr>,
           CbArg_Recall \<lparr>cbl_stateid = dr_stateid recall, cbl_truncate = False, cbl_fh = fh\<rparr>]\<rparr>\<rparr>"

definition send_directory_recall ::
  "environment \<Rightarrow> directory_delegation_recall \<Rightarrow> nfs_fh4 \<Rightarrow> ('fs, 'h, nfsstat4 + unit) srv" where
  "send_directory_recall E recall fh =
     srv_bind (next_callback_target (dr_clientid recall)) (\<lambda>found.
     case found of
       None \<Rightarrow> srv_return (Inl Stat_CbPathDown)
     | Some callback \<Rightarrow>
         srv_else (backchannel_op (send_callback (en_reply E) (recall_request callback recall fh)))
           (\<lambda>e. Inl (callback_error_status e)) (\<lambda>response.
         srv_return (validate_recall_response response)))"

section \<open>The recall\<close>

definition revoke_recallable :: "stateid4 \<Rightarrow> ('fs, 'h, nfsstat4 + unit) srv" where
  "revoke_recallable stateid = state_op (\<lambda>sm now. revoke_recallable_delegation sm now stateid)"

primrec revoke_all :: "stateid4 list \<Rightarrow> ('fs, 'h, unit) srv" where
  "revoke_all [] = srv_return ()"
| "revoke_all (stateid # stateids) = srv_bind (revoke_recallable stateid) (\<lambda>_. revoke_all stateids)"

text \<open>
  The wait polls every ten milliseconds until every delegation is back or the deadline is reached.
  A sleep lasts at least as long as asked, so the loop ends.
\<close>

function wait_loop :: "environment \<Rightarrow> nat \<Rightarrow> stateid4 list \<Rightarrow> ('fs, 'h, unit) srv" where
  "wait_loop E deadline outstanding s =
     (let remaining = filter (\<lambda>stateid. \<not> delegation_recall_complete (ns_state s) stateid) outstanding;
          now = ns_millis s in
      if remaining = [] then (s, ())
      else if deadline \<le> now then revoke_all remaining s
      else wait_loop E deadline remaining
        (s\<lparr>ns_millis := now + min 10 (deadline - now) + en_lateness E now,
           ns_state := en_interfere E now (ns_state s)\<rparr>))"
  by pat_completeness auto

termination
  by (relation "measure (\<lambda>(E, deadline, outstanding, s). deadline - ns_millis s)") auto

declare wait_loop.simps [simp del]

definition wait_for_recalled_delegations ::
  "environment \<Rightarrow> directory_delegation_recall list \<Rightarrow> ('fs, 'h, unit) srv" where
  "wait_for_recalled_delegations E recalls s =
     wait_loop E (ns_millis s + dc_recall_timeout (ns_delegation_config s)) (map dr_stateid recalls) s"

primrec send_recalls ::
  "environment \<Rightarrow> nfs_fh4 \<Rightarrow> directory_delegation_recall list \<Rightarrow> ('fs, 'h, unit) srv" where
  "send_recalls E fh [] = srv_return ()"
| "send_recalls E fh (recall # recalls) =
     srv_bind (if dr_send_callback recall
               then srv_bind (send_directory_recall E recall fh) (\<lambda>r.
                 case r of
                   Inl status \<Rightarrow> srv_map (\<lambda>_. ()) (revoke_recallable (dr_stateid recall))
                 | Inr _ \<Rightarrow> srv_return ())
               else srv_return ()) (\<lambda>_.
     send_recalls E fh recalls)"

definition recall_directory_delegations ::
  "environment \<Rightarrow> server_object \<Rightarrow> clientid4 option \<Rightarrow> ('fs, 'h, nfsstat4 + unit) srv" where
  "recall_directory_delegations E object excluded_clientid =
     srv_bind (srv_get ns_delegation_config) (\<lambda>config.
     if \<not> dc_directory_delegations config then srv_return (Inr ())
     else
       srv_bind (state_op (\<lambda>sm now. begin_directory_recall_excluding sm now now object excluded_clientid)) (\<lambda>recalls.
       if recalls = [] then srv_return (Inr ())
       else
         srv_bind (mint_fh object) (\<lambda>minted.
         case minted of
           None \<Rightarrow> srv_return (Inr ())
         | Some fh \<Rightarrow>
             srv_bind (send_recalls E fh recalls) (\<lambda>_.
             srv_map Inr (wait_for_recalled_delegations E recalls)))))"

section \<open>The grant\<close>

definition is_directory_type :: "server_file_type \<Rightarrow> bool" where
  "is_directory_type t \<longleftrightarrow> t = Sft_Directory \<or> t = Sft_NamedAttrDir"

definition op_get_dir_delegation ::
  "('fs, 'h) file_system \<Rightarrow> request_context \<Rightarrow> nfs_fh4 option \<Rightarrow> u32 \<Rightarrow> clientid4 option \<Rightarrow> sessionid4 option
     \<Rightarrow> ('fs, 'h, nfs_resop4) srv" where
  "op_get_dir_delegation F ctx current_fh minorversion sequence_clientid sequence_sessionid =
     srv_bind (srv_get ns_delegation_config) (\<lambda>config.
     if minorversion = 0 \<or> \<not> dc_directory_delegations config
     then srv_return (Res_GetDirDelegation Stat_Notsupp None)
     else (case sequence_clientid of
       None \<Rightarrow> srv_return (Res_GetDirDelegation Stat_OpNotInSession None)
     | Some clientid \<Rightarrow>
         srv_else (resolve_object F current_fh) (\<lambda>status. Res_GetDirDelegation status None) (\<lambda>(fh, object).
         case object of
           Obj_NamedAttrDir _ \<Rightarrow> srv_return (Res_GetDirDelegation Stat_Notsupp None)
         | Obj_NamedAttrFile _ _ \<Rightarrow> srv_return (Res_GetDirDelegation Stat_Notdir None)
         | Obj_Fs _ \<Rightarrow>
             srv_else (build_attr F ctx object) (\<lambda>e. Res_GetDirDelegation (fs_error_to_nfsstat4 e) None) (\<lambda>attr.
             if \<not> is_directory_type (sf_file_type attr)
             then srv_return (Res_GetDirDelegation Stat_Notdir None)
             else
               srv_bind (srv_get (has_callback_path clientid)) (\<lambda>path.
               if \<not> path then srv_return (Res_GetDirDelegation Stat_DirDelegUnavail None)
               else
                 srv_else (state_op (\<lambda>sm now. grant_directory_delegation sm now now object clientid
                     sequence_sessionid (dc_max_delegations_per_client config) (dc_max_delegations_total config)))
                   (\<lambda>status. Res_GetDirDelegation status None) (\<lambda>grant.
                 srv_return (case grant of
                     Grant_Granted stateid \<Rightarrow>
                       Res_GetDirDelegation Stat_Ok (Some (Gdd_Ok
                         \<lparr>gd_cookieverf = be_u64 (sf_change_id attr), gd_stateid = stateid,
                          gd_notification = [], gd_child_attributes = [], gd_dir_attributes = []\<rparr>))
                   | Grant_AlreadyHeld \<Rightarrow> Res_GetDirDelegation Stat_Ok (Some (Gdd_Unavail False))
                   | Grant_Unavailable \<Rightarrow> Res_GetDirDelegation Stat_DirDelegUnavail None)))))))"

section \<open>Controls of the embedder\<close>

definition recall_status_to_fs_error :: "nfsstat4 \<Rightarrow> fs_error" where
  "recall_status_to_fs_error status =
     (if status = Stat_Access then Fse_AccessDenied
      else if status = Stat_Perm then Fse_PermissionDenied
      else if status = Stat_Badhandle \<or> status = Stat_Stale then Fse_Stale
      else if status = Stat_Notsupp then Fse_Unsupported
      else if status = Stat_Delay \<or> status = Stat_CbPathDown then Fse_Io
      else Fse_ServerFault)"

definition recall_directory :: "environment \<Rightarrow> 'h \<Rightarrow> ('fs, 'h, unit fs_result) srv" where
  "recall_directory E handle =
     srv_bind (srv_get (\<lambda>s. hm_get (ns_handle_to_object s) handle)) (\<lambda>known.
     case known of
       None \<Rightarrow> srv_return (Inr ())
     | Some i \<Rightarrow>
         srv_else (recall_directory_delegations E (Obj_Fs i) None)
           (\<lambda>status. Inl (recall_status_to_fs_error status)) (\<lambda>_. srv_return (Inr ())))"

definition recall_write_delegations :: "('h \<Rightarrow> bool) \<Rightarrow> ('fs, 'h, nat fs_result) srv" where
  "recall_write_delegations scope s =
     (let scoped = map (\<lambda>(handle, i). Obj_Fs i) (filter (\<lambda>(handle, i). scope handle) (ns_handle_to_object s)) in
      if scoped = [] then (s, Inr 0)
      else if write_delegations_over (ns_state s) scoped = [] then (s, Inr 0)
      else (s, Inl Fse_Unsupported))"

primrec recall_each :: "environment \<Rightarrow> object_id list \<Rightarrow> ('fs, 'h, unit) srv" where
  "recall_each E [] = srv_return ()"
| "recall_each E (i # ids) = srv_bind (recall_directory_delegations E (Obj_Fs i) None) (\<lambda>_. recall_each E ids)"

text \<open>Fence, snapshot and removal of the mappings under the registration lock.\<close>

definition withdraw :: "('h \<Rightarrow> bool) \<Rightarrow> ('fs, 'h, ('h \<times> object_id) list) srv" where
  "withdraw retired s =
     (let matched = filter (\<lambda>(handle, i). retired handle) (ns_handle_to_object s) in
      (s\<lparr>ns_retired := fence_install retired (ns_retired s),
         ns_handle_to_object := fold hm_remove (map fst matched) (ns_handle_to_object s),
         ns_object_to_handle := fold hm_remove (map snd matched) (ns_object_to_handle s)\<rparr>, matched))"

definition retire_handles :: "environment \<Rightarrow> ('h \<Rightarrow> bool) \<Rightarrow> ('fs, 'h, invalidation_counts) srv" where
  "retire_handles E retired =
     srv_bind (withdraw retired) (\<lambda>matched.
     if matched = [] then srv_return invalidation_counts_default
     else
       let ids = map snd matched in
       srv_bind (state_op (\<lambda>sm now. (mark_retired sm ids, ()))) (\<lambda>_.
       srv_bind (recall_each E ids) (\<lambda>_.
       state_op (\<lambda>sm now. invalidate_objects sm ids))))"

end
