(* ===== verification/Ops_File.thy ===== *)
theory Ops_File
  imports Recall Opens Locks Stateids
begin

text \<open>
  The file operations, \<^verbatim>\<open>crates/embednfs/src/server/ops/file.rs\<close>: the checks a stateid goes through before
  data moves, OPEN with its creation modes, READ, WRITE, COMMIT, CLOSE, OPEN_DOWNGRADE and READLINK.
\<close>

section \<open>Stateids of data operations\<close>

record io_state_context =
  io_current_stateid :: "stateid4 option"
  io_sequence_clientid :: "clientid4 option"
  io_is_write :: bool
  io_offset :: u64
  io_length :: u64

definition resolve_io_stateid ::
  "server_object \<Rightarrow> stateid4 \<Rightarrow> stateid4 option \<Rightarrow> clientid4 option \<Rightarrow> ('fs, 'h, nfsstat4 + resolved_stateid) srv" where
  "resolve_io_stateid object stateid current_stateid sequence_clientid =
     srv_try (state_op (\<lambda>sm now. resolve_stateid sm now sequence_clientid stateid current_stateid Mode_ZeroSeqid))
       (\<lambda>resolved. srv_return (case resolved of
           Resolved_Open open_state \<Rightarrow>
             if ro_object open_state \<noteq> object then Inl Stat_BadStateid else Inr resolved
         | Resolved_Lock lock_state \<Rightarrow>
             if rl_object lock_state \<noteq> object then Inl Stat_BadStateid else Inr resolved
         | _ \<Rightarrow> Inr resolved))"

text \<open>What a resolved stateid excuses: its own open, its owner's locks, its own lock state.\<close>

definition io_exemptions ::
  "bool \<Rightarrow> resolved_stateid \<Rightarrow> nfsstat4 + stateid_other option \<times> state_owner4 option \<times> stateid_other option" where
  "io_exemptions is_write resolved = (case resolved of
       Resolved_Anonymous \<Rightarrow> Inr (None, None, None)
     | Resolved_Bypass \<Rightarrow> Inr (None, None, None)
     | Resolved_Open open_state \<Rightarrow>
         if is_write \<and> share_access_mode (ro_share_access open_state) AND OPEN4_SHARE_ACCESS_WRITE = 0
         then Inl Stat_Openmode
         else Inr (Some (ro_other open_state), None, None)
     | Resolved_Lock lock_state \<Rightarrow>
         if is_write \<and> share_access_mode (ro_share_access (rl_open_state lock_state)) AND OPEN4_SHARE_ACCESS_WRITE = 0
         then Inl Stat_Openmode
         else Inr (Some (ro_other (rl_open_state lock_state)), Some (rl_owner lock_state), Some (rl_other lock_state)))"

definition validate_io_stateid ::
  "server_object \<Rightarrow> stateid4 \<Rightarrow> io_state_context \<Rightarrow> ('fs, 'h, nfsstat4 + unit) srv" where
  "validate_io_stateid object stateid io =
     srv_try (resolve_io_stateid object stateid (io_current_stateid io) (io_sequence_clientid io)) (\<lambda>resolved.
     let access = (if io_is_write io then OPEN4_SHARE_ACCESS_WRITE else OPEN4_SHARE_ACCESS_READ) in
     srv_try (srv_return (io_exemptions (io_is_write io) resolved)) (\<lambda>(ignore_open, lock_owner, ignore_lock).
     srv_bind (state_op (\<lambda>sm now. has_conflicting_share_deny sm now object access ignore_open)) (\<lambda>denied.
     if denied then srv_return (Inl Stat_Locked)
     else
       srv_bind (state_op (\<lambda>sm now. has_conflicting_io_lock sm now object lock_owner (io_is_write io)
         (io_offset io) (io_length io) ignore_lock)) (\<lambda>locked.
       srv_return (if locked then Inl Stat_Locked else Inr ())))))"

section \<open>Argument checks\<close>

definition OPEN4_SHARE_ACCESS_WANT_READ_DELEG :: u32 where "OPEN4_SHARE_ACCESS_WANT_READ_DELEG = 0x0100"
definition OPEN4_SHARE_ACCESS_WANT_WRITE_DELEG :: u32 where "OPEN4_SHARE_ACCESS_WANT_WRITE_DELEG = 0x0200"
definition OPEN4_SHARE_ACCESS_WANT_ANY_DELEG :: u32 where "OPEN4_SHARE_ACCESS_WANT_ANY_DELEG = 0x0300"
definition OPEN4_SHARE_ACCESS_WANT_NO_DELEG :: u32 where "OPEN4_SHARE_ACCESS_WANT_NO_DELEG = 0x0400"
definition OPEN4_SHARE_ACCESS_WANT_CANCEL :: u32 where "OPEN4_SHARE_ACCESS_WANT_CANCEL = 0x0500"
definition OPEN4_SHARE_ACCESS_WANT_NO_PREFERENCE :: u32 where "OPEN4_SHARE_ACCESS_WANT_NO_PREFERENCE = 0x0000"

definition OPEN4_SHARE_ACCESS_WANT_SIGNAL_DELEG_WHEN_RESRC_AVAIL :: u32 where
  "OPEN4_SHARE_ACCESS_WANT_SIGNAL_DELEG_WHEN_RESRC_AVAIL = 0x10000"
definition OPEN4_SHARE_ACCESS_WANT_PUSH_DELEG_WHEN_UNCONTENDED :: u32 where
  "OPEN4_SHARE_ACCESS_WANT_PUSH_DELEG_WHEN_UNCONTENDED = 0x20000"

definition OPEN4_RESULT_CONFIRM :: u32 where "OPEN4_RESULT_CONFIRM = 0x00000002"
definition OPEN4_RESULT_LOCKTYPE_POSIX :: u32 where "OPEN4_RESULT_LOCKTYPE_POSIX = 0x00000004"

definition validate_open_share :: "u32 \<Rightarrow> u32 \<Rightarrow> u32 \<Rightarrow> nfsstat4 + unit" where
  "validate_open_share share_access share_deny minorversion =
     (if share_access AND OPEN4_SHARE_ACCESS_BOTH = 0 then Inl Stat_Inval
      else if share_deny AND NOT OPEN4_SHARE_DENY_BOTH \<noteq> 0 then Inl Stat_Inval
      else
        let extra = share_access AND NOT OPEN4_SHARE_ACCESS_BOTH in
        if extra = 0 then Inr ()
        else if minorversion = 0 then Inl Stat_Inval
        else
          let signal_flags = OPEN4_SHARE_ACCESS_WANT_SIGNAL_DELEG_WHEN_RESRC_AVAIL
                OR OPEN4_SHARE_ACCESS_WANT_PUSH_DELEG_WHEN_UNCONTENDED in
          if extra AND NOT (OPEN4_SHARE_ACCESS_WANT_DELEG_MASK OR signal_flags) \<noteq> 0 then Inl Stat_Inval
          else if extra AND OPEN4_SHARE_ACCESS_WANT_DELEG_MASK \<in>
              {OPEN4_SHARE_ACCESS_WANT_NO_PREFERENCE, OPEN4_SHARE_ACCESS_WANT_READ_DELEG,
               OPEN4_SHARE_ACCESS_WANT_WRITE_DELEG, OPEN4_SHARE_ACCESS_WANT_ANY_DELEG,
               OPEN4_SHARE_ACCESS_WANT_NO_DELEG, OPEN4_SHARE_ACCESS_WANT_CANCEL}
          then Inr () else Inl Stat_Inval)"

definition requested_write_stability :: "u32 \<Rightarrow> nfsstat4 + write_stability" where
  "requested_write_stability how =
     (if how = UNSTABLE4 then Inr Ws_Unstable
      else if how = DATA_SYNC4 then Inr Ws_DataSync
      else if how = FILE_SYNC4 then Inr Ws_FileSync
      else Inl Stat_Inval)"

primrec stability_rank :: "write_stability \<Rightarrow> nat" where
  "stability_rank Ws_Unstable = 0"
| "stability_rank Ws_DataSync = 1"
| "stability_rank Ws_FileSync = 2"

definition stability_at_least :: "write_stability \<Rightarrow> write_stability \<Rightarrow> bool" where
  "stability_at_least actual requested \<longleftrightarrow> stability_rank requested \<le> stability_rank actual"

section \<open>CLOSE, COMMIT and OPEN_DOWNGRADE\<close>

definition stateid4_default :: stateid4 where
  "stateid4_default = \<lparr>sid_seqid = 0, sid_other = replicate 12 0\<rparr>"

definition zero_verifier :: verifier4 where
  "zero_verifier = replicate 8 0"

text \<open>The notification of the backend after a close or an open; its failure is only logged.\<close>

definition notify ::
  "object_id \<Rightarrow> ('h \<Rightarrow> 'fs \<Rightarrow> 'fs \<times> unit fs_result) \<Rightarrow> ('fs, 'h, unit) srv" where
  "notify i hook =
     srv_else (resolve_backend_handle i) (\<lambda>_. ()) (\<lambda>handle. srv_map (\<lambda>_. ()) (fs_op (hook handle)))"

definition concrete_stateid ::
  "stateid4 \<Rightarrow> stateid4 option \<Rightarrow> current_stateid_mode \<Rightarrow> nfsstat4 + stateid4" where
  "concrete_stateid stateid current_stateid mode = (case normalize_stateid stateid current_stateid mode of
       Inl status \<Rightarrow> Inl status
     | Inr (Norm_Concrete concrete) \<Rightarrow> Inr concrete
     | Inr Norm_Anonymous \<Rightarrow> Inl Stat_BadStateid
     | Inr Norm_Bypass \<Rightarrow> Inl Stat_BadStateid)"

definition op_close ::
  "('fs, 'h) file_system \<Rightarrow> request_context \<Rightarrow> close_args4 \<Rightarrow> nfs_fh4 option \<Rightarrow> stateid4 option \<Rightarrow> clientid4 option
     \<Rightarrow> ('fs, 'h, nfs_resop4) srv" where
  "op_close F ctx args current_fh current_stateid sequence_clientid =
     (let failed = (\<lambda>status. Res_Close status stateid4_default) in
      srv_else (resolve_object F current_fh) failed (\<lambda>(fh, object).
      srv_else (srv_return (concrete_stateid (cl_open_stateid args) current_stateid Mode_PreserveSeqid)) failed (\<lambda>stateid.
      srv_else (state_op (\<lambda>sm now. resolve_stateid sm now sequence_clientid stateid None Mode_PreserveSeqid)) failed
        (\<lambda>resolved.
      if \<not> (case resolved of Resolved_Open open_state \<Rightarrow> ro_object open_state = object | _ \<Rightarrow> False)
      then srv_return (failed Stat_BadStateid)
      else
        srv_else (state_op (\<lambda>sm now. close_state sm now stateid)) failed (\<lambda>outcome.
        srv_bind (case (cl_last_writer outcome, fs_open_lifecycle F, object) of
            (True, Some lifecycle, Obj_Fs i) \<Rightarrow> notify i (\<lambda>handle. lc_on_close lifecycle ctx handle True)
          | _ \<Rightarrow> srv_return ()) (\<lambda>_.
        srv_return (Res_Close Stat_Ok (cl_stateid outcome))))))))"

definition op_commit ::
  "('fs, 'h) file_system \<Rightarrow> request_context \<Rightarrow> commit_args4 \<Rightarrow> nfs_fh4 option \<Rightarrow> ('fs, 'h, nfs_resop4) srv" where
  "op_commit F ctx args current_fh =
     (let failed = (\<lambda>status. Res_Commit status zero_verifier);
          succeeded = srv_get (\<lambda>s. Res_Commit Stat_Ok (sm_write_verifier (ns_state s))) in
      srv_else (resolve_object F current_fh) failed (\<lambda>(fh, object).
      case object of
        Obj_Fs i \<Rightarrow>
          srv_else (getattr_id F ctx i) (\<lambda>e. failed (fs_error_to_nfsstat4 e)) (\<lambda>attrs.
          if at_object_type attrs = Ot_Directory then srv_return (failed Stat_Isdir)
          else (case fs_commit_support F of
              None \<Rightarrow> succeeded
            | Some syncer \<Rightarrow>
                srv_else (resolve_backend_handle i) (\<lambda>e. failed (fs_error_to_nfsstat4 e)) (\<lambda>handle.
                srv_else (fs_op (cs_commit syncer ctx handle (cm_offset args) (cm_count args)))
                  (\<lambda>e. failed (fs_error_to_nfsstat4 e)) (\<lambda>_. succeeded))))
      | Obj_NamedAttrFile _ _ \<Rightarrow> succeeded
      | Obj_NamedAttrDir _ \<Rightarrow> srv_return (failed Stat_Isdir)))"

definition op_open_downgrade ::
  "open_downgrade_args4 \<Rightarrow> stateid4 option \<Rightarrow> clientid4 option \<Rightarrow> ('fs, 'h, nfs_resop4) srv" where
  "op_open_downgrade args current_stateid sequence_clientid =
     (let failed = (\<lambda>status. Res_OpenDowngrade status None) in
      srv_else (srv_return (concrete_stateid (od_open_stateid args) current_stateid Mode_PreserveSeqid)) failed (\<lambda>stateid.
      srv_else (state_op (\<lambda>sm now. resolve_stateid sm now sequence_clientid stateid None Mode_PreserveSeqid)) failed
        (\<lambda>resolved.
      if \<not> (case resolved of Resolved_Open open_state \<Rightarrow> True | _ \<Rightarrow> False)
      then srv_return (failed Stat_BadStateid)
      else
        srv_else (state_op (\<lambda>sm now. open_downgrade sm now stateid (od_share_access args) (od_share_deny args))) failed
          (\<lambda>downgraded. srv_return (Res_OpenDowngrade Stat_Ok (Some downgraded))))))"

section \<open>OPEN\<close>

text \<open>The attributes to create a file with.\<close>

definition create_attrs :: "createhow4 \<Rightarrow> nfsstat4 + set_attrs" where
  "create_attrs how = (case how of
       How_Unchecked fa \<Rightarrow> decode_setattr fa
     | How_Guarded fa \<Rightarrow> decode_setattr fa
     | How_Exclusive4_1 verf fa \<Rightarrow> decode_setattr fa
     | How_Exclusive verf \<Rightarrow> Inr set_attrs_default)"

definition must_not_exist :: "openflag4 \<Rightarrow> bool" where
  "must_not_exist openhow = (case openhow of
       Open_Create how \<Rightarrow> create_mode_requires_nonexistence how
     | Open_NoCreate \<Rightarrow> False)"

text \<open>The rights on the parent's extended attributes an OPEN in their namespace needs.\<close>

definition open_xattr_need :: "open_args4 \<Rightarrow> access_mask" where
  "open_xattr_need args =
     (let share_access = share_access_mode (oa_share_access args);
          need = ACCESS_NONE;
          need = (if share_access AND OPEN4_SHARE_ACCESS_READ \<noteq> 0 then need OR ACCESS_XATTR_READ else need);
          need = (if share_access AND OPEN4_SHARE_ACCESS_WRITE \<noteq> 0 then need OR ACCESS_XATTR_WRITE else need) in
      (case oa_openhow args of Open_Create how \<Rightarrow> need OR ACCESS_XATTR_WRITE | Open_NoCreate \<Rightarrow> need))"

definition open_xattr_parent :: "server_object \<Rightarrow> open_claim4 \<Rightarrow> object_id option" where
  "open_xattr_parent container claim = (case (container, claim) of
       (Obj_NamedAttrDir parent, Claim_Null name) \<Rightarrow> Some parent
     | (Obj_NamedAttrFile parent name, c) \<Rightarrow> Some parent
     | _ \<Rightarrow> None)"

definition open_xattr_gate ::
  "('fs, 'h) file_system \<Rightarrow> request_context \<Rightarrow> open_args4 \<Rightarrow> server_object \<Rightarrow> ('fs, 'h, nfsstat4 + unit) srv" where
  "open_xattr_gate F ctx args container = (case open_xattr_parent container (oa_claim args) of
       None \<Rightarrow> srv_return (Inr ())
     | Some parent \<Rightarrow>
         let need = open_xattr_need args in
         srv_guard (need \<noteq> ACCESS_NONE) (require_access F ctx parent need))"

text \<open>
  The object an OPEN is about, with the change number of its directory before a creation: the entry
  of a directory, created when asked for, a named attribute, created when asked for, or the current
  object itself.
\<close>

definition open_in_directory ::
  "('fs, 'h) file_system \<Rightarrow> environment \<Rightarrow> request_context \<Rightarrow> open_args4 \<Rightarrow> clientid4 option
     \<Rightarrow> server_file_attr fs_result \<Rightarrow> object_id \<Rightarrow> rust_string \<Rightarrow> ('fs, 'h, nfsstat4 + server_object \<times> u64 option) srv" where
  "open_in_directory F E ctx args sequence_clientid before_attr dir_id name =
     srv_try (srv_return (validate_component_name F name)) (\<lambda>_.
     srv_else (kind_of F ctx dir_id) (\<lambda>e. Inl (fs_error_to_nfsstat4 e)) (\<lambda>kind.
     if kind \<noteq> Ot_Directory then srv_return (Inl Stat_Notdir)
     else
       srv_bind (lookup_id F ctx dir_id name) (\<lambda>found.
       case found of
         Inr i \<Rightarrow>
           srv_return (if must_not_exist (oa_openhow args) then Inl Stat_Exist else Inr (Obj_Fs i, None))
       | Inl e \<Rightarrow>
           if e \<noteq> Fse_NotFound then srv_return (Inl (fs_error_to_nfsstat4 e))
           else (case oa_openhow args of
               Open_NoCreate \<Rightarrow> srv_return (Inl Stat_Noent)
             | Open_Create how \<Rightarrow>
                 srv_else (srv_return before_attr) (\<lambda>e. Inl (fs_error_to_nfsstat4 e)) (\<lambda>before.
                 srv_try (srv_return (create_attrs how)) (\<lambda>set_attrs.
                 srv_try (recall_directory_delegations E (Obj_Fs dir_id) sequence_clientid) (\<lambda>_.
                 srv_else (create_file F ctx dir_id name set_attrs) (\<lambda>e. Inl (fs_error_to_nfsstat4 e)) (\<lambda>created.
                 srv_return (Inr (Obj_Fs (crs_handle created), Some (sf_change_id before)))))))))))"

definition open_named_attr ::
  "('fs, 'h) file_system \<Rightarrow> environment \<Rightarrow> request_context \<Rightarrow> open_args4 \<Rightarrow> clientid4 option
     \<Rightarrow> server_file_attr fs_result \<Rightarrow> object_id \<Rightarrow> rust_string \<Rightarrow> ('fs, 'h, nfsstat4 + server_object \<times> u64 option) srv" where
  "open_named_attr F E ctx args sequence_clientid before_attr parent name =
     (let container = Obj_NamedAttrDir parent; object = Obj_NamedAttrFile parent name;
          fs_failed = (\<lambda>e. Inl (fs_error_to_nfsstat4 e)) in
      srv_try (srv_return (ok_or Stat_Notsupp (fs_xattrs F))) (\<lambda>named.
      srv_else (resolve_backend_handle parent) fs_failed (\<lambda>parent_handle.
      srv_bind (fs_op (xi_get_xattr named ctx parent_handle name)) (\<lambda>found.
      case found of
        Inr _ \<Rightarrow> srv_return (if must_not_exist (oa_openhow args) then Inl Stat_Exist else Inr (object, None))
      | Inl e \<Rightarrow>
          if e \<noteq> Fse_NotFound then srv_return (Inl (fs_error_to_nfsstat4 e))
          else (case oa_openhow args of
              Open_NoCreate \<Rightarrow> srv_return (Inl Stat_Noent)
            | Open_Create how \<Rightarrow>
                srv_else (srv_return before_attr) fs_failed (\<lambda>before.
                srv_try (srv_return (create_attrs how)) (\<lambda>set_attrs.
                srv_try (recall_directory_delegations E container sequence_clientid) (\<lambda>_.
                srv_else (fs_op (xi_set_xattr named ctx parent_handle name
                    (case sa_size set_attrs of None \<Rightarrow> [] | Some n \<Rightarrow> replicate (unat n) 0) (open_set_mode how)))
                  fs_failed (\<lambda>_.
                srv_bind (refresh_xattr_summary F ctx parent) (\<lambda>_.
                srv_bind (meta_op (\<lambda>sm now. (apply_setattr sm now now object Sft_NamedAttr set_attrs, ()))) (\<lambda>_.
                srv_bind (meta_op (\<lambda>sm now. (touch_metadata sm now now container Sft_NamedAttrDir, ()))) (\<lambda>_.
                srv_bind (parent_change_after_xattr_mutation F ctx parent) (\<lambda>_.
                srv_return (Inr (object, Some (sf_change_id before))))))))))))))))"

definition open_object ::
  "('fs, 'h) file_system \<Rightarrow> environment \<Rightarrow> request_context \<Rightarrow> open_args4 \<Rightarrow> clientid4 option
     \<Rightarrow> server_file_attr fs_result \<Rightarrow> server_object \<Rightarrow> ('fs, 'h, nfsstat4 + server_object \<times> u64 option) srv" where
  "open_object F E ctx args sequence_clientid before_attr container =
     (case oa_claim args of
        Claim_Null name \<Rightarrow>
          (case container of
             Obj_Fs dir_id \<Rightarrow> open_in_directory F E ctx args sequence_clientid before_attr dir_id name
           | Obj_NamedAttrDir parent \<Rightarrow> open_named_attr F E ctx args sequence_clientid before_attr parent name
           | Obj_NamedAttrFile _ _ \<Rightarrow> srv_return (Inl Stat_Notsupp))
      | Claim_Fh \<Rightarrow> srv_return (Inr (container, None))
      | Claim_Previous _ \<Rightarrow> srv_return (Inr (container, None))
      | Claim_DelegCurFh _ \<Rightarrow> srv_return (Inr (container, None))
      | Claim_DelegPrevFh \<Rightarrow> srv_return (Inr (container, None))
      | _ \<Rightarrow> srv_return (Inl Stat_Notsupp))"

text \<open>The permission the share mode stands for, on a file that was there before.\<close>

definition open_need :: "u32 \<Rightarrow> access_mask" where
  "open_need share_access =
     (let need = ACCESS_NONE;
          need = (if share_access AND OPEN4_SHARE_ACCESS_READ \<noteq> 0 then need OR ACCESS_READ else need) in
      if share_access AND OPEN4_SHARE_ACCESS_WRITE \<noteq> 0 then need OR ACCESS_MODIFY OR ACCESS_EXTEND else need)"

definition open_permission ::
  "('fs, 'h) file_system \<Rightarrow> request_context \<Rightarrow> u32 \<Rightarrow> bool \<Rightarrow> server_object \<Rightarrow> ('fs, 'h, nfsstat4 + unit) srv" where
  "open_permission F ctx share_access created object = (case object of
       Obj_Fs i \<Rightarrow>
         let need = open_need (share_access_mode share_access) in
         srv_guard (\<not> created \<and> need \<noteq> ACCESS_NONE)
           (srv_else (access_for F ctx i need) (\<lambda>e. Inl (fs_error_to_nfsstat4 e)) (\<lambda>granted.
            srv_return (if access_contains granted need then Inr () else Inl Stat_Access)))
     | _ \<Rightarrow> srv_return (Inr ()))"

definition open_no_delegation :: "u32 \<Rightarrow> open_delegation4" where
  "open_no_delegation share_access =
     (if share_access AND NOT OPEN4_SHARE_ACCESS_BOTH = 0 then Deleg_None
      else
        let want = share_access AND OPEN4_SHARE_ACCESS_WANT_DELEG_MASK in
        Deleg_NoneExt (Ond_Other
          (if want = OPEN4_SHARE_ACCESS_WANT_NO_DELEG then Wnd_NotWanted
           else if want = OPEN4_SHARE_ACCESS_WANT_CANCEL then Wnd_Cancelled
           else Wnd_NotSuppFtype)))"

definition open_change_info ::
  "('fs, 'h) file_system \<Rightarrow> request_context \<Rightarrow> server_object \<Rightarrow> server_file_attr fs_result \<Rightarrow> u64 option
     \<Rightarrow> ('fs, 'h, nfsstat4 + change_info4) srv" where
  "open_change_info F ctx container before_attr created_before = (case created_before of
       Some before_change \<Rightarrow> srv_map Inr (mutation_change_info F ctx container before_change)
     | None \<Rightarrow>
         srv_return (case before_attr of
             Inl e \<Rightarrow> Inl (fs_error_to_nfsstat4 e)
           | Inr attr \<Rightarrow> Inr \<lparr>ci_atomic = True, ci_before = sf_change_id attr, ci_after = sf_change_id attr\<rparr>))"

definition op_open ::
  "('fs, 'h) file_system \<Rightarrow> environment \<Rightarrow> request_context \<Rightarrow> open_args4 \<Rightarrow> nfs_fh4 option \<Rightarrow> u32 \<Rightarrow> clientid4 option
     \<Rightarrow> ('fs, 'h, nfs_fh4 option \<times> nfs_resop4) srv" where
  "op_open F E ctx args current_fh minorversion sequence_clientid =
     (let failed = (\<lambda>status. (current_fh, Res_Open status None));
          fs_failed = (\<lambda>e. failed (fs_error_to_nfsstat4 e)) in
      srv_else (srv_return (validate_open_share (oa_share_access args) (oa_share_deny args) minorversion)) failed (\<lambda>_.
      srv_else (resolve_object F current_fh) failed (\<lambda>(fh, container).
      srv_else (open_xattr_gate F ctx args container) failed (\<lambda>_.
      srv_bind (build_attr F ctx container) (\<lambda>before_attr.
      srv_else (open_object F E ctx args sequence_clientid before_attr container) failed (\<lambda>(object, created_before).
      srv_else (build_attr F ctx object) fs_failed (\<lambda>opened_attr.
      if is_directory_type (sf_file_type opened_attr) then srv_return (failed Stat_Isdir)
      else
        srv_else (srv_return (if created_before = None then before_attr else Inr opened_attr)) fs_failed (\<lambda>_.
        srv_else (open_permission F ctx (oa_share_access args) (created_before \<noteq> None) object) failed (\<lambda>_.
        srv_else (state_op (\<lambda>sm now. create_open_state sm now object (oa_owner args)
            (oa_share_access args) (oa_share_deny args))) failed (\<lambda>stateid.
        srv_bind (mint_fh object) (\<lambda>minted.
        case minted of
          None \<Rightarrow> srv_return (failed Stat_Stale)
        | Some open_fh \<Rightarrow>
            srv_else (open_change_info F ctx container before_attr created_before)
              (\<lambda>status. (Some open_fh, Res_Open status None)) (\<lambda>cinfo.
            srv_bind (case (share_access_mode (oa_share_access args) AND OPEN4_SHARE_ACCESS_WRITE \<noteq> 0,
                fs_open_lifecycle F, object) of
                (True, Some lifecycle, Obj_Fs i) \<Rightarrow> notify i (\<lambda>handle. lc_on_open lifecycle ctx handle True)
              | _ \<Rightarrow> srv_return ()) (\<lambda>_.
            srv_return (Some open_fh, Res_Open Stat_Ok (Some
              \<lparr>or_stateid = stateid, or_cinfo = cinfo,
               or_rflags = (if minorversion = 0 then OPEN4_RESULT_LOCKTYPE_POSIX OR OPEN4_RESULT_CONFIRM
                            else OPEN4_RESULT_LOCKTYPE_POSIX),
               or_attrset = [], or_delegation = open_no_delegation (oa_share_access args)\<rparr>)))))))))))))))"

section \<open>READ, READLINK and WRITE\<close>

definition op_read ::
  "('fs, 'h) file_system \<Rightarrow> request_context \<Rightarrow> read_args4 \<Rightarrow> nfs_fh4 option \<Rightarrow> stateid4 option \<Rightarrow> clientid4 option
     \<Rightarrow> ('fs, 'h, nfs_resop4) srv" where
  "op_read F ctx args current_fh current_stateid sequence_clientid =
     (let failed = (\<lambda>status. Res_Read status None);
          fs_failed = (\<lambda>e. failed (fs_error_to_nfsstat4 e)) in
      srv_else (resolve_object F current_fh) failed (\<lambda>(fh, object).
      srv_else (validate_io_stateid object (ra_stateid args)
          \<lparr>io_current_stateid = current_stateid, io_sequence_clientid = sequence_clientid, io_is_write = False,
           io_offset = ra_offset args, io_length = ucast (ra_count args)\<rparr>) failed (\<lambda>_.
      srv_else (case object of
          Obj_NamedAttrFile parent name \<Rightarrow> require_access F ctx parent ACCESS_XATTR_READ
        | _ \<Rightarrow> srv_return (Inr ())) failed (\<lambda>_.
      case object of
        Obj_Fs i \<Rightarrow>
          srv_else (getattr_id F ctx i) fs_failed (\<lambda>attrs.
          if at_object_type attrs = Ot_Directory then srv_return (failed Stat_Isdir)
          else
            srv_else (require_access F ctx i ACCESS_READ) failed (\<lambda>_.
            srv_else (read_id F ctx i (ra_offset args) (ra_count args)) fs_failed (\<lambda>(data, eof).
            srv_return (Res_Read Stat_Ok (Some \<lparr>rrs_eof = eof, rrs_data = data\<rparr>)))))
      | Obj_NamedAttrFile parent name \<Rightarrow>
          srv_else (xattr_read_slice F ctx parent name (ra_offset args) (ra_count args)) fs_failed (\<lambda>(data, eof).
          srv_return (Res_Read Stat_Ok (Some \<lparr>rrs_eof = eof, rrs_data = data\<rparr>)))
      | Obj_NamedAttrDir _ \<Rightarrow> srv_return (fs_failed Fse_IsDirectory)))))"

definition op_readlink ::
  "('fs, 'h) file_system \<Rightarrow> request_context \<Rightarrow> nfs_fh4 option \<Rightarrow> ('fs, 'h, nfs_resop4) srv" where
  "op_readlink F ctx current_fh =
     (let failed = (\<lambda>status. Res_Readlink status None);
          fs_failed = (\<lambda>e. failed (fs_error_to_nfsstat4 e)) in
      srv_else (resolve_object F current_fh) failed (\<lambda>(fh, object).
      case object of
        Obj_Fs i \<Rightarrow>
          (case fs_symlinks F of
             None \<Rightarrow> srv_return (fs_failed Fse_Unsupported)
           | Some symlinks \<Rightarrow>
               srv_else (resolve_backend_handle i) fs_failed (\<lambda>handle.
               srv_else (fs_op (sy_readlink symlinks ctx handle)) fs_failed (\<lambda>target_path.
               srv_return (Res_Readlink Stat_Ok (Some target_path)))))
      | _ \<Rightarrow> srv_return (fs_failed Fse_InvalidInput)))"

text \<open>The kind of file a WRITE goes to.\<close>

definition write_file_type ::
  "('fs, 'h) file_system \<Rightarrow> request_context \<Rightarrow> server_object \<Rightarrow> ('fs, 'h, nfsstat4 + server_file_type) srv" where
  "write_file_type F ctx object = (case object of
       Obj_Fs i \<Rightarrow>
         srv_else (getattr_id F ctx i) (\<lambda>e. Inl (fs_error_to_nfsstat4 e)) (\<lambda>attrs.
         srv_return (if file_type_from_attrs attrs = Sft_Directory then Inl Stat_Isdir
                     else Inr (file_type_from_attrs attrs)))
     | Obj_NamedAttrFile _ _ \<Rightarrow> srv_return (Inr Sft_NamedAttr)
     | Obj_NamedAttrDir _ \<Rightarrow> srv_return (Inl Stat_Isdir))"

definition write_object ::
  "('fs, 'h) file_system \<Rightarrow> request_context \<Rightarrow> write_args4 \<Rightarrow> write_stability \<Rightarrow> server_object
     \<Rightarrow> ('fs, 'h, write_result fs_result) srv" where
  "write_object F ctx args stability object = (case object of
       Obj_Fs i \<Rightarrow> write_id F ctx i (wa_offset args) (wa_data args) stability
     | Obj_NamedAttrFile parent name \<Rightarrow>
         srv_try (xattr_write F ctx parent name (wa_offset args) (wa_data args)) (\<lambda>written.
         srv_return (Inr \<lparr>wr_written = written, wr_stability = Ws_FileSync\<rparr>))
     | Obj_NamedAttrDir _ \<Rightarrow> srv_return (Inl Fse_IsDirectory))"

definition op_write ::
  "('fs, 'h) file_system \<Rightarrow> request_context \<Rightarrow> write_args4 \<Rightarrow> nfs_fh4 option \<Rightarrow> stateid4 option \<Rightarrow> clientid4 option
     \<Rightarrow> ('fs, 'h, nfs_resop4) srv" where
  "op_write F ctx args current_fh current_stateid sequence_clientid =
     (let failed = (\<lambda>status. Res_Write status None) in
      srv_else (resolve_object F current_fh) failed (\<lambda>(fh, object).
      srv_else (validate_io_stateid object (wa_stateid args)
          \<lparr>io_current_stateid = current_stateid, io_sequence_clientid = sequence_clientid, io_is_write = True,
           io_offset = wa_offset args, io_length = word_of_nat (length (wa_data args))\<rparr>) failed (\<lambda>_.
      srv_else (case object of
          Obj_NamedAttrFile parent name \<Rightarrow> require_access F ctx parent ACCESS_XATTR_WRITE
        | _ \<Rightarrow> srv_return (Inr ())) failed (\<lambda>_.
      srv_else (srv_return (requested_write_stability (wa_stable args))) failed (\<lambda>requested.
      srv_else (write_file_type F ctx object) failed (\<lambda>file_type.
      srv_else (case object of
          Obj_Fs i \<Rightarrow> require_access F ctx i (ACCESS_MODIFY OR ACCESS_EXTEND)
        | _ \<Rightarrow> srv_return (Inr ())) failed (\<lambda>_.
      srv_else (write_object F ctx args requested object) (\<lambda>e. failed (fs_error_to_nfsstat4 e)) (\<lambda>result.
      if \<not> stability_at_least (wr_stability result) requested then srv_return (failed Stat_Serverfault)
      else
        srv_bind (case object of
            Obj_Fs _ \<Rightarrow> srv_return ()
          | _ \<Rightarrow> meta_op (\<lambda>sm now. (touch_data sm now now object file_type, ()))) (\<lambda>_.
        srv_get (\<lambda>s. Res_Write Stat_Ok (Some
          \<lparr>wrs_count = wr_written result, wrs_committed = committed_how (wr_stability result),
           wrs_writeverf = sm_write_verifier (ns_state s)\<rparr>)))))))))))"

end
