(* ===== verification/Ops_Attrs.thy ===== *)
theory Ops_Attrs
  imports Ops_File
begin

text \<open>
  The attribute operations, \<^verbatim>\<open>crates/embednfs/src/server/ops/attrs.rs\<close> (ACCESS, GETATTR, GETFH, SETATTR,
  VERIFY and NVERIFY), and RECLAIM_COMPLETE of \<^verbatim>\<open>ops/session.rs\<close>.
\<close>

section \<open>ACCESS\<close>

definition named_attr_file_access :: "access_mask \<Rightarrow> access_mask" where
  "named_attr_file_access parent_grant =
     (let granted = ACCESS_NONE;
          granted = (if access_contains parent_grant ACCESS_XATTR_READ then granted OR ACCESS_READ else granted) in
      if access_contains parent_grant ACCESS_XATTR_WRITE
      then granted OR (ACCESS_MODIFY OR ACCESS_EXTEND OR ACCESS_DELETE) else granted)"

definition named_attr_dir_access :: "access_mask \<Rightarrow> access_mask" where
  "named_attr_dir_access parent_grant =
     (let granted = ACCESS_NONE;
          granted = (if access_contains parent_grant ACCESS_XATTR_LIST
            then granted OR (ACCESS_READ OR ACCESS_LOOKUP) else granted) in
      if access_contains parent_grant ACCESS_XATTR_WRITE
      then granted OR (ACCESS_MODIFY OR ACCESS_EXTEND OR ACCESS_DELETE) else granted)"

text \<open>The bits the server can say something about.\<close>

definition server_supported :: "('fs, 'h) file_system \<Rightarrow> server_object \<Rightarrow> server_file_type \<Rightarrow> u32" where
  "server_supported F object file_type =
     (let supported = ACCESS4_READ OR ACCESS4_LOOKUP OR ACCESS4_MODIFY OR ACCESS4_EXTEND OR ACCESS4_DELETE
            OR ACCESS4_EXECUTE;
          supported = (if cap_xattrs (fs_caps F) \<and> \<not> is_synthetic object
            then supported OR (ACCESS4_XAREAD OR ACCESS4_XAWRITE OR ACCESS4_XALIST) else supported);
          supported = (if is_directory_type file_type then supported AND NOT ACCESS4_EXECUTE else supported) in
      (case object of
         Obj_NamedAttrFile _ _ \<Rightarrow> supported AND NOT (ACCESS4_EXECUTE OR ACCESS4_LOOKUP)
       | _ \<Rightarrow> supported))"

definition granted_access ::
  "('fs, 'h) file_system \<Rightarrow> request_context \<Rightarrow> server_object \<Rightarrow> access_mask \<Rightarrow> ('fs, 'h, access_mask fs_result) srv" where
  "granted_access F ctx object requested = (case object of
       Obj_Fs i \<Rightarrow> access_for F ctx i requested
     | Obj_NamedAttrFile parent name \<Rightarrow>
         srv_try (access_for F ctx parent (ACCESS_XATTR_READ OR ACCESS_XATTR_WRITE)) (\<lambda>parent_grant.
         srv_return (Inr (named_attr_file_access parent_grant)))
     | Obj_NamedAttrDir parent \<Rightarrow>
         srv_try (access_for F ctx parent (ACCESS_XATTR_LIST OR ACCESS_XATTR_WRITE)) (\<lambda>parent_grant.
         srv_return (Inr (named_attr_dir_access parent_grant))))"

definition op_access ::
  "('fs, 'h) file_system \<Rightarrow> request_context \<Rightarrow> u32 \<Rightarrow> nfs_fh4 option \<Rightarrow> ('fs, 'h, nfs_resop4) srv" where
  "op_access F ctx access current_fh =
     (let failed = (\<lambda>status. Res_Access status 0 0); fs_failed = (\<lambda>e. failed (fs_error_to_nfsstat4 e)) in
      srv_else (resolve_object F current_fh) failed (\<lambda>(fh, object).
      srv_else (build_attr F ctx object) fs_failed (\<lambda>attr.
      let supported = access AND server_supported F object (sf_file_type attr) in
      srv_else (granted_access F ctx object (nfs_access_mask supported)) fs_failed (\<lambda>granted.
      srv_return (Res_Access Stat_Ok supported (access_bits granted AND supported))))))"

section \<open>GETATTR and GETFH\<close>

definition op_getattr ::
  "('fs, 'h) file_system \<Rightarrow> request_context \<Rightarrow> bitmap4 \<Rightarrow> nfs_fh4 option \<Rightarrow> u32 \<Rightarrow> ('fs, 'h, nfs_resop4) srv" where
  "op_getattr F ctx attr_request current_fh minorversion =
     (let failed = (\<lambda>status. Res_Getattr status None); fs_failed = (\<lambda>e. failed (fs_error_to_nfsstat4 e)) in
      srv_else (resolve_object F current_fh) failed (\<lambda>(fh, object).
      srv_else (build_attr F ctx object) fs_failed (\<lambda>attr.
      srv_else (encode_fattr F ctx attr attr_request fh minorversion) fs_failed (\<lambda>fattr.
      srv_return (Res_Getattr Stat_Ok (Some fattr))))))"

definition op_getfh :: "nfs_fh4 option \<Rightarrow> nfs_resop4" where
  "op_getfh current_fh = (case current_fh of
       Some fh \<Rightarrow> Res_Getfh Stat_Ok (Some fh)
     | None \<Rightarrow> Res_Getfh Stat_Nofilehandle None)"

section \<open>SETATTR\<close>

text \<open>A new size is checked against the opens, the locks and the rights before anything changes.\<close>

definition setattr_size_checks ::
  "('fs, 'h) file_system \<Rightarrow> request_context \<Rightarrow> setattr_args4 \<Rightarrow> stateid4 option \<Rightarrow> clientid4 option
     \<Rightarrow> server_object \<Rightarrow> server_file_attr option \<Rightarrow> u64 option \<Rightarrow> ('fs, 'h, nfsstat4 + unit) srv" where
  "setattr_size_checks F ctx args current_stateid sequence_clientid object current_attr new_size =
     (case new_size of
        None \<Rightarrow> srv_return (Inr ())
      | Some n \<Rightarrow>
          (case current_attr of
             None \<Rightarrow> srv_return (Inl Stat_Serverfault)
           | Some attr \<Rightarrow>
               let offset = min (sf_size attr) n; len = max (sf_size attr) n - offset in
               srv_try (validate_io_stateid object (sat_stateid args)
                 \<lparr>io_current_stateid = current_stateid, io_sequence_clientid = sequence_clientid, io_is_write = True,
                  io_offset = offset, io_length = len\<rparr>) (\<lambda>_.
               (case object of
                  Obj_Fs i \<Rightarrow> require_access F ctx i (ACCESS_MODIFY OR ACCESS_EXTEND)
                | _ \<Rightarrow> srv_return (Inr ())))))"

definition setattr_apply ::
  "('fs, 'h) file_system \<Rightarrow> request_context \<Rightarrow> server_object \<Rightarrow> set_attrs \<Rightarrow> ('fs, 'h, nfsstat4) srv" where
  "setattr_apply F ctx object set_attrs = (case object of
       Obj_Fs i \<Rightarrow>
         srv_else (setattr_real F ctx i set_attrs) fs_error_to_nfsstat4 (\<lambda>_. srv_return Stat_Ok)
     | Obj_NamedAttrFile parent name \<Rightarrow>
         srv_else (case sa_size set_attrs of
             Some n \<Rightarrow> xattr_resize F ctx parent name n
           | None \<Rightarrow> srv_return (Inr ())) fs_error_to_nfsstat4 (\<lambda>_.
         srv_bind (meta_op (\<lambda>sm now. (apply_setattr sm now now object Sft_NamedAttr set_attrs, ()))) (\<lambda>_.
         srv_bind (if sa_size set_attrs \<noteq> None
           then meta_op (\<lambda>sm now. (touch_data sm now now object Sft_NamedAttr, ())) else srv_return ()) (\<lambda>_.
         srv_return Stat_Ok)))
     | Obj_NamedAttrDir _ \<Rightarrow>
         if sa_size set_attrs \<noteq> None then srv_return Stat_Isdir
         else
           srv_bind (meta_op (\<lambda>sm now. (apply_setattr sm now now object Sft_NamedAttrDir set_attrs, ()))) (\<lambda>_.
           srv_return Stat_Ok))"

definition op_setattr ::
  "('fs, 'h) file_system \<Rightarrow> environment \<Rightarrow> request_context \<Rightarrow> setattr_args4 \<Rightarrow> nfs_fh4 option \<Rightarrow> stateid4 option
     \<Rightarrow> clientid4 option \<Rightarrow> ('fs, 'h, nfs_resop4) srv" where
  "op_setattr F E ctx args current_fh current_stateid sequence_clientid =
     (let failed = (\<lambda>status. Res_Setattr status []); fs_failed = (\<lambda>e. failed (fs_error_to_nfsstat4 e)) in
      srv_else (resolve_object F current_fh) failed (\<lambda>(fh, object).
      srv_else (srv_return (decode_setattr (sat_obj_attributes args))) failed (\<lambda>set_attrs.
      srv_else (case (sa_size set_attrs, object) of
          (Some n, Obj_NamedAttrFile parent name) \<Rightarrow> require_access F ctx parent ACCESS_XATTR_WRITE
        | _ \<Rightarrow> srv_return (Inr ())) failed (\<lambda>_.
      srv_bind (srv_get ns_delegation_config) (\<lambda>config.
      srv_else (if sa_size set_attrs \<noteq> None
            \<or> dc_directory_delegations config \<and> \<not> set_attrs_is_empty set_attrs
          then srv_try (build_attr F ctx object) (\<lambda>attr. srv_return (Inr (Some attr)))
          else srv_return (Inr None)) fs_failed (\<lambda>current_attr.
      let is_dir = (case current_attr of Some attr \<Rightarrow> is_directory_type (sf_file_type attr) | None \<Rightarrow> False) in
      if is_dir \<and> sa_size set_attrs \<noteq> None then srv_return (failed Stat_Isdir)
      else
        srv_else (srv_guard (is_dir \<and> \<not> set_attrs_is_empty set_attrs)
          (recall_directory_delegations E object sequence_clientid)) failed (\<lambda>_.
        srv_else (setattr_size_checks F ctx args current_stateid sequence_clientid object current_attr
          (sa_size set_attrs)) failed (\<lambda>_.
        srv_bind (setattr_apply F ctx object set_attrs) (\<lambda>status.
        srv_return (if status = Stat_Ok
          then Res_Setattr Stat_Ok (fa_attrmask (sat_obj_attributes args)) else failed status))))))))))"

section \<open>VERIFY and NVERIFY\<close>

text \<open>Some word of the request has a bit the server does not support.\<close>

definition unsupported_attrs :: "bitmap4 \<Rightarrow> bitmap4 \<Rightarrow> bool" where
  "unsupported_attrs attrmask supported =
     (\<exists>(word_idx, w)\<in>set (enumerate 0 attrmask).
        w AND NOT (if word_idx < length supported then supported ! word_idx else 0) \<noteq> 0)"

definition op_verify ::
  "('fs, 'h) file_system \<Rightarrow> request_context \<Rightarrow> fattr4 \<Rightarrow> nfs_fh4 option \<Rightarrow> bool \<Rightarrow> u32 \<Rightarrow> ('fs, 'h, nfs_resop4) srv" where
  "op_verify F ctx client_fattr current_fh negate minorversion =
     (let make_res = (\<lambda>s. if negate then Res_Nverify s else Res_Verify s);
          fs_failed = (\<lambda>e. make_res (fs_error_to_nfsstat4 e)) in
      srv_else (resolve_object F current_fh) make_res (\<lambda>(fh, object).
      srv_else (build_attr F ctx object) fs_failed (\<lambda>attr.
      if bitmap4_is_set (fa_attrmask client_fattr) FATTR4_RDATTR_ERROR
         \<or> bitmap4_is_set (fa_attrmask client_fattr) FATTR4_TIME_ACCESS_SET
         \<or> bitmap4_is_set (fa_attrmask client_fattr) FATTR4_TIME_MODIFY_SET
      then srv_return (make_res Stat_Inval)
      else if unsupported_attrs (fa_attrmask client_fattr) (supported_attrs_bitmap (fs_caps F) minorversion)
      then srv_return (make_res Stat_AttrNotsupp)
      else
        srv_else (encode_fattr F ctx attr (fa_attrmask client_fattr) fh minorversion) fs_failed (\<lambda>server_fattr.
        let attrs_match = (fa_attrmask server_fattr = fa_attrmask client_fattr
              \<and> fa_attr_vals server_fattr = fa_attr_vals client_fattr) in
        srv_return (make_res
          (if negate then (if attrs_match then Stat_Same else Stat_Ok)
           else if attrs_match then Stat_Ok else Stat_NotSame))))))"

section \<open>RECLAIM_COMPLETE\<close>

definition op_reclaim_complete ::
  "('fs, 'h) file_system \<Rightarrow> bool \<Rightarrow> nfs_fh4 option \<Rightarrow> clientid4 option \<Rightarrow> ('fs, 'h, nfs_resop4) srv" where
  "op_reclaim_complete F one_fs current_fh sequence_clientid = (case sequence_clientid of
       None \<Rightarrow> srv_return (Res_ReclaimComplete Stat_OpNotInSession)
     | Some clientid \<Rightarrow>
         srv_else (if one_fs then srv_try (resolve_object F current_fh) (\<lambda>_. srv_return (Inr ()))
                   else srv_return (Inr ())) Res_ReclaimComplete (\<lambda>_.
         srv_else (state_op (\<lambda>sm now. reclaim_complete sm now clientid one_fs)) Res_ReclaimComplete (\<lambda>_.
         srv_return (Res_ReclaimComplete Stat_Ok))))"

end
