(* ===== verification/Ops_Directory.thy ===== *)
theory Ops_Directory
  imports Recall
begin

text \<open>
  The directory operations, \<^verbatim>\<open>crates/embednfs/src/server/ops/directory.rs\<close>: CREATE, LINK, LOOKUP, LOOKUPP,
  SECINFO_NO_NAME, READDIR, REMOVE, RENAME and OPENATTR. An operation that replaces the current file
  handle returns it beside its result.
\<close>

section \<open>CREATE and LINK\<close>

definition create_object ::
  "('fs, 'h) file_system \<Rightarrow> request_context \<Rightarrow> create_args4 \<Rightarrow> object_id \<Rightarrow> set_attrs
     \<Rightarrow> ('fs, 'h, nfsstat4 + server_object) srv" where
  "create_object F ctx args dir_id set_attrs =
     (let fs_failed = (\<lambda>e. Inl (fs_error_to_nfsstat4 e)) in
      case ca_objtype args of
        Ct_Reg \<Rightarrow> srv_return (Inl Stat_Badtype)
      | Ct_Dir \<Rightarrow>
          srv_else (create_dir F ctx dir_id (ca_objname args) set_attrs) fs_failed (\<lambda>created.
          srv_return (Inr (Obj_Fs (crs_handle created))))
      | Ct_Link target_path \<Rightarrow>
          srv_try (srv_return (ok_or Stat_Notsupp (fs_symlinks F))) (\<lambda>symlinks.
          srv_else (resolve_backend_handle dir_id) fs_failed (\<lambda>parent_handle.
          srv_else (fs_op (sy_create_symlink symlinks ctx parent_handle (ca_objname args) target_path set_attrs))
            fs_failed (\<lambda>created.
          srv_else (register_handle F (crs_handle created)) fs_failed (\<lambda>i.
          srv_return (Inr (Obj_Fs i))))))
      | Ct_Unsupported _ \<Rightarrow> srv_return (Inl Stat_Badtype)
      | _ \<Rightarrow> srv_return (Inl Stat_Notsupp))"

definition op_create ::
  "('fs, 'h) file_system \<Rightarrow> environment \<Rightarrow> request_context \<Rightarrow> create_args4 \<Rightarrow> nfs_fh4 option \<Rightarrow> clientid4 option
     \<Rightarrow> ('fs, 'h, nfs_fh4 option \<times> nfs_resop4) srv" where
  "op_create F E ctx args current_fh origin_clientid =
     (let failed = (\<lambda>status. (current_fh, Res_Create status None []));
          fs_failed = (\<lambda>e. failed (fs_error_to_nfsstat4 e)) in
      srv_else (resolve_object F current_fh) failed (\<lambda>(fh, dir_object).
      case dir_object of
        Obj_Fs dir_id \<Rightarrow>
          srv_else (kind_of F ctx dir_id) fs_failed (\<lambda>kind.
          if kind \<noteq> Ot_Directory then srv_return (failed Stat_Notdir)
          else
            srv_else (build_attr F ctx dir_object) fs_failed (\<lambda>dir_attr_before.
            srv_else (srv_return (decode_setattr (ca_createattrs args))) failed (\<lambda>set_attrs.
            srv_else (srv_return (validate_component_name F (ca_objname args))) failed (\<lambda>_.
            srv_else (recall_directory_delegations E dir_object origin_clientid) failed (\<lambda>_.
            srv_else (create_object F ctx args dir_id set_attrs) failed (\<lambda>new_object.
            srv_bind (mint_fh new_object) (\<lambda>minted.
            case minted of
              None \<Rightarrow> srv_return (failed Stat_Stale)
            | Some new_fh \<Rightarrow>
                srv_bind (mutation_change_info F ctx dir_object (sf_change_id dir_attr_before)) (\<lambda>cinfo.
                srv_return (Some new_fh, Res_Create Stat_Ok (Some cinfo) [])))))))))
      | _ \<Rightarrow> srv_return (failed Stat_Notsupp)))"

definition op_link ::
  "('fs, 'h) file_system \<Rightarrow> environment \<Rightarrow> request_context \<Rightarrow> rust_string \<Rightarrow> nfs_fh4 option \<Rightarrow> nfs_fh4 option
     \<Rightarrow> clientid4 option \<Rightarrow> ('fs, 'h, nfs_resop4) srv" where
  "op_link F E ctx newname current_fh saved_fh origin_clientid =
     (let failed = (\<lambda>status. Res_Link status None);
          fs_failed = (\<lambda>e. failed (fs_error_to_nfsstat4 e)) in
      srv_else (resolve_object F saved_fh) failed (\<lambda>(source_fh, source).
      srv_else (resolve_object F current_fh) failed (\<lambda>(dir_fh, target_dir).
      case (source, target_dir) of
        (Obj_Fs source_id, Obj_Fs dir_id) \<Rightarrow>
          srv_else (kind_of F ctx dir_id) fs_failed (\<lambda>kind.
          if kind \<noteq> Ot_Directory then srv_return (failed Stat_Notdir)
          else
            srv_else (build_attr F ctx target_dir) fs_failed (\<lambda>dir_attr_before.
            srv_else (srv_return (validate_component_name F newname)) failed (\<lambda>_.
            srv_else (recall_directory_delegations E target_dir origin_clientid) failed (\<lambda>_.
            srv_else (srv_return (ok_or Stat_Notsupp (fs_hard_links F))) failed (\<lambda>links.
            srv_else (resolve_backend_handle source_id) fs_failed (\<lambda>source_handle.
            srv_else (resolve_backend_handle dir_id) fs_failed (\<lambda>dir_handle.
            srv_else (fs_op (hl_link links ctx source_handle dir_handle newname)) fs_failed (\<lambda>_.
            srv_bind (mutation_change_info F ctx target_dir (sf_change_id dir_attr_before)) (\<lambda>cinfo.
            srv_return (Res_Link Stat_Ok (Some cinfo)))))))))))
      | _ \<Rightarrow> srv_return (failed Stat_Notsupp))))"

section \<open>LOOKUP, LOOKUPP, SECINFO_NO_NAME and OPENATTR\<close>

text \<open>A file handle for the object found becomes the current one.\<close>

definition set_current ::
  "nfs_fh4 option \<Rightarrow> (nfsstat4 \<Rightarrow> nfs_resop4) \<Rightarrow> server_object \<Rightarrow> ('fs, 'h, nfs_fh4 option \<times> nfs_resop4) srv" where
  "set_current current_fh res object =
     srv_bind (mint_fh object) (\<lambda>minted.
     srv_return (case minted of
         Some fh \<Rightarrow> (Some fh, res Stat_Ok)
       | None \<Rightarrow> (current_fh, res Stat_Stale)))"

definition lookup_child ::
  "('fs, 'h) file_system \<Rightarrow> request_context \<Rightarrow> rust_string \<Rightarrow> server_object \<Rightarrow> ('fs, 'h, nfsstat4 + server_object) srv" where
  "lookup_child F ctx objname object =
     (let fs_failed = (\<lambda>e. Inl (fs_error_to_nfsstat4 e)) in
      case object of
        Obj_Fs dir_id \<Rightarrow>
          srv_else (kind_of F ctx dir_id) fs_failed (\<lambda>kind.
          if kind \<noteq> Ot_Directory then srv_return (fs_failed Fse_NotDirectory)
          else
            srv_try (srv_return (validate_component_name F objname)) (\<lambda>_.
            srv_else (lookup_id F ctx dir_id objname) fs_failed (\<lambda>i. srv_return (Inr (Obj_Fs i)))))
      | Obj_NamedAttrDir parent \<Rightarrow>
          srv_try (srv_return (ok_or Stat_Notsupp (fs_xattrs F))) (\<lambda>named.
          srv_try (require_access F ctx parent ACCESS_XATTR_LIST) (\<lambda>_.
          srv_else (resolve_backend_handle parent) fs_failed (\<lambda>parent_handle.
          srv_else (fs_op (xi_get_xattr named ctx parent_handle objname)) fs_failed (\<lambda>_.
          srv_return (Inr (Obj_NamedAttrFile parent objname))))))
      | Obj_NamedAttrFile _ _ \<Rightarrow> srv_return (fs_failed Fse_NotDirectory))"

definition op_lookup ::
  "('fs, 'h) file_system \<Rightarrow> request_context \<Rightarrow> rust_string \<Rightarrow> nfs_fh4 option
     \<Rightarrow> ('fs, 'h, nfs_fh4 option \<times> nfs_resop4) srv" where
  "op_lookup F ctx objname current_fh =
     (let failed = (\<lambda>status. (current_fh, Res_Lookup status)) in
      srv_else (resolve_object F current_fh) failed (\<lambda>(fh, object).
      srv_else (lookup_child F ctx objname object) failed (set_current current_fh Res_Lookup)))"

definition parent_object ::
  "('fs, 'h) file_system \<Rightarrow> request_context \<Rightarrow> server_object \<Rightarrow> server_object \<Rightarrow> ('fs, 'h, server_object fs_result) srv" where
  "parent_object F ctx root object = (case object of
       Obj_Fs i \<Rightarrow>
         if root = Obj_Fs i then srv_return (Inl Fse_NotFound)
         else srv_try (lookup_parent F ctx i) (\<lambda>parent_id. srv_return (Inr (Obj_Fs parent_id)))
     | Obj_NamedAttrDir parent \<Rightarrow> srv_return (Inr (Obj_Fs parent))
     | Obj_NamedAttrFile parent name \<Rightarrow> srv_return (Inr (Obj_NamedAttrDir parent)))"

definition op_lookupp ::
  "('fs, 'h) file_system \<Rightarrow> request_context \<Rightarrow> nfs_fh4 option \<Rightarrow> ('fs, 'h, nfs_fh4 option \<times> nfs_resop4) srv" where
  "op_lookupp F ctx current_fh =
     (let failed = (\<lambda>status. (current_fh, Res_Lookupp status));
          fs_failed = (\<lambda>e. failed (fs_error_to_nfsstat4 e)) in
      srv_else (resolve_object F current_fh) failed (\<lambda>(fh, object).
      srv_else (root_object F) fs_failed (\<lambda>root.
      srv_else (parent_object F ctx root object) fs_failed (set_current current_fh Res_Lookupp))))"

definition secinfo_style ::
  "('fs, 'h) file_system \<Rightarrow> request_context \<Rightarrow> u32 \<Rightarrow> server_object \<Rightarrow> ('fs, 'h, nfsstat4 + unit) srv" where
  "secinfo_style F ctx style object =
     (let fs_failed = (\<lambda>e. Inl (fs_error_to_nfsstat4 e)) in
      if style = 0 then srv_return (Inr ())
      else if style = 1 then
        srv_else (root_object F) fs_failed (\<lambda>root.
        case object of
          Obj_Fs i \<Rightarrow>
            if root = Obj_Fs i then srv_return (Inl Stat_Noent)
            else srv_else (lookup_parent F ctx i) fs_failed (\<lambda>_. srv_return (Inr ()))
        | _ \<Rightarrow> srv_return (Inr ()))
      else srv_return (Inl Stat_Inval))"

definition op_secinfo_no_name ::
  "('fs, 'h) file_system \<Rightarrow> request_context \<Rightarrow> u32 \<Rightarrow> nfs_fh4 option \<Rightarrow> ('fs, 'h, nfs_fh4 option \<times> nfs_resop4) srv" where
  "op_secinfo_no_name F ctx style current_fh =
     (let failed = (\<lambda>status. (current_fh, Res_SecInfoNoName status [])) in
      srv_else (resolve_object F current_fh) failed (\<lambda>(fh, object).
      srv_else (secinfo_style F ctx style object) failed (\<lambda>_.
      srv_get (\<lambda>s. (None, Res_SecInfoNoName Stat_Ok (secinfo_flavors (ns_auth_policy s)))))))"

definition op_openattr ::
  "('fs, 'h) file_system \<Rightarrow> nfs_fh4 option \<Rightarrow> ('fs, 'h, nfs_fh4 option \<times> nfs_resop4) srv" where
  "op_openattr F current_fh =
     (let failed = (\<lambda>status. (current_fh, Res_OpenAttr status)) in
      if Option.is_none (fs_xattrs F) then srv_return (failed Stat_Notsupp)
      else
        srv_else (resolve_object F current_fh) failed (\<lambda>(fh, object).
        case object of
          Obj_Fs i \<Rightarrow>
            srv_bind (meta_op (\<lambda>sm now. ensure_meta sm now (Obj_NamedAttrDir i) Sft_NamedAttrDir)) (\<lambda>_.
            set_current current_fh Res_OpenAttr (Obj_NamedAttrDir i))
        | _ \<Rightarrow> srv_return (failed Stat_Inval)))"

section \<open>READDIR\<close>

type_synonym listed_entry = "rust_string \<times> server_object \<times> u64 \<times> attrs option"

text \<open>The entries after a cookie: a page of the backend, or the rest of the attribute names.\<close>

definition attr_name_entries :: "object_id \<Rightarrow> u64 \<Rightarrow> rust_string list \<Rightarrow> listed_entry list" where
  "attr_name_entries parent cookie names =
     (let start = (if cookie = 0 then 0 else saturating_sub cookie 2) in
      map (\<lambda>(idx, name). (name, Obj_NamedAttrFile parent name, start + 3 + word_of_nat idx, None))
        (enumerate 0 (drop (unat start) names)))"

definition list_entries ::
  "('fs, 'h) file_system \<Rightarrow> request_context \<Rightarrow> readdir_args4 \<Rightarrow> server_object
     \<Rightarrow> ('fs, 'h, nfsstat4 + listed_entry list \<times> bool) srv" where
  "list_entries F ctx args object =
     (let fs_failed = (\<lambda>e. Inl (fs_error_to_nfsstat4 e)) in
      case object of
        Obj_Fs dir_id \<Rightarrow>
          srv_else (readdir_id F ctx dir_id (rd_cookie args) (max (rd_maxcount args div 128) 1)
              (\<exists>w\<in>set (rd_attr_request args). w \<noteq> 0)) fs_failed (\<lambda>page.
          srv_return (Inr (map (\<lambda>e. (de_name e, Obj_Fs (de_handle e), de_cookie e, de_attrs e)) (dp_entries page),
            dp_eof page)))
      | Obj_NamedAttrDir parent \<Rightarrow>
          srv_try (srv_return (ok_or Stat_Notsupp (fs_xattrs F))) (\<lambda>named.
          srv_else (resolve_backend_handle parent) fs_failed (\<lambda>parent_handle.
          srv_else (fs_op (xi_list_xattrs named ctx parent_handle)) fs_failed (\<lambda>names.
          srv_return (Inr (attr_name_entries parent (rd_cookie args) names, True)))))
      | Obj_NamedAttrFile _ _ \<Rightarrow> srv_return (Inl Stat_Notdir))"

text \<open>One listed entry as it goes on the wire, or nothing when it is skipped.\<close>

definition readdir_entry ::
  "('fs, 'h) file_system \<Rightarrow> request_context \<Rightarrow> readdir_args4 \<Rightarrow> u32 \<Rightarrow> listed_entry
     \<Rightarrow> ('fs, 'h, nfsstat4 + entry4 option) srv" where
  "readdir_entry F ctx args minorversion listed = (case listed of (name, object, cookie, inline_attrs) \<Rightarrow>
     srv_bind (case inline_attrs of
         Some attrs \<Rightarrow> srv_get (\<lambda>s. Inr (attr_from_backend (ns_id_mapper s) attrs))
       | None \<Rightarrow> build_attr F ctx object) (\<lambda>built.
     case built of
       Inl _ \<Rightarrow> srv_return (Inr None)
     | Inr entry_attr \<Rightarrow>
         srv_else (if request_needs_fs_stats (rd_attr_request args)
                   then srv_try (statfs_for_object F ctx object) (\<lambda>stats. srv_return (Inr (Some stats)))
                   else srv_return (Inr None)) (\<lambda>e. Inl (fs_error_to_nfsstat4 e)) (\<lambda>stats.
         srv_bind (mint_fh object) (\<lambda>minted.
         srv_return (Inr (map_option (\<lambda>entry_fh.
           \<lparr>en_cookie = cookie, en_name = name,
            en_attrs = attrs_encode_fattr4 entry_attr (rd_attr_request args) entry_fh
              \<lparr>ax_limits = fs_lims F, ax_stats = stats, ax_capabilities = fs_caps F,
               ax_minorversion = minorversion\<rparr>\<rparr>) minted))))))"

definition dircount_limit :: "readdir_args4 \<Rightarrow> nat" where
  "dircount_limit args = (if rd_dircount args = 0 then 2 ^ 64 - 1 else unat (rd_dircount args))"

primrec readdir_loop ::
  "('fs, 'h) file_system \<Rightarrow> request_context \<Rightarrow> readdir_args4 \<Rightarrow> u32 \<Rightarrow> listed_entry list
     \<Rightarrow> entry4 list \<Rightarrow> nat \<Rightarrow> nat \<Rightarrow> ('fs, 'h, nfsstat4 + entry4 list) srv" where
  "readdir_loop F ctx args minorversion [] result dir_bytes total_bytes = srv_return (Inr result)"
| "readdir_loop F ctx args minorversion (listed # rest) result dir_bytes total_bytes =
     srv_try (readdir_entry F ctx args minorversion listed) (\<lambda>made.
     case made of
       None \<Rightarrow> readdir_loop F ctx args minorversion rest result dir_bytes total_bytes
     | Some entry \<Rightarrow>
         let dir_entry_size = readdir_dir_info_len entry; entry_total = readdir_entry_list_item_len entry;
             exceeds_dircount = dir_bytes + dir_entry_size > dircount_limit args;
             exceeds_maxcount = total_bytes + entry_total > unat (rd_maxcount args) in
         if result \<noteq> [] \<and> (exceeds_dircount \<or> exceeds_maxcount) then srv_return (Inr result)
         else if result = [] \<and> exceeds_maxcount then srv_return (Inl Stat_Toosmall)
         else readdir_loop F ctx args minorversion rest (result @ [entry])
                (dir_bytes + dir_entry_size) (total_bytes + entry_total))"

text \<open>The checks of the arguments, in the order of the code.\<close>

definition readdir_refusal :: "readdir_args4 \<Rightarrow> server_file_attr \<Rightarrow> nfsstat4 + unit" where
  "readdir_refusal args dir_attr =
     (if \<not> is_directory_type (sf_file_type dir_attr) then Inl Stat_Notdir
      else if rd_cookie args = 1 \<or> rd_cookie args = 2 then Inl Stat_BadCookie
      else if rd_maxcount args = 0 then Inl Stat_Toosmall
      else if bitmap4_is_set (rd_attr_request args) FATTR4_TIME_ACCESS_SET
        \<or> bitmap4_is_set (rd_attr_request args) FATTR4_TIME_MODIFY_SET then Inl Stat_Inval
      else if rd_cookie args \<noteq> 0 \<and> rd_cookieverf args \<noteq> be_u64 (sf_change_id dir_attr) then Inl Stat_NotSame
      else Inr ())"

definition op_readdir ::
  "('fs, 'h) file_system \<Rightarrow> request_context \<Rightarrow> readdir_args4 \<Rightarrow> nfs_fh4 option \<Rightarrow> u32 \<Rightarrow> ('fs, 'h, nfs_resop4) srv" where
  "op_readdir F ctx args current_fh minorversion =
     (let failed = (\<lambda>status. Res_Readdir status None);
          fs_failed = (\<lambda>e. failed (fs_error_to_nfsstat4 e)) in
      srv_else (resolve_object F current_fh) failed (\<lambda>(fh, object).
      srv_else (case object of
          Obj_NamedAttrDir parent \<Rightarrow> require_access F ctx parent ACCESS_XATTR_LIST
        | _ \<Rightarrow> srv_return (Inr ())) failed (\<lambda>_.
      srv_else (build_attr F ctx object) fs_failed (\<lambda>dir_attr.
      srv_else (srv_return (readdir_refusal args dir_attr)) failed (\<lambda>_.
      srv_else (list_entries F ctx args object) failed (\<lambda>(entries, backend_eof).
      if readdir_resok_len [] > unat (rd_maxcount args) then srv_return (failed Stat_Toosmall)
      else
        srv_else (readdir_loop F ctx args minorversion entries [] 0 (readdir_resok_len [])) failed (\<lambda>result.
        srv_return (Res_Readdir Stat_Ok (Some
          \<lparr>rdr_cookieverf = be_u64 (sf_change_id dir_attr), rdr_entries = result,
           rdr_eof = (backend_eof \<and> length result = length entries)\<rparr>)))))))))"

section \<open>REMOVE and RENAME\<close>

definition remove_entry ::
  "('fs, 'h) file_system \<Rightarrow> request_context \<Rightarrow> rust_string \<Rightarrow> server_object \<Rightarrow> ('fs, 'h, nfsstat4) srv" where
  "remove_entry F ctx name dir_object =
     (case dir_object of
        Obj_Fs dir_id \<Rightarrow> srv_else (remove_id F ctx dir_id name) fs_error_to_nfsstat4 (\<lambda>_. srv_return Stat_Ok)
      | Obj_NamedAttrDir parent \<Rightarrow>
          srv_else (srv_return (ok_or Stat_Notsupp (fs_xattrs F))) (\<lambda>status. status) (\<lambda>named.
          srv_else (resolve_backend_handle parent) fs_error_to_nfsstat4 (\<lambda>parent_handle.
          srv_else (fs_op (xi_remove_xattr named ctx parent_handle name)) fs_error_to_nfsstat4 (\<lambda>_.
          srv_bind (refresh_xattr_summary F ctx parent) (\<lambda>_.
          srv_bind (meta_op (\<lambda>sm now. (touch_metadata sm now now dir_object Sft_NamedAttrDir, ()))) (\<lambda>_.
          srv_bind (parent_change_after_xattr_mutation F ctx parent) (\<lambda>_.
          srv_return Stat_Ok))))))
      | Obj_NamedAttrFile _ _ \<Rightarrow> srv_return Stat_Notdir)"

definition op_remove ::
  "('fs, 'h) file_system \<Rightarrow> environment \<Rightarrow> request_context \<Rightarrow> rust_string \<Rightarrow> nfs_fh4 option \<Rightarrow> clientid4 option
     \<Rightarrow> ('fs, 'h, nfs_resop4) srv" where
  "op_remove F E ctx name current_fh origin_clientid =
     (let failed = (\<lambda>status. Res_Remove status None);
          fs_failed = (\<lambda>e. failed (fs_error_to_nfsstat4 e)) in
      srv_else (resolve_object F current_fh) failed (\<lambda>(fh, dir_object).
      srv_else (case dir_object of
          Obj_NamedAttrDir parent \<Rightarrow> require_access F ctx parent ACCESS_XATTR_WRITE
        | _ \<Rightarrow> srv_return (Inr ())) failed (\<lambda>_.
      srv_else (build_attr F ctx dir_object) fs_failed (\<lambda>dir_attr_before.
      srv_else (srv_return (validate_component_name F name)) failed (\<lambda>_.
      srv_else (srv_guard (is_directory_type (sf_file_type dir_attr_before))
          (recall_directory_delegations E dir_object origin_clientid)) failed (\<lambda>_.
      srv_bind (remove_entry F ctx name dir_object) (\<lambda>status.
      if status \<noteq> Stat_Ok then srv_return (failed status)
      else
        srv_bind (mutation_change_info F ctx dir_object (sf_change_id dir_attr_before)) (\<lambda>cinfo.
        srv_return (Res_Remove Stat_Ok (Some cinfo))))))))))"

definition op_rename ::
  "('fs, 'h) file_system \<Rightarrow> environment \<Rightarrow> request_context \<Rightarrow> rename_args4 \<Rightarrow> nfs_fh4 option \<Rightarrow> nfs_fh4 option
     \<Rightarrow> clientid4 option \<Rightarrow> ('fs, 'h, nfs_resop4) srv" where
  "op_rename F E ctx args current_fh saved_fh origin_clientid =
     (let failed = (\<lambda>status. Res_Rename status None None);
          fs_failed = (\<lambda>e. failed (fs_error_to_nfsstat4 e)) in
      srv_else (resolve_object F saved_fh) failed (\<lambda>(src_fh, src_object).
      srv_else (resolve_object F current_fh) failed (\<lambda>(tgt_fh, tgt_object).
      case (src_object, tgt_object) of
        (Obj_Fs src_dir_id, Obj_Fs tgt_dir_id) \<Rightarrow>
          srv_else (build_attr F ctx src_object) fs_failed (\<lambda>src_before.
          srv_else (build_attr F ctx tgt_object) fs_failed (\<lambda>tgt_before.
          srv_else (recall_directory_delegations E src_object origin_clientid) failed (\<lambda>_.
          srv_else (srv_guard (src_object \<noteq> tgt_object)
              (recall_directory_delegations E tgt_object origin_clientid)) failed (\<lambda>_.
          srv_else (rename_id F ctx src_dir_id (rn_oldname args) tgt_dir_id (rn_newname args)) fs_failed (\<lambda>_.
          srv_bind (mutation_change_info F ctx src_object (sf_change_id src_before)) (\<lambda>src_cinfo.
          srv_bind (mutation_change_info F ctx tgt_object (sf_change_id tgt_before)) (\<lambda>tgt_cinfo.
          srv_return (Res_Rename Stat_Ok (Some src_cinfo) (Some tgt_cinfo)))))))))
      | _ \<Rightarrow> srv_return (failed Stat_Notsupp))))"

end
