(* ===== verification/Ops_Lock.thy ===== *)
theory Ops_Lock
  imports Ops_File
begin

text \<open>
  The lock operations, \<^verbatim>\<open>crates/embednfs/src/server/ops/locking.rs\<close>, and the operations on extended
  attributes, \<^verbatim>\<open>ops/xattrs.rs\<close>. The update of an existing lock has an \<^verbatim>\<open>expect\<close> in its range
  arithmetic; \<open>op_lock\<close> is \<open>None\<close> where it would panic.
\<close>

section \<open>LOCK\<close>

definition lock_new_owner ::
  "lock_args4 \<Rightarrow> open_to_lock_owner4 \<Rightarrow> server_object \<Rightarrow> stateid4 option \<Rightarrow> clientid4
     \<Rightarrow> ('fs, 'h, nfs_resop4) srv" where
  "lock_new_owner args new_owner object current_stateid clientid =
     (let failed = (\<lambda>status. Res_Lock status None None) in
      srv_else (srv_return (concrete_stateid (ol_open_stateid new_owner) current_stateid Mode_ZeroSeqid)) failed
        (\<lambda>open_stateid.
      srv_else (state_op (\<lambda>sm now. resolve_stateid sm now (Some clientid) open_stateid None Mode_ZeroSeqid)) failed
        (\<lambda>resolved.
      if \<not> (case resolved of Resolved_Open open_state \<Rightarrow> ro_object open_state = object | _ \<Rightarrow> False)
      then srv_return (failed Stat_Openmode)
      else
        srv_bind (state_op (\<lambda>sm now. find_lock_conflict sm now object (ol_lock_owner new_owner)
          (la_locktype args) (la_offset args) (la_length args) None)) (\<lambda>conflict.
        case conflict of
          Some denied \<Rightarrow> srv_return (Res_Lock Stat_Denied None (Some denied))
        | None \<Rightarrow>
            srv_else (state_op (\<lambda>sm now. create_lock_state sm now open_stateid (ol_lock_owner new_owner) object
              (la_locktype args) (la_offset args) (la_length args))) failed (\<lambda>stateid.
            srv_return (Res_Lock Stat_Ok (Some stateid) None))))))"

definition update_lock :: "lock_args4 \<Rightarrow> stateid4 \<Rightarrow> ('fs, 'h, nfs_resop4 option) srv" where
  "update_lock args lock_stateid s =
     (case update_lock_state (ns_state s) (instant_of (ns_millis s)) lock_stateid
         (la_locktype args) (la_offset args) (la_length args) of
        None \<Rightarrow> (s, None)
      | Some (sm, Inl status) \<Rightarrow> (s\<lparr>ns_state := sm\<rparr>, Some (Res_Lock status None None))
      | Some (sm, Inr stateid) \<Rightarrow> (s\<lparr>ns_state := sm\<rparr>, Some (Res_Lock Stat_Ok (Some stateid) None)))"

definition lock_existing_owner ::
  "lock_args4 \<Rightarrow> exist_lock_owner4 \<Rightarrow> server_object \<Rightarrow> stateid4 option \<Rightarrow> clientid4
     \<Rightarrow> ('fs, 'h, nfs_resop4 option) srv" where
  "lock_existing_owner args existing object current_stateid clientid =
     (let failed = (\<lambda>status. Some (Res_Lock status None None)) in
      srv_else (srv_return (concrete_stateid (el_lock_stateid existing) current_stateid Mode_ZeroSeqid)) failed
        (\<lambda>lock_stateid.
      srv_else (state_op (\<lambda>sm now. resolve_stateid sm now (Some clientid) lock_stateid None Mode_ZeroSeqid)) failed
        (\<lambda>resolved.
      case resolved of
        Resolved_Lock lock_state \<Rightarrow>
          if rl_object lock_state \<noteq> object then srv_return (failed Stat_BadStateid)
          else
            srv_bind (state_op (\<lambda>sm now. find_lock_conflict sm now object (rl_owner lock_state)
              (la_locktype args) (la_offset args) (la_length args) (Some lock_stateid))) (\<lambda>conflict.
            case conflict of
              Some denied \<Rightarrow> srv_return (Some (Res_Lock Stat_Denied None (Some denied)))
            | None \<Rightarrow> update_lock args lock_stateid)
      | _ \<Rightarrow> srv_return (failed Stat_BadStateid))))"

definition op_lock ::
  "('fs, 'h) file_system \<Rightarrow> request_context \<Rightarrow> lock_args4 \<Rightarrow> nfs_fh4 option \<Rightarrow> stateid4 option \<Rightarrow> clientid4 option
     \<Rightarrow> ('fs, 'h, nfs_resop4 option) srv" where
  "op_lock F ctx args current_fh current_stateid sequence_clientid =
     (let failed = (\<lambda>status. Some (Res_Lock status None None)) in
      srv_else (resolve_object F current_fh) failed (\<lambda>(fh, object).
      srv_else (build_attr F ctx object) (\<lambda>e. failed (fs_error_to_nfsstat4 e)) (\<lambda>object_attr.
      if is_directory_type (sf_file_type object_attr) then srv_return (failed Stat_Isdir)
      else
        srv_else (srv_return (validate_lock_bounds (la_offset args) (la_length args))) failed (\<lambda>_.
        case sequence_clientid of
          None \<Rightarrow> srv_return (failed Stat_BadStateid)
        | Some clientid \<Rightarrow>
            (case la_locker args of
               Locker_NewLockOwner new_owner \<Rightarrow>
                 srv_map Some (lock_new_owner args new_owner object current_stateid clientid)
             | Locker_ExistingLockOwner existing \<Rightarrow>
                 lock_existing_owner args existing object current_stateid clientid)))))"

section \<open>LOCKT and LOCKU\<close>

definition op_lockt ::
  "('fs, 'h) file_system \<Rightarrow> request_context \<Rightarrow> lockt_args4 \<Rightarrow> nfs_fh4 option \<Rightarrow> ('fs, 'h, nfs_resop4) srv" where
  "op_lockt F ctx args current_fh =
     (let failed = (\<lambda>status. Res_Lockt status None) in
      srv_else (resolve_object F current_fh) failed (\<lambda>(fh, object).
      srv_else (build_attr F ctx object) (\<lambda>e. failed (fs_error_to_nfsstat4 e)) (\<lambda>object_attr.
      if is_directory_type (sf_file_type object_attr) then srv_return (failed Stat_Isdir)
      else
        srv_else (srv_return (validate_lock_bounds (lt_offset args) (lt_length args))) failed (\<lambda>_.
        srv_bind (state_op (\<lambda>sm now. find_lock_conflict sm now object (lt_owner args)
          (lt_locktype args) (lt_offset args) (lt_length args) None)) (\<lambda>conflict.
        srv_return (case conflict of
            Some denied \<Rightarrow> Res_Lockt Stat_Denied (Some denied)
          | None \<Rightarrow> Res_Lockt Stat_Ok None))))))"

definition op_locku ::
  "('fs, 'h) file_system \<Rightarrow> locku_args4 \<Rightarrow> nfs_fh4 option \<Rightarrow> stateid4 option \<Rightarrow> clientid4 option
     \<Rightarrow> ('fs, 'h, nfs_resop4) srv" where
  "op_locku F args current_fh current_stateid sequence_clientid =
     (let failed = (\<lambda>status. Res_Locku status None) in
      srv_else (resolve_object F current_fh) failed (\<lambda>(fh, object).
      case sequence_clientid of
        None \<Rightarrow> srv_return (failed Stat_BadStateid)
      | Some clientid \<Rightarrow>
          srv_else (srv_return (concrete_stateid (lu_lock_stateid args) current_stateid Mode_ZeroSeqid)) failed (\<lambda>stateid.
          srv_else (state_op (\<lambda>sm now. resolve_stateid sm now (Some clientid) stateid None Mode_ZeroSeqid)) failed
            (\<lambda>resolved.
          if \<not> (case resolved of Resolved_Lock lock_state \<Rightarrow> rl_object lock_state = object | _ \<Rightarrow> False)
          then srv_return (failed Stat_BadStateid)
          else
            srv_else (state_op (\<lambda>sm now. unlock_state sm now stateid (lu_offset args) (lu_length args))) failed
              (\<lambda>unlocked. srv_return (Res_Locku Stat_Ok (Some unlocked)))))))"

section \<open>Extended attributes\<close>

definition resolve_xattr_target ::
  "('fs, 'h) file_system \<Rightarrow> request_context \<Rightarrow> nfs_fh4 option \<Rightarrow> access_mask \<Rightarrow> ('fs, 'h, nfsstat4 + object_id) srv" where
  "resolve_xattr_target F ctx current_fh access =
     srv_try (resolve_object F current_fh) (\<lambda>(fh, object).
     case object of
       Obj_Fs i \<Rightarrow>
         if Option.is_none (fs_xattrs F) then srv_return (Inl Stat_Notsupp)
         else
           srv_else (access_for F ctx i access) (\<lambda>e. Inl (fs_error_to_nfsstat4 e)) (\<lambda>granted.
           srv_return (if access_contains granted access then Inr i else Inl Stat_Access))
     | _ \<Rightarrow> srv_return (Inl Stat_WrongType))"

definition xattr_error :: "fs_error \<Rightarrow> nfsstat4" where
  "xattr_error e = (case e of
       Fse_NotFound \<Rightarrow> Stat_NoXattr
     | Fse_FileTooLarge \<Rightarrow> Stat_Xattr2Big
     | other \<Rightarrow> fs_error_to_nfsstat4 other)"

text \<open>A method of the extended attributes on the object's backend handle.\<close>

definition xattr_call ::
  "('fs, 'h) file_system \<Rightarrow> object_id \<Rightarrow> (('fs, 'h) xattrs_impl \<Rightarrow> 'h \<Rightarrow> 'fs \<Rightarrow> 'fs \<times> 'a fs_result)
     \<Rightarrow> ('fs, 'h, 'a fs_result) srv" where
  "xattr_call F i method =
     srv_try (resolve_backend_handle i) (\<lambda>handle.
     srv_try (srv_return (named_attrs F)) (\<lambda>named. fs_op (method named handle)))"

definition op_getxattr ::
  "('fs, 'h) file_system \<Rightarrow> request_context \<Rightarrow> rust_string \<Rightarrow> nfs_fh4 option \<Rightarrow> ('fs, 'h, nfs_resop4) srv" where
  "op_getxattr F ctx name current_fh =
     (let failed = (\<lambda>status. Res_Getxattr status None) in
      srv_else (resolve_xattr_target F ctx current_fh ACCESS_XATTR_READ) failed (\<lambda>i.
      srv_else (srv_return (validate_component_name F name)) failed (\<lambda>_.
      srv_else (xattr_call F i (\<lambda>named handle. xi_get_xattr named ctx handle name))
        (\<lambda>e. failed (xattr_error e)) (\<lambda>value.
      srv_return (Res_Getxattr Stat_Ok (Some value))))))"

definition xattr_set_mode_of :: "setxattr_option4 \<Rightarrow> xattr_set_mode" where
  "xattr_set_mode_of opt = (case opt of
       Sx_Either \<Rightarrow> Xs_CreateOrReplace | Sx_Create \<Rightarrow> Xs_CreateOnly | Sx_Replace \<Rightarrow> Xs_ReplaceOnly)"

definition op_setxattr ::
  "('fs, 'h) file_system \<Rightarrow> request_context \<Rightarrow> setxattr_args4 \<Rightarrow> nfs_fh4 option \<Rightarrow> ('fs, 'h, nfs_resop4) srv" where
  "op_setxattr F ctx args current_fh =
     (let failed = (\<lambda>status. Res_Setxattr status None) in
      srv_else (resolve_xattr_target F ctx current_fh ACCESS_XATTR_WRITE) failed (\<lambda>i.
      srv_else (srv_return (validate_component_name F (sx_key args))) failed (\<lambda>_.
      srv_else (build_attr F ctx (Obj_Fs i)) (\<lambda>e. failed (fs_error_to_nfsstat4 e)) (\<lambda>attr.
      srv_else (xattr_call F i (\<lambda>named handle.
          xi_set_xattr named ctx handle (sx_key args) (sx_value args) (xattr_set_mode_of (sx_option args))))
        (\<lambda>e. failed (xattr_error e)) (\<lambda>_.
      srv_bind (mutation_change_info F ctx (Obj_Fs i) (sf_change_id attr)) (\<lambda>cinfo.
      srv_return (Res_Setxattr Stat_Ok (Some cinfo))))))))"

definition op_removexattr ::
  "('fs, 'h) file_system \<Rightarrow> request_context \<Rightarrow> rust_string \<Rightarrow> nfs_fh4 option \<Rightarrow> ('fs, 'h, nfs_resop4) srv" where
  "op_removexattr F ctx name current_fh =
     (let failed = (\<lambda>status. Res_Removexattr status None) in
      srv_else (resolve_xattr_target F ctx current_fh ACCESS_XATTR_WRITE) failed (\<lambda>i.
      srv_else (srv_return (validate_component_name F name)) failed (\<lambda>_.
      srv_else (build_attr F ctx (Obj_Fs i)) (\<lambda>e. failed (fs_error_to_nfsstat4 e)) (\<lambda>attr.
      srv_else (xattr_call F i (\<lambda>named handle. xi_remove_xattr named ctx handle name))
        (\<lambda>e. failed (xattr_error e)) (\<lambda>_.
      srv_bind (mutation_change_info F ctx (Obj_Fs i) (sf_change_id attr)) (\<lambda>cinfo.
      srv_return (Res_Removexattr Stat_Ok (Some cinfo))))))))"

text \<open>
  The page of names that fits: each name costs its length word, its bytes and its padding, after
  sixteen bytes for the cookie, the count and the end marker.
\<close>

function xattr_page_end :: "rust_string list \<Rightarrow> nat \<Rightarrow> nat \<Rightarrow> nat \<Rightarrow> nat" where
  "xattr_page_end names maxcount used end =
     (if end < length names \<and> used + xdr_opaque_len (length (names ! end)) \<le> maxcount
      then xattr_page_end names maxcount (used + xdr_opaque_len (length (names ! end))) (end + 1)
      else end)"
  by pat_completeness auto

termination
  by (relation "measure (\<lambda>(names, maxcount, used, end). length names - end)") auto

declare xattr_page_end.simps [simp del]

definition listxattrs_page :: "rust_string list \<Rightarrow> u64 \<Rightarrow> u32 \<Rightarrow> nfsstat4 + listxattrs_res_ok4" where
  "listxattrs_page names cookie maxcount =
     (let start = unat cookie in
      if start > length names then Inl Stat_Inval
      else
        let end = xattr_page_end names (unat maxcount) (8 + 4 + 4) start in
        if end = start \<and> start < length names then Inl Stat_Toosmall
        else Inr \<lparr>lxr_cookie = word_of_nat end, lxr_names = take (end - start) (drop start names),
               lxr_eof = (end = length names)\<rparr>)"

text \<open>\<^verbatim>\<open>String\<close>s are compared byte by byte.\<close>

fun bytes_le :: "bytes \<Rightarrow> bytes \<Rightarrow> bool" where
  "bytes_le [] ys = True"
| "bytes_le (x # xs) [] = False"
| "bytes_le (x # xs) (y # ys) = (x < y \<or> x = y \<and> bytes_le xs ys)"

primrec insert_name :: "rust_string \<Rightarrow> rust_string list \<Rightarrow> rust_string list" where
  "insert_name n [] = [n]"
| "insert_name n (m # ms) = (if bytes_le n m then n # m # ms else m # insert_name n ms)"

definition sort_names :: "rust_string list \<Rightarrow> rust_string list" where
  "sort_names names = foldr insert_name names []"

definition op_listxattrs ::
  "('fs, 'h) file_system \<Rightarrow> request_context \<Rightarrow> listxattrs_args4 \<Rightarrow> nfs_fh4 option \<Rightarrow> ('fs, 'h, nfs_resop4) srv" where
  "op_listxattrs F ctx args current_fh =
     (let failed = (\<lambda>status. Res_Listxattrs status None) in
      srv_else (resolve_xattr_target F ctx current_fh ACCESS_XATTR_LIST) failed (\<lambda>i.
      srv_else (xattr_call F i (\<lambda>named handle. xi_list_xattrs named ctx handle))
        (\<lambda>e. failed (xattr_error e)) (\<lambda>names.
      srv_else (srv_return (listxattrs_page (sort_names names) (lx_cookie args) (lx_maxcount args))) failed (\<lambda>res.
      srv_return (Res_Listxattrs Stat_Ok (Some res))))))"

end
