(* ===== verification/Compound.thy ===== *)
theory Compound
  imports Ops_Attrs Ops_Directory Ops_Lock Sequence
begin

text \<open>
  The COMPOUND procedure, \<^verbatim>\<open>crates/embednfs/src/server/compound.rs\<close>: the dispatch of one operation, the
  rules about the first operation, the current and saved file handles and stateids, and the loop that
  stops at the first failure. The names of operations are only logged and not modelled. \<open>None\<close> in
  place of a result is the panic of LOCK.
\<close>

section \<open>Results\<close>

primrec res_status :: "nfs_resop4 \<Rightarrow> nfsstat4" where
  "res_status (Res_Access s x y) = s"
| "res_status (Res_Close s x) = s"
| "res_status (Res_Commit s x) = s"
| "res_status (Res_Create s x y) = s"
| "res_status (Res_Getattr s x) = s"
| "res_status (Res_Getfh s x) = s"
| "res_status (Res_Link s x) = s"
| "res_status (Res_Lookup s) = s"
| "res_status (Res_Lookupp s) = s"
| "res_status (Res_Open s x) = s"
| "res_status (Res_Putfh s) = s"
| "res_status (Res_Putpubfh s) = s"
| "res_status (Res_Putrootfh s) = s"
| "res_status (Res_Read s x) = s"
| "res_status (Res_Readdir s x) = s"
| "res_status (Res_Readlink s x) = s"
| "res_status (Res_Remove s x) = s"
| "res_status (Res_Rename s x y) = s"
| "res_status (Res_Restorefh s) = s"
| "res_status (Res_Savefh s) = s"
| "res_status (Res_Secinfo s x) = s"
| "res_status (Res_Setattr s x) = s"
| "res_status (Res_Write s x) = s"
| "res_status (Res_ExchangeId s x) = s"
| "res_status (Res_CreateSession s x) = s"
| "res_status (Res_DestroySession s) = s"
| "res_status (Res_Sequence s x) = s"
| "res_status (Res_ReclaimComplete s) = s"
| "res_status (Res_DestroyClientid s) = s"
| "res_status (Res_BindConnToSession s x) = s"
| "res_status (Res_SecInfoNoName s x) = s"
| "res_status (Res_FreeStateid s) = s"
| "res_status (Res_TestStateid s x) = s"
| "res_status (Res_DelegReturn s) = s"
| "res_status (Res_OpenConfirm s x) = s"
| "res_status (Res_Renew s) = s"
| "res_status (Res_SetClientId s x) = s"
| "res_status (Res_SetClientIdConfirm s) = s"
| "res_status (Res_ReleaseLockowner s) = s"
| "res_status (Res_Lock s x y) = s"
| "res_status (Res_Lockt s x) = s"
| "res_status (Res_Locku s x) = s"
| "res_status (Res_OpenAttr s) = s"
| "res_status (Res_DelegPurge s) = s"
| "res_status (Res_Verify s) = s"
| "res_status (Res_Nverify s) = s"
| "res_status (Res_OpenDowngrade s x) = s"
| "res_status (Res_LayoutGet s x) = s"
| "res_status (Res_LayoutReturn s x) = s"
| "res_status (Res_LayoutCommit s x) = s"
| "res_status (Res_GetDirDelegation s x) = s"
| "res_status (Res_WantDelegation s x) = s"
| "res_status (Res_BackchannelCtl s) = s"
| "res_status (Res_GetDeviceInfo s x) = s"
| "res_status (Res_GetDeviceList s x) = s"
| "res_status (Res_SetSsv s x) = s"
| "res_status (Res_Getxattr s x) = s"
| "res_status (Res_Setxattr s x) = s"
| "res_status (Res_Listxattrs s x) = s"
| "res_status (Res_Removexattr s x) = s"
| "res_status (Res_Unsupported x s) = s"
| "res_status (Res_Illegal s) = s"

primrec error_res_for_op :: "nfs_argop4 \<Rightarrow> nfsstat4 \<Rightarrow> nfs_resop4" where
  "error_res_for_op (Arg_Access a) status = Res_Access status 0 0"
| "error_res_for_op (Arg_Close a) status = Res_Close status stateid4_default"
| "error_res_for_op (Arg_Commit a) status = Res_Commit status zero_verifier"
| "error_res_for_op (Arg_Create a) status = Res_Create status None []"
| "error_res_for_op (Arg_Getattr a) status = Res_Getattr status None"
| "error_res_for_op Arg_Getfh status = Res_Getfh status None"
| "error_res_for_op (Arg_Link a) status = Res_Link status None"
| "error_res_for_op (Arg_Lookup a) status = Res_Lookup status"
| "error_res_for_op Arg_Lookupp status = Res_Lookupp status"
| "error_res_for_op (Arg_Open a) status = Res_Open status None"
| "error_res_for_op (Arg_Putfh a) status = Res_Putfh status"
| "error_res_for_op Arg_Putpubfh status = Res_Putpubfh status"
| "error_res_for_op Arg_Putrootfh status = Res_Putrootfh status"
| "error_res_for_op (Arg_Read a) status = Res_Read status None"
| "error_res_for_op (Arg_Readdir a) status = Res_Readdir status None"
| "error_res_for_op Arg_Readlink status = Res_Readlink status None"
| "error_res_for_op (Arg_Remove a) status = Res_Remove status None"
| "error_res_for_op (Arg_Rename a) status = Res_Rename status None None"
| "error_res_for_op Arg_Restorefh status = Res_Restorefh status"
| "error_res_for_op Arg_Savefh status = Res_Savefh status"
| "error_res_for_op (Arg_Secinfo a) status = Res_Secinfo status []"
| "error_res_for_op (Arg_Setattr a) status = Res_Setattr status []"
| "error_res_for_op (Arg_Write a) status = Res_Write status None"
| "error_res_for_op (Arg_ExchangeId a) status = Res_ExchangeId status None"
| "error_res_for_op (Arg_CreateSession a) status = Res_CreateSession status None"
| "error_res_for_op (Arg_DestroySession a) status = Res_DestroySession status"
| "error_res_for_op (Arg_Sequence a) status = Res_Sequence status None"
| "error_res_for_op (Arg_ReclaimComplete a) status = Res_ReclaimComplete status"
| "error_res_for_op (Arg_DestroyClientid a) status = Res_DestroyClientid status"
| "error_res_for_op (Arg_BindConnToSession a) status = Res_BindConnToSession status None"
| "error_res_for_op (Arg_SecInfoNoName a) status = Res_SecInfoNoName status []"
| "error_res_for_op (Arg_FreeStateid a) status = Res_FreeStateid status"
| "error_res_for_op (Arg_TestStateid a) status = Res_TestStateid status []"
| "error_res_for_op (Arg_DelegReturn a) status = Res_DelegReturn status"
| "error_res_for_op (Arg_OpenConfirm a) status = Res_OpenConfirm status None"
| "error_res_for_op (Arg_Renew a) status = Res_Renew status"
| "error_res_for_op (Arg_SetClientId a) status = Res_SetClientId status None"
| "error_res_for_op (Arg_SetClientIdConfirm a) status = Res_SetClientIdConfirm status"
| "error_res_for_op (Arg_ReleaseLockowner a) status = Res_ReleaseLockowner status"
| "error_res_for_op (Arg_Lock a) status = Res_Lock status None None"
| "error_res_for_op (Arg_Lockt a) status = Res_Lockt status None"
| "error_res_for_op (Arg_Locku a) status = Res_Locku status None"
| "error_res_for_op (Arg_OpenAttr a) status = Res_OpenAttr status"
| "error_res_for_op Arg_DelegPurge status = Res_DelegPurge status"
| "error_res_for_op (Arg_Verify a) status = Res_Verify status"
| "error_res_for_op (Arg_Nverify a) status = Res_Nverify status"
| "error_res_for_op (Arg_OpenDowngrade a) status = Res_OpenDowngrade status None"
| "error_res_for_op Arg_LayoutGet status = Res_LayoutGet status None"
| "error_res_for_op Arg_LayoutReturn status = Res_LayoutReturn status None"
| "error_res_for_op Arg_LayoutCommit status = Res_LayoutCommit status None"
| "error_res_for_op Arg_GetDirDelegation status = Res_GetDirDelegation status None"
| "error_res_for_op Arg_WantDelegation status = Res_WantDelegation status None"
| "error_res_for_op Arg_BackchannelCtl status = Res_BackchannelCtl status"
| "error_res_for_op Arg_GetDeviceInfo status = Res_GetDeviceInfo status None"
| "error_res_for_op Arg_GetDeviceList status = Res_GetDeviceList status None"
| "error_res_for_op Arg_SetSsv status = Res_SetSsv status None"
| "error_res_for_op (Arg_Getxattr a) status = Res_Getxattr status None"
| "error_res_for_op (Arg_Setxattr a) status = Res_Setxattr status None"
| "error_res_for_op (Arg_Listxattrs a) status = Res_Listxattrs status None"
| "error_res_for_op (Arg_Removexattr a) status = Res_Removexattr status None"
| "error_res_for_op (Arg_Unsupported opnum) status = Res_Unsupported opnum status"
| "error_res_for_op Arg_Illegal status = Res_Illegal status"

section \<open>The state of a COMPOUND\<close>

record compound_execution_state =
  cx_current_fh :: "nfs_fh4 option"
  cx_current_stateid :: "stateid4 option"
  cx_saved_fh :: "nfs_fh4 option"
  cx_saved_stateid :: "stateid4 option"
  cx_minorversion :: u32

definition compound_start :: "u32 \<Rightarrow> compound_execution_state" where
  "compound_start minorversion = \<lparr>cx_current_fh = None, cx_current_stateid = None, cx_saved_fh = None,
     cx_saved_stateid = None, cx_minorversion = minorversion\<rparr>"

definition returned_stateid :: "nfs_resop4 \<Rightarrow> stateid4 option" where
  "returned_stateid res =
     (if res_status res \<noteq> Stat_Ok then None
      else (case res of
          Res_Open _ (Some opened) \<Rightarrow> Some (or_stateid opened)
        | Res_Close _ stateid \<Rightarrow> Some stateid
        | Res_Lock _ (Some stateid) _ \<Rightarrow> Some stateid
        | Res_Locku _ (Some stateid) \<Rightarrow> Some stateid
        | Res_OpenDowngrade _ (Some stateid) \<Rightarrow> Some stateid
        | Res_GetDirDelegation _ (Some (Gdd_Ok ok)) \<Rightarrow> Some (gd_stateid ok)
        | _ \<Rightarrow> None))"

text \<open>The operations that make a new current file handle reset the current stateid.\<close>

definition sets_current_fh :: "nfs_argop4 \<Rightarrow> bool" where
  "sets_current_fh op = (case op of
       Arg_Putfh _ \<Rightarrow> True | Arg_Putpubfh \<Rightarrow> True | Arg_Putrootfh \<Rightarrow> True | Arg_Lookup _ \<Rightarrow> True
     | Arg_Lookupp \<Rightarrow> True | Arg_Create _ \<Rightarrow> True | Arg_OpenAttr _ \<Rightarrow> True | Arg_SecInfoNoName _ \<Rightarrow> True
     | _ \<Rightarrow> False)"

definition apply_compound_state_transition ::
  "nfs_argop4 \<Rightarrow> nfs_resop4 \<Rightarrow> compound_execution_state \<Rightarrow> compound_execution_state" where
  "apply_compound_state_transition op res st =
     (if res_status res \<noteq> Stat_Ok then st
      else
        let st = (case returned_stateid res of
            Some stateid \<Rightarrow> st\<lparr>cx_current_stateid := Some stateid\<rparr>
          | None \<Rightarrow> st) in
        if sets_current_fh op
        then st\<lparr>cx_current_stateid := map_option (\<lambda>_. STATEID_ANONYMOUS) (cx_current_fh st)\<rparr>
        else (case op of
            Arg_Savefh \<Rightarrow> st\<lparr>cx_saved_fh := cx_current_fh st, cx_saved_stateid := cx_current_stateid st\<rparr>
          | Arg_Restorefh \<Rightarrow> st\<lparr>cx_current_stateid := cx_saved_stateid st\<rparr>
          | _ \<Rightarrow> st))"

section \<open>One operation\<close>

text \<open>A handler that leaves the file handles alone, and one that replaces the current one.\<close>

definition same_fh ::
  "compound_execution_state \<Rightarrow> ('fs, 'h, nfs_resop4) srv \<Rightarrow> ('fs, 'h, compound_execution_state \<times> nfs_resop4 option) srv" where
  "same_fh st m = srv_map (\<lambda>res. (st, Some res)) m"

definition with_fh ::
  "compound_execution_state \<Rightarrow> ('fs, 'h, nfs_fh4 option \<times> nfs_resop4) srv
     \<Rightarrow> ('fs, 'h, compound_execution_state \<times> nfs_resop4 option) srv" where
  "with_fh st m = srv_map (\<lambda>(fh, res). (st\<lparr>cx_current_fh := fh\<rparr>, Some res)) m"

definition put_root ::
  "('fs, 'h) file_system \<Rightarrow> compound_execution_state \<Rightarrow> (nfsstat4 \<Rightarrow> nfs_resop4) \<Rightarrow> ('fs, 'h, nfs_fh4 option \<times> nfs_resop4) srv" where
  "put_root F st res =
     srv_else (root_object F) (\<lambda>e. (cx_current_fh st, res (fs_error_to_nfsstat4 e)))
       (set_current (cx_current_fh st) res)"

definition delegation_state_ops_enabled :: "delegation_config \<Rightarrow> u32 \<Rightarrow> bool" where
  "delegation_state_ops_enabled config minorversion \<longleftrightarrow> minorversion \<noteq> 0 \<and> dc_directory_delegations config"

text \<open>The answer of a state manager call whose errors carry nothing else.\<close>

definition state_result ::
  "(nfsstat4 \<Rightarrow> 'a option \<Rightarrow> nfs_resop4) \<Rightarrow> (state_manager \<Rightarrow> instant \<Rightarrow> state_manager \<times> (nfsstat4 + 'a))
     \<Rightarrow> ('fs, 'h, nfs_resop4) srv" where
  "state_result res f =
     srv_else (state_op f) (\<lambda>status. res status None) (\<lambda>x. srv_return (res Stat_Ok (Some x)))"

definition op_free_stateid ::
  "stateid4 \<Rightarrow> stateid4 option \<Rightarrow> ('fs, 'h, nfs_resop4) srv" where
  "op_free_stateid arg current_stateid =
     srv_else (srv_return (concrete_stateid arg current_stateid Mode_ZeroSeqid)) Res_FreeStateid (\<lambda>stateid.
     state_result (\<lambda>status _. Res_FreeStateid status) (\<lambda>sm now. free_stateid sm now stateid))"

definition op_deleg_return ::
  "stateid4 \<Rightarrow> stateid4 option \<Rightarrow> u32 \<Rightarrow> clientid4 option \<Rightarrow> ('fs, 'h, nfs_resop4) srv" where
  "op_deleg_return arg current_stateid minorversion sequence_clientid =
     srv_bind (srv_get ns_delegation_config) (\<lambda>config.
     if \<not> delegation_state_ops_enabled config minorversion then srv_return (Res_DelegReturn Stat_Ok)
     else
       srv_else (srv_return (concrete_stateid arg current_stateid Mode_ZeroSeqid)) Res_DelegReturn (\<lambda>stateid.
       state_result (\<lambda>status _. Res_DelegReturn status)
         (\<lambda>sm now. return_delegation_state sm now stateid sequence_clientid)))"

definition op_deleg_purge :: "u32 \<Rightarrow> clientid4 option \<Rightarrow> ('fs, 'h, nfs_resop4) srv" where
  "op_deleg_purge minorversion sequence_clientid =
     srv_bind (srv_get ns_delegation_config) (\<lambda>config.
     srv_bind (case (delegation_state_ops_enabled config minorversion, sequence_clientid) of
         (True, Some clientid) \<Rightarrow> state_op (\<lambda>sm now. (purge_client_delegations sm now clientid, ()))
       | _ \<Rightarrow> srv_return ()) (\<lambda>_.
     srv_return (Res_DelegPurge Stat_Ok)))"

definition op_open_after_reclaim ::
  "('fs, 'h) file_system \<Rightarrow> environment \<Rightarrow> request_context \<Rightarrow> open_args4 \<Rightarrow> nfs_fh4 option \<Rightarrow> u32 \<Rightarrow> clientid4 option
     \<Rightarrow> ('fs, 'h, nfs_fh4 option \<times> nfs_resop4) srv" where
  "op_open_after_reclaim F E ctx args current_fh minorversion sequence_clientid =
     srv_else (case sequence_clientid of
         Some clientid \<Rightarrow> state_op (\<lambda>sm now. validate_open_reclaim sm now clientid (oa_claim args))
       | None \<Rightarrow> srv_return (Inr ())) (\<lambda>status. (current_fh, Res_Open status None)) (\<lambda>_.
     op_open F E ctx args current_fh minorversion sequence_clientid)"

text \<open>An operation of minor version 0 only.\<close>

definition only_v40 ::
  "compound_execution_state \<Rightarrow> nfs_resop4 \<Rightarrow> ('fs, 'h, nfs_resop4) srv
     \<Rightarrow> ('fs, 'h, compound_execution_state \<times> nfs_resop4 option) srv" where
  "only_v40 st refused m = same_fh st (if cx_minorversion st \<noteq> 0 then srv_return refused else m)"

primrec handle_op ::
  "('fs, 'h) file_system \<Rightarrow> environment \<Rightarrow> request_context \<Rightarrow> u64 \<Rightarrow> clientid4 option \<Rightarrow> sessionid4 option
     \<Rightarrow> nfs_argop4 \<Rightarrow> compound_execution_state \<Rightarrow> ('fs, 'h, compound_execution_state \<times> nfs_resop4 option) srv" where
  "handle_op F E ctx conn cid sess (Arg_Access access) st =
     same_fh st (op_access F ctx access (cx_current_fh st))"
| "handle_op F E ctx conn cid sess (Arg_Close args) st =
     same_fh st (op_close F ctx args (cx_current_fh st) (cx_current_stateid st) cid)"
| "handle_op F E ctx conn cid sess (Arg_Commit args) st =
     same_fh st (op_commit F ctx args (cx_current_fh st))"
| "handle_op F E ctx conn cid sess (Arg_Create args) st =
     with_fh st (op_create F E ctx args (cx_current_fh st) cid)"
| "handle_op F E ctx conn cid sess (Arg_Getattr attr_request) st =
     same_fh st (op_getattr F ctx attr_request (cx_current_fh st) (cx_minorversion st))"
| "handle_op F E ctx conn cid sess Arg_Getfh st =
     same_fh st (srv_return (op_getfh (cx_current_fh st)))"
| "handle_op F E ctx conn cid sess (Arg_Link newname) st =
     same_fh st (op_link F E ctx newname (cx_current_fh st) (cx_saved_fh st) cid)"
| "handle_op F E ctx conn cid sess (Arg_Lookup objname) st =
     with_fh st (op_lookup F ctx objname (cx_current_fh st))"
| "handle_op F E ctx conn cid sess Arg_Lookupp st =
     with_fh st (op_lookupp F ctx (cx_current_fh st))"
| "handle_op F E ctx conn cid sess (Arg_Open args) st =
     with_fh st (op_open_after_reclaim F E ctx args (cx_current_fh st) (cx_minorversion st) cid)"
| "handle_op F E ctx conn cid sess (Arg_Putfh fh) st =
     (if \<not> fh_has_valid_format fh then srv_return (st, Some (Res_Putfh Stat_Badhandle))
      else srv_return (st\<lparr>cx_current_fh := Some fh\<rparr>, Some (Res_Putfh Stat_Ok)))"
| "handle_op F E ctx conn cid sess Arg_Putpubfh st =
     with_fh st (put_root F st Res_Putpubfh)"
| "handle_op F E ctx conn cid sess Arg_Putrootfh st =
     with_fh st (put_root F st Res_Putrootfh)"
| "handle_op F E ctx conn cid sess (Arg_Read args) st =
     same_fh st (op_read F ctx args (cx_current_fh st) (cx_current_stateid st) cid)"
| "handle_op F E ctx conn cid sess (Arg_Readdir args) st =
     same_fh st (op_readdir F ctx args (cx_current_fh st) (cx_minorversion st))"
| "handle_op F E ctx conn cid sess Arg_Readlink st =
     same_fh st (op_readlink F ctx (cx_current_fh st))"
| "handle_op F E ctx conn cid sess (Arg_Remove name) st =
     same_fh st (op_remove F E ctx name (cx_current_fh st) cid)"
| "handle_op F E ctx conn cid sess (Arg_Rename args) st =
     same_fh st (op_rename F E ctx args (cx_current_fh st) (cx_saved_fh st) cid)"
| "handle_op F E ctx conn cid sess Arg_Restorefh st =
     (case cx_saved_fh st of
        Some fh \<Rightarrow> srv_return (st\<lparr>cx_current_fh := Some fh\<rparr>, Some (Res_Restorefh Stat_Ok))
      | None \<Rightarrow> srv_return (st, Some (Res_Restorefh Stat_Nofilehandle)))"
| "handle_op F E ctx conn cid sess Arg_Savefh st =
     (case cx_current_fh st of
        Some fh \<Rightarrow> srv_return (st\<lparr>cx_saved_fh := Some fh\<rparr>, Some (Res_Savefh Stat_Ok))
      | None \<Rightarrow> srv_return (st, Some (Res_Savefh Stat_Nofilehandle)))"
| "handle_op F E ctx conn cid sess (Arg_Secinfo name) st =
     same_fh st (srv_get (\<lambda>s. Res_Secinfo Stat_Ok (secinfo_flavors (ns_auth_policy s))))"
| "handle_op F E ctx conn cid sess (Arg_Setattr args) st =
     same_fh st (op_setattr F E ctx args (cx_current_fh st) (cx_current_stateid st) cid)"
| "handle_op F E ctx conn cid sess (Arg_Write args) st =
     same_fh st (op_write F ctx args (cx_current_fh st) (cx_current_stateid st) cid)"
| "handle_op F E ctx conn cid sess (Arg_ExchangeId args) st =
     same_fh st (state_result Res_ExchangeId (\<lambda>sm now. exchange_id sm now args))"
| "handle_op F E ctx conn cid sess (Arg_CreateSession args) st =
     same_fh st (state_result Res_CreateSession (\<lambda>sm now. create_session sm now args conn))"
| "handle_op F E ctx conn cid sess (Arg_DestroySession sid) st =
     same_fh st (state_result (\<lambda>status _. Res_DestroySession status) (\<lambda>sm now. destroy_session sm now sid conn))"
| "handle_op F E ctx conn cid sess (Arg_Sequence args) st =
     same_fh st (srv_return (Res_Sequence Stat_Serverfault None))"
| "handle_op F E ctx conn cid sess (Arg_ReclaimComplete one_fs) st =
     same_fh st (op_reclaim_complete F one_fs (cx_current_fh st) cid)"
| "handle_op F E ctx conn cid sess (Arg_DestroyClientid clientid) st =
     same_fh st (state_result (\<lambda>status _. Res_DestroyClientid status) (\<lambda>sm now. destroy_clientid sm now clientid))"
| "handle_op F E ctx conn cid sess (Arg_BindConnToSession args) st =
     same_fh st (state_result Res_BindConnToSession (\<lambda>sm now. bind_conn_to_session sm now args conn))"
| "handle_op F E ctx conn cid sess (Arg_SecInfoNoName style) st =
     with_fh st (op_secinfo_no_name F ctx style (cx_current_fh st))"
| "handle_op F E ctx conn cid sess (Arg_FreeStateid stateid) st =
     same_fh st (op_free_stateid stateid (cx_current_stateid st))"
| "handle_op F E ctx conn cid sess (Arg_TestStateid stateids) st =
     same_fh st (srv_map (Res_TestStateid Stat_Ok) (state_op (\<lambda>sm now. test_stateids sm now stateids)))"
| "handle_op F E ctx conn cid sess (Arg_DelegReturn stateid) st =
     same_fh st (op_deleg_return stateid (cx_current_stateid st) (cx_minorversion st) cid)"
| "handle_op F E ctx conn cid sess (Arg_OpenConfirm args) st =
     only_v40 st (Res_OpenConfirm Stat_Notsupp None)
       (state_result Res_OpenConfirm (\<lambda>sm now. confirm_open_state sm now (oc_open_stateid args)))"
| "handle_op F E ctx conn cid sess (Arg_Renew clientid) st =
     only_v40 st (Res_Renew Stat_Notsupp)
       (state_result (\<lambda>status _. Res_Renew status) (\<lambda>sm now. renew sm now clientid))"
| "handle_op F E ctx conn cid sess (Arg_SetClientId args) st =
     only_v40 st (Res_SetClientId Stat_Notsupp None)
       (srv_map (\<lambda>res. Res_SetClientId Stat_Ok (Some res)) (state_op (\<lambda>sm now. set_client_id sm now args)))"
| "handle_op F E ctx conn cid sess (Arg_SetClientIdConfirm args) st =
     only_v40 st (Res_SetClientIdConfirm Stat_Notsupp)
       (state_result (\<lambda>status _. Res_SetClientIdConfirm status) (\<lambda>sm now. set_client_id_confirm sm now args))"
| "handle_op F E ctx conn cid sess (Arg_ReleaseLockowner owner) st =
     only_v40 st (Res_ReleaseLockowner Stat_Notsupp) (srv_return (Res_ReleaseLockowner Stat_Ok))"
| "handle_op F E ctx conn cid sess (Arg_Lock args) st =
     srv_map (Pair st) (op_lock F ctx args (cx_current_fh st) (cx_current_stateid st) cid)"
| "handle_op F E ctx conn cid sess (Arg_Lockt args) st =
     same_fh st (op_lockt F ctx args (cx_current_fh st))"
| "handle_op F E ctx conn cid sess (Arg_Locku args) st =
     same_fh st (op_locku F args (cx_current_fh st) (cx_current_stateid st) cid)"
| "handle_op F E ctx conn cid sess (Arg_OpenAttr createdir) st =
     with_fh st (op_openattr F (cx_current_fh st))"
| "handle_op F E ctx conn cid sess Arg_DelegPurge st =
     same_fh st (op_deleg_purge (cx_minorversion st) cid)"
| "handle_op F E ctx conn cid sess (Arg_Verify vattr) st =
     same_fh st (op_verify F ctx vattr (cx_current_fh st) False (cx_minorversion st))"
| "handle_op F E ctx conn cid sess (Arg_Nverify vattr) st =
     same_fh st (op_verify F ctx vattr (cx_current_fh st) True (cx_minorversion st))"
| "handle_op F E ctx conn cid sess (Arg_OpenDowngrade args) st =
     same_fh st (op_open_downgrade args (cx_current_stateid st) cid)"
| "handle_op F E ctx conn cid sess Arg_LayoutGet st =
     same_fh st (srv_return (Res_LayoutGet Stat_Notsupp None))"
| "handle_op F E ctx conn cid sess Arg_LayoutReturn st =
     same_fh st (srv_return (Res_LayoutReturn Stat_Notsupp None))"
| "handle_op F E ctx conn cid sess Arg_LayoutCommit st =
     same_fh st (srv_return (Res_LayoutCommit Stat_Notsupp None))"
| "handle_op F E ctx conn cid sess Arg_GetDirDelegation st =
     same_fh st (op_get_dir_delegation F ctx (cx_current_fh st) (cx_minorversion st) cid sess)"
| "handle_op F E ctx conn cid sess Arg_WantDelegation st =
     same_fh st (srv_return (Res_WantDelegation Stat_Notsupp None))"
| "handle_op F E ctx conn cid sess Arg_BackchannelCtl st =
     same_fh st (srv_return (Res_BackchannelCtl Stat_Notsupp))"
| "handle_op F E ctx conn cid sess Arg_GetDeviceInfo st =
     same_fh st (srv_return (Res_GetDeviceInfo Stat_Notsupp None))"
| "handle_op F E ctx conn cid sess Arg_GetDeviceList st =
     same_fh st (srv_return (Res_GetDeviceList Stat_Notsupp None))"
| "handle_op F E ctx conn cid sess Arg_SetSsv st =
     same_fh st (srv_return (Res_SetSsv Stat_Notsupp None))"
| "handle_op F E ctx conn cid sess (Arg_Getxattr name) st =
     same_fh st (op_getxattr F ctx name (cx_current_fh st))"
| "handle_op F E ctx conn cid sess (Arg_Setxattr args) st =
     same_fh st (op_setxattr F ctx args (cx_current_fh st))"
| "handle_op F E ctx conn cid sess (Arg_Listxattrs args) st =
     same_fh st (op_listxattrs F ctx args (cx_current_fh st))"
| "handle_op F E ctx conn cid sess (Arg_Removexattr name) st =
     same_fh st (op_removexattr F ctx name (cx_current_fh st))"
| "handle_op F E ctx conn cid sess (Arg_Unsupported opnum) st =
     same_fh st (srv_return (Res_Unsupported opnum Stat_Notsupp))"
| "handle_op F E ctx conn cid sess Arg_Illegal st =
     same_fh st (srv_return (Res_Illegal Stat_OpIllegal))"

section \<open>The procedure\<close>

definition sequence_error_compound :: "rust_string \<Rightarrow> nfsstat4 \<Rightarrow> compound4_res" where
  "sequence_error_compound tag status =
     \<lparr>cq_status = status, cq_tag = tag, cq_resarray = [Res_Sequence status None]\<rparr>"

definition sequence_only_compound :: "rust_string \<Rightarrow> sequence_res4 \<Rightarrow> compound4_res" where
  "sequence_only_compound tag res =
     \<lparr>cq_status = Stat_Ok, cq_tag = tag, cq_resarray = [Res_Sequence Stat_Ok (Some res)]\<rparr>"

definition allows_compound_without_sequence :: "nfs_argop4 \<Rightarrow> bool" where
  "allows_compound_without_sequence op = (case op of
       Arg_ExchangeId _ \<Rightarrow> True | Arg_CreateSession _ \<Rightarrow> True | Arg_DestroySession _ \<Rightarrow> True
     | Arg_DestroyClientid _ \<Rightarrow> True | Arg_BindConnToSession _ \<Rightarrow> True | _ \<Rightarrow> False)"

definition is_sequence :: "nfs_argop4 \<Rightarrow> bool" where
  "is_sequence op = (case op of Arg_Sequence _ \<Rightarrow> True | _ \<Rightarrow> False)"

definition leading_sessionid :: "nfs_argop4 list \<Rightarrow> sessionid4 option" where
  "leading_sessionid ops = (case ops of Arg_Sequence args # _ \<Rightarrow> Some (sa_sessionid args) | _ \<Rightarrow> None)"

text \<open>The refusals of an operation for its place in the COMPOUND.\<close>

definition misplaced ::
  "sessionid4 option \<Rightarrow> clientid4 option \<Rightarrow> bool \<Rightarrow> nfs_argop4 \<Rightarrow> nfs_resop4 option" where
  "misplaced sess cid is_last op = (case op of
       Arg_Sequence _ \<Rightarrow> Some (Res_Sequence Stat_SequencePos None)
     | Arg_BindConnToSession _ \<Rightarrow> Some (Res_BindConnToSession Stat_NotOnlyOp None)
     | Arg_DestroySession sid \<Rightarrow>
         if sess = Some sid \<and> \<not> is_last then Some (Res_DestroySession Stat_NotOnlyOp) else None
     | Arg_DestroyClientid clientid \<Rightarrow>
         if cid = Some clientid then Some (Res_DestroyClientid Stat_ClientidBusy) else None
     | _ \<Rightarrow> None)"

text \<open>
  The loop. \<open>first\<close> is the answer already prepared for a leading SEQUENCE; the rules about the place
  of an operation hold from the second operation on.
\<close>

fun run_ops ::
  "('fs, 'h) file_system \<Rightarrow> environment \<Rightarrow> request_context \<Rightarrow> u64 \<Rightarrow> clientid4 option \<Rightarrow> sessionid4 option
     \<Rightarrow> bool \<Rightarrow> nfs_resop4 option \<Rightarrow> nfs_argop4 list \<Rightarrow> compound_execution_state
     \<Rightarrow> ('fs, 'h, (nfsstat4 \<times> nfs_resop4 list) option) srv" where
  "run_ops F E ctx conn cid sess at_start first [] st = srv_return (Some (Stat_Ok, []))"
| "run_ops F E ctx conn cid sess at_start first (op # ops) st =
     (case (if at_start then None else misplaced sess cid (ops = []) op) of
        Some res \<Rightarrow> srv_return (Some (res_status res, [res]))
      | None \<Rightarrow>
          srv_bind (case (is_sequence op, first) of
              (True, Some res) \<Rightarrow> srv_return (st, Some res)
            | _ \<Rightarrow> handle_op F E ctx conn cid sess op st) (\<lambda>(st, answer).
          case answer of
            None \<Rightarrow> srv_return None
          | Some res \<Rightarrow>
              if res_status res \<noteq> Stat_Ok then srv_return (Some (res_status res, [res]))
              else
                srv_bind (run_ops F E ctx conn cid sess False None ops (apply_compound_state_transition op res st))
                  (\<lambda>rest. srv_return (map_option (\<lambda>(status, results). (status, res # results)) rest))))"

text \<open>The first operation of minor versions with sessions.\<close>

definition first_op_refusal :: "compound4_args \<Rightarrow> nfs_resop4 option" where
  "first_op_refusal args = (case cp_argarray args of
       [] \<Rightarrow> None
     | op # ops \<Rightarrow>
         if cp_minorversion args = 0 \<or> is_sequence op then None
         else if allows_compound_without_sequence op then
           (if ops \<noteq> [] then Some (error_res_for_op op Stat_NotOnlyOp) else None)
         else Some (error_res_for_op op (case op of Arg_Illegal \<Rightarrow> Stat_OpIllegal | _ \<Rightarrow> Stat_OpNotInSession)))"

definition handle_compound ::
  "('fs, 'h) file_system \<Rightarrow> environment \<Rightarrow> compound4_args \<Rightarrow> nfs_resop4 option \<Rightarrow> request_context \<Rightarrow> u64
     \<Rightarrow> ('fs, 'h, compound4_res option) srv" where
  "handle_compound F E args prepared ctx conn =
     (let result = (\<lambda>(status, resarray). \<lparr>cq_status = status, cq_tag = cp_tag args, cq_resarray = resarray\<rparr>) in
      if 2 < cp_minorversion args then srv_return (Some (result (Stat_MinorVersMismatch, [])))
      else
        let ops = cp_argarray args; sess = leading_sessionid ops in
        srv_bind (srv_get (\<lambda>s. Option.bind sess (session_clientid (ns_state s)))) (\<lambda>cid.
        case first_op_refusal args of
          Some res \<Rightarrow> srv_return (Some (result (res_status res, [res])))
        | None \<Rightarrow>
            srv_map (map_option result)
              (run_ops F E ctx conn cid sess True prepared ops (compound_start (cp_minorversion args)))))"

end
