(* ===== verification/Transport.thy ===== *)
theory Transport
  imports Compound
begin

text \<open>
  The transport, \<^verbatim>\<open>crates/embednfs/src/server/transport.rs\<close>: record marking in both directions and the
  processing of one RPC message, with the reply cache of SEQUENCE around the COMPOUND. A connection's
  input is the list of bytes that arrive before its end. The source answers every record in a task of
  its own; here records are answered in the order they arrive.
\<close>

definition RPC_LAST_FRAGMENT :: u32 where "RPC_LAST_FRAGMENT = 0x80000000"
definition RPC_FRAG_LEN_MASK :: u32 where "RPC_FRAG_LEN_MASK = 0x7FFFFFFF"
definition MAX_FRAGMENT_SIZE :: nat where "MAX_FRAGMENT_SIZE = 2 * 1024 * 1024"

section \<open>Record marking\<close>

text \<open>A fragment on the wire; \<open>None\<close> is the \<^verbatim>\<open>expect\<close> on its length.\<close>

definition write_fragment :: "bool \<Rightarrow> bytes \<Rightarrow> bytes option" where
  "write_fragment last_fragment fragment =
     (if length fragment < 2 ^ 32 \<and> (word_of_nat (length fragment) :: u32) \<le> RPC_FRAG_LEN_MASK
      then Some (be_u32 (if last_fragment then word_of_nat (length fragment) OR RPC_LAST_FRAGMENT
                         else word_of_nat (length fragment)) @ fragment)
      else None)"

function write_record :: "bytes \<Rightarrow> bytes option" where
  "write_record response =
     (if response = [] then Some []
      else
        let frag_len = min (length response) MAX_FRAGMENT_SIZE in
        (case write_fragment (frag_len = length response) (take frag_len response) of
           None \<Rightarrow> None
         | Some bytes \<Rightarrow> map_option (\<lambda>rest. bytes @ rest) (write_record (drop frag_len response))))"
  by pat_completeness auto

termination
  by (relation "measure length") (auto simp: MAX_FRAGMENT_SIZE_def)

declare write_record.simps [simp del]

text \<open>
  The reader collects fragments until the last one. The result is the record with the rest of the
  input, or \<open>None\<close> when the connection ends: at the end of the input, at a fragment or a record that is
  too long, in the middle of a fragment, or at an empty record. The end of the input in the middle of
  a record passes on what has arrived.
\<close>

function read_record :: "bytes \<Rightarrow> bytes \<Rightarrow> (bytes \<times> bytes) option" where
  "read_record collected src =
     (if length src < 4 then (if collected = [] then None else Some (collected, []))
      else
        let header_val = u32_of_be (take 4 src);
            last_fragment = (header_val AND RPC_LAST_FRAGMENT \<noteq> 0);
            frag_len = unat (header_val AND RPC_FRAG_LEN_MASK);
            body = drop 4 src in
        if frag_len > MAX_FRAGMENT_SIZE then None
        else if length collected + frag_len > MAX_FRAGMENT_SIZE then None
        else if length body < frag_len then None
        else
          let collected = collected @ take frag_len body; rest = drop frag_len body in
          if last_fragment then (if collected = [] then None else Some (collected, rest))
          else read_record collected rest)"
  by pat_completeness auto

termination
  by (relation "measure (\<lambda>(collected, src). length src)") auto

declare read_record.simps [simp del]

lemma read_record_rest: "read_record collected src = Some (record, rest) \<Longrightarrow> length rest \<le> length src - 4"
  by (induction collected src rule: read_record.induct)
    (subst (asm) (2) read_record.simps, force simp: Let_def split: if_splits)

lemma read_record_shorter:
  assumes "read_record [] src = Some (record, rest)"
  shows "length rest < length src"
proof -
  have "\<not> length src < 4" using assms by (auto simp: read_record.simps [of "[]"])
  then show ?thesis using read_record_rest [OF assms] by linarith
qed

function read_records :: "bytes \<Rightarrow> bytes list" where
  "read_records src = (case read_record [] src of None \<Rightarrow> [] | Some (record, rest) \<Rightarrow> record # read_records rest)"
  by pat_completeness auto

termination
  by (relation "measure length") (auto dest: read_record_shorter)

declare read_records.simps [simp del]

section \<open>One RPC message\<close>

definition replay_cache_body :: "bytes \<Rightarrow> nat \<Rightarrow> bytes" where
  "replay_cache_body response body_start = drop body_start response"

definition rpc_message_type :: "bytes \<Rightarrow> msg_type option" where
  "rpc_message_type record = (case dec_bind decode_u32 (\<lambda>xid. decode_msg_type) record of
       Inl _ \<Rightarrow> None
     | Inr (t, rest) \<Rightarrow> Some t)"

text \<open>What the slot of a leading SEQUENCE says about the request.\<close>

datatype sequence_verdict =
    Verdict_Run "nfs_resop4 option" "sequence_cache_token option"
  | Verdict_Answer bytes

definition prepare_leading_sequence ::
  "opaque_auth \<Rightarrow> bytes \<Rightarrow> compound4_args \<Rightarrow> u64 \<Rightarrow> ('fs, 'h, sequence_verdict) srv" where
  "prepare_leading_sequence cred payload args conn =
     (case (cp_minorversion args = 1 \<or> cp_minorversion args = 2, cp_argarray args) of
        (True, Arg_Sequence seq_args # _) \<Rightarrow>
          srv_bind (state_op (\<lambda>sm now. prepare_sequence sm now seq_args (replay_fingerprint cred payload) conn)) (\<lambda>r.
          srv_return (case r of
              Seq_Execute res token \<Rightarrow> Verdict_Run (Some (Res_Sequence Stat_Ok (Some res))) (Some token)
            | Seq_Replay cached \<Rightarrow> Verdict_Answer cached
            | Seq_StatusOnly res \<Rightarrow> Verdict_Answer (encode_compound4_res (sequence_only_compound (cp_tag args) res))
            | Seq_Error status \<Rightarrow> Verdict_Answer (encode_compound4_res (sequence_error_compound (cp_tag args) status))))
      | _ \<Rightarrow> srv_return (Verdict_Run None None))"

definition bad_xdr_compound :: compound4_res where
  "bad_xdr_compound = \<lparr>cq_status = Stat_BadXdr, cq_tag = [], cq_resarray = []\<rparr>"

text \<open>The COMPOUND and the entry of its reply in the cache. The result is the whole reply.\<close>

definition run_compound ::
  "('fs, 'h) file_system \<Rightarrow> environment \<Rightarrow> rpc_call_header \<Rightarrow> compound4_args \<Rightarrow> nfs_resop4 option
     \<Rightarrow> sequence_cache_token option \<Rightarrow> u64 \<Rightarrow> ('fs, 'h, bytes option) srv" where
  "run_compound F E call args prepared replay_token conn =
     srv_bind (handle_compound F E args prepared (request_context (rc_cred call)) conn) (\<lambda>result.
     case result of
       None \<Rightarrow> srv_return None
     | Some res \<Rightarrow>
         let head = encode_rpc_reply_accepted (rc_xid call);
             response = head @ encode_compound4_res res in
         (case replay_token of
            None \<Rightarrow> srv_return (Some response)
          | Some token \<Rightarrow>
              srv_bind (state_op (\<lambda>sm now. finish_sequence sm token (replay_cache_body response (length head)))) (\<lambda>_.
              srv_return (Some response))))"

definition process_compound ::
  "('fs, 'h) file_system \<Rightarrow> environment \<Rightarrow> rpc_call_header \<Rightarrow> bytes \<Rightarrow> u64 \<Rightarrow> ('fs, 'h, bytes option) srv" where
  "process_compound F E call payload conn =
     (case decode_compound4_args payload of
        Inl _ \<Rightarrow> srv_return (Some (encode_rpc_reply_accepted (rc_xid call) @ encode_compound4_res bad_xdr_compound))
      | Inr (args, rest) \<Rightarrow>
          srv_bind (prepare_leading_sequence (rc_cred call) payload args conn) (\<lambda>verdict.
          case verdict of
            Verdict_Answer body \<Rightarrow> srv_return (Some (encode_rpc_reply_accepted (rc_xid call) @ body))
          | Verdict_Run prepared replay_token \<Rightarrow> run_compound F E call args prepared replay_token conn))"

definition process_rpc_message ::
  "('fs, 'h) file_system \<Rightarrow> environment \<Rightarrow> bytes \<Rightarrow> u64 \<Rightarrow> ('fs, 'h, bytes option) srv" where
  "process_rpc_message F E data conn =
     (case decode_rpc_call_header data of
        Inl _ \<Rightarrow> srv_return None
      | Inr (call, src) \<Rightarrow>
          if rc_rpcvers call \<noteq> RPC_VERSION
          then srv_return (Some (encode_rpc_reply_prog_mismatch (rc_xid call) RPC_VERSION RPC_VERSION))
          else if rc_prog call \<noteq> NFS_PROGRAM
          then srv_return (Some (encode_rpc_reply_prog_mismatch (rc_xid call) NFS_PROGRAM NFS_PROGRAM))
          else if rc_vers call \<noteq> NFS_V4
          then srv_return (Some (encode_rpc_reply_prog_mismatch (rc_xid call) NFS_V4 NFS_V4))
          else if rc_proc_num call = 0 then srv_return (Some (encode_rpc_reply_accepted (rc_xid call)))
          else
            srv_bind (srv_get (\<lambda>s. validate_rpc_auth (ns_auth_policy s) call)) (\<lambda>auth.
            case auth of
              Inl refused \<Rightarrow> srv_return (Some (encode_rpc_reply_auth_error (rc_xid call) refused))
            | Inr _ \<Rightarrow>
                if rc_proc_num call = 1 then process_compound F E call src conn
                else srv_return (Some (encode_rpc_reply_proc_unavail (rc_xid call)))))"

section \<open>A connection\<close>

text \<open>Each record is a reply to a callback or a call; the answers in the order they are given.\<close>

definition handle_record ::
  "('fs, 'h) file_system \<Rightarrow> environment \<Rightarrow> u64 \<Rightarrow> bytes \<Rightarrow> ('fs, 'h, bytes option) srv" where
  "handle_record F E conn record =
     (if rpc_message_type record = Some Msg_Reply
      then srv_map (\<lambda>_. None) (backchannel_op (handle_reply conn record))
      else process_rpc_message F E record conn)"

primrec handle_records ::
  "('fs, 'h) file_system \<Rightarrow> environment \<Rightarrow> u64 \<Rightarrow> bytes list \<Rightarrow> ('fs, 'h, bytes list) srv" where
  "handle_records F E conn [] = srv_return []"
| "handle_records F E conn (record # records) =
     srv_bind (handle_record F E conn record) (\<lambda>answer.
     srv_bind (handle_records F E conn records) (\<lambda>answers.
     srv_return (case answer of None \<Rightarrow> answers | Some response \<Rightarrow> response # answers)))"

definition handle_connection ::
  "('fs, 'h) file_system \<Rightarrow> environment \<Rightarrow> bytes \<Rightarrow> ('fs, 'h, bytes list) srv" where
  "handle_connection F E input =
     srv_bind (state_op (\<lambda>sm now. alloc_connection_id sm)) (\<lambda>conn.
     srv_bind (backchannel_op (\<lambda>bm. (register_connection conn bm, ()))) (\<lambda>_.
     srv_bind (handle_records F E conn (read_records input)) (\<lambda>answers.
     srv_bind (backchannel_op (\<lambda>bm. (unregister_connection conn bm, ()))) (\<lambda>_.
     srv_bind (state_op (\<lambda>sm now. (remove_connection sm conn, ()))) (\<lambda>_.
     srv_return answers)))))"

end
