(* ===== verification/Spec2Isabelle.thy ===== *)
theory Spec2Isabelle
  imports Rpc Session_Types Clients Delegations Locks Stateids Sequence Metadata Fs_Types State_Properties
    Memfs_Properties Wire_Properties Transport
begin

text \<open>
  A verification library for embednfs, an embeddable NFSv4.0/4.1 server. The protocol crate
  (\<open>src/crates/embednfs-proto\<close>) holds the wire format, the server crate (\<open>src/crates/embednfs\<close>) the state
  manager, the operations, the transport and an in-memory file system.
\<close>

end
